(* ===== verification/Prelude.thy ===== *)
theory Prelude
  imports Main "HOL-Library.Word" "HOL-Library.Char_ord" "HOL-Library.Code_Target_Nat"
begin

unbundle bit_operations_syntax

section \<open>Prelude: bytes, machine integers and the C character classes\<close>

text \<open>
  The shared vocabulary of the development. A C \<open>char *\<close> with its length is a
  \<^typ>\<open>string\<close>, that is a list of bytes (\<^typ>\<open>char\<close> has exactly 256 values);
  \<open>uint32_t\<close> is a \<open>32 word\<close>, \<open>int64_t\<close> and \<open>size_t\<close> arithmetic that can wrap is
  a \<open>64 word\<close>; a \<open>size_t\<close> that only indexes an object in memory is a \<^typ>\<open>nat\<close>.
  The character classes are those of \<open>ctype.h\<close> in the C locale, the one the program
  runs in (it never calls \<open>setlocale\<close>).
\<close>

type_synonym u8 = "8 word"
type_synonym u32 = "32 word"
type_synonym u64 = "64 word"
type_synonym i64 = "64 word"

abbreviation NUL :: char where
  "NUL \<equiv> CHR 0x00"

named_theorems byte_arith \<open>bytes and bit operations as arithmetic on natural numbers\<close>

subsection \<open>Bytes\<close>

definition byte :: "char \<Rightarrow> nat" where
  "byte c = of_char c"

definition ubyte :: "char \<Rightarrow> u32" where
  "ubyte c = of_char c"

lemma byte_less_256 [simp]: "byte c < 256"
  unfolding byte_def by (cases c) simp

lemma byte_inject [simp]: "byte c = byte d \<longleftrightarrow> c = d"
  by (simp add: byte_def of_char_eq_iff)

lemma byte_char_of [simp]: "n < 256 \<Longrightarrow> byte (char_of n) = n"
  by (simp add: byte_def)

lemma char_of_byte [simp]: "char_of (byte c) = c"
  by (simp add: byte_def)

lemma ubyte_word_of_nat: "ubyte c = word_of_nat (byte c)"
  unfolding ubyte_def byte_def by (cases c) simp

lemma unat_word_of_nat_u32: "n < 4294967296 \<Longrightarrow> unat (word_of_nat n :: u32) = n"
  by (simp add: unat_of_nat take_bit_nat_eq_self_iff)

lemma unat_ubyte [byte_arith]: "unat (ubyte c) = byte c"
proof -
  have "byte c < 4294967296" using byte_less_256 [of c] by (rule order.strict_trans) simp
  then show ?thesis by (simp only: ubyte_word_of_nat unat_word_of_nat_u32)
qed

text \<open>A conversion to \<open>char\<close> keeps the low eight bits.\<close>

definition to_char :: "u32 \<Rightarrow> char" where
  "to_char w = char_of (unat w)"

lemma byte_to_char [byte_arith]: "byte (to_char w) = unat w mod 256"
  by (simp add: byte_def to_char_def)

subsection \<open>The C character classes\<close>

definition isdigit :: "char \<Rightarrow> bool" where
  "isdigit c \<longleftrightarrow> 48 \<le> byte c \<and> byte c \<le> 57"

definition isupper :: "char \<Rightarrow> bool" where
  "isupper c \<longleftrightarrow> 65 \<le> byte c \<and> byte c \<le> 90"

definition islower :: "char \<Rightarrow> bool" where
  "islower c \<longleftrightarrow> 97 \<le> byte c \<and> byte c \<le> 122"

definition isalpha :: "char \<Rightarrow> bool" where
  "isalpha c \<longleftrightarrow> isupper c \<or> islower c"

definition isalnum :: "char \<Rightarrow> bool" where
  "isalnum c \<longleftrightarrow> isalpha c \<or> isdigit c"

definition isxdigit :: "char \<Rightarrow> bool" where
  "isxdigit c \<longleftrightarrow> isdigit c \<or> 65 \<le> byte c \<and> byte c \<le> 70 \<or> 97 \<le> byte c \<and> byte c \<le> 102"

definition isspace :: "char \<Rightarrow> bool" where
  "isspace c \<longleftrightarrow> byte c = 32 \<or> 9 \<le> byte c \<and> byte c \<le> 13"

lemmas ctype_defs = isdigit_def isupper_def islower_def isalpha_def isalnum_def
  isxdigit_def isspace_def

lemma byte_NUL [simp]: "byte NUL = 0"
  by (simp add: byte_def)

lemma ctype_NUL [simp]:
  "\<not> isdigit NUL" "\<not> isupper NUL" "\<not> isalpha NUL" "\<not> isalnum NUL" "\<not> isxdigit NUL"
  "\<not> isspace NUL"
  by (simp_all add: ctype_defs)

subsection \<open>Bit operations as arithmetic\<close>

lemma unat_and_mask [byte_arith]:
  fixes w :: u32
  shows "unat (w AND 0x3F) = unat w mod 64" "unat (w AND 0x1F) = unat w mod 32"
    "unat (w AND 0x0F) = unat w mod 16" "unat (w AND 0x07) = unat w mod 8"
proof -
  have m: "(0x3F :: u32) = mask 6" "(0x1F :: u32) = mask 5" "(0x0F :: u32) = mask 4"
    "(0x07 :: u32) = mask 3" by (simp_all add: mask_eq_exp_minus_1)
  show "unat (w AND 0x3F) = unat w mod 64" "unat (w AND 0x1F) = unat w mod 32"
    "unat (w AND 0x0F) = unat w mod 16" "unat (w AND 0x07) = unat w mod 8"
    unfolding m take_bit_eq_mask [symmetric] by (simp_all add: take_bit_eq_mod unat_mod)
qed

lemma unat_push_or:
  fixes a b :: u32
  assumes "unat b < 2 ^ n" "unat a * 2 ^ n + unat b < 4294967296"
  shows "unat (push_bit n a OR b) = unat a * 2 ^ n + unat b"
proof -
  have b: "take_bit n b = b" using assms(1)
    by (metis take_bit_nat_eq_self unsigned_take_bit_eq unsigned_word_eqI)
  have "push_bit n a OR take_bit n b = push_bit n a + take_bit n b"
    by (rule disjunctive_add_eq_or [symmetric]) (auto simp: bit_eq_iff bit_simps)
  then have "push_bit n a OR b = a * 2 ^ n + b" by (simp add: b push_bit_eq_mult)
  moreover have "a * 2 ^ n + b = word_of_nat (unat a * 2 ^ n + unat b)" by simp
  ultimately show ?thesis using assms(2) by (simp only: unat_word_of_nat_u32)
qed

lemma unat_drop_bit [byte_arith]: "unat (drop_bit n w :: u32) = unat w div 2 ^ n"
proof -
  have "take_bit 32 (unat w) = unat w"
    using unsigned_less [of w] by (intro take_bit_nat_eq_self) simp
  then show ?thesis by (subst unsigned_drop_bit_eq) (simp add: drop_bit_eq_div)
qed

text \<open>The tag of a byte, or-ed onto a value that fits below it, is an addition.\<close>

lemma unat_tag_or [byte_arith]:
  fixes w :: u32
  shows "unat w < 64 \<Longrightarrow> unat (0x80 OR w) = 128 + unat w"
    "unat w < 32 \<Longrightarrow> unat (0xC0 OR w) = 192 + unat w"
    "unat w < 16 \<Longrightarrow> unat (0xE0 OR w) = 224 + unat w"
    "unat w < 8 \<Longrightarrow> unat (0xF0 OR w) = 240 + unat w"
  using unat_push_or [of w 6 2] unat_push_or [of w 5 6] unat_push_or [of w 4 14]
    unat_push_or [of w 3 30]
  by (simp_all add: push_bit_eq_mult)

lemma unat_shift6 [byte_arith]:
  "unat cp < 67108864 \<Longrightarrow>
     unat (push_bit 6 cp OR (ubyte c AND 0x3F)) = unat cp * 64 + byte c mod 64"
  using unat_push_or [of "ubyte c AND 0x3F" 6 cp] by (simp add: unat_and_mask unat_ubyte)

lemmas word_nat_simps = word_le_nat_alt word_less_nat_alt word_unat_eq_iff

end
