(* ===== verification/Utf8.thy ===== *)
theory Utf8
  imports Prelude
begin

section \<open>UTF-8 (src/utf8.c)\<close>

text \<open>
  The decoder, the encoder and the scanners of \<open>utf8.c\<close>. A pointer \<open>s + i\<close> with the
  remaining length \<open>len - i\<close> is the list \<^term>\<open>drop i s\<close>; a function that returns 0 or 1
  and writes through out-parameters returns an \<^typ>\<open>'a option\<close> of what it writes.
\<close>

subsection \<open>Decoding and encoding one character\<close>

definition utf8_lead :: "u32 \<Rightarrow> (u32 \<times> nat) option" where
  "utf8_lead c0 =
     (if c0 < 0x80 then Some (c0, 1)
      else if 0xC2 \<le> c0 \<and> c0 \<le> 0xDF then Some (c0 AND 0x1F, 2)
      else if 0xE0 \<le> c0 \<and> c0 \<le> 0xEF then Some (c0 AND 0x0F, 3)
      else if 0xF0 \<le> c0 \<and> c0 \<le> 0xF4 then Some (c0 AND 0x07, 4)
      else None)"

fun utf8_cont :: "string \<Rightarrow> u32 \<Rightarrow> u32 option" where
  "utf8_cont [] cp = Some cp"
| "utf8_cont (cx # s) cp =
     (if ubyte cx AND 0xC0 \<noteq> 0x80 then None
      else utf8_cont s (push_bit 6 cp OR (ubyte cx AND 0x3F)))"

definition utf8_rejects :: "u32 \<Rightarrow> u32 \<Rightarrow> nat \<Rightarrow> u32 \<Rightarrow> bool" where
  "utf8_rejects c0 s1 need cp \<longleftrightarrow>
     (need = 2 \<and> cp < 0x80) \<or> (need = 3 \<and> cp < 0x800) \<or> (need = 4 \<and> cp < 0x10000) \<or>
     0x10FFFF < cp \<or>
     (0xD800 \<le> cp \<and> cp \<le> 0xDFFF) \<or>
     (need = 3 \<and> c0 = 0xE0 \<and> s1 < 0xA0) \<or>
     (need = 3 \<and> c0 = 0xED \<and> 0xA0 \<le> s1) \<or>
     (need = 4 \<and> c0 = 0xF0 \<and> s1 < 0x90) \<or>
     (need = 4 \<and> c0 = 0xF4 \<and> 0x90 \<le> s1)"

definition utf8_decode_one :: "string \<Rightarrow> (u32 \<times> nat) option" where
  "utf8_decode_one s =
     (case s of [] \<Rightarrow> None
      | c # rest \<Rightarrow>
          (case utf8_lead (ubyte c) of None \<Rightarrow> None
           | Some (cp0, need) \<Rightarrow>
               if length s < need then None
               else (case utf8_cont (take (need - 1) rest) cp0 of None \<Rightarrow> None
                     | Some cp \<Rightarrow>
                         if utf8_rejects (ubyte c) (if 1 < need then ubyte (s ! 1) else 0) need cp
                         then None else Some (cp, need))))"

definition utf8_encode_one :: "u32 \<Rightarrow> string" where
  "utf8_encode_one cp =
     (if cp \<le> 0x7F then [to_char cp]
      else if cp \<le> 0x7FF then
        [to_char (0xC0 OR drop_bit 6 cp), to_char (0x80 OR (cp AND 0x3F))]
      else if cp \<le> 0xFFFF then
        [to_char (0xE0 OR drop_bit 12 cp), to_char (0x80 OR (drop_bit 6 cp AND 0x3F)),
         to_char (0x80 OR (cp AND 0x3F))]
      else
        [to_char (0xF0 OR drop_bit 18 cp), to_char (0x80 OR (drop_bit 12 cp AND 0x3F)),
         to_char (0x80 OR (drop_bit 6 cp AND 0x3F)), to_char (0x80 OR (cp AND 0x3F))])"

subsection \<open>The decoder as arithmetic on bytes\<close>

definition utf8_is_cont :: "char \<Rightarrow> bool" where
  "utf8_is_cont c \<longleftrightarrow> 128 \<le> byte c \<and> byte c < 192"

lemma mod_window: "q * m \<le> n \<Longrightarrow> n < q * m + m \<Longrightarrow> n mod m = n - q * (m::nat)"
  by (rule mod_nat_eqI) auto

lemma unat_and_192: "unat ((w :: u32) AND 0xC0) = (unat w div 64 mod 4) * 64"
proof -
  have "(0xC0 :: u32) = push_bit 6 (mask 2)" by (simp add: mask_eq_exp_minus_1 push_bit_eq_mult)
  then have "w AND 0xC0 = push_bit 6 (take_bit 2 (drop_bit 6 w))"
    by (auto simp: bit_eq_iff bit_simps)
  then have "w AND 0xC0 = push_bit 6 (take_bit 2 (drop_bit 6 w)) OR 0" by simp
  then show ?thesis
    by (simp only: unat_push_or) (subst unat_push_or, simp_all add: unsigned_take_bit_eq take_bit_eq_mod unat_mod unat_drop_bit)
qed

lemma cont_mask: "ubyte c AND 0xC0 = 0x80 \<longleftrightarrow> utf8_is_cont c"
proof -
  have "byte c < 256" by simp
  then show ?thesis
    unfolding word_unat_eq_iff unat_and_192 unat_ubyte utf8_is_cont_def
    by (auto simp: less_mult_imp_div_less div_nat_eqI)
qed

lemma cont_mod: "utf8_is_cont c \<Longrightarrow> byte c mod 64 = byte c - 128"
  unfolding utf8_is_cont_def by (rule mod_window [of 2 64, simplified]) simp_all

definition utf8_push :: "u32 \<Rightarrow> char \<Rightarrow> u32" where
  "utf8_push cp c = push_bit 6 cp OR (ubyte c AND 0x3F)"

lemma unat_utf8_push:
  "utf8_is_cont c \<Longrightarrow> unat cp < 67108864 \<Longrightarrow> unat (utf8_push cp c) = unat cp * 64 + (byte c - 128)"
  by (simp add: utf8_push_def unat_shift6 cont_mod)

lemma utf8_cont_Cons [simp]:
  "utf8_cont (c # s) cp = (if utf8_is_cont c then utf8_cont s (utf8_push cp c) else None)"
  by (simp add: cont_mask utf8_push_def)

lemmas utf8_cont_code [simp del] = utf8_cont.simps(2)

lemma ubyte_order:
  "(k :: u32) \<le> ubyte c \<longleftrightarrow> unat k \<le> byte c" "ubyte c \<le> (k :: u32) \<longleftrightarrow> byte c \<le> unat k"
  "(k :: u32) < ubyte c \<longleftrightarrow> unat k < byte c" "ubyte c < (k :: u32) \<longleftrightarrow> byte c < unat k"
  "ubyte c = (k :: u32) \<longleftrightarrow> byte c = unat k"
  by (simp_all add: word_le_nat_alt word_less_nat_alt word_unat_eq_iff unat_ubyte)

lemma utf8_lead_byte:
  "utf8_lead (ubyte c) =
     (if byte c < 128 then Some (ubyte c, 1)
      else if 194 \<le> byte c \<and> byte c \<le> 223 then Some (ubyte c AND 0x1F, 2)
      else if 224 \<le> byte c \<and> byte c \<le> 239 then Some (ubyte c AND 0x0F, 3)
      else if 240 \<le> byte c \<and> byte c \<le> 244 then Some (ubyte c AND 0x07, 4)
      else None)"
  by (simp only: utf8_lead_def ubyte_order unat_numeral) simp

lemma unat_lead:
  "194 \<le> byte c \<Longrightarrow> byte c \<le> 223 \<Longrightarrow> unat (ubyte c AND 0x1F) = byte c - 192"
  "224 \<le> byte c \<Longrightarrow> byte c \<le> 239 \<Longrightarrow> unat (ubyte c AND 0x0F) = byte c - 224"
  "240 \<le> byte c \<Longrightarrow> byte c \<le> 244 \<Longrightarrow> unat (ubyte c AND 0x07) = byte c - 240"
  unfolding unat_and_mask unat_ubyte
  by (rule mod_window [of 6 32, simplified] mod_window [of 14 16, simplified]
      mod_window [of 30 8, simplified]; simp)+

text \<open>The two directions meet in the value and the bytes of each width.\<close>

lemma utf8_encode_nat:
  assumes "unat cp \<le> 0x10FFFF"
  shows "map byte (utf8_encode_one cp) =
     (if unat cp < 0x80 then [unat cp]
      else if unat cp < 0x800 then [192 + unat cp div 64, 128 + unat cp mod 64]
      else if unat cp < 0x10000 then
        [224 + unat cp div 4096, 128 + unat cp div 64 mod 64, 128 + unat cp mod 64]
      else
        [240 + unat cp div 262144, 128 + unat cp div 4096 mod 64,
         128 + unat cp div 64 mod 64, 128 + unat cp mod 64])"
proof -
  have "unat cp < 128 \<Longrightarrow> unat cp mod 256 = unat cp"
    "unat cp < 2048 \<Longrightarrow> unat cp div 64 < 32"
    "unat cp < 65536 \<Longrightarrow> unat cp div 4096 < 16"
    "unat cp div 262144 < 8" using assms by auto
  then show ?thesis
    by (auto simp add: utf8_encode_one_def word_le_nat_alt byte_to_char unat_tag_or unat_drop_bit
        unat_and_mask)
qed

lemma utf8_digits:
  fixes q z :: nat
  assumes "z < 64"
  shows "(q * 64 + z) div 64 = q" "(q * 64 + z) mod 64 = z"
    "(q * 64 + z) div 4096 = q div 64" "(q * 64 + z) div 262144 = q div 4096"
proof -
  show 1: "(q * 64 + z) div 64 = q" and "(q * 64 + z) mod 64 = z" using assms by simp_all
  have "(q * 64 + z) div (64 * 64) = q div 64" "(q * 64 + z) div (64 * 4096) = q div 4096"
    unfolding div_mult2_eq 1 by (rule refl)+
  then show "(q * 64 + z) div 4096 = q div 64" "(q * 64 + z) div 262144 = q div 4096" by simp_all
qed

lemma is_cont_diff: "utf8_is_cont c \<Longrightarrow> byte c - 128 < 64"
  "utf8_is_cont c \<Longrightarrow> 128 + (byte c - 128) = byte c"
  by (auto simp: utf8_is_cont_def)

definition utf8_scalar :: "u32 \<Rightarrow> bool" where
  "utf8_scalar cp \<longleftrightarrow> unat cp \<le> 0x10FFFF \<and> \<not> (0xD800 \<le> unat cp \<and> unat cp \<le> 0xDFFF)"

lemma map_byte_eq: "map byte xs = map byte ys \<longleftrightarrow> xs = ys"
  by (rule inj_map_eq_map) (simp add: inj_def)

lemma unat_utf8_push_bound:
  "utf8_is_cont c \<Longrightarrow> unat cp < 64 ^ k \<Longrightarrow> k < 5 \<Longrightarrow> unat (utf8_push cp c) < 64 ^ Suc k"
proof -
  assume c: "utf8_is_cont c" and cp: "unat cp < 64 ^ k" and k: "k < 5"
  have "(64::nat) ^ k \<le> 64 ^ 4" using k by (intro power_increasing) auto
  with cp have "unat cp < 67108864" by simp
  with c cp show ?thesis
    by (simp add: unat_utf8_push) (use is_cont_diff(1) [OF c] in linarith)
qed

lemma unat_utf8_push2:
  assumes "utf8_is_cont b" "utf8_is_cont c" "unat cp < 64"
  shows "unat (utf8_push (utf8_push cp b) c) = (unat cp * 64 + (byte b - 128)) * 64 + (byte c - 128)"
  using assms unat_utf8_push_bound [of b cp 1] by (simp add: unat_utf8_push)

lemma unat_utf8_push3:
  assumes "utf8_is_cont b" "utf8_is_cont c" "utf8_is_cont d" "unat cp < 64"
  shows "unat (utf8_push (utf8_push (utf8_push cp b) c) d) =
    ((unat cp * 64 + (byte b - 128)) * 64 + (byte c - 128)) * 64 + (byte d - 128)"
  using assms unat_utf8_push_bound [of b cp 1] unat_utf8_push_bound [of c "utf8_push cp b" 2]
  by (simp add: unat_utf8_push)

lemma utf8_decode_shape:
  assumes "utf8_decode_one s = Some (cp, w)"
  obtains (one) a r where "s = a # r" "w = 1" "byte a < 128" "unat cp = byte a"
  | (two) a b r where "s = a # b # r" "w = 2" "194 \<le> byte a" "byte a \<le> 223" "utf8_is_cont b"
      "unat cp = (byte a - 192) * 64 + (byte b - 128)"
  | (three) a b c r where "s = a # b # c # r" "w = 3" "224 \<le> byte a" "byte a \<le> 239"
      "utf8_is_cont b" "utf8_is_cont c" "0x800 \<le> unat cp"
      "unat cp < 0xD800 \<or> 0xDFFF < unat cp"
      "unat cp = ((byte a - 224) * 64 + (byte b - 128)) * 64 + (byte c - 128)"
  | (four) a b c d r where "s = a # b # c # d # r" "w = 4" "240 \<le> byte a" "byte a \<le> 244"
      "utf8_is_cont b" "utf8_is_cont c" "utf8_is_cont d" "0x10000 \<le> unat cp"
      "unat cp \<le> 0x10FFFF"
      "unat cp = (((byte a - 240) * 64 + (byte b - 128)) * 64 + (byte c - 128)) * 64 + (byte d - 128)"
proof -
  obtain a t where s: "s = a # t" using assms by (auto simp: utf8_decode_one_def split: list.splits)
  note d = assms [unfolded s utf8_decode_one_def, simplified, unfolded utf8_lead_byte]
  consider "byte a < 128" | "194 \<le> byte a" "byte a \<le> 223" | "224 \<le> byte a" "byte a \<le> 239"
    | "240 \<le> byte a" "byte a \<le> 244" using d by (auto split: if_splits)
  then show thesis
  proof cases
    case 1
    then show thesis using d by (intro one [of a t]) (auto simp: s unat_ubyte split: if_splits)
  next
    case 2
    then obtain b r where t: "t = b # r" using d by (cases t) auto
    from 2 d t show thesis
      by (intro two [of a b r])
        (auto simp: s unat_utf8_push unat_lead split: if_splits)
  next
    case 3
    then obtain b c r where t: "t = b # c # r" using d
      by (cases t; cases "tl t") auto
    from 3 d t show thesis
      by (intro three [of a b c r])
        (auto simp: s unat_utf8_push2 unat_lead utf8_rejects_def word_nat_simps split: if_splits)
  next
    case 4
    then obtain b c e r where t: "t = b # c # e # r" using d
      by (cases t; cases "tl t"; cases "tl (tl t)") auto
    from 4 d t show thesis
      by (intro four [of a b c e r])
        (auto simp: s unat_utf8_push3 unat_lead utf8_rejects_def word_nat_simps split: if_splits)
  qed
qed

lemma is_cont_value: "utf8_is_cont c \<Longrightarrow> \<exists>y. byte c = 128 + y \<and> y < 64"
  using is_cont_diff [of c] by metis

lemma utf8_decode_one_1: "byte a < 128 \<Longrightarrow> utf8_decode_one (a # r) = Some (ubyte a, 1)"
  by (simp add: utf8_decode_one_def utf8_lead_byte utf8_rejects_def word_nat_simps unat_ubyte)

lemma utf8_decode_one_2:
  assumes "194 \<le> byte a" "byte a \<le> 223" "utf8_is_cont b"
    "unat cp = (byte a - 192) * 64 + (byte b - 128)"
  shows "utf8_decode_one (a # b # r) = Some (cp, 2)"
proof -
  have "utf8_push (ubyte a AND 0x1F) b = cp"
    using assms by (simp add: word_unat_eq_iff unat_utf8_push unat_lead)
  moreover have "\<not> utf8_rejects (ubyte a) (ubyte b) 2 cp"
    using assms is_cont_diff(1) [OF assms(3)] by (auto simp: utf8_rejects_def word_nat_simps)
  ultimately show ?thesis using assms by (simp add: utf8_decode_one_def utf8_lead_byte)
qed

lemma utf8_decode_one_3:
  assumes "224 \<le> byte a" "byte a \<le> 239" "utf8_is_cont b" "utf8_is_cont c"
    "unat cp = ((byte a - 224) * 64 + (byte b - 128)) * 64 + (byte c - 128)"
    "0x800 \<le> unat cp" "utf8_scalar cp"
  shows "utf8_decode_one (a # b # c # r) = Some (cp, 3)"
proof -
  have "utf8_push (utf8_push (ubyte a AND 0x0F) b) c = cp"
    using assms by (simp add: word_unat_eq_iff unat_utf8_push2 unat_lead)
  moreover have "\<not> utf8_rejects (ubyte a) (ubyte b) 3 cp"
    using assms is_cont_diff [OF assms(3)] is_cont_diff [OF assms(4)]
    by (auto simp: utf8_rejects_def utf8_scalar_def word_nat_simps unat_ubyte)
  ultimately show ?thesis using assms by (simp add: utf8_decode_one_def utf8_lead_byte)
qed

lemma utf8_decode_one_4:
  assumes "240 \<le> byte a" "byte a \<le> 244" "utf8_is_cont b" "utf8_is_cont c" "utf8_is_cont d"
    "unat cp = (((byte a - 240) * 64 + (byte b - 128)) * 64 + (byte c - 128)) * 64 + (byte d - 128)"
    "0x10000 \<le> unat cp" "utf8_scalar cp"
  shows "utf8_decode_one (a # b # c # d # r) = Some (cp, 4)"
proof -
  obtain x y z where xyz: "byte b = 128 + x" "x < 64" "byte c = 128 + y" "y < 64"
    "byte d = 128 + z" "z < 64" using assms(3-5) [THEN is_cont_value] by metis
  have "utf8_push (utf8_push (utf8_push (ubyte a AND 0x07) b) c) d = cp"
    using assms by (simp add: word_unat_eq_iff unat_utf8_push3 unat_lead)
  moreover have "\<not> utf8_rejects (ubyte a) (ubyte b) 4 cp"
    using assms(1,2,6-8) xyz
    by (auto simp: utf8_rejects_def utf8_scalar_def word_nat_simps unat_ubyte)
  ultimately show ?thesis using assms by (simp add: utf8_decode_one_def utf8_lead_byte)
qed

lemma utf8_decode_encode:
  assumes "utf8_scalar cp"
  shows "utf8_decode_one (utf8_encode_one cp @ r) = Some (cp, length (utf8_encode_one cp))"
proof -
  define n where "n = unat cp"
  note e = utf8_encode_nat [of cp, folded n_def]
  have n: "n \<le> 0x10FFFF" "\<not> (0xD800 \<le> n \<and> n \<le> 0xDFFF)"
    using assms by (auto simp: utf8_scalar_def n_def)
  have conts: "\<And>c k. byte c = 128 + k mod 64 \<Longrightarrow> utf8_is_cont c"
    by (auto simp: utf8_is_cont_def)
  have n64: "n = n div 64 * 64 + n mod 64" "n div 64 = n div 4096 * 64 + n div 64 mod 64"
    "n div 4096 = n div 262144 * 64 + n div 4096 mod 64"
    by (simp_all add: div_mult2_eq [of n 64 64, simplified] div_mult2_eq [of n 4096 64, simplified])
  consider "n < 0x80" | "0x80 \<le> n" "n < 0x800" | "0x800 \<le> n" "n < 0x10000" | "0x10000 \<le> n"
    by linarith
  then show ?thesis
  proof cases
    case 1
    then obtain a where "utf8_encode_one cp = [a]" "byte a = n" using e n by auto
    with 1 show ?thesis
      by (simp add: utf8_decode_one_1 word_unat_eq_iff unat_ubyte n_def)
  next
    case 2
    then obtain a b where ab: "utf8_encode_one cp = [a, b]"
      "byte a = 192 + n div 64" "byte b = 128 + n mod 64" using e n by auto
    have "2 \<le> n div 64" "n div 64 < 32" using 2 by auto
    with ab conts [OF ab(3)] n64(1) have "utf8_decode_one (a # b # r) = Some (cp, 2)"
      by (intro utf8_decode_one_2) (simp_all add: n_def [symmetric])
    then show ?thesis by (simp add: ab(1))
  next
    case 3
    then obtain a b c where ab: "utf8_encode_one cp = [a, b, c]"
      "byte a = 224 + n div 4096" "byte b = 128 + n div 64 mod 64" "byte c = 128 + n mod 64"
      using e n by auto
    have "n div 4096 < 16" using 3 by auto
    with 3 assms ab conts [OF ab(3)] conts [OF ab(4)] n64
    have "utf8_decode_one (a # b # c # r) = Some (cp, 3)"
      by (intro utf8_decode_one_3) (simp_all add: n_def [symmetric])
    then show ?thesis by (simp add: ab(1))
  next
    case 4
    then obtain a b c d where ab: "utf8_encode_one cp = [a, b, c, d]"
      "byte a = 240 + n div 262144" "byte b = 128 + n div 4096 mod 64"
      "byte c = 128 + n div 64 mod 64" "byte d = 128 + n mod 64"
      using e n by auto
    have "n div 262144 \<le> 4" using n by auto
    with 4 assms ab conts [OF ab(3)] conts [OF ab(4)] conts [OF ab(5)] n64
    have "utf8_decode_one (a # b # c # d # r) = Some (cp, 4)"
      by (intro utf8_decode_one_4) (simp_all add: n_def [symmetric])
    then show ?thesis by (simp add: ab(1))
  qed
qed

lemma utf8_decode_sound:
  assumes "utf8_decode_one s = Some (cp, w)"
  shows "utf8_scalar cp \<and> w \<le> length s \<and> take w s = utf8_encode_one cp"
  using assms
proof (cases rule: utf8_decode_shape)
  case (one a r)
  then show ?thesis using utf8_encode_nat [of cp]
    by (simp add: utf8_scalar_def flip: map_byte_eq [of _ "utf8_encode_one cp"])
next
  case (two a b r)
  then have "unat cp < 0x800" "0x80 \<le> unat cp" using is_cont_diff(1) [of b] by auto
  with two show ?thesis using utf8_encode_nat [of cp] is_cont_diff [of b]
    by (simp add: utf8_scalar_def utf8_digits flip: map_byte_eq [of _ "utf8_encode_one cp"])
next
  case (three a b c r)
  obtain x y where xy: "byte b = 128 + x" "x < 64" "byte c = 128 + y" "y < 64"
    using three(5,6) [THEN is_cont_value] by metis
  obtain k where k: "byte a = 224 + k" "k < 16"
    using three(3,4) by (auto simp: le_iff_add)
  have cp: "unat cp = (k * 64 + x) * 64 + y" using three(9) xy k by simp
  with xy k have "unat cp < 0x10000" by simp
  moreover have "unat cp div 4096 = k" "unat cp div 64 mod 64 = x" "unat cp mod 64 = y"
    by (simp_all only: cp utf8_digits [OF xy(2)] utf8_digits [OF xy(4)])
  ultimately show ?thesis using three(1,2,7,8) utf8_encode_nat [of cp] xy k
    by (auto simp: utf8_scalar_def simp flip: map_byte_eq [of _ "utf8_encode_one cp"])
next
  case (four a b c d r)
  obtain x y z where xyz: "byte b = 128 + x" "x < 64" "byte c = 128 + y" "y < 64"
    "byte d = 128 + z" "z < 64" using four(5-7) [THEN is_cont_value] by metis
  obtain k where k: "byte a = 240 + k" using four(3) by (auto simp: le_iff_add)
  have cp: "unat cp = ((k * 64 + x) * 64 + y) * 64 + z" using four(10) xyz k by simp
  have "unat cp div 262144 = (k * 64 + x) div 64"
    by (simp only: cp utf8_digits [OF xyz(6)] div_mult2_eq [of _ 64 64, simplified]
        utf8_digits(1) [OF xyz(4)])
  then have "unat cp div 262144 = k" using xyz(2) by simp
  moreover have "unat cp div 4096 mod 64 = x" "unat cp div 64 mod 64 = y" "unat cp mod 64 = z"
    by (simp_all only: cp utf8_digits [OF xyz(2)] utf8_digits [OF xyz(4)] utf8_digits [OF xyz(6)])
  ultimately show ?thesis using four(1,2,8,9) utf8_encode_nat [of cp] xyz k
    by (auto simp: utf8_scalar_def simp flip: map_byte_eq [of _ "utf8_encode_one cp"])
qed

subsection \<open>The interface of a self-delimiting code\<close>

text \<open>
  What the scanners rely on: an encoder whose words are not empty, and a decoder that reads back
  exactly the word it finds at the head of its input.
\<close>

locale char_codec =
  fixes enc :: "'c \<Rightarrow> 'b list"
    and dec :: "'b list \<Rightarrow> ('c \<times> nat) option"
    and ok :: "'c \<Rightarrow> bool"
  assumes enc_nonempty: "ok c \<Longrightarrow> enc c \<noteq> []"
    and dec_enc: "ok c \<Longrightarrow> dec (enc c @ r) = Some (c, length (enc c))"
    and dec_sound: "dec s = Some (c, w) \<Longrightarrow> ok c \<and> w \<le> length s \<and> take w s = enc c"
begin

lemma dec_width: "dec s = Some (c, w) \<Longrightarrow> w = length (enc c)"
  using dec_sound [of s c w] by (metis length_take min.absorb2)

lemma dec_pos: "dec s = Some (c, w) \<Longrightarrow> 0 < w"
  using dec_sound [of s c w] dec_width [of s c w] enc_nonempty [of c] by auto

lemma dec_split: "dec s = Some (c, w) \<Longrightarrow> s = enc c @ drop w s"
  using dec_sound [of s c w] by (metis append_take_drop_id)

lemma dec_Nil: "dec [] = None"
proof (rule ccontr)
  assume "dec [] \<noteq> None"
  then obtain c w where "dec [] = Some (c, w)" by auto
  then show False using dec_sound [of "[]" c w] dec_pos [of "[]" c w] by auto
qed

lemma dec_concat:
  "ok c \<Longrightarrow> dec (concat (map enc (c # cs))) = Some (c, length (enc c))"
  by (simp add: dec_enc)

lemma unique_decoding:
  "list_all ok cs \<Longrightarrow> list_all ok ds \<Longrightarrow> concat (map enc cs) = concat (map enc ds) \<Longrightarrow> cs = ds"
proof (induction cs arbitrary: ds)
  case Nil
  then show ?case using enc_nonempty by (cases ds) auto
next
  case (Cons c cs)
  then obtain d ds' where ds: "ds = d # ds'" using enc_nonempty by (cases ds) auto
  have 1: "dec (concat (map enc (c # cs))) = Some (c, length (enc c))"
    and 2: "dec (concat (map enc (d # ds'))) = Some (d, length (enc d))"
    using Cons.prems(1,2) ds by (simp_all add: dec_enc)
  from Cons.prems(3) ds have "concat (map enc (c # cs)) = concat (map enc (d # ds'))" by simp
  with 1 2 have "c = d" by (metis option.inject prod.inject)
  with Cons ds show ?case by simp
qed

end

interpretation utf8: char_codec utf8_encode_one utf8_decode_one utf8_scalar
proof unfold_locales
  show "utf8_encode_one c \<noteq> []" for c by (simp add: utf8_encode_one_def)
qed (simp_all add: utf8_decode_encode utf8_decode_sound)

subsection \<open>The scanners\<close>

function utf8_validate_from :: "string \<Rightarrow> nat \<Rightarrow> nat option" where
  "utf8_validate_from s i =
     (if i < length s then
        (case utf8_decode_one (drop i s) of None \<Rightarrow> Some i
         | Some (_, width) \<Rightarrow> utf8_validate_from s (i + width))
      else None)"
  by pat_completeness auto
termination
  by (relation "measure (\<lambda>(s, i). length s - i)") (auto dest: utf8.dec_pos)

text \<open>\<open>None\<close> is the return value 1; \<open>Some i\<close> is 0 with the error offset \<open>i\<close>.\<close>

definition utf8_validate :: "string \<Rightarrow> nat option" where
  "utf8_validate s = utf8_validate_from s 0"

function utf8_char_count_from :: "string \<Rightarrow> nat \<Rightarrow> nat \<Rightarrow> nat" where
  "utf8_char_count_from s count i =
     (if i < length s then
        (case utf8_decode_one (drop i s) of None \<Rightarrow> count
         | Some (_, width) \<Rightarrow> utf8_char_count_from s (count + 1) (i + width))
      else count)"
  by pat_completeness auto
termination
  by (relation "measure (\<lambda>(s, _, i). length s - i)") (auto dest: utf8.dec_pos)

definition utf8_char_count :: "string \<Rightarrow> nat" where
  "utf8_char_count s = utf8_char_count_from s 0 0"

function utf8_char_at_from :: "string \<Rightarrow> nat \<Rightarrow> nat \<Rightarrow> nat \<Rightarrow> (nat \<times> nat \<times> u32) option" where
  "utf8_char_at_from s index cur i =
     (if i < length s then
        (case utf8_decode_one (drop i s) of None \<Rightarrow> None
         | Some (cp, w) \<Rightarrow>
             if cur = index then Some (i, w, cp)
             else utf8_char_at_from s index (cur + 1) (i + w))
      else None)"
  by pat_completeness auto
termination
  by (relation "measure (\<lambda>(s, _, _, i). length s - i)") (auto dest: utf8.dec_pos)

definition utf8_char_at :: "string \<Rightarrow> nat \<Rightarrow> (nat \<times> nat \<times> u32) option" where
  "utf8_char_at s index = utf8_char_at_from s index 0 0"

fun utf8_prev_from :: "string \<Rightarrow> nat \<Rightarrow> nat" where
  "utf8_prev_from s 0 = 0"
| "utf8_prev_from s (Suc i) =
     (if ubyte (s ! Suc i) AND 0xC0 = 0x80 then utf8_prev_from s i else Suc i)"

definition utf8_prev_char_start :: "string \<Rightarrow> nat \<Rightarrow> nat" where
  "utf8_prev_char_start s end = (if end = 0 then 0 else utf8_prev_from s (end - 1))"

function utf8_byte_offset_from :: "string \<Rightarrow> nat \<Rightarrow> nat \<Rightarrow> nat \<Rightarrow> nat" where
  "utf8_byte_offset_from s char_index cur i =
     (if i < length s \<and> cur < char_index then
        (case utf8_decode_one (drop i s) of None \<Rightarrow> i
         | Some (_, w) \<Rightarrow> utf8_byte_offset_from s char_index (cur + 1) (i + w))
      else i)"
  by pat_completeness auto
termination
  by (relation "measure (\<lambda>(s, _, _, i). length s - i)") (auto dest: utf8.dec_pos)

definition utf8_byte_offset_for_char :: "string \<Rightarrow> nat \<Rightarrow> nat" where
  "utf8_byte_offset_for_char s char_index = utf8_byte_offset_from s char_index 0 0"

function utf8_char_index_from :: "string \<Rightarrow> nat \<Rightarrow> nat \<Rightarrow> nat \<Rightarrow> nat" where
  "utf8_char_index_from s byte_offset cur i =
     (if i < byte_offset then
        (case utf8_decode_one (drop i s) of None \<Rightarrow> cur
         | Some (_, w) \<Rightarrow> utf8_char_index_from s byte_offset (cur + 1) (i + w))
      else cur)"
  by pat_completeness auto
termination
  by (relation "measure (\<lambda>(s, b, _, i). b - i)") (auto dest: utf8.dec_pos)

definition utf8_char_index_for_byte :: "string \<Rightarrow> nat \<Rightarrow> nat" where
  "utf8_char_index_for_byte s byte_offset =
     utf8_char_index_from s (if length s < byte_offset then length s else byte_offset) 0 0"

definition utf8_ascii_only :: "string \<Rightarrow> bool" where
  "utf8_ascii_only s = list_all (\<lambda>c. \<not> 0x80 \<le> ubyte c) s"

lemmas utf8_loops [simp del] = utf8_validate_from.simps utf8_char_count_from.simps
  utf8_char_at_from.simps utf8_byte_offset_from.simps utf8_char_index_from.simps

subsection \<open>What the scanners compute\<close>

text \<open>
  The abstract view of a byte string: the characters read from the left until the end or the
  first byte that does not start a valid character.
\<close>

function utf8_chars :: "string \<Rightarrow> u32 list" where
  "utf8_chars s =
     (case utf8_decode_one s of None \<Rightarrow> [] | Some (cp, w) \<Rightarrow> cp # utf8_chars (drop w s))"
  by pat_completeness auto
termination
proof (relation "measure length")
  fix s :: string and x cp w
  assume "utf8_decode_one s = Some x" "(cp, w) = x"
  then have "utf8_decode_one s = Some (cp, w)" by simp
  with utf8.dec_pos [OF this] utf8.dec_sound [OF this] show "(drop w s, s) \<in> measure length" by auto
qed simp

declare utf8_chars.simps [simp del]

definition utf8_bytes :: "u32 list \<Rightarrow> string" where
  "utf8_bytes cps = concat (map utf8_encode_one cps)"

lemma utf8_bytes_simps [simp]:
  "utf8_bytes [] = []" "utf8_bytes (cp # cps) = utf8_encode_one cp @ utf8_bytes cps"
  "utf8_bytes (cps @ ds) = utf8_bytes cps @ utf8_bytes ds"
  by (simp_all add: utf8_bytes_def)

lemma utf8_chars_None: "utf8_decode_one s = None \<Longrightarrow> utf8_chars s = []"
  by (simp add: utf8_chars.simps [of s])

lemma utf8_chars_Some: "utf8_decode_one s = Some (cp, w) \<Longrightarrow> utf8_chars s = cp # utf8_chars (drop w s)"
  by (simp add: utf8_chars.simps [of s])

lemma utf8_chars_Some_at:
  "utf8_decode_one (drop i s) = Some (cp, w) \<Longrightarrow>
     utf8_chars (drop i s) = cp # utf8_chars (drop (i + w) s)"
  by (simp add: utf8_chars_Some add.commute)

lemma utf8_chars_Nil [simp]: "utf8_chars [] = []"
  by (simp add: utf8_chars_None utf8.dec_Nil)

lemma utf8_chars_scalar: "list_all utf8_scalar (utf8_chars s)"
proof (induction s rule: utf8_chars.induct)
  case (1 s)
  then show ?case
    by (cases "utf8_decode_one s") (auto simp: utf8_chars_None utf8_chars_Some dest: utf8.dec_sound)
qed

lemma utf8_chars_split:
  "\<exists>rest. s = utf8_bytes (utf8_chars s) @ rest \<and> utf8_decode_one rest = None"
proof (induction s rule: utf8_chars.induct)
  case (1 s)
  show ?case
  proof (cases "utf8_decode_one s")
    case None
    then show ?thesis by (simp add: utf8_chars_None)
  next
    case (Some a)
    obtain cp w where a: "a = (cp, w)" by (cases a)
    with 1 Some obtain rest where "drop w s = utf8_bytes (utf8_chars (drop w s)) @ rest"
      "utf8_decode_one rest = None" by blast
    moreover have "s = utf8_encode_one cp @ drop w s" using Some a utf8.dec_split by simp
    ultimately show ?thesis using Some a by (intro exI [of _ rest]) (metis append.assoc utf8_bytes_simps(2) utf8_chars_Some)
  qed
qed

lemma utf8_chars_bytes: "list_all utf8_scalar cps \<Longrightarrow> utf8_chars (utf8_bytes cps) = cps"
  by (induction cps) (simp_all add: utf8_chars_Some [OF utf8.dec_enc])

lemma utf8_chars_length_less:
  "utf8_decode_one (drop i s) = Some (cp, w) \<Longrightarrow>
     length (utf8_bytes (utf8_chars (drop i s))) = w + length (utf8_bytes (utf8_chars (drop (i + w) s)))"
  using utf8.dec_width [of "drop i s" cp w] by (simp add: utf8_chars_Some add.commute)

lemma utf8_char_count_from_eq:
  "utf8_char_count_from s count i = count + length (utf8_chars (drop i s))"
proof (induction s count i rule: utf8_char_count_from.induct)
  case (1 s count i)
  show ?case
  proof (cases "i < length s")
    case True
    with 1 show ?thesis
      by (subst utf8_char_count_from.simps)
        (auto simp: utf8_chars_None utf8_chars_Some add.commute split: option.splits)
  qed (simp add: utf8_char_count_from.simps)
qed

lemma utf8_validate_from_eq:
  "i \<le> length s \<Longrightarrow> utf8_validate_from s i =
     (let j = i + length (utf8_bytes (utf8_chars (drop i s))) in if j < length s then Some j else None)"
proof (induction s i rule: utf8_validate_from.induct)
  case (1 s i)
  show ?case
  proof (cases "i < length s")
    case True
    show ?thesis
    proof (cases "utf8_decode_one (drop i s)")
      case None
      with True show ?thesis by (simp add: utf8_validate_from.simps [of s i] utf8_chars_None)
    next
      case (Some a)
      obtain cp w where a: "a = (cp, w)" by (cases a)
      with Some have "w \<le> length s - i" using utf8.dec_sound by fastforce
      with True 1 Some a show ?thesis
        by (simp add: utf8_validate_from.simps [of s i] utf8_chars_length_less [of i s cp w] add.assoc)
    qed
  next
    case False
    with "1.prems" show ?thesis by (subst utf8_validate_from.simps) simp
  qed
qed

lemma utf8_byte_offset_from_eq:
  "cur \<le> k \<Longrightarrow> utf8_byte_offset_from s k cur i =
     i + length (utf8_bytes (take (k - cur) (utf8_chars (drop i s))))"
proof (induction s k cur i rule: utf8_byte_offset_from.induct)
  case (1 s k cur i)
  show ?case
  proof (cases "i < length s \<and> cur < k")
    case True
    show ?thesis
    proof (cases "utf8_decode_one (drop i s)")
      case None
      with True show ?thesis by (simp add: utf8_byte_offset_from.simps [of s k cur i] utf8_chars_None)
    next
      case (Some a)
      obtain cp w where a: "a = (cp, w)" by (cases a)
      with Some have "w = length (utf8_encode_one cp)" using utf8.dec_width by simp
      moreover have "k - cur = Suc (k - Suc cur)" using True by (simp add: Suc_diff_Suc)
      ultimately show ?thesis using True 1 Some a
        by (simp add: utf8_byte_offset_from.simps [of s k cur i] utf8_chars_Some_at add.assoc)
    qed
  next
    case False
    with "1.prems" show ?thesis by (auto simp: utf8_byte_offset_from.simps [of s k cur i])
  qed
qed

lemma utf8_char_at_from_eq:
  "cur \<le> k \<Longrightarrow> utf8_char_at_from s k cur i =
     (let cs = utf8_chars (drop i s); n = k - cur in
      if n < length cs
      then Some (i + length (utf8_bytes (take n cs)), length (utf8_encode_one (cs ! n)), cs ! n)
      else None)"
proof (induction s k cur i rule: utf8_char_at_from.induct)
  case (1 s k cur i)
  show ?case
  proof (cases "i < length s")
    case True
    show ?thesis
    proof (cases "utf8_decode_one (drop i s)")
      case None
      with True show ?thesis by (simp add: utf8_char_at_from.simps [of s k cur i] utf8_chars_None)
    next
      case (Some a)
      obtain cp w where a: "a = (cp, w)" by (cases a)
      with Some have w: "w = length (utf8_encode_one cp)" using utf8.dec_width by simp
      show ?thesis
      proof (cases "cur = k")
        case True
        with \<open>i < length s\<close> Some a w show ?thesis
          by (subst utf8_char_at_from.simps) (simp add: utf8_chars_Some)
      next
        case False
        with "1.prems" have "k - cur = Suc (k - Suc cur)" by (simp add: Suc_diff_Suc)
        with False True 1 Some a w show ?thesis
          by (simp add: utf8_char_at_from.simps [of s k cur i] utf8_chars_Some_at Let_def add.assoc)
      qed
    qed
  next
    case False
    with "1.prems" show ?thesis by (simp add: utf8_char_at_from.simps [of s k cur i])
  qed
qed

lemma utf8_char_index_from_eq:
  "n \<le> length (utf8_chars (drop i s)) \<Longrightarrow>
     utf8_char_index_from s (i + length (utf8_bytes (take n (utf8_chars (drop i s))))) cur i = cur + n"
proof (induction n arbitrary: cur i)
  case 0
  then show ?case by (simp add: utf8_char_index_from.simps)
next
  case (Suc n)
  then obtain cp w where d: "utf8_decode_one (drop i s) = Some (cp, w)"
    by (cases "utf8_decode_one (drop i s)") (auto simp: utf8_chars_None)
  then have w: "w = length (utf8_encode_one cp)" "0 < w" using utf8.dec_width utf8.dec_pos by auto
  with d Suc.prems have "n \<le> length (utf8_chars (drop (i + w) s))"
    by (simp add: utf8_chars_Some_at add.assoc)
  from Suc.IH [OF this, of "Suc cur"] d w show ?case
    by (subst utf8_char_index_from.simps) (simp add: utf8_chars_Some_at add.assoc)
qed

lemma utf8_encode_conts:
  assumes "utf8_scalar cp"
  obtains a t where "utf8_encode_one cp = a # t" "\<not> utf8_is_cont a" "list_all utf8_is_cont t"
proof -
  have n: "unat cp \<le> 0x10FFFF" using assms by (simp add: utf8_scalar_def)
  define a t where "a = hd (utf8_encode_one cp)" and "t = tl (utf8_encode_one cp)"
  have at: "utf8_encode_one cp = a # t"
    unfolding a_def t_def by (simp add: utf8_encode_one_def)
  from utf8_encode_nat [OF n] have "map byte (a # t) = (if unat cp < 0x80 then [unat cp]
      else if unat cp < 0x800 then [192 + unat cp div 64, 128 + unat cp mod 64]
      else if unat cp < 0x10000 then
        [224 + unat cp div 4096, 128 + unat cp div 64 mod 64, 128 + unat cp mod 64]
      else
        [240 + unat cp div 262144, 128 + unat cp div 4096 mod 64,
         128 + unat cp div 64 mod 64, 128 + unat cp mod 64])" unfolding at .
  then have "\<not> utf8_is_cont a" "list_all utf8_is_cont t"
    by (auto simp: utf8_is_cont_def split: if_splits)
  with at show thesis by (rule that)
qed

lemma utf8_prev_from_skip:
  "list_all utf8_is_cont t \<Longrightarrow> utf8_prev_from (p @ a # t @ r) (length p + length t) =
     utf8_prev_from (p @ a # t @ r) (length p)"
proof (induction t arbitrary: r rule: rev_induct)
  case (snoc c t)
  have "(p @ a # (t @ [c]) @ r) ! Suc (length p + length t) = c"
    by (simp add: nth_append)
  with snoc.prems snoc.IH [of "c # r"] show ?case by (simp add: cont_mask)
qed simp

lemma utf8_prev_from_stop: "\<not> utf8_is_cont a \<Longrightarrow> utf8_prev_from (p @ a # r) (length p) = length p"
  by (cases "length p") (simp_all add: cont_mask nth_append flip: length_0_conv)

subsection \<open>Properties\<close>

text \<open>C13: the decoder reads back every Unicode scalar value the encoder wrote, whatever follows.\<close>

theorem utf8_roundtrip:
  assumes "utf8_scalar cp"
  shows "utf8_decode_one (utf8_encode_one cp @ rest) = Some (cp, length (utf8_encode_one cp))"
  using assms by (rule utf8.dec_enc)

theorem utf8_roundtrip_witness:
  "utf8_decode_one (utf8_encode_one 0x20AC @ ''z'') = Some (0x20AC, length (utf8_encode_one 0x20AC))"
  by (rule utf8_roundtrip) (simp add: utf8_scalar_def)

text \<open>C14: the decoder accepts only the canonical encoding of a scalar value: no overlong form, no
  surrogate, nothing above 0x10FFFF, and it never reads past the end.\<close>

theorem utf8_decode_canonical:
  assumes "utf8_decode_one s = Some (cp, w)"
  shows "utf8_scalar cp \<and> w = length (utf8_encode_one cp) \<and> w \<le> length s \<and>
    s = utf8_encode_one cp @ drop w s"
  using assms utf8.dec_sound [OF assms] utf8.dec_width [OF assms] utf8.dec_split [OF assms] by blast

theorem utf8_decode_canonical_witness:
  "utf8_decode_one [CHR 0xC3, CHR 0xA9, CHR 0x21] = Some (0xE9, 2) \<and>
   [CHR 0xC3, CHR 0xA9, CHR 0x21] = utf8_encode_one 0xE9 @ [CHR 0x21]"
proof -
  have "utf8_decode_one (utf8_encode_one 0xE9 @ [CHR 0x21]) = Some (0xE9, length (utf8_encode_one 0xE9))"
    by (rule utf8.dec_enc) (simp add: utf8_scalar_def)
  moreover have "utf8_encode_one 0xE9 = [CHR 0xC3, CHR 0xA9]"
    by code_simp
  ultimately have d: "utf8_decode_one [CHR 0xC3, CHR 0xA9, CHR 0x21] = Some (0xE9, 2)" by simp
  from utf8_decode_canonical [OF d] d show ?thesis by simp
qed

text \<open>C15: \<open>utf8_validate\<close> accepts exactly the concatenations of encoded scalar values; on any other
  input the offset it reports ends a well-formed prefix and starts an undecodable byte.\<close>

theorem utf8_validate_correct:
  "case utf8_validate s of
     None \<Rightarrow> \<exists>cps. list_all utf8_scalar cps \<and> s = utf8_bytes cps
   | Some i \<Rightarrow> i < length s \<and> utf8_decode_one (drop i s) = None \<and>
       (\<exists>cps. list_all utf8_scalar cps \<and> take i s = utf8_bytes cps) \<and>
       \<not> (\<exists>cps. list_all utf8_scalar cps \<and> s = utf8_bytes cps)"
proof -
  define cps where "cps = utf8_chars s"
  obtain rest where s: "s = utf8_bytes cps @ rest" and r: "utf8_decode_one rest = None"
    using utf8_chars_split [of s] unfolding cps_def by blast
  have ok: "list_all utf8_scalar cps" unfolding cps_def by (rule utf8_chars_scalar)
  have v: "utf8_validate s =
      (if length (utf8_bytes cps) < length s then Some (length (utf8_bytes cps)) else None)"
    by (simp add: utf8_validate_def utf8_validate_from_eq cps_def Let_def)
  show ?thesis
  proof (cases "rest = []")
    case True
    with s ok v show ?thesis by auto
  next
    case False
    have "\<not> (\<exists>ds. list_all utf8_scalar ds \<and> s = utf8_bytes ds)"
      using False s utf8_chars_bytes cps_def by auto
    with False s r ok v show ?thesis by auto
  qed
qed

text \<open>C16: on well-formed text, the position functions agree with the list of characters: the count,
  the \<open>n\<close>-th character with its offset and width, and the two conversions between character
  index and byte offset, which are inverse to each other.\<close>

theorem utf8_positions:
  assumes "list_all utf8_scalar cps" and "n \<le> length cps"
  shows "utf8_char_count (utf8_bytes cps) = length cps \<and>
    utf8_byte_offset_for_char (utf8_bytes cps) n = length (utf8_bytes (take n cps)) \<and>
    utf8_char_index_for_byte (utf8_bytes cps) (length (utf8_bytes (take n cps))) = n \<and>
    utf8_char_at (utf8_bytes cps) n =
      (if n < length cps
       then Some (length (utf8_bytes (take n cps)), length (utf8_encode_one (cps ! n)), cps ! n)
       else None)"
proof -
  note c = utf8_chars_bytes [OF assms(1)]
  have "length (utf8_bytes (take n cps)) \<le> length (utf8_bytes (take n cps @ drop n cps))"
    unfolding utf8_bytes_simps(3) by simp
  then have "\<not> length (utf8_bytes cps) < length (utf8_bytes (take n cps))" by simp
  with utf8_char_index_from_eq [of n 0 "utf8_bytes cps" 0] assms(2) c
  have "utf8_char_index_for_byte (utf8_bytes cps) (length (utf8_bytes (take n cps))) = n"
    by (simp add: utf8_char_index_for_byte_def)
  then show ?thesis
    by (simp add: utf8_char_count_def utf8_char_count_from_eq utf8_byte_offset_for_char_def
        utf8_byte_offset_from_eq utf8_char_at_def utf8_char_at_from_eq c Let_def)
qed

theorem utf8_positions_witness:
  "utf8_byte_offset_for_char (utf8_bytes [0x61, 0xE9, 0x20AC]) 2 = 3 \<and>
   utf8_char_index_for_byte (utf8_bytes [0x61, 0xE9, 0x20AC]) 3 = 2"
proof -
  have ok: "list_all utf8_scalar [0x61, 0xE9, 0x20AC]" by (simp add: utf8_scalar_def)
  have "length (utf8_bytes (take 2 [0x61, 0xE9, 0x20AC])) = 3"
    by (simp add: utf8_encode_one_def)
  with utf8_positions [OF ok, of 2] show ?thesis by simp
qed

text \<open>C17: stepping back from the end of a character finds its first byte, whatever is around it.\<close>

theorem utf8_prev_char_start_correct:
  assumes "utf8_scalar cp"
  shows "utf8_prev_char_start (before @ utf8_encode_one cp @ after)
      (length before + length (utf8_encode_one cp)) = length before"
proof -
  obtain a t where e: "utf8_encode_one cp = a # t" "\<not> utf8_is_cont a" "list_all utf8_is_cont t"
    using assms by (rule utf8_encode_conts)
  then show ?thesis
    using utf8_prev_from_skip [of t before a after] utf8_prev_from_stop [of a before "t @ after"]
    by (simp add: utf8_prev_char_start_def)
qed

theorem utf8_prev_char_start_witness:
  "utf8_prev_char_start (''ab'' @ utf8_encode_one 0x1F600 @ ''c'') 6 = 2"
proof -
  have "length (utf8_encode_one 0x1F600) = 4" by (simp add: utf8_encode_one_def)
  with utf8_prev_char_start_correct [of "0x1F600" "''ab''" "''c''"] show ?thesis
    by (simp add: utf8_scalar_def)
qed

end
