(* ===== verification/Token.thy ===== *)
theory Token
  imports Prelude
begin

section \<open>Tokens (src/lexer.h, src/lexer.c)\<close>

text \<open>
  The enumeration \<open>TokenKind\<close>, one datatype per group of its declaration; every constant keeps
  its name of the source, and is a constructor pattern. \<open>token_kind_name\<close> is the table of the
  function of that name, and \<open>KEYWORDS\<close> the keyword table of the lexer, in its order.
\<close>

subsection \<open>Token kinds\<close>

datatype (plugins only: code size) literal_token =
    LIT_INT | LIT_FLOAT | LIT_RATIONAL | LIT_IMAGINARY | LIT_STRING | LIT_SYMBOL | LIT_WORDS
  | LIT_SYMBOLS | LIT_HEREDOC | LIT_REGEXP

datatype (plugins only: code size) interp_token =
    ITP_INTERP_BEG | ITP_INTERP_LIT | ITP_INTERP_EXPR_BEG | ITP_INTERP_EXPR_END
  | ITP_INTERP_END

datatype (plugins only: code size) name_token =
    NAM_IDENT | NAM_CONST | NAM_IVAR | NAM_CVAR | NAM_GVAR

datatype (plugins only: code size) keyword_token =
    KWD_NIL | KWD_TRUE | KWD_FALSE | KWD_SELF | KWD_IF | KWD_UNLESS | KWD_THEN | KWD_ELSIF
  | KWD_ELSE | KWD_END | KWD_WHILE | KWD_UNTIL | KWD_DO | KWD_DEF | KWD_CLASS | KWD_MODULE
  | KWD_ALIAS | KWD_RETURN | KWD_BREAK | KWD_NEXT | KWD_AND | KWD_OR | KWD_NOT | KWD_FOR
  | KWD_IN | KWD_RESCUE | KWD_ENSURE | KWD_BEGIN | KWD_YIELD | KWD_SUPER | KWD_RETRY
  | KWD_CASE | KWD_WHEN | KWD_DEFINED

datatype (plugins only: code size) operator_token =
    OPR_PLUS | OPR_MINUS | OPR_STAR | OPR_STAR2 | OPR_SLASH | OPR_PERCENT | OPR_AMP
  | OPR_ANDDOT | OPR_AMP2 | OPR_PIPE | OPR_PIPE2 | OPR_CARET | OPR_TILDE | OPR_LSHIFT
  | OPR_RSHIFT | OPR_EQ | OPR_EQ2 | OPR_EQ3 | OPR_NEQ | OPR_LT | OPR_LEQ | OPR_GT | OPR_GEQ
  | OPR_SPACESHIP | OPR_MATCH | OPR_NMATCH | OPR_BANG

datatype (plugins only: code size) punct_token =
    PCT_DOT | PCT_DOT2 | PCT_DOT3 | PCT_COLON | PCT_COLON2 | PCT_COMMA | PCT_SEMICOLON
  | PCT_LPAREN | PCT_RPAREN | PCT_LBRACKET | PCT_RBRACKET | PCT_LBRACE | PCT_RBRACE
  | PCT_PIPE_BLOCK | PCT_ARROW | PCT_LAMBDA | PCT_QUESTION

datatype (plugins only: code size) assign_token =
    ASG_PLUS_EQ | ASG_MINUS_EQ | ASG_STAR_EQ | ASG_SLASH_EQ | ASG_PERCENT_EQ | ASG_AMP_EQ
  | ASG_PIPE_EQ | ASG_CARET_EQ | ASG_LSHIFT_EQ | ASG_RSHIFT_EQ | ASG_STAR2_EQ | ASG_AMP2_EQ
  | ASG_PIPE2_EQ

datatype (plugins only: code size) struct_token =
    STR_NEWLINE | STR_EOF | STR_ERROR

datatype (plugins only: code size) token_kind =
    Lit literal_token | Interp interp_token | Name name_token | Keyword keyword_token
  | Operator operator_token | Punct punct_token | Assign assign_token | Struct struct_token

abbreviation TOK_INT :: token_kind where "TOK_INT \<equiv> Lit LIT_INT"
abbreviation TOK_FLOAT :: token_kind where "TOK_FLOAT \<equiv> Lit LIT_FLOAT"
abbreviation TOK_RATIONAL :: token_kind where "TOK_RATIONAL \<equiv> Lit LIT_RATIONAL"
abbreviation TOK_IMAGINARY :: token_kind where "TOK_IMAGINARY \<equiv> Lit LIT_IMAGINARY"
abbreviation TOK_STRING :: token_kind where "TOK_STRING \<equiv> Lit LIT_STRING"
abbreviation TOK_SYMBOL :: token_kind where "TOK_SYMBOL \<equiv> Lit LIT_SYMBOL"
abbreviation TOK_WORDS :: token_kind where "TOK_WORDS \<equiv> Lit LIT_WORDS"
abbreviation TOK_SYMBOLS :: token_kind where "TOK_SYMBOLS \<equiv> Lit LIT_SYMBOLS"
abbreviation TOK_HEREDOC :: token_kind where "TOK_HEREDOC \<equiv> Lit LIT_HEREDOC"
abbreviation TOK_REGEXP :: token_kind where "TOK_REGEXP \<equiv> Lit LIT_REGEXP"

abbreviation TOK_INTERP_BEG :: token_kind where "TOK_INTERP_BEG \<equiv> Interp ITP_INTERP_BEG"
abbreviation TOK_INTERP_LIT :: token_kind where "TOK_INTERP_LIT \<equiv> Interp ITP_INTERP_LIT"
abbreviation TOK_INTERP_EXPR_BEG :: token_kind where "TOK_INTERP_EXPR_BEG \<equiv> Interp ITP_INTERP_EXPR_BEG"
abbreviation TOK_INTERP_EXPR_END :: token_kind where "TOK_INTERP_EXPR_END \<equiv> Interp ITP_INTERP_EXPR_END"
abbreviation TOK_INTERP_END :: token_kind where "TOK_INTERP_END \<equiv> Interp ITP_INTERP_END"

abbreviation TOK_IDENT :: token_kind where "TOK_IDENT \<equiv> Name NAM_IDENT"
abbreviation TOK_CONST :: token_kind where "TOK_CONST \<equiv> Name NAM_CONST"
abbreviation TOK_IVAR :: token_kind where "TOK_IVAR \<equiv> Name NAM_IVAR"
abbreviation TOK_CVAR :: token_kind where "TOK_CVAR \<equiv> Name NAM_CVAR"
abbreviation TOK_GVAR :: token_kind where "TOK_GVAR \<equiv> Name NAM_GVAR"

abbreviation TOK_NIL :: token_kind where "TOK_NIL \<equiv> Keyword KWD_NIL"
abbreviation TOK_TRUE :: token_kind where "TOK_TRUE \<equiv> Keyword KWD_TRUE"
abbreviation TOK_FALSE :: token_kind where "TOK_FALSE \<equiv> Keyword KWD_FALSE"
abbreviation TOK_SELF :: token_kind where "TOK_SELF \<equiv> Keyword KWD_SELF"
abbreviation TOK_IF :: token_kind where "TOK_IF \<equiv> Keyword KWD_IF"
abbreviation TOK_UNLESS :: token_kind where "TOK_UNLESS \<equiv> Keyword KWD_UNLESS"
abbreviation TOK_THEN :: token_kind where "TOK_THEN \<equiv> Keyword KWD_THEN"
abbreviation TOK_ELSIF :: token_kind where "TOK_ELSIF \<equiv> Keyword KWD_ELSIF"
abbreviation TOK_ELSE :: token_kind where "TOK_ELSE \<equiv> Keyword KWD_ELSE"
abbreviation TOK_END :: token_kind where "TOK_END \<equiv> Keyword KWD_END"
abbreviation TOK_WHILE :: token_kind where "TOK_WHILE \<equiv> Keyword KWD_WHILE"
abbreviation TOK_UNTIL :: token_kind where "TOK_UNTIL \<equiv> Keyword KWD_UNTIL"
abbreviation TOK_DO :: token_kind where "TOK_DO \<equiv> Keyword KWD_DO"
abbreviation TOK_DEF :: token_kind where "TOK_DEF \<equiv> Keyword KWD_DEF"
abbreviation TOK_CLASS :: token_kind where "TOK_CLASS \<equiv> Keyword KWD_CLASS"
abbreviation TOK_MODULE :: token_kind where "TOK_MODULE \<equiv> Keyword KWD_MODULE"
abbreviation TOK_ALIAS :: token_kind where "TOK_ALIAS \<equiv> Keyword KWD_ALIAS"
abbreviation TOK_RETURN :: token_kind where "TOK_RETURN \<equiv> Keyword KWD_RETURN"
abbreviation TOK_BREAK :: token_kind where "TOK_BREAK \<equiv> Keyword KWD_BREAK"
abbreviation TOK_NEXT :: token_kind where "TOK_NEXT \<equiv> Keyword KWD_NEXT"
abbreviation TOK_AND :: token_kind where "TOK_AND \<equiv> Keyword KWD_AND"
abbreviation TOK_OR :: token_kind where "TOK_OR \<equiv> Keyword KWD_OR"
abbreviation TOK_NOT :: token_kind where "TOK_NOT \<equiv> Keyword KWD_NOT"
abbreviation TOK_FOR :: token_kind where "TOK_FOR \<equiv> Keyword KWD_FOR"
abbreviation TOK_IN :: token_kind where "TOK_IN \<equiv> Keyword KWD_IN"
abbreviation TOK_RESCUE :: token_kind where "TOK_RESCUE \<equiv> Keyword KWD_RESCUE"
abbreviation TOK_ENSURE :: token_kind where "TOK_ENSURE \<equiv> Keyword KWD_ENSURE"
abbreviation TOK_BEGIN :: token_kind where "TOK_BEGIN \<equiv> Keyword KWD_BEGIN"
abbreviation TOK_YIELD :: token_kind where "TOK_YIELD \<equiv> Keyword KWD_YIELD"
abbreviation TOK_SUPER :: token_kind where "TOK_SUPER \<equiv> Keyword KWD_SUPER"
abbreviation TOK_RETRY :: token_kind where "TOK_RETRY \<equiv> Keyword KWD_RETRY"
abbreviation TOK_CASE :: token_kind where "TOK_CASE \<equiv> Keyword KWD_CASE"
abbreviation TOK_WHEN :: token_kind where "TOK_WHEN \<equiv> Keyword KWD_WHEN"
abbreviation TOK_DEFINED :: token_kind where "TOK_DEFINED \<equiv> Keyword KWD_DEFINED"

abbreviation TOK_PLUS :: token_kind where "TOK_PLUS \<equiv> Operator OPR_PLUS"
abbreviation TOK_MINUS :: token_kind where "TOK_MINUS \<equiv> Operator OPR_MINUS"
abbreviation TOK_STAR :: token_kind where "TOK_STAR \<equiv> Operator OPR_STAR"
abbreviation TOK_STAR2 :: token_kind where "TOK_STAR2 \<equiv> Operator OPR_STAR2"
abbreviation TOK_SLASH :: token_kind where "TOK_SLASH \<equiv> Operator OPR_SLASH"
abbreviation TOK_PERCENT :: token_kind where "TOK_PERCENT \<equiv> Operator OPR_PERCENT"
abbreviation TOK_AMP :: token_kind where "TOK_AMP \<equiv> Operator OPR_AMP"
abbreviation TOK_ANDDOT :: token_kind where "TOK_ANDDOT \<equiv> Operator OPR_ANDDOT"
abbreviation TOK_AMP2 :: token_kind where "TOK_AMP2 \<equiv> Operator OPR_AMP2"
abbreviation TOK_PIPE :: token_kind where "TOK_PIPE \<equiv> Operator OPR_PIPE"
abbreviation TOK_PIPE2 :: token_kind where "TOK_PIPE2 \<equiv> Operator OPR_PIPE2"
abbreviation TOK_CARET :: token_kind where "TOK_CARET \<equiv> Operator OPR_CARET"
abbreviation TOK_TILDE :: token_kind where "TOK_TILDE \<equiv> Operator OPR_TILDE"
abbreviation TOK_LSHIFT :: token_kind where "TOK_LSHIFT \<equiv> Operator OPR_LSHIFT"
abbreviation TOK_RSHIFT :: token_kind where "TOK_RSHIFT \<equiv> Operator OPR_RSHIFT"
abbreviation TOK_EQ :: token_kind where "TOK_EQ \<equiv> Operator OPR_EQ"
abbreviation TOK_EQ2 :: token_kind where "TOK_EQ2 \<equiv> Operator OPR_EQ2"
abbreviation TOK_EQ3 :: token_kind where "TOK_EQ3 \<equiv> Operator OPR_EQ3"
abbreviation TOK_NEQ :: token_kind where "TOK_NEQ \<equiv> Operator OPR_NEQ"
abbreviation TOK_LT :: token_kind where "TOK_LT \<equiv> Operator OPR_LT"
abbreviation TOK_LEQ :: token_kind where "TOK_LEQ \<equiv> Operator OPR_LEQ"
abbreviation TOK_GT :: token_kind where "TOK_GT \<equiv> Operator OPR_GT"
abbreviation TOK_GEQ :: token_kind where "TOK_GEQ \<equiv> Operator OPR_GEQ"
abbreviation TOK_SPACESHIP :: token_kind where "TOK_SPACESHIP \<equiv> Operator OPR_SPACESHIP"
abbreviation TOK_MATCH :: token_kind where "TOK_MATCH \<equiv> Operator OPR_MATCH"
abbreviation TOK_NMATCH :: token_kind where "TOK_NMATCH \<equiv> Operator OPR_NMATCH"
abbreviation TOK_BANG :: token_kind where "TOK_BANG \<equiv> Operator OPR_BANG"

abbreviation TOK_DOT :: token_kind where "TOK_DOT \<equiv> Punct PCT_DOT"
abbreviation TOK_DOT2 :: token_kind where "TOK_DOT2 \<equiv> Punct PCT_DOT2"
abbreviation TOK_DOT3 :: token_kind where "TOK_DOT3 \<equiv> Punct PCT_DOT3"
abbreviation TOK_COLON :: token_kind where "TOK_COLON \<equiv> Punct PCT_COLON"
abbreviation TOK_COLON2 :: token_kind where "TOK_COLON2 \<equiv> Punct PCT_COLON2"
abbreviation TOK_COMMA :: token_kind where "TOK_COMMA \<equiv> Punct PCT_COMMA"
abbreviation TOK_SEMICOLON :: token_kind where "TOK_SEMICOLON \<equiv> Punct PCT_SEMICOLON"
abbreviation TOK_LPAREN :: token_kind where "TOK_LPAREN \<equiv> Punct PCT_LPAREN"
abbreviation TOK_RPAREN :: token_kind where "TOK_RPAREN \<equiv> Punct PCT_RPAREN"
abbreviation TOK_LBRACKET :: token_kind where "TOK_LBRACKET \<equiv> Punct PCT_LBRACKET"
abbreviation TOK_RBRACKET :: token_kind where "TOK_RBRACKET \<equiv> Punct PCT_RBRACKET"
abbreviation TOK_LBRACE :: token_kind where "TOK_LBRACE \<equiv> Punct PCT_LBRACE"
abbreviation TOK_RBRACE :: token_kind where "TOK_RBRACE \<equiv> Punct PCT_RBRACE"
abbreviation TOK_PIPE_BLOCK :: token_kind where "TOK_PIPE_BLOCK \<equiv> Punct PCT_PIPE_BLOCK"
abbreviation TOK_ARROW :: token_kind where "TOK_ARROW \<equiv> Punct PCT_ARROW"
abbreviation TOK_LAMBDA :: token_kind where "TOK_LAMBDA \<equiv> Punct PCT_LAMBDA"
abbreviation TOK_QUESTION :: token_kind where "TOK_QUESTION \<equiv> Punct PCT_QUESTION"

abbreviation TOK_PLUS_EQ :: token_kind where "TOK_PLUS_EQ \<equiv> Assign ASG_PLUS_EQ"
abbreviation TOK_MINUS_EQ :: token_kind where "TOK_MINUS_EQ \<equiv> Assign ASG_MINUS_EQ"
abbreviation TOK_STAR_EQ :: token_kind where "TOK_STAR_EQ \<equiv> Assign ASG_STAR_EQ"
abbreviation TOK_SLASH_EQ :: token_kind where "TOK_SLASH_EQ \<equiv> Assign ASG_SLASH_EQ"
abbreviation TOK_PERCENT_EQ :: token_kind where "TOK_PERCENT_EQ \<equiv> Assign ASG_PERCENT_EQ"
abbreviation TOK_AMP_EQ :: token_kind where "TOK_AMP_EQ \<equiv> Assign ASG_AMP_EQ"
abbreviation TOK_PIPE_EQ :: token_kind where "TOK_PIPE_EQ \<equiv> Assign ASG_PIPE_EQ"
abbreviation TOK_CARET_EQ :: token_kind where "TOK_CARET_EQ \<equiv> Assign ASG_CARET_EQ"
abbreviation TOK_LSHIFT_EQ :: token_kind where "TOK_LSHIFT_EQ \<equiv> Assign ASG_LSHIFT_EQ"
abbreviation TOK_RSHIFT_EQ :: token_kind where "TOK_RSHIFT_EQ \<equiv> Assign ASG_RSHIFT_EQ"
abbreviation TOK_STAR2_EQ :: token_kind where "TOK_STAR2_EQ \<equiv> Assign ASG_STAR2_EQ"
abbreviation TOK_AMP2_EQ :: token_kind where "TOK_AMP2_EQ \<equiv> Assign ASG_AMP2_EQ"
abbreviation TOK_PIPE2_EQ :: token_kind where "TOK_PIPE2_EQ \<equiv> Assign ASG_PIPE2_EQ"

abbreviation TOK_NEWLINE :: token_kind where "TOK_NEWLINE \<equiv> Struct STR_NEWLINE"
abbreviation TOK_EOF :: token_kind where "TOK_EOF \<equiv> Struct STR_EOF"
abbreviation TOK_ERROR :: token_kind where "TOK_ERROR \<equiv> Struct STR_ERROR"

subsection \<open>Names and keywords\<close>

definition token_kind_name :: "token_kind \<Rightarrow> string" where
  "token_kind_name k =
    (case k of
       TOK_INT \<Rightarrow> ''INT'' | TOK_FLOAT \<Rightarrow> ''FLOAT''
     | TOK_RATIONAL \<Rightarrow> ''RATIONAL'' | TOK_IMAGINARY \<Rightarrow> ''IMAGINARY''
     | TOK_STRING \<Rightarrow> ''STRING'' | TOK_SYMBOL \<Rightarrow> ''SYMBOL''
     | TOK_HEREDOC \<Rightarrow> ''HEREDOC'' | TOK_REGEXP \<Rightarrow> ''REGEXP''
     | TOK_INTERP_BEG \<Rightarrow> ''INTERP_BEG'' | TOK_INTERP_LIT \<Rightarrow> ''INTERP_LIT''
     | TOK_INTERP_EXPR_BEG \<Rightarrow> ''INTERP_EXPR_BEG''
     | TOK_INTERP_EXPR_END \<Rightarrow> ''INTERP_EXPR_END''
     | TOK_INTERP_END \<Rightarrow> ''INTERP_END'' | TOK_IDENT \<Rightarrow> ''IDENT''
     | TOK_CONST \<Rightarrow> ''CONST'' | TOK_IVAR \<Rightarrow> ''IVAR''
     | TOK_CVAR \<Rightarrow> ''CVAR'' | TOK_GVAR \<Rightarrow> ''GVAR''
     | TOK_NIL \<Rightarrow> ''nil'' | TOK_TRUE \<Rightarrow> ''true''
     | TOK_FALSE \<Rightarrow> ''false'' | TOK_SELF \<Rightarrow> ''self''
     | TOK_IF \<Rightarrow> ''if'' | TOK_UNLESS \<Rightarrow> ''unless''
     | TOK_THEN \<Rightarrow> ''then'' | TOK_ELSIF \<Rightarrow> ''elsif''
     | TOK_ELSE \<Rightarrow> ''else'' | TOK_END \<Rightarrow> ''end''
     | TOK_WHILE \<Rightarrow> ''while'' | TOK_UNTIL \<Rightarrow> ''until''
     | TOK_DO \<Rightarrow> ''do'' | TOK_DEF \<Rightarrow> ''def''
     | TOK_CLASS \<Rightarrow> ''class'' | TOK_MODULE \<Rightarrow> ''module''
     | TOK_ALIAS \<Rightarrow> ''alias'' | TOK_RETURN \<Rightarrow> ''return''
     | TOK_BREAK \<Rightarrow> ''break'' | TOK_NEXT \<Rightarrow> ''next''
     | TOK_AND \<Rightarrow> ''and'' | TOK_OR \<Rightarrow> ''or'' | TOK_NOT \<Rightarrow> ''not''
     | TOK_IN \<Rightarrow> ''in'' | TOK_RESCUE \<Rightarrow> ''rescue''
     | TOK_ENSURE \<Rightarrow> ''ensure'' | TOK_BEGIN \<Rightarrow> ''begin''
     | TOK_YIELD \<Rightarrow> ''yield'' | TOK_SUPER \<Rightarrow> ''super''
     | TOK_CASE \<Rightarrow> ''case'' | TOK_WHEN \<Rightarrow> ''when''
     | TOK_DEFINED \<Rightarrow> ''defined?'' | TOK_WORDS \<Rightarrow> ''%w''
     | TOK_SYMBOLS \<Rightarrow> ''%i'' | TOK_PLUS \<Rightarrow> ''+''
     | TOK_MINUS \<Rightarrow> ''-'' | TOK_STAR \<Rightarrow> ''*'' | TOK_STAR2 \<Rightarrow> ''**''
     | TOK_SLASH \<Rightarrow> ''/'' | TOK_PERCENT \<Rightarrow> ''%'' | TOK_AMP \<Rightarrow> ''&''
     | TOK_ANDDOT \<Rightarrow> ''&.'' | TOK_AMP2 \<Rightarrow> ''&&''
     | TOK_PIPE \<Rightarrow> ''|'' | TOK_PIPE2 \<Rightarrow> ''||'' | TOK_CARET \<Rightarrow> ''^''
     | TOK_TILDE \<Rightarrow> ''~'' | TOK_LSHIFT \<Rightarrow> ''<<''
     | TOK_RSHIFT \<Rightarrow> ''>>'' | TOK_EQ \<Rightarrow> ''='' | TOK_EQ2 \<Rightarrow> ''==''
     | TOK_EQ3 \<Rightarrow> ''==='' | TOK_NEQ \<Rightarrow> ''!='' | TOK_LT \<Rightarrow> ''<''
     | TOK_LEQ \<Rightarrow> ''<='' | TOK_GT \<Rightarrow> ''>'' | TOK_GEQ \<Rightarrow> ''>=''
     | TOK_SPACESHIP \<Rightarrow> ''<=>'' | TOK_MATCH \<Rightarrow> ''=~''
     | TOK_NMATCH \<Rightarrow> ''!~'' | TOK_BANG \<Rightarrow> ''!'' | TOK_DOT \<Rightarrow> ''.''
     | TOK_DOT2 \<Rightarrow> ''..'' | TOK_DOT3 \<Rightarrow> ''...''
     | TOK_COLON \<Rightarrow> '':'' | TOK_COLON2 \<Rightarrow> ''::''
     | TOK_COMMA \<Rightarrow> '','' | TOK_SEMICOLON \<Rightarrow> '';''
     | TOK_LPAREN \<Rightarrow> ''('' | TOK_RPAREN \<Rightarrow> '')''
     | TOK_LBRACKET \<Rightarrow> ''['' | TOK_RBRACKET \<Rightarrow> '']''
     | TOK_LBRACE \<Rightarrow> ''{'' | TOK_RBRACE \<Rightarrow> ''}''
     | TOK_PIPE_BLOCK \<Rightarrow> ''|block|'' | TOK_ARROW \<Rightarrow> ''=>''
     | TOK_LAMBDA \<Rightarrow> ''->'' | TOK_QUESTION \<Rightarrow> ''?''
     | TOK_PLUS_EQ \<Rightarrow> ''+='' | TOK_MINUS_EQ \<Rightarrow> ''-=''
     | TOK_STAR_EQ \<Rightarrow> ''*='' | TOK_SLASH_EQ \<Rightarrow> ''/=''
     | TOK_PERCENT_EQ \<Rightarrow> ''%='' | TOK_AMP_EQ \<Rightarrow> ''&=''
     | TOK_PIPE_EQ \<Rightarrow> ''|='' | TOK_CARET_EQ \<Rightarrow> ''^=''
     | TOK_LSHIFT_EQ \<Rightarrow> ''<<='' | TOK_RSHIFT_EQ \<Rightarrow> ''>>=''
     | TOK_STAR2_EQ \<Rightarrow> ''**='' | TOK_AMP2_EQ \<Rightarrow> ''&&=''
     | TOK_PIPE2_EQ \<Rightarrow> ''||='' | TOK_NEWLINE \<Rightarrow> ''NEWLINE''
     | TOK_EOF \<Rightarrow> ''EOF'' | TOK_ERROR \<Rightarrow> ''ERROR''
     | TOK_FOR \<Rightarrow> ''???'' | TOK_RETRY \<Rightarrow> ''???'')"

definition KEYWORDS :: "(string \<times> token_kind) list" where
  "KEYWORDS =
    [(''nil'', TOK_NIL),
     (''true'', TOK_TRUE),
     (''false'', TOK_FALSE),
     (''self'', TOK_SELF),
     (''if'', TOK_IF),
     (''unless'', TOK_UNLESS),
     (''then'', TOK_THEN),
     (''elsif'', TOK_ELSIF),
     (''else'', TOK_ELSE),
     (''end'', TOK_END),
     (''while'', TOK_WHILE),
     (''until'', TOK_UNTIL),
     (''do'', TOK_DO),
     (''def'', TOK_DEF),
     (''class'', TOK_CLASS),
     (''module'', TOK_MODULE),
     (''alias'', TOK_ALIAS),
     (''return'', TOK_RETURN),
     (''break'', TOK_BREAK),
     (''next'', TOK_NEXT),
     (''and'', TOK_AND),
     (''or'', TOK_OR),
     (''not'', TOK_NOT),
     (''for'', TOK_FOR),
     (''in'', TOK_IN),
     (''rescue'', TOK_RESCUE),
     (''ensure'', TOK_ENSURE),
     (''begin'', TOK_BEGIN),
     (''yield'', TOK_YIELD),
     (''super'', TOK_SUPER),
     (''retry'', TOK_RETRY),
     (''case'', TOK_CASE),
     (''when'', TOK_WHEN),
     (''defined?'', TOK_DEFINED)]"

subsection \<open>Tokens\<close>

text \<open>
  \<open>t_sval\<close> is a pointer into the arena: \<open>None\<close> is \<open>NULL\<close>, and the list holds the bytes before
  the terminator the lexer writes. \<open>t_fval\<close> holds the bits of the \<open>double\<close>.
\<close>

record token =
  t_kind :: token_kind
  t_line :: u32
  t_col :: u32
  t_len :: u32
  t_sval :: "string option"
  t_slen :: nat
  t_ival :: i64
  t_fval :: u64

definition zero_token :: token where
  "zero_token = \<lparr>t_kind = TOK_INT, t_line = 0, t_col = 0, t_len = 0, t_sval = None, t_slen = 0,
     t_ival = 0, t_fval = 0\<rparr>"

end
