(* ===== verification/Clib.thy ===== *)
theory Clib
  imports Prelude
begin

section \<open>The C library functions the sources call\<close>

text \<open>
  \<open>strtoll\<close> as C23 defines it (the build asks for \<open>-std=c23\<close>, so base 0 also accepts the
  \<open>0b\<close> prefix), \<open>strcmp\<close> on byte lists, and the conversions to \<open>double\<close>: a \<open>double\<close> is the
  64-bit pattern of its IEEE 754 binary64 value, and a conversion rounds to nearest, ties to even.
\<close>

subsection \<open>Strings\<close>

text \<open>The bytes before the first terminator: what \<open>strlen\<close>, \<open>strcmp\<close> and \<open>strtoll\<close> see.\<close>

definition cstr :: "string \<Rightarrow> string" where
  "cstr s = takeWhile (\<lambda>c. c \<noteq> NUL) s"

definition streq :: "string \<Rightarrow> string \<Rightarrow> bool" where
  "streq a b \<longleftrightarrow> cstr a = cstr b"

lemma cstr_id [simp]: "NUL \<notin> set s \<Longrightarrow> cstr s = s"
  by (auto simp: cstr_def takeWhile_eq_all_conv)

lemma streq_refl [simp]: "streq a a"
  by (simp add: streq_def)

lemma streq_sym: "streq a b = streq b a"
  by (auto simp: streq_def)

subsection \<open>strtoll\<close>

definition digit_val :: "char \<Rightarrow> nat" where
  "digit_val c =
     (if isdigit c then byte c - 48
      else if islower c then byte c - 97 + 10
      else if isupper c then byte c - 65 + 10
      else 99)"

definition digits_value :: "nat \<Rightarrow> string \<Rightarrow> nat" where
  "digits_value b ds = foldl (\<lambda>v c. v * b + digit_val c) 0 ds"

definition LLONG_MAX :: int where "LLONG_MAX = 2 ^ 63 - 1"
definition LLONG_MIN :: int where "LLONG_MIN = - (2 ^ 63)"

fun strtoll_sign :: "string \<Rightarrow> bool \<times> string" where
  "strtoll_sign [] = (False, [])"
| "strtoll_sign (c # s) =
     (if c = CHR ''-'' then (True, s) else if c = CHR ''+'' then (False, s) else (False, c # s))"

definition has_prefix :: "char list \<Rightarrow> nat \<Rightarrow> string \<Rightarrow> bool" where
  "has_prefix letters b s \<longleftrightarrow>
     2 < length s \<and> s ! 0 = CHR ''0'' \<and> s ! 1 \<in> set letters \<and> digit_val (s ! 2) < b"

definition strtoll_base :: "nat \<Rightarrow> string \<Rightarrow> nat \<times> string" where
  "strtoll_base b s =
     (if (b = 0 \<or> b = 16) \<and> has_prefix ''xX'' 16 s then (16, drop 2 s)
      else if (b = 0 \<or> b = 2) \<and> has_prefix ''bB'' 2 s then (2, drop 2 s)
      else if b = 0 then (if s \<noteq> [] \<and> hd s = CHR ''0'' then (8, s) else (10, s))
      else (b, s))"

definition strtoll_int :: "string \<Rightarrow> nat \<Rightarrow> int" where
  "strtoll_int buf b =
     (let (neg, s) = strtoll_sign (dropWhile isspace (cstr buf));
          (base, t) = strtoll_base b s;
          v = int (digits_value base (takeWhile (\<lambda>c. digit_val c < base) t));
          i = (if neg then - v else v)
      in if i < LLONG_MIN then LLONG_MIN else if LLONG_MAX < i then LLONG_MAX else i)"

definition strtoll :: "string \<Rightarrow> nat \<Rightarrow> i64" where
  "strtoll buf b = word_of_int (strtoll_int buf b)"

lemma strtoll_int_range: "LLONG_MIN \<le> strtoll_int buf b \<and> strtoll_int buf b \<le> LLONG_MAX"
  by (simp add: strtoll_int_def LLONG_MIN_def LLONG_MAX_def Let_def split: prod.splits)

lemma sint_strtoll: "sint (strtoll buf b) = strtoll_int buf b"
proof -
  have "signed_take_bit 63 (strtoll_int buf b) = strtoll_int buf b"
    using strtoll_int_range [of buf b]
    by (intro signed_take_bit_int_eq_self) (simp_all add: LLONG_MIN_def LLONG_MAX_def)
  then show ?thesis by (simp add: strtoll_def sint_sbintrunc')
qed

subsection \<open>binary64\<close>

fun bit_length :: "nat \<Rightarrow> nat" where
  "bit_length n = (if n = 0 then 0 else Suc (bit_length (n div 2)))"

declare bit_length.simps [simp del]

definition round_half_even :: "nat \<Rightarrow> nat \<Rightarrow> nat" where
  "round_half_even n d =
     (let q = n div d; r = n mod d
      in if d < 2 * r \<or> 2 * r = d \<and> odd q then q + 1 else q)"

text \<open>The exponent \<open>e\<close> with \<open>2 ^ e \<le> n / d < 2 ^ (e + 1)\<close>.\<close>

definition ratio_exponent :: "nat \<Rightarrow> nat \<Rightarrow> int" where
  "ratio_exponent n d =
     (let k = int (bit_length n) - int (bit_length d)
      in if (if 0 \<le> k then d * 2 ^ nat k \<le> n else d \<le> n * 2 ^ nat (- k)) then k else k - 1)"

definition dbl_infinity :: nat where
  "dbl_infinity = 2047 * 2 ^ 52"

text \<open>The magnitude bits of the double nearest to \<open>n / d\<close>.\<close>

definition ratio_bits :: "nat \<Rightarrow> nat \<Rightarrow> nat" where
  "ratio_bits n d =
     (if n = 0 then 0
      else let e = max (ratio_exponent n d) (- 1022);
               k = 52 - e;
               q = (if 0 \<le> k then round_half_even (n * 2 ^ nat k) d
                    else round_half_even n (d * 2 ^ nat (- k)));
               b = nat (e + 1022) * 2 ^ 52 + q
           in if dbl_infinity \<le> b then dbl_infinity else b)"

definition dbl_of_ratio :: "bool \<Rightarrow> nat \<Rightarrow> nat \<Rightarrow> u64" where
  "dbl_of_ratio neg n d = word_of_nat ((if neg then 2 ^ 63 else 0) + ratio_bits n d)"

text \<open>The conversion \<open>(double)i\<close> of an \<open>int64_t\<close>.\<close>

definition dbl_of_int64 :: "i64 \<Rightarrow> u64" where
  "dbl_of_int64 i = dbl_of_ratio (sint i < 0) (nat \<bar>sint i\<bar>) 1"

text \<open>The operator \<open>==\<close> on doubles: a NaN equals nothing, and the two zeros are equal.\<close>

definition dbl_is_nan :: "u64 \<Rightarrow> bool" where
  "dbl_is_nan w \<longleftrightarrow> dbl_infinity < unat w mod 2 ^ 63"

definition dbl_eq :: "u64 \<Rightarrow> u64 \<Rightarrow> bool" where
  "dbl_eq a b \<longleftrightarrow> \<not> dbl_is_nan a \<and> \<not> dbl_is_nan b \<and>
     (a = b \<or> unat a mod 2 ^ 63 = 0 \<and> unat b mod 2 ^ 63 = 0)"

text \<open>
  \<open>strtod\<close> on the strings the lexer builds: decimal digits, an optional fraction and an optional
  exponent, taken as far as they are well formed.
\<close>

definition strtod_exponent :: "string \<Rightarrow> int" where
  "strtod_exponent s =
     (case s of [] \<Rightarrow> 0
      | c # t \<Rightarrow>
          if c = CHR ''e'' \<or> c = CHR ''E'' then
            (let (neg, u) = strtoll_sign t; v = int (digits_value 10 (takeWhile isdigit u))
             in if neg then - v else v)
          else 0)"

definition strtod :: "string \<Rightarrow> u64" where
  "strtod s =
     (let whole = takeWhile isdigit s; r = dropWhile isdigit s;
          (frac, t) = (case r of [] \<Rightarrow> ([], r)
             | c # u \<Rightarrow> if c = CHR ''.'' then (takeWhile isdigit u, dropWhile isdigit u) else ([], r));
          m = digits_value 10 (whole @ frac);
          e = strtod_exponent t - int (length frac)
      in if 0 \<le> e then dbl_of_ratio False (m * 10 ^ nat e) 1
         else dbl_of_ratio False m (10 ^ nat (- e)))"

end
