(* ===== verification/LexState.thy ===== *)
theory LexState
  imports Token Clib
begin

section \<open>The lexer: state and character access (src/lexer.h, src/lexer.c)\<close>

text \<open>
  The struct \<open>Lexer\<close> field by field. The source text is \<open>l_src\<close>; the buffer has a terminator at
  index \<open>len\<close>, which \<open>src_at\<close> returns. Buffers the lexer grows in the arena are lists, and the
  arena pointer itself is left out (see the theory Arena). The fixed arrays are lists of
  \<open>LEX_INTERP_DEPTH\<close> entries.
\<close>

datatype lex_state = LEX_EXPR_BEG | LEX_EXPR_END | LEX_EXPR_ARG | LEX_EXPR_MID

datatype lex_mode =
    LMODE_NORMAL | LMODE_INTERP_STR | LMODE_INTERP_BACKTICK | LMODE_INTERP_EXPR
  | LMODE_INTERP_REGEX

definition LEX_INTERP_DEPTH :: nat where
  "LEX_INTERP_DEPTH = 32"

record lexer =
  l_src :: string
  l_pos :: nat
  l_line :: u32
  l_line_start :: u32
  l_state :: lex_state
  l_imode :: "lex_mode list"
  l_imode_depth :: nat
  l_ibrace :: "nat list"
  l_hd_active :: bool
  l_hd_body_end :: nat
  l_hd_resume :: nat
  l_hd_resume_line :: u32
  l_hd_resume_line_start :: u32
  l_hd_body_line :: u32
  l_hd_body_line_start :: u32
  l_hd_min_indent :: nat
  l_hd_at_bol :: bool
  l_hd_imode_depth :: nat
  l_hd_pending :: bool
  l_hd_rol_start :: nat
  l_hd_rol_end :: nat
  l_hd_rol_line :: u32
  l_hd_rol_line_start :: u32
  l_hd_final_resume :: nat
  l_hd_final_resume_line :: u32
  l_hd_final_resume_line_start :: u32
  l_peeked :: token
  l_has_peeked :: bool
  l_local_vars :: "string list"
  l_had_space :: bool
  l_prev_was_dot :: bool
  l_after_def :: bool
  l_percent_close :: "char list"
  l_regex_in_class :: "bool list"

definition lexer_init :: "string \<Rightarrow> lexer" where
  "lexer_init src =
     \<lparr>l_src = src, l_pos = 0, l_line = 1, l_line_start = 0, l_state = LEX_EXPR_BEG,
      l_imode = replicate LEX_INTERP_DEPTH LMODE_NORMAL, l_imode_depth = 0,
      l_ibrace = replicate LEX_INTERP_DEPTH 0,
      l_hd_active = False, l_hd_body_end = 0, l_hd_resume = 0, l_hd_resume_line = 0,
      l_hd_resume_line_start = 0, l_hd_body_line = 0, l_hd_body_line_start = 0,
      l_hd_min_indent = 0, l_hd_at_bol = False, l_hd_imode_depth = 0,
      l_hd_pending = False, l_hd_rol_start = 0, l_hd_rol_end = 0, l_hd_rol_line = 0,
      l_hd_rol_line_start = 0, l_hd_final_resume = 0, l_hd_final_resume_line = 0,
      l_hd_final_resume_line_start = 0, l_peeked = zero_token, l_has_peeked = False,
      l_local_vars = [], l_had_space = False, l_prev_was_dot = False, l_after_def = False,
      l_percent_close = replicate LEX_INTERP_DEPTH NUL,
      l_regex_in_class = replicate LEX_INTERP_DEPTH False\<rparr>"

subsection \<open>Interpolation mode stack\<close>

definition imode_top :: "lexer \<Rightarrow> lex_mode" where
  "imode_top l = (if 0 < l_imode_depth l then l_imode l ! (l_imode_depth l - 1) else LMODE_NORMAL)"

definition imode_push :: "lex_mode \<Rightarrow> lexer \<Rightarrow> lexer" where
  "imode_push m l =
     (if l_imode_depth l < LEX_INTERP_DEPTH then
        l\<lparr>l_imode := (l_imode l)[l_imode_depth l := m],
          l_ibrace := (l_ibrace l)[l_imode_depth l := 0],
          l_imode_depth := l_imode_depth l + 1\<rparr>
      else l)"

definition imode_pop :: "lexer \<Rightarrow> lexer" where
  "imode_pop l = (if 0 < l_imode_depth l then l\<lparr>l_imode_depth := l_imode_depth l - 1\<rparr> else l)"

subsection \<open>Characters\<close>

definition src_at :: "lexer \<Rightarrow> nat \<Rightarrow> char" where
  "src_at l i = (if i < length (l_src l) then l_src l ! i else NUL)"

definition at_end :: "lexer \<Rightarrow> bool" where
  "at_end l \<longleftrightarrow> length (l_src l) \<le> l_pos l"

definition peek_ch :: "lexer \<Rightarrow> char" where
  "peek_ch l = (if at_end l then NUL else src_at l (l_pos l))"

definition peek2 :: "lexer \<Rightarrow> char" where
  "peek2 l = (if l_pos l + 1 < length (l_src l) then src_at l (l_pos l + 1) else NUL)"

text \<open>\<open>advance\<close> returns the character at the old position; the model reads it before the call.\<close>

definition advance :: "lexer \<Rightarrow> lexer" where
  "advance l =
     (let c = src_at l (l_pos l); l1 = l\<lparr>l_pos := l_pos l + 1\<rparr>
      in if c = CHR 0x0A
         then l1\<lparr>l_line := l_line l1 + 1, l_line_start := word_of_nat (l_pos l1)\<rparr>
         else l1)"

definition col_of :: "lexer \<Rightarrow> nat \<Rightarrow> u32" where
  "col_of l pos = word_of_nat pos - l_line_start l + 1"

lemma advance_simps [simp]:
  "l_src (advance l) = l_src l" "l_pos (advance l) = Suc (l_pos l)"
  "l_imode (advance l) = l_imode l" "l_imode_depth (advance l) = l_imode_depth l"
  "l_state (advance l) = l_state l" "l_has_peeked (advance l) = l_has_peeked l"
  "l_prev_was_dot (advance l) = l_prev_was_dot l" "l_local_vars (advance l) = l_local_vars l"
  by (simp_all add: advance_def Let_def)

lemma not_at_end: "\<not> at_end l \<longleftrightarrow> l_pos l < length (l_src l)"
  by (simp add: at_end_def not_le)

lemma peek_ch_at_end: "at_end l \<Longrightarrow> peek_ch l = NUL"
  by (simp add: peek_ch_def)

subsection \<open>Loops that advance\<close>

text \<open>
  The loop \<open>while (P(peek_ch(l))) advance(l)\<close>: \<open>P\<close> is false of the terminator, so the loop
  stops at the end of the source, as \<open>advance_while_unfold\<close> says.
\<close>

function advance_while :: "(char \<Rightarrow> bool) \<Rightarrow> lexer \<Rightarrow> lexer" where
  "advance_while P l = (if \<not> at_end l \<and> P (peek_ch l) then advance_while P (advance l) else l)"
  by pat_completeness auto
termination
  by (relation "measure (\<lambda>(P, l). length (l_src l) - l_pos l)") (auto simp: not_at_end)

declare advance_while.simps [simp del]

lemma advance_while_unfold:
  "\<not> P NUL \<Longrightarrow>
     advance_while P l = (if P (peek_ch l) then advance_while P (advance l) else l)"
  by (subst advance_while.simps) (auto simp: peek_ch_at_end)

text \<open>
  \<open>moves l l'\<close>: only the position and the line count differ, and the position did not go back.
\<close>

definition unmoved :: "lexer \<Rightarrow> lexer" where
  "unmoved l = l\<lparr>l_pos := 0, l_line := 0, l_line_start := 0\<rparr>"

definition moves :: "lexer \<Rightarrow> lexer \<Rightarrow> bool" where
  "moves l l' \<longleftrightarrow> l_pos l \<le> l_pos l' \<and> unmoved l = unmoved l'"

named_theorems lex_moves \<open>the scanning loops only move the position forward\<close>

lemma moves_refl [simp, intro]: "moves l l"
  by (simp add: moves_def)

lemma moves_trans [trans]: "moves l l' \<Longrightarrow> moves l' l'' \<Longrightarrow> moves l l''"
  by (simp add: moves_def)

lemma moves_advance [lex_moves]: "moves l (advance l)"
  by (simp add: moves_def unmoved_def advance_def Let_def)

lemma moves_advanceI [lex_moves]: "moves (advance l) l' \<Longrightarrow> moves l l'"
  using moves_advance moves_trans by blast

lemma moves_pos: "moves l l' \<Longrightarrow> l_pos l \<le> l_pos l'"
  by (simp add: moves_def)

lemma unmoved_simps [simp]:
  "l_src (unmoved l) = l_src l"
  "l_imode (unmoved l) = l_imode l"
  "l_imode_depth (unmoved l) = l_imode_depth l"
  "l_state (unmoved l) = l_state l"
  "l_hd_active (unmoved l) = l_hd_active l"
  "l_hd_pending (unmoved l) = l_hd_pending l"
  "l_has_peeked (unmoved l) = l_has_peeked l"
  "l_prev_was_dot (unmoved l) = l_prev_was_dot l"
  "l_local_vars (unmoved l) = l_local_vars l"
  "l_ibrace (unmoved l) = l_ibrace l"
  "l_percent_close (unmoved l) = l_percent_close l"
  "l_regex_in_class (unmoved l) = l_regex_in_class l"
  "l_hd_body_end (unmoved l) = l_hd_body_end l"
  "l_hd_rol_end (unmoved l) = l_hd_rol_end l"
  "l_hd_imode_depth (unmoved l) = l_hd_imode_depth l"
  "l_hd_rol_start (unmoved l) = l_hd_rol_start l"
  "l_hd_final_resume (unmoved l) = l_hd_final_resume l"
  "l_hd_resume (unmoved l) = l_hd_resume l"
  by (simp_all add: unmoved_def)

lemma movesD:
  assumes "moves l l'"
  shows "l_src l' = l_src l"
    "l_imode l' = l_imode l"
    "l_imode_depth l' = l_imode_depth l"
    "l_state l' = l_state l"
    "l_hd_active l' = l_hd_active l"
    "l_hd_pending l' = l_hd_pending l"
    "l_has_peeked l' = l_has_peeked l"
    "l_prev_was_dot l' = l_prev_was_dot l"
    "l_local_vars l' = l_local_vars l"
    "l_ibrace l' = l_ibrace l"
    "l_percent_close l' = l_percent_close l"
    "l_regex_in_class l' = l_regex_in_class l"
    "l_hd_body_end l' = l_hd_body_end l"
    "l_hd_rol_end l' = l_hd_rol_end l"
    "l_hd_imode_depth l' = l_hd_imode_depth l"
    "l_hd_rol_start l' = l_hd_rol_start l"
    "l_hd_final_resume l' = l_hd_final_resume l"
    "l_hd_resume l' = l_hd_resume l"
proof -
  have "unmoved l' = unmoved l" using assms by (simp add: moves_def)
  note u = arg_cong [OF this]
  show "l_src l' = l_src l" using u [of l_src] by simp
  show "l_imode l' = l_imode l" using u [of l_imode] by simp
  show "l_imode_depth l' = l_imode_depth l" using u [of l_imode_depth] by simp
  show "l_state l' = l_state l" using u [of l_state] by simp
  show "l_hd_active l' = l_hd_active l" using u [of l_hd_active] by simp
  show "l_hd_pending l' = l_hd_pending l" using u [of l_hd_pending] by simp
  show "l_has_peeked l' = l_has_peeked l" using u [of l_has_peeked] by simp
  show "l_prev_was_dot l' = l_prev_was_dot l" using u [of l_prev_was_dot] by simp
  show "l_local_vars l' = l_local_vars l" using u [of l_local_vars] by simp
  show "l_ibrace l' = l_ibrace l" using u [of l_ibrace] by simp
  show "l_percent_close l' = l_percent_close l" using u [of l_percent_close] by simp
  show "l_regex_in_class l' = l_regex_in_class l" using u [of l_regex_in_class] by simp
  show "l_hd_body_end l' = l_hd_body_end l" using u [of l_hd_body_end] by simp
  show "l_hd_rol_end l' = l_hd_rol_end l" using u [of l_hd_rol_end] by simp
  show "l_hd_imode_depth l' = l_hd_imode_depth l" using u [of l_hd_imode_depth] by simp
  show "l_hd_rol_start l' = l_hd_rol_start l" using u [of l_hd_rol_start] by simp
  show "l_hd_final_resume l' = l_hd_final_resume l" using u [of l_hd_final_resume] by simp
  show "l_hd_resume l' = l_hd_resume l" using u [of l_hd_resume] by simp
qed

lemma moves_advance_while [lex_moves]: "moves l (advance_while P l)"
proof (induction P l rule: advance_while.induct)
  case (1 P l)
  then show ?case by (subst advance_while.simps) (auto intro: lex_moves)
qed

lemma advance_while_less:
  "\<not> at_end l \<Longrightarrow> P (peek_ch l) \<Longrightarrow> l_pos l < l_pos (advance_while P l)"
  using moves_pos [OF moves_advance_while [of "advance l" P]]
  by (subst advance_while.simps) simp

lemma advance_while_le_length:
  "l_pos l \<le> length (l_src l) \<Longrightarrow> l_pos (advance_while P l) \<le> length (l_src l)"
proof (induction P l rule: advance_while.induct)
  case (1 P l)
  then show ?case by (subst advance_while.simps) (auto simp: not_at_end)
qed

definition is_blank :: "char \<Rightarrow> bool" where
  "is_blank c \<longleftrightarrow> c = CHR '' '' \<or> c = CHR 0x09 \<or> c = CHR 0x0D"

function skip_whitespace :: "lexer \<Rightarrow> lexer" where
  "skip_whitespace l =
     (if at_end l then l
      else let c = peek_ch l in
        if is_blank c then skip_whitespace ((advance l)\<lparr>l_had_space := True\<rparr>)
        else if c = CHR 0x5C \<and> peek2 l = CHR 0x0A then
          skip_whitespace ((advance (advance l))\<lparr>l_had_space := True\<rparr>)
        else if c = CHR ''#'' then
          skip_whitespace ((advance_while (\<lambda>c. c \<noteq> CHR 0x0A) l)\<lparr>l_had_space := True\<rparr>)
        else if c = CHR 0x0A \<and> l_prev_was_dot l then
          (let l1 = advance l
           in skip_whitespace (l1\<lparr>l_line := l_line l1 + 1, l_line_start := word_of_nat (l_pos l1),
                l_had_space := True\<rparr>))
        else l)"
  by pat_completeness auto
termination
proof (relation "measure (\<lambda>l. length (l_src l) - l_pos l)", goal_cases)
  case (4 l c)
  then have "peek_ch l = CHR ''#''" by simp
  then have "peek_ch l \<noteq> CHR 0x0A" by simp
  with 4 have "l_pos l < l_pos (advance_while (\<lambda>c. c \<noteq> CHR 0x0A) l)"
    by (intro advance_while_less) simp_all
  with 4 movesD(1) [OF moves_advance_while] show ?case by (simp add: not_at_end)
qed (auto simp: not_at_end)

declare skip_whitespace.simps [simp del]

subsection \<open>Local variables, tokens\<close>

definition lexer_is_local :: "lexer \<Rightarrow> string \<Rightarrow> bool" where
  "lexer_is_local l name = list_ex (\<lambda>e. streq e name) (l_local_vars l)"

definition lexer_mark_local :: "string option \<Rightarrow> lexer \<Rightarrow> lexer" where
  "lexer_mark_local name l =
     (case name of None \<Rightarrow> l
      | Some n \<Rightarrow>
          if list_ex (\<lambda>e. streq e n) (l_local_vars l) then l
          else l\<lparr>l_local_vars := n # l_local_vars l\<rparr>)"

definition make_tok :: "lexer \<Rightarrow> token_kind \<Rightarrow> nat \<Rightarrow> u32 \<Rightarrow> u32 \<Rightarrow> token" where
  "make_tok l k start start_line start_col =
     zero_token\<lparr>t_kind := k, t_line := start_line, t_col := start_col,
       t_len := word_of_nat (l_pos l) - word_of_nat start\<rparr>"

text \<open>\<open>intern\<close> copies \<open>len\<close> bytes from an offset of the source and terminates them.\<close>

definition intern :: "lexer \<Rightarrow> nat \<Rightarrow> nat \<Rightarrow> string" where
  "intern l start len = take len (drop start (l_src l))"

lemma lexer_mark_local_is_local: "lexer_is_local (lexer_mark_local (Some n) l) n"
  by (auto simp: lexer_is_local_def lexer_mark_local_def)

lemma make_tok_simps [simp]:
  "t_kind (make_tok l k s ln c) = k" "t_line (make_tok l k s ln c) = ln"
  "t_col (make_tok l k s ln c) = c"
  by (simp_all add: make_tok_def)

end
