(* ===== verification/LexLiteral.thy ===== *)
theory LexLiteral
  imports LexState
begin

section \<open>The lexer: literals, symbols and identifiers (src/lexer.c)\<close>

text \<open>
  The scanners of the tokens that are read in one call: numbers, single-quoted strings, percent
  lists and regexps, character literals, symbols and identifiers. Each takes the lexer and the
  start of the token and returns the token with the lexer after it.
\<close>

definition is_word_ch :: "char \<Rightarrow> bool" where
  "is_word_ch c \<longleftrightarrow> isalnum c \<or> c = CHR ''_''"

lemma is_word_ch_NUL [simp]: "\<not> is_word_ch NUL"
  by (simp add: is_word_ch_def)

subsection \<open>Numbers\<close>

text \<open>The buffer \<open>buf[64]\<close> of \<open>parse_int_with_underscores\<close>, \<open>bi\<close> bytes of it filled.\<close>

fun int_buf :: "string \<Rightarrow> nat \<Rightarrow> string" where
  "int_buf [] bi = []"
| "int_buf (c # s) bi =
     (if c = NUL \<or> 63 \<le> bi then []
      else if c \<noteq> CHR ''_'' then c # int_buf s (bi + 1)
      else int_buf s bi)"

definition parse_int_with_underscores :: "string \<Rightarrow> nat \<Rightarrow> i64" where
  "parse_int_with_underscores s base = strtoll (int_buf s 0) base"

definition scan_radix ::
  "lexer \<Rightarrow> nat \<Rightarrow> u32 \<Rightarrow> u32 \<Rightarrow> (char \<Rightarrow> bool) \<Rightarrow> nat \<Rightarrow> nat \<Rightarrow> token \<times> lexer" where
  "scan_radix l start sline scol P value_from base =
     (let l = advance_while P l
      in ((make_tok l TOK_INT start sline scol)
            \<lparr>t_ival := parse_int_with_underscores (drop value_from (l_src l)) base\<rparr>, l))"

definition scan_exponent :: "lexer \<Rightarrow> lexer" where
  "scan_exponent l =
     (let l = advance l;
          l = (if peek_ch l = CHR ''+'' \<or> peek_ch l = CHR ''-'' then advance l else l)
      in advance_while isdigit l)"

definition is_digit_or_us :: "char \<Rightarrow> bool" where
  "is_digit_or_us c \<longleftrightarrow> isdigit c \<or> c = CHR ''_''"

definition scan_number :: "lexer \<Rightarrow> nat \<Rightarrow> u32 \<Rightarrow> u32 \<Rightarrow> token \<times> lexer" where
  "scan_number l start sline scol =
     (if peek_ch l = CHR ''0'' \<and> (peek2 l = CHR ''x'' \<or> peek2 l = CHR ''X'') then
        scan_radix (advance (advance l)) start sline scol
          (\<lambda>c. isxdigit c \<or> c = CHR ''_'') start 0
      else if peek_ch l = CHR ''0'' \<and> (peek2 l = CHR ''b'' \<or> peek2 l = CHR ''B'') then
        scan_radix (advance (advance l)) start sline scol
          (\<lambda>c. c = CHR ''0'' \<or> c = CHR ''1'' \<or> c = CHR ''_'') start 0
      else if peek_ch l = CHR ''0'' \<and> (peek2 l = CHR ''o'' \<or> peek2 l = CHR ''O'') then
        (let l = advance (advance l)
         in scan_radix l start sline scol
              (\<lambda>c. (CHR ''0'' \<le> c \<and> c \<le> CHR ''7'') \<or> c = CHR ''_'') (l_pos l) 8)
      else
        (let l = advance_while is_digit_or_us l;
             (is_float, l) =
               (if peek_ch l = CHR ''.'' \<and> isdigit (peek2 l)
                then (True, advance_while is_digit_or_us (advance l)) else (False, l));
             (is_float, l) =
               (if peek_ch l = CHR ''e'' \<or> peek_ch l = CHR ''E''
                then (True, scan_exponent l) else (is_float, l));
             t = make_tok l (if is_float then TOK_FLOAT else TOK_INT) start sline scol;
             t = (if is_float
                  then t\<lparr>t_fval := strtod (take 63
                         (filter (\<lambda>c. c \<noteq> CHR ''_'') (intern l start (l_pos l - start))))\<rparr>
                  else t\<lparr>t_ival := parse_int_with_underscores (drop start (l_src l)) 10\<rparr>)
         in if peek_ch l = CHR ''r'' \<and> \<not> isalnum (peek2 l) \<and> peek2 l \<noteq> CHR ''_'' then
              (t\<lparr>t_kind := TOK_RATIONAL\<rparr>, advance l)
            else if peek_ch l = CHR ''i'' \<and> \<not> isalnum (peek2 l) \<and> peek2 l \<noteq> CHR ''_'' then
              (t\<lparr>t_kind := TOK_IMAGINARY\<rparr>, advance l)
            else (t, l)))"

subsection \<open>Single-quoted strings\<close>

function sq_loop :: "lexer \<Rightarrow> string \<Rightarrow> string \<times> lexer" where
  "sq_loop l buf =
     (if at_end l then (buf, l)
      else let c = peek_ch l in
        if c = CHR 0x27 then (buf, l)
        else if c = CHR 0x5C \<and> (peek2 l = CHR 0x27 \<or> peek2 l = CHR 0x5C) then
          (let l = advance l; c = peek_ch l in sq_loop (advance l) (buf @ [c]))
        else sq_loop (advance l) (buf @ [c]))"
  by pat_completeness auto
termination
  by (relation "measure (\<lambda>(l, _). length (l_src l) - l_pos l)") (auto simp: not_at_end)

declare sq_loop.simps [simp del]

definition scan_string_sq :: "lexer \<Rightarrow> nat \<Rightarrow> u32 \<Rightarrow> u32 \<Rightarrow> token \<times> lexer" where
  "scan_string_sq l start sline scol =
     (let (buf, l) = sq_loop l [];
          t = (make_tok l TOK_STRING start sline scol)
                \<lparr>t_sval := Some buf, t_slen := length buf\<rparr>
      in (t, if at_end l then l else advance l))"

subsection \<open>Percent lists and percent regexps\<close>

definition paired_delim :: "char \<Rightarrow> char" where
  "paired_delim open_ch =
     (if open_ch = CHR ''['' then CHR '']''
      else if open_ch = CHR ''('' then CHR '')''
      else if open_ch = CHR ''{'' then CHR ''}''
      else if open_ch = CHR ''<'' then CHR ''>''
      else open_ch)"

text \<open>The loop to the closing delimiter; \<open>None\<close> when the source ends first. The position
  returned is that of the delimiter.\<close>

function percent_loop :: "char \<Rightarrow> char \<Rightarrow> lexer \<Rightarrow> int \<Rightarrow> bool \<times> lexer" where
  "percent_loop open_ch close_ch l depth =
     (if at_end l then (False, l)
      else let c = peek_ch l in
        if c = CHR 0x5C then
          (let l = advance l
           in percent_loop open_ch close_ch (if at_end l then l else advance l) depth)
        else if open_ch \<noteq> close_ch \<and> c = open_ch then
          percent_loop open_ch close_ch (advance l) (depth + 1)
        else if c = close_ch then
          (if depth = 0 then (True, l) else percent_loop open_ch close_ch (advance l) (depth - 1))
        else percent_loop open_ch close_ch (advance l) depth)"
  by pat_completeness auto
termination
  by (relation "measure (\<lambda>(_, _, l, _). length (l_src l) - l_pos l)") (auto simp: not_at_end)

declare percent_loop.simps [simp del]

definition unterminated :: "lexer \<Rightarrow> nat \<Rightarrow> u32 \<Rightarrow> u32 \<Rightarrow> token" where
  "unterminated l start sline scol =
     (make_tok l TOK_ERROR start sline scol)\<lparr>t_sval := Some ''unterminated percent literal''\<rparr>"

definition scan_percent_list :: "lexer \<Rightarrow> nat \<Rightarrow> u32 \<Rightarrow> u32 \<Rightarrow> token_kind \<Rightarrow> token \<times> lexer" where
  "scan_percent_list l start sline scol k =
     (let l = advance l
      in if at_end l then (unterminated l start sline scol, l)
         else
           (let open_ch = src_at l (l_pos l); l = advance l;
                content_start = l_pos l;
                (found, l) = percent_loop open_ch (paired_delim open_ch) l 0
            in if found
               then ((make_tok l k start sline scol)
                       \<lparr>t_sval := Some (intern l content_start (l_pos l - content_start))\<rparr>,
                     advance l)
               else (unterminated l start sline scol, l)))"

text \<open>The regexp flags, \<open>i = 1\<close>, \<open>m = 2\<close>, \<open>x = 4\<close>; other letters are skipped.\<close>

function regexp_flags :: "lexer \<Rightarrow> i64 \<Rightarrow> i64 \<times> lexer" where
  "regexp_flags l flags =
     (if at_end l then (flags, l)
      else let f = peek_ch l in
        if f = CHR ''i'' then regexp_flags (advance l) (flags OR 1)
        else if f = CHR ''m'' then regexp_flags (advance l) (flags OR 2)
        else if f = CHR ''x'' then regexp_flags (advance l) (flags OR 4)
        else if isalpha f then regexp_flags (advance l) flags
        else (flags, l))"
  by pat_completeness auto
termination
  by (relation "measure (\<lambda>(l, _). length (l_src l) - l_pos l)") (auto simp: not_at_end)

declare regexp_flags.simps [simp del]

definition scan_percent_regexp :: "lexer \<Rightarrow> nat \<Rightarrow> u32 \<Rightarrow> u32 \<Rightarrow> token \<times> lexer" where
  "scan_percent_regexp l start sline scol =
     (let l = advance l
      in if at_end l then (unterminated l start sline scol, l)
         else
           (let open_ch = src_at l (l_pos l); l = advance l;
                content_start = l_pos l;
                (found, l) = percent_loop open_ch (paired_delim open_ch) l 0
            in if found then
                 (let t = (make_tok l TOK_REGEXP start sline scol)
                        \<lparr>t_sval := Some (intern l content_start (l_pos l - content_start))\<rparr>;
                      (flags, l) = regexp_flags (advance l) 0
                  in (t\<lparr>t_ival := flags\<rparr>, l))
               else (unterminated l start sline scol, l)))"

subsection \<open>Character literals\<close>

definition char_escape :: "char \<Rightarrow> char" where
  "char_escape esc =
     (if esc = CHR ''n'' then CHR 0x0A
      else if esc = CHR ''t'' then CHR 0x09
      else if esc = CHR ''r'' then CHR 0x0D
      else if esc = CHR ''e'' then CHR 0x1B
      else esc)"

text \<open>The token is made before the character is read, so its length is that of the \<open>?\<close>.\<close>

definition scan_char_literal :: "lexer \<Rightarrow> nat \<Rightarrow> u32 \<Rightarrow> u32 \<Rightarrow> token \<times> lexer" where
  "scan_char_literal l start sline scol =
     (let t = make_tok l TOK_STRING start sline scol
      in if at_end l then (t\<lparr>t_sval := Some []\<rparr>, l)
         else
           (let c = src_at l (l_pos l); l = advance l;
                (b, l) = (if c = CHR 0x5C \<and> \<not> at_end l
                          then (char_escape (src_at l (l_pos l)), advance l) else (c, l))
            in (t\<lparr>t_sval := Some [b], t_slen := 1\<rparr>, l)))"

subsection \<open>Symbols\<close>

definition advance_if :: "(char \<Rightarrow> bool) \<Rightarrow> lexer \<Rightarrow> lexer" where
  "advance_if P l = (if P (peek_ch l) then advance l else l)"

definition scan_operator_symbol :: "lexer \<Rightarrow> lexer" where
  "scan_operator_symbol l =
     (let c = peek_ch l in
      if c \<in> set ''+-%~&|^'' then advance l
      else if c = CHR ''*'' then advance_if (\<lambda>c. c = CHR ''*'') (advance l)
      else if c = CHR ''/'' then advance l
      else if c = CHR ''<'' then
        (let l = advance l in
         if peek_ch l = CHR ''<'' then advance l
         else if peek_ch l = CHR ''='' then advance_if (\<lambda>c. c = CHR ''>'') (advance l)
         else l)
      else if c = CHR ''>'' then
        advance_if (\<lambda>c. c = CHR ''>'' \<or> c = CHR ''='') (advance l)
      else if c = CHR ''='' then
        (let l = advance l in
         if peek_ch l = CHR ''='' then advance_if (\<lambda>c. c = CHR ''='') (advance l)
         else if peek_ch l = CHR ''~'' then advance l
         else l)
      else if c = CHR ''!'' then
        advance_if (\<lambda>c. c = CHR ''='' \<or> c = CHR ''~'') (advance l)
      else if c = CHR ''['' then
        (let l = advance l in
         if peek_ch l = CHR '']'' then advance_if (\<lambda>c. c = CHR ''='') (advance l) else l)
      else l)"

definition scan_symbol_name :: "lexer \<Rightarrow> lexer" where
  "scan_symbol_name l =
     (if isalpha (peek_ch l) \<or> peek_ch l = CHR ''_'' then
        advance_if (\<lambda>c. c = CHR ''?'' \<or> c = CHR ''!'' \<or> c = CHR ''='') (advance_while is_word_ch l)
      else if peek_ch l = CHR ''@'' then
        advance_while is_word_ch (advance_if (\<lambda>c. c = CHR ''@'') (advance l))
      else if peek_ch l = CHR ''$'' then
        (let l = advance l in
         if is_word_ch (peek_ch l) then advance_while is_word_ch l
         else if peek_ch l \<noteq> NUL then advance l
         else l)
      else scan_operator_symbol l)"

definition scan_symbol :: "lexer \<Rightarrow> nat \<Rightarrow> u32 \<Rightarrow> u32 \<Rightarrow> token \<times> lexer" where
  "scan_symbol l start sline scol =
     (if peek_ch l = CHR 0x22 then
        (let l = imode_push LMODE_INTERP_STR (advance l)
         in ((make_tok l TOK_INTERP_BEG start sline scol)\<lparr>t_ival := 2\<rparr>, l))
      else if peek_ch l = CHR 0x27 then
        (let (inner, l) = scan_string_sq (advance l) start sline scol
         in (inner\<lparr>t_kind := TOK_SYMBOL\<rparr>, l))
      else
        (let sym_start = l_pos l; l = scan_symbol_name l
         in ((make_tok l TOK_SYMBOL start sline scol)
               \<lparr>t_sval := Some (intern l sym_start (l_pos l - sym_start))\<rparr>, l)))"

subsection \<open>Identifiers and keywords\<close>

definition scan_ident :: "lexer \<Rightarrow> nat \<Rightarrow> u32 \<Rightarrow> u32 \<Rightarrow> token \<times> lexer" where
  "scan_ident l start sline scol =
     (let l = advance_if (\<lambda>c. c = CHR ''?'' \<or> c = CHR ''!'') (advance_while is_word_ch l);
          word = intern l start (l_pos l - start)
      in (case map_of KEYWORDS word of
            Some k \<Rightarrow> ((make_tok l k start sline scol)\<lparr>t_sval := Some word\<rparr>, l)
          | None \<Rightarrow>
              ((make_tok l (if isupper (src_at l start) then TOK_CONST else TOK_IDENT)
                  start sline scol)\<lparr>t_sval := Some word\<rparr>, l)))"

end
