(* ===== verification/LexInterp.thy ===== *)
theory LexInterp
  imports LexLiteral
begin

section \<open>The lexer: interpolated strings, heredocs and regexps (src/lexer.c)\<close>

text \<open>
  The scanners that run while a mode is on the mode stack. Each call returns one token: a literal
  segment, the start of an interpolated expression (which pushes a mode), or the end of the
  literal (which pops one). \<open>buf\<close> is the arena buffer the loop fills; its terminator is left out.
\<close>

subsection \<open>Escapes\<close>

definition hex_digit :: "char \<Rightarrow> nat option" where
  "hex_digit h =
     (if CHR ''0'' \<le> h \<and> h \<le> CHR ''9'' then Some (byte h - byte (CHR ''0''))
      else if CHR ''a'' \<le> h \<and> h \<le> CHR ''f'' then Some (byte h - byte (CHR ''a'') + 10)
      else if CHR ''A'' \<le> h \<and> h \<le> CHR ''F'' then Some (byte h - byte (CHR ''A'') + 10)
      else None)"

definition is_octal :: "char \<Rightarrow> bool" where
  "is_octal c \<longleftrightarrow> CHR ''0'' \<le> c \<and> c \<le> CHR ''7''"

text \<open>\<open>fuel\<close> counts the digits an escape may still take.\<close>

primrec hex_escape :: "nat \<Rightarrow> lexer \<Rightarrow> nat \<Rightarrow> nat \<times> lexer" where
  "hex_escape 0 l val = (val, l)"
| "hex_escape (Suc fuel) l val =
     (if at_end l then (val, l)
      else case hex_digit (peek_ch l) of
        Some d \<Rightarrow> hex_escape fuel (advance l) (val * 16 + d)
      | None \<Rightarrow> (val, l))"

primrec octal_escape :: "nat \<Rightarrow> lexer \<Rightarrow> nat \<Rightarrow> nat \<times> lexer" where
  "octal_escape 0 l val = (val, l)"
| "octal_escape (Suc fuel) l val =
     (if \<not> at_end l \<and> is_octal (peek_ch l)
      then octal_escape fuel (advance l) (val * 8 + (byte (peek_ch l) - byte (CHR ''0'')))
      else (val, l))"

text \<open>Other characters than hex digits are skipped; \<open>cp\<close> is an \<open>unsigned long\<close>.\<close>

definition cp_digit :: "u64 \<Rightarrow> char \<Rightarrow> u64" where
  "cp_digit cp h = (case hex_digit h of Some d \<Rightarrow> cp * 16 + word_of_nat d | None \<Rightarrow> cp)"

function braced_escape :: "lexer \<Rightarrow> u64 \<Rightarrow> u64 \<times> lexer" where
  "braced_escape l cp =
     (if \<not> at_end l \<and> peek_ch l \<noteq> CHR ''}''
      then braced_escape (advance l) (cp_digit cp (peek_ch l))
      else (cp, l))"
  by pat_completeness auto
termination
  by (relation "measure (\<lambda>(l, _). length (l_src l) - l_pos l)") (auto simp: not_at_end)

declare braced_escape.simps [simp del]

primrec four_escape :: "nat \<Rightarrow> lexer \<Rightarrow> u64 \<Rightarrow> u64 \<times> lexer" where
  "four_escape 0 l cp = (cp, l)"
| "four_escape (Suc fuel) l cp =
     (if at_end l then (cp, l) else four_escape fuel (advance l) (cp_digit cp (peek_ch l)))"

definition low_byte :: "u64 \<Rightarrow> char" where
  "low_byte w = char_of (unat w)"

definition push_codepoint :: "u64 \<Rightarrow> string" where
  "push_codepoint cp =
     (if cp < 0x80 then [low_byte cp]
      else if cp < 0x800 then
        [low_byte (0xC0 OR drop_bit 6 cp), low_byte (0x80 OR (cp AND 0x3F))]
      else if cp < 0x10000 then
        [low_byte (0xE0 OR drop_bit 12 cp), low_byte (0x80 OR (drop_bit 6 cp AND 0x3F)),
         low_byte (0x80 OR (cp AND 0x3F))]
      else
        [low_byte (0xF0 OR drop_bit 18 cp), low_byte (0x80 OR (drop_bit 12 cp AND 0x3F)),
         low_byte (0x80 OR (drop_bit 6 cp AND 0x3F)), low_byte (0x80 OR (cp AND 0x3F))])"

text \<open>The one-character escapes of \<open>scan_interp_str_content\<close>.\<close>

definition simple_escape :: "char \<Rightarrow> char option" where
  "simple_escape esc =
     (if esc = CHR ''n'' then Some (CHR 0x0A)
      else if esc = CHR ''t'' then Some (CHR 0x09)
      else if esc = CHR ''r'' then Some (CHR 0x0D)
      else if esc = CHR ''e'' then Some (CHR 0x1B)
      else if esc = CHR ''a'' then Some (CHR 0x07)
      else if esc = CHR ''b'' then Some (CHR 0x08)
      else if esc = CHR ''f'' then Some (CHR 0x0C)
      else if esc = CHR ''v'' then Some (CHR 0x0B)
      else if esc = CHR ''s'' then Some (CHR '' '')
      else if esc \<in> {CHR 0x5C, CHR 0x22, CHR 0x60, CHR ''#'', CHR 0x27, CHR ''/''} then Some esc
      else None)"

definition unicode_escape :: "lexer \<Rightarrow> string \<times> lexer" where
  "unicode_escape l =
     (if \<not> at_end l \<and> peek_ch l = CHR ''{'' then
        (let (cp, l) = braced_escape (advance l) 0;
             l = (if at_end l then l else advance l)
         in (push_codepoint cp, l))
      else
        (let (cp, l) = four_escape 4 l 0
         in (if cp < 0x10000 then push_codepoint cp else [], l)))"

text \<open>The escape whose letter \<open>esc\<close> has been read: the bytes pushed and the lexer after it.\<close>

definition interp_escape :: "char \<Rightarrow> lexer \<Rightarrow> string \<times> lexer" where
  "interp_escape esc l =
     (case simple_escape esc of
        Some b \<Rightarrow> ([b], l)
      | None \<Rightarrow>
          if esc = CHR ''x'' then
            (let (val, l') = hex_escape 2 l 0
             in (if l_pos l' = l_pos l then [CHR ''x''] else [char_of val], l'))
          else if esc = CHR ''u'' then unicode_escape l
          else if is_octal esc then
            (let (val, l) = octal_escape 2 l (byte esc - byte (CHR ''0''))
             in ([char_of val], l))
          else ([CHR 0x5C, esc], l))"

lemma hex_escape_moves [lex_moves]: "moves l (snd (hex_escape n l v))"
  by (induction n arbitrary: l v) (auto split: option.split intro: lex_moves)

lemma octal_escape_moves [lex_moves]: "moves l (snd (octal_escape n l v))"
  by (induction n arbitrary: l v) (auto intro: lex_moves)

lemma four_escape_moves [lex_moves]: "moves l (snd (four_escape n l v))"
  by (induction n arbitrary: l v) (auto intro: lex_moves)

lemma braced_escape_moves [lex_moves]: "moves l (snd (braced_escape l v))"
proof (induction l v rule: braced_escape.induct)
  case (1 l cp)
  then show ?case by (subst braced_escape.simps) (auto intro: lex_moves)
qed

lemma unicode_escape_moves [lex_moves]: "moves l (snd (unicode_escape l))"
proof -
  have b: "moves l l1" "moves l (advance l1)" if "braced_escape (advance l) 0 = (cp, l1)" for cp l1
    using braced_escape_moves [of "advance l" 0] that
    by (auto intro: moves_advanceI moves_trans [OF _ moves_advance])
  have f: "moves l l1" if "four_escape 4 l 0 = (cp, l1)" for cp l1
    using four_escape_moves [of l 4 0] that by simp
  show ?thesis
    by (auto simp: unicode_escape_def Let_def b f split: prod.split)
qed

lemma interp_escape_moves [lex_moves]: "moves l (snd (interp_escape esc l))"
proof -
  have h: "moves l l1" if "hex_escape 2 l 0 = (v, l1)" for v l1
    using hex_escape_moves [of l 2 0] that by simp
  have o': "moves l l1" if "octal_escape 2 l w = (v, l1)" for v w l1
    using octal_escape_moves [of l 2 w] that by simp
  show ?thesis
    by (auto simp: interp_escape_def Let_def h o' unicode_escape_moves
        split: option.split prod.split)
qed

subsection \<open>String content\<close>

definition at_interp :: "lexer \<Rightarrow> bool" where
  "at_interp l \<longleftrightarrow> peek_ch l = CHR ''#'' \<and> peek2 l = CHR ''{''"

function interp_loop :: "char \<Rightarrow> lexer \<Rightarrow> string \<Rightarrow> string \<times> lexer" where
  "interp_loop close_ch l buf =
     (if at_end l then (buf, l)
      else let c = peek_ch l in
        if c = close_ch \<or> at_interp l then (buf, l)
        else if c = CHR 0x5C then
          (if at_end (advance l) then (buf, advance l)
           else case interp_escape (peek_ch (advance l)) (advance (advance l)) of
             (bs, l) \<Rightarrow> interp_loop close_ch l (buf @ bs))
        else interp_loop close_ch (advance l) (buf @ [c]))"
  by pat_completeness auto
termination
proof (relation "measure (\<lambda>(_, l, _). length (l_src l) - l_pos l)", goal_cases)
  case (2 close_ch l buf c bs l')
  then have "moves (advance (advance l)) l'"
    using interp_escape_moves [of "advance (advance l)" "peek_ch (advance l)"]
    by (metis snd_conv)
  from moves_pos [OF this] movesD(1) [OF this] 2 show ?case by (auto simp: not_at_end)
qed (auto simp: not_at_end)

declare interp_loop.simps [simp del]

definition interp_tok :: "token_kind \<Rightarrow> u32 \<Rightarrow> u32 \<Rightarrow> u32 \<Rightarrow> token" where
  "interp_tok k sline scol len =
     zero_token\<lparr>t_kind := k, t_line := sline, t_col := scol, t_len := len\<rparr>"

definition interp_close_ch :: "lexer \<Rightarrow> char" where
  "interp_close_ch l =
     (if imode_top l = LMODE_INTERP_BACKTICK then CHR 0x60
      else if l_percent_close l ! (l_imode_depth l - 1) \<noteq> NUL
        then l_percent_close l ! (l_imode_depth l - 1)
      else CHR 0x22)"

definition scan_interp_str_content :: "lexer \<Rightarrow> token \<times> lexer" where
  "scan_interp_str_content l =
     (let start = l_pos l; sline = l_line l; scol = col_of l start; close_ch = interp_close_ch l
      in if at_end l \<or> peek_ch l = close_ch then
           (let l = (if at_end l then l else advance l);
                l = (if 0 < l_imode_depth l
                     then l\<lparr>l_percent_close := (l_percent_close l)[l_imode_depth l - 1 := NUL]\<rparr>
                     else l)
            in ((interp_tok TOK_INTERP_END sline scol 1)
                  \<lparr>t_ival := (if close_ch = CHR 0x60 then 1 else 0)\<rparr>, imode_pop l))
         else if at_interp l then
           (interp_tok TOK_INTERP_EXPR_BEG sline scol 2,
            imode_push LMODE_INTERP_EXPR (advance (advance l)))
         else
           (let (buf, l) = interp_loop close_ch l []
            in ((interp_tok TOK_INTERP_LIT sline scol (word_of_nat (l_pos l - start)))
                  \<lparr>t_sval := Some buf, t_slen := length buf\<rparr>, l)))"

subsection \<open>Regexp content\<close>

definition in_regex_class :: "lexer \<Rightarrow> bool" where
  "in_regex_class l = l_regex_in_class l ! (l_imode_depth l - 1)"

definition set_regex_class :: "bool \<Rightarrow> lexer \<Rightarrow> lexer" where
  "set_regex_class b l = l\<lparr>l_regex_in_class := (l_regex_in_class l)[l_imode_depth l - 1 := b]\<rparr>"

definition track_regex_class :: "char \<Rightarrow> lexer \<Rightarrow> lexer" where
  "track_regex_class c l =
     (if c = CHR ''['' \<and> \<not> in_regex_class l then set_regex_class True l
      else if c = CHR '']'' \<and> in_regex_class l then set_regex_class False l
      else l)"

lemma track_regex_class_simps [simp]:
  "l_src (track_regex_class c l) = l_src l" "l_pos (track_regex_class c l) = l_pos l"
  "l_imode (track_regex_class c l) = l_imode l"
  "l_imode_depth (track_regex_class c l) = l_imode_depth l"
  "length (l_regex_in_class (track_regex_class c l)) = length (l_regex_in_class l)"
  by (simp_all add: track_regex_class_def set_regex_class_def)

function interp_regex_loop :: "lexer \<Rightarrow> string \<Rightarrow> string \<times> lexer" where
  "interp_regex_loop l buf =
     (if at_end l then (buf, l)
      else let c = peek_ch l in
        if c = CHR ''/'' \<and> \<not> in_regex_class l \<or> at_interp l then (buf, l)
        else
          (let l = advance l in
           if c = CHR 0x5C then
             (if at_end l then interp_regex_loop l (buf @ [c])
              else interp_regex_loop (advance l) (buf @ [c, peek_ch l]))
           else interp_regex_loop (track_regex_class c l) (buf @ [c])))"
  by pat_completeness auto
termination
  by (relation "measure (\<lambda>(l, _). length (l_src l) - l_pos l)") (auto simp: not_at_end)

declare interp_regex_loop.simps [simp del]

definition scan_interp_regex_content :: "lexer \<Rightarrow> token \<times> lexer" where
  "scan_interp_regex_content l =
     (let start = l_pos l; sline = l_line l; scol = col_of l start
      in if \<not> at_end l \<and> peek_ch l = CHR ''/'' \<and> \<not> in_regex_class l then
           (let (flags, l) = regexp_flags (advance l) 0
            in ((interp_tok TOK_INTERP_END sline scol 0)\<lparr>t_ival := flags OR 0x100\<rparr>, imode_pop l))
         else if at_end l then
           ((interp_tok TOK_INTERP_END sline scol 0)\<lparr>t_ival := 0x100\<rparr>, imode_pop l)
         else if at_interp l then
           (interp_tok TOK_INTERP_EXPR_BEG sline scol 2,
            imode_push LMODE_INTERP_EXPR (advance (advance l)))
         else
           (let (buf, l) = interp_regex_loop l []
            in ((interp_tok TOK_INTERP_LIT sline scol 0)
                  \<lparr>t_sval := Some buf, t_slen := length buf\<rparr>, l)))"

end
