(* ===== verification/LexHeredoc.thy ===== *)
theory LexHeredoc
  imports LexInterp
begin

section \<open>The lexer: heredocs and regexp literals (src/lexer.c)\<close>

text \<open>
  A heredoc moves the lexer to the body of the literal, and back to the rest of the line that
  started it once the body is done: \<open>hd_active\<close> is set while the body is scanned, \<open>hd_pending\<close>
  while the rest of the line is.
\<close>

subsection \<open>Indentation\<close>

definition is_indent :: "char \<Rightarrow> bool" where
  "is_indent c \<longleftrightarrow> c = CHR '' '' \<or> c = CHR 0x09"

text \<open>The loop \<open>while (i < end && P(src[i])) i++\<close>.\<close>

function index_while :: "(char \<Rightarrow> bool) \<Rightarrow> string \<Rightarrow> nat \<Rightarrow> nat \<Rightarrow> nat" where
  "index_while P src i e = (if i < e \<and> P (src ! i) then index_while P src (i + 1) e else i)"
  by pat_completeness auto
termination
  by (relation "measure (\<lambda>(_, _, i, e). e - i)") auto

declare index_while.simps [simp del]

lemma index_while_ge: "i \<le> index_while P src i e"
proof (induction P src i e rule: index_while.induct)
  case (1 P src i e)
  then show ?case by (subst index_while.simps) auto
qed

lemma index_while_le: "i \<le> e \<Longrightarrow> index_while P src i e \<le> e"
proof (induction P src i e rule: index_while.induct)
  case (1 P src i e)
  then show ?case by (subst index_while.simps) auto
qed

definition is_not_nl :: "char \<Rightarrow> bool" where
  "is_not_nl c \<longleftrightarrow> c \<noteq> CHR 0x0A"

definition line_end :: "string \<Rightarrow> nat \<Rightarrow> nat \<Rightarrow> nat" where
  "line_end src i e = index_while is_not_nl src i e"

definition next_line :: "string \<Rightarrow> nat \<Rightarrow> nat \<Rightarrow> nat" where
  "next_line src i e = (let k = line_end src i e in if k < e then k + 1 else k)"

lemma next_line_less: "i < e \<Longrightarrow> i \<le> j \<Longrightarrow> i < next_line src j e"
  using index_while_ge [of j is_not_nl src e]
  by (simp add: next_line_def line_end_def Let_def)

lemma next_line_le: "j \<le> e \<Longrightarrow> next_line src j e \<le> e"
  using index_while_le [of j e is_not_nl src] by (simp add: next_line_def line_end_def Let_def)

text \<open>\<open>None\<close> is the initial \<open>min_ind = -1\<close>.\<close>

function min_indent_from :: "string \<Rightarrow> nat \<Rightarrow> nat \<Rightarrow> nat option \<Rightarrow> nat option" where
  "min_indent_from src i e m =
     (if i < e then
        let j = index_while is_indent src i e; indent = j - i;
            m = (if j < e \<and> src ! j \<noteq> CHR 0x0A then
                   (case m of None \<Rightarrow> Some indent
                    | Some k \<Rightarrow> if indent < k then Some indent else m)
                 else m)
        in min_indent_from src (next_line src j e) e m
      else m)"
  by pat_completeness auto
termination
  by (relation "measure (\<lambda>(_, i, e, _). e - i)")
    (auto intro!: diff_less_mono2 next_line_less index_while_ge)

declare min_indent_from.simps [simp del]

definition heredoc_min_indent :: "string \<Rightarrow> nat \<Rightarrow> nat \<Rightarrow> nat" where
  "heredoc_min_indent src start e =
     (case min_indent_from src start e None of None \<Rightarrow> 0 | Some k \<Rightarrow> k)"

text \<open>The body of a non-interpolating squiggly heredoc, each line without its indentation.\<close>

function strip_body :: "string \<Rightarrow> nat \<Rightarrow> nat \<Rightarrow> nat \<Rightarrow> string" where
  "strip_body src i e min_ind =
     (if i < e then
        let j = index_while is_indent src i (min e (i + min_ind)); k = line_end src j e;
            content = take (k - j) (drop j src)
        in if k < e then content @ [CHR 0x0A] @ strip_body src (k + 1) e min_ind else content
      else [])"
  by pat_completeness auto
termination
proof (relation "measure (\<lambda>(_, i, e, _). e - i)", goal_cases)
  case (2 src i e min_ind j k body_line)
  then have "i \<le> j" "j \<le> k" by (simp_all add: index_while_ge line_end_def)
  with 2 show ?case by simp
qed simp

declare strip_body.simps [simp del]

definition preceded_by_class_keyword :: "string \<Rightarrow> nat \<Rightarrow> bool" where
  "preceded_by_class_keyword src start \<longleftrightarrow>
     5 \<le> start \<and> take 5 (drop (start - 5) src) = ''class'' \<and>
     \<not> (5 < start \<and> is_word_ch (src ! (start - 6)))"

subsection \<open>Heredoc bodies\<close>

primrec skip_indent :: "nat \<Rightarrow> lexer \<Rightarrow> lexer" where
  "skip_indent 0 l = l"
| "skip_indent (Suc n) l =
     (if l_pos l < l_hd_body_end l \<and> is_indent (src_at l (l_pos l))
      then skip_indent n (advance l) else l)"

definition heredoc_escape :: "char \<Rightarrow> string" where
  "heredoc_escape esc =
     (if esc = CHR ''n'' then [CHR 0x0A]
      else if esc = CHR ''t'' then [CHR 0x09]
      else if esc = CHR ''r'' then [CHR 0x0D]
      else if esc = CHR 0x5C then [CHR 0x5C]
      else if esc = CHR ''#'' then [CHR ''#'']
      else [CHR 0x5C, esc])"

definition at_heredoc_interp :: "lexer \<Rightarrow> bool" where
  "at_heredoc_interp l \<longleftrightarrow>
     src_at l (l_pos l) = CHR ''#'' \<and> l_pos l + 1 < l_hd_body_end l \<and>
     src_at l (l_pos l + 1) = CHR ''{''"

lemma l_hd_body_end_advance [simp]: "l_hd_body_end (advance l) = l_hd_body_end l"
  "l_hd_min_indent (advance l) = l_hd_min_indent l"
  by (simp_all add: advance_def Let_def)

function heredoc_loop :: "lexer \<Rightarrow> string \<Rightarrow> string \<times> lexer" where
  "heredoc_loop l buf =
     (if l_pos l < l_hd_body_end l then
        let c = src_at l (l_pos l) in
        if at_heredoc_interp l then (buf, l)
        else
          (let l = advance l in
           if c = CHR 0x5C then
             (if l_hd_body_end l \<le> l_pos l then (buf @ [CHR 0x5C], l)
              else heredoc_loop (advance l) (buf @ heredoc_escape (src_at l (l_pos l))))
           else if c = CHR 0x0A \<and> 0 < l_hd_min_indent l then
             (buf @ [c], l\<lparr>l_hd_at_bol := True\<rparr>)
           else heredoc_loop l (buf @ [c]))
      else (buf, l))"
  by pat_completeness auto
termination
  by (relation "measure (\<lambda>(l, _). l_hd_body_end l - l_pos l)") auto

declare heredoc_loop.simps [simp del]

text \<open>The body has ended: the lexer goes to the rest of the heredoc's line when there is one.\<close>

definition heredoc_leave :: "nat \<Rightarrow> u32 \<Rightarrow> u32 \<Rightarrow> lexer \<Rightarrow> lexer" where
  "heredoc_leave resume resume_line resume_line_start l =
     (if l_hd_rol_start l < l_hd_rol_end l then
        l\<lparr>l_hd_pending := True, l_hd_final_resume := resume,
          l_hd_final_resume_line := resume_line, l_hd_final_resume_line_start := resume_line_start,
          l_pos := l_hd_rol_start l, l_line := l_hd_rol_line l,
          l_line_start := l_hd_rol_line_start l\<rparr>
      else l\<lparr>l_pos := resume, l_line := resume_line, l_line_start := resume_line_start\<rparr>)"

definition scan_heredoc_content :: "lexer \<Rightarrow> token \<times> lexer" where
  "scan_heredoc_content l =
     (let l = (if l_hd_at_bol l \<and> 0 < l_hd_min_indent l
               then (skip_indent (l_hd_min_indent l) l)\<lparr>l_hd_at_bol := False\<rparr> else l);
          sline = l_line l; scol = col_of l (l_pos l)
      in if l_hd_body_end l \<le> l_pos l then
           (interp_tok TOK_INTERP_END sline scol 0,
            heredoc_leave (l_hd_resume l) (l_hd_resume_line l) (l_hd_resume_line_start l)
              ((imode_pop l)\<lparr>l_hd_active := False\<rparr>))
         else if at_heredoc_interp l then
           (interp_tok TOK_INTERP_EXPR_BEG sline scol 2,
            imode_push LMODE_INTERP_EXPR (advance (advance l)))
         else
           (let (buf, l) = heredoc_loop l []
            in ((interp_tok TOK_INTERP_LIT sline scol (word_of_nat (length buf)))
                  \<lparr>t_sval := Some buf, t_slen := length buf\<rparr>, l)))"

subsection \<open>Heredoc openings\<close>

definition line_feed :: "lexer \<Rightarrow> lexer" where
  "line_feed l =
     l\<lparr>l_line := l_line l + 1, l_line_start := word_of_nat (l_pos l + 1), l_pos := l_pos l + 1\<rparr>"

definition at_terminator :: "lexer \<Rightarrow> string \<Rightarrow> nat \<Rightarrow> bool \<Rightarrow> bool" where
  "at_terminator l term pos may_indent \<longleftrightarrow>
     pos + length term \<le> length (l_src l) \<and>
     take (length term) (drop pos (l_src l)) = term \<and>
     (let after = pos + length term
      in length (l_src l) \<le> after \<or> l_src l ! after = CHR 0x0A \<or> l_src l ! after = CHR 0x0D) \<and>
     may_indent"

text \<open>
  The forward scan for the line of the terminator: \<open>None\<close> when there is none, otherwise the end
  of the body. The lexer is left after the terminator's line, or at the end of the source.
\<close>

function find_terminator :: "string \<Rightarrow> bool \<Rightarrow> lexer \<Rightarrow> nat option \<times> lexer" where
  "find_terminator term indent_ok l =
     (if l_pos l < length (l_src l) then
        let line_head = l_pos l; n = length (l_src l);
            p = index_while is_indent (l_src l) line_head n
        in if at_terminator l term p (indent_ok \<or> p = line_head) then
             (let l = l\<lparr>l_pos := p + length term\<rparr>;
                  l = (if l_pos l < n \<and> l_src l ! l_pos l = CHR 0x0D
                       then l\<lparr>l_pos := l_pos l + 1\<rparr> else l);
                  l = (if l_pos l < n \<and> l_src l ! l_pos l = CHR 0x0A then line_feed l else l)
              in (Some line_head, l))
           else
             (let l = l\<lparr>l_pos := line_end (l_src l) p n\<rparr>
              in find_terminator term indent_ok (if l_pos l < n then line_feed l else l))
      else (None, l))"
  by pat_completeness auto
termination
proof (relation "measure (\<lambda>(_, _, l). length (l_src l) - l_pos l)", goal_cases)
  case (2 trm indent_ok l line_head n p l')
  then have "line_head \<le> p" by (simp add: index_while_ge)
  then have "line_head \<le> line_end (l_src l) p n"
    using index_while_ge [of p is_not_nl "l_src l" n] by (simp add: line_end_def)
  with 2 show ?case by (auto simp: line_feed_def)
qed simp

declare find_terminator.simps [simp del]

definition scan_heredoc :: "lexer \<Rightarrow> nat \<Rightarrow> u32 \<Rightarrow> u32 \<Rightarrow> token \<times> lexer" where
  "scan_heredoc l start sline scol =
     (let (squiggly, indent_ok, l) =
            (if peek_ch l = CHR ''-'' then (False, True, advance l)
             else if peek_ch l = CHR ''~'' then (True, True, advance l)
             else (False, False, l));
          nc = peek_ch l;
          (quote, interp, l) =
            (if nc = CHR 0x22 then (Some nc, True, advance l)
             else if nc = CHR 0x27 then (Some nc, False, advance l)
             else (None, True, l))
      in if \<not> isalpha (peek_ch l) \<and> peek_ch l \<noteq> CHR ''_'' then
           (make_tok l TOK_LSHIFT start sline scol, l)
         else
           (let term_start = l_pos l;
                l = advance_while is_word_ch l;
                term = intern l term_start (l_pos l - term_start);
                l = (if quote = Some (peek_ch l) then advance l else l);
                l = l\<lparr>l_hd_rol_start := l_pos l, l_hd_rol_line := l_line l,
                       l_hd_rol_line_start := l_line_start l\<rparr>;
                l = advance_while is_not_nl l;
                l = l\<lparr>l_hd_rol_end := l_pos l\<rparr>;
                l = (if at_end l then l else advance l);
                body_start = l_pos l; body_line = l_line l; body_line_start = l_line_start l;
                (found, l) = find_terminator term indent_ok l;
                (body_end, resume_pos) =
                  (case found of Some e \<Rightarrow> (e, l_pos l)
                   | None \<Rightarrow> (length (l_src l), length (l_src l)))
            in if \<not> interp then
                 (let raw_len = body_end - body_start;
                      body = (if squiggly \<and> 0 < raw_len
                              then strip_body (l_src l) body_start body_end
                                     (heredoc_min_indent (l_src l) body_start body_end)
                              else take raw_len (drop body_start (l_src l)));
                      l = heredoc_leave resume_pos (l_line l) (l_line_start l) l
                  in ((make_tok l TOK_STRING start sline scol)
                        \<lparr>t_sval := Some body, t_slen := length body\<rparr>, l))
               else
                 (let min_indent = (if squiggly
                        then heredoc_min_indent (l_src l) body_start body_end else 0);
                      l = l\<lparr>l_hd_active := True, l_hd_body_end := body_end,
                             l_hd_resume := resume_pos, l_hd_resume_line := l_line l,
                             l_hd_resume_line_start := l_line_start l,
                             l_hd_min_indent := min_indent, l_hd_at_bol := 0 < min_indent,
                             l_pos := body_start, l_line := body_line,
                             l_line_start := body_line_start\<rparr>;
                      l = imode_push LMODE_INTERP_STR l;
                      l = l\<lparr>l_hd_imode_depth := l_imode_depth l\<rparr>
                  in (make_tok l TOK_INTERP_BEG start sline scol, l))))"

subsection \<open>Regexp literals\<close>

text \<open>The look-ahead for an interpolation: the class flag and the position are local to it.\<close>

function regexp_has_interp :: "string \<Rightarrow> nat \<Rightarrow> bool \<Rightarrow> bool" where
  "regexp_has_interp src pos in_cls =
     (if length src \<le> pos then False
      else let c = src ! pos in
        if c = CHR 0x5C then regexp_has_interp src (pos + 2) in_cls
        else if c = CHR ''['' \<and> \<not> in_cls then regexp_has_interp src (pos + 1) True
        else if c = CHR '']'' \<and> in_cls then regexp_has_interp src (pos + 1) False
        else if c = CHR ''/'' \<and> \<not> in_cls then False
        else if c = CHR ''#'' \<and> pos + 1 < length src \<and> src ! (pos + 1) = CHR ''{'' then True
        else regexp_has_interp src (pos + 1) in_cls)"
  by pat_completeness auto
termination
  by (relation "measure (\<lambda>(src, pos, _). length src - pos)") auto

declare regexp_has_interp.simps [simp del]

function regexp_loop :: "lexer \<Rightarrow> bool \<Rightarrow> string \<Rightarrow> string \<times> lexer" where
  "regexp_loop l in_class buf =
     (if at_end l then (buf, l)
      else let c = peek_ch l in
        if c = CHR 0x5C then
          (let l = advance l
           in if at_end l then regexp_loop l in_class (buf @ [c])
              else regexp_loop (advance l) in_class (buf @ [c, peek_ch l]))
        else if c = CHR ''['' \<and> \<not> in_class then regexp_loop (advance l) True (buf @ [c])
        else if c = CHR '']'' \<and> in_class then regexp_loop (advance l) False (buf @ [c])
        else if c = CHR ''/'' \<and> \<not> in_class then (buf, l)
        else regexp_loop (advance l) in_class (buf @ [c]))"
  by pat_completeness auto
termination
  by (relation "measure (\<lambda>(l, _, _). length (l_src l) - l_pos l)") (auto simp: not_at_end)

declare regexp_loop.simps [simp del]

definition scan_regexp :: "lexer \<Rightarrow> nat \<Rightarrow> u32 \<Rightarrow> u32 \<Rightarrow> token \<times> lexer" where
  "scan_regexp l start sline scol =
     (if regexp_has_interp (l_src l) (l_pos l) False then
        (let l = set_regex_class False (imode_push LMODE_INTERP_REGEX l)
         in ((make_tok l TOK_INTERP_BEG start sline scol)\<lparr>t_ival := 3\<rparr>, l))
      else
        (let (buf, l) = regexp_loop l False []
         in if at_end l \<or> peek_ch l \<noteq> CHR ''/'' then
              ((make_tok l TOK_ERROR start sline scol)
                 \<lparr>t_sval := Some ''unterminated regexp literal''\<rparr>, l)
            else
              (let (flags, l) = regexp_flags (advance l) 0
               in ((make_tok l TOK_REGEXP start sline scol)
                     \<lparr>t_sval := Some buf, t_ival := flags\<rparr>, l))))"

end
