(* ===== verification/LexScan.thy ===== *)
theory LexScan
  imports LexHeredoc
begin

section \<open>The lexer: one token, and the token stream (src/lexer.c)\<close>

text \<open>
  \<open>scan\<close> reads one token. Its switch over the first character is \<open>scan_switch\<close>, with one
  definition for each case that does more than look at the next characters. \<open>lexer_next\<close> is the
  stream the parser reads: it takes the token looked ahead at, or scans one, and tracks the
  expression state that tells a regexp from a division.
\<close>

subsection \<open>Operators\<close>

type_synonym tok_start = "nat \<times> u32 \<times> u32"

definition simple :: "lexer \<Rightarrow> tok_start \<Rightarrow> token_kind \<Rightarrow> token \<times> lexer" where
  "simple l s k = (case s of (start, sline, scol) \<Rightarrow> (make_tok l k start sline scol, l))"

definition simple_in :: "lex_state \<Rightarrow> lexer \<Rightarrow> tok_start \<Rightarrow> token_kind \<Rightarrow> token \<times> lexer" where
  "simple_in st l s k = simple (l\<lparr>l_state := st\<rparr>) s k"

abbreviation op_beg :: "lexer \<Rightarrow> tok_start \<Rightarrow> token_kind \<Rightarrow> token \<times> lexer" where
  "op_beg \<equiv> simple_in LEX_EXPR_BEG"

text \<open>An operator that may be followed by \<open>=\<close>.\<close>

definition op_eq :: "lexer \<Rightarrow> tok_start \<Rightarrow> token_kind \<Rightarrow> token_kind \<Rightarrow> token \<times> lexer" where
  "op_eq l s k_eq k =
     (if peek_ch l = CHR ''='' then op_beg (advance l) s k_eq else op_beg l s k)"

text \<open>An operator that may be doubled, each form with an \<open>=\<close> form.\<close>

definition op_double ::
  "char \<Rightarrow> lexer \<Rightarrow> tok_start \<Rightarrow> token_kind \<Rightarrow> token_kind \<Rightarrow> token_kind \<Rightarrow> token_kind
    \<Rightarrow> token \<times> lexer" where
  "op_double c l s k2_eq k2 k_eq k =
     (if peek_ch l = c then op_eq (advance l) s k2_eq k2 else op_eq l s k_eq k)"

definition bump_ibrace :: "lexer \<Rightarrow> lexer" where
  "bump_ibrace l = l\<lparr>l_ibrace := (l_ibrace l)[l_imode_depth l - 1 :=
                       l_ibrace l ! (l_imode_depth l - 1) + 1]\<rparr>"

definition drop_ibrace :: "lexer \<Rightarrow> lexer" where
  "drop_ibrace l = l\<lparr>l_ibrace := (l_ibrace l)[l_imode_depth l - 1 :=
                       l_ibrace l ! (l_imode_depth l - 1) - 1]\<rparr>"

definition scan_lbrace :: "lexer \<Rightarrow> tok_start \<Rightarrow> token \<times> lexer" where
  "scan_lbrace l s =
     op_beg (if imode_top l = LMODE_INTERP_EXPR then bump_ibrace l else l) s TOK_LBRACE"

definition scan_rbrace :: "lexer \<Rightarrow> tok_start \<Rightarrow> token \<times> lexer" where
  "scan_rbrace l s =
     (let l = l\<lparr>l_state := LEX_EXPR_END\<rparr>
      in if imode_top l = LMODE_INTERP_EXPR then
           (if 0 < l_ibrace l ! (l_imode_depth l - 1) then simple (drop_ibrace l) s TOK_RBRACE
            else simple (imode_pop l) s TOK_INTERP_EXPR_END)
         else simple l s TOK_RBRACE)"

text \<open>Where an operand is expected; \<open>ARG\<close> needs a space before the token.\<close>

definition operand_state :: "lexer \<Rightarrow> bool" where
  "operand_state l \<longleftrightarrow> l_state l = LEX_EXPR_BEG \<or> l_state l = LEX_EXPR_MID"

definition scan_question :: "lexer \<Rightarrow> tok_start \<Rightarrow> token \<times> lexer" where
  "scan_question l s =
     (if (operand_state l \<or> l_state l = LEX_EXPR_ARG \<and> l_had_space l) \<and>
         \<not> at_end l \<and> \<not> isspace (peek_ch l)
      then (case s of (start, sline, scol) \<Rightarrow> scan_char_literal l start sline scol)
      else simple l s TOK_QUESTION)"

definition scan_minus :: "lexer \<Rightarrow> tok_start \<Rightarrow> token \<times> lexer" where
  "scan_minus l s =
     (if peek_ch l = CHR ''='' then op_beg (advance l) s TOK_MINUS_EQ
      else if peek_ch l = CHR ''>'' then simple (advance l) s TOK_LAMBDA
      else op_beg l s TOK_MINUS)"

subsection \<open>Percent literals\<close>

text \<open>The loop of \<open>%q\<close>: the lexer and the delimiter depth after it.\<close>

function percent_q_loop :: "char \<Rightarrow> char \<Rightarrow> lexer \<Rightarrow> nat \<Rightarrow> nat \<times> lexer" where
  "percent_q_loop c close_ch l depth =
     (if \<not> at_end l \<and> 0 < depth then
        let ch = peek_ch l; l = advance l
        in if ch = CHR 0x5C \<and> \<not> at_end l then percent_q_loop c close_ch (advance l) depth
           else if ch = c then percent_q_loop c close_ch l (depth + 1)
           else if ch = close_ch then percent_q_loop c close_ch l (depth - 1)
           else percent_q_loop c close_ch l depth
      else (depth, l))"
  by pat_completeness auto
termination
  by (relation "measure (\<lambda>(_, _, l, _). length (l_src l) - l_pos l)") (auto simp: not_at_end)

declare percent_q_loop.simps [simp del]

text \<open>The token has no \<open>slen\<close>: its field stays zero.\<close>

definition scan_percent_q :: "char \<Rightarrow> char \<Rightarrow> lexer \<Rightarrow> tok_start \<Rightarrow> token \<times> lexer" where
  "scan_percent_q c close_ch l s =
     (let cs = l_pos l; (depth, l) = percent_q_loop c close_ch l 1;
          raw_len = l_pos l - cs - (if depth = 0 then 1 else 0);
          (t, l) = simple l s TOK_STRING
      in (t\<lparr>t_sval := Some (intern l cs raw_len)\<rparr>, l\<lparr>l_state := LEX_EXPR_END\<rparr>))"

definition open_interp :: "lex_mode \<Rightarrow> lexer \<Rightarrow> tok_start \<Rightarrow> token \<times> lexer" where
  "open_interp m l s = simple (imode_push m l) s TOK_INTERP_BEG"

definition set_percent_close :: "char \<Rightarrow> lexer \<Rightarrow> lexer" where
  "set_percent_close c l =
     l\<lparr>l_percent_close := (l_percent_close l)[l_imode_depth l - 1 := c]\<rparr>"

definition scan_percent :: "lexer \<Rightarrow> tok_start \<Rightarrow> token \<times> lexer" where
  "scan_percent l s =
     (case s of (start, sline, scol) \<Rightarrow>
      let p = peek_ch l in
      if p = CHR ''='' then op_beg (advance l) s TOK_PERCENT_EQ
      else if p = CHR ''w'' then scan_percent_list l start sline scol TOK_WORDS
      else if p = CHR ''i'' then scan_percent_list l start sline scol TOK_SYMBOLS
      else if p = CHR ''r'' then scan_percent_regexp l start sline scol
      else if \<not> l_after_def l \<and> \<not> l_prev_was_dot l \<and>
              (operand_state l \<or> l_state l = LEX_EXPR_ARG) \<and> p \<in> set ''({[<Qq'' then
        (let l = advance l; interp = (p \<noteq> CHR ''q'');
             (c, l) = (if p = CHR ''Q'' \<or> p = CHR ''q''
                       then (src_at l (l_pos l), advance l) else (p, l));
             close_ch = paired_delim c
         in if \<not> interp then scan_percent_q c close_ch l s
            else simple (set_percent_close close_ch (imode_push LMODE_INTERP_STR l)) s
                   TOK_INTERP_BEG)
      else op_beg l s TOK_PERCENT)"

subsection \<open>The other cases with context\<close>

text \<open>A slash starts a regexp where an operand is expected, and after an unknown identifier
  only when a space stands before it and none after.\<close>

definition slash_is_regexp :: "lexer \<Rightarrow> bool" where
  "slash_is_regexp l \<longleftrightarrow>
     \<not> l_after_def l \<and>
     (operand_state l \<or>
      l_state l = LEX_EXPR_ARG \<and> l_had_space l \<and>
        peek_ch l \<noteq> CHR '' '' \<and> peek_ch l \<noteq> CHR 0x09)"

definition scan_slash :: "lexer \<Rightarrow> tok_start \<Rightarrow> token \<times> lexer" where
  "scan_slash l s =
     (if slash_is_regexp l then (case s of (start, sline, scol) \<Rightarrow> scan_regexp l start sline scol)
      else op_eq l s TOK_SLASH_EQ TOK_SLASH)"

definition scan_amp :: "lexer \<Rightarrow> tok_start \<Rightarrow> token \<times> lexer" where
  "scan_amp l s =
     (if peek_ch l = CHR ''.'' then simple ((advance l)\<lparr>l_prev_was_dot := True\<rparr>) s TOK_ANDDOT
      else op_double (CHR ''&'') l s TOK_AMP2_EQ TOK_AMP2 TOK_AMP_EQ TOK_AMP)"

definition scan_lt :: "lexer \<Rightarrow> tok_start \<Rightarrow> token \<times> lexer" where
  "scan_lt l s =
     (case s of (start, sline, scol) \<Rightarrow>
      if peek_ch l = CHR ''<'' then
        (let l = advance l; nc = peek_ch l
         in if \<not> preceded_by_class_keyword (l_src l) start \<and>
               (nc \<in> {CHR ''-'', CHR ''~'', CHR 0x22, CHR 0x27, CHR ''_''} \<or> isalpha nc)
            then scan_heredoc l start sline scol
            else op_eq l s TOK_LSHIFT_EQ TOK_LSHIFT)
      else if peek_ch l = CHR ''='' then
        (let l = advance l
         in if peek_ch l = CHR ''>'' then op_beg (advance l) s TOK_SPACESHIP
            else op_beg l s TOK_LEQ)
      else op_beg l s TOK_LT)"

definition scan_gt :: "lexer \<Rightarrow> tok_start \<Rightarrow> token \<times> lexer" where
  "scan_gt l s = op_double (CHR ''>'') l s TOK_RSHIFT_EQ TOK_RSHIFT TOK_GEQ TOK_GT"

definition scan_eq :: "lexer \<Rightarrow> tok_start \<Rightarrow> token \<times> lexer" where
  "scan_eq l s =
     (if peek_ch l = CHR ''='' then op_eq (advance l) s TOK_EQ3 TOK_EQ2
      else if peek_ch l = CHR ''>'' then simple (advance l) s TOK_ARROW
      else if peek_ch l = CHR ''~'' then op_beg (advance l) s TOK_MATCH
      else op_beg l s TOK_EQ)"

definition scan_bang :: "lexer \<Rightarrow> tok_start \<Rightarrow> token \<times> lexer" where
  "scan_bang l s =
     (if peek_ch l = CHR ''='' then op_beg (advance l) s TOK_NEQ
      else if peek_ch l = CHR ''~'' then op_beg (advance l) s TOK_NMATCH
      else simple l s TOK_BANG)"

definition scan_dot :: "lexer \<Rightarrow> tok_start \<Rightarrow> token \<times> lexer" where
  "scan_dot l s =
     (if peek_ch l = CHR ''.'' then
        (let l = advance l
         in if peek_ch l = CHR ''.'' then simple (advance l) s TOK_DOT3 else simple l s TOK_DOT2)
      else simple (l\<lparr>l_prev_was_dot := True\<rparr>) s TOK_DOT)"

definition symbol_start :: "char \<Rightarrow> bool" where
  "symbol_start pc \<longleftrightarrow>
     isalpha pc \<or> pc = CHR 0x22 \<or> pc = CHR 0x27 \<or> pc \<in> set ''_@$+-*/%<>=!&|^~[''"

definition scan_colon :: "lexer \<Rightarrow> tok_start \<Rightarrow> token \<times> lexer" where
  "scan_colon l s =
     (if peek_ch l = CHR '':'' then simple (advance l) s TOK_COLON2
      else if (l_state l = LEX_EXPR_BEG \<or>
               (l_state l = LEX_EXPR_ARG \<or> l_state l = LEX_EXPR_END) \<and> l_had_space l) \<and>
              symbol_start (peek_ch l)
        then (case s of (start, sline, scol) \<Rightarrow> scan_symbol l start sline scol)
      else simple l s TOK_COLON)"

text \<open>A sigil and the name after it, without the sigil.\<close>

definition scan_var :: "lexer \<Rightarrow> tok_start \<Rightarrow> token_kind \<Rightarrow> token \<times> lexer" where
  "scan_var l s k =
     (let ns = l_pos l; l = advance_while is_word_ch l; (t, l) = simple l s k
      in (t\<lparr>t_sval := Some (intern l ns (l_pos l - ns))\<rparr>, l))"

definition scan_at :: "lexer \<Rightarrow> tok_start \<Rightarrow> token \<times> lexer" where
  "scan_at l s =
     (if peek_ch l = CHR ''@'' then scan_var (advance l) s TOK_CVAR else scan_var l s TOK_IVAR)"

definition scan_gvar :: "lexer \<Rightarrow> tok_start \<Rightarrow> token \<times> lexer" where
  "scan_gvar l s =
     (if \<not> is_word_ch (peek_ch l) \<and> peek_ch l \<noteq> NUL then
        (let ns = l_pos l; l = advance l; (t, l) = simple l s TOK_GVAR
         in (t\<lparr>t_sval := Some (intern l ns (l_pos l - ns))\<rparr>, l))
      else scan_var l s TOK_GVAR)"

text \<open>The default case. \<open>unread\<close> is \<open>l->pos--\<close>.\<close>

definition unread :: "lexer \<Rightarrow> lexer" where
  "unread l = l\<lparr>l_pos := l_pos l - 1\<rparr>"

definition scan_default :: "char \<Rightarrow> lexer \<Rightarrow> tok_start \<Rightarrow> token \<times> lexer" where
  "scan_default c l s =
     (case s of (start, sline, scol) \<Rightarrow>
      if isdigit c then scan_number (unread l) start sline scol
      else if isalpha c \<or> c = CHR ''_'' then scan_ident (unread l) start sline scol
      else ((make_tok l TOK_ERROR start sline scol)\<lparr>t_sval := Some [c]\<rparr>, l))"

subsection \<open>The switch\<close>

definition scan_switch :: "char \<Rightarrow> lexer \<Rightarrow> tok_start \<Rightarrow> token \<times> lexer" where
  "scan_switch c l s =
     (if c = CHR 0x0A then simple l s TOK_NEWLINE
      else if c = CHR '';'' then simple l s TOK_SEMICOLON
      else if c = CHR '','' then simple l s TOK_COMMA
      else if c = CHR ''('' then op_beg l s TOK_LPAREN
      else if c = CHR '')'' then simple_in LEX_EXPR_END l s TOK_RPAREN
      else if c = CHR ''['' then op_beg l s TOK_LBRACKET
      else if c = CHR '']'' then simple_in LEX_EXPR_END l s TOK_RBRACKET
      else if c = CHR ''{'' then scan_lbrace l s
      else if c = CHR ''}'' then scan_rbrace l s
      else if c = CHR ''~'' then simple l s TOK_TILDE
      else if c = CHR ''?'' then scan_question l s
      else if c = CHR ''+'' then op_eq l s TOK_PLUS_EQ TOK_PLUS
      else if c = CHR ''-'' then scan_minus l s
      else if c = CHR ''%'' then scan_percent l s
      else if c = CHR ''^'' then op_eq l s TOK_CARET_EQ TOK_CARET
      else if c = CHR ''*'' then
        op_double (CHR ''*'') l s TOK_STAR2_EQ TOK_STAR2 TOK_STAR_EQ TOK_STAR
      else if c = CHR ''/'' then scan_slash l s
      else if c = CHR ''&'' then scan_amp l s
      else if c = CHR ''|'' then
        op_double (CHR ''|'') l s TOK_PIPE2_EQ TOK_PIPE2 TOK_PIPE_EQ TOK_PIPE
      else if c = CHR ''<'' then scan_lt l s
      else if c = CHR ''>'' then scan_gt l s
      else if c = CHR ''='' then scan_eq l s
      else if c = CHR ''!'' then scan_bang l s
      else if c = CHR ''.'' then scan_dot l s
      else if c = CHR '':'' then scan_colon l s
      else if c = CHR ''@'' then scan_at l s
      else if c = CHR ''$'' then scan_gvar l s
      else if c = CHR 0x27 then
        (case s of (start, sline, scol) \<Rightarrow> scan_string_sq l start sline scol)
      else if c = CHR 0x22 then open_interp LMODE_INTERP_STR l s
      else if c = CHR 0x60 then
        (let (t, l) = open_interp LMODE_INTERP_BACKTICK l s in (t\<lparr>t_ival := 1\<rparr>, l))
      else scan_default c l s)"

definition resume_heredoc :: "lexer \<Rightarrow> lexer" where
  "resume_heredoc l =
     l\<lparr>l_hd_pending := False, l_pos := l_hd_final_resume l, l_line := l_hd_final_resume_line l,
       l_line_start := l_hd_final_resume_line_start l, l_had_space := False\<rparr>"

text \<open>The whitespace before a token, the pending rest of a heredoc's line included.\<close>

definition scan_spaces :: "lexer \<Rightarrow> lexer" where
  "scan_spaces l =
     (let l = skip_whitespace (l\<lparr>l_had_space := False\<rparr>)
      in if l_hd_pending l \<and> l_hd_rol_end l \<le> l_pos l
         then skip_whitespace (resume_heredoc l) else l)"

definition scan_normal :: "lexer \<Rightarrow> token \<times> lexer" where
  "scan_normal l =
     (let l = scan_spaces l
      in if at_end l then
           (zero_token\<lparr>t_kind := TOK_EOF, t_line := l_line l, t_col := col_of l (l_pos l)\<rparr>, l)
         else scan_switch (src_at l (l_pos l)) (advance l)
                (l_pos l, l_line l, col_of l (l_pos l)))"

definition scan :: "lexer \<Rightarrow> token \<times> lexer" where
  "scan l =
     (case imode_top l of
        LMODE_INTERP_STR \<Rightarrow>
          if l_hd_active l \<and> l_imode_depth l = l_hd_imode_depth l
          then scan_heredoc_content l else scan_interp_str_content l
      | LMODE_INTERP_BACKTICK \<Rightarrow> scan_interp_str_content l
      | LMODE_INTERP_REGEX \<Rightarrow> scan_interp_regex_content l
      | LMODE_NORMAL \<Rightarrow> scan_normal l
      | LMODE_INTERP_EXPR \<Rightarrow> scan_normal l)"

subsection \<open>The token stream\<close>

definition value_kind :: "token_kind \<Rightarrow> bool" where
  "value_kind k \<longleftrightarrow>
     k \<in> set [TOK_CONST, TOK_IVAR, TOK_CVAR, TOK_GVAR, TOK_INT, TOK_FLOAT, TOK_RATIONAL,
       TOK_IMAGINARY, TOK_STRING, TOK_SYMBOL, TOK_WORDS, TOK_SYMBOLS, TOK_REGEXP,
       TOK_INTERP_END, TOK_NIL, TOK_TRUE, TOK_FALSE, TOK_SELF, TOK_RPAREN, TOK_RBRACKET,
       TOK_RBRACE, TOK_RETRY]"

text \<open>\<open>is_local_var(l, t.sval)\<close>; an identifier token always has a string.\<close>

definition token_is_local :: "lexer \<Rightarrow> token \<Rightarrow> bool" where
  "token_is_local l t = (case t_sval t of Some n \<Rightarrow> lexer_is_local l n | None \<Rightarrow> False)"

definition track_state :: "token \<Rightarrow> lexer \<Rightarrow> lexer" where
  "track_state t l =
     (if t_kind t = TOK_IDENT then
        l\<lparr>l_state := (if l_prev_was_dot l \<or> token_is_local l t then LEX_EXPR_END else LEX_EXPR_ARG),
          l_prev_was_dot := False\<rparr>
      else if value_kind (t_kind t) then
        l\<lparr>l_state := LEX_EXPR_END, l_prev_was_dot := False\<rparr>
      else
        l\<lparr>l_state := LEX_EXPR_BEG,
          l_prev_was_dot :=
            (l_prev_was_dot l \<and> (t_kind t = TOK_DOT \<or> t_kind t = TOK_ANDDOT))\<rparr>)"

definition lexer_next :: "lexer \<Rightarrow> token \<times> lexer" where
  "lexer_next l =
     (let (t, l) = (if l_has_peeked l then (l_peeked l, l\<lparr>l_has_peeked := False\<rparr>) else scan l);
          l = track_state t l
      in (t, l\<lparr>l_after_def := (t_kind t = TOK_DEF \<or> t_kind t = TOK_ALIAS)\<rparr>))"

definition lexer_peek :: "lexer \<Rightarrow> token \<times> lexer" where
  "lexer_peek l =
     (let l = (if l_has_peeked l then l
               else let (t, l) = scan l in l\<lparr>l_peeked := t, l_has_peeked := True\<rparr>)
      in (l_peeked l, l))"

definition lexer_consume :: "lexer \<Rightarrow> lexer" where
  "lexer_consume l = snd (lexer_next l)"

end
