(* ===== verification/LexSteps.thy ===== *)
theory LexSteps
  imports LexScan
begin

section \<open>What a scanner changes of the lexer\<close>

text \<open>
  Every scanner reads forward and inside the source. \<open>scans\<close> is what the loops do: only the
  position and the line count change. \<open>steps\<close> is what a token does: also the mode stack, which
  grows by one at most, and the flags of the expression state. A scanner leaves the fields of the
  heredocs alone, except those of heredocs.
\<close>

named_theorems scan_intros \<open>the scanners stay inside the source\<close>

definition scans :: "lexer \<Rightarrow> lexer \<Rightarrow> bool" where
  "scans l l' \<longleftrightarrow> moves l l' \<and> l_pos l' \<le> max (l_pos l) (length (l_src l))"

lemma scans_refl [simp, intro]: "scans l l"
  by (simp add: scans_def)

lemma scans_trans: "scans l l' \<Longrightarrow> scans l' l'' \<Longrightarrow> scans l l''"
  using movesD(1) [of l l'] by (auto simp: scans_def intro: moves_trans)

lemma scans_src: "scans l l' \<Longrightarrow> l_src l' = l_src l"
  by (simp add: scans_def movesD)

lemma scans_pos: "scans l l' \<Longrightarrow> l_pos l \<le> l_pos l'"
  by (simp add: scans_def moves_pos)

lemma peek_nonNUL: "P (peek_ch l) \<Longrightarrow> \<not> P NUL \<Longrightarrow> \<not> at_end l"
  by (auto simp: peek_ch_def split: if_splits)

lemma peek_is: "peek_ch l = c \<Longrightarrow> c \<noteq> NUL \<Longrightarrow> \<not> at_end l"
  by (auto simp: peek_ch_def split: if_splits)

lemma scans_advance [scan_intros]: "\<not> at_end l \<Longrightarrow> scans l (advance l)"
  by (auto simp: scans_def moves_advance not_at_end)

lemma scans_advanceI: "\<not> at_end l \<Longrightarrow> scans (advance l) l' \<Longrightarrow> scans l l'"
  using scans_advance scans_trans by blast

lemma scans_advance2I:
  "\<not> at_end l \<Longrightarrow> \<not> at_end (advance l) \<Longrightarrow> scans (advance (advance l)) l' \<Longrightarrow> scans l l'"
  using scans_advanceI by blast

text \<open>Induction over what is left of the source.\<close>

lemma source_induct [case_names 1]:
  assumes "\<And>l. (\<not> at_end l \<Longrightarrow> P (advance l)) \<Longrightarrow>
    (\<not> at_end l \<Longrightarrow> \<not> at_end (advance l) \<Longrightarrow> P (advance (advance l))) \<Longrightarrow> P l"
  shows "P l"
proof (induction "length (l_src l) - l_pos l" arbitrary: l rule: less_induct)
  case less
  show ?case
    by (rule assms; rule less) (auto simp: not_at_end)
qed

lemma scans_advance_while [scan_intros]: "scans l (advance_while P l)"
proof (induction l arbitrary: P rule: source_induct)
  case (1 l)
  note IH = scans_advanceI [OF _ 1(1)] scans_advance2I [OF _ _ 1(2)]
  show ?case by (subst advance_while.simps) (auto simp: Let_def intro: IH)
qed

lemma scans_advance_if [scan_intros]: "\<not> P NUL \<Longrightarrow> scans l (advance_if P l)"
  using peek_nonNUL [of P l] by (auto simp: advance_if_def intro: scans_advance)

lemma scans_sq_loop: "scans l (snd (sq_loop l buf))"
proof (induction l arbitrary: buf rule: source_induct)
  case (1 l)
  note IH = scans_advanceI [OF _ 1(1)] scans_advance2I [OF _ _ 1(2)]
  have two: "at_end (advance l) = False" if "peek2 l = CHR 0x27" using that
    by (auto simp: peek2_def not_at_end split: if_splits)
  have two': "at_end (advance l) = False" if "peek2 l = CHR 0x5C" using that
    by (auto simp: peek2_def not_at_end split: if_splits)
  show ?case by (subst sq_loop.simps) (auto simp: Let_def two two' intro: IH)
qed

lemma scans_percent_loop: "scans l (snd (percent_loop a b l n))"
proof (induction l arbitrary: a b n rule: source_induct)
  case (1 l)
  note IH = scans_advanceI [OF _ 1(1)] scans_advance2I [OF _ _ 1(2)]
  show ?case by (subst percent_loop.simps) (auto simp: Let_def intro: IH)
qed

lemma percent_loop_found: "percent_loop a b l n = (True, l') \<Longrightarrow> \<not> at_end l'"
proof (induction l arbitrary: a b n rule: source_induct)
  case (1 l)
  show ?case using 1(3)
    by (subst (asm) percent_loop.simps)
      (auto simp: Let_def split: if_splits dest: 1(1) 1(2) intro: 1(1) 1(2))
qed

lemma scans_regexp_flags: "scans l (snd (regexp_flags l n))"
proof (induction l arbitrary: n rule: source_induct)
  case (1 l)
  note IH = scans_advanceI [OF _ 1(1)] scans_advance2I [OF _ _ 1(2)]
  show ?case by (subst regexp_flags.simps) (auto simp: Let_def intro: IH)
qed

lemma scans_percent_q_loop: "scans l (snd (percent_q_loop a b l n))"
proof (induction l arbitrary: a b n rule: source_induct)
  case (1 l)
  note IH = scans_advanceI [OF _ 1(1)] scans_advance2I [OF _ _ 1(2)]
  show ?case by (subst percent_q_loop.simps) (auto simp: Let_def intro: IH)
qed

lemma scans_regexp_loop: "scans l (snd (regexp_loop l b buf))"
proof (induction l arbitrary: b buf rule: source_induct)
  case (1 l)
  note IH = scans_advanceI [OF _ 1(1)] scans_advance2I [OF _ _ 1(2)]
  show ?case by (subst regexp_loop.simps) (auto simp: Let_def intro: IH)
qed

lemma scans_hex_escape: "scans l (snd (hex_escape n l v))"
  by (induction n arbitrary: l v) (auto split: option.split intro: scans_advanceI)

lemma scans_octal_escape: "scans l (snd (octal_escape n l v))"
  by (induction n arbitrary: l v) (auto intro: scans_advanceI)

lemma scans_four_escape: "scans l (snd (four_escape n l v))"
  by (induction n arbitrary: l v) (auto intro: scans_advanceI)

lemma scans_braced_escape: "scans l (snd (braced_escape l v))"
proof (induction l arbitrary: v rule: source_induct)
  case (1 l)
  note IH = scans_advanceI [OF _ 1(1)] scans_advance2I [OF _ _ 1(2)]
  show ?case by (subst braced_escape.simps) (auto simp: Let_def intro: IH)
qed

lemma scans_unicode_escape: "scans l (snd (unicode_escape l))"
proof -
  have b: "scans l l1 \<and> (\<not> at_end l1 \<longrightarrow> scans l (advance l1))"
    if "braced_escape (advance l) 0 = (cp, l1)" "\<not> at_end l" for cp l1
    using scans_braced_escape [of "advance l" 0] that scans_advance
    by (auto intro: scans_advanceI scans_trans)
  have f: "scans l l1" if "four_escape 4 l 0 = (cp, l1)" for cp l1
    using scans_four_escape [of l 4 0] that by simp
  show ?thesis
    by (auto simp: unicode_escape_def Let_def f split: prod.split dest: b)
qed

lemma scans_interp_escape: "scans l (snd (interp_escape esc l))"
proof -
  have h: "scans l l1" if "hex_escape 2 l 0 = (v, l1)" for v l1
    using scans_hex_escape [of l 2 0] that by simp
  have o': "scans l l1" if "octal_escape 2 l w = (v, l1)" for v w l1
    using scans_octal_escape [of l 2 w] that by simp
  show ?thesis
    by (auto simp: interp_escape_def Let_def h o' scans_unicode_escape
        split: option.split prod.split)
qed

lemma scans_interp_loop: "scans l (snd (interp_loop close_ch l buf))"
proof (induction close_ch l buf rule: interp_loop.induct)
  case (1 close_ch l buf)
  show ?case
  proof (cases "at_end l \<or> peek_ch l = close_ch \<or> at_interp l")
    case True
    then show ?thesis by (subst interp_loop.simps) (auto simp: Let_def)
  next
    case False
    show ?thesis
    proof (cases "peek_ch l = CHR 0x5C \<and> \<not> at_end (advance l)")
      case True
      obtain bs l1 where e: "interp_escape (peek_ch (advance l)) (advance (advance l)) = (bs, l1)"
        by force
      have "scans (advance (advance l)) l1"
        using scans_interp_escape [of "advance (advance l)" "peek_ch (advance l)"] e by simp
      then have "scans l l1" using True False by (blast intro: scans_advanceI)
      then show ?thesis using 1(1) True False e
        by (subst interp_loop.simps) (auto simp: Let_def intro: scans_trans)
    next
      case a: False
      show ?thesis
      proof (cases "peek_ch l = CHR 0x5C")
        case True
        then show ?thesis using a False
          by (subst interp_loop.simps) (auto simp: Let_def intro: scans_advance)
      next
        case b: False
        then show ?thesis using 1(2) False
          by (subst interp_loop.simps) (auto simp: Let_def intro: scans_advanceI)
      qed
    qed
  qed
qed


subsection \<open>Tokens\<close>

text \<open>The fields a token leaves alone.\<close>

definition rest_of :: "lexer \<Rightarrow> lexer" where
  "rest_of l = l\<lparr>l_pos := 0, l_line := 0, l_line_start := 0, l_state := LEX_EXPR_BEG, l_imode := [],
     l_imode_depth := 0, l_ibrace := [], l_had_space := False, l_prev_was_dot := False,
     l_percent_close := [], l_regex_in_class := []\<rparr>"

definition arrays_ok :: "lexer \<Rightarrow> bool" where
  "arrays_ok l \<longleftrightarrow>
     length (l_imode l) = LEX_INTERP_DEPTH \<and> length (l_ibrace l) = LEX_INTERP_DEPTH \<and>
     length (l_percent_close l) = LEX_INTERP_DEPTH \<and>
     length (l_regex_in_class l) = LEX_INTERP_DEPTH \<and> l_imode_depth l \<le> LEX_INTERP_DEPTH"

definition steps :: "lexer \<Rightarrow> lexer \<Rightarrow> bool" where
  "steps l l' \<longleftrightarrow>
     rest_of l' = rest_of l \<and> l_pos l \<le> l_pos l' \<and>
     l_pos l' \<le> max (l_pos l) (length (l_src l) + 1) \<and>
     l_imode_depth l' \<le> l_imode_depth l + 1 \<and> (arrays_ok l \<longrightarrow> arrays_ok l')"

lemma steps_refl [simp, intro]: "steps l l"
  by (simp add: steps_def)

lemma rest_of_unmoved: "rest_of (unmoved l) = rest_of l"
  by (simp add: rest_of_def unmoved_def)

lemma scans_steps: "scans l l' \<Longrightarrow> steps l l'"
proof -
  assume s: "scans l l'"
  then have "unmoved l' = unmoved l" by (simp add: scans_def moves_def)
  then have "rest_of l' = rest_of l" by (metis rest_of_unmoved)
  moreover have m: "moves l l'" using s by (simp add: scans_def)
  ultimately show ?thesis using s moves_pos [OF m]
    by (auto simp: steps_def scans_def arrays_ok_def movesD [OF m])
qed

text \<open>After the scanner has read, the flags and the mode stack may change.\<close>

definition flags :: "lexer \<Rightarrow> lexer \<Rightarrow> bool" where
  "flags l l' \<longleftrightarrow>
     rest_of l' = rest_of l \<and> l_pos l' = l_pos l \<and> l_imode_depth l' \<le> l_imode_depth l + 1 \<and>
     (arrays_ok l \<longrightarrow> arrays_ok l')"

lemma rest_of_src: "rest_of l' = rest_of l \<Longrightarrow> l_src l' = l_src l"
proof -
  assume "rest_of l' = rest_of l"
  then have "l_src (rest_of l') = l_src (rest_of l)" by simp
  then show ?thesis by (simp add: rest_of_def)
qed

lemma scans_depth: "scans l l' \<Longrightarrow> l_imode_depth l' = l_imode_depth l"
  by (simp add: scans_def movesD)

lemma steps_flags: "scans l l' \<Longrightarrow> flags l' l'' \<Longrightarrow> steps l l''"
  using scans_steps [of l l'] scans_depth [of l l'] by (auto simp: steps_def flags_def)

lemma scans_then_steps: "scans l l' \<Longrightarrow> steps l' l'' \<Longrightarrow> steps l l''"
  using scans_steps [of l l'] scans_depth [of l l'] rest_of_src [of l' l]
  by (auto simp: steps_def)

lemma flags_intros [scan_intros]:
  "flags l l" "flags l (l\<lparr>l_state := st\<rparr>)" "flags l (l\<lparr>l_prev_was_dot := b\<rparr>)"
  "flags l (imode_pop l)" "flags l (imode_push m l)" "flags l (bump_ibrace l)"
  "flags l (drop_ibrace l)" "flags l (set_regex_class b (imode_push m l))"
  "flags l (set_percent_close c (imode_push m l))" "flags l (set_regex_class b l)"
  by (auto simp: flags_def rest_of_def arrays_ok_def imode_pop_def imode_push_def bump_ibrace_def
      drop_ibrace_def set_regex_class_def set_percent_close_def LEX_INTERP_DEPTH_def)


text \<open>The scanner that skips the space before a token also sets a flag; the step it does is one of a
  token that leaves the mode stack alone.\<close>

definition spaces :: "lexer \<Rightarrow> lexer \<Rightarrow> bool" where
  "spaces l l' \<longleftrightarrow> rest_of l' = rest_of l \<and> l_pos l \<le> l_pos l' \<and>
     l_pos l' \<le> max (l_pos l) (length (l_src l)) \<and> l_imode l' = l_imode l \<and>
     l_imode_depth l' = l_imode_depth l \<and> (arrays_ok l \<longrightarrow> arrays_ok l')"

lemma spaces_refl: "spaces l l"
  by (simp add: spaces_def)

lemma spaces_trans: "spaces l l' \<Longrightarrow> spaces l' l'' \<Longrightarrow> spaces l l''"
  using rest_of_src [of l' l] by (auto simp: spaces_def)

lemma scans_spaces: "scans l l' \<Longrightarrow> spaces l (l'\<lparr>l_had_space := b\<rparr>)"
proof -
  assume s: "scans l l'"
  then have m: "moves l l'" by (simp add: scans_def)
  have "rest_of (l'\<lparr>l_had_space := b\<rparr>) = rest_of l'" by (simp add: rest_of_def)
  then show ?thesis using s scans_steps [OF s]
    by (simp add: spaces_def steps_def scans_def arrays_ok_def movesD [OF m])
qed

lemma spaces_skip_whitespace: "spaces l (skip_whitespace l)"
proof (induction l rule: skip_whitespace.induct)
  case (1 l)
  show ?case
  proof (cases "at_end l")
    case True
    then show ?thesis by (subst skip_whitespace.simps) (simp add: spaces_refl)
  next
    case False
    have a: "spaces l ((advance l)\<lparr>l_had_space := b\<rparr>)" for b
      using False by (intro scans_spaces scans_advance)
    have w: "spaces l ((advance_while P l)\<lparr>l_had_space := b\<rparr>)" for b P
      by (intro scans_spaces scans_advance_while)
    have b: "spaces l ((advance (advance l))\<lparr>l_had_space := b\<rparr>)" if "peek2 l = CHR 0x0A" for b
    proof -
      have "\<not> at_end (advance l)" using that by (auto simp: peek2_def not_at_end split: if_splits)
      then show ?thesis by (intro scans_spaces scans_advance2I [OF False _ scans_refl])
    qed
    have n: "spaces l ((advance l)\<lparr>l_line := k, l_line_start := m, l_had_space := b\<rparr>)" for k m b
      using a [of b] by (simp add: spaces_def rest_of_def arrays_ok_def)
    let ?c = "peek_ch l"
    let ?cont = "?c = CHR 0x5C \<and> peek2 l = CHR 0x0A"
    note sw = skip_whitespace.simps [of l]
    consider (blank) "is_blank ?c" | (cont) "\<not> is_blank ?c" "?cont"
      | (comment) "\<not> is_blank ?c" "\<not> ?cont" "?c = CHR ''#''"
      | (dot) "\<not> is_blank ?c" "\<not> ?cont" "?c \<noteq> CHR ''#''" "?c = CHR 0x0A \<and> l_prev_was_dot l"
      | (stop) "\<not> is_blank ?c" "\<not> ?cont" "?c \<noteq> CHR ''#''" "\<not> (?c = CHR 0x0A \<and> l_prev_was_dot l)"
      by blast
    then show ?thesis
    proof cases
      case blank
      have "skip_whitespace l = skip_whitespace ((advance l)\<lparr>l_had_space := True\<rparr>)"
        using False blank by (subst sw) (simp only: Let_def if_True if_False)
      then show ?thesis using spaces_trans [OF a 1(1) [OF False refl blank]] by simp
    next
      case cont
      have "skip_whitespace l = skip_whitespace ((advance (advance l))\<lparr>l_had_space := True\<rparr>)"
        using False cont by (subst sw) (simp only: Let_def if_True if_False simp_thms)
      then show ?thesis using spaces_trans [OF b 1(2) [OF False refl cont]] cont by simp
    next
      case comment
      have "skip_whitespace l =
          skip_whitespace ((advance_while (\<lambda>c. c \<noteq> CHR 0x0A) l)\<lparr>l_had_space := True\<rparr>)"
        using False comment by (subst sw) (simp only: Let_def if_True if_False simp_thms)
      then show ?thesis using spaces_trans [OF w 1(3) [OF False refl comment]] by simp
    next
      case dot
      have "skip_whitespace l = skip_whitespace ((advance l)\<lparr>l_line := l_line (advance l) + 1,
          l_line_start := word_of_nat (l_pos (advance l)), l_had_space := True\<rparr>)"
        using False dot by (subst sw) (simp only: Let_def if_True if_False simp_thms)
      then show ?thesis using spaces_trans [OF n 1(4) [OF False refl dot refl]] by simp
    next
      case stop
      have "skip_whitespace l = l"
        using False stop by (subst sw) (simp only: Let_def if_True if_False simp_thms)
      then show ?thesis by (simp add: spaces_refl)
    qed
  qed
qed


subsection \<open>The scanners of the literals\<close>

lemma peek2_is: "peek2 l = c \<Longrightarrow> c \<noteq> NUL \<Longrightarrow> \<not> at_end (advance l)"
  by (auto simp: peek2_def not_at_end split: if_splits)

lemma scans_step [intro]: "scans l l1 \<Longrightarrow> \<not> at_end l1 \<Longrightarrow> scans l (advance l1)"
  using scans_advance scans_trans by blast

lemma scans_while [intro]: "scans l l1 \<Longrightarrow> scans l (advance_while P l1)"
  using scans_advance_while scans_trans by blast

lemma scans_if: "scans l l1 \<Longrightarrow> \<not> P NUL \<Longrightarrow> scans l (advance_if P l1)"
  using scans_advance_if scans_trans by blast

lemma scans_loops:
  "scans l l1 \<Longrightarrow> sq_loop l1 buf = (buf', l2) \<Longrightarrow> scans l l2"
  "scans l l1 \<Longrightarrow> percent_loop a b l1 n = (found, l2) \<Longrightarrow> scans l l2"
  "scans l l1 \<Longrightarrow> regexp_flags l1 fl = (fl', l2) \<Longrightarrow> scans l l2"
  "scans l l1 \<Longrightarrow> percent_q_loop a b l1 k = (k', l2) \<Longrightarrow> scans l l2"
  "scans l l1 \<Longrightarrow> regexp_loop l1 cls buf = (buf', l2) \<Longrightarrow> scans l l2"
  "scans l l1 \<Longrightarrow> interp_loop c l1 buf = (buf', l2) \<Longrightarrow> scans l l2"
  using scans_sq_loop [of l1 buf] scans_percent_loop [of l1 a b n] scans_regexp_flags [of l1 fl]
    scans_percent_q_loop [of l1 a b k] scans_regexp_loop [of l1 cls buf] scans_interp_loop [of l1 c buf]
    scans_trans [of l l1 l2]
  by auto

lemma scans_scan_radix: "scans l (snd (scan_radix l st ln co P v b))"
  by (simp add: scan_radix_def Let_def scans_while)

lemma scans_peek [intro]: "scans l l1 \<Longrightarrow> peek_ch l1 = c \<Longrightarrow> c \<noteq> NUL \<Longrightarrow> scans l (advance l1)"
  using peek_is by blast

lemma scans_scan_exponent: "\<not> at_end l \<Longrightarrow> scans l (scan_exponent l)"
proof -
  assume e: "\<not> at_end l"
  let ?l = "advance l"
  let ?l2 = "if peek_ch ?l = CHR ''+'' \<or> peek_ch ?l = CHR ''-'' then advance ?l else ?l"
  have l: "scans l ?l" using e by (rule scans_advance)
  have "scans l ?l2" using l peek_is [of ?l "CHR ''+''"] peek_is [of ?l "CHR ''-''"] by auto
  then show ?thesis by (simp add: scan_exponent_def Let_def scans_while)
qed

text \<open>The number after its prefix: digits, a fraction, an exponent and a suffix.\<close>

definition frac_part :: "lexer \<Rightarrow> bool \<times> lexer" where
  "frac_part l =
     (if peek_ch l = CHR ''.'' \<and> isdigit (peek2 l)
      then (True, advance_while is_digit_or_us (advance l)) else (False, l))"

definition exp_part :: "bool \<Rightarrow> lexer \<Rightarrow> bool \<times> lexer" where
  "exp_part b l =
     (if peek_ch l = CHR ''e'' \<or> peek_ch l = CHR ''E'' then (True, scan_exponent l) else (b, l))"

lemma scans_frac_part: "scans l (snd (frac_part l))"
  using peek_is [of l "CHR ''.''"] by (auto simp: frac_part_def)

lemma scans_exp_part: "scans l (snd (exp_part b l))"
  using peek_is [of l "CHR ''e''"] peek_is [of l "CHR ''E''"]
  by (auto simp: exp_part_def intro: scans_scan_exponent)

lemma advance_while_first:
  "\<not> at_end l \<Longrightarrow> P (peek_ch l) \<Longrightarrow> scans (advance l) (advance_while P l)"
  by (subst advance_while.simps) (simp add: scans_advance_while)

lemma scans_scan_number:
  assumes d: "isdigit (peek_ch l)"
  shows "scans (advance l) (snd (scan_number l st ln co))"
proof -
  let ?b = "advance l"
  have two: "scans ?b (snd (scan_radix (advance (advance l)) st ln co P v b))"
    if "peek2 l = c" "c \<noteq> NUL" for c P v b
    using that peek2_is [of l c] by (intro scans_trans [OF _ scans_scan_radix]) auto
  have ne: "\<not> at_end l" using d by (auto simp: peek_ch_def split: if_splits)
  have first: "scans ?b (advance_while is_digit_or_us l)"
    using d ne by (intro advance_while_first) (simp_all add: is_digit_or_us_def)
  obtain f l2 where 2: "frac_part (advance_while is_digit_or_us l) = (f, l2)" by force
  obtain f' l3 where 3: "exp_part f l2 = (f', l3)" by force
  have s2: "scans ?b l2"
    using scans_trans [OF first scans_frac_part] 2 by (metis snd_conv)
  have s3: "scans ?b l3"
    using scans_trans [OF s2 scans_exp_part [of l2 f]] 3 by simp
  have suffix: "scans ?b (advance l3)" if "peek_ch l3 = c" "c \<noteq> NUL" for c
    using s3 that by (rule scans_peek)
  show ?thesis
    unfolding scan_number_def frac_part_def [symmetric] exp_part_def [symmetric] Let_def 2 3
    by (auto simp: 2 3 s3 intro: two suffix)
qed

lemma scans_scan_string_sq: "scans l (snd (scan_string_sq l st ln co))"
proof -
  obtain buf l1 where 1: "sq_loop l [] = (buf, l1)" by force
  then have s: "scans l l1" using scans_sq_loop [of l "[]"] by simp
  then have "scans l (if at_end l1 then l1 else advance l1)" by (simp add: scans_step)
  then show ?thesis by (simp add: scan_string_sq_def 1 Let_def)
qed

lemma scans_scan_percent_list: "\<not> at_end l \<Longrightarrow> scans l (snd (scan_percent_list l st ln co k))"
proof -
  assume e: "\<not> at_end l"
  let ?l = "advance l"
  obtain found l2 where 2:
    "percent_loop (src_at ?l (Suc (l_pos l))) (paired_delim (src_at ?l (Suc (l_pos l)))) (advance ?l) 0 =
       (found, l2)" by force
  have l: "scans l ?l" using e by (rule scans_advance)
  have s2: "scans l l2" if "\<not> at_end ?l"
    using scans_loops(2) [OF scans_step [OF l that] 2] .
  have "scans l (advance l2)" if "\<not> at_end ?l" found
  proof -
    have "\<not> at_end l2" using percent_loop_found [of _ _ "advance ?l" 0 l2] 2 that by auto
    then show ?thesis using s2 [OF that(1)] by blast
  qed
  then show ?thesis using l s2 by (auto simp: scan_percent_list_def Let_def 2 split: if_splits)
qed

lemma scans_scan_percent_regexp: "\<not> at_end l \<Longrightarrow> scans l (snd (scan_percent_regexp l st ln co))"
proof -
  assume e: "\<not> at_end l"
  let ?l = "advance l"
  obtain found l2 where 2:
    "percent_loop (src_at ?l (Suc (l_pos l))) (paired_delim (src_at ?l (Suc (l_pos l)))) (advance ?l) 0 =
       (found, l2)" by force
  obtain fl l3 where 3: "regexp_flags (advance l2) 0 = (fl, l3)" by force
  have l: "scans l ?l" using e by (rule scans_advance)
  have s2: "scans l l2" if "\<not> at_end ?l"
    using scans_loops(2) [OF scans_step [OF l that] 2] .
  have "scans l l3" if "\<not> at_end ?l" found
  proof -
    have "\<not> at_end l2" using percent_loop_found [of _ _ "advance ?l" 0 l2] 2 that by auto
    then show ?thesis using scans_loops(3) [OF scans_step [OF s2 [OF that(1)]] 3] by simp
  qed
  then show ?thesis using l s2
    by (auto simp: scan_percent_regexp_def Let_def 2 3 split: if_splits)
qed

lemma scans_scan_char_literal: "scans l (snd (scan_char_literal l st ln co))"
proof -
  have "scans l (advance l)" if "\<not> at_end l" using that by (rule scans_advance)
  moreover have "scans l (advance (advance l))" if "\<not> at_end l" "\<not> at_end (advance l)"
    using that by (intro scans_step scans_advance)
  ultimately show ?thesis by (auto simp: scan_char_literal_def Let_def)
qed

lemma scans_scan_operator_symbol: "scans l (scan_operator_symbol l)"
proof -
  have i: "scans l (advance_if P (advance l))" if "peek_ch l = c" "c \<noteq> NUL" "\<not> P NUL" for c P
    using that peek_is by (intro scans_if scans_advance) blast+
  have one: "scans l (advance l)" if "peek_ch l = c" "c \<noteq> NUL" for c
    using that by (intro scans_peek scans_refl)
  have two: "scans l (advance (advance l))"
    if "peek_ch l = c" "c \<noteq> NUL" "peek_ch (advance l) = d" "d \<noteq> NUL" for c d
    using that by (intro scans_peek scans_refl)
  have three: "scans l (advance_if P (advance (advance l)))"
    if "peek_ch l = c" "c \<noteq> NUL" "peek_ch (advance l) = d" "d \<noteq> NUL" "\<not> P NUL" for c d P
    using that by (intro scans_if scans_peek scans_refl)
  show ?thesis
    by (auto simp: scan_operator_symbol_def Let_def intro: i one two three)
qed

lemma scans_scan_symbol_name: "scans l (scan_symbol_name l)"
proof -
  have w: "scans l (advance_while Q (advance_if P (advance l)))"
    if "peek_ch l = c" "c \<noteq> NUL" "\<not> P NUL" for c P Q
    using that by (intro scans_while scans_if scans_peek [OF scans_refl])
  have p: "scans l (advance_while P (advance l))" if "peek_ch l = c" "c \<noteq> NUL" for c P
    using that by (intro scans_while scans_peek [OF scans_refl])
  have q: "scans l (advance (advance l))"
    if "peek_ch l = c" "c \<noteq> NUL" "peek_ch (advance l) = d" "d \<noteq> NUL" for c d
    using that by (intro scans_peek scans_refl)
  have s: "scans l (advance l)" if "peek_ch l = c" "c \<noteq> NUL" for c
    using that by (intro scans_peek scans_refl)
  show ?thesis
    by (auto simp: scan_symbol_name_def Let_def scans_scan_operator_symbol
        intro: scans_if scans_while w p q s)
qed

lemma scans_scan_ident:
  assumes "is_word_ch (peek_ch l)"
  shows "scans (advance l) (snd (scan_ident l st ln co))"
proof -
  have "\<not> at_end l" using assms by (auto simp: peek_ch_def split: if_splits)
  then have "scans (advance l)
      (advance_if (\<lambda>c. c = CHR ''?'' \<or> c = CHR ''!'') (advance_while is_word_ch l))"
    using assms by (intro scans_if advance_while_first) simp_all
  then show ?thesis by (simp add: scan_ident_def Let_def split: option.split)
qed

subsection \<open>The cases of the switch\<close>

lemma snd_simple [simp]: "snd (simple l s k) = l" "snd (simple_in st l s k) = l\<lparr>l_state := st\<rparr>"
  "fst (simple l s k) = make_tok l k (fst s) (fst (snd s)) (snd (snd s))"
  by (simp_all add: simple_def simple_in_def split: prod.split)

text \<open>A token that reads and then sets the flags.\<close>

lemmas flagged = steps_flags [OF _ flags_intros(1)] steps_flags [OF _ flags_intros(2)]
  steps_flags [OF _ flags_intros(3)] steps_flags [OF _ flags_intros(4)]
  steps_flags [OF _ flags_intros(5)] steps_flags [OF _ flags_intros(6)]
  steps_flags [OF _ flags_intros(7)] steps_flags [OF _ flags_intros(8)]
  steps_flags [OF _ flags_intros(9)] steps_flags [OF _ flags_intros(10)]

lemma steps_op_eq: "scans l l1 \<Longrightarrow> steps l (snd (op_eq l1 s k1 k2))"
  by (auto simp: op_eq_def intro: flagged)

lemma steps_op_double: "c \<noteq> NUL \<Longrightarrow> steps l (snd (op_double c l s a b d e))"
  by (auto simp: op_double_def intro: steps_op_eq)

lemma steps_scan_lbrace: "steps l (snd (scan_lbrace l s))"
proof -
  have "flags l ((bump_ibrace l)\<lparr>l_state := st\<rparr>)" for st
    by (auto simp: flags_def rest_of_def arrays_ok_def bump_ibrace_def)
  then show ?thesis using steps_flags [OF scans_refl] by (simp add: scan_lbrace_def flags_intros)
qed

lemma steps_scan_rbrace: "steps l (snd (scan_rbrace l s))"
proof -
  have "flags l (drop_ibrace (l\<lparr>l_state := st\<rparr>))" "flags l (imode_pop (l\<lparr>l_state := st\<rparr>))" for st
    by (auto simp: flags_def rest_of_def arrays_ok_def drop_ibrace_def imode_pop_def)
  then show ?thesis using steps_flags [OF scans_refl]
    by (simp add: scan_rbrace_def flags_intros Let_def)
qed

lemma steps_scan_question: "steps l (snd (scan_question l s))"
  by (auto simp: scan_question_def scans_steps scans_scan_char_literal split: prod.split)

lemma steps_scan_minus: "steps l (snd (scan_minus l s))"
  by (auto simp: scan_minus_def intro: flagged)

lemma steps_scan_amp: "steps l (snd (scan_amp l s))"
  by (auto simp: scan_amp_def steps_op_double intro: flagged)

lemma steps_scan_gt: "steps l (snd (scan_gt l s))"
  by (simp add: scan_gt_def steps_op_double)

lemma steps_scan_eq: "steps l (snd (scan_eq l s))"
  by (auto simp: scan_eq_def intro: flagged steps_op_eq)

lemma steps_scan_bang: "steps l (snd (scan_bang l s))"
  by (auto simp: scan_bang_def intro: flagged)

lemma steps_scan_dot: "steps l (snd (scan_dot l s))"
  by (auto simp: scan_dot_def Let_def intro: flagged)

lemma scans_scan_var: "scans l l1 \<Longrightarrow> scans l (snd (scan_var l1 s k))"
  by (auto simp: scan_var_def Let_def simple_def split: prod.split)

lemma steps_scan_at: "steps l (snd (scan_at l s))"
  by (auto simp: scan_at_def intro: scans_steps scans_scan_var)

lemma steps_scan_gvar: "steps l (snd (scan_gvar l s))"
  by (auto simp: scan_gvar_def Let_def simple_def split: prod.split
      dest: peek_ch_at_end intro!: scans_steps scans_scan_var scans_advance)

lemma steps_scan_symbol: "steps l (snd (scan_symbol l st ln co))"
proof -
  have q: "steps l (snd (scan_string_sq (advance l) st ln co))" if "peek_ch l = CHR 0x27"
    using scans_trans [OF scans_peek [OF scans_refl that] scans_scan_string_sq] by (simp add: scans_steps)
  show ?thesis using q
    by (auto simp: scan_symbol_def Let_def scans_steps scans_scan_symbol_name split: prod.splits
        intro: flagged)
qed

lemma steps_scan_colon: "steps l (snd (scan_colon l s))"
  by (auto simp: scan_colon_def steps_scan_symbol split: prod.split intro: scans_steps)

lemma steps_scan_regexp: "steps l (snd (scan_regexp l st ln co))"
proof -
  obtain buf l1 where 1: "regexp_loop l False [] = (buf, l1)" by force
  obtain fl l2 where 2: "regexp_flags (advance l1) 0 = (fl, l2)" by force
  have s1: "scans l l1" using scans_loops(5) [OF scans_refl 1] .
  have "scans l l2" if "\<not> at_end l1" using scans_loops(3) [OF scans_step [OF s1 that] 2] .
  then show ?thesis using s1 by (auto simp: scan_regexp_def Let_def 1 2 intro: scans_steps flagged)
qed

lemma steps_scan_slash: "steps l (snd (scan_slash l s))"
  by (auto simp: scan_slash_def steps_scan_regexp steps_op_eq split: prod.split)

text \<open>The delimiter of \<open>%Q\<close> is read without a check for the end of the source.\<close>

lemma steps_advance: "scans l l1 \<Longrightarrow> \<not> at_end l \<Longrightarrow> steps l (advance l1)"
proof -
  assume s: "scans l l1" and e: "\<not> at_end l"
  then have m: "moves l l1" by (simp add: scans_def)
  then have "moves l (advance l1)" using moves_advance moves_trans by blast
  then have u: "unmoved (advance l1) = unmoved l" by (simp add: moves_def)
  then have "rest_of (advance l1) = rest_of l" by (metis rest_of_unmoved)
  then show ?thesis using s e u moves_pos [OF m]
    by (auto simp: steps_def scans_def arrays_ok_def not_at_end movesD [OF m] movesD [OF \<open>moves l (advance l1)\<close>])
qed

lemma scans_past_end: "length (l_src l) \<le> l_pos l \<Longrightarrow> scans l l' \<Longrightarrow> l_pos l' = l_pos l"
  using movesD(1) [of l l'] moves_pos [of l l'] by (auto simp: scans_def)

lemma steps_then_flags:
  "steps l l1 \<Longrightarrow> l_imode_depth l1 \<le> l_imode_depth l \<Longrightarrow> flags l1 l2 \<Longrightarrow> steps l l2"
  by (auto simp: steps_def flags_def)

lemma steps_then_scans: "steps l l1 \<Longrightarrow> scans l1 l2 \<Longrightarrow> steps l l2"
  using scans_steps [of l1 l2] scans_depth [of l1 l2] rest_of_src [of l1 l]
  by (auto simp: steps_def scans_def)

lemma steps_scan_percent_q: "steps l l1 \<Longrightarrow> l_imode_depth l1 = l_imode_depth l \<Longrightarrow>
    steps l (snd (scan_percent_q c d l1 s))"
proof -
  assume l: "steps l l1" "l_imode_depth l1 = l_imode_depth l"
  obtain k l2 where 2: "percent_q_loop c d l1 1 = (k, l2)" by force
  have s: "scans l1 l2" using scans_loops(4) [OF scans_refl 2] .
  have "steps l (l2\<lparr>l_state := st\<rparr>)" for st
    using steps_then_flags [OF steps_then_scans [OF l(1) s] _ flags_intros(2)] l scans_depth [OF s]
    by simp
  then show ?thesis unfolding scan_percent_q_def Let_def 2
    by (simp add: simple_def split_def)
qed

lemma peek_in: "peek_ch l \<in> set cs \<Longrightarrow> NUL \<notin> set cs \<Longrightarrow> \<not> at_end l"
  by (auto simp: peek_ch_def split: if_splits)

lemma steps_scan_percent: "steps l (snd (scan_percent l s))"
proof (cases s)
  case s: (fields st ln co)
  have list: "steps l (snd (scan_percent_list l st ln co k))" if "peek_ch l = c" "c \<noteq> NUL" for c k
    using that peek_is by (intro scans_steps scans_scan_percent_list) blast
  have reg: "steps l (snd (scan_percent_regexp l st ln co))" if "peek_ch l = c" "c \<noteq> NUL" for c
    using that peek_is by (intro scans_steps scans_scan_percent_regexp) blast
  have one: "scans l (advance l)" if "peek_ch l \<in> set ''({[<Qq''"
    using peek_in [OF that] by (intro scans_advance) simp
  have two: "steps l (advance (advance l))" if "peek_ch l \<in> set ''({[<Qq''"
    using one [OF that] peek_in [OF that] by (intro steps_advance) simp_all
  have q1: "steps l (snd (scan_percent_q c d (advance l) s))" if "peek_ch l \<in> set ''({[<Qq''" for c d
    using scans_steps [OF one [OF that]] by (rule steps_scan_percent_q) simp
  have q2: "steps l (snd (scan_percent_q c d (advance (advance l)) s))"
    if "peek_ch l \<in> set ''({[<Qq''" for c d
    using two [OF that] by (rule steps_scan_percent_q) simp
  have p1: "steps l (set_percent_close c (imode_push m (advance l)))"
    if "peek_ch l \<in> set ''({[<Qq''" for c m
    using one [OF that] flags_intros(9) by (rule steps_flags)
  have p2: "steps l (set_percent_close c (imode_push m (advance (advance l))))"
    if "peek_ch l \<in> set ''({[<Qq''" for c m
    using two [OF that] _ flags_intros(9) by (rule steps_then_flags) simp
  show ?thesis
  proof (cases "peek_ch l \<in> set ''({[<Qq'' \<and> \<not> l_after_def l \<and> \<not> l_prev_was_dot l \<and>
      (operand_state l \<or> l_state l = LEX_EXPR_ARG)")
    case True
    then have m: "peek_ch l \<in> set ''({[<Qq''" by blast
    then have n: "peek_ch l \<noteq> CHR ''=''" "peek_ch l \<noteq> CHR ''w''" "peek_ch l \<noteq> CHR ''i''"
      "peek_ch l \<noteq> CHR ''r''" by auto
    show ?thesis
      unfolding scan_percent_def s prod.case Let_def
      using n True q1 [OF m, unfolded s] q2 [OF m, unfolded s] p1 [OF m] p2 [OF m] by simp
  next
    case False
    then have g: "(\<not> l_after_def l \<and> \<not> l_prev_was_dot l \<and>
        (operand_state l \<or> l_state l = LEX_EXPR_ARG) \<and> peek_ch l \<in> set ''({[<Qq'') = False"
      by blast
    show ?thesis
      unfolding scan_percent_def s prod.case Let_def g if_False
      using list reg flagged(2) [OF scans_refl, of l]
        flagged(2) [OF scans_peek [OF scans_refl, of l "CHR ''=''"]] by simp
  qed
qed

subsection \<open>Sources without heredocs\<close>

definition heredoc_mark :: "char \<Rightarrow> bool" where
  "heredoc_mark c \<longleftrightarrow> c \<in> {CHR ''-'', CHR ''~'', CHR 0x22, CHR 0x27, CHR ''_''} \<or> isalpha c"

text \<open>No two \<open><\<close> are followed by what \<open>scan_lt\<close> takes for the name of a heredoc.\<close>

definition heredoc_free :: "string \<Rightarrow> bool" where
  "heredoc_free src \<longleftrightarrow>
     (\<forall>i < length src - 2.
        \<not> (src ! i = CHR ''<'' \<and> src ! (i + 1) = CHR ''<'' \<and> heredoc_mark (src ! (i + 2))))"

lemma heredoc_mark_NUL: "\<not> heredoc_mark NUL"
  by (simp add: heredoc_mark_def)

lemma heredoc_freeD:
  assumes "heredoc_free (l_src l)" "src_at l (l_pos l) = CHR ''<''"
    "peek_ch (advance l) = CHR ''<''" "heredoc_mark (peek_ch (advance (advance l)))"
  shows False
proof -
  have n: "\<not> at_end (advance l)" "\<not> at_end (advance (advance l))"
    using assms(3) peek_nonNUL [of heredoc_mark, OF assms(4) heredoc_mark_NUL] peek_is by auto
  then have "l_pos l < length (l_src l) - 2" by (auto simp: not_at_end)
  then show False using assms n
    by (auto simp: heredoc_free_def src_at_def peek_ch_def not_at_end split: if_splits)
qed

lemma steps_scan_lt:
  assumes "heredoc_free (l_src l0)" "src_at l0 (l_pos l0) = CHR ''<''" "l = advance l0"
  shows "steps l (snd (scan_lt l s))"
proof (cases s)
  case s: (fields st ln co)
  have n: "(\<not> preceded_by_class_keyword (l_src (advance l)) st \<and>
      (peek_ch (advance l) \<in> {CHR ''-'', CHR ''~'', CHR 0x22, CHR 0x27, CHR ''_''} \<or>
       isalpha (peek_ch (advance l)))) = False" if "peek_ch l = CHR ''<''"
    using heredoc_freeD [OF assms(1,2)] that assms(3) by (auto simp: heredoc_mark_def)
  have e: "steps l (snd (op_eq (advance l) t k1 k2))" if "peek_ch l = CHR ''<''" for t k1 k2
    using steps_op_eq [OF scans_peek [OF scans_refl that]] by simp
  show ?thesis
  proof (cases "peek_ch l = CHR ''<''")
    case True
    then show ?thesis using n [OF True] e [OF True]
      unfolding scan_lt_def s prod.case Let_def by (simp only: if_True if_False refl)
  next
    case False
    then show ?thesis by (auto simp: scan_lt_def s Let_def intro: flagged)
  qed
qed

lemma unread_advance:
  "l_pos (unread (advance l)) = l_pos l" "l_src (unread (advance l)) = l_src l"
  "c \<noteq> CHR 0x0A \<Longrightarrow> c = src_at l (l_pos l) \<Longrightarrow> unread (advance l) = l"
  by (simp_all add: unread_def advance_def Let_def)

lemma steps_scan_default:
  assumes "\<not> at_end l" "c = src_at l (l_pos l)" "c \<noteq> CHR 0x0A"
  shows "steps (advance l) (snd (scan_default c (advance l) s))"
proof -
  have "peek_ch l = c" using assms by (simp add: peek_ch_def)
  then show ?thesis using assms
    by (auto simp: scan_default_def unread_advance(3) is_word_ch_def isalnum_def split: prod.split
        intro!: scans_steps scans_scan_number scans_scan_ident)
qed

end
