(* ===== verification/LexProps.thy ===== *)
theory LexProps
  imports LexSteps
begin

section \<open>Properties of the lexer\<close>

subsection \<open>One token\<close>

lemma steps_scan_switch:
  assumes "\<not> at_end l0" "c = src_at l0 (l_pos l0)" "heredoc_free (l_src l0)" "l = advance l0"
  shows "steps l (snd (scan_switch c l s))"
proof -
  have lt: "steps l (snd (scan_lt l s))" if "c = CHR ''<''"
    using assms that by (intro steps_scan_lt) simp_all
  have def: "steps l (snd (scan_default c l s))" if "c \<noteq> CHR 0x0A"
    using assms that by (simp add: steps_scan_default)
  have sq: "steps l (snd (case s of (st, ln, co) \<Rightarrow> scan_string_sq l st ln co))"
    by (simp add: scans_steps scans_scan_string_sq split: prod.split)
  have oi: "steps l (snd (open_interp m l s))" for m
    by (simp add: open_interp_def flagged(5) [OF scans_refl])
  have bt: "steps l (snd (case open_interp m l s of (t, x) \<Rightarrow> (t\<lparr>t_ival := 1\<rparr>, x)))" for m
    using oi [of m] by (simp add: split_def)
  note cases = steps_op_eq [OF scans_refl] steps_op_double steps_scan_lbrace steps_scan_rbrace
    steps_scan_question steps_scan_minus steps_scan_amp steps_scan_gt steps_scan_eq steps_scan_bang
    steps_scan_dot steps_scan_at steps_scan_gvar steps_scan_colon steps_scan_slash steps_scan_percent
    flagged(2) [OF scans_refl]
  show ?thesis
    unfolding scan_switch_def
    by (simp add: lt sq oi bt cases def Let_def)
qed

definition lex_ok :: "lexer \<Rightarrow> bool" where
  "lex_ok l \<longleftrightarrow> arrays_ok l \<and> l_pos l \<le> length (l_src l) + 1 \<and> \<not> l_hd_active l \<and> \<not> l_hd_pending l"

text \<open>What a token takes off: two for each character, one for the end of a literal.\<close>

definition lex_left :: "lexer \<Rightarrow> nat" where
  "lex_left l = 2 * (length (l_src l) + 1 - l_pos l) + l_imode_depth l"

lemma rest_of_fields:
  assumes "rest_of l' = rest_of l"
  shows "l_src l' = l_src l" "l_hd_active l' = l_hd_active l" "l_hd_pending l' = l_hd_pending l"
    "l_has_peeked l' = l_has_peeked l" "l_peeked l' = l_peeked l"
    "l_local_vars l' = l_local_vars l" "l_after_def l' = l_after_def l"
  using arg_cong [OF assms, of l_src] arg_cong [OF assms, of l_hd_active]
    arg_cong [OF assms, of l_hd_pending] arg_cong [OF assms, of l_has_peeked]
    arg_cong [OF assms, of l_peeked] arg_cong [OF assms, of l_local_vars]
    arg_cong [OF assms, of l_after_def]
  by (simp_all add: rest_of_def)

text \<open>A token: nothing of the heredocs changes, and the source left gets smaller.\<close>

definition tok_step :: "lexer \<Rightarrow> lexer \<Rightarrow> bool" where
  "tok_step l l' \<longleftrightarrow> rest_of l' = rest_of l \<and> lex_ok l' \<and> lex_left l' < lex_left l"

lemma tok_step_spaces: "spaces l l1 \<Longrightarrow> lex_ok l \<Longrightarrow> lex_ok l1"
  using rest_of_fields [of l1 l] by (auto simp: spaces_def lex_ok_def)

lemma tok_step_advance:
  assumes ok: "lex_ok l" and e: "\<not> at_end l" and s: "steps (advance l) l'"
  shows "tok_step l l'"
proof -
  have a: "scans l (advance l)" using e by (rule scans_advance)
  have r: "rest_of (advance l) = rest_of l" using scans_steps [OF a] by (simp add: steps_def)
  have "arrays_ok (advance l)" using ok scans_steps [OF a] by (simp add: steps_def lex_ok_def)
  then show ?thesis using s ok e r rest_of_fields [of l' l]
    by (auto simp: tok_step_def steps_def lex_ok_def lex_left_def not_at_end)
qed

lemma spaces_had_space: "spaces (l\<lparr>l_had_space := b\<rparr>) l' \<Longrightarrow> spaces l l'"
  by (simp add: spaces_def rest_of_def arrays_ok_def)

lemma scan_spaces_eq:
  "\<not> l_hd_pending l \<Longrightarrow> spaces l (scan_spaces l) \<and> \<not> l_hd_pending (scan_spaces l)"
proof -
  assume p: "\<not> l_hd_pending l"
  let ?l = "skip_whitespace (l\<lparr>l_had_space := False\<rparr>)"
  have s: "spaces l ?l" using spaces_skip_whitespace by (rule spaces_had_space)
  then have "\<not> l_hd_pending ?l" using p rest_of_fields(3) [of ?l l] by (simp add: spaces_def)
  then show ?thesis using s by (simp add: scan_spaces_def Let_def)
qed

lemma spaces_then_tok_step:
  "spaces l l1 \<Longrightarrow> lex_ok l \<Longrightarrow> tok_step l1 l' \<Longrightarrow> tok_step l l'"
  using rest_of_fields(1) [of l1 l] by (auto simp: spaces_def tok_step_def lex_left_def)

lemma scan_normal_step:
  assumes ok: "lex_ok l" and h: "heredoc_free (l_src l)" and s: "scan_normal l = (t, l')"
  shows "rest_of l' = rest_of l \<and> lex_ok l' \<and> lex_left l' \<le> lex_left l \<and>
    (t_kind t = TOK_EOF \<or> lex_left l' < lex_left l)"
proof -
  let ?l = "scan_spaces l"
  have p: "spaces l ?l" using scan_spaces_eq ok by (simp add: lex_ok_def)
  have ok1: "lex_ok ?l" using tok_step_spaces [OF p ok] .
  have h1: "heredoc_free (l_src ?l)" using h p rest_of_fields(1) [of ?l l] by (simp add: spaces_def)
  show ?thesis
  proof (cases "at_end ?l")
    case True
    then show ?thesis using s p ok1 rest_of_fields(1) [of ?l l]
      by (auto simp: scan_normal_def Let_def spaces_def lex_left_def)
  next
    case False
    then have "steps (advance ?l) l'"
      using steps_scan_switch [OF False refl h1 refl, of "(l_pos ?l, l_line ?l, col_of ?l (l_pos ?l))"] s
        False by (simp add: scan_normal_def Let_def)
    then have "tok_step l l'"
      using tok_step_advance [OF ok1 False] spaces_then_tok_step [OF p ok] by blast
    then show ?thesis by (simp add: tok_step_def)
  qed
qed

subsection \<open>The content of a literal\<close>

lemma tok_step_scans:
  assumes "lex_ok l" "scans l l'" "l_pos l < l_pos l'"
  shows "tok_step l l'"
proof -
  have "steps l l'" using assms(2) by (rule scans_steps)
  then show ?thesis using assms rest_of_fields [of l' l] scans_depth [OF assms(2)]
    by (auto simp: tok_step_def steps_def lex_ok_def lex_left_def scans_def)
qed

lemma tok_step_pop:
  assumes ok: "lex_ok l" and s: "scans l l1" and d: "0 < l_imode_depth l"
    and f: "flags l1 l'" "l_imode_depth l' = l_imode_depth l1 - 1"
  shows "tok_step l l'"
proof -
  have "steps l l1" using s by (rule scans_steps)
  then show ?thesis using assms rest_of_fields [of l1 l] rest_of_fields [of l' l1] scans_depth [OF s]
    by (auto simp: tok_step_def steps_def flags_def lex_ok_def lex_left_def scans_def)
qed

lemma tok_step_push:
  assumes "lex_ok l" "at_interp l"
  shows "tok_step l (imode_push m (advance (advance l)))"
proof -
  have e: "\<not> at_end l" "\<not> at_end (advance l)"
    using assms peek_is [of l "CHR ''#''"] peek2_is [of l "CHR ''{''"] by (auto simp: at_interp_def)
  have "steps (advance l) (imode_push m (advance (advance l)))"
    using e by (intro flagged(5) scans_advance)
  then show ?thesis by (rule tok_step_advance [OF assms(1) e(1)])
qed

text \<open>The content loops read at least one character.\<close>

lemma interp_loop_reads:
  assumes "\<not> at_end l" "peek_ch l \<noteq> c" "\<not> at_interp l"
  shows "l_pos l < l_pos (snd (interp_loop c l buf))"
proof (cases "peek_ch l = CHR 0x5C \<and> \<not> at_end (advance l)")
  case True
  obtain bs l1 where e: "interp_escape (peek_ch (advance l)) (advance (advance l)) = (bs, l1)"
    by force
  then have "scans (advance (advance l)) (snd (interp_loop c l1 (buf @ bs)))"
    using scans_interp_escape [of "advance (advance l)" "peek_ch (advance l)"]
    by (metis scans_interp_loop scans_trans snd_conv)
  then show ?thesis using True assms e scans_pos
    by (subst interp_loop.simps) (fastforce simp: Let_def)
next
  case False
  then show ?thesis using assms scans_pos [OF scans_interp_loop [of "advance l" c "buf @ [peek_ch l]"]]
    by (subst interp_loop.simps) (auto simp: Let_def)
qed

lemma flags_interp_end:
  "flags l (imode_pop (if 0 < l_imode_depth l
     then l\<lparr>l_percent_close := (l_percent_close l)[l_imode_depth l - 1 := NUL]\<rparr> else l))"
  by (auto simp: flags_def rest_of_def arrays_ok_def imode_pop_def)

lemma scan_interp_str_step:
  assumes ok: "lex_ok l" and d: "0 < l_imode_depth l"
    and s: "scan_interp_str_content l = (t, l')"
  shows "tok_step l l'"
proof -
  let ?c = "interp_close_ch l"
  let ?l1 = "if at_end l then l else advance l"
  have e: "tok_step l (imode_pop (if 0 < l_imode_depth ?l1
     then ?l1\<lparr>l_percent_close := (l_percent_close ?l1)[l_imode_depth ?l1 - 1 := NUL]\<rparr> else ?l1))"
    by (rule tok_step_pop [OF ok _ d flags_interp_end])
      (auto simp: imode_pop_def intro: scans_advance)
  consider (close) "at_end l \<or> peek_ch l = ?c"
    | (interp) "\<not> (at_end l \<or> peek_ch l = ?c)" "at_interp l"
    | (lit) "\<not> (at_end l \<or> peek_ch l = ?c)" "\<not> at_interp l" by blast
  then show ?thesis
  proof cases
    case close
    then show ?thesis using s e unfolding scan_interp_str_content_def Let_def
      by (simp only: if_True refl prod.inject)
  next
    case interp
    then show ?thesis using s tok_step_push [OF ok]
      by (auto simp: scan_interp_str_content_def Let_def)
  next
    case lit
    obtain buf l2 where 2: "interp_loop ?c l [] = (buf, l2)" by force
    have "l_pos l < l_pos l2" using interp_loop_reads [of l ?c "[]"] lit 2 by simp
    then have "tok_step l l2" using tok_step_scans [OF ok] scans_loops(6) [OF scans_refl 2] by blast
    then show ?thesis using s lit 2 by (simp add: scan_interp_str_content_def Let_def)
  qed
qed

text \<open>The loop of a regexp also tracks the brackets of a character class.\<close>

lemma spaces_scans: "scans l l' \<Longrightarrow> spaces l l'"
  using scans_steps [of l l'] movesD(2,3) [of l l'] by (auto simp: spaces_def steps_def scans_def)

lemma spaces_track: "spaces l (track_regex_class c l)"
  by (auto simp: spaces_def track_regex_class_def set_regex_class_def rest_of_def arrays_ok_def)

lemma spaces_interp_regex_loop: "spaces l (snd (interp_regex_loop l buf))"
proof (induction l buf rule: interp_regex_loop.induct)
  case (1 l buf)
  let ?c = "peek_ch l"
  let ?stop = "?c = CHR ''/'' \<and> \<not> in_regex_class l \<or> at_interp l"
  note loop = interp_regex_loop.simps [of l buf]
  consider (stop) "at_end l \<or> ?stop"
    | (last) "\<not> at_end l" "\<not> ?stop" "?c = CHR 0x5C" "at_end (advance l)"
    | (esc) "\<not> at_end l" "\<not> ?stop" "?c = CHR 0x5C" "\<not> at_end (advance l)"
    | (char) "\<not> at_end l" "\<not> ?stop" "?c \<noteq> CHR 0x5C" by blast
  then show ?case
  proof cases
    case stop
    then show ?thesis by (subst loop) (auto simp: Let_def spaces_refl)
  next
    case last
    have "spaces l (advance l)" using last by (intro spaces_scans scans_advance)
    then have "spaces l (snd (interp_regex_loop (advance l) (buf @ [?c])))"
      using 1(1) [OF last(1) refl last(2) refl last(3,4)] by (rule spaces_trans)
    then show ?thesis using last by (subst loop) (simp add: Let_def)
  next
    case esc
    have "spaces l (advance (advance l))" using esc by (intro spaces_scans scans_step scans_advance)
    then have "spaces l (snd (interp_regex_loop (advance (advance l)) (buf @ [?c, peek_ch (advance l)])))"
      using 1(2) [OF esc(1) refl esc(2) refl esc(3,4)] by (rule spaces_trans)
    then show ?thesis using esc by (subst loop) (simp add: Let_def)
  next
    case char
    have "spaces l (track_regex_class ?c (advance l))"
      using char by (intro spaces_trans [OF spaces_scans spaces_track] scans_advance)
    then have "spaces l (snd (interp_regex_loop (track_regex_class ?c (advance l)) (buf @ [?c])))"
      using 1(3) [OF char(1) refl char(2) refl char(3)] by (rule spaces_trans)
    then show ?thesis using char by (subst loop) (auto simp: Let_def)
  qed
qed

lemma interp_regex_loop_reads:
  assumes "\<not> at_end l" "\<not> (peek_ch l = CHR ''/'' \<and> \<not> in_regex_class l \<or> at_interp l)"
  shows "l_pos l < l_pos (snd (interp_regex_loop l buf))"
proof -
  have s: "l_pos l1 \<le> l_pos (snd (interp_regex_loop l1 b))" for l1 b
    using spaces_interp_regex_loop [of l1 b] by (simp add: spaces_def)
  show ?thesis using assms s [of "advance l"] s [of "advance (advance l)"]
      s [of "track_regex_class (peek_ch l) (advance l)"]
    by (subst interp_regex_loop.simps) (auto simp: Let_def Suc_le_eq intro: Suc_lessD)
qed

lemma tok_step_spaces_less:
  "lex_ok l \<Longrightarrow> spaces l l' \<Longrightarrow> l_pos l < l_pos l' \<Longrightarrow> tok_step l l'"
  using rest_of_fields [of l' l] by (auto simp: tok_step_def spaces_def lex_ok_def lex_left_def)

lemma scan_interp_regex_step:
  assumes ok: "lex_ok l" and d: "0 < l_imode_depth l"
    and s: "scan_interp_regex_content l = (t, l')"
  shows "tok_step l l'"
proof -
  let ?close = "peek_ch l = CHR ''/'' \<and> \<not> in_regex_class l"
  have pop: "l_imode_depth (imode_pop l1) = l_imode_depth l1 - 1" for l1
    by (simp add: imode_pop_def)
  consider (close) "\<not> at_end l" "?close" | (eof) "at_end l"
    | (interp) "\<not> at_end l" "\<not> ?close" "at_interp l"
    | (lit) "\<not> at_end l" "\<not> ?close" "\<not> at_interp l" by blast
  then show ?thesis
  proof cases
    case close
    obtain fl l1 where 1: "regexp_flags (advance l) 0 = (fl, l1)" by force
    have "scans l l1" using scans_loops(3) [OF scans_advance [OF close(1)] 1] .
    then have "tok_step l (imode_pop l1)" by (rule tok_step_pop [OF ok _ d flags_intros(4) pop])
    then show ?thesis using s close 1 by (simp add: scan_interp_regex_content_def Let_def)
  next
    case eof
    then show ?thesis using s tok_step_pop [OF ok scans_refl d flags_intros(4) pop]
      by (simp add: scan_interp_regex_content_def Let_def)
  next
    case interp
    then show ?thesis using s tok_step_push [OF ok]
      by (auto simp: scan_interp_regex_content_def Let_def)
  next
    case lit
    obtain buf l2 where 2: "interp_regex_loop l [] = (buf, l2)" by force
    have "tok_step l l2" using interp_regex_loop_reads [of l "[]"] spaces_interp_regex_loop [of l "[]"]
      lit 2 by (intro tok_step_spaces_less [OF ok]) simp_all
    then show ?thesis using s lit 2 by (simp add: scan_interp_regex_content_def Let_def)
  qed
qed

text \<open>One call of \<open>scan\<close>.\<close>

lemma scan_step:
  assumes ok: "lex_ok l" and h: "heredoc_free (l_src l)" and s: "scan l = (t, l')"
  shows "rest_of l' = rest_of l \<and> lex_ok l' \<and> lex_left l' \<le> lex_left l \<and>
    (t_kind t = TOK_EOF \<or> lex_left l' < lex_left l)"
proof -
  have d: "0 < l_imode_depth l" if "imode_top l \<noteq> LMODE_NORMAL"
    using that by (simp add: imode_top_def split: if_splits)
  have a: "\<not> l_hd_active l" using ok by (simp add: lex_ok_def)
  show ?thesis
    using s d a scan_normal_step [OF ok h] scan_interp_str_step [OF ok] scan_interp_regex_step [OF ok]
    by (auto simp: scan_def tok_step_def split: lex_mode.splits)
qed

subsection \<open>The token stream\<close>

text \<open>The tokens \<open>lexer_next\<close> returns up to the end of the source; \<open>None\<close> when they are more
  than \<open>n\<close>.\<close>

primrec lexer_tokens :: "nat \<Rightarrow> lexer \<Rightarrow> token list option" where
  "lexer_tokens 0 l = None"
| "lexer_tokens (Suc n) l =
     (let (t, l) = lexer_next l
      in if t_kind t = TOK_EOF then Some [t]
         else map_option (\<lambda>ts. t # ts) (lexer_tokens n l))"

lemma track_state_ok:
  "lex_ok (track_state t l) = lex_ok l" "lex_left (track_state t l) = lex_left l"
  "l_src (track_state t l) = l_src l" "l_has_peeked (track_state t l) = l_has_peeked l"
  by (simp_all add: track_state_def lex_ok_def lex_left_def arrays_ok_def)

lemma lexer_next_unpeeked:
  assumes "lex_ok l" "heredoc_free (l_src l)" "\<not> l_has_peeked l" "lexer_next l = (t, l')"
  shows "lex_ok l' \<and> l_src l' = l_src l \<and> \<not> l_has_peeked l' \<and>
    (t_kind t = TOK_EOF \<or> lex_left l' < lex_left l)"
proof -
  obtain l1 where 1: "scan l = (t, l1)"
    using assms(3,4) by (cases "scan l") (auto simp: lexer_next_def Let_def)
  note s = scan_step [OF assms(1,2) 1]
  have l': "l' = (track_state t l1)\<lparr>l_after_def := (t_kind t = TOK_DEF \<or> t_kind t = TOK_ALIAS)\<rparr>"
    using assms(3,4) 1 by (auto simp: lexer_next_def Let_def)
  have "lex_ok l' = lex_ok (track_state t l1)" "lex_left l' = lex_left (track_state t l1)"
    by (simp_all add: l' lex_ok_def lex_left_def arrays_ok_def)
  then show ?thesis using s rest_of_fields [of l1 l] assms(3)
    by (simp add: track_state_ok l')
qed

lemma lexer_tokens_end:
  assumes "lex_ok l" "heredoc_free (l_src l)" "\<not> l_has_peeked l" "lex_left l < n"
  shows "\<exists>ts t. lexer_tokens n l = Some (ts @ [t]) \<and> t_kind t = TOK_EOF \<and>
    TOK_EOF \<notin> t_kind ` set ts \<and> length ts \<le> lex_left l"
  using assms
proof (induction n arbitrary: l)
  case (Suc n)
  obtain t l' where n: "lexer_next l = (t, l')" by force
  note s = lexer_next_unpeeked [OF Suc.prems(1-3) n]
  show ?case
  proof (cases "t_kind t = TOK_EOF")
    case True
    then have "lexer_tokens (Suc n) l = Some ([] @ [t])" by (simp add: n)
    then show ?thesis using True by (metis image_empty empty_iff empty_set le0 list.size(3))
  next
    case False
    then obtain ts e where ts: "lexer_tokens n l' = Some (ts @ [e])" "t_kind e = TOK_EOF"
      "TOK_EOF \<notin> t_kind ` set ts" "length ts \<le> lex_left l'"
      using Suc.IH [of l'] s Suc.prems by auto
    then have "lexer_tokens (Suc n) l = Some ((t # ts) @ [e])" using False by (simp add: n)
    then show ?thesis using ts(2-4) s False
      by (intro exI [of _ "t # ts"] exI [of _ e]) auto
  qed
qed simp

lemma lexer_init_ok:
  "lex_ok (lexer_init src)" "lex_left (lexer_init src) = 2 * (length src + 1)"
  "l_src (lexer_init src) = src" "\<not> l_has_peeked (lexer_init src)"
  by (simp_all add: lexer_init_def lex_ok_def lex_left_def arrays_ok_def LEX_INTERP_DEPTH_def)

text \<open>C19: on a source without heredocs the lexer comes to the end: after at most two tokens per
  character and two more, \<open>lexer_next\<close> returns \<open>TOK_EOF\<close>, and the tokens before it are none of
  that kind.\<close>

theorem lexer_reaches_eof:
  assumes "heredoc_free src" "2 * length src + 2 < n"
  shows "\<exists>ts t. lexer_tokens n (lexer_init src) = Some (ts @ [t]) \<and> t_kind t = TOK_EOF \<and>
    TOK_EOF \<notin> t_kind ` set ts \<and> length ts \<le> 2 * length src + 2"
  using lexer_tokens_end [of "lexer_init src" n] lexer_init_ok [of src] assms by simp

definition sample_source :: string where
  "sample_source = ''a[1] << %w(b c)''"

theorem lexer_reaches_eof_witness:
  "heredoc_free sample_source \<and>
   (\<exists>ts t. lexer_tokens 40 (lexer_init sample_source) = Some (ts @ [t]) \<and> t_kind t = TOK_EOF \<and>
    TOK_EOF \<notin> t_kind ` set ts \<and> length ts \<le> 2 * length sample_source + 2)"
proof -
  have h: "heredoc_free sample_source" by code_simp
  have "2 * length sample_source + 2 < 40" by code_simp
  then show ?thesis using lexer_reaches_eof [OF h] h by blast
qed

text \<open>C18: whatever the parser does with the lexer, on a source without heredocs the accesses of
  the lexer stay inside its arrays: after any sequence of \<open>lexer_next\<close>, \<open>lexer_peek\<close>,
  \<open>lexer_consume\<close> and \<open>lexer_mark_local\<close> the four arrays of the mode stack have their full length,
  the depth is at most that length, and the position is at most one beyond the terminator, so the
  terminator is the last byte \<open>advance\<close> has read. The bound is reached: after \<open>%Q\<close> at the end of
  the source the terminator is taken for the delimiter.\<close>

inductive lexer_reach :: "lexer \<Rightarrow> lexer \<Rightarrow> bool" for l0 where
  reach_start: "lexer_reach l0 l0"
| reach_next: "lexer_reach l0 l \<Longrightarrow> lexer_reach l0 (snd (lexer_next l))"
| reach_peek: "lexer_reach l0 l \<Longrightarrow> lexer_reach l0 (snd (lexer_peek l))"
| reach_consume: "lexer_reach l0 l \<Longrightarrow> lexer_reach l0 (lexer_consume l)"
| reach_mark: "lexer_reach l0 l \<Longrightarrow> lexer_reach l0 (lexer_mark_local name l)"

lemma lex_ok_next:
  "lex_ok l \<Longrightarrow> heredoc_free (l_src l) \<Longrightarrow>
     lex_ok (snd (lexer_next l)) \<and> l_src (snd (lexer_next l)) = l_src l"
  using scan_step [of l] rest_of_fields(1) [of "snd (scan l)" l]
  by (cases "scan l")
    (auto simp: lexer_next_def Let_def track_state_def lex_ok_def arrays_ok_def)

lemma lex_ok_peek:
  "lex_ok l \<Longrightarrow> heredoc_free (l_src l) \<Longrightarrow>
     lex_ok (snd (lexer_peek l)) \<and> l_src (snd (lexer_peek l)) = l_src l"
  using scan_step [of l] rest_of_fields(1) [of "snd (scan l)" l]
  by (cases "scan l") (auto simp: lexer_peek_def Let_def lex_ok_def arrays_ok_def)

lemma lex_ok_mark: "lex_ok (lexer_mark_local n l) = lex_ok l"
  "l_src (lexer_mark_local n l) = l_src l"
  by (simp_all add: lexer_mark_local_def lex_ok_def arrays_ok_def split: option.split)

theorem lexer_stays_in_arrays:
  assumes "heredoc_free src" "lexer_reach (lexer_init src) l"
  shows "l_src l = src \<and> l_pos l \<le> length src + 1 \<and> l_imode_depth l \<le> LEX_INTERP_DEPTH \<and>
    length (l_imode l) = LEX_INTERP_DEPTH \<and> length (l_ibrace l) = LEX_INTERP_DEPTH \<and>
    length (l_percent_close l) = LEX_INTERP_DEPTH \<and> length (l_regex_in_class l) = LEX_INTERP_DEPTH"
proof -
  have "lex_ok l \<and> l_src l = src" using assms(2)
    by (induction rule: lexer_reach.induct)
      (use assms(1) lexer_init_ok lex_ok_next lex_ok_peek in \<open>auto simp: lex_ok_mark lexer_consume_def\<close>)
  then show ?thesis by (auto simp: lex_ok_def arrays_ok_def)
qed

theorem lexer_stays_in_arrays_witness:
  "(\<exists>l. lexer_reach (lexer_init sample_source) l \<and> l_pos l = 3 \<and>
     l_src l = sample_source \<and> l_imode_depth l \<le> LEX_INTERP_DEPTH) \<and>
   (\<exists>l. lexer_reach (lexer_init ''%Q'') l \<and> l_src l = ''%Q'' \<and> l_pos l = length (l_src l) + 1 \<and>
     length (l_imode l) = LEX_INTERP_DEPTH)"
proof
  have h: "heredoc_free sample_source" by code_simp
  let ?l = "snd (lexer_peek (lexer_consume (lexer_consume (lexer_init sample_source))))"
  have r: "lexer_reach (lexer_init sample_source) ?l" by (intro lexer_reach.intros)
  have "l_pos ?l = 3" by code_simp
  then show "\<exists>l. lexer_reach (lexer_init sample_source) l \<and> l_pos l = 3 \<and>
     l_src l = sample_source \<and> l_imode_depth l \<le> LEX_INTERP_DEPTH"
    using r lexer_stays_in_arrays [OF h r] by blast
next
  have h: "heredoc_free ''%Q''" by code_simp
  let ?l = "snd (lexer_next (lexer_init ''%Q''))"
  have r: "lexer_reach (lexer_init ''%Q'') ?l" by (intro lexer_reach.intros)
  have "l_pos ?l = length ''%Q'' + 1" by code_simp
  then show "\<exists>l. lexer_reach (lexer_init ''%Q'') l \<and> l_src l = ''%Q'' \<and> l_pos l = length (l_src l) + 1 \<and>
     length (l_imode l) = LEX_INTERP_DEPTH"
    using r lexer_stays_in_arrays [OF h r] by (intro exI [of _ ?l]) simp
qed

lemma token_is_local_peeked:
  "token_is_local (l\<lparr>l_peeked := p\<rparr>) t = token_is_local l t"
  "token_is_local (l\<lparr>l_has_peeked := b\<rparr>) t = token_is_local l t"
  by (simp_all add: token_is_local_def lexer_is_local_def split: option.split)

lemma track_state_peeked:
  "track_state t (l\<lparr>l_peeked := p\<rparr>) = (track_state t l)\<lparr>l_peeked := p\<rparr>"
  "track_state t (l\<lparr>l_has_peeked := b\<rparr>) = (track_state t l)\<lparr>l_has_peeked := b\<rparr>"
  by (simp_all add: track_state_def token_is_local_peeked)

text \<open>Looking ahead does not change what is read. After \<open>lexer_peek\<close> the next token is the
  one returned by it, a second \<open>lexer_peek\<close> changes nothing, and \<open>lexer_next\<close> leaves the lexer
  it leaves without the look-ahead, but for the memory of the token.\<close>

theorem lexer_peek_next:
  "lexer_peek (snd (lexer_peek l)) = lexer_peek l \<and>
   fst (lexer_next (snd (lexer_peek l))) = fst (lexer_peek l) \<and>
   fst (lexer_next l) = fst (lexer_peek l) \<and>
   (snd (lexer_next (snd (lexer_peek l))))\<lparr>l_peeked := zero_token, l_has_peeked := False\<rparr> =
     (snd (lexer_next l))\<lparr>l_peeked := zero_token, l_has_peeked := False\<rparr>"
proof (cases "l_has_peeked l")
  case True
  then show ?thesis by (simp add: lexer_peek_def lexer_next_def Let_def)
next
  case False
  obtain t l1 where "scan l = (t, l1)" by force
  then show ?thesis using False
    by (simp add: lexer_peek_def lexer_next_def Let_def track_state_peeked)
qed

end
