(* ===== verification/LexTokens.thy ===== *)
theory LexTokens
  imports LexProps
begin

section \<open>What the tokens carry\<close>

text \<open>The parser reads the string of a name, a string or a regexp without a test for null. The
  lexer never makes such a token without one.\<close>

definition tok_named :: "token_kind \<Rightarrow> bool" where
  "tok_named k \<longleftrightarrow>
     k \<in> set [TOK_IDENT, TOK_CONST, TOK_IVAR, TOK_CVAR, TOK_GVAR, TOK_STRING, TOK_SYMBOL, TOK_REGEXP]"

definition tok_ok :: "token \<Rightarrow> bool" where
  "tok_ok t \<longleftrightarrow> (tok_named (t_kind t) \<longrightarrow> t_sval t \<noteq> None)"

named_theorems tok_intros \<open>the scanners return tokens with their string\<close>

lemma tok_ok_sval [simp]: "t_sval t = Some v \<Longrightarrow> tok_ok t"
  by (simp add: tok_ok_def)

lemma tok_ok_update [simp]:
  "tok_ok (t\<lparr>t_sval := Some v\<rparr>)" "tok_ok (t\<lparr>t_ival := i\<rparr>) = tok_ok t"
  "tok_ok (t\<lparr>t_fval := x\<rparr>) = tok_ok t" "tok_ok (t\<lparr>t_slen := n\<rparr>) = tok_ok t"
  by (simp_all add: tok_ok_def)

lemma tok_ok_make [simp]: "\<not> tok_named k \<Longrightarrow> tok_ok (make_tok l k a b c)"
  by (simp add: tok_ok_def)

lemma tok_ok_simple [simp]:
  "\<not> tok_named k \<Longrightarrow> tok_ok (fst (simple l s k))" "\<not> tok_named k \<Longrightarrow> tok_ok (fst (simple_in st l s k))"
  by (simp_all add: simple_in_def split: prod.split)

lemma tok_ok_interp [simp]: "\<not> tok_named k \<Longrightarrow> tok_ok (interp_tok k a b c)"
  by (simp add: tok_ok_def interp_tok_def)

lemma tok_named_kinds [simp]:
  "\<not> tok_named (Struct x)" "\<not> tok_named (Operator o')" "\<not> tok_named (Punct u)"
  "\<not> tok_named (Assign a)" "\<not> tok_named (Interp i)" "\<not> tok_named (Keyword kw)"
  "\<not> tok_named TOK_INT" "\<not> tok_named TOK_FLOAT" "\<not> tok_named TOK_RATIONAL"
  "\<not> tok_named TOK_IMAGINARY" "\<not> tok_named TOK_WORDS" "\<not> tok_named TOK_SYMBOLS"
  by (simp_all add: tok_named_def)

lemma tok_named_simps [simp]:
  "tok_named TOK_IDENT" "tok_named TOK_CONST" "tok_named TOK_IVAR" "tok_named TOK_CVAR"
  "tok_named TOK_GVAR" "tok_named TOK_STRING" "tok_named TOK_SYMBOL" "tok_named TOK_REGEXP"
  by (simp_all add: tok_named_def)

lemma tok_ok_let: "(\<And>x. tok_ok (fst (f x))) \<Longrightarrow> tok_ok (fst (Let a f))"
  by (simp add: Let_def)

lemma tok_ok_prod: "(\<And>x y. tok_ok (fst (f x y))) \<Longrightarrow> tok_ok (fst (case_prod f a))"
  by (simp split: prod.split)

lemma tok_ok_if: "tok_ok (fst x) \<Longrightarrow> tok_ok (fst y) \<Longrightarrow> tok_ok (fst (if b then x else y))"
  by simp

lemmas tok_ok_walk = tok_ok_let tok_ok_prod tok_ok_if

subsection \<open>The scanners\<close>

lemma tok_ok_number: "tok_ok (fst (scan_number l a b c))"
  by (auto simp: scan_number_def scan_radix_def Let_def tok_ok_def make_tok_def split: prod.split)

lemma tok_ok_sq: "tok_ok (fst (scan_string_sq l a b c))"
  by (simp add: scan_string_sq_def Let_def split: prod.split)

lemma tok_ok_percent_list: "tok_ok (fst (scan_percent_list l a b c k))"
  by (simp add: scan_percent_list_def unterminated_def Let_def split: prod.split)

lemma tok_ok_percent_regexp: "tok_ok (fst (scan_percent_regexp l a b c))"
  by (simp add: scan_percent_regexp_def unterminated_def Let_def split: prod.split)

lemma tok_ok_char: "tok_ok (fst (scan_char_literal l a b c))"
  by (simp add: scan_char_literal_def Let_def split: prod.split)

lemma tok_ok_symbol: "tok_ok (fst (scan_symbol l a b c))"
proof -
  obtain t l' where "scan_string_sq (advance l) a b c = (t, l')" by force
  moreover have "t_sval t \<noteq> None"
    using calculation by (auto simp: scan_string_sq_def Let_def split: prod.splits if_splits)
  ultimately show ?thesis by (auto simp: scan_symbol_def Let_def)
qed

lemma tok_ok_ident: "tok_ok (fst (scan_ident l a b c))"
  by (simp add: scan_ident_def Let_def split: option.split)

lemma tok_ok_heredoc: "tok_ok (fst (scan_heredoc l a b c))"
  unfolding scan_heredoc_def by (intro tok_ok_walk) simp_all

lemma tok_ok_regexp: "tok_ok (fst (scan_regexp l a b c))"
  by (simp add: scan_regexp_def Let_def split: prod.split)

lemma tok_ok_op: "\<not> tok_named k1 \<Longrightarrow> \<not> tok_named k2 \<Longrightarrow> tok_ok (fst (op_eq l s k1 k2))"
  "\<not> tok_named k1 \<Longrightarrow> \<not> tok_named k2 \<Longrightarrow> \<not> tok_named k3 \<Longrightarrow> \<not> tok_named k4 \<Longrightarrow>
     tok_ok (fst (op_double c l s k1 k2 k3 k4))"
  by (simp_all add: op_eq_def op_double_def)

lemma tok_ok_var: "tok_ok (fst (scan_var l s k))"
  by (simp add: scan_var_def Let_def split: prod.split)

lemmas tok_ok_scanners = tok_ok_number tok_ok_sq tok_ok_percent_list tok_ok_percent_regexp tok_ok_char
  tok_ok_symbol tok_ok_ident tok_ok_heredoc tok_ok_regexp tok_ok_op tok_ok_var

lemma tok_ok_percent_q: "tok_ok (fst (scan_percent_q c d l s))"
  by (simp add: scan_percent_q_def Let_def split: prod.split)

lemma tok_ok_percent: "tok_ok (fst (scan_percent l s))"
  by (simp add: scan_percent_def Let_def tok_ok_scanners tok_ok_percent_q split: prod.split)

lemma tok_ok_default: "tok_ok (fst (scan_default c l s))"
  by (simp add: scan_default_def tok_ok_scanners split: prod.split)

lemma tok_ok_cases:
  "tok_ok (fst (scan_lbrace l s))" "tok_ok (fst (scan_rbrace l s))" "tok_ok (fst (scan_question l s))"
  "tok_ok (fst (scan_minus l s))" "tok_ok (fst (scan_slash l s))" "tok_ok (fst (scan_amp l s))"
  "tok_ok (fst (scan_lt l s))" "tok_ok (fst (scan_gt l s))" "tok_ok (fst (scan_eq l s))"
  "tok_ok (fst (scan_bang l s))" "tok_ok (fst (scan_dot l s))" "tok_ok (fst (scan_colon l s))"
  "tok_ok (fst (scan_at l s))" "tok_ok (fst (scan_gvar l s))" "tok_ok (fst (open_interp m l s))"
  by (simp_all add: scan_lbrace_def scan_rbrace_def scan_question_def scan_minus_def scan_slash_def
      scan_amp_def scan_lt_def scan_gt_def scan_eq_def scan_bang_def scan_dot_def scan_colon_def
      scan_at_def scan_gvar_def open_interp_def Let_def tok_ok_scanners split: prod.split)

lemma tok_ok_switch: "tok_ok (fst (scan_switch c l s))"
proof -
  have sq: "tok_ok (fst (case s of (a, b, d) \<Rightarrow> scan_string_sq l a b d))"
    by (simp add: tok_ok_scanners split: prod.split)
  have bt: "tok_ok (fst (case open_interp LMODE_INTERP_BACKTICK l s of (t, l) \<Rightarrow> (t\<lparr>t_ival := 1\<rparr>, l)))"
    using tok_ok_cases(15) [of LMODE_INTERP_BACKTICK l s] by (simp add: split_def)
  show ?thesis
    unfolding scan_switch_def
    by (simp add: tok_ok_cases tok_ok_scanners tok_ok_percent tok_ok_default sq bt Let_def)
qed

lemma tok_ok_normal: "tok_ok (fst (scan_normal l))"
  by (simp add: scan_normal_def Let_def tok_ok_switch) (simp add: tok_ok_def)

lemma tok_ok_contents:
  "tok_ok (fst (scan_interp_str_content l))" "tok_ok (fst (scan_interp_regex_content l))"
  "tok_ok (fst (scan_heredoc_content l))"
  by (simp_all add: scan_interp_str_content_def scan_interp_regex_content_def
      scan_heredoc_content_def Let_def split: prod.split)

lemma scan_tok_ok: "tok_ok (fst (scan l))"
  by (simp add: scan_def tok_ok_normal tok_ok_contents split: lex_mode.split)

end
