(* ===== verification/Ast.thy ===== *)
theory Ast
  imports Prelude
begin

section \<open>The syntax tree and the string ropes (src/ast.h, src/ast.c, src/rope.h, src/rope.c)\<close>

text \<open>
  A node is its span, its \<open>slen\<close> and its data: one constructor for each member of the union, with
  the kind as an argument where several kinds share a member. A pointer that may be null is an
  option. A \<open>NodeList\<close> is a list. Ropes and nodes refer to each other.
\<close>

subsection \<open>Nodes and ropes\<close>

record span =
  sp_line :: u32
  sp_col :: u32
  sp_len :: u32

datatype (plugins only: code size) sval_kind =
  K_STRING | K_SYMBOL | K_LVAR | K_IVAR | K_CVAR | K_GVAR | K_CONST

datatype (plugins only: code size) plain_kind = K_NIL | K_TRUE | K_FALSE | K_SELF | K_RETRY

datatype (plugins only: code size) binop_kind = K_BINOP | K_OP_ASSIGN

datatype (plugins only: code size) cond_kind = K_IF | K_UNLESS

datatype (plugins only: code size) loop_kind = K_WHILE | K_UNTIL

datatype (plugins only: code size) jump_kind = K_RETURN | K_BREAK | K_NEXT

datatype (plugins only: code size) klass_kind = K_CLASS | K_MODULE

datatype (plugins only: code size) body_kind = K_BODY | K_PROGRAM

datatype (plugins only: code size) hook_kind = K_PROG_BEGIN | K_PROG_END

datatype (plugins only: code size) pattern_kind = K_PATTERN_ARRAY | K_PATTERN_HASH

record param_flags =
  p_splat :: bool
  p_block_param :: bool
  p_keyword_param :: bool
  p_keyword_splat :: bool

datatype (plugins only: code size)
  node = Node (n_span: span) (n_slen: nat) (n_data: ndata)
and ndata =
    NInt i64
  | NFloat u64
  | NSval sval_kind string
  | NPlain plain_kind
  | NConstAccess "node option" string
  | NBinop binop_kind string "node option" "node option"
  | NUnop string "node option"
  | NAssign "node option" "node option"
  | NCall "node option" string "node option list" "node option" bool
  | NBlock "node option list" "node option"
  | NCond cond_kind "node option" "node option" "node option"
  | NLoop loop_kind "node option" "node option" bool
  | NFor "node option" "node option" "node option"
  | NBegin "node option" "node option list" "node option" "node option"
  | NRescue "node option list" "string option" "node option"
  | NDef "node option" string "node option list" "node option"
  | NAlias string string
  | NKlass klass_kind string "node option" "node option"
  | NSclass "node option" "node option"
  | NParam "string option" "node option" param_flags
  | NJump jump_kind "node option"
  | NArray "node option list"
  | NHash "node option list" bool
  | NPair "node option" "node option"
  | NRange "node option" "node option" bool
  | NCase "node option" "node option list" "node option"
  | NWhen "node option list" "node option"
  | NPatcase "node option" "node option list" "node option"
  | NIn "node option" "node option" "node option"
  | NPatternCollection pattern_kind "node option list" bool bool "string option" "string option"
  | NPatternPin "string option"
  | NPatternCapture "node option" "string option"
  | NPatternOr "node option" "node option"
  | NSuper "node option list" bool
  | NBlockPass "node option"
  | NDefined "node option"
  | NRegexp string u32
  | NRope "rope option"
  | NProgHook hook_kind "node option"
  | NBody body_kind "node option list"
and rope =
    RopeLit string
  | RopeExpr "node option"
  | RopeCat "rope option" "rope option"

type_synonym node_list = "node option list"

text \<open>The sizes the recursions over trees decrease.\<close>

definition onode_size :: "node option \<Rightarrow> nat" where
  "onode_size = size_option size"

definition lnode_size :: "node_list \<Rightarrow> nat" where
  "lnode_size = size_list (size_option size)"

definition orope_size :: "rope option \<Rightarrow> nat" where
  "orope_size = size_option size"

lemmas node_size_defs = onode_size_def lnode_size_def orope_size_def

text \<open>\<open>nodelist_append\<close> walks to the tail of the list and links the new entry there.\<close>

fun nodelist_append :: "node_list \<Rightarrow> node option \<Rightarrow> node_list" where
  "nodelist_append [] node = [node]"
| "nodelist_append (x # xs) node = x # nodelist_append xs node"

lemma nodelist_append_eq: "nodelist_append xs node = xs @ [node]"
  by (induction xs) simp_all

text \<open>\<open>node_kind_name\<close>; a kind the table does not list is \<open>UNKNOWN\<close>.\<close>

definition sval_kind_name :: "sval_kind \<Rightarrow> string" where
  "sval_kind_name k =
     (case k of
        K_STRING \<Rightarrow> ''STRING'' | K_SYMBOL \<Rightarrow> ''SYMBOL'' | K_LVAR \<Rightarrow> ''LVAR'' | K_IVAR \<Rightarrow> ''IVAR''
      | K_CVAR \<Rightarrow> ''CVAR'' | K_GVAR \<Rightarrow> ''GVAR'' | K_CONST \<Rightarrow> ''CONST'')"

definition node_kind_name :: "ndata \<Rightarrow> string" where
  "node_kind_name d =
     (case d of
        NInt _ \<Rightarrow> ''INT''
      | NFloat _ \<Rightarrow> ''FLOAT''
      | NSval k _ \<Rightarrow> sval_kind_name k
      | NPlain k \<Rightarrow> (case k of K_NIL \<Rightarrow> ''NIL'' | K_TRUE \<Rightarrow> ''TRUE'' | K_FALSE \<Rightarrow> ''FALSE''
                      | K_SELF \<Rightarrow> ''SELF'' | K_RETRY \<Rightarrow> ''UNKNOWN'')
      | NArray _ \<Rightarrow> ''ARRAY''
      | NHash _ _ \<Rightarrow> ''HASH''
      | NPair _ _ \<Rightarrow> ''PAIR''
      | NConstAccess _ _ \<Rightarrow> ''CONST_ACCESS''
      | NAssign _ _ \<Rightarrow> ''ASSIGN''
      | NBinop k _ _ _ \<Rightarrow> (case k of K_BINOP \<Rightarrow> ''BINOP'' | K_OP_ASSIGN \<Rightarrow> ''OP_ASSIGN'')
      | NUnop _ _ \<Rightarrow> ''UNOP''
      | NCall _ _ _ _ _ \<Rightarrow> ''CALL''
      | NBlock _ _ \<Rightarrow> ''BLOCK''
      | NCond k _ _ _ \<Rightarrow> (case k of K_IF \<Rightarrow> ''IF'' | K_UNLESS \<Rightarrow> ''UNLESS'')
      | NLoop k _ _ _ \<Rightarrow> (case k of K_WHILE \<Rightarrow> ''WHILE'' | K_UNTIL \<Rightarrow> ''UNTIL'')
      | NFor _ _ _ \<Rightarrow> ''FOR''
      | NBegin _ _ _ _ \<Rightarrow> ''BEGIN''
      | NRescue _ _ _ \<Rightarrow> ''RESCUE''
      | NJump k _ \<Rightarrow> (case k of K_RETURN \<Rightarrow> ''RETURN'' | K_BREAK \<Rightarrow> ''BREAK'' | K_NEXT \<Rightarrow> ''NEXT'')
      | NDef _ _ _ _ \<Rightarrow> ''DEF''
      | NSclass _ _ \<Rightarrow> ''SCLASS''
      | NKlass k _ _ _ \<Rightarrow> (case k of K_CLASS \<Rightarrow> ''UNKNOWN'' | K_MODULE \<Rightarrow> ''MODULE'')
      | NParam _ _ _ \<Rightarrow> ''PARAM''
      | NSuper _ _ \<Rightarrow> ''SUPER''
      | NBlockPass _ \<Rightarrow> ''BLOCK_PASS''
      | NDefined _ \<Rightarrow> ''DEFINED''
      | NRegexp _ _ \<Rightarrow> ''REGEXP''
      | NRope _ \<Rightarrow> ''ROPE''
      | NBody k _ \<Rightarrow> (case k of K_BODY \<Rightarrow> ''BODY'' | K_PROGRAM \<Rightarrow> ''PROGRAM'')
      | _ \<Rightarrow> ''UNKNOWN'')"

subsection \<open>Ropes\<close>

text \<open>The constructors \<open>rope_lit\<close>, \<open>rope_expr\<close> and \<open>rope_cat\<close> are those of the datatype.\<close>

fun rope_is_static :: "rope option \<Rightarrow> bool" where
  "rope_is_static None = True"
| "rope_is_static (Some (RopeLit _)) = True"
| "rope_is_static (Some (RopeExpr _)) = False"
| "rope_is_static (Some (RopeCat l r)) = (rope_is_static l \<and> rope_is_static r)"

fun rope_measure :: "rope option \<Rightarrow> nat" where
  "rope_measure None = 0"
| "rope_measure (Some (RopeLit s)) = length s"
| "rope_measure (Some (RopeExpr _)) = 0"
| "rope_measure (Some (RopeCat l r)) = rope_measure l + rope_measure r"

text \<open>The bytes written so far, and those after the call; the position is their number.\<close>

fun rope_write :: "rope option \<Rightarrow> string \<Rightarrow> string" where
  "rope_write None buf = buf"
| "rope_write (Some (RopeLit s)) buf = buf @ s"
| "rope_write (Some (RopeExpr _)) buf = buf"
| "rope_write (Some (RopeCat l r)) buf = rope_write r (rope_write l buf)"

definition rope_byte_len :: "rope option \<Rightarrow> nat" where
  "rope_byte_len r = rope_measure r"

definition rope_flatten :: "rope option \<Rightarrow> string option" where
  "rope_flatten r = (if rope_is_static r then Some (rope_write r []) else None)"

text \<open>The segments of a rope, left to right: a literal's bytes, or an expression.\<close>

fun rope_segments :: "rope option \<Rightarrow> (string + node option) list" where
  "rope_segments None = []"
| "rope_segments (Some (RopeLit s)) = [Inl s]"
| "rope_segments (Some (RopeExpr n)) = [Inr n]"
| "rope_segments (Some (RopeCat l r)) = rope_segments l @ rope_segments r"

definition segment_text :: "string + node option \<Rightarrow> string" where
  "segment_text seg = (case seg of Inl s \<Rightarrow> s | Inr _ \<Rightarrow> [])"

lemma rope_write_segments:
  "rope_write r buf = buf @ concat (map segment_text (rope_segments r))"
  by (induction r buf rule: rope_write.induct) (simp_all add: segment_text_def)

lemma rope_measure_segments:
  "rope_measure r = length (concat (map segment_text (rope_segments r)))"
  by (induction r rule: rope_measure.induct) (simp_all add: segment_text_def)

lemma rope_is_static_segments: "rope_is_static r \<longleftrightarrow> (\<forall>seg \<in> set (rope_segments r). isl seg)"
  by (induction r rule: rope_is_static.induct) auto

subsection \<open>The rope's stack\<close>

text \<open>
  \<open>sema.c\<close> walks a rope with a stack of 256 entries and no check: \<open>None\<close> when an entry is written
  past its end. The result lists the expressions in the order they are visited.
\<close>

definition ROPE_STACK :: nat where
  "ROPE_STACK = 256"

definition rope_push :: "rope option \<Rightarrow> rope list \<Rightarrow> rope list option" where
  "rope_push r st =
     (case r of None \<Rightarrow> Some st
      | Some x \<Rightarrow> if length st < ROPE_STACK then Some (x # st) else None)"

lemma rope_push_size:
  "rope_push r st = Some st' \<Longrightarrow> size_list size st' \<le> size_list size st + size_option size r"
  by (auto simp: rope_push_def split: option.splits if_splits)

function rope_walk :: "rope list \<Rightarrow> node option list \<Rightarrow> node option list option" where
  "rope_walk [] acc = Some acc"
| "rope_walk (RopeLit s # st) acc = rope_walk st acc"
| "rope_walk (RopeExpr n # st) acc = rope_walk st (acc @ [n])"
| "rope_walk (RopeCat l r # st) acc =
     (case rope_push r st of
        None \<Rightarrow> None
      | Some st1 \<Rightarrow> (case rope_push l st1 of None \<Rightarrow> None | Some st2 \<Rightarrow> rope_walk st2 acc))"
  by pat_completeness auto
termination
proof (relation "measure (\<lambda>(st, _). size_list size st)", goal_cases)
  case (4 l r st acc st1 st2)
  then show ?case using rope_push_size [of r st st1] rope_push_size [of l st1 st2] by simp
qed auto

definition rope_exprs :: "rope option \<Rightarrow> node option list" where
  "rope_exprs r = [n. Inr n \<leftarrow> rope_segments r]"

text \<open>The entries a rope needs above those below it.\<close>

fun rope_need :: "rope option \<Rightarrow> nat" where
  "rope_need None = 0"
| "rope_need (Some (RopeLit _)) = 1"
| "rope_need (Some (RopeExpr _)) = 1"
| "rope_need (Some (RopeCat l r)) =
     max 1 (max (rope_need r) (if l = None then 0 else (if r = None then 0 else 1) + rope_need l))"

lemma rope_need_pos: "r \<noteq> None \<Longrightarrow> 0 < rope_need r"
  by (cases r rule: rope_need.cases) auto

lemma rope_exprs_simps [simp]:
  "rope_exprs None = []" "rope_exprs (Some (RopeLit s)) = []"
  "rope_exprs (Some (RopeExpr n)) = [n]"
  "rope_exprs (Some (RopeCat l r)) = rope_exprs l @ rope_exprs r"
  by (simp_all add: rope_exprs_def)

lemma rope_walk_some:
  "length st < ROPE_STACK \<Longrightarrow> rope_walk (x # st) acc =
     (if length st + rope_need (Some x) \<le> ROPE_STACK
      then rope_walk st (acc @ rope_exprs (Some x)) else None)"
proof (induction "Some x" arbitrary: x st acc rule: rope_need.induct)
  case (4 l r)
  have R: "rope_walk (y # st') acc' =
      (if length st' + rope_need (Some y) \<le> ROPE_STACK
       then rope_walk st' (acc' @ rope_exprs (Some y)) else None)"
    if "r = Some y" "length st' < ROPE_STACK" for y st' acc'
    using 4(1) that by blast
  have L: "rope_walk (y # st') acc' =
      (if length st' + rope_need (Some y) \<le> ROPE_STACK
       then rope_walk st' (acc' @ rope_exprs (Some y)) else None)"
    if "l = Some y" "length st' < ROPE_STACK" for y st' acc'
    using 4(2) that by blast
  have need: "0 < rope_need l" if "l \<noteq> None" using rope_need_pos that .
  show ?case
  proof (cases r)
    case None
    then show ?thesis
    proof (cases l)
      case (Some y)
      then show ?thesis using None L [OF Some 4(3)] 4(3) need
        by (auto simp: rope_push_def)
    qed (use None 4(3) in \<open>simp add: rope_push_def\<close>)
  next
    case (Some y)
    note y = Some
    show ?thesis
    proof (cases l)
      case None
      then show ?thesis using y R [OF y 4(3)] 4(3) rope_need_pos [of r]
        by (auto simp: rope_push_def)
    next
      case (Some z)
      show ?thesis
      proof (cases "Suc (length st) < ROPE_STACK")
        case True
        then show ?thesis
          using y Some 4(3) L [OF Some, of "y # st"] R [OF y, of st] need rope_need_pos [of r]
          by (auto simp: rope_push_def)
      next
        case False
        then show ?thesis using y Some 4(3) need by (auto simp: rope_push_def)
      qed
    qed
  qed
qed (auto simp: Suc_le_eq)

text \<open>The rope the parser builds: each segment is concatenated on the right of those before.\<close>

definition rope_append :: "rope option \<Rightarrow> rope \<Rightarrow> rope option" where
  "rope_append r seg = (case r of None \<Rightarrow> Some seg | Some _ \<Rightarrow> Some (RopeCat r (Some seg)))"

definition segment_rope :: "string + node option \<Rightarrow> rope" where
  "segment_rope seg = (case seg of Inl s \<Rightarrow> RopeLit s | Inr n \<Rightarrow> RopeExpr n)"

definition rope_of_segments :: "(string + node option) list \<Rightarrow> rope option" where
  "rope_of_segments segs = foldl rope_append None (map segment_rope segs)"

lemma rope_of_segments_snoc:
  "rope_of_segments (segs @ [seg]) = rope_append (rope_of_segments segs) (segment_rope seg)"
  by (simp add: rope_of_segments_def)

lemma rope_of_segments_props:
  "rope_of_segments segs = None \<longleftrightarrow> segs = []"
  "rope_segments (rope_of_segments segs) = segs"
  "rope_need (rope_of_segments segs) = length segs"
proof (induction segs rule: rev_induct)
  case (snoc seg segs)
  have leaf: "rope_need (Some (segment_rope seg)) = 1"
    "rope_segments (Some (segment_rope seg)) = [seg]"
    by (simp_all add: segment_rope_def split: sum.split)
  {
    case 1
    show ?case by (simp add: rope_of_segments_snoc rope_append_def split: option.split)
  next
    case 2
    show ?case using snoc.IH leaf
      unfolding rope_of_segments_snoc by (cases "rope_of_segments segs") (simp_all add: rope_append_def)
  next
    case 3
    show ?case using snoc.IH leaf
      unfolding rope_of_segments_snoc by (cases "rope_of_segments segs") (simp_all add: rope_append_def)
  }
qed (simp_all add: rope_of_segments_def)

subsection \<open>Properties of ropes\<close>

text \<open>C27: flattening a rope gives the bytes of its literal segments, left to right, and fails exactly
  when a segment is an expression; the length computed before the buffer is allocated is the
  number of bytes written into it.\<close>

theorem rope_flatten_correct:
  "rope_flatten r =
     (if \<exists>n. Inr n \<in> set (rope_segments r) then None
      else Some (concat (map segment_text (rope_segments r)))) \<and>
   rope_byte_len r = length (rope_write r [])"
proof (rule conjI)
  have "isl seg \<longleftrightarrow> \<not> (\<exists>n. seg = Inr n)" for seg :: "string + node option"
    by (cases seg) simp_all
  then have "rope_is_static r \<longleftrightarrow> \<not> (\<exists>n. Inr n \<in> set (rope_segments r))"
    unfolding rope_is_static_segments by blast
  then show "rope_flatten r =
     (if \<exists>n. Inr n \<in> set (rope_segments r) then None
      else Some (concat (map segment_text (rope_segments r))))"
    by (simp add: rope_flatten_def rope_write_segments)
qed (simp add: rope_byte_len_def rope_write_segments rope_measure_segments)

text \<open>C28: the walk over the rope of a string with interpolations visits the expressions left to
  right, and writes past its stack of 256 entries exactly when the string has more than 256
  segments.\<close>

theorem rope_walk_overflow:
  "segs \<noteq> [] \<Longrightarrow>
     rope_walk [the (rope_of_segments segs)] [] =
       (if length segs \<le> 256 then Some [n. Inr n \<leftarrow> segs] else None)"
proof -
  assume "segs \<noteq> []"
  then obtain x where x: "rope_of_segments segs = Some x"
    using rope_of_segments_props(1) by blast
  have "rope_need (Some x) = length segs" "rope_exprs (Some x) = [n. Inr n \<leftarrow> segs]"
    using rope_of_segments_props(2,3) [of segs] x by (simp_all add: rope_exprs_def)
  then show ?thesis using rope_walk_some [of "[]" x "[]"] by (simp add: x ROPE_STACK_def)
qed

theorem rope_walk_overflow_witness:
  "rope_walk [the (rope_of_segments (replicate 257 (Inl ''a'')))] [] = None"
  by (subst rope_walk_overflow) (simp_all add: replicate_eq_replicate)

end
