(* ===== verification/Sema.thy ===== *)
theory Sema
  imports Ast Clib
begin

section \<open>Semantic analysis (src/sema.h, src/sema.c)\<close>

text \<open>
  The scope stack is a list of frames, the innermost first. \<open>resolve\<close> rewrites the tree in place
  in the code; here it returns the tree it leaves, with the state. It is \<open>None\<close> when the walk over
  a rope writes past its stack. A sequence of calls is written with \<open>sm_bind\<close> or \<open>sm2\<close>, \<open>sm3\<close>, in
  the order of the calls.
\<close>

subsection \<open>State, errors and scopes\<close>

definition MAX_ERRORS :: nat where
  "MAX_ERRORS = 64"

record parse_error =
  e_message :: string
  e_line :: u32
  e_col :: u32

record scope =
  sc_is_def :: bool
  sc_locals :: "string list"

record sema =
  s_scope :: "scope list"
  s_loop_depth :: int
  s_block_depth :: int
  s_def_depth :: int
  s_lambda_depth :: int
  s_proc_depth :: int
  s_rescue_depth :: int
  s_errors :: "parse_error list"

definition sema_init :: sema where
  "sema_init = \<lparr>s_scope = [], s_loop_depth = 0, s_block_depth = 0, s_def_depth = 0,
     s_lambda_depth = 0, s_proc_depth = 0, s_rescue_depth = 0, s_errors = []\<rparr>"

definition sema_error :: "string \<Rightarrow> span \<Rightarrow> sema \<Rightarrow> sema" where
  "sema_error msg sp s =
     (if length (s_errors s) < MAX_ERRORS
      then s\<lparr>s_errors := s_errors s @ [\<lparr>e_message = msg, e_line = sp_line sp, e_col = sp_col sp\<rparr>]\<rparr>
      else s)"

definition is_ident_head :: "char \<Rightarrow> bool" where
  "is_ident_head c \<longleftrightarrow> c = CHR ''_'' \<or> islower c"

definition is_ident_tail :: "char \<Rightarrow> bool" where
  "is_ident_tail c \<longleftrightarrow> c = CHR ''_'' \<or> islower c \<or> isupper c \<or> isdigit c"

definition is_local_identifier_name :: "string \<Rightarrow> bool" where
  "is_local_identifier_name name =
     (case cstr name of
        [] \<Rightarrow> False
      | c # cs \<Rightarrow> \<not> streq name ''self'' \<and> is_ident_head c \<and> list_all is_ident_tail cs)"

definition scope_push :: "bool \<Rightarrow> sema \<Rightarrow> sema" where
  "scope_push is_def s = s\<lparr>s_scope := \<lparr>sc_is_def = is_def, sc_locals = []\<rparr> # s_scope s\<rparr>"

definition scope_pop :: "sema \<Rightarrow> sema" where
  "scope_pop s = s\<lparr>s_scope := tl (s_scope s)\<rparr>"

text \<open>The code never calls \<open>scope_add\<close> with no scope.\<close>

definition frame_add :: "string \<Rightarrow> scope \<Rightarrow> scope" where
  "frame_add name sc =
     (if list_ex (\<lambda>e. streq e name) (sc_locals sc) then sc
      else sc\<lparr>sc_locals := name # sc_locals sc\<rparr>)"

definition scope_add :: "string \<Rightarrow> sema \<Rightarrow> sema" where
  "scope_add name s =
     (case s_scope s of [] \<Rightarrow> s | sc # rest \<Rightarrow> s\<lparr>s_scope := frame_add name sc # rest\<rparr>)"

definition scope_add_opt :: "string option \<Rightarrow> sema \<Rightarrow> sema" where
  "scope_add_opt name = (case name of None \<Rightarrow> id | Some n \<Rightarrow> scope_add n)"

fun frames_have :: "scope list \<Rightarrow> string \<Rightarrow> bool" where
  "frames_have [] name = False"
| "frames_have (sc # rest) name =
     (list_ex (\<lambda>e. streq e name) (sc_locals sc) \<or> \<not> sc_is_def sc \<and> frames_have rest name)"

definition scope_has :: "sema \<Rightarrow> string \<Rightarrow> bool" where
  "scope_has s name = frames_have (s_scope s) name"

text \<open>Calls in order that change the state only.\<close>

definition seq :: "(sema \<Rightarrow> sema) list \<Rightarrow> sema \<Rightarrow> sema" where
  "seq fs s = fold (\<lambda>f s. f s) fs s"

lemma seq_simps: "seq [] s = s" "seq (f # fs) s = seq fs (f s)"
  by (simp_all add: seq_def)

subsection \<open>Targets and parameters\<close>

fun scope_add_target :: "node option \<Rightarrow> sema \<Rightarrow> sema"
  and scope_add_targets :: "node_list \<Rightarrow> sema \<Rightarrow> sema" where
  "scope_add_target None = id"
| "scope_add_target (Some (Node _ _ d)) =
     (case d of
        NSval K_LVAR name \<Rightarrow> scope_add name
      | NArray els \<Rightarrow> scope_add_targets els
      | NParam name _ fl \<Rightarrow> if p_splat fl then scope_add_opt name else id
      | _ \<Rightarrow> id)"
| "scope_add_targets [] = id"
| "scope_add_targets (t # ts) = seq [scope_add_target t, scope_add_targets ts]"

fun param_has :: "node option \<Rightarrow> string \<Rightarrow> bool"
  and param_list_has :: "node_list \<Rightarrow> string \<Rightarrow> bool" where
  "param_has None name = False"
| "param_has (Some (Node _ _ d)) name =
     (case d of
        NParam (Some n) _ _ \<Rightarrow> streq n name
      | NArray els \<Rightarrow> param_list_has els name
      | _ \<Rightarrow> False)"
| "param_list_has [] name = False"
| "param_list_has (p # ps) name = (param_has p name \<or> param_list_has ps name)"

fun scope_add_param :: "node option \<Rightarrow> sema \<Rightarrow> sema"
  and scope_add_params :: "node_list \<Rightarrow> sema \<Rightarrow> sema" where
  "scope_add_param None = id"
| "scope_add_param (Some (Node _ _ d)) =
     (case d of
        NParam name _ _ \<Rightarrow> scope_add_opt name
      | NArray els \<Rightarrow> scope_add_params els
      | _ \<Rightarrow> id)"
| "scope_add_params [] = id"
| "scope_add_params (p # ps) = seq [scope_add_param p, scope_add_params ps]"

definition scope_add_unless :: "node_list \<Rightarrow> string \<Rightarrow> sema \<Rightarrow> sema" where
  "scope_add_unless excl name = (if param_list_has excl name then id else scope_add name)"

fun collect_assignment_target :: "node option \<Rightarrow> node_list \<Rightarrow> sema \<Rightarrow> sema"
  and collect_assignment_targets :: "node_list \<Rightarrow> node_list \<Rightarrow> sema \<Rightarrow> sema" where
  "collect_assignment_target None excl = id"
| "collect_assignment_target (Some (Node _ _ d)) excl =
     (case d of
        NSval K_LVAR name \<Rightarrow> scope_add_unless excl name
      | NParam (Some name) _ _ \<Rightarrow> scope_add_unless excl name
      | NArray els \<Rightarrow> collect_assignment_targets els excl
      | _ \<Rightarrow> id)"
| "collect_assignment_targets [] excl = id"
| "collect_assignment_targets (t # ts) excl =
     seq [collect_assignment_target t excl, collect_assignment_targets ts excl]"

fun collect_pattern_caps :: "node option \<Rightarrow> sema \<Rightarrow> sema"
  and collect_pattern_caps_list :: "node_list \<Rightarrow> sema \<Rightarrow> sema" where
  "collect_pattern_caps None = id"
| "collect_pattern_caps (Some (Node _ _ d)) =
     (case d of
        NPatternCapture pat name \<Rightarrow> seq [scope_add_opt name, collect_pattern_caps pat]
      | NPatternCollection k els _ _ rest pre \<Rightarrow>
          (case k of
             K_PATTERN_ARRAY \<Rightarrow>
               seq [collect_pattern_caps_list els, scope_add_opt rest, scope_add_opt pre]
           | K_PATTERN_HASH \<Rightarrow> seq [collect_pattern_caps_list els, scope_add_opt rest])
      | NPatternOr l r \<Rightarrow> seq [collect_pattern_caps l, collect_pattern_caps r]
      | _ \<Rightarrow> id)"
| "collect_pattern_caps_list [] = id"
| "collect_pattern_caps_list (p # ps) =
     seq [collect_pattern_caps p, collect_pattern_caps_list ps]"

subsection \<open>Phase 1: the assignments of a scope\<close>

function (sequential) collect :: "node option \<Rightarrow> node_list \<Rightarrow> sema \<Rightarrow> sema"
  and collect_list :: "node_list \<Rightarrow> node_list \<Rightarrow> sema \<Rightarrow> sema"
  and collect_block :: "node option \<Rightarrow> sema \<Rightarrow> sema"
  and collect_whens :: "node_list \<Rightarrow> node_list \<Rightarrow> sema \<Rightarrow> sema"
  and collect_when :: "node option \<Rightarrow> node_list \<Rightarrow> sema \<Rightarrow> sema"
  and collect_ins :: "node_list \<Rightarrow> node_list \<Rightarrow> sema \<Rightarrow> sema"
  and collect_in :: "node option \<Rightarrow> node_list \<Rightarrow> sema \<Rightarrow> sema" where
  "collect None excl = id"
| "collect (Some (Node _ _ d)) excl =
     (case d of
        NAssign target val \<Rightarrow> seq [collect_assignment_target target excl, collect val excl]
      | NBinop K_OP_ASSIGN _ _ r \<Rightarrow> collect r excl
      | NBinop K_BINOP _ l r \<Rightarrow> seq [collect l excl, collect r excl]
      | NCond _ c t e \<Rightarrow> seq [collect c excl, collect t excl, collect e excl]
      | NLoop _ c b _ \<Rightarrow> seq [collect c excl, collect b excl]
      | NBegin b rescues e ensure \<Rightarrow>
          seq [collect b excl, collect_list rescues excl, collect e excl, collect ensure excl]
      | NRescue classes _ b \<Rightarrow> seq [collect_list classes excl, collect b excl]
      | NBody _ stmts \<Rightarrow> collect_list stmts excl
      | NCall recv _ args blk _ \<Rightarrow>
          seq [collect recv excl, collect_list args excl, collect_block blk]
      | NJump _ val \<Rightarrow> collect val excl
      | NUnop _ x \<Rightarrow> collect x excl
      | NBlockPass x \<Rightarrow> collect x excl
      | NDefined x \<Rightarrow> collect x excl
      | NCase subject whens e \<Rightarrow>
          seq [collect subject excl, collect_whens whens excl, collect e excl]
      | NPatcase subject ins e \<Rightarrow>
          seq [collect subject excl, collect_ins ins excl, collect e excl]
      | _ \<Rightarrow> id)"
| "collect_list [] excl = id"
| "collect_list (x # xs) excl = seq [collect x excl, collect_list xs excl]"
| "collect_block None = id"
| "collect_block (Some (Node _ _ d)) =
     (case d of NBlock params b \<Rightarrow> collect b params | _ \<Rightarrow> id)"
| "collect_whens [] excl = id"
| "collect_whens (w # ws) excl = seq [collect_when w excl, collect_whens ws excl]"
| "collect_when None excl = id"
| "collect_when (Some (Node _ _ d)) excl =
     (case d of NWhen patterns b \<Rightarrow> seq [collect_list patterns excl, collect b excl] | _ \<Rightarrow> id)"
| "collect_ins [] excl = id"
| "collect_ins (i # is) excl = seq [collect_in i excl, collect_ins is excl]"
| "collect_in None excl = id"
| "collect_in (Some (Node _ _ d)) excl =
     (case d of
        NIn pat guard b \<Rightarrow> seq [collect_pattern_caps pat, collect guard excl, collect b excl]
      | _ \<Rightarrow> id)"

  by pat_completeness auto

termination
  by (relation "measure (case_sum
        (case_sum (\<lambda>(x, _). onode_size x) (case_sum (\<lambda>(x, _). lnode_size x) onode_size))
        (case_sum (case_sum (\<lambda>(x, _). lnode_size x) (\<lambda>(x, _). onode_size x))
           (case_sum (\<lambda>(x, _). lnode_size x) (\<lambda>(x, _). onode_size x))))")
   (simp_all add: node_size_defs)

subsection \<open>Phase 2: bare names and the contexts of jumps\<close>

type_synonym 'a sema_m = "sema \<Rightarrow> ('a \<times> sema) option"

definition sm_ret :: "'a \<Rightarrow> 'a sema_m" where
  "sm_ret x s = Some (x, s)"

definition sm_bind :: "'a sema_m \<Rightarrow> ('a \<Rightarrow> 'b sema_m) \<Rightarrow> 'b sema_m" where
  "sm_bind m f s = (case m s of None \<Rightarrow> None | Some (x, s) \<Rightarrow> f x s)"

definition sm_fail :: "'a sema_m" where
  "sm_fail s = None"

definition sm_do :: "(sema \<Rightarrow> sema) \<Rightarrow> 'a sema_m \<Rightarrow> 'a sema_m" where
  "sm_do f m s = m (f s)"

definition sm1 :: "('a \<Rightarrow> 'b) \<Rightarrow> 'a sema_m \<Rightarrow> 'b sema_m" where
  "sm1 f m = sm_bind m (\<lambda>x. sm_ret (f x))"

definition sm2 :: "('a \<Rightarrow> 'b \<Rightarrow> 'c) \<Rightarrow> 'a sema_m \<Rightarrow> 'b sema_m \<Rightarrow> 'c sema_m" where
  "sm2 f m n = sm_bind m (\<lambda>x. sm1 (f x) n)"

definition sm3 ::
  "('a \<Rightarrow> 'b \<Rightarrow> 'c \<Rightarrow> 'd) \<Rightarrow> 'a sema_m \<Rightarrow> 'b sema_m \<Rightarrow> 'c sema_m \<Rightarrow> 'd sema_m" where
  "sm3 f m n p = sm_bind m (\<lambda>x. sm2 (f x) n p)"

text \<open>Calls before and after \<open>m\<close>, as the code brackets a body.\<close>

definition sm_in :: "(sema \<Rightarrow> sema) \<Rightarrow> 'a sema_m \<Rightarrow> (sema \<Rightarrow> sema) \<Rightarrow> 'a sema_m" where
  "sm_in enter m leave s =
     (case m (enter s) of None \<Rightarrow> None | Some (x, s) \<Rightarrow> Some (x, leave s))"

definition add_loop :: "int \<Rightarrow> sema \<Rightarrow> sema" where
  "add_loop k s = s\<lparr>s_loop_depth := s_loop_depth s + k\<rparr>"
definition add_block :: "int \<Rightarrow> sema \<Rightarrow> sema" where
  "add_block k s = s\<lparr>s_block_depth := s_block_depth s + k\<rparr>"
definition add_def :: "int \<Rightarrow> sema \<Rightarrow> sema" where
  "add_def k s = s\<lparr>s_def_depth := s_def_depth s + k\<rparr>"
definition add_lambda :: "int \<Rightarrow> sema \<Rightarrow> sema" where
  "add_lambda k s = s\<lparr>s_lambda_depth := s_lambda_depth s + k\<rparr>"
definition add_proc :: "int \<Rightarrow> sema \<Rightarrow> sema" where
  "add_proc k s = s\<lparr>s_proc_depth := s_proc_depth s + k\<rparr>"
definition add_rescue :: "int \<Rightarrow> sema \<Rightarrow> sema" where
  "add_rescue k s = s\<lparr>s_rescue_depth := s_rescue_depth s + k\<rparr>"

text \<open>A name that is no local of the accessible scopes becomes a call without arguments.\<close>

definition resolve_lvar :: "string \<Rightarrow> ndata sema_m" where
  "resolve_lvar name s =
     (if scope_has s name then Some (NSval K_LVAR name, s)
      else Some (NCall None name [] None False, s))"

definition quoted :: "string \<Rightarrow> string \<Rightarrow> string" where
  "quoted w rest = CHR 0x27 # w @ CHR 0x27 # rest"

definition in_loop_or_block :: "sema \<Rightarrow> bool" where
  "in_loop_or_block s \<longleftrightarrow> s_loop_depth s \<noteq> 0 \<or> s_block_depth s \<noteq> 0"

definition check_jump :: "jump_kind \<Rightarrow> span \<Rightarrow> sema \<Rightarrow> sema" where
  "check_jump k sp s =
     (case k of
        K_RETURN \<Rightarrow>
          if s_def_depth s = 0 \<and> s_lambda_depth s = 0 \<and> s_proc_depth s = 0
          then sema_error (quoted ''return'' '' outside of method'') sp s else s
      | K_BREAK \<Rightarrow>
          if in_loop_or_block s then s
          else sema_error (quoted ''break'' '' outside of loop or block'') sp s
      | K_NEXT \<Rightarrow>
          if in_loop_or_block s then s
          else sema_error (quoted ''next'' '' outside of loop or block'') sp s)"

definition is_lambda_call :: "node option \<Rightarrow> string \<Rightarrow> bool" where
  "is_lambda_call recv m \<longleftrightarrow> recv = None \<and> streq m ''lambda''"

definition is_proc_call :: "node option \<Rightarrow> string \<Rightarrow> bool" where
  "is_proc_call recv m \<longleftrightarrow> recv = None \<and> streq m ''proc''"

definition is_proc_new :: "node option \<Rightarrow> string \<Rightarrow> bool" where
  "is_proc_new recv m \<longleftrightarrow>
     (case recv of
        Some (Node _ _ (NSval K_CONST name)) \<Rightarrow> streq name ''Proc'' \<and> streq m ''new''
      | _ \<Rightarrow> False)"

text \<open>The depths around the block of a call.\<close>

definition call_block_depths :: "int \<Rightarrow> node option \<Rightarrow> string \<Rightarrow> sema \<Rightarrow> sema" where
  "call_block_depths k recv m =
     seq [if is_lambda_call recv m then add_lambda k else id,
          if is_proc_call recv m \<or> is_proc_new recv m then add_proc k else id]"

definition rope_top :: "rope option \<Rightarrow> nat \<Rightarrow> nat option" where
  "rope_top r n0 =
     (case r of None \<Rightarrow> Some n0
      | Some _ \<Rightarrow> if n0 < ROPE_STACK then Some (n0 + 1) else None)"

text \<open>
  \<open>resolve_rope r n0\<close> walks a rope taken from a stack with \<open>n0\<close> entries left: the entries of its
  children are written above them, the right one first, and the left one is taken next.
\<close>

function (sequential) resolve :: "node option \<Rightarrow> node option sema_m"
  and resolve_list :: "node_list \<Rightarrow> node_list sema_m"
  and resolve_pairs :: "node_list \<Rightarrow> node_list sema_m"
  and resolve_pair :: "node option \<Rightarrow> node option sema_m"
  and resolve_param_defaults :: "node_list \<Rightarrow> node_list sema_m"
  and resolve_param :: "node option \<Rightarrow> node option sema_m"
  and resolve_whens :: "node_list \<Rightarrow> node_list sema_m"
  and resolve_when :: "node option \<Rightarrow> node option sema_m"
  and resolve_ins :: "node_list \<Rightarrow> node_list sema_m"
  and resolve_in :: "node option \<Rightarrow> node option sema_m"
  and resolve_rope :: "rope option \<Rightarrow> nat \<Rightarrow> rope option sema_m" where
  "resolve None = sm_ret None"
| "resolve (Some (Node sp sl d)) =
     sm1 (\<lambda>d. Some (Node sp sl d)) (case d of
        NSval K_LVAR name \<Rightarrow> resolve_lvar name
      | NAssign target val \<Rightarrow> sm2 (\<lambda>v t. NAssign t v) (resolve val) (resolve target)
      | NBinop k op l r \<Rightarrow> sm2 (NBinop k op) (resolve l) (resolve r)
      | NUnop op x \<Rightarrow> sm1 (NUnop op) (resolve x)
      | NBlockPass x \<Rightarrow> sm1 NBlockPass (resolve x)
      | NDefined x \<Rightarrow> sm1 NDefined (resolve x)
      | NCall recv m args blk safe \<Rightarrow>
          sm_bind (resolve recv) (\<lambda>recv. sm_bind (resolve_list args) (\<lambda>args.
            sm1 (\<lambda>blk. NCall recv m args blk safe)
              (sm_in (call_block_depths 1 recv m) (resolve blk) (call_block_depths (- 1) recv m))))
      | NBlock params b \<Rightarrow>
          sm1 (NBlock params)
            (sm_in (seq [scope_push False, scope_add_params params, collect b params, add_block 1])
               (resolve b) (seq [add_block (- 1), scope_pop]))
      | NCond k c t e \<Rightarrow> sm3 (NCond k) (resolve c) (resolve t) (resolve e)
      | NLoop k c b post \<Rightarrow>
          sm2 (\<lambda>c b. NLoop k c b post) (resolve c)
            (sm_in (add_loop 1) (resolve b) (add_loop (- 1)))
      | NFor target iter b \<Rightarrow>
          sm2 (NFor target) (resolve iter)
            (sm_in (seq [scope_add_target target, add_loop 1]) (resolve b) (add_loop (- 1)))
      | NBegin b rescues e ensure \<Rightarrow>
          sm_bind (resolve b) (\<lambda>b.
            sm3 (NBegin b) (resolve_list rescues) (resolve e) (resolve ensure))
      | NRescue classes var b \<Rightarrow>
          sm2 (\<lambda>classes b. NRescue classes var b) (resolve_list classes)
            (sm_in (seq [scope_push False, scope_add_opt var, collect b [], add_rescue 1])
               (resolve b) (seq [add_rescue (- 1), scope_pop]))
      | NDef recv name params b \<Rightarrow>
          sm_in (seq [scope_push True, scope_add ''self'', scope_add_params params])
            (sm2 (NDef recv name) (resolve_param_defaults params)
               (sm_in (seq [collect b [], add_def 1]) (resolve b) (add_def (- 1))))
            scope_pop
      | NJump k val \<Rightarrow> sm_do (check_jump k sp) (sm1 (NJump k) (resolve val))
      | NPlain K_RETRY \<Rightarrow>
          sm_do (\<lambda>s. if s_rescue_depth s = 0 then sema_error (quoted ''retry'' '' outside of rescue'') sp s
            else s)
            (sm_ret (NPlain K_RETRY))
      | NSuper args fwd \<Rightarrow> sm1 (\<lambda>args. NSuper args fwd) (resolve_list args)
      | NKlass K_CLASS name super b \<Rightarrow>
          sm_in (scope_push True)
            (sm2 (NKlass K_CLASS name) (resolve super) (sm_do (collect b []) (resolve b)))
            scope_pop
      | NKlass K_MODULE name super b \<Rightarrow>
          sm_in (scope_push True)
            (sm1 (NKlass K_MODULE name super) (sm_do (collect b []) (resolve b))) scope_pop
      | NSclass recv b \<Rightarrow>
          sm2 NSclass (resolve recv)
            (sm_in (scope_push True) (sm_do (collect b []) (resolve b)) scope_pop)
      | NArray els \<Rightarrow> sm1 NArray (resolve_list els)
      | NHash pairs kw \<Rightarrow> sm1 (\<lambda>ps. NHash ps kw) (resolve_pairs pairs)
      | NRope r \<Rightarrow> sm1 NRope (resolve_rope r 0)
      | NBody k stmts \<Rightarrow> sm1 (NBody k) (resolve_list stmts)
      | NCase subject whens e \<Rightarrow>
          sm3 NCase (resolve subject) (resolve_whens whens) (resolve e)
      | NPatcase subject ins e \<Rightarrow>
          sm3 NPatcase (resolve subject) (resolve_ins ins) (resolve e)
      | _ \<Rightarrow> sm_ret d)"
| "resolve_list [] = sm_ret []"
| "resolve_list (x # xs) = sm2 (#) (resolve x) (resolve_list xs)"
| "resolve_pairs [] = sm_ret []"
| "resolve_pairs (p # ps) = sm2 (#) (resolve_pair p) (resolve_pairs ps)"
| "resolve_pair None = sm_ret None"
| "resolve_pair (Some (Node sp sl d)) =
     (case d of
        NPair k v \<Rightarrow> sm2 (\<lambda>k v. Some (Node sp sl (NPair k v))) (resolve k) (resolve v)
      | _ \<Rightarrow> sm_ret (Some (Node sp sl d)))"
| "resolve_param_defaults [] = sm_ret []"
| "resolve_param_defaults (p # ps) = sm2 (#) (resolve_param p) (resolve_param_defaults ps)"
| "resolve_param None = sm_ret None"
| "resolve_param (Some (Node sp sl d)) =
     sm1 (\<lambda>d. Some (Node sp sl d)) (case d of
        NParam name dflt fl \<Rightarrow> sm1 (\<lambda>v. NParam name v fl) (resolve dflt)
      | NArray els \<Rightarrow> sm1 NArray (resolve_param_defaults els)
      | _ \<Rightarrow> sm_ret d)"
| "resolve_whens [] = sm_ret []"
| "resolve_whens (w # ws) = sm2 (#) (resolve_when w) (resolve_whens ws)"
| "resolve_when None = sm_ret None"
| "resolve_when (Some (Node sp sl d)) =
     (case d of
        NWhen patterns b \<Rightarrow>
          sm2 (\<lambda>ps b. Some (Node sp sl (NWhen ps b))) (resolve_list patterns) (resolve b)
      | _ \<Rightarrow> sm_ret (Some (Node sp sl d)))"
| "resolve_ins [] = sm_ret []"
| "resolve_ins (i # is) = sm2 (#) (resolve_in i) (resolve_ins is)"
| "resolve_in None = sm_ret None"
| "resolve_in (Some (Node sp sl d)) =
     (case d of
        NIn pat guard b \<Rightarrow>
          sm2 (\<lambda>g b. Some (Node sp sl (NIn pat g b))) (resolve guard) (resolve b)
      | _ \<Rightarrow> sm_ret (Some (Node sp sl d)))"
| "resolve_rope None n0 = sm_ret None"
| "resolve_rope (Some (RopeLit s)) n0 = sm_ret (Some (RopeLit s))"
| "resolve_rope (Some (RopeExpr x)) n0 = sm1 (\<lambda>x. Some (RopeExpr x)) (resolve x)"
| "resolve_rope (Some (RopeCat l r)) n0 =
     (case rope_top r n0 of
        None \<Rightarrow> sm_fail
      | Some n1 \<Rightarrow>
          (case rope_top l n1 of
             None \<Rightarrow> sm_fail
           | Some _ \<Rightarrow>
               sm2 (\<lambda>l r. Some (RopeCat l r)) (resolve_rope l n1) (resolve_rope r n0)))"
  by pat_completeness auto
termination
  by (relation "measure (case_sum
        (case_sum (case_sum onode_size lnode_size)
           (case_sum lnode_size (case_sum onode_size lnode_size)))
        (case_sum (case_sum onode_size (case_sum lnode_size onode_size))
           (case_sum lnode_size (case_sum onode_size (\<lambda>(r, _). orope_size r)))))")
   (simp_all add: node_size_defs)

declare resolve.simps [simp del]

subsection \<open>The analysis of a program\<close>

definition sema_run :: "node option \<Rightarrow> node option sema_m" where
  "sema_run program =
     sm_in (seq [scope_push True, collect program []]) (resolve program) scope_pop"

text \<open>\<open>sema_run_in_env\<close>, given the names of the environment in the order it scans them.\<close>

definition add_env_names :: "string list \<Rightarrow> sema \<Rightarrow> sema" where
  "add_env_names names = fold scope_add (filter is_local_identifier_name names)"

definition sema_run_in_env :: "string list \<Rightarrow> node option \<Rightarrow> node option sema_m" where
  "sema_run_in_env names program =
     sm_in (seq [scope_push True, add_env_names names, collect program []]) (resolve program) scope_pop"

end
