(* ===== verification/Parser.thy ===== *)
theory Parser
  imports LexScan Sema "HOL-Library.Monad_Syntax"
begin

section \<open>The parser: state and cursor (src/parser.h, src/parser_internal.h, src/parser.c)\<close>

text \<open>
  The struct \<open>Parser\<close> holds the lexer, the errors and the flags of the descent. A function of the
  parser takes it and returns its result with the parser after it. Looking at the next token also
  changes the parser, since the lexer keeps the token. The result is \<open>None\<close> when a loop does not
  end, when the recursion is deeper than the model's fuel, or when the code dereferences a null
  string. A call \<open>check(p, k)\<close> is a test of the token that \<open>p_peek\<close> returns.
\<close>

record parser =
  ps_lexer :: lexer
  ps_errors :: "parse_error list"
  ps_panic :: bool
  ps_allow_commas :: bool
  ps_command_depth :: int
  ps_stop_at_pipe :: bool
  ps_masgn_depth :: int

definition parser_init :: "string \<Rightarrow> parser" where
  "parser_init src =
     \<lparr>ps_lexer = lexer_init src, ps_errors = [], ps_panic = False, ps_allow_commas = True,
      ps_command_depth = 0, ps_stop_at_pipe = False, ps_masgn_depth = 0\<rparr>"

subsection \<open>Errors\<close>

definition p_error :: "string \<Rightarrow> u32 \<Rightarrow> u32 \<Rightarrow> parser \<Rightarrow> parser" where
  "p_error msg line col p =
     (if length (ps_errors p) < MAX_ERRORS
      then p\<lparr>ps_errors := ps_errors p @ [\<lparr>e_message = msg, e_line = line, e_col = col\<rparr>],
             ps_panic := True\<rparr>
      else p\<lparr>ps_panic := True\<rparr>)"

definition error_at :: "string \<Rightarrow> token \<Rightarrow> parser \<Rightarrow> parser" where
  "error_at msg t p = p_error msg (t_line t) (t_col t) p"

subsection \<open>The cursor\<close>

definition p_peek :: "parser \<Rightarrow> token \<times> parser" where
  "p_peek p = (let (t, l) = lexer_peek (ps_lexer p) in (t, p\<lparr>ps_lexer := l\<rparr>))"

definition p_advance :: "parser \<Rightarrow> token \<times> parser" where
  "p_advance p = (let (t, l) = lexer_next (ps_lexer p) in (t, p\<lparr>ps_lexer := l\<rparr>))"

definition p_skip :: "parser \<Rightarrow> parser" where
  "p_skip p = snd (p_advance p)"

definition check :: "token_kind \<Rightarrow> parser \<Rightarrow> bool \<times> parser" where
  "check k p = (let (t, p) = p_peek p in (t_kind t = k, p))"

definition p_match :: "token_kind \<Rightarrow> parser \<Rightarrow> bool \<times> parser" where
  "p_match k p = (let (b, p) = check k p in if b then (True, p_skip p) else (False, p))"

definition expect :: "token_kind \<Rightarrow> string \<Rightarrow> parser \<Rightarrow> parser" where
  "expect k msg p =
     (let (t, p) = p_peek p in if t_kind t = k then p_skip p else error_at msg t p)"

text \<open>\<open>peek_next_token\<close> reads on in a copy of the parser.\<close>

definition peek_next_token :: "parser \<Rightarrow> token" where
  "peek_next_token p = fst (p_peek (p_skip p))"

partial_function (option) skip_terminators :: "parser \<Rightarrow> parser option" where
  [code]: "skip_terminators p =
     (let (t, p) = p_peek p
      in if t_kind t = TOK_NEWLINE \<or> t_kind t = TOK_SEMICOLON then skip_terminators (p_skip p)
         else Some p)"

definition sync_point :: "token_kind \<Rightarrow> bool" where
  "sync_point k \<longleftrightarrow>
     k \<in> set [TOK_EOF, TOK_NEWLINE, TOK_SEMICOLON, TOK_DEF, TOK_CLASS, TOK_MODULE, TOK_END]"

partial_function (option) sync_loop :: "parser \<Rightarrow> parser option" where
  [code]: "sync_loop p =
     (let (t, p) = p_peek p
      in if sync_point (t_kind t) then Some p
         else sync_loop (p\<lparr>ps_lexer := lexer_consume (ps_lexer p)\<rparr>))"

definition sync :: "parser \<Rightarrow> parser option" where
  "sync p = sync_loop (p\<lparr>ps_panic := False\<rparr>)"

definition tok_span :: "token \<Rightarrow> span" where
  "tok_span t = \<lparr>sp_line = t_line t, sp_col = t_col t, sp_len = t_len t\<rparr>"

definition token_adjacent :: "token \<Rightarrow> token \<Rightarrow> bool" where
  "token_adjacent left right \<longleftrightarrow>
     t_line left = t_line right \<and> t_col right = t_col left + t_len left"

text \<open>A token after a space: \<open>col > name.col + name.len\<close>.\<close>

definition token_spaced :: "token \<Rightarrow> token \<Rightarrow> bool" where
  "token_spaced left right \<longleftrightarrow> t_col left + t_len left < t_col right"

subsection \<open>Nodes and local variables\<close>

definition mk_node :: "span \<Rightarrow> ndata \<Rightarrow> node" where
  "mk_node s d = Node s 0 d"

definition mk_call :: "span \<Rightarrow> node option \<Rightarrow> string \<Rightarrow> node_list \<Rightarrow> node option \<Rightarrow> node" where
  "mk_call s recv m args blk = mk_node s (NCall recv m args blk False)"

definition mk_int :: "span \<Rightarrow> i64 \<Rightarrow> node" where
  "mk_int s i = mk_node s (NInt i)"

definition mk_sval :: "span \<Rightarrow> sval_kind \<Rightarrow> string \<Rightarrow> node" where
  "mk_sval s k v = mk_node s (NSval k v)"

definition append_some :: "node_list \<Rightarrow> node option \<Rightarrow> node_list" where
  "append_some xs n = (case n of None \<Rightarrow> xs | Some _ \<Rightarrow> nodelist_append xs n)"

definition mark_local :: "string option \<Rightarrow> parser \<Rightarrow> parser" where
  "mark_local name p = p\<lparr>ps_lexer := lexer_mark_local name (ps_lexer p)\<rparr>"

text \<open>\<open>mark_assign_targets\<close>, in both files.\<close>

fun mark_assign_targets :: "node option \<Rightarrow> parser \<Rightarrow> parser"
  and mark_assign_list :: "node_list \<Rightarrow> parser \<Rightarrow> parser" where
  "mark_assign_targets None p = p"
| "mark_assign_targets (Some (Node _ _ d)) p =
     (case d of
        NSval K_LVAR name \<Rightarrow> mark_local (Some name) p
      | NArray els \<Rightarrow> mark_assign_list els p
      | _ \<Rightarrow> p)"
| "mark_assign_list [] p = p"
| "mark_assign_list (x # xs) p = mark_assign_list xs (mark_assign_targets x p)"

fun mark_param_local :: "node option \<Rightarrow> parser \<Rightarrow> parser"
  and mark_params_locals :: "node_list \<Rightarrow> parser \<Rightarrow> parser" where
  "mark_param_local None p = p"
| "mark_param_local (Some (Node _ _ d)) p =
     (case d of
        NParam name _ _ \<Rightarrow> mark_local name p
      | NArray els \<Rightarrow> mark_params_locals els p
      | _ \<Rightarrow> p)"
| "mark_params_locals [] p = p"
| "mark_params_locals (x # xs) p = mark_params_locals xs (mark_param_local x p)"

subsection \<open>The recursion\<close>

text \<open>The functions that are called before they are defined, as the prototypes of
  \<open>parser_internal.h\<close>: the definitions below take them as an argument, and the theory ParserTop
  ties the knot.\<close>

type_synonym 'a parse = "parser \<Rightarrow> ('a \<times> parser) option"

record knot =
  k_stmt :: "node option parse"
  k_expr :: "nat \<Rightarrow> node option parse"
  k_continue :: "node \<Rightarrow> nat \<Rightarrow> node option parse"
  k_body :: "bool \<Rightarrow> node option parse"
  k_block :: "node option parse"
  k_wrap :: "span \<Rightarrow> node option \<Rightarrow> node option parse"
  k_param :: "bool \<Rightarrow> node option parse"
  k_target :: "node option parse"
  k_pattern :: "node option parse"

text \<open>A call with a flag set and restored around it.\<close>

definition commas_off :: "parser \<Rightarrow> parser" where
  "commas_off p = p\<lparr>ps_allow_commas := False\<rparr>"

definition deeper_command :: "int \<Rightarrow> parser \<Rightarrow> parser" where
  "deeper_command d p = p\<lparr>ps_command_depth := ps_command_depth p + d\<rparr>"

text \<open>\<open>do { ... } while (match(p, TOK_COMMA))\<close> over expressions, after the first.\<close>

partial_function (option) comma_exprs :: "knot \<Rightarrow> node_list \<Rightarrow> node_list parse" where
  [code]: "comma_exprs K xs p =
     (let (b, p) = p_match TOK_COMMA p
      in if b then do {
           (x, p) \<leftarrow> k_expr K 0 p;
           comma_exprs K (append_some xs x) p
         }
         else Some (xs, p))"

end
