(* ===== verification/ParserExpr.thy ===== *)
theory ParserExpr
  imports Parser
begin

section \<open>The parser: operators and arguments (src/parser_expr.c)\<close>

text \<open>The tables of the binding powers, the tests of the tokens that may start an argument, and
  the calls, hashes and operators of an expression that has begun.\<close>

subsection \<open>Tables\<close>

definition jump_value_terminator :: "token_kind \<Rightarrow> bool" where
  "jump_value_terminator k \<longleftrightarrow>
     k \<in> set [TOK_NEWLINE, TOK_SEMICOLON, TOK_EOF, TOK_END, TOK_IF, TOK_UNLESS, TOK_WHILE, TOK_UNTIL,
       TOK_RESCUE]"

definition kernel_const_call_name :: "string \<Rightarrow> bool" where
  "kernel_const_call_name name \<longleftrightarrow>
     list_ex (streq name) [''Integer'', ''Float'', ''String'', ''Array'', ''Hash'', ''Complex'',
       ''Rational'']"

definition token_can_start_expr :: "token \<Rightarrow> bool" where
  "token_can_start_expr t \<longleftrightarrow>
     t_kind t \<in> set [TOK_IDENT, TOK_CONST, TOK_IVAR, TOK_GVAR, TOK_NIL, TOK_TRUE, TOK_FALSE, TOK_SELF,
       TOK_INT, TOK_FLOAT, TOK_RATIONAL, TOK_IMAGINARY, TOK_STRING, TOK_REGEXP, TOK_WORDS,
       TOK_SYMBOLS, TOK_INTERP_BEG, TOK_LPAREN, TOK_LBRACKET, TOK_LBRACE, TOK_DEFINED, TOK_PLUS,
       TOK_MINUS, TOK_BANG, TOK_TILDE]"

definition unary_prefix_arg :: "token \<Rightarrow> token \<Rightarrow> token \<Rightarrow> bool" where
  "unary_prefix_arg prev sign after_sign \<longleftrightarrow>
     (t_kind sign = TOK_PLUS \<or> t_kind sign = TOK_MINUS) \<and> t_line sign = t_line prev \<and>
     t_col prev + t_len prev < t_col sign \<and> token_adjacent sign after_sign \<and>
     token_can_start_expr after_sign"

text \<open>The kinds every list of argument starts has.\<close>

definition arg_kinds :: "token_kind list" where
  "arg_kinds = [TOK_SYMBOL, TOK_STRING, TOK_WORDS, TOK_SYMBOLS, TOK_INTERP_BEG, TOK_INT, TOK_FLOAT,
     TOK_NIL, TOK_TRUE, TOK_FALSE, TOK_SELF, TOK_IVAR, TOK_GVAR, TOK_CONST, TOK_IDENT, TOK_BANG,
     TOK_TILDE]"

definition number_kinds :: "token_kind list" where
  "number_kinds = [TOK_RATIONAL, TOK_IMAGINARY]"

text \<open>\<open>can_be_arg && nxt.line == name.line\<close>: \<open>extra\<close> are the kinds of the place.\<close>

definition starts_arg :: "token_kind list \<Rightarrow> bool \<Rightarrow> token \<Rightarrow> token \<Rightarrow> token \<Rightarrow> bool" where
  "starts_arg extra bracket name nxt after \<longleftrightarrow>
     (bracket \<or> t_kind nxt \<in> set arg_kinds \<or> t_kind nxt \<in> set extra \<or>
      unary_prefix_arg name nxt after) \<and>
     t_line nxt = t_line name"

definition spaced_bracket :: "token \<Rightarrow> token \<Rightarrow> bool" where
  "spaced_bracket name nxt \<longleftrightarrow>
     (t_kind nxt = TOK_LPAREN \<or> t_kind nxt = TOK_LBRACKET) \<and> token_spaced name nxt"

definition const_path_segment_is_call :: "token \<Rightarrow> parser \<Rightarrow> bool \<times> parser" where
  "const_path_segment_is_call name p =
     (let (nxt, p) = p_peek p; after = peek_next_token p
      in (starts_arg number_kinds (t_kind nxt = TOK_LPAREN \<and> token_adjacent name nxt) name nxt after,
          p))"

definition range_rhs_omitted :: "parser \<Rightarrow> bool \<times> parser" where
  "range_rhs_omitted p =
     (let (t, p) = p_peek p
      in (t_kind t \<in> set [TOK_RPAREN, TOK_RBRACKET, TOK_RBRACE, TOK_COMMA, TOK_NEWLINE,
            TOK_SEMICOLON, TOK_EOF, TOK_END, TOK_THEN, TOK_DO, TOK_IF, TOK_UNLESS, TOK_WHILE,
            TOK_UNTIL], p))"

text \<open>The left and right binding power; \<open>(0, 0)\<close> for what is no infix operator.\<close>

definition infix_bp :: "token_kind \<Rightarrow> nat \<times> nat" where
  "infix_bp k =
     (if k = TOK_OR then (2, 3)
      else if k = TOK_AND then (4, 5)
      else if k \<in> set [TOK_EQ, TOK_PLUS_EQ, TOK_MINUS_EQ, TOK_STAR_EQ, TOK_SLASH_EQ, TOK_PERCENT_EQ,
          TOK_STAR2_EQ, TOK_AMP_EQ, TOK_PIPE_EQ, TOK_CARET_EQ, TOK_LSHIFT_EQ, TOK_RSHIFT_EQ,
          TOK_AMP2_EQ, TOK_PIPE2_EQ] then (6, 6)
      else if k = TOK_QUESTION then (8, 7)
      else if k = TOK_PIPE2 then (10, 11)
      else if k = TOK_AMP2 then (12, 13)
      else if k = TOK_DOT2 \<or> k = TOK_DOT3 then (8, 9)
      else if k \<in> set [TOK_EQ2, TOK_NEQ, TOK_EQ3, TOK_MATCH, TOK_NMATCH] then (14, 15)
      else if k \<in> set [TOK_LT, TOK_LEQ, TOK_GT, TOK_GEQ, TOK_SPACESHIP] then (16, 17)
      else if k = TOK_PIPE then (18, 19)
      else if k = TOK_CARET then (20, 21)
      else if k = TOK_AMP then (22, 23)
      else if k = TOK_LSHIFT \<or> k = TOK_RSHIFT then (24, 25)
      else if k = TOK_PLUS \<or> k = TOK_MINUS then (26, 27)
      else if k \<in> set [TOK_STAR, TOK_SLASH, TOK_PERCENT] then (28, 29)
      else if k = TOK_STAR2 then (32, 31)
      else if k \<in> set [TOK_DOT, TOK_COLON2, TOK_ANDDOT] then (40, 41)
      else if k = TOK_LBRACKET then (42, 43)
      else (0, 0))"

definition prefix_bp :: "token_kind \<Rightarrow> nat" where
  "prefix_bp k =
     (if k = TOK_NOT then 6
      else if k \<in> set [TOK_BANG, TOK_MINUS, TOK_TILDE, TOK_PLUS] then 30
      else if k = TOK_STAR then 2
      else 0)"

text \<open>The kinds from \<open>TOK_PLUS_EQ\<close> to \<open>TOK_PIPE2_EQ\<close> in the enumeration.\<close>

definition is_op_assign :: "token_kind \<Rightarrow> bool" where
  "is_op_assign k \<longleftrightarrow>
     k \<in> set [TOK_PLUS_EQ, TOK_MINUS_EQ, TOK_STAR_EQ, TOK_SLASH_EQ, TOK_PERCENT_EQ, TOK_AMP_EQ,
       TOK_PIPE_EQ, TOK_CARET_EQ, TOK_LSHIFT_EQ, TOK_RSHIFT_EQ, TOK_STAR2_EQ, TOK_AMP2_EQ,
       TOK_PIPE2_EQ]"

subsection \<open>Percent lists\<close>

definition is_word_space :: "char \<Rightarrow> bool" where
  "is_word_space c \<longleftrightarrow>
     c \<in> set [CHR '' '', CHR 0x09, CHR 0x0D, CHR 0x0A, CHR 0x0C, CHR 0x0B]"

text \<open>One element up to white space, and what follows it.\<close>

fun percent_word :: "string \<Rightarrow> string \<times> string" where
  "percent_word [] = ([], [])"
| "percent_word [c] = (if is_word_space c then ([], [c]) else ([c], []))"
| "percent_word (c # d # s) =
     (if c = CHR 0x5C then (let (w, r) = percent_word s in (d # w, r))
      else if is_word_space c then ([], c # d # s)
      else (let (w, r) = percent_word (d # s) in (c # w, r)))"

lemma percent_word_shorter: "length (snd (percent_word s)) \<le> length s"
  by (induction s rule: percent_word.induct) (auto split: prod.splits if_splits)

lemma percent_word_first:
  "\<not> is_word_space c \<Longrightarrow> length (snd (percent_word (c # s))) < Suc (length s)"
  using percent_word_shorter [of s] percent_word_shorter [of "tl s"]
  by (cases s) (auto simp: Let_def split: prod.splits if_splits)

function percent_words :: "string \<Rightarrow> string list" where
  "percent_words s =
     (case dropWhile is_word_space s of
        [] \<Rightarrow> []
      | c # r \<Rightarrow> (let (w, r) = percent_word (c # r) in w # percent_words r))"
  by pat_completeness auto
termination
proof (relation "measure length", goal_cases)
  case (2 s c r p w r')
  have "\<not> is_word_space c" using 2(1) hd_dropWhile [of is_word_space s] by auto
  then have "length r' < length (c # r)" using percent_word_first [of c r] 2(2,3) by (metis length_Cons snd_conv)
  also have "\<dots> \<le> length s" using 2(1) length_dropWhile_le [of is_word_space s] by simp
  finally show ?case by simp
qed simp

declare percent_words.simps [simp del]

definition parse_percent_list :: "span \<Rightarrow> token \<Rightarrow> sval_kind \<Rightarrow> node" where
  "parse_percent_list s t k =
     (let src = (case t_sval t of Some v \<Rightarrow> cstr v | None \<Rightarrow> [])
      in mk_node s (NArray (map (\<lambda>w. Some (Node s (length w) (NSval k w))) (percent_words src))))"

subsection \<open>Bodies in parentheses, jump values\<close>

partial_function (option) rparen_loop :: "knot \<Rightarrow> node_list \<Rightarrow> node_list parse" where
  [code]: "rparen_loop K stmts p = do {
     p \<leftarrow> skip_terminators p;
     let (t, p) = p_peek p;
     if t_kind t = TOK_RPAREN \<or> t_kind t = TOK_EOF then Some (stmts, p)
     else do {
       (stmt, p) \<leftarrow> k_stmt K p;
       if ps_panic p then do { p \<leftarrow> sync p; rparen_loop K stmts p }
       else rparen_loop K (append_some stmts stmt) p
     }
   }"

definition parse_body_until_rparen :: "knot \<Rightarrow> node parse" where
  "parse_body_until_rparen K p = do {
     let (t, p) = p_peek p;
     (stmts, p) \<leftarrow> rparen_loop K [] (p\<lparr>ps_masgn_depth := ps_masgn_depth p + 1\<rparr>);
     Some (mk_node (tok_span t) (NBody K_BODY stmts), p\<lparr>ps_masgn_depth := ps_masgn_depth p - 1\<rparr>)
   }"

partial_function (option) jump_values :: "knot \<Rightarrow> node_list \<Rightarrow> node_list parse" where
  [code]: "jump_values K xs p = (let (b, p) = p_match TOK_COMMA p in
     if b then (let (t, p) = p_peek p in
       if jump_value_terminator (t_kind t) then Some (xs, p)
       else do {
         (x, p) \<leftarrow> k_expr K 0 p;
         jump_values K (append_some xs x) p
       })
     else Some (xs, p))"

definition parse_jump_value :: "knot \<Rightarrow> node option \<Rightarrow> span \<Rightarrow> node option parse" where
  "parse_jump_value K first s p =
     (case first of None \<Rightarrow> Some (None, p)
      | Some f \<Rightarrow> (let (b, p) = check TOK_COMMA p in
          if \<not> b then Some (Some f, p)
          else do {
            (xs, p) \<leftarrow> jump_values K [Some f] p;
            Some (Some (mk_node s (NArray xs)), p)
          }))"

subsection \<open>Blocks that follow an argument\<close>

definition set_block :: "node \<Rightarrow> node option \<Rightarrow> node" where
  "set_block n blk =
     (case n of Node s k (NCall recv m args _ nav) \<Rightarrow> Node s k (NCall recv m args blk nav) | _ \<Rightarrow> n)"

definition is_call_without_block :: "node \<Rightarrow> bool" where
  "is_call_without_block n = (case n_data n of NCall _ _ _ None _ \<Rightarrow> True | _ \<Rightarrow> False)"

definition attach_pending_do_block :: "knot \<Rightarrow> node option \<Rightarrow> nat \<Rightarrow> node option parse" where
  "attach_pending_do_block K arg min_bp p =
     (case arg of None \<Rightarrow> Some (None, p)
      | Some n \<Rightarrow> (let (b, p) = check TOK_DO p in
          if b \<and> is_call_without_block n then do {
            (blk, p) \<leftarrow> k_block K p;
            k_continue K (set_block n blk) min_bp p
          }
          else Some (Some n, p)))"

text \<open>\<open>if (check(TOK_LBRACE) || check(TOK_DO) && cond) block = parse_block(p)\<close>\<close>

definition opt_block :: "knot \<Rightarrow> bool \<Rightarrow> node option parse" where
  "opt_block K cond p =
     (let (t, p) = p_peek p
      in if t_kind t = TOK_LBRACE \<or> t_kind t = TOK_DO \<and> cond then k_block K p else Some (None, p))"

subsection \<open>Arguments\<close>

text \<open>\<open>command_hash_label_node\<close>: the name of the label, when the node can be one.\<close>

definition command_hash_label_node :: "node option \<Rightarrow> string option" where
  "command_hash_label_node n =
     (case n of
        Some (Node _ _ (NSval k v)) \<Rightarrow> if k = K_LVAR \<or> k = K_CONST then Some v else None
      | _ \<Rightarrow> None)"

definition command_hash_label_key :: "node \<Rightarrow> string \<Rightarrow> node" where
  "command_hash_label_key n name = mk_sval (n_span n) K_SYMBOL name"

definition mk_pair :: "node \<Rightarrow> node option \<Rightarrow> node" where
  "mk_pair key val = mk_node (n_span key) (NPair (Some key) val)"

definition append_pair :: "node_list \<Rightarrow> node \<Rightarrow> node option \<Rightarrow> node_list" where
  "append_pair pairs key val =
     (case val of None \<Rightarrow> pairs | Some _ \<Rightarrow> nodelist_append pairs (Some (mk_pair key val)))"

definition parse_command_hash :: "knot \<Rightarrow> node \<Rightarrow> string \<Rightarrow> node option parse" where
  "parse_command_hash K first name p = do {
     let key = command_hash_label_key first name;
     let p = expect TOK_COLON ''expected ':' in hash literal'' p;
     (val, p) \<leftarrow> k_expr K 0 p;
     Some (Some (mk_node (n_span first) (NHash (append_pair [] key val) True)), p)
   }"

partial_function (option) arrow_pairs :: "knot \<Rightarrow> node \<Rightarrow> node_list \<Rightarrow> node_list parse" where
  [code]: "arrow_pairs K key pairs p = do {
     (val, p) \<leftarrow> k_expr K 0 (expect TOK_ARROW ''expected '=>' in hash literal'' p);
     let pairs = append_pair pairs key val;
     let (b, p) = p_match TOK_COMMA p;
     if \<not> b then Some (pairs, p)
     else do {
       (key, p) \<leftarrow> k_expr K 0 p;
       case key of None \<Rightarrow> Some (pairs, p)
       | Some key \<Rightarrow> (let (b, p) = check TOK_ARROW p
           in if b then arrow_pairs K key pairs p else Some (pairs, p))
     }
   }"

definition parse_arrow_hash :: "knot \<Rightarrow> node \<Rightarrow> node option parse" where
  "parse_arrow_hash K first p = do {
     (pairs, p) \<leftarrow> arrow_pairs K first [] p;
     Some (Some (mk_node (n_span first) (NHash pairs False)), p)
   }"

definition parse_arg_expr :: "knot \<Rightarrow> node option parse" where
  "parse_arg_expr K p =
     (let (t, p) = p_peek p in
      if t_kind t = TOK_STAR2 then do {
        (x, p) \<leftarrow> k_expr K 0 (p_skip p);
        Some (Some (mk_node (tok_span t) (NUnop ''**'' x)), p)
      }
      else do {
        (arg, p) \<leftarrow> k_expr K 0 (deeper_command 1 p);
        let p = deeper_command (-1) p;
        let (t, p) = p_peek p;
        case arg of None \<Rightarrow> Some (None, p)
        | Some n \<Rightarrow>
            (case command_hash_label_node arg of
               Some name \<Rightarrow>
                 if t_kind t = TOK_COLON then parse_command_hash K n name p
                 else if t_kind t = TOK_ARROW then parse_arrow_hash K n p else Some (arg, p)
             | None \<Rightarrow> if t_kind t = TOK_ARROW then parse_arrow_hash K n p else Some (arg, p))
      })"

definition parse_command_arg :: "knot \<Rightarrow> node option parse" where
  "parse_command_arg K = parse_arg_expr K"

text \<open>The \<open>&\<close> and \<open>*\<close> arguments of both kinds of call.\<close>

definition parse_block_pass :: "knot \<Rightarrow> node parse" where
  "parse_block_pass K p = do {
     let (t, p) = p_peek p;
     (x, p) \<leftarrow> k_expr K 0 (p_skip p);
     Some (mk_node (tok_span t) (NBlockPass x), p)
   }"

definition parse_splat_arg :: "knot \<Rightarrow> node parse" where
  "parse_splat_arg K p = do {
     let (t, p) = p_peek p;
     (x, p) \<leftarrow> k_expr K 0 (p_skip p);
     (x, p) \<leftarrow> attach_pending_do_block K x 0 p;
     Some (mk_node (tok_span t) (NUnop ''*'' x), p)
   }"

partial_function (option) command_args_loop :: "knot \<Rightarrow> bool \<Rightarrow> node_list \<Rightarrow> node_list parse" where
  [code]: "command_args_loop K saved args p = (let (t, p) = p_peek p in
     if t_kind t = TOK_AMP then do {
       (bp, p) \<leftarrow> parse_block_pass K p;
       Some (nodelist_append args (Some bp), p)
     }
     else do {
       (args, p) \<leftarrow>
         (if t_kind t = TOK_STAR then do {
            (x, p) \<leftarrow> parse_splat_arg K p;
            Some (nodelist_append args (Some x), p)
          }
          else do {
            (x, p) \<leftarrow> parse_command_arg K p;
            Some (append_some args x, p)
          });
       let (b, p) = (if saved then p_match TOK_COMMA p else (False, p));
       if \<not> b then Some (args, p)
       else do {
         p \<leftarrow> skip_terminators p;
         command_args_loop K saved args (commas_off p)
       }
     })"

definition parse_command_args :: "knot \<Rightarrow> node_list parse" where
  "parse_command_args K p = do {
     let saved = ps_allow_commas p;
     (args, p) \<leftarrow> command_args_loop K saved [] (commas_off p);
     Some (args, p\<lparr>ps_allow_commas := saved\<rparr>)
   }"

partial_function (option) args_loop :: "knot \<Rightarrow> node_list \<Rightarrow> node_list parse" where
  [code]: "args_loop K args p = (let (t, p) = p_peek p in
     if t_kind t = TOK_RPAREN \<or> t_kind t = TOK_EOF then Some (args, p)
     else if t_kind t = TOK_AMP then do {
       (bp, p) \<leftarrow> parse_block_pass K p;
       p \<leftarrow> skip_terminators p;
       Some (nodelist_append args (Some bp), p)
     }
     else do {
       (args, p) \<leftarrow>
         (if t_kind t = TOK_STAR then do {
            (x, p) \<leftarrow> parse_splat_arg K p;
            Some (nodelist_append args (Some x), p)
          }
          else do {
            (x, p) \<leftarrow> parse_arg_expr K p;
            (x, p) \<leftarrow> attach_pending_do_block K x 0 p;
            Some (append_some args x, p)
          });
       let (b, p) = p_match TOK_COMMA p;
       p \<leftarrow> skip_terminators p;
       if b then args_loop K args p else Some (args, p)
     })"

definition parse_args :: "knot \<Rightarrow> node_list parse" where
  "parse_args K p = do {
     let saved = ps_allow_commas p;
     p \<leftarrow> skip_terminators (commas_off p);
     (args, p) \<leftarrow> args_loop K [] p;
     Some (args, p\<lparr>ps_allow_commas := saved\<rparr>)
   }"

text \<open>The message \<open>expected '...'\<close>.\<close>

definition expected :: "string \<Rightarrow> string" where
  "expected what = ''expected '' @ [CHR 0x27] @ what @ [CHR 0x27]"

text \<open>The arguments after an opening parenthesis, with the closing one.\<close>

definition paren_args :: "knot \<Rightarrow> node_list parse" where
  "paren_args K p = do {
     (args, p) \<leftarrow> parse_args K p;
     Some (args, expect TOK_RPAREN (expected '')'') p)
   }"

end
