(* ===== verification/ParserInfix.thy ===== *)
theory ParserInfix
  imports ParserExpr
begin

section \<open>The parser: what follows an operand (src/parser_expr.c)\<close>

text \<open>
  \<open>parse_expr_continue\<close> extends an expression by the operators that bind at least as tightly as
  \<open>min_bp\<close>. Each step returns the new left operand and whether the loop goes on: a \<open>break\<close> of the
  code is \<open>False\<close>.
\<close>

type_synonym infix_step = "(node \<times> bool) parse"

subsection \<open>Method calls\<close>

text \<open>The names of the operators that may follow a dot.\<close>

definition dot_operators :: "(token_kind \<times> string) list" where
  "dot_operators =
     [(TOK_PERCENT, ''%''), (TOK_PLUS, ''+''), (TOK_MINUS, ''-''), (TOK_STAR, ''*''),
      (TOK_STAR2, ''**''), (TOK_SLASH, ''/''), (TOK_LT, ''<''), (TOK_GT, ''>''), (TOK_LEQ, ''<=''),
      (TOK_GEQ, ''>=''), (TOK_EQ2, ''==''), (TOK_EQ3, ''===''), (TOK_NEQ, ''!=''),
      (TOK_SPACESHIP, ''<=>''), (TOK_MATCH, ''=~''), (TOK_NMATCH, ''!~''), (TOK_LSHIFT, ''<<''),
      (TOK_RSHIFT, ''>>''), (TOK_AMP, ''&''), (TOK_PIPE, ''|''), (TOK_CARET, ''^''),
      (TOK_TILDE, ''~'')]"

definition dot_keywords :: "token_kind list" where
  "dot_keywords =
     [TOK_NIL, TOK_TRUE, TOK_FALSE, TOK_SELF, TOK_IF, TOK_UNLESS, TOK_THEN, TOK_ELSIF, TOK_ELSE,
      TOK_END, TOK_WHILE, TOK_UNTIL, TOK_DO, TOK_DEF, TOK_CLASS, TOK_MODULE, TOK_RETURN, TOK_BREAK,
      TOK_NEXT, TOK_RETRY, TOK_AND, TOK_OR, TOK_NOT, TOK_IN, TOK_RESCUE, TOK_ENSURE, TOK_BEGIN,
      TOK_YIELD, TOK_SUPER, TOK_CASE, TOK_WHEN, TOK_ALIAS, TOK_FOR]"

text \<open>The name after the dot \<open>op\<close>; \<open>None\<close> where the code breaks out of the loop.\<close>

definition dot_method_name :: "token \<Rightarrow> token \<Rightarrow> parser \<Rightarrow> string option \<times> parser" where
  "dot_method_name op name p =
     (if (t_kind op = TOK_DOT \<or> t_kind op = TOK_ANDDOT) \<and> t_kind name = TOK_LPAREN \<and>
         token_adjacent op name then (Some ''call'', p)
      else if t_kind name = TOK_LBRACKET then
        (let (t, p) = p_peek p in
         if t_kind t \<noteq> TOK_RBRACKET then
           (None, error_at (expected '']'' @ '' to close '' @ [CHR 0x27] @ ''[]'' @ [CHR 0x27] @
              '' method name'') t p)
         else
           (let (rb, p) = p_advance p; (t, p) = p_peek p in
            if t_kind t = TOK_EQ \<and> token_adjacent rb t then (Some ''[]='', p_skip p)
            else (Some ''[]'', p)))
      else if t_kind name = TOK_IDENT \<or> t_kind name = TOK_CONST then (t_sval name, p)
      else if t_kind name \<in> set dot_keywords then (t_sval name, p)
      else case map_of dot_operators (t_kind name) of
          Some m \<Rightarrow> (Some m, p)
        | None \<Rightarrow> (None, error_at (''expected method name after '' @ [CHR 0x27] @ ''.'' @ [CHR 0x27]) name p))"

text \<open>A \<open>?\<close> or \<open>!\<close> that touches the name belongs to it.\<close>

definition suffixed_name :: "token \<Rightarrow> string \<Rightarrow> parser \<Rightarrow> string \<times> parser" where
  "suffixed_name name m p =
     (let (t, p) = p_peek p in
      if (t_kind t = TOK_QUESTION \<or> t_kind t = TOK_BANG) \<and> token_adjacent name t
      then (let (t, p) = p_advance p
            in (cstr m @ (if t_kind t = TOK_QUESTION then ''?'' else ''!''), p))
      else (m, p))"

text \<open>The arguments of a method call, and whether they stood in parentheses.\<close>

definition dot_args :: "knot \<Rightarrow> token \<Rightarrow> string \<Rightarrow> (node_list \<times> bool) parse" where
  "dot_args K name m p =
     (let (nxt, p) = p_peek p in
      if t_kind name = TOK_LPAREN \<and> streq m ''call'' then do {
        (args, p) \<leftarrow> paren_args K p;
        Some ((args, True), p)
      }
      else if t_kind nxt = TOK_LPAREN \<and> token_adjacent name nxt then do {
        (args, p) \<leftarrow> paren_args K (p_skip p);
        Some ((args, True), p)
      }
      else if starts_arg (TOK_COLON2 # number_kinds) (spaced_bracket name nxt) name nxt
                (peek_next_token p) then do {
        (args, p) \<leftarrow> parse_command_args K p;
        Some ((args, False), p)
      }
      else Some (([], False), p))"

definition infix_call :: "knot \<Rightarrow> node \<Rightarrow> token \<Rightarrow> token \<Rightarrow> infix_step" where
  "infix_call K left op name p =
     (case dot_method_name op name p of
        (None, p) \<Rightarrow> Some ((left, False), p)
      | (Some m, p) \<Rightarrow> do {
          let (m, p) = suffixed_name name m p;
          ((args, in_paren), p) \<leftarrow> dot_args K name m p;
          (blk, p) \<leftarrow> opt_block K (ps_command_depth p = 0 \<or> in_paren) p;
          Some ((mk_node (n_span left)
                   (NCall (Some left) m args blk (t_kind op = TOK_ANDDOT)), True), p)
        })"

text \<open>\<open>A::B\<close>: a constant, unless what follows makes it a call.\<close>

definition infix_dot :: "knot \<Rightarrow> node \<Rightarrow> token \<Rightarrow> infix_step" where
  "infix_dot K left op p =
     (let (name, p) = p_advance p in
      if t_kind op = TOK_COLON2 \<and> t_kind name = TOK_CONST then
        (let (is_call, p) = const_path_segment_is_call name p in
         if is_call then infix_call K left op name p
         else do {
           n \<leftarrow> t_sval name;
           case n_data left of
             NSval K_CONST v \<Rightarrow>
               Some ((mk_sval (n_span left) K_CONST (cstr v @ ''::'' @ cstr n), True), p)
           | _ \<Rightarrow> Some ((mk_node (n_span left) (NConstAccess (Some left) n), True), p)
         })
      else infix_call K left op name p)"

subsection \<open>Assignments, ranges and operators\<close>

definition infix_index :: "knot \<Rightarrow> node \<Rightarrow> infix_step" where
  "infix_index K left p = do {
     let (t, p) = p_peek p;
     (args, p) \<leftarrow>
       (if t_kind t = TOK_RBRACKET then Some ([], p)
        else do {
          (x, p) \<leftarrow> k_expr K 0 p;
          comma_exprs K (append_some [] x) p
        });
     let p = expect TOK_RBRACKET (expected '']'') p;
     Some ((mk_call (n_span left) (Some left) ''[]'' args None, True), p)
   }"

text \<open>An index or an attribute is turned into the call of its writer.\<close>

definition assign_to :: "node \<Rightarrow> node option \<Rightarrow> node option" where
  "assign_to left right =
     (case left of
        Node s k (NCall (Some recv) m args blk nav) \<Rightarrow>
          if streq m ''[]'' then
            Some (Node s k (NCall (Some recv) ''[]='' (nodelist_append args right) blk nav))
          else if args = [] then
            Some (Node s k (NCall (Some recv) (cstr m @ ''='') [right] blk nav))
          else None
      | _ \<Rightarrow> None)"

definition infix_assign :: "knot \<Rightarrow> node \<Rightarrow> nat \<Rightarrow> infix_step" where
  "infix_assign K left rbp p = do {
     p \<leftarrow> skip_terminators p;
     (right, p) \<leftarrow> k_expr K rbp p;
     case assign_to left right of
       Some n \<Rightarrow> Some ((n, True), p)
     | None \<Rightarrow>
         Some ((mk_node (n_span left) (NAssign (Some left) right), True),
               mark_assign_targets (Some left) p)
   }"

definition infix_range :: "knot \<Rightarrow> node \<Rightarrow> token \<Rightarrow> nat \<Rightarrow> infix_step" where
  "infix_range K left op rbp p = do {
     let (omitted, p) = range_rhs_omitted p;
     (right, p) \<leftarrow>
       (if omitted then Some (None, p)
        else do {
          p \<leftarrow> skip_terminators p;
          k_expr K rbp p
        });
     Some ((mk_node (n_span left) (NRange (Some left) right (t_kind op = TOK_DOT3)), True), p)
   }"

definition infix_binop :: "knot \<Rightarrow> binop_kind \<Rightarrow> node \<Rightarrow> token \<Rightarrow> nat \<Rightarrow> infix_step" where
  "infix_binop K k left op rbp p = do {
     p \<leftarrow> skip_terminators p;
     (right, p) \<leftarrow> k_expr K rbp p;
     Some ((mk_node (n_span left) (NBinop k (token_kind_name (t_kind op)) (Some left) right), True), p)
   }"

definition infix_ternary :: "knot \<Rightarrow> node \<Rightarrow> nat \<Rightarrow> infix_step" where
  "infix_ternary K left rbp p = do {
     p \<leftarrow> skip_terminators p;
     (t, p) \<leftarrow> k_expr K 0 p;
     p \<leftarrow> skip_terminators p;
     p \<leftarrow> skip_terminators (expect TOK_COLON (expected '':'' @ '' in ternary'') p);
     (e, p) \<leftarrow> k_expr K rbp p;
     Some ((mk_node (n_span left) (NCond K_IF (Some left) t e), True), p)
   }"

definition infix_step :: "knot \<Rightarrow> node \<Rightarrow> token \<Rightarrow> nat \<Rightarrow> infix_step" where
  "infix_step K left op rbp p =
     (let k = t_kind op in
      if k = TOK_LBRACKET then infix_index K left p
      else if k = TOK_EQ then infix_assign K left rbp p
      else if is_op_assign k then infix_binop K K_OP_ASSIGN left op rbp p
      else if k = TOK_DOT \<or> k = TOK_COLON2 \<or> k = TOK_ANDDOT then infix_dot K left op p
      else if k = TOK_DOT2 \<or> k = TOK_DOT3 then infix_range K left op rbp p
      else infix_binop K K_BINOP left op rbp p)"

subsection \<open>The loop\<close>

text \<open>A newline before a dot continues the expression.\<close>

definition leading_dot :: "token \<Rightarrow> parser \<Rightarrow> token \<times> parser" where
  "leading_dot op p =
     (if t_kind op = TOK_NEWLINE \<and>
         (t_kind (peek_next_token p) = TOK_DOT \<or> t_kind (peek_next_token p) = TOK_ANDDOT)
      then p_peek (p_skip p) else (op, p))"

partial_function (option) parse_expr_continue :: "knot \<Rightarrow> node \<Rightarrow> nat \<Rightarrow> node parse" where
  [code]: "parse_expr_continue K left min_bp p =
     (let (op, p) = p_peek p in
      if ps_stop_at_pipe p \<and> t_kind op = TOK_PIPE then Some (left, p)
      else
        (let (op, p) = leading_dot op p; (lbp, rbp) = infix_bp (t_kind op) in
         if lbp = 0 \<or> lbp < min_bp then Some (left, p)
         else do {
           ((left, go_on), p) \<leftarrow>
             (if t_kind op = TOK_QUESTION then infix_ternary K left rbp (p_skip p)
              else infix_step K left op rbp (p_skip p));
           if go_on then parse_expr_continue K left min_bp p else Some (left, p)
         }))"

definition parse_hash_key :: "knot \<Rightarrow> (node option \<times> bool) parse" where
  "parse_hash_key K p =
     (let (t, p) = p_peek p in
      if (t_kind t = TOK_IDENT \<or> t_kind t = TOK_CONST) \<and> \<not> ps_allow_commas p then
        (let (b, p) = p_match TOK_COLON (p_skip p) in
         if b then do { v \<leftarrow> t_sval t; Some ((Some (mk_sval (tok_span t) K_SYMBOL v), True), p) }
         else Some ((None, False),
                error_at (expected '':'' @ '' or '' @ [CHR 0x27] @ ''=>'' @ [CHR 0x27] @ '' in hash literal'') t
                  (p\<lparr>ps_panic := True\<rparr>)))
      else do {
        (key, p) \<leftarrow> k_expr K 0 p;
        Some ((key, False), p)
      })"

end
