(* ===== verification/ParserPrimary.thy ===== *)
theory ParserPrimary
  imports ParserInfix
begin

section \<open>The parser: operands (src/parser_expr.c)\<close>

text \<open>Blocks, parameters, literals and the other expressions that start with their own token. Each
  case of the switch of \<open>parse_primary\<close> that does more than make a node is a definition.\<close>

subsection \<open>Blocks and parameters\<close>

text \<open>The end of a block or a definition: rescue clauses around the body, then the closing token.
  \<open>None\<close> in the result is the null node.\<close>

definition rescued_body :: "knot \<Rightarrow> span \<Rightarrow> node option \<Rightarrow> (node option \<times> bool) parse" where
  "rescued_body K s body p =
     (let (t, p) = p_peek p in
      if t_kind t = TOK_RESCUE \<or> t_kind t = TOK_ENSURE then do {
        (body, p) \<leftarrow> k_wrap K s body p;
        Some ((body, body \<noteq> None), p)
      }
      else Some ((body, True), p))"

definition close_block :: "bool \<Rightarrow> parser \<Rightarrow> parser" where
  "close_block brace p =
     (if brace then expect TOK_RBRACE (expected ''}'') p else expect TOK_END (expected ''end'') p)"

partial_function (option) params_loop :: "knot \<Rightarrow> node_list \<Rightarrow> node_list parse" where
  [code]: "params_loop K params p =
     (let (t, p) = p_peek p in
      if t_kind t = TOK_PIPE \<or> t_kind t = TOK_RPAREN \<or> t_kind t = TOK_EOF then Some (params, p)
      else do {
        (x, p) \<leftarrow> k_param K True p;
        let (b, p) = p_match TOK_COMMA p;
        if b then params_loop K (nodelist_append params x) p
        else Some (nodelist_append params x, p)
      })"

definition parse_params :: "knot \<Rightarrow> node_list parse" where
  "parse_params K = params_loop K []"

partial_function (option) params_unparen_loop :: "knot \<Rightarrow> u32 \<Rightarrow> node_list \<Rightarrow> node_list parse" where
  [code]: "params_unparen_loop K def_line params p =
     (let (t, p) = p_peek p in
      if t_line t \<noteq> def_line \<or>
         t_kind t \<in> set [TOK_PIPE, TOK_RPAREN, TOK_NEWLINE, TOK_SEMICOLON, TOK_EOF]
      then Some (params, p)
      else do {
        (x, p) \<leftarrow> k_param K True p;
        let (t, p) = p_peek p;
        if t_kind t \<noteq> TOK_COMMA \<or> t_line t \<noteq> def_line then Some (nodelist_append params x, p)
        else params_unparen_loop K def_line (nodelist_append params x) (p_skip p)
      })"

definition parse_params_unparen :: "knot \<Rightarrow> u32 \<Rightarrow> node_list parse" where
  "parse_params_unparen K def_line = params_unparen_loop K def_line []"

definition no_param_flags :: param_flags where
  "no_param_flags =
     \<lparr>p_splat = False, p_block_param = False, p_keyword_param = False, p_keyword_splat = False\<rparr>"

definition mk_param :: "span \<Rightarrow> string option \<Rightarrow> node option \<Rightarrow> param_flags \<Rightarrow> node option" where
  "mk_param s name dflt fl = Some (mk_node s (NParam name dflt fl))"

text \<open>The name after \<open>*\<close> or \<open>**\<close>, which may be left out.\<close>

definition splat_name :: "parser \<Rightarrow> string option \<times> parser" where
  "splat_name p =
     (let (t, p) = p_peek p in
      if t_kind t = TOK_IDENT \<or> t_kind t = TOK_CONST then (t_sval t, p_skip p) else (None, p))"

partial_function (option) param_group :: "knot \<Rightarrow> node_list \<Rightarrow> node_list parse" where
  [code]: "param_group K elems p =
     (let (t, p) = p_peek p in
      if t_kind t = TOK_RPAREN \<or> t_kind t = TOK_EOF then Some (elems, p)
      else do {
        (x, p) \<leftarrow> k_param K False p;
        let (b, p) = p_match TOK_COMMA p;
        if b then param_group K (append_some elems x) p else Some (append_some elems x, p)
      })"

definition param_default :: "knot \<Rightarrow> bool \<Rightarrow> (node option \<times> bool) parse" where
  "param_default K allow_default p =
     (let (t, p) = p_peek p in
      if t_kind t = TOK_COLON then
        (let (t, p) = p_peek (p_skip p) in
         if allow_default \<and>
            t_kind t \<notin> set [TOK_COMMA, TOK_RPAREN, TOK_PIPE, TOK_NEWLINE, TOK_EOF]
         then do { (x, p) \<leftarrow> k_expr K 0 p; Some ((x, True), p) }
         else Some ((None, True), p))
      else if allow_default \<and> t_kind t = TOK_EQ
        then do { (x, p) \<leftarrow> k_expr K 0 (p_skip p); Some ((x, False), p) }
      else Some ((None, False), p))"

definition parse_param_node :: "knot \<Rightarrow> bool \<Rightarrow> node option parse" where
  "parse_param_node K allow_default p =
     (let (t, p) = p_peek p; s = tok_span t in
      if t_kind t = TOK_LPAREN then do {
        (elems, p) \<leftarrow> param_group K [] (p_skip p);
        Some (Some (mk_node s (NArray elems)), expect TOK_RPAREN (expected '')'') p)
      }
      else if t_kind t = TOK_STAR then
        (let (name, p) = splat_name (p_skip p)
         in Some (mk_param s name None (no_param_flags\<lparr>p_splat := True\<rparr>), p))
      else if t_kind t = TOK_STAR2 then
        (let (name, p) = splat_name (p_skip p)
         in Some (mk_param s name None (no_param_flags\<lparr>p_keyword_splat := True\<rparr>), p))
      else if t_kind t = TOK_AMP then
        (let (t, p) = p_advance (p_skip p)
         in Some (mk_param s (t_sval t) None (no_param_flags\<lparr>p_block_param := True\<rparr>), p))
      else do {
        ((dflt, keyword), p) \<leftarrow> param_default K allow_default (p_skip p);
        Some (mk_param s (t_sval t) dflt (no_param_flags\<lparr>p_keyword_param := keyword\<rparr>), p)
      })"

definition block_params :: "knot \<Rightarrow> node_list parse" where
  "block_params K p =
     (let (t, p) = p_peek p in
      if t_kind t = TOK_PIPE then do {
        let saved = ps_stop_at_pipe p;
        (params, p) \<leftarrow> parse_params K ((p_skip p)\<lparr>ps_stop_at_pipe := True\<rparr>);
        let p = mark_params_locals params p;
        Some (params, expect TOK_PIPE (expected ''|'' @ '' to close block params'')
                        (p\<lparr>ps_stop_at_pipe := saved\<rparr>))
      }
      else Some ([], p))"

definition parse_block :: "knot \<Rightarrow> node option parse" where
  "parse_block K p = do {
     let (t, p) = p_peek p;
     let brace = (t_kind t = TOK_LBRACE);
     let s = tok_span t;
     p \<leftarrow> skip_terminators (p_skip p);
     (params, p) \<leftarrow> block_params K p;
     p \<leftarrow> skip_terminators p;
     let saved = ps_allow_commas p;
     (body, p) \<leftarrow> k_body K brace (p\<lparr>ps_allow_commas := True\<rparr>);
     ((body, ok), p) \<leftarrow> rescued_body K s body (p\<lparr>ps_allow_commas := saved\<rparr>);
     if \<not> ok then Some (None, p)
     else Some (Some (mk_node s (NBlock params body)), close_block brace p)
   }"

definition lambda_params :: "knot \<Rightarrow> node_list parse" where
  "lambda_params K p =
     (let (b, p) = p_match TOK_LPAREN p in
      if b then do {
        (params, p) \<leftarrow> parse_params K p;
        Some (params, expect TOK_RPAREN (expected '')'') p)
      }
      else
        (let (t, p) = p_peek p in
         if t_kind t \<in> set [TOK_IDENT, TOK_STAR, TOK_AMP, TOK_STAR2, TOK_IVAR]
         then parse_params K p else Some ([], p)))"

definition parse_lambda_literal :: "knot \<Rightarrow> span \<Rightarrow> node option parse" where
  "parse_lambda_literal K s p = do {
     (params, p) \<leftarrow> lambda_params K p;
     let (t, p) = p_peek p;
     let brace = (t_kind t = TOK_LBRACE);
     if \<not> brace \<and> t_kind t \<noteq> TOK_DO then
       Some (None, error_at (expected ''{'' @ '' or '' @ [CHR 0x27] @ ''do'' @ [CHR 0x27] @
               '' after lambda parameters'') t p)
     else do {
       p \<leftarrow> skip_terminators (p_skip p);
       (body, p) \<leftarrow> k_body K brace p;
       ((body, ok), p) \<leftarrow> rescued_body K s body p;
       if \<not> ok then Some (None, p)
       else Some (Some (mk_call s None ''lambda'' [] (Some (mk_node s (NBlock params body)))),
                  close_block brace p)
     }
   }"

subsection \<open>String literals\<close>

definition rope_join :: "rope option \<Rightarrow> rope \<Rightarrow> rope option" where
  "rope_join r x = (case r of None \<Rightarrow> Some x | Some _ \<Rightarrow> Some (RopeCat r (Some x)))"

definition tok_bytes :: "token \<Rightarrow> string" where
  "tok_bytes t = (case t_sval t of Some v \<Rightarrow> take (t_slen t) v | None \<Rightarrow> [])"

text \<open>The segments up to the end of the literal: the rope and the flags of a regexp.\<close>

partial_function (option) interp_segments ::
  "knot \<Rightarrow> bool \<Rightarrow> rope option \<Rightarrow> i64 \<Rightarrow> (rope option \<times> i64) parse" where
  [code]: "interp_segments K is_regex rope flags p =
     (let (seg, p) = p_peek p in
      if t_kind seg = TOK_INTERP_END \<or> t_kind seg = TOK_EOF then
        Some ((rope, if is_regex \<and> t_ival seg AND 0x100 \<noteq> 0
                     then t_ival seg AND NOT 0x100 else flags), p_skip p)
      else if t_kind seg = TOK_INTERP_LIT then
        interp_segments K is_regex (rope_join rope (RopeLit (tok_bytes seg))) flags (p_skip p)
      else if t_kind seg = TOK_INTERP_EXPR_BEG then
        (let (b, p) = p_match TOK_INTERP_EXPR_END (p_skip p) in
         if b then interp_segments K is_regex rope flags p
         else do {
           (x, p) \<leftarrow> k_expr K 0 p;
           interp_segments K is_regex (rope_join rope (RopeExpr x)) flags
             (expect TOK_INTERP_EXPR_END (expected ''}'' @ '' to close interpolation'') p)
         })
      else Some ((rope, flags),
             p_skip (error_at ''unexpected token inside string interpolation'' seg p)))"

text \<open>Adjacent literals are joined, but not to a backtick command.\<close>

partial_function (option) interp_strings ::
  "knot \<Rightarrow> bool \<Rightarrow> bool \<Rightarrow> rope option \<Rightarrow> i64 \<Rightarrow> (rope option \<times> i64) parse" where
  [code]: "interp_strings K is_backtick is_regex rope flags p = do {
     ((rope, flags), p) \<leftarrow> interp_segments K is_regex rope flags p;
     if is_backtick then Some ((rope, flags), p)
     else
       (let (t, p) = p_peek p in
        if t_kind t = TOK_INTERP_BEG \<and> t_ival t \<noteq> 1
        then interp_strings K is_backtick is_regex rope flags (p_skip p)
        else if t_kind t = TOK_STRING \<and> t_ival t \<noteq> 1
        then Some ((rope_join rope (RopeLit (tok_bytes t)), flags), p_skip p)
        else Some ((rope, flags), p))
   }"

definition rope_node :: "span \<Rightarrow> rope option \<Rightarrow> node" where
  "rope_node s rope =
     (let rope = (case rope of None \<Rightarrow> Some (RopeLit []) | Some _ \<Rightarrow> rope) in
      case rope_flatten rope of
        Some v \<Rightarrow> Node s (rope_byte_len rope) (NSval K_STRING v)
      | None \<Rightarrow> mk_node s (NRope rope))"

definition parse_interp :: "knot \<Rightarrow> token \<Rightarrow> span \<Rightarrow> node option parse" where
  "parse_interp K t s p = do {
     ((rope, flags), p) \<leftarrow> interp_strings K (t_ival t = 1) (t_ival t = 3) None 0 (p_skip p);
     let n = rope_node s rope;
     Some (Some
       (if t_ival t = 1 then mk_call s None ''`'' [Some n] None
        else if t_ival t = 2 then mk_call s (Some n) ''to_sym'' [] None
        else if t_ival t = 3 then
          mk_call s (Some (mk_sval s K_CONST ''Regexp'')) ''new'' [Some n, Some (mk_int s flags)] None
        else n), p)
   }"

partial_function (option) adjacent_strings :: "string \<Rightarrow> nat \<Rightarrow> (string \<times> nat) parse" where
  [code]: "adjacent_strings v n p =
     (let (t, p) = p_peek p in
      if t_kind t = TOK_STRING \<and> t_ival t \<noteq> 1
      then adjacent_strings (take n v @ tok_bytes t) (n + t_slen t) (p_skip p)
      else Some ((v, n), p))"

definition parse_string :: "token \<Rightarrow> span \<Rightarrow> node option parse" where
  "parse_string t s p = do {
     v \<leftarrow> t_sval t;
     let p = p_skip p;
     if t_ival t = 1 then
       Some (Some (mk_call s None ''`'' [Some (Node s (t_slen t) (NSval K_STRING v))] None), p)
     else do {
       ((v, n), p) \<leftarrow> adjacent_strings v (t_slen t) p;
       Some (Some (Node s n (NSval K_STRING v)), p)
     }
   }"

text \<open>A double that is not zero: \<open>t.fval != 0.0\<close>.\<close>

definition fval_nonzero :: "u64 \<Rightarrow> bool" where
  "fval_nonzero w \<longleftrightarrow> w AND 0x7FFFFFFFFFFFFFFF \<noteq> 0"

definition number_node :: "token \<Rightarrow> span \<Rightarrow> node" where
  "number_node t s =
     (if fval_nonzero (t_fval t) then mk_node s (NFloat (t_fval t)) else mk_int s (t_ival t))"

subsection \<open>Names\<close>

text \<open>A path of constants \<open>A::B::C\<close>.\<close>

partial_function (option) const_path :: "string \<Rightarrow> string parse" where
  [code]: "const_path name p =
     (let (t, p) = p_peek p in
      if t_kind t \<noteq> TOK_COLON2 then Some (name, p)
      else
        (let (part, copy) = p_advance (p_skip p) in
         if t_kind part \<noteq> TOK_CONST \<or> fst (const_path_segment_is_call part copy)
         then Some (name, p)
         else do {
           v \<leftarrow> t_sval part;
           const_path (name @ ''::'' @ cstr v) (p_skip (p_skip p))
         }))"

definition command_call :: "knot \<Rightarrow> span \<Rightarrow> string \<Rightarrow> node option parse" where
  "command_call K s name p = do {
     (args, p) \<leftarrow> parse_command_args K p;
     (blk, p) \<leftarrow> opt_block K (ps_command_depth p \<le> 1) p;
     Some (Some (mk_call s None name args blk), p)
   }"

definition paren_call :: "knot \<Rightarrow> span \<Rightarrow> string \<Rightarrow> node option parse" where
  "paren_call K s name p = do {
     (args, p) \<leftarrow> paren_args K (p_skip p);
     (blk, p) \<leftarrow> opt_block K True p;
     Some (Some (mk_call s None name args blk), p)
   }"

definition parse_const :: "knot \<Rightarrow> token \<Rightarrow> span \<Rightarrow> node option parse" where
  "parse_const K t s p = do {
     v \<leftarrow> t_sval t;
     (path, p) \<leftarrow> const_path (cstr v) (p_skip p);
     let (nxt, p) = p_peek p;
     if path \<noteq> cstr v then Some (Some (mk_sval s K_CONST path), p)
     else if t_kind nxt = TOK_LPAREN \<and> token_adjacent t nxt then paren_call K s v p
     else if kernel_const_call_name v \<and>
             starts_arg (TOK_REGEXP # TOK_COLON2 # number_kinds) (spaced_bracket t nxt) t nxt
               (peek_next_token p)
       then command_call K s v p
     else Some (Some (mk_sval s K_CONST v), p)
   }"

definition ends_in_mark :: "string \<Rightarrow> bool" where
  "ends_in_mark v \<longleftrightarrow> cstr v \<noteq> [] \<and> (last (cstr v) = CHR ''?'' \<or> last (cstr v) = CHR ''!'')"

definition parse_ident :: "knot \<Rightarrow> token \<Rightarrow> span \<Rightarrow> node option parse" where
  "parse_ident K t s p = do {
     v \<leftarrow> t_sval t;
     let (nxt, p) = p_peek (p_skip p);
     if t_kind nxt = TOK_LPAREN \<and> token_adjacent t nxt then paren_call K s v p
     else if (t_kind nxt = TOK_LBRACE \<or> t_kind nxt = TOK_DO \<and> ps_command_depth p = 0) \<and>
             t_line nxt = t_line t then do {
       (blk, p) \<leftarrow> k_block K p;
       Some (Some (mk_call s None v [] blk), p)
     }
     else if starts_arg (TOK_REGEXP # TOK_COLON2 # TOK_DEFINED # number_kinds)
               (spaced_bracket t nxt) t nxt (peek_next_token p)
       then command_call K s v p
     else if ends_in_mark v then Some (Some (mk_call s None v [] None), p)
     else Some (Some (mk_sval s K_LVAR v), p)
   }"

definition yield_stops :: "token_kind \<Rightarrow> bool" where
  "yield_stops k \<longleftrightarrow>
     k \<in> set [TOK_NEWLINE, TOK_SEMICOLON, TOK_EOF, TOK_END, TOK_IF, TOK_UNLESS, TOK_WHILE, TOK_UNTIL,
       TOK_RESCUE, TOK_RPAREN, TOK_RBRACKET, TOK_RBRACE, TOK_COMMA, TOK_DOT, TOK_COLON2]"

definition parse_yield :: "knot \<Rightarrow> token \<Rightarrow> span \<Rightarrow> node option parse" where
  "parse_yield K t s p = do {
     let (nxt, p) = p_peek (p_skip p);
     (args, p) \<leftarrow>
       (if t_kind nxt = TOK_LPAREN \<and> token_adjacent t nxt then paren_args K (p_skip p)
        else if \<not> yield_stops (t_kind nxt) then parse_command_args K p
        else Some ([], p));
     Some (Some (mk_call s None ''yield'' args None), p)
   }"

definition parse_super :: "knot \<Rightarrow> token \<Rightarrow> span \<Rightarrow> node option parse" where
  "parse_super K t s p = do {
     let (nxt, p) = p_peek (p_skip p);
     if t_kind nxt = TOK_LPAREN \<and> token_adjacent t nxt then do {
       (args, p) \<leftarrow> paren_args K (p_skip p);
       Some (Some (mk_node s (NSuper args False)), p)
     }
     else if starts_arg [TOK_REGEXP] (spaced_bracket t nxt) t nxt (peek_next_token p) then do {
       (args, p) \<leftarrow> parse_command_args K p;
       Some (Some (mk_node s (NSuper args False)), p)
     }
     else Some (Some (mk_node s (NSuper [] True)), p)
   }"

subsection \<open>Brackets\<close>

partial_function (option) array_elems :: "knot \<Rightarrow> node_list \<Rightarrow> node_list parse" where
  [code]: "array_elems K elems p =
     (let (t, p) = p_peek p in
      if t_kind t = TOK_RBRACKET \<or> t_kind t = TOK_EOF then Some (elems, p)
      else do {
        (x, p) \<leftarrow> k_expr K 0 p;
        let elems = append_some elems x;
        p \<leftarrow> skip_terminators p;
        let (b, p) = p_match TOK_COMMA p;
        if b then do { p \<leftarrow> skip_terminators p; array_elems K elems p } else Some (elems, p)
      })"

definition parse_array :: "knot \<Rightarrow> span \<Rightarrow> node option parse" where
  "parse_array K s p = do {
     let p = p_skip p;
     let saved = ps_allow_commas p;
     p \<leftarrow> skip_terminators (commas_off p);
     (elems, p) \<leftarrow> array_elems K [] p;
     Some (Some (mk_node s (NArray elems)),
           expect TOK_RBRACKET (expected '']'') (p\<lparr>ps_allow_commas := saved\<rparr>))
   }"

text \<open>One entry of a hash; \<open>None\<close> where the code breaks out of the loop.\<close>

definition hash_pair :: "knot \<Rightarrow> node option parse" where
  "hash_pair K p =
     (let (t, p) = p_peek p in
      if t_kind t = TOK_STAR2 then do {
        (x, p) \<leftarrow> k_expr K 0 (p_skip p);
        Some (if x = None then None else Some (mk_node (tok_span t) (NPair None x)), p)
      }
      else do {
        ((key, used_label), p) \<leftarrow> parse_hash_key K p;
        case key of None \<Rightarrow> Some (None, p)
        | Some key \<Rightarrow> do {
            (val, p) \<leftarrow> k_expr K 0
              (if used_label then p
               else expect TOK_ARROW (expected ''=>'' @ '' in hash literal'') p);
            Some (if val = None then None else Some (mk_pair key val), p)
          }
      })"

partial_function (option) hash_pairs :: "knot \<Rightarrow> node_list \<Rightarrow> node_list parse" where
  [code]: "hash_pairs K pairs p =
     (let (t, p) = p_peek p in
      if t_kind t = TOK_RBRACE \<or> t_kind t = TOK_EOF then Some (pairs, p)
      else do {
        (pair, p) \<leftarrow> hash_pair K p;
        if pair = None then Some (pairs, p)
        else do {
          p \<leftarrow> skip_terminators p;
          let (b, p) = p_match TOK_COMMA p;
          if b then do { p \<leftarrow> skip_terminators p; hash_pairs K (nodelist_append pairs pair) p }
          else Some (nodelist_append pairs pair, p)
        }
      })"

definition parse_hash :: "knot \<Rightarrow> span \<Rightarrow> node option parse" where
  "parse_hash K s p = do {
     let p = p_skip p;
     let saved = ps_allow_commas p;
     p \<leftarrow> skip_terminators (commas_off p);
     (pairs, p) \<leftarrow> hash_pairs K [] p;
     Some (Some (mk_node s (NHash pairs False)),
           expect TOK_RBRACE (expected ''}'') (p\<lparr>ps_allow_commas := saved\<rparr>))
   }"

definition unwrap_single :: "node \<Rightarrow> node option" where
  "unwrap_single n = (case n_data n of NBody K_BODY [x] \<Rightarrow> x | _ \<Rightarrow> Some n)"

definition parse_paren :: "knot \<Rightarrow> node option parse" where
  "parse_paren K p = do {
     p \<leftarrow> skip_terminators (p_skip p);
     (inner, p) \<leftarrow> parse_body_until_rparen K p;
     (inner, p) \<leftarrow> attach_pending_do_block K (unwrap_single inner) 0 p;
     Some (inner, expect TOK_RPAREN (expected '')'') p)
   }"

subsection \<open>The switch\<close>

definition parse_defined :: "knot \<Rightarrow> span \<Rightarrow> node option parse" where
  "parse_defined K s p =
     (let (b, p) = p_match TOK_LPAREN (p_skip p) in
      if b then do {
        (x, p) \<leftarrow> k_expr K 0 p;
        Some (Some (mk_node s (NDefined x)), expect TOK_RPAREN (expected '')'') p)
      }
      else do {
        (x, p) \<leftarrow> k_expr K 30 p;
        Some (Some (mk_node s (NDefined x)), p)
      })"

definition parse_jump :: "knot \<Rightarrow> jump_kind \<Rightarrow> span \<Rightarrow> node option parse" where
  "parse_jump K k s p =
     (let (t, p) = p_peek (p_skip p) in
      if jump_value_terminator (t_kind t) then Some (Some (mk_node s (NJump k None)), p)
      else do {
        (x, p) \<leftarrow> k_expr K 0 p;
        (x, p) \<leftarrow> (if k = K_RETURN then parse_jump_value K x s p else Some (x, p));
        Some (Some (mk_node s (NJump k x)), p)
      })"

definition parse_top_const :: "span \<Rightarrow> node option parse" where
  "parse_top_const s p =
     (let (name, p) = p_advance (p_skip p) in
      if t_kind name \<noteq> TOK_CONST
      then Some (None, error_at (''expected constant name after '' @ [CHR 0x27] @ ''::'' @ [CHR 0x27]) name p)
      else do { v \<leftarrow> t_sval name; Some (Some (mk_sval s K_CONST v), p) })"

definition parse_beginless :: "knot \<Rightarrow> token \<Rightarrow> span \<Rightarrow> node option parse" where
  "parse_beginless K t s p = do {
     let (omitted, p) = range_rhs_omitted (p_skip p);
     (e, p) \<leftarrow> (if omitted then Some (None, p) else k_expr K (snd (infix_bp (t_kind t))) p);
     Some (Some (mk_node s (NRange None e (t_kind t = TOK_DOT3))), p)
   }"

definition parse_unop :: "knot \<Rightarrow> token \<Rightarrow> span \<Rightarrow> node option parse" where
  "parse_unop K t s p = do {
     (x, p) \<leftarrow> k_expr K (prefix_bp (t_kind t)) (p_skip p);
     Some (Some (mk_node s (NUnop (token_kind_name (t_kind t)) x)), p)
   }"

text \<open>The kinds whose node holds the token's string.\<close>

definition sval_kinds :: "(token_kind \<times> sval_kind) list" where
  "sval_kinds =
     [(TOK_SYMBOL, K_SYMBOL), (TOK_IVAR, K_IVAR), (TOK_CVAR, K_CVAR), (TOK_GVAR, K_GVAR)]"

definition plain_kinds :: "(token_kind \<times> plain_kind) list" where
  "plain_kinds =
     [(TOK_NIL, K_NIL), (TOK_TRUE, K_TRUE), (TOK_FALSE, K_FALSE), (TOK_SELF, K_SELF),
      (TOK_RETRY, K_RETRY)]"

definition statement_kinds :: "token_kind list" where
  "statement_kinds =
     [TOK_IF, TOK_UNLESS, TOK_WHILE, TOK_UNTIL, TOK_BEGIN, TOK_CASE, TOK_CLASS]"

definition primary_switch :: "knot \<Rightarrow> token \<Rightarrow> span \<Rightarrow> node option parse" where
  "primary_switch K t s p =
     (let k = t_kind t; p' = p_skip p in
      if k = TOK_INT then Some (Some (mk_int s (t_ival t)), p')
      else if k = TOK_FLOAT then Some (Some (mk_node s (NFloat (t_fval t))), p')
      else if k = TOK_RATIONAL then
        Some (Some (mk_call s None ''Rational'' [Some (number_node t s), Some (mk_int s 1)] None), p')
      else if k = TOK_IMAGINARY then
        Some (Some (mk_call s None ''Complex'' [Some (mk_int s 0), Some (number_node t s)] None), p')
      else if k = TOK_STRING then parse_string t s p
      else if k = TOK_REGEXP then
        do { v \<leftarrow> t_sval t; Some (Some (mk_node s (NRegexp v (ucast (t_ival t)))), p') }
      else if k = TOK_WORDS then Some (Some (parse_percent_list s t K_STRING), p')
      else if k = TOK_SYMBOLS then Some (Some (parse_percent_list s t K_SYMBOL), p')
      else if k = TOK_INTERP_BEG then parse_interp K t s p
      else if map_of sval_kinds k \<noteq> None then
        do { v \<leftarrow> t_sval t; Some (Some (mk_sval s (the (map_of sval_kinds k)) v), p') }
      else if map_of plain_kinds k \<noteq> None then
        Some (Some (mk_node s (NPlain (the (map_of plain_kinds k)))), p')
      else if k = TOK_COLON2 then parse_top_const s p
      else if k = TOK_DOT2 \<or> k = TOK_DOT3 then parse_beginless K t s p
      else if k = TOK_CONST then parse_const K t s p
      else if k = TOK_IDENT then parse_ident K t s p
      else if k = TOK_YIELD then parse_yield K t s p
      else if k = TOK_LAMBDA then parse_lambda_literal K s p'
      else if k = TOK_DEFINED then parse_defined K s p
      else if k = TOK_LPAREN then parse_paren K p
      else if k = TOK_LBRACKET then parse_array K s p
      else if k = TOK_LBRACE then parse_hash K s p
      else if k = TOK_RETURN then parse_jump K K_RETURN s p
      else if k = TOK_BREAK then parse_jump K K_BREAK s p
      else if k = TOK_NEXT then parse_jump K K_NEXT s p
      else if k \<in> set statement_kinds then k_stmt K p
      else if k = TOK_SUPER then parse_super K t s p
      else Some (None, p_skip (error_at ''unexpected token in expression'' t p)))"

definition parse_primary :: "knot \<Rightarrow> node option parse" where
  "parse_primary K p =
     (let (t, p) = p_peek p in
      if prefix_bp (t_kind t) \<noteq> 0 then parse_unop K t (tok_span t) p
      else primary_switch K t (tok_span t) p)"

definition parse_expr :: "knot \<Rightarrow> nat \<Rightarrow> node option parse" where
  "parse_expr K min_bp p = do {
     (left, p) \<leftarrow> parse_primary K p;
     case left of None \<Rightarrow> Some (None, p)
     | Some n \<Rightarrow> do {
         (n, p) \<leftarrow> parse_expr_continue K n min_bp p;
         Some (Some n, p)
       }
   }"

end
