(* ===== verification/ParserStmt.thy ===== *)
theory ParserStmt
  imports ParserPrimary
begin

section \<open>The parser: patterns and statements (src/parser_stmt.c)\<close>

subsection \<open>Patterns\<close>

record array_pattern =
  ap_elems :: node_list
  ap_rest :: "string option option"
  ap_pre_rest :: "string option option"

text \<open>\<open>ap_rest\<close> is \<open>has_rest\<close> with \<open>rest_name\<close>, \<open>ap_pre_rest\<close> the same for the leading one. The
  name after a star is optional.\<close>

definition rest_name :: "parser \<Rightarrow> string option \<times> parser" where
  "rest_name p =
     (let (t, p) = p_peek p in
      if t_kind t = TOK_IDENT then
        (let (t, p) = p_advance p in (t_sval t, mark_local (t_sval t) p))
      else (None, p))"

partial_function (option) array_pattern_loop ::
  "knot \<Rightarrow> bool \<Rightarrow> array_pattern \<Rightarrow> array_pattern parse" where
  [code]: "array_pattern_loop K first a p =
     (let (t, p) = p_peek p in
      if t_kind t = TOK_RBRACKET \<or> t_kind t = TOK_EOF then Some (a, p)
      else do {
        p \<leftarrow> skip_terminators p;
        let (t, p) = p_peek p;
        if t_kind t = TOK_RBRACKET then Some (a, p)
        else if t_kind t = TOK_STAR then
          (let (name, p) = rest_name (p_skip p);
               a = (if first then a\<lparr>ap_pre_rest := Some name\<rparr> else a\<lparr>ap_rest := Some name\<rparr>);
               (b, p) = p_match TOK_COMMA p
           in if b then array_pattern_loop K False a p else Some (a, p))
        else do {
          (x, p) \<leftarrow> k_pattern K p;
          let a = a\<lparr>ap_elems := append_some (ap_elems a) x\<rparr>;
          let (b, p) = p_match TOK_COMMA p;
          if b then array_pattern_loop K False a p else Some (a, p)
        }
      })"

text \<open>\<open>skip_terminators\<close> and the closing token, which may be missing.\<close>

definition close_pattern :: "token_kind \<Rightarrow> parser \<Rightarrow> parser option" where
  "close_pattern k p = do { p \<leftarrow> skip_terminators p; Some (snd (p_match k p)) }"

definition name_of :: "string option option \<Rightarrow> string option" where
  "name_of r = (case r of Some n \<Rightarrow> n | None \<Rightarrow> None)"

definition parse_array_pattern :: "knot \<Rightarrow> span \<Rightarrow> node option parse" where
  "parse_array_pattern K s p = do {
     (a, p) \<leftarrow> array_pattern_loop K True \<lparr>ap_elems = [], ap_rest = None, ap_pre_rest = None\<rparr> p;
     p \<leftarrow> close_pattern TOK_RBRACKET p;
     Some (Some (mk_node s (NPatternCollection K_PATTERN_ARRAY (ap_elems a) (ap_rest a \<noteq> None)
             (ap_pre_rest a \<noteq> None) (name_of (ap_rest a)) (name_of (ap_pre_rest a)))), p)
   }"

text \<open>The name of a key: a token that is no name stands for \<open>?\<close>.\<close>

definition pattern_key :: "token \<Rightarrow> string option" where
  "pattern_key t =
     (if t_kind t = TOK_IDENT \<or> t_kind t = TOK_CONST \<or> t_kind t = TOK_SYMBOL then t_sval t
      else Some ''?'')"

text \<open>After \<open>**\<close> the name of an earlier one is kept when no name follows.\<close>

definition double_rest_name :: "string option option \<Rightarrow> parser \<Rightarrow> string option \<times> parser" where
  "double_rest_name old p =
     (let (t, p) = p_peek p in
      if t_kind t = TOK_NIL then (None, p_skip p)
      else if t_kind t = TOK_IDENT then rest_name p
      else (name_of old, p))"

partial_function (option) hash_pattern_loop ::
  "knot \<Rightarrow> node_list \<Rightarrow> string option option \<Rightarrow> (node_list \<times> string option option) parse" where
  [code]: "hash_pattern_loop K elems rest p =
     (let (t, p) = p_peek p in
      if t_kind t = TOK_RBRACE \<or> t_kind t = TOK_EOF then Some ((elems, rest), p)
      else do {
        p \<leftarrow> skip_terminators p;
        let (t, p) = p_peek p;
        if t_kind t = TOK_RBRACE then Some ((elems, rest), p)
        else if t_kind t = TOK_STAR2 then
          (let (name, p) = double_rest_name rest (p_skip p); (b, p) = p_match TOK_COMMA p
           in if b then hash_pattern_loop K elems (Some name) p else Some ((elems, Some name), p))
        else do {
          key \<leftarrow> pattern_key t;
          let elems = nodelist_append elems (Some (mk_sval (tok_span t) K_SYMBOL key));
          let (b, p) = p_match TOK_COLON (p_skip p);
          let (n, p) = p_peek p;
          (val, p) \<leftarrow>
            (if t_kind n \<notin> set [TOK_COMMA, TOK_RBRACE, TOK_NEWLINE] then k_pattern K p
             else Some (Some (mk_node (tok_span t) (NPatternCapture None (Some key))),
                        mark_local (Some key) p));
          let (b, p) = p_match TOK_COMMA p;
          if b then hash_pattern_loop K (nodelist_append elems val) rest p
          else Some ((nodelist_append elems val, rest), p)
        }
      })"

definition parse_hash_pattern :: "knot \<Rightarrow> span \<Rightarrow> node option parse" where
  "parse_hash_pattern K s p = do {
     ((elems, rest), p) \<leftarrow> hash_pattern_loop K [] None p;
     p \<leftarrow> close_pattern TOK_RBRACE p;
     Some (Some (mk_node s (NPatternCollection K_PATTERN_HASH elems (rest \<noteq> None) False
             (name_of rest) None)), p)
   }"

text \<open>A number after a minus sign; any other token leaves the pattern null.\<close>

definition negative_pattern :: "span \<Rightarrow> node option parse" where
  "negative_pattern s p =
     (let (t, p) = p_peek p in
      Some (if t_kind t = TOK_INT then (Some (mk_int s (- t_ival t)), p_skip p)
            else if t_kind t = TOK_FLOAT
              then (Some (mk_node s (NFloat (t_fval t XOR 0x8000000000000000))), p_skip p)
            else (None, p)))"

definition capture_pattern :: "token \<Rightarrow> span \<Rightarrow> node option parse" where
  "capture_pattern t s p = do {
     v \<leftarrow> t_sval t;
     Some (if streq v ''_'' then (Some (mk_node s (NPatternCapture None None)), p)
           else (Some (mk_node s (NPatternCapture None (Some v))), mark_local (Some v) p))
   }"

text \<open>The pattern before \<open>=>\<close> and \<open>|\<close>. The name of a pin is null when the token after \<open>^\<close> has no
  string.\<close>

definition pattern_primary :: "knot \<Rightarrow> token \<Rightarrow> span \<Rightarrow> node option parse" where
  "pattern_primary K t s p =
     (let k = t_kind t; p' = p_skip p in
      if k = TOK_CARET then
        (let (vt, p) = p_advance p' in Some (Some (mk_node s (NPatternPin (t_sval vt))), p))
      else if k = TOK_LBRACKET then parse_array_pattern K s p'
      else if k = TOK_LBRACE then parse_hash_pattern K s p'
      else if k = TOK_NIL then Some (Some (mk_node s (NPlain K_NIL)), p')
      else if k = TOK_TRUE then Some (Some (mk_node s (NPlain K_TRUE)), p')
      else if k = TOK_FALSE then Some (Some (mk_node s (NPlain K_FALSE)), p')
      else if k = TOK_INT then Some (Some (mk_int s (t_ival t)), p')
      else if k = TOK_MINUS then negative_pattern s p'
      else if k = TOK_FLOAT then Some (Some (mk_node s (NFloat (t_fval t))), p')
      else if k = TOK_SYMBOL then do { v \<leftarrow> t_sval t; Some (Some (mk_sval s K_SYMBOL v), p') }
      else if k = TOK_IDENT then capture_pattern t s p'
      else k_expr K 0 p)"

definition pattern_binding :: "span \<Rightarrow> node option \<Rightarrow> parser \<Rightarrow> node option \<times> parser" where
  "pattern_binding s pat p =
     (let (t, p) = p_peek p in
      if pat \<noteq> None \<and> t_kind t = TOK_ARROW then
        (let (vt, p) = p_advance (p_skip p)
         in (Some (mk_node s (NPatternCapture pat (t_sval vt))), mark_local (t_sval vt) p))
      else (pat, p))"

definition parse_pattern :: "knot \<Rightarrow> node option parse" where
  "parse_pattern K p = do {
     p \<leftarrow> skip_terminators p;
     let (t, p) = p_peek p;
     let s = tok_span t;
     (pat, p) \<leftarrow> pattern_primary K t s p;
     let (pat, p) = pattern_binding s pat p;
     let (t, p) = p_peek p;
     if pat \<noteq> None \<and> t_kind t = TOK_PIPE then do {
       (right, p) \<leftarrow> k_pattern K (p_skip p);
       Some (Some (mk_node s (NPatternOr pat right)), p)
     }
     else Some (pat, p)
   }"

subsection \<open>Names\<close>

text \<open>\<open>None\<close> is the null name, after an error.\<close>

partial_function (option) const_path_parts :: "string \<Rightarrow> string option parse" where
  [code]: "const_path_parts buf p =
     (let (b, p) = p_match TOK_COLON2 p in
      if \<not> b then Some (Some buf, p)
      else
        (let (part, p) = p_advance p in
         if t_kind part \<noteq> TOK_CONST
         then Some (None, error_at (''expected constant name after '' @ [CHR 0x27] @ ''::'' @ [CHR 0x27]) part p)
         else do { v \<leftarrow> t_sval part; const_path_parts (buf @ ''::'' @ cstr v) p }))"

definition parse_const_path_name :: "string option parse" where
  "parse_const_path_name p =
     (let (name, p) = p_advance (snd (p_match TOK_COLON2 p)) in
      if t_kind name \<noteq> TOK_CONST then Some (None, error_at ''expected constant name'' name p)
      else do { v \<leftarrow> t_sval name; const_path_parts (cstr v) p })"

fun join_const_parts :: "string list \<Rightarrow> string" where
  "join_const_parts [] = []"
| "join_const_parts [x] = cstr x"
| "join_const_parts (x # xs) = cstr x @ ''::'' @ join_const_parts xs"

text \<open>The operators and keywords that are method names, with their names.\<close>

definition method_operators :: "(token_kind \<times> string) list" where
  "method_operators =
     [(TOK_PLUS, ''+''), (TOK_MINUS, ''-''), (TOK_STAR, ''*''), (TOK_STAR2, ''**''),
      (TOK_SLASH, ''/''), (TOK_PERCENT, ''%''), (TOK_EQ2, ''==''), (TOK_EQ3, ''===''),
      (TOK_NEQ, ''!=''), (TOK_LT, ''<''), (TOK_LEQ, ''<=''), (TOK_GT, ''>''), (TOK_GEQ, ''>=''),
      (TOK_SPACESHIP, ''<=>''), (TOK_LSHIFT, ''<<''), (TOK_RSHIFT, ''>>''), (TOK_AMP, ''&''),
      (TOK_PIPE, ''|''), (TOK_CARET, ''^''), (TOK_TILDE, ''~''), (TOK_MATCH, ''=~''),
      (TOK_NMATCH, ''!~''), (TOK_BANG, ''!'')]"

definition method_keywords :: "(token_kind \<times> string) list" where
  "method_keywords =
     [(TOK_ALIAS, ''alias''), (TOK_BEGIN, ''begin''), (TOK_CLASS, ''class''), (TOK_DEF, ''def''),
      (TOK_DO, ''do''), (TOK_ELSE, ''else''), (TOK_END, ''end''), (TOK_FOR, ''for''),
      (TOK_IF, ''if''), (TOK_IN, ''in''), (TOK_MODULE, ''module''), (TOK_NEXT, ''next''),
      (TOK_NIL, ''nil''), (TOK_NOT, ''not''), (TOK_OR, ''or''), (TOK_RESCUE, ''rescue''),
      (TOK_RETURN, ''return''), (TOK_SELF, ''self''), (TOK_SUPER, ''super''), (TOK_THEN, ''then''),
      (TOK_TRUE, ''true''), (TOK_FALSE, ''false''), (TOK_UNLESS, ''unless''),
      (TOK_UNTIL, ''until''), (TOK_WHEN, ''when''), (TOK_WHILE, ''while''), (TOK_YIELD, ''yield'')]"

definition method_name_from_token :: "token \<Rightarrow> parser \<Rightarrow> string option \<times> parser" where
  "method_name_from_token t p =
     (if t_kind t = TOK_IDENT \<or> t_kind t = TOK_CONST \<or> t_kind t = TOK_SYMBOL then (t_sval t, p)
      else if t_kind t = TOK_LBRACKET then
        (let (b, p) = p_match TOK_RBRACKET p in
         if b then (let (b, p) = p_match TOK_EQ p in (Some (if b then ''[]='' else ''[]''), p))
         else (None, error_at (expected '']'' @ '' after '' @ [CHR 0x27] @ ''['' @ [CHR 0x27] @
                 '' in method name'') t p))
      else (map_of (method_operators @ method_keywords) (t_kind t), p))"

definition is_name_token :: "token \<Rightarrow> bool" where
  "is_name_token t \<longleftrightarrow> t_kind t = TOK_IDENT \<or> t_kind t = TOK_CONST"

subsection \<open>Rescue clauses\<close>

partial_function (option) rescue_classes :: "knot \<Rightarrow> node_list \<Rightarrow> node_list parse" where
  [code]: "rescue_classes K xs p = do {
     (x, p) \<leftarrow> k_expr K 0 p;
     let (b, p) = p_match TOK_COMMA p;
     if b then rescue_classes K (nodelist_append xs x) p else Some (nodelist_append xs x, p)
   }"

text \<open>The variable after \<open>=>\<close>; the flag is false after an error.\<close>

definition rescue_var :: "(string option \<times> bool) parse" where
  "rescue_var p =
     (let (b, p) = p_match TOK_ARROW p in
      if \<not> b then Some ((None, True), p)
      else
        (let (t, p) = p_advance p in
         if t_kind t \<noteq> TOK_IDENT
         then Some ((None, False), error_at (''expected exception variable name after '' @
                [CHR 0x27] @ ''=>'' @ [CHR 0x27]) t p)
         else Some ((t_sval t, True), mark_local (t_sval t) p)))"

text \<open>The rescue clauses; \<open>None\<close> after an error.\<close>

partial_function (option) rescue_clauses ::
  "knot \<Rightarrow> span \<Rightarrow> node_list \<Rightarrow> node_list option parse" where
  [code]: "rescue_clauses K s rescues p =
     (let (b, p) = p_match TOK_RESCUE p in
      if \<not> b then Some (Some rescues, p)
      else do {
        let (t, p) = p_peek p;
        (classes, p) \<leftarrow>
          (if t_kind t \<in> set [TOK_ARROW, TOK_NEWLINE, TOK_SEMICOLON, TOK_END, TOK_ENSURE, TOK_ELSE]
           then Some ([], p) else rescue_classes K [] p);
        ((var, ok), p) \<leftarrow> rescue_var p;
        if \<not> ok then Some (None, p)
        else do {
          p \<leftarrow> skip_terminators p;
          (body, p) \<leftarrow> k_body K False p;
          rescue_clauses K s
            (nodelist_append rescues (Some (mk_node s (NRescue classes var body)))) p
        }
      })"

text \<open>A body after a keyword that may be missing.\<close>

definition opt_clause :: "knot \<Rightarrow> token_kind \<Rightarrow> node option parse" where
  "opt_clause K k p =
     (let (b, p) = p_match k p in
      if b then do { p \<leftarrow> skip_terminators p; k_body K False p } else Some (None, p))"

definition wrap_rescue_ensure :: "knot \<Rightarrow> span \<Rightarrow> node option \<Rightarrow> node option parse" where
  "wrap_rescue_ensure K s body p = do {
     (rescues, p) \<leftarrow> rescue_clauses K s [] p;
     case rescues of None \<Rightarrow> Some (None, p)
     | Some rescues \<Rightarrow> do {
         (e, p) \<leftarrow> opt_clause K TOK_ELSE p;
         (ensure, p) \<leftarrow> opt_clause K TOK_ENSURE p;
         Some (Some (mk_node s (NBegin body rescues e ensure)), p)
       }
   }"

subsection \<open>Targets of assignments\<close>

definition target_list_ends :: "token_kind \<Rightarrow> bool" where
  "target_list_ends k \<longleftrightarrow>
     k \<in> set [TOK_EQ, TOK_NEWLINE, TOK_SEMICOLON, TOK_RPAREN, TOK_EOF, TOK_IN]"

partial_function (option) expr_list_loop :: "knot \<Rightarrow> nat \<Rightarrow> bool \<Rightarrow> node_list \<Rightarrow> node_list parse" where
  [code]: "expr_list_loop K min_bp is_target elems p =
     (let (b, p) = p_match TOK_COMMA p in
      if \<not> b then Some (elems, p)
      else
        (let (t, p) = p_peek p in
         if is_target \<and> target_list_ends (t_kind t) then Some (elems, p)
         else do {
           (x, p) \<leftarrow> (if is_target then k_target K p else k_expr K min_bp p);
           expr_list_loop K min_bp is_target (append_some elems x) p
         }))"

definition parse_expr_list :: "knot \<Rightarrow> node option \<Rightarrow> nat \<Rightarrow> bool \<Rightarrow> node option parse" where
  "parse_expr_list K first min_bp is_target p =
     (case first of None \<Rightarrow> Some (None, p)
      | Some f \<Rightarrow> (let (b, p) = check TOK_COMMA p in
          if \<not> b then Some (Some f, p)
          else do {
            (elems, p) \<leftarrow> expr_list_loop K min_bp is_target [Some f] p;
            Some (Some (mk_node (n_span f) (NArray elems)), p)
          }))"

text \<open>\<open>if (check(p, TOK_COMMA)) x = parse_expr_list(p, x, 7, 1)\<close>\<close>

definition target_list :: "knot \<Rightarrow> node option \<Rightarrow> node option parse" where
  "target_list K x p =
     (let (b, p) = check TOK_COMMA p in if b then parse_expr_list K x 7 True p else Some (x, p))"

definition parse_assignment_target_elem :: "knot \<Rightarrow> node option parse" where
  "parse_assignment_target_elem K p =
     (let (t, p) = p_peek p; s = tok_span t in
      if t_kind t = TOK_LPAREN then do {
        (group, p) \<leftarrow> k_target K (p_skip p);
        (group, p) \<leftarrow> target_list K group p;
        Some (group, expect TOK_RPAREN (expected '')'') p)
      }
      else if t_kind t = TOK_STAR then
        (let (name, p) = p_advance (p_skip p) in
         if t_kind name \<noteq> TOK_IDENT
         then Some (None, error_at (''expected identifier after '' @ [CHR 0x27] @ ''*'' @ [CHR 0x27]) name p)
         else Some (mk_param s (t_sval name) None (no_param_flags\<lparr>p_splat := True\<rparr>), p))
      else k_expr K 7 p)"

end
