(* ===== verification/ParserTop.thy ===== *)
theory ParserTop
  imports ParserStmt
begin

section \<open>The parser: statements and programs (src/parser_stmt.c, src/parser.c)\<close>

text \<open>
  One definition for each statement of \<open>parse_stmt\<close>, then the functions that call each other tied
  together: \<open>knots n\<close> are the functions with recursion of depth \<open>n\<close> at most.
\<close>

subsection \<open>Conditionals and loops\<close>

definition stmt_hook :: "knot \<Rightarrow> hook_kind \<Rightarrow> span \<Rightarrow> node option parse" where
  "stmt_hook K k s p = do {
     p \<leftarrow> skip_terminators (p_skip (p_skip p));
     (body, p) \<leftarrow> k_body K True p;
     Some (Some (mk_node s (NProgHook k body)), expect TOK_RBRACE (expected ''}'') p)
   }"

text \<open>\<open>if (!match(p, TOK_THEN)) skip_terminators(p)\<close> and the body.\<close>

definition then_body :: "knot \<Rightarrow> token_kind \<Rightarrow> node option parse" where
  "then_body K k p = do {
     let (b, p) = p_match k p;
     p \<leftarrow> (if b then Some p else skip_terminators p);
     k_body K False p
   }"

text \<open>The last \<open>elsif\<close> of the chain gets the branch.\<close>

fun set_last_else :: "node \<Rightarrow> node option \<Rightarrow> node" where
  "set_last_else (Node s k (NCond c cond body (Some e))) x =
     Node s k (NCond c cond body (Some (set_last_else e x)))"
| "set_last_else (Node s k (NCond c cond body None)) x = Node s k (NCond c cond body x)"
| "set_last_else n x = n"

definition append_else :: "node option \<Rightarrow> node option \<Rightarrow> node option" where
  "append_else chain x = (case chain of None \<Rightarrow> x | Some n \<Rightarrow> Some (set_last_else n x))"

partial_function (option) elsif_loop :: "knot \<Rightarrow> span \<Rightarrow> node option \<Rightarrow> node option parse" where
  [code]: "elsif_loop K s chain p =
     (let (b, p) = p_match TOK_ELSIF p in
      if \<not> b then Some (chain, p)
      else do {
        (cond, p) \<leftarrow> k_expr K 0 p;
        (body, p) \<leftarrow> then_body K TOK_THEN p;
        elsif_loop K s (append_else chain (Some (mk_node s (NCond K_IF cond body None)))) p
      })"

definition stmt_if :: "knot \<Rightarrow> cond_kind \<Rightarrow> span \<Rightarrow> node option parse" where
  "stmt_if K k s p = do {
     (cond, p) \<leftarrow> k_expr K 0 (p_skip p);
     (body, p) \<leftarrow> then_body K TOK_THEN p;
     (chain, p) \<leftarrow> elsif_loop K s None p;
     let (b, p) = p_match TOK_ELSE p;
     (chain, p) \<leftarrow>
       (if b then do {
          p \<leftarrow> skip_terminators p;
          (e, p) \<leftarrow> k_body K False p;
          Some (append_else chain e, p)
        }
        else Some (chain, p));
     Some (Some (mk_node s (NCond k cond body chain)), expect TOK_END (expected ''end'') p)
   }"

definition stmt_while :: "knot \<Rightarrow> loop_kind \<Rightarrow> span \<Rightarrow> node option parse" where
  "stmt_while K k s p = do {
     (cond, p) \<leftarrow> k_expr K 0 (deeper_command 1 (p_skip p));
     (body, p) \<leftarrow> then_body K TOK_DO (deeper_command (-1) p);
     Some (Some (mk_node s (NLoop k cond body False)), expect TOK_END (expected ''end'') p)
   }"

definition stmt_begin :: "knot \<Rightarrow> span \<Rightarrow> node option parse" where
  "stmt_begin K s p = do {
     p \<leftarrow> skip_terminators (p_skip p);
     (body, p) \<leftarrow> k_body K False p;
     (n, p) \<leftarrow> k_wrap K s body p;
     if n = None then Some (None, p)
     else
       (let (t, p) = p_peek (expect TOK_END (expected ''end'') p) in
        if t_kind t = TOK_WHILE \<or> t_kind t = TOK_UNTIL then do {
          (cond, p) \<leftarrow> k_expr K 0 (p_skip p);
          Some (Some (mk_node s (NLoop (if t_kind t = TOK_WHILE then K_WHILE else K_UNTIL)
                        cond n True)), p)
        }
        else Some (n, p))
   }"

definition stmt_for :: "knot \<Rightarrow> span \<Rightarrow> node option parse" where
  "stmt_for K s p = do {
     (target, p) \<leftarrow> k_target K (p_skip p);
     (target, p) \<leftarrow> target_list K target p;
     let (t, p) = p_peek p;
     if target = None then
       Some (None, error_at (''expected loop variable after '' @ [CHR 0x27] @ ''for'' @ [CHR 0x27]) t p)
     else if t_kind t \<noteq> TOK_IN then
       Some (None, error_at (expected ''in'' @ '' after for target'') t p)
     else do {
       (iter, p) \<leftarrow> k_expr K 0 (deeper_command 1 (p_skip p));
       let p = mark_assign_targets target (deeper_command (-1) p);
       p \<leftarrow> skip_terminators (snd (p_match TOK_DO p));
       (body, p) \<leftarrow> k_body K False p;
       Some (Some (mk_node s (NFor target iter body)), expect TOK_END (expected ''end'') p)
     }
   }"

subsection \<open>Definitions\<close>

text \<open>The names of \<open>def A::B::m\<close>, at most 64; \<open>None\<close> after an error.\<close>

definition MAX_PARTS :: nat where
  "MAX_PARTS = 64"

partial_function (option) def_parts :: "string list \<Rightarrow> string list option parse" where
  [code]: "def_parts parts p =
     (let (b, p) = p_match TOK_COLON2 p in
      if b \<and> length parts < MAX_PARTS then
        (let (part, p) = p_advance p in
         if t_kind part = TOK_IDENT then do { v \<leftarrow> t_sval part; Some (Some (parts @ [v]), p) }
         else if t_kind part \<noteq> TOK_CONST then
           Some (None, error_at (''expected constant or method name after '' @ [CHR 0x27] @ ''::'' @
                   [CHR 0x27]) part p)
         else do { v \<leftarrow> t_sval part; def_parts (parts @ [v]) p })
      else Some (Some parts, p))"

text \<open>The receiver of \<open>def x.m\<close>.\<close>

definition receiver_kinds :: "(token_kind \<times> sval_kind) list" where
  "receiver_kinds =
     [(TOK_IDENT, K_LVAR), (TOK_CONST, K_CONST), (TOK_IVAR, K_IVAR), (TOK_CVAR, K_CVAR),
      (TOK_GVAR, K_GVAR)]"

definition def_receiver_node :: "token \<Rightarrow> node option" where
  "def_receiver_node t =
     (if t_kind t = TOK_SELF then Some (mk_node (tok_span t) (NPlain K_SELF))
      else case map_of receiver_kinds (t_kind t) of
          Some k \<Rightarrow> map_option (mk_sval (tok_span t) k) (t_sval t)
        | None \<Rightarrow> None)"

text \<open>The receiver and the token of the name; \<open>None\<close> after an error.\<close>

definition def_const_receiver :: "token \<Rightarrow> (node option \<times> token) option parse" where
  "def_const_receiver name p =
     (let (t, p) = p_peek p in
      if t_kind name = TOK_CONST \<and> t_kind t = TOK_COLON2 then do {
        v \<leftarrow> t_sval name;
        (parts, p) \<leftarrow> def_parts [v] p;
        Some (case parts of None \<Rightarrow> (None, p)
              | Some parts \<Rightarrow>
                  if 2 \<le> length parts then
                    (Some (Some (mk_sval (tok_span name) K_CONST (join_const_parts (butlast parts))),
                       name\<lparr>t_sval := Some (last parts)\<rparr>), p)
                  else (Some (None, name), p))
      }
      else Some (Some (None, name), p))"

definition def_dot_receiver :: "node option \<Rightarrow> token \<Rightarrow> (node option \<times> token) option parse" where
  "def_dot_receiver recv name p =
     (let (t, p) = p_peek p in
      if t_kind t = TOK_DOT then
        (case def_receiver_node name of
           None \<Rightarrow> Some (None, error_at ''unexpected receiver in def'' name p)
         | Some r \<Rightarrow> (let (name, p) = p_advance (p_skip p) in Some (Some (Some r, name), p)))
      else Some (Some (recv, name), p))"

text \<open>\<open>def -@\<close>: an empty instance variable that touches the operator.\<close>

definition unary_suffix :: "token \<Rightarrow> string \<Rightarrow> parser \<Rightarrow> string \<times> parser" where
  "unary_suffix name m p =
     (let (t, p) = p_peek p in
      if t_kind t = TOK_IVAR \<and> (case t_sval t of Some v \<Rightarrow> cstr v = [] | None \<Rightarrow> False) \<and>
         list_ex (streq m) [''-'', ''+'', ''!'', ''~''] \<and> token_adjacent name t
      then (cstr m @ ''@'', p_skip p) else (m, p))"

definition def_suffix :: "token \<Rightarrow> string \<Rightarrow> parser \<Rightarrow> string \<times> parser" where
  "def_suffix name m p =
     (let (t, p) = p_peek p;
          setter = (is_name_token name \<and> t_kind t = TOK_EQ \<and> token_adjacent name t \<and>
                    t_kind (peek_next_token p) = TOK_LPAREN)
      in if is_name_token name \<and>
            ((t_kind t = TOK_QUESTION \<or> t_kind t = TOK_BANG) \<and> token_adjacent name t \<or> setter)
         then (cstr m @ (if t_kind t = TOK_QUESTION then ''?''
                         else if t_kind t = TOK_BANG then ''!'' else ''=''), p_skip p)
         else (m, p))"

definition def_params :: "knot \<Rightarrow> token \<Rightarrow> node_list parse" where
  "def_params K name p =
     (let (b, p) = p_match TOK_LPAREN p in
      if b then do {
        (params, p) \<leftarrow> parse_params K p;
        Some (params, expect TOK_RPAREN (expected '')'') p)
      }
      else
        (let (t, p) = p_peek p in
         if t_line t = t_line name \<and>
            t_kind t \<in> set [TOK_IDENT, TOK_CONST, TOK_STAR, TOK_STAR2, TOK_AMP]
         then parse_params_unparen K (t_line name) p else Some ([], p)))"

text \<open>The loop over the parameters marks the names, those of a group one level deep.\<close>

definition param_name :: "node option \<Rightarrow> string option" where
  "param_name n = (case n of Some (Node _ _ (NParam name _ _)) \<Rightarrow> name | _ \<Rightarrow> None)"

definition mark_def_param :: "node option \<Rightarrow> parser \<Rightarrow> parser" where
  "mark_def_param n p =
     (case n of
        Some (Node _ _ (NArray els)) \<Rightarrow> fold (\<lambda>el p. mark_local (param_name el) p) els p
      | _ \<Rightarrow> mark_local (param_name n) p)"

definition def_body :: "knot \<Rightarrow> span \<Rightarrow> node option \<Rightarrow> string \<Rightarrow> node_list \<Rightarrow> node option parse" where
  "def_body K s recv m params p =
     (let (b, p) = p_match TOK_EQ p in
      if b then do {
        (x, p) \<leftarrow> k_expr K 0 p;
        Some (Some (mk_node s (NDef recv m params
                (Some (mk_node s (NBody K_BODY (append_some [] x)))))), p)
      }
      else do {
        p \<leftarrow> skip_terminators p;
        (body, p) \<leftarrow> k_body K False p;
        ((body, ok), p) \<leftarrow> rescued_body K s body p;
        if \<not> ok then Some (None, p)
        else Some (Some (mk_node s (NDef recv m params body)), expect TOK_END (expected ''end'') p)
      })"

definition stmt_def :: "knot \<Rightarrow> span \<Rightarrow> node option parse" where
  "stmt_def K s p = do {
     let (name, p) = p_advance (p_skip p);
     (r, p) \<leftarrow> def_const_receiver name p;
     case r of None \<Rightarrow> Some (None, p)
     | Some (recv, name) \<Rightarrow> do {
         (r, p) \<leftarrow> def_dot_receiver recv name p;
         case r of None \<Rightarrow> Some (None, p)
         | Some (recv, name) \<Rightarrow>
             (let (m, p) = method_name_from_token name p in
              case m of None \<Rightarrow> Some (None, error_at (''expected method name after '' @ [CHR 0x27] @
                  ''def'' @ [CHR 0x27]) name p)
              | Some m \<Rightarrow> do {
                  let (m, p) = unary_suffix name m p;
                  let (m, p) = def_suffix name m p;
                  (params, p) \<leftarrow> def_params K name p;
                  def_body K s recv m params (fold mark_def_param params p)
                })
       }
   }"

text \<open>A name of \<open>alias\<close>, with the suffix that touches it; \<open>None\<close> after an error.\<close>

definition alias_name :: "string \<Rightarrow> string option parse" where
  "alias_name msg p =
     (let (t, p) = p_advance p; (m, p) = method_name_from_token t p in
      case m of None \<Rightarrow> Some (None, error_at msg t p)
      | Some m \<Rightarrow>
          (let (n, p) = p_peek p in
           if is_name_token t \<and> (t_kind n = TOK_QUESTION \<or> t_kind n = TOK_BANG) \<and>
              token_adjacent t n
           then Some (Some (cstr m @ (if t_kind n = TOK_QUESTION then ''?'' else ''!'')), p_skip p)
           else Some (Some m, p)))"

definition stmt_alias :: "span \<Rightarrow> node option parse" where
  "stmt_alias s p = do {
     (new, p) \<leftarrow> alias_name (''expected new method name after '' @ [CHR 0x27] @ ''alias'' @ [CHR 0x27])
       (p_skip p);
     case new of None \<Rightarrow> Some (None, p)
     | Some new \<Rightarrow> do {
         (old, p) \<leftarrow> alias_name ''expected existing method name after alias target'' p;
         case old of None \<Rightarrow> Some (None, p)
         | Some old \<Rightarrow> Some (Some (mk_node s (NAlias new old)), p)
       }
   }"

text \<open>A body up to \<open>end\<close>.\<close>

definition ended_body :: "knot \<Rightarrow> node option parse" where
  "ended_body K p = do {
     p \<leftarrow> skip_terminators p;
     (body, p) \<leftarrow> k_body K False p;
     Some (body, expect TOK_END (expected ''end'') p)
   }"

text \<open>\<open>match(TOK_LSHIFT) || match(TOK_LT) && match(TOK_LT)\<close>\<close>

definition match_singleton :: "parser \<Rightarrow> bool \<times> parser" where
  "match_singleton p =
     (let (b, p) = p_match TOK_LSHIFT p in
      if b then (True, p)
      else (let (b, p) = p_match TOK_LT p in if b then p_match TOK_LT p else (False, p)))"

definition stmt_class :: "knot \<Rightarrow> span \<Rightarrow> node option parse" where
  "stmt_class K s p =
     (let (b, p) = match_singleton (p_skip p) in
      if b then do {
        (recv, p) \<leftarrow> k_expr K 0 p;
        if recv = None then Some (None, p)
        else do {
          (body, p) \<leftarrow> ended_body K p;
          Some (Some (mk_node s (NSclass recv body)), p)
        }
      }
      else do {
        (name, p) \<leftarrow> parse_const_path_name p;
        case name of None \<Rightarrow> Some (None, p)
        | Some name \<Rightarrow> do {
            let (b, p) = p_match TOK_LT p;
            (super, p) \<leftarrow> (if b then k_expr K 0 p else Some (None, p));
            if b \<and> super = None then Some (None, p)
            else do {
              (body, p) \<leftarrow> ended_body K p;
              Some (Some (mk_node s (NKlass K_CLASS name super body)), p)
            }
          }
      })"

definition stmt_module :: "knot \<Rightarrow> span \<Rightarrow> node option parse" where
  "stmt_module K s p = do {
     (name, p) \<leftarrow> parse_const_path_name (p_skip p);
     case name of None \<Rightarrow> Some (None, p)
     | Some name \<Rightarrow> do {
         (body, p) \<leftarrow> ended_body K p;
         Some (Some (mk_node s (NKlass K_MODULE name None body)), p)
       }
   }"

subsection \<open>Case\<close>

partial_function (option) when_patterns :: "knot \<Rightarrow> node_list \<Rightarrow> node_list parse" where
  [code]: "when_patterns K pats p =
     (let (b, p) = p_match TOK_COMMA p in
      if \<not> b then Some (pats, p)
      else do {
        p \<leftarrow> skip_terminators p;
        (x, p) \<leftarrow> k_expr K 0 p;
        when_patterns K (append_some pats x) p
      })"

partial_function (option) when_loop :: "knot \<Rightarrow> node_list \<Rightarrow> node_list parse" where
  [code]: "when_loop K whens p =
     (let (t, p) = p_peek p in
      if t_kind t \<noteq> TOK_WHEN then Some (whens, p)
      else do {
        (x, p) \<leftarrow> k_expr K 0 (p_skip p);
        (pats, p) \<leftarrow> when_patterns K (append_some [] x) p;
        (body, p) \<leftarrow> then_body K TOK_THEN p;
        when_loop K (nodelist_append whens (Some (mk_node (tok_span t) (NWhen pats body)))) p
      })"

definition in_guard :: "knot \<Rightarrow> node option parse" where
  "in_guard K p =
     (let (b, p) = p_match TOK_IF p in if b then k_expr K 0 p else Some (None, p))"

partial_function (option) in_loop :: "knot \<Rightarrow> node_list \<Rightarrow> node_list parse" where
  [code]: "in_loop K ins p =
     (let (t, p) = p_peek p in
      if t_kind t \<noteq> TOK_IN then Some (ins, p)
      else do {
        (pat, p) \<leftarrow> k_pattern K (p_skip p);
        (guard, p) \<leftarrow> in_guard K p;
        (body, p) \<leftarrow> then_body K TOK_THEN p;
        in_loop K (nodelist_append ins (Some (mk_node (tok_span t) (NIn pat guard body)))) p
      })"

definition stmt_case :: "knot \<Rightarrow> span \<Rightarrow> node option parse" where
  "stmt_case K s p = do {
     let (t, p) = p_peek (p_skip p);
     (subject, p) \<leftarrow>
       (if t_kind t \<notin> set [TOK_NEWLINE, TOK_SEMICOLON, TOK_EOF] then k_expr K 0 p
        else Some (None, p));
     p \<leftarrow> skip_terminators p;
     (whens, p) \<leftarrow> when_loop K [] p;
     let (t, p) = p_peek p;
     let is_in = (t_kind t = TOK_IN);
     (ins, p) \<leftarrow> in_loop K [] p;
     (e, p) \<leftarrow> opt_clause K TOK_ELSE p;
     Some (Some (mk_node s (if is_in then NPatcase subject ins e else NCase subject whens e)),
           expect TOK_END (expected ''end'') p)
   }"

subsection \<open>Expressions as statements\<close>

text \<open>The right side of a multiple assignment.\<close>

definition masgn :: "knot \<Rightarrow> span \<Rightarrow> node option \<Rightarrow> node option parse" where
  "masgn K s lhs p = do {
     (first, p) \<leftarrow> k_expr K 0 p;
     (rhs, p) \<leftarrow> parse_expr_list K first 0 False p;
     Some (Some (mk_node s (NAssign lhs rhs)), mark_assign_targets lhs p)
   }"

text \<open>The expression before the modifiers; the flag is false where the code returns at once.\<close>

definition stmt_expr :: "knot \<Rightarrow> token \<Rightarrow> span \<Rightarrow> (node option \<times> bool) parse" where
  "stmt_expr K t s p =
     (if t_kind t = TOK_STAR then do {
        (lhs, p) \<leftarrow> k_target K p;
        (lhs, p) \<leftarrow> target_list K lhs p;
        let (b, p) = p_match TOK_EQ p;
        if \<not> b then
          (let (t2, p) = p_peek p
           in Some ((None, False), error_at (expected ''='' @ '' after assignment target'') t2 p))
        else do { (n, p) \<leftarrow> masgn K s lhs p; Some ((n, True), p) }
      }
      else do {
        (x, p) \<leftarrow> k_expr K 0 p;
        let (t2, p) = p_peek p;
        if x = None then Some ((None, False), p)
        else if t_kind t2 \<noteq> TOK_COMMA then Some ((x, True), p)
        else do {
          (lhs, p) \<leftarrow> parse_expr_list K x 7 True p;
          let (b, p) = p_match TOK_EQ p;
          if b then do { (n, p) \<leftarrow> masgn K s lhs p; Some ((n, True), p) }
          else if 0 < ps_masgn_depth p then Some ((lhs, False), p)
          else
            (let (t2, p) = p_peek p
             in Some ((None, False),
                  error_at (expected ''='' @ '' after multiple assignment target'') t2 p))
        }
      })"

text \<open>The modifier \<open>rescue\<close> guards the right side of an assignment, or the expression.\<close>

definition rescue_guard :: "span \<Rightarrow> node option \<Rightarrow> node option \<Rightarrow> node option" where
  "rescue_guard s x rescue_body =
     Some (mk_node s (NBegin (Some (mk_node s (NBody K_BODY (append_some [] x))))
       [Some (mk_node s (NRescue [] None rescue_body))] None None))"

definition rescue_modifier :: "span \<Rightarrow> node option \<Rightarrow> node option \<Rightarrow> node option" where
  "rescue_modifier s x rescue_body =
     (case x of
        Some (Node s' k (NAssign target val)) \<Rightarrow>
          Some (Node s' k (NAssign target (rescue_guard s val rescue_body)))
      | Some (Node s' k (NBinop K_OP_ASSIGN op l r)) \<Rightarrow>
          Some (Node s' k (NBinop K_OP_ASSIGN op l (rescue_guard s r rescue_body)))
      | _ \<Rightarrow> rescue_guard s x rescue_body)"

definition opt_rescue :: "knot \<Rightarrow> span \<Rightarrow> node option \<Rightarrow> node option parse" where
  "opt_rescue K s x p =
     (let (t, p) = p_peek p in
      if t_kind t = TOK_RESCUE then do {
        (r, p) \<leftarrow> k_expr K 0 (p_skip p);
        Some (rescue_modifier s x r, p)
      }
      else Some (x, p))"

definition condition_modifier :: "knot \<Rightarrow> span \<Rightarrow> node option \<Rightarrow> node option parse" where
  "condition_modifier K s x p =
     (let (t, p) = p_peek p in
      if t_kind t = TOK_IF \<or> t_kind t = TOK_UNLESS then do {
        p \<leftarrow> skip_terminators (p_skip p);
        (cond, p) \<leftarrow> k_expr K 0 p;
        Some (Some (mk_node s (NCond (if t_kind t = TOK_IF then K_IF else K_UNLESS) cond x None)), p)
      }
      else if t_kind t = TOK_WHILE \<or> t_kind t = TOK_UNTIL then do {
        p \<leftarrow> skip_terminators (p_skip p);
        (cond, p) \<leftarrow> k_expr K 0 p;
        Some (Some (mk_node s (NLoop (if t_kind t = TOK_WHILE then K_WHILE else K_UNTIL)
                      cond x False)), p)
      }
      else Some (x, p))"

definition stmt_simple :: "knot \<Rightarrow> token \<Rightarrow> span \<Rightarrow> node option parse" where
  "stmt_simple K t s p = do {
     ((x, more), p) \<leftarrow> stmt_expr K t s p;
     if \<not> more then Some (x, p)
     else do {
       (x, p) \<leftarrow> opt_rescue K s x p;
       condition_modifier K s x p
     }
   }"

definition hook_of :: "token \<Rightarrow> hook_kind option" where
  "hook_of t =
     (case t_sval t of None \<Rightarrow> None
      | Some v \<Rightarrow>
          if t_kind t = TOK_CONST \<and> streq v ''BEGIN'' then Some K_PROG_BEGIN
          else if t_kind t = TOK_CONST \<and> streq v ''END'' then Some K_PROG_END
          else None)"

definition parse_stmt :: "knot \<Rightarrow> node option parse" where
  "parse_stmt K p =
     (let (t, p) = p_peek p; s = tok_span t; k = t_kind t in
      if hook_of t \<noteq> None \<and> t_kind (peek_next_token p) = TOK_LBRACE
        then stmt_hook K (the (hook_of t)) s p
      else if k = TOK_IF then stmt_if K K_IF s p
      else if k = TOK_UNLESS then stmt_if K K_UNLESS s p
      else if k = TOK_WHILE then stmt_while K K_WHILE s p
      else if k = TOK_UNTIL then stmt_while K K_UNTIL s p
      else if k = TOK_BEGIN then stmt_begin K s p
      else if k = TOK_DEF then stmt_def K s p
      else if k = TOK_ALIAS then stmt_alias s p
      else if k = TOK_CLASS then stmt_class K s p
      else if k = TOK_CASE then stmt_case K s p
      else if k = TOK_MODULE then stmt_module K s p
      else if k = TOK_FOR then stmt_for K s p
      else stmt_simple K t s p)"

subsection \<open>Bodies\<close>

definition body_ends :: "bool \<Rightarrow> token_kind \<Rightarrow> bool" where
  "body_ends stop_at_rbrace k \<longleftrightarrow>
     k \<in> set [TOK_EOF, TOK_END, TOK_ELSE, TOK_ELSIF, TOK_ENSURE, TOK_RESCUE, TOK_WHEN, TOK_IN] \<or>
     stop_at_rbrace \<and> k = TOK_RBRACE"

partial_function (option) body_loop :: "knot \<Rightarrow> bool \<Rightarrow> node_list \<Rightarrow> node_list parse" where
  [code]: "body_loop K stop_at_rbrace stmts p = do {
     p \<leftarrow> skip_terminators p;
     let (t, p) = p_peek p;
     if body_ends stop_at_rbrace (t_kind t) then Some (stmts, p)
     else do {
       (stmt, p) \<leftarrow> k_stmt K p;
       if ps_panic p then do { p \<leftarrow> sync p; body_loop K stop_at_rbrace stmts p }
       else body_loop K stop_at_rbrace (append_some stmts stmt) p
     }
   }"

definition parse_body :: "knot \<Rightarrow> bool \<Rightarrow> node option parse" where
  "parse_body K stop_at_rbrace p = do {
     let (t, p) = p_peek p;
     (stmts, p) \<leftarrow> body_loop K stop_at_rbrace [] p;
     Some (Some (mk_node (tok_span t) (NBody K_BODY stmts)), p)
   }"

subsection \<open>The recursion tied\<close>

definition tie :: "knot \<Rightarrow> knot" where
  "tie K =
     \<lparr>k_stmt = parse_stmt K, k_expr = parse_expr K,
      k_continue = \<lambda>left min_bp p.
        map_option (\<lambda>(n, p). (Some n, p)) (parse_expr_continue K left min_bp p),
      k_body = parse_body K, k_block = parse_block K, k_wrap = wrap_rescue_ensure K,
      k_param = parse_param_node K, k_target = parse_assignment_target_elem K,
      k_pattern = parse_pattern K\<rparr>"

primrec knots :: "nat \<Rightarrow> knot" where
  "knots 0 =
     \<lparr>k_stmt = \<lambda>_. None, k_expr = \<lambda>_ _. None, k_continue = \<lambda>_ _ _. None, k_body = \<lambda>_ _. None,
      k_block = \<lambda>_. None, k_wrap = \<lambda>_ _ _. None, k_param = \<lambda>_ _. None, k_target = \<lambda>_. None,
      k_pattern = \<lambda>_. None\<rparr>"
| "knots (Suc n) = (let K = knots n in tie K)"

partial_function (option) program_loop :: "knot \<Rightarrow> node_list \<Rightarrow> node_list parse" where
  [code]: "program_loop K stmts p =
     (let (t, p) = p_peek p in
      if t_kind t = TOK_EOF then Some (stmts, p)
      else if t_kind t = TOK_ERROR then do {
        let msg = (case t_sval t of Some m \<Rightarrow> m | None \<Rightarrow> ''invalid token'');
        p \<leftarrow> sync (error_at msg t (p_skip p));
        program_loop K stmts p
      }
      else do {
        (stmt, p) \<leftarrow> parse_stmt K p;
        if ps_panic p then do { p \<leftarrow> sync p; program_loop K stmts p }
        else do {
          p \<leftarrow> skip_terminators p;
          program_loop K (append_some stmts stmt) p
        }
      })"

definition parse_program :: "nat \<Rightarrow> node parse" where
  "parse_program n p = do {
     p \<leftarrow> skip_terminators p;
     (stmts, p) \<leftarrow> program_loop (knots n) [] p;
     Some (mk_node \<lparr>sp_line = 1, sp_col = 1, sp_len = 0\<rparr> (NBody K_PROGRAM stmts), p)
   }"

end
