(* ===== verification/ParserRun.thy ===== *)
theory ParserRun
  imports LexTokens ParserTop
begin

section \<open>Runs of the parser that return\<close>

text \<open>
  What the proofs about the parser as a whole share: a bound on the tokens that are left, and rules
  that follow the definitions of the parser step by step and keep this bound.
\<close>

subsection \<open>The tokens left\<close>

definition ready :: "parser \<Rightarrow> bool" where
  "ready p \<longleftrightarrow>
     lex_ok (ps_lexer p) \<and> heredoc_free (l_src (ps_lexer p)) \<and>
     (l_has_peeked (ps_lexer p) \<longrightarrow> tok_ok (l_peeked (ps_lexer p))) \<and>
     length (ps_errors p) \<le> MAX_ERRORS"

definition left :: "parser \<Rightarrow> nat" where
  "left p = lex_left (ps_lexer p) +
     (if l_has_peeked (ps_lexer p) \<and> t_kind (l_peeked (ps_lexer p)) \<noteq> TOK_EOF then 1 else 0)"

definition cur :: "parser \<Rightarrow> token_kind" where
  "cur p = t_kind (fst (p_peek p))"

text \<open>At most \<open>n\<close> tokens are left.\<close>

definition has_left :: "parser \<Rightarrow> nat \<Rightarrow> bool" where
  "has_left p n \<longleftrightarrow> ready p \<and> left p \<le> n"

lemma scan_ready:
  assumes "lex_ok l" "heredoc_free (l_src l)" "scan l = (t, l')"
  shows "lex_ok l'" "l_src l' = l_src l" "l_has_peeked l' = l_has_peeked l" "tok_ok t"
    "lex_left l' + (if t_kind t = TOK_EOF then 0 else 1) \<le> lex_left l"
  using scan_step [OF assms] rest_of_fields [of l' l] scan_tok_ok [of l] assms(3) by auto

lemma lex_ok_flags [simp]:
  "lex_ok (l\<lparr>l_peeked := t\<rparr>) = lex_ok l" "lex_ok (l\<lparr>l_has_peeked := b\<rparr>) = lex_ok l"
  "lex_ok (l\<lparr>l_after_def := b\<rparr>) = lex_ok l"
  "lex_left (l\<lparr>l_peeked := t\<rparr>) = lex_left l" "lex_left (l\<lparr>l_has_peeked := b\<rparr>) = lex_left l"
  "lex_left (l\<lparr>l_after_def := b\<rparr>) = lex_left l"
  by (simp_all add: lex_ok_def lex_left_def arrays_ok_def)

lemma p_peek_left:
  assumes "has_left p n" "p_peek p = (t, q)"
  shows "has_left q n" "cur p = t_kind t" "cur q = t_kind t" "tok_ok t" "t_kind t \<noteq> TOK_EOF \<Longrightarrow> 0 < n"
proof -
  let ?l = "ps_lexer p"
  obtain u l' where s: "scan ?l = (u, l')" by force
  have r: "ready p" "left p \<le> n" using assms(1) by (simp_all add: has_left_def)
  have a: "has_left q n \<and> cur q = t_kind t \<and> tok_ok t \<and> (t_kind t \<noteq> TOK_EOF \<longrightarrow> 0 < n)"
  proof (cases "l_has_peeked ?l")
    case True
    then show ?thesis using assms r
      by (auto simp: p_peek_def lexer_peek_def Let_def cur_def has_left_def ready_def left_def)
  next
    case False
    then have q: "q = p\<lparr>ps_lexer := l'\<lparr>l_peeked := u, l_has_peeked := True\<rparr>\<rparr>" "t = u"
      using assms(2) s by (auto simp: p_peek_def lexer_peek_def Let_def)
    have "lex_left ?l \<le> n" using r False by (simp add: left_def)
    then show ?thesis using scan_ready [OF _ _ s] r False
      by (auto simp: q has_left_def ready_def left_def cur_def p_peek_def lexer_peek_def Let_def)
  qed
  then show "has_left q n" "cur q = t_kind t" "tok_ok t" "t_kind t \<noteq> TOK_EOF \<Longrightarrow> 0 < n" by auto
  show "cur p = t_kind t" using assms(2) by (simp add: cur_def)
qed

lemma p_advance_left:
  assumes "has_left p n" "p_advance p = (t, q)"
  shows "has_left q (n - (if t_kind t = TOK_EOF then 0 else 1))" "cur p = t_kind t" "tok_ok t"
    "t_kind t \<noteq> TOK_EOF \<Longrightarrow> 0 < n" "ps_errors q = ps_errors p"
proof -
  let ?l = "ps_lexer p"
  obtain u l' where s: "scan ?l = (u, l')" by force
  have r: "ready p" "left p \<le> n" using assms(1) by (simp_all add: has_left_def)
  have a: "has_left q (n - (if t_kind t = TOK_EOF then 0 else 1)) \<and> cur p = t_kind t \<and> tok_ok t \<and>
    (t_kind t \<noteq> TOK_EOF \<longrightarrow> 0 < n) \<and> ps_errors q = ps_errors p"
  proof (cases "l_has_peeked ?l")
    case True
    then show ?thesis using assms r
      by (auto simp: p_peek_def lexer_peek_def p_advance_def lexer_next_def Let_def cur_def has_left_def
          ready_def left_def track_state_ok)
  next
    case False
    then have q: "q = p\<lparr>ps_lexer := (track_state u l')\<lparr>l_after_def := (t_kind u = TOK_DEF \<or> t_kind u = TOK_ALIAS)\<rparr>\<rparr>"
      "t = u" using assms(2) s by (auto simp: p_advance_def lexer_next_def Let_def)
    have "lex_left ?l \<le> n" using r False by (simp add: left_def)
    then show ?thesis using scan_ready [OF _ _ s] r False s
      by (auto simp: q has_left_def ready_def left_def cur_def p_peek_def lexer_peek_def Let_def track_state_ok)
  qed
  then show "has_left q (n - (if t_kind t = TOK_EOF then 0 else 1))" "cur p = t_kind t" "tok_ok t"
    "t_kind t \<noteq> TOK_EOF \<Longrightarrow> 0 < n" "ps_errors q = ps_errors p" by auto
qed

lemma left_mono: "has_left p m \<Longrightarrow> m \<le> n \<Longrightarrow> has_left p n"
  by (simp add: has_left_def)

lemma cur_pos: "has_left p n \<Longrightarrow> cur p \<noteq> TOK_EOF \<Longrightarrow> 0 < n"
  using p_peek_left [of p n] by (cases "p_peek p") simp

subsection \<open>Steps that always return\<close>

lemma left_skip: "has_left p n \<Longrightarrow> has_left (p_skip p) (n - (if cur p = TOK_EOF then 0 else 1))"
  using p_advance_left [of p n] by (cases "p_advance p") (auto simp: p_skip_def)

lemma lex_ok_mark_left: "lex_left (lexer_mark_local n l) = lex_left l"
  "l_has_peeked (lexer_mark_local n l) = l_has_peeked l" "l_peeked (lexer_mark_local n l) = l_peeked l"
  by (simp_all add: lexer_mark_local_def lex_left_def split: option.split)

lemma left_mark_local: "has_left p n \<Longrightarrow> has_left (mark_local v p) n"
  by (simp add: has_left_def ready_def left_def mark_local_def lex_ok_mark lex_ok_mark_left)

lemma left_fields:
  "has_left p n \<Longrightarrow> has_left (p\<lparr>ps_panic := b\<rparr>) n" "has_left p n \<Longrightarrow> has_left (p\<lparr>ps_allow_commas := b\<rparr>) n"
  "has_left p n \<Longrightarrow> has_left (p\<lparr>ps_command_depth := i\<rparr>) n" "has_left p n \<Longrightarrow> has_left (p\<lparr>ps_stop_at_pipe := b\<rparr>) n"
  "has_left p n \<Longrightarrow> has_left (p\<lparr>ps_masgn_depth := i\<rparr>) n" "has_left p n \<Longrightarrow> has_left (commas_off p) n"
  "has_left p n \<Longrightarrow> has_left (deeper_command i p) n"
  by (simp_all add: has_left_def ready_def left_def commas_off_def deeper_command_def)

lemma left_error: "has_left p n \<Longrightarrow> has_left (p_error m l c p) n" "has_left p n \<Longrightarrow> has_left (error_at m t p) n"
  by (simp_all add: error_at_def p_error_def has_left_def ready_def left_def)

lemma cur_fields [simp]:
  "cur (error_at m t p) = cur p" "cur (p\<lparr>ps_panic := b\<rparr>) = cur p"
  "cur (p\<lparr>ps_allow_commas := b\<rparr>) = cur p" "cur (p\<lparr>ps_command_depth := i\<rparr>) = cur p"
  "cur (p\<lparr>ps_stop_at_pipe := b\<rparr>) = cur p" "cur (p\<lparr>ps_masgn_depth := i\<rparr>) = cur p"
  "cur (commas_off p) = cur p" "cur (deeper_command i p) = cur p"
  by (simp_all add: cur_def p_peek_def error_at_def p_error_def commas_off_def deeper_command_def split_def
      Let_def)

lemma left_expect: "has_left p n \<Longrightarrow> has_left (expect k m p) n"
proof -
  assume u: "has_left p n"
  obtain t q where 1: "p_peek p = (t, q)" by force
  show ?thesis using p_peek_left [OF u 1] left_mono [OF left_skip [of q n]] left_error
    by (simp add: expect_def 1)
qed

lemma left_match:
  assumes "has_left p n" "p_match k p = (b, q)" "k \<noteq> TOK_EOF"
  shows "has_left q (n - (if b then 1 else 0))" "b \<longleftrightarrow> cur p = k" "b \<Longrightarrow> 0 < n" "\<not> b \<Longrightarrow> cur q = cur p"
proof -
  obtain t p1 where 1: "p_peek p = (t, p1)" by force
  note f = p_peek_left [OF assms(1) 1]
  have "has_left q (n - (if b then 1 else 0)) \<and> (b \<longleftrightarrow> cur p = k) \<and> (b \<longrightarrow> 0 < n) \<and> (\<not> b \<longrightarrow> cur q = cur p)"
    using assms(2,3) f left_skip [OF f(1)] by (auto simp: p_match_def check_def 1 split: if_splits)
  then show "has_left q (n - (if b then 1 else 0))" "b \<longleftrightarrow> cur p = k" "b \<Longrightarrow> 0 < n" "\<not> b \<Longrightarrow> cur q = cur p"
    by auto
qed

lemma left_snd_match: "has_left p n \<Longrightarrow> k \<noteq> TOK_EOF \<Longrightarrow> has_left (snd (p_match k p)) n"
  using left_match [of p n k] left_mono by (metis diff_le_self prod.collapse)

lemma mark_assign_left:
  "has_left p n \<Longrightarrow> has_left (mark_assign_targets x p) n" "has_left p n \<Longrightarrow> has_left (mark_assign_list xs p) n"
proof (induction x p and xs p rule: mark_assign_targets_mark_assign_list.induct)
  case (2 s k d p)
  then show ?case by (cases d) (auto simp: left_mark_local split: sval_kind.split)
qed simp_all

lemma mark_param_left:
  "has_left p n \<Longrightarrow> has_left (mark_param_local x p) n" "has_left p n \<Longrightarrow> has_left (mark_params_locals xs p) n"
proof (induction x p and xs p rule: mark_param_local_mark_params_locals.induct)
  case (2 s k d p)
  then show ?case by (cases d) (auto simp: left_mark_local)
qed simp_all

lemma left_fold: "(\<And>x p. has_left p n \<Longrightarrow> has_left (f x p) n) \<Longrightarrow> has_left p n \<Longrightarrow> has_left (fold f xs p) n"
  by (induction xs arbitrary: p) simp_all

lemma left_mark_def_param: "has_left p n \<Longrightarrow> has_left (mark_def_param x p) n"
  by (auto simp: mark_def_param_def left_mark_local left_fold split: option.split node.split ndata.split)

lemma left_if: "has_left p n \<Longrightarrow> has_left q n \<Longrightarrow> has_left (if b then p else q) n"
  by simp

lemmas left_steps = left_skip left_mark_local left_fields left_error left_expect left_snd_match
  mark_assign_left(1) mark_param_left(2) left_fold [OF left_mark_def_param] left_if

subsection \<open>Results\<close>

text \<open>\<open>yields m Q\<close>: the computation returns, with a result in \<open>Q\<close>. Most functions keep the bound:
  \<open>within n\<close>.\<close>

definition yields :: "'a option \<Rightarrow> ('a \<Rightarrow> bool) \<Rightarrow> bool" where
  "yields m Q \<longleftrightarrow> (\<exists>x. m = Some x \<and> Q x)"

definition within :: "nat \<Rightarrow> 'a \<times> parser \<Rightarrow> bool" where
  "within n r \<longleftrightarrow> has_left (snd r) n"

lemma yields_Some: "Q x \<Longrightarrow> yields (Some x) Q"
  by (simp add: yields_def)

lemma yields_bind: "yields m P \<Longrightarrow> (\<And>x. P x \<Longrightarrow> yields (f x) Q) \<Longrightarrow> yields (m \<bind> f) Q"
  by (auto simp: yields_def)

lemma within_bind:
  "yields m (within n) \<Longrightarrow> (\<And>x q. has_left q n \<Longrightarrow> yields (f (x, q)) Q) \<Longrightarrow> yields (m \<bind> f) Q"
  by (auto simp: yields_def within_def)

lemma within_mono: "yields m (within n) \<Longrightarrow> n \<le> k \<Longrightarrow> yields m (within k)"
  by (auto simp: yields_def within_def has_left_def)

lemma yields_within: "has_left q m \<Longrightarrow> m \<le> n \<Longrightarrow> yields (Some (x, q)) (within n)"
  by (simp add: yields_def within_def has_left_def)

lemma bind_walk:
  "(b \<Longrightarrow> yields (x \<bind> f) Q) \<Longrightarrow> (\<not> b \<Longrightarrow> yields (y \<bind> f) Q) \<Longrightarrow> yields ((if b then x else y) \<bind> f) Q"
  "yields (x \<bind> (\<lambda>a. g a \<bind> f)) Q \<Longrightarrow> yields ((x \<bind> g) \<bind> f) Q"
  "yields (f a) Q \<Longrightarrow> yields (Some a \<bind> f) Q"
  "yields (Let a (\<lambda>a. h a \<bind> f)) Q \<Longrightarrow> yields (Let a h \<bind> f) Q"
  "yields (k u v \<bind> f) Q \<Longrightarrow> yields (case_prod k (u, v) \<bind> f) Q"
  by (simp_all add: yields_def)

lemma walk:
  "yields (k u w) Q \<Longrightarrow> yields (case_prod k (u, w)) Q"
  "(b \<Longrightarrow> yields x Q) \<Longrightarrow> (\<not> b \<Longrightarrow> yields y Q) \<Longrightarrow> yields (if b then x else y) Q"
  "(m = None \<Longrightarrow> yields x Q) \<Longrightarrow> (\<And>v. m = Some v \<Longrightarrow> yields (g v) Q) \<Longrightarrow>
     yields (case m of None \<Rightarrow> x | Some v \<Rightarrow> g v) Q"
  by (auto simp: yields_def split: option.split)

lemma walk_pair2:
  "(\<And>u w. x = (u, w) \<Longrightarrow> yields (h u w q) Q) \<Longrightarrow> yields (case_prod h x q) Q"
  "(\<And>u w. x = (u, w) \<Longrightarrow> yields (h u w q \<bind> f) Q) \<Longrightarrow> yields (case_prod h x q \<bind> f) Q"
  by (cases x; simp)+

lemma walk_let: "yields (f a) Q \<Longrightarrow> yields (Let a f) Q"
  by simp

lemma walk_let_if:
  "(b \<Longrightarrow> yields (Let x f) Q) \<Longrightarrow> (\<not> b \<Longrightarrow> yields (Let y f) Q) \<Longrightarrow>
   yields (Let (if b then x else y) f) Q"
  by simp

lemma walk_peek:
  assumes "has_left p n"
    "\<And>t q. has_left q n \<Longrightarrow> cur p = t_kind t \<Longrightarrow> cur q = t_kind t \<Longrightarrow> tok_ok t \<Longrightarrow>
       (t_kind t \<noteq> TOK_EOF \<longrightarrow> 0 < n) \<Longrightarrow> yields (f (t, q)) Q"
  shows "yields (Let (p_peek p) f) Q"
  using p_peek_left [OF assms(1)] assms(2) by (cases "p_peek p") simp

lemma walk_advance:
  assumes "has_left p n"
    "\<And>t q. has_left q (n - (if t_kind t = TOK_EOF then 0 else 1)) \<Longrightarrow> cur p = t_kind t \<Longrightarrow> tok_ok t \<Longrightarrow>
       (t_kind t \<noteq> TOK_EOF \<longrightarrow> 0 < n) \<Longrightarrow> yields (f (t, q)) Q"
  shows "yields (Let (p_advance p) f) Q"
  using p_advance_left [OF assms(1)] assms(2) by (cases "p_advance p") simp

lemma walk_check:
  assumes "has_left p n"
    "\<And>b q. has_left q n \<Longrightarrow> (b \<longleftrightarrow> cur p = k) \<Longrightarrow> cur q = cur p \<Longrightarrow> (cur p \<noteq> TOK_EOF \<longrightarrow> 0 < n) \<Longrightarrow>
       yields (f (b, q)) Q"
  shows "yields (Let (check k p) f) Q"
  using p_peek_left [OF assms(1)] assms(2) by (cases "p_peek p") (simp add: check_def)

lemma walk_match:
  assumes "has_left p n" "k \<noteq> TOK_EOF"
    "\<And>b q. has_left q (n - (if b then 1 else 0)) \<Longrightarrow> (b \<longleftrightarrow> cur p = k) \<Longrightarrow> (b \<longrightarrow> 0 < n) \<Longrightarrow>
       (\<not> b \<longrightarrow> cur q = cur p) \<Longrightarrow> yields (f (b, q)) Q"
  shows "yields (Let (p_match k p) f) Q"
  using left_match [OF assms(1) _ assms(2)] assms(3) by (cases "p_match k p") simp

lemma walk_sval:
  assumes "tok_ok t" "tok_named (t_kind t)" "\<And>v. t_sval t = Some v \<Longrightarrow> yields (f v) Q"
  shows "yields (t_sval t \<bind> f) Q"
  using assms by (auto simp: tok_ok_def)

lemma yields_mono: "yields m P \<Longrightarrow> (\<And>x. P x \<Longrightarrow> Q x) \<Longrightarrow> yields m Q"
  by (auto simp: yields_def)

lemma skip_terminators_left:
  "has_left p n \<Longrightarrow> yields (skip_terminators p)
     (\<lambda>q. has_left q n \<and> cur q \<noteq> TOK_NEWLINE \<and> cur q \<noteq> TOK_SEMICOLON)"
proof (induction n arbitrary: p rule: less_induct)
  case (less n)
  have rec: "yields (skip_terminators (p_skip q))
      (\<lambda>q. has_left q n \<and> cur q \<noteq> TOK_NEWLINE \<and> cur q \<noteq> TOK_SEMICOLON)"
    if "has_left q n" "cur q \<noteq> TOK_EOF" "0 < n" for q
    using less.IH [of "n - 1" "p_skip q"] left_skip [OF that(1)] that
    by (auto simp: has_left_def elim!: yields_mono)
  show ?case
    by (subst skip_terminators.simps, (rule walk_peek walk | rule less.prems)+)
      (auto intro!: yields_Some rec)
qed

lemma sync_loop_left:
  "has_left p n \<Longrightarrow> yields (sync_loop p) (\<lambda>q. has_left q n \<and> sync_point (cur q))"
proof (induction n arbitrary: p rule: less_induct)
  case (less n)
  have rec: "yields (sync_loop (q\<lparr>ps_lexer := lexer_consume (ps_lexer q)\<rparr>))
      (\<lambda>q. has_left q n \<and> sync_point (cur q))"
    if "has_left q n" "\<not> sync_point (cur q)" "cur q \<noteq> TOK_EOF \<longrightarrow> 0 < n" for q
  proof -
    have "cur q \<noteq> TOK_EOF" using that(2) by (auto simp: sync_point_def)
    moreover have "q\<lparr>ps_lexer := lexer_consume (ps_lexer q)\<rparr> = p_skip q"
      by (simp add: p_skip_def p_advance_def lexer_consume_def split: prod.split)
    ultimately show ?thesis using less.IH [of "n - 1" "p_skip q"] left_skip [OF that(1)] that
      by (auto simp: has_left_def elim!: yields_mono)
  qed
  show ?case
    by (subst sync_loop.simps, (rule walk_peek walk | rule less.prems)+)
      (auto intro!: yields_Some rec)
qed

lemma walk_skip_terminators:
  "has_left p n \<Longrightarrow>
   (\<And>q. has_left q n \<Longrightarrow> cur q \<noteq> TOK_NEWLINE \<Longrightarrow> cur q \<noteq> TOK_SEMICOLON \<Longrightarrow> yields (f q) Q) \<Longrightarrow>
   yields (skip_terminators p \<bind> f) Q"
  by (rule yields_bind [OF skip_terminators_left]) auto

lemma walk_sync:
  "has_left p n \<Longrightarrow> (\<And>q. has_left q n \<Longrightarrow> sync_point (cur q) \<Longrightarrow> yields (f q) Q) \<Longrightarrow>
   yields (sync p \<bind> f) Q"
  unfolding sync_def by (rule yields_bind [OF sync_loop_left [OF left_fields(1)]]) auto

lemmas walk_all = walk_peek walk_advance walk_check walk_match walk_sval walk_skip_terminators
  walk_sync walk_let_if walk bind_walk walk_pair2

subsection \<open>The functions that call each other\<close>

text \<open>A loop takes a token before it goes on: \<open>loops\<close> says that the rounds that follow return.\<close>

definition loops :: "('a \<Rightarrow> 'b parse) \<Rightarrow> nat \<Rightarrow> bool" where
  "loops f n \<longleftrightarrow> (\<forall>m < n. \<forall>x p. has_left p m \<longrightarrow> yields (f x p) (within m))"

lemma loops_call:
  "loops f n \<Longrightarrow> has_left p m \<Longrightarrow> m < n \<Longrightarrow> m \<le> k \<Longrightarrow> yields (f x p) (within k)"
  unfolding loops_def by (blast intro: within_mono)

lemma loops_call2:
  "loops (case_prod g) n \<Longrightarrow> has_left p m \<Longrightarrow> m < n \<Longrightarrow> m \<le> k \<Longrightarrow> yields (g y z p) (within k)"
  using loops_call [of "case_prod g" n p m k "(y, z)"] by simp

lemma loop_induct:
  assumes "has_left p n"
    and "\<And>m x p. has_left p m \<Longrightarrow> m \<le> n \<Longrightarrow> loops f m \<Longrightarrow> yields (f x p) (within m)"
  shows "yields (f x p) (within n)"
proof -
  have "yields (f x p) (within m)" if "has_left p m" "m \<le> n" for x p m
    using that by (induction m arbitrary: x p rule: less_induct) (rule assms(2), auto simp: loops_def)
  then show ?thesis using assms(1) by blast
qed

lemma loop_induct2:
  assumes "has_left p n"
    and "\<And>m y z p. has_left p m \<Longrightarrow> m \<le> n \<Longrightarrow> loops (case_prod g) m \<Longrightarrow>
      yields (g y z p) (within m)"
  shows "yields (g y z p) (within n)"
  using loop_induct [OF assms(1), of "case_prod g" "(y, z)"] assms(2) by auto

named_theorems returns \<open>the functions of the parser return\<close>

text \<open>A step that always returns is a run like the others.\<close>

lemma pure_walk:
  "yields (Let a (\<lambda>x. Some (h x))) Q \<Longrightarrow> yields (Some (Let a h)) Q"
  "(b \<Longrightarrow> yields (Some x) Q) \<Longrightarrow> (\<not> b \<Longrightarrow> yields (Some y) Q) \<Longrightarrow> yields (Some (if b then x else y)) Q"
  "yields (Some (k u w)) Q \<Longrightarrow> yields (Some (case_prod k (u, w))) Q"
  "(m = None \<Longrightarrow> yields (Some x) Q) \<Longrightarrow> (\<And>v. m = Some v \<Longrightarrow> yields (Some (g v)) Q) \<Longrightarrow>
     yields (Some (case m of None \<Rightarrow> x | Some v \<Rightarrow> g v)) Q"
  by (auto split: option.split)

lemma pure_left: "yields (Some r) (within n) \<Longrightarrow> has_left (snd r) n"
  by (simp add: yields_def within_def)

lemma walk_pure:
  "has_left (snd r) n \<Longrightarrow> (\<And>x q. has_left q n \<Longrightarrow> yields (f (x, q)) Q) \<Longrightarrow> yields (Let r f) Q"
  "has_left (snd r) n \<Longrightarrow> (\<And>x q. has_left q n \<Longrightarrow> yields (g x q) Q) \<Longrightarrow> yields (case_prod g r) Q"
  by (cases r; simp)+

lemma yields_pure: "has_left (snd r) m \<Longrightarrow> m \<le> n \<Longrightarrow> yields (Some r) (within n)"
  using yields_within [of "snd r" m n "fst r"] by simp

lemmas snd_match_rules [returns] =
  left_snd_match [THEN walk_pure(1)] left_snd_match [THEN walk_pure(2)] left_snd_match [THEN yields_pure]

lemmas steps = walk_all pure_walk within_bind
lemmas ends = yields_within walk_let order_refl left_steps

text \<open>The contract of the nine functions of a \<open>knot\<close>: with fewer than \<open>N\<close> fifths of a token left
  they return, and leave no more tokens than there were. A statement or an expression takes at
  least one, except at the end of the source. The ranks \<open>0\<close> to \<open>4\<close> order the calls that take no
  token before them.\<close>

definition taken :: "parser \<Rightarrow> nat" where
  "taken p = (if cur p = TOK_EOF then 0 else 1)"

declare taken_def [simp]

definition stmt_rank :: "parser \<Rightarrow> nat" where
  "stmt_rank p = (if cur p \<in> set statement_kinds then 0 else 3)"

locale parser_knot =
  fixes K :: knot and N :: nat
  assumes k_stmt: "has_left p n \<Longrightarrow> 5 * n + stmt_rank p < N \<Longrightarrow>
      yields (k_stmt K p) (within (n - taken p))"
    and k_expr: "has_left p n \<Longrightarrow> 5 * n + 1 < N \<Longrightarrow> yields (k_expr K b p) (within (n - taken p))"
    and k_target: "has_left p n \<Longrightarrow> 5 * n + 2 < N \<Longrightarrow> yields (k_target K p) (within (n - taken p))"
    and k_pattern: "has_left p n \<Longrightarrow> 5 * n + 2 < N \<Longrightarrow> yields (k_pattern K p) (within n)"
    and k_body: "has_left p n \<Longrightarrow> 5 * n + 4 < N \<Longrightarrow> yields (k_body K c p) (within n)"
    and k_block: "has_left p n \<Longrightarrow> 5 * n < N \<Longrightarrow> cur p \<noteq> TOK_EOF \<Longrightarrow>
      yields (k_block K p) (within n)"
    and k_continue: "has_left p n \<Longrightarrow> 5 * n < N \<Longrightarrow> yields (k_continue K x b p) (within n)"
    and k_wrap: "has_left p n \<Longrightarrow> 5 * n < N \<Longrightarrow> yields (k_wrap K s y p) (within n)"
    and k_param: "has_left p n \<Longrightarrow> 5 * n < N \<Longrightarrow> yields (k_param K c p) (within n)"
begin

lemmas calls = k_stmt k_expr k_target k_pattern k_body k_block k_continue k_wrap k_param

declare calls [THEN within_mono, returns]

lemma comma_exprs_returns [THEN within_mono, returns]:
  "has_left p n \<Longrightarrow> 5 * n < N \<Longrightarrow> yields (comma_exprs K xs p) (within n)"
  by (erule loop_induct [where f = "comma_exprs K"], subst comma_exprs.simps)
    (rule steps returns ends loops_call [where f = "comma_exprs K"] | assumption | simp; fail | auto; fail)+

end

end
