(* ===== verification/RunExpr.thy ===== *)
theory RunExpr
  imports ParserRun
begin

section \<open>The parser returns: expressions\<close>

text \<open>For each function of the theories ParserExpr, ParserInfix and ParserPrimary: within the
  contract of the functions it calls it returns, with no more tokens left than there were. A
  function that starts at a token takes it: its bound is \<open>n - 1\<close>.\<close>

subsection \<open>Operators and arguments\<close>

context parser_knot
begin

lemma rparen_loop_returns [THEN within_mono, returns]:
  "has_left p n \<Longrightarrow> 5 * n + 3 < N \<Longrightarrow>
    yields (rparen_loop K xs p) (within n)"
  by (erule loop_induct [where f = "rparen_loop K"], subst rparen_loop.simps)
    (rule steps returns ends loops_call [where f = "rparen_loop K"]
     | assumption | simp add: stmt_rank_def; fail | auto simp: stmt_rank_def; fail)+

lemma parse_body_until_rparen_returns [THEN within_mono, returns]:
  "has_left p n \<Longrightarrow> 5 * n + 3 < N \<Longrightarrow>
    yields (parse_body_until_rparen K p) (within n)"
  unfolding parse_body_until_rparen_def
  by (rule steps returns ends | assumption | simp; fail | auto; fail)+

lemma jump_values_returns [THEN within_mono, returns]:
  "has_left p n \<Longrightarrow> 5 * n < N \<Longrightarrow>
    yields (jump_values K xs p) (within n)"
  by (erule loop_induct [where f = "jump_values K"], subst jump_values.simps)
    (rule steps returns ends loops_call [where f = "jump_values K"]
     | assumption | simp; fail | auto; fail)+

lemma parse_jump_value_returns [THEN within_mono, returns]:
  "has_left p n \<Longrightarrow> 5 * n < N \<Longrightarrow>
    yields (parse_jump_value K x s p) (within n)"
  unfolding parse_jump_value_def
  by (rule steps returns ends | assumption | simp; fail | auto; fail)+

lemma attach_pending_do_block_returns [THEN within_mono, returns]:
  "has_left p n \<Longrightarrow> 5 * n < N \<Longrightarrow>
    yields (attach_pending_do_block K x b p) (within n)"
  unfolding attach_pending_do_block_def
  by (rule steps returns ends | assumption | simp; fail | auto; fail)+

lemma opt_block_returns [THEN within_mono, returns]:
  "has_left p n \<Longrightarrow> 5 * n < N \<Longrightarrow>
    yields (opt_block K c p) (within n)"
  unfolding opt_block_def
  by (rule steps returns ends | assumption | simp; fail | auto; fail)+

lemma parse_command_hash_returns [THEN within_mono, returns]:
  "has_left p n \<Longrightarrow> 5 * n + 1 < N \<Longrightarrow>
    yields (parse_command_hash K x v p) (within n)"
  unfolding parse_command_hash_def
  by (rule steps returns ends | assumption | simp; fail | auto; fail)+

lemma arrow_pairs_returns [THEN within_mono, returns]:
  "has_left p n \<Longrightarrow> 5 * n + 1 < N \<Longrightarrow>
    yields (arrow_pairs K x xs p) (within n)"
  by (erule loop_induct2 [where g = "arrow_pairs K"], subst arrow_pairs.simps)
    (rule steps returns ends loops_call2 [where g = "arrow_pairs K"]
     | assumption | simp; fail | auto; fail)+

lemma parse_arrow_hash_returns [THEN within_mono, returns]:
  "has_left p n \<Longrightarrow> 5 * n + 1 < N \<Longrightarrow>
    yields (parse_arrow_hash K x p) (within n)"
  unfolding parse_arrow_hash_def
  by (rule steps returns ends | assumption | simp; fail | auto; fail)+

lemma parse_arg_expr_returns [THEN within_mono, returns]:
  "has_left p n \<Longrightarrow> 5 * n + 1 < N \<Longrightarrow>
    yields (parse_arg_expr K p) (within n)"
  unfolding parse_arg_expr_def
  by (rule steps returns ends | assumption | simp; fail | auto; fail)+

lemma parse_command_arg_returns [THEN within_mono, returns]:
  "has_left p n \<Longrightarrow> 5 * n + 1 < N \<Longrightarrow>
    yields (parse_command_arg K p) (within n)"
  unfolding parse_command_arg_def
  by (rule steps returns ends | assumption | simp; fail | auto; fail)+

lemma parse_block_pass_returns [THEN within_mono, returns]:
  "has_left p n \<Longrightarrow> cur p \<noteq> TOK_EOF \<Longrightarrow> 5 * n < N \<Longrightarrow>
    yields (parse_block_pass K p) (within n)"
  unfolding parse_block_pass_def
  by (rule steps returns ends | assumption | simp; fail | auto; fail)+

lemma parse_splat_arg_returns [THEN within_mono, returns]:
  "has_left p n \<Longrightarrow> cur p \<noteq> TOK_EOF \<Longrightarrow> 5 * n < N \<Longrightarrow>
    yields (parse_splat_arg K p) (within n)"
  unfolding parse_splat_arg_def
  by (rule steps returns ends | assumption | simp; fail | auto; fail)+

lemma command_args_loop_returns [THEN within_mono, returns]:
  "has_left p n \<Longrightarrow> 5 * n + 1 < N \<Longrightarrow>
    yields (command_args_loop K b xs p) (within n)"
  by (erule loop_induct [where f = "command_args_loop K b"], subst command_args_loop.simps)
    (rule steps returns ends loops_call [where f = "command_args_loop K b"]
     | assumption | simp; fail | auto; fail)+

lemma parse_command_args_returns [THEN within_mono, returns]:
  "has_left p n \<Longrightarrow> 5 * n + 1 < N \<Longrightarrow>
    yields (parse_command_args K p) (within n)"
  unfolding parse_command_args_def
  by (rule steps returns ends | assumption | simp; fail | auto; fail)+

lemma args_loop_returns [THEN within_mono, returns]:
  "has_left p n \<Longrightarrow> 5 * n + 1 < N \<Longrightarrow>
    yields (args_loop K xs p) (within n)"
  by (erule loop_induct [where f = "args_loop K"], subst args_loop.simps)
    (rule steps returns ends loops_call [where f = "args_loop K"]
     | assumption | simp; fail | auto; fail)+

lemma parse_args_returns [THEN within_mono, returns]:
  "has_left p n \<Longrightarrow> 5 * n + 1 < N \<Longrightarrow>
    yields (parse_args K p) (within n)"
  unfolding parse_args_def
  by (rule steps returns ends | assumption | simp; fail | auto; fail)+

lemma paren_args_returns [THEN within_mono, returns]:
  "has_left p n \<Longrightarrow> 5 * n + 1 < N \<Longrightarrow>
    yields (paren_args K p) (within n)"
  unfolding paren_args_def
  by (rule steps returns ends | assumption | simp; fail | auto; fail)+

end

subsection \<open>What follows an operand\<close>

lemma left_dot_method_name:
  "has_left p n \<Longrightarrow> has_left (snd (dot_method_name op name p)) n"
  unfolding dot_method_name_def
  by (rule pure_left) (rule steps returns ends | assumption | simp; fail | auto; fail)+

lemmas dot_method_name_rules [returns] =
  left_dot_method_name [THEN walk_pure(1)] left_dot_method_name [THEN walk_pure(2)] left_dot_method_name [THEN yields_pure]

lemma left_suffixed_name:
  "has_left p n \<Longrightarrow> has_left (snd (suffixed_name name m p)) n"
  unfolding suffixed_name_def
  by (rule pure_left) (rule steps returns ends | assumption | simp; fail | auto; fail)+

lemmas suffixed_name_rules [returns] =
  left_suffixed_name [THEN walk_pure(1)] left_suffixed_name [THEN walk_pure(2)] left_suffixed_name [THEN yields_pure]

lemma left_const_path_segment_is_call:
  "has_left p n \<Longrightarrow> has_left (snd (const_path_segment_is_call name p)) n"
  unfolding const_path_segment_is_call_def
  by (rule pure_left) (rule steps returns ends | assumption | simp; fail | auto; fail)+

lemmas const_path_segment_is_call_rules [returns] =
  left_const_path_segment_is_call [THEN walk_pure(1)] left_const_path_segment_is_call [THEN walk_pure(2)] left_const_path_segment_is_call [THEN yields_pure]

lemma left_range_rhs_omitted:
  "has_left p n \<Longrightarrow> has_left (snd (range_rhs_omitted  p)) n"
  unfolding range_rhs_omitted_def
  by (rule pure_left) (rule steps returns ends | assumption | simp; fail | auto; fail)+

lemmas range_rhs_omitted_rules [returns] =
  left_range_rhs_omitted [THEN walk_pure(1)] left_range_rhs_omitted [THEN walk_pure(2)] left_range_rhs_omitted [THEN yields_pure]

lemma walk_leading_dot:
  assumes "has_left p n" "cur p = t_kind op" "t_kind op \<noteq> TOK_EOF \<longrightarrow> 0 < n"
    and "\<And>u q. has_left q n \<Longrightarrow> cur q = t_kind u \<Longrightarrow> (t_kind u \<noteq> TOK_EOF \<longrightarrow> 0 < n) \<Longrightarrow>
      yields (f (u, q)) Q"
  shows "yields (Let (leading_dot op p) f) Q"
proof -
  have s: "has_left (p_skip p) n" using left_mono [OF left_skip [OF assms(1)]] by simp
  obtain u q where u: "p_peek (p_skip p) = (u, q)" by force
  show ?thesis using assms(4) [of q u] assms(4) [of p op] p_peek_left [OF s u] assms(1-3)
    unfolding leading_dot_def u Let_def by (simp split: if_split)
qed

lemma walk_infix_bp:
  "(\<And>l r. infix_bp k = (l, r) \<Longrightarrow> yields (f l r) Q) \<Longrightarrow> yields (case_prod f (infix_bp k)) Q"
  by (cases "infix_bp k") simp

lemma infix_bp_eof [simp]: "infix_bp TOK_EOF = (0, 0)"
  by (simp add: infix_bp_def)

lemma walk_const_join:
  "has_left q m \<Longrightarrow> m \<le> n \<Longrightarrow>
   yields (case d of NSval K_CONST v \<Rightarrow> Some (f v, q) | _ \<Rightarrow> Some (g, q)) (within n)"
  by (auto split: ndata.split sval_kind.split intro!: yields_within)

lemmas infix_walk = walk_leading_dot walk_infix_bp walk_const_join

context parser_knot
begin

lemma dot_args_returns [THEN within_mono, returns]:
  "has_left p n \<Longrightarrow> 5 * n + 1 < N \<Longrightarrow>
    yields (dot_args K name m p) (within n)"
  unfolding dot_args_def
  by (rule steps returns ends | assumption | simp; fail | auto; fail)+

lemma infix_call_returns [THEN within_mono, returns]:
  "has_left p n \<Longrightarrow> 5 * n + 1 < N \<Longrightarrow>
    yields (infix_call K x op name p) (within n)"
  unfolding infix_call_def
  by (rule infix_walk steps returns ends | assumption | simp; fail | auto; fail)+

lemma infix_dot_returns [THEN within_mono, returns]:
  "has_left p n \<Longrightarrow> 5 * n + 1 < N \<Longrightarrow>
    yields (infix_dot K x op p) (within n)"
  unfolding infix_dot_def
  by (rule infix_walk steps returns ends | assumption | simp; fail | auto; fail)+

lemma infix_index_returns [THEN within_mono, returns]:
  "has_left p n \<Longrightarrow> 5 * n + 1 < N \<Longrightarrow>
    yields (infix_index K x p) (within n)"
  unfolding infix_index_def
  by (rule infix_walk steps returns ends | assumption | simp; fail | auto; fail)+

lemma infix_assign_returns [THEN within_mono, returns]:
  "has_left p n \<Longrightarrow> 5 * n + 1 < N \<Longrightarrow>
    yields (infix_assign K x b p) (within n)"
  unfolding infix_assign_def
  by (rule infix_walk steps returns ends | assumption | simp; fail | auto; fail)+

lemma infix_range_returns [THEN within_mono, returns]:
  "has_left p n \<Longrightarrow> 5 * n + 1 < N \<Longrightarrow>
    yields (infix_range K x op b p) (within n)"
  unfolding infix_range_def
  by (rule infix_walk steps returns ends | assumption | simp; fail | auto; fail)+

lemma infix_binop_returns [THEN within_mono, returns]:
  "has_left p n \<Longrightarrow> 5 * n + 1 < N \<Longrightarrow>
    yields (infix_binop K k x op b p) (within n)"
  unfolding infix_binop_def
  by (rule infix_walk steps returns ends | assumption | simp; fail | auto; fail)+

lemma infix_ternary_returns [THEN within_mono, returns]:
  "has_left p n \<Longrightarrow> 5 * n + 1 < N \<Longrightarrow>
    yields (infix_ternary K x b p) (within n)"
  unfolding infix_ternary_def
  by (rule infix_walk steps returns ends | assumption | simp; fail | auto; fail)+

lemma infix_step_returns [THEN within_mono, returns]:
  "has_left p n \<Longrightarrow> 5 * n + 1 < N \<Longrightarrow>
    yields (infix_step K x op b p) (within n)"
  unfolding infix_step_def
  by (rule infix_walk steps returns ends | assumption | simp; fail | auto; fail)+

lemma parse_hash_key_returns [THEN within_mono, returns]:
  "has_left p n \<Longrightarrow> 5 * n + 1 < N \<Longrightarrow>
    yields (parse_hash_key K p) (within n)"
  unfolding parse_hash_key_def
  by (rule infix_walk steps returns ends | assumption | simp; fail | auto; fail)+

lemma parse_expr_continue_returns [THEN within_mono, returns]:
  "has_left p n \<Longrightarrow> 5 * n \<le> N \<Longrightarrow>
    yields (parse_expr_continue K x b p) (within n)"
  by (erule loop_induct [where f = "\<lambda>x. parse_expr_continue K x b"], subst parse_expr_continue.simps)
    (rule infix_walk steps returns ends loops_call [where f = "\<lambda>x. parse_expr_continue K
     x b"] | assumption | simp; fail | auto; fail)+

end

subsection \<open>Operands\<close>

lemma left_close_block: "has_left p n \<Longrightarrow> has_left (close_block b p) n"
  by (simp add: close_block_def left_expect)

lemma left_splat_name:
  "has_left p n \<Longrightarrow> has_left (snd (splat_name  p)) n"
  unfolding splat_name_def
  by (rule pure_left) (rule steps returns ends | assumption | simp; fail | auto; fail)+

lemmas splat_name_rules [returns] =
  left_splat_name [THEN walk_pure(1)] left_splat_name [THEN walk_pure(2)] left_splat_name [THEN yields_pure]

context parser_knot
begin

lemma rescued_body_returns [THEN within_mono, returns]:
  "has_left p n \<Longrightarrow> 5 * n < N \<Longrightarrow>
    yields (rescued_body K s x p) (within n)"
  unfolding rescued_body_def
  by (rule left_close_block infix_walk steps returns ends | assumption | simp; fail | auto;
     fail)+

lemma params_loop_returns [THEN within_mono, returns]:
  "has_left p n \<Longrightarrow> 5 * n < N \<Longrightarrow>
    yields (params_loop K xs p) (within n)"
  by (erule loop_induct [where f = "params_loop K"], subst params_loop.simps)
    (rule left_close_block infix_walk steps returns ends loops_call [where f = "params_loop K"]
     | assumption | simp; fail | auto; fail)+

lemma parse_params_returns [THEN within_mono, returns]:
  "has_left p n \<Longrightarrow> 5 * n < N \<Longrightarrow>
    yields (parse_params K p) (within n)"
  unfolding parse_params_def
  by (rule left_close_block infix_walk steps returns ends | assumption | simp; fail | auto;
     fail)+

lemma params_unparen_loop_returns [THEN within_mono, returns]:
  "has_left p n \<Longrightarrow> 5 * n < N \<Longrightarrow>
    yields (params_unparen_loop K l xs p) (within n)"
  by (erule loop_induct [where f = "params_unparen_loop K l"], subst params_unparen_loop.simps)
    (rule left_close_block infix_walk steps returns ends loops_call [where f =
     "params_unparen_loop K l"] | assumption | simp; fail | auto; fail)+

lemma parse_params_unparen_returns [THEN within_mono, returns]:
  "has_left p n \<Longrightarrow> 5 * n < N \<Longrightarrow>
    yields (parse_params_unparen K l p) (within n)"
  unfolding parse_params_unparen_def
  by (rule left_close_block infix_walk steps returns ends | assumption | simp; fail | auto;
     fail)+

lemma param_group_returns [THEN within_mono, returns]:
  "has_left p n \<Longrightarrow> 5 * n < N \<Longrightarrow>
    yields (param_group K xs p) (within n)"
  by (erule loop_induct [where f = "param_group K"], subst param_group.simps)
    (rule left_close_block infix_walk steps returns ends loops_call [where f = "param_group K"]
     | assumption | simp; fail | auto; fail)+

lemma param_default_returns [THEN within_mono, returns]:
  "has_left p n \<Longrightarrow> 5 * n \<le> N \<Longrightarrow>
    yields (param_default K b p) (within n)"
  unfolding param_default_def
  by (rule left_close_block infix_walk steps returns ends | assumption | simp; fail | auto;
     fail)+

lemma parse_param_node_returns [THEN within_mono, returns]:
  "has_left p n \<Longrightarrow> 5 * n \<le> N \<Longrightarrow>
    yields (parse_param_node K b p) (within n)"
  unfolding parse_param_node_def
  by (rule left_close_block infix_walk steps returns ends | assumption | simp; fail | auto;
     fail)+

lemma block_params_returns [THEN within_mono, returns]:
  "has_left p n \<Longrightarrow> 5 * n < N \<Longrightarrow>
    yields (block_params K p) (within n)"
  unfolding block_params_def
  by (rule left_close_block infix_walk steps returns ends | assumption | simp; fail | auto;
     fail)+

lemma parse_block_returns [THEN within_mono, returns]:
  "has_left p n \<Longrightarrow> cur p \<noteq> TOK_EOF \<Longrightarrow> 0 < n \<Longrightarrow> 5 * n \<le> N \<Longrightarrow>
    yields (parse_block K p) (within n)"
  unfolding parse_block_def
  by (rule left_close_block infix_walk steps returns ends | assumption | simp; fail | auto;
     fail)+

lemma lambda_params_returns [THEN within_mono, returns]:
  "has_left p n \<Longrightarrow> 5 * n < N \<Longrightarrow>
    yields (lambda_params K p) (within n)"
  unfolding lambda_params_def
  by (rule left_close_block infix_walk steps returns ends | assumption | simp; fail | auto;
     fail)+

lemma parse_lambda_literal_returns [THEN within_mono, returns]:
  "has_left p n \<Longrightarrow> 5 * n < N \<Longrightarrow>
    yields (parse_lambda_literal K s p) (within n)"
  unfolding parse_lambda_literal_def
  by (rule left_close_block infix_walk steps returns ends | assumption | simp; fail | auto;
     fail)+

lemma interp_segments_returns [THEN within_mono, returns]:
  "has_left p n \<Longrightarrow> 5 * n < N \<Longrightarrow>
    yields (interp_segments K b r f p) (within n)"
  by (erule loop_induct2 [where g = "interp_segments K b"], subst interp_segments.simps)
    (rule left_close_block infix_walk steps returns ends loops_call2 [where g = "interp_segments
     K b"] | assumption | simp; fail | auto; fail)+

lemma interp_strings_returns [THEN within_mono, returns]:
  "has_left p n \<Longrightarrow> 5 * n < N \<Longrightarrow>
    yields (interp_strings K b c r f p) (within n)"
  by (erule loop_induct2 [where g = "interp_strings K b c"], subst interp_strings.simps)
    (rule left_close_block infix_walk steps returns ends loops_call2 [where g = "interp_strings
     K b c"] | assumption | simp; fail | auto; fail)+

lemma parse_interp_returns [THEN within_mono, returns]:
  "has_left p n \<Longrightarrow> cur p \<noteq> TOK_EOF \<Longrightarrow> 0 < n \<Longrightarrow> 5 * n \<le> N \<Longrightarrow>
    yields (parse_interp K t s p) (within (n - 1))"
  unfolding parse_interp_def
  by (rule left_close_block infix_walk steps returns ends | assumption | simp; fail | auto;
     fail)+

lemma adjacent_strings_returns [THEN within_mono, returns]:
  "has_left p n \<Longrightarrow> 5 * n < N \<Longrightarrow>
    yields (adjacent_strings v i p) (within n)"
  by (erule loop_induct2 [where g = "adjacent_strings"], subst adjacent_strings.simps)
    (rule left_close_block infix_walk steps returns ends loops_call2 [where g =
     "adjacent_strings"] | assumption | simp; fail | auto; fail)+

lemma parse_string_returns [THEN within_mono, returns]:
  "has_left p n \<Longrightarrow> cur p \<noteq> TOK_EOF \<Longrightarrow> 0 < n \<Longrightarrow> tok_ok t \<Longrightarrow> tok_named (t_kind t) \<Longrightarrow> 5 * n \<le> N \<Longrightarrow>
    yields (parse_string t s p) (within (n - 1))"
  unfolding parse_string_def
  by (rule left_close_block infix_walk steps returns ends | assumption | simp; fail | auto;
     fail)+

lemma const_path_returns [THEN within_mono, returns]:
  "has_left p n \<Longrightarrow> 5 * n < N \<Longrightarrow>
    yields (const_path v p) (within n)"
  by (erule loop_induct [where f = "const_path"], subst const_path.simps)
    (rule left_close_block infix_walk steps returns ends loops_call [where f = "const_path"] |
     assumption | simp; fail | auto; fail)+

lemma command_call_returns [THEN within_mono, returns]:
  "has_left p n \<Longrightarrow> 5 * n + 1 < N \<Longrightarrow>
    yields (command_call K s v p) (within n)"
  unfolding command_call_def
  by (rule left_close_block infix_walk steps returns ends | assumption | simp; fail | auto;
     fail)+

lemma paren_call_returns [THEN within_mono, returns]:
  "has_left p n \<Longrightarrow> 5 * n + 1 < N \<Longrightarrow>
    yields (paren_call K s v p) (within n)"
  unfolding paren_call_def
  by (rule left_close_block infix_walk steps returns ends | assumption | simp; fail | auto;
     fail)+

lemma parse_const_returns [THEN within_mono, returns]:
  "has_left p n \<Longrightarrow> cur p \<noteq> TOK_EOF \<Longrightarrow> 0 < n \<Longrightarrow> tok_ok t \<Longrightarrow> tok_named (t_kind t) \<Longrightarrow> 5 * n \<le> N \<Longrightarrow>
    yields (parse_const K t s p) (within (n - 1))"
  unfolding parse_const_def
  by (rule left_close_block infix_walk steps returns ends | assumption | simp; fail | auto;
     fail)+

lemma parse_ident_returns [THEN within_mono, returns]:
  "has_left p n \<Longrightarrow> cur p \<noteq> TOK_EOF \<Longrightarrow> 0 < n \<Longrightarrow> tok_ok t \<Longrightarrow> tok_named (t_kind t) \<Longrightarrow> 5 * n \<le> N \<Longrightarrow>
    yields (parse_ident K t s p) (within (n - 1))"
  unfolding parse_ident_def
  by (rule left_close_block infix_walk steps returns ends | assumption | simp; fail | auto;
     fail)+

lemma parse_yield_returns [THEN within_mono, returns]:
  "has_left p n \<Longrightarrow> cur p \<noteq> TOK_EOF \<Longrightarrow> 0 < n \<Longrightarrow> 5 * n \<le> N \<Longrightarrow>
    yields (parse_yield K t s p) (within (n - 1))"
  unfolding parse_yield_def
  by (rule left_close_block infix_walk steps returns ends | assumption | simp; fail | auto;
     fail)+

lemma parse_super_returns [THEN within_mono, returns]:
  "has_left p n \<Longrightarrow> cur p \<noteq> TOK_EOF \<Longrightarrow> 0 < n \<Longrightarrow> 5 * n \<le> N \<Longrightarrow>
    yields (parse_super K t s p) (within (n - 1))"
  unfolding parse_super_def
  by (rule left_close_block infix_walk steps returns ends | assumption | simp; fail | auto;
     fail)+

lemma array_elems_returns [THEN within_mono, returns]:
  "has_left p n \<Longrightarrow> 5 * n + 1 < N \<Longrightarrow>
    yields (array_elems K xs p) (within n)"
  by (erule loop_induct [where f = "array_elems K"], subst array_elems.simps)
    (rule left_close_block infix_walk steps returns ends loops_call [where f = "array_elems K"]
     | assumption | simp; fail | auto; fail)+

lemma parse_array_returns [THEN within_mono, returns]:
  "has_left p n \<Longrightarrow> cur p \<noteq> TOK_EOF \<Longrightarrow> 0 < n \<Longrightarrow> 5 * n \<le> N \<Longrightarrow>
    yields (parse_array K s p) (within (n - 1))"
  unfolding parse_array_def
  by (rule left_close_block infix_walk steps returns ends | assumption | simp; fail | auto;
     fail)+

lemma hash_pair_returns [THEN within_mono, returns]:
  "has_left p n \<Longrightarrow> 5 * n + 1 < N \<Longrightarrow>
    yields (hash_pair K p) (within n)"
  unfolding hash_pair_def
  by (rule left_close_block infix_walk steps returns ends | assumption | simp; fail | auto;
     fail)+

lemma hash_pairs_returns [THEN within_mono, returns]:
  "has_left p n \<Longrightarrow> 5 * n + 1 < N \<Longrightarrow>
    yields (hash_pairs K xs p) (within n)"
  by (erule loop_induct [where f = "hash_pairs K"], subst hash_pairs.simps)
    (rule left_close_block infix_walk steps returns ends loops_call [where f = "hash_pairs K"] |
     assumption | simp; fail | auto; fail)+

lemma parse_hash_returns [THEN within_mono, returns]:
  "has_left p n \<Longrightarrow> cur p \<noteq> TOK_EOF \<Longrightarrow> 0 < n \<Longrightarrow> 5 * n \<le> N \<Longrightarrow>
    yields (parse_hash K s p) (within (n - 1))"
  unfolding parse_hash_def
  by (rule left_close_block infix_walk steps returns ends | assumption | simp; fail | auto;
     fail)+

lemma parse_paren_returns [THEN within_mono, returns]:
  "has_left p n \<Longrightarrow> cur p \<noteq> TOK_EOF \<Longrightarrow> 0 < n \<Longrightarrow> 5 * n \<le> N \<Longrightarrow>
    yields (parse_paren K p) (within (n - 1))"
  unfolding parse_paren_def
  by (rule left_close_block infix_walk steps returns ends | assumption | simp; fail | auto;
     fail)+

lemma parse_defined_returns [THEN within_mono, returns]:
  "has_left p n \<Longrightarrow> cur p \<noteq> TOK_EOF \<Longrightarrow> 0 < n \<Longrightarrow> 5 * n \<le> N \<Longrightarrow>
    yields (parse_defined K s p) (within (n - 1))"
  unfolding parse_defined_def
  by (rule left_close_block infix_walk steps returns ends | assumption | simp; fail | auto;
     fail)+

lemma parse_jump_returns [THEN within_mono, returns]:
  "has_left p n \<Longrightarrow> cur p \<noteq> TOK_EOF \<Longrightarrow> 0 < n \<Longrightarrow> 5 * n \<le> N \<Longrightarrow>
    yields (parse_jump K k s p) (within (n - 1))"
  unfolding parse_jump_def
  by (rule left_close_block infix_walk steps returns ends | assumption | simp; fail | auto;
     fail)+

lemma parse_top_const_returns [THEN within_mono, returns]:
  "has_left p n \<Longrightarrow> cur p \<noteq> TOK_EOF \<Longrightarrow> 0 < n \<Longrightarrow> 5 * n \<le> N \<Longrightarrow>
    yields (parse_top_const s p) (within (n - 1))"
  unfolding parse_top_const_def
  by (rule left_close_block infix_walk steps returns ends | assumption | simp; fail | auto;
     fail)+

lemma parse_beginless_returns [THEN within_mono, returns]:
  "has_left p n \<Longrightarrow> cur p \<noteq> TOK_EOF \<Longrightarrow> 0 < n \<Longrightarrow> 5 * n \<le> N \<Longrightarrow>
    yields (parse_beginless K t s p) (within (n - 1))"
  unfolding parse_beginless_def
  by (rule left_close_block infix_walk steps returns ends | assumption | simp; fail | auto;
     fail)+

lemma parse_unop_returns [THEN within_mono, returns]:
  "has_left p n \<Longrightarrow> cur p \<noteq> TOK_EOF \<Longrightarrow> 0 < n \<Longrightarrow> 5 * n \<le> N \<Longrightarrow>
    yields (parse_unop K t s p) (within (n - 1))"
  unfolding parse_unop_def
  by (rule left_close_block infix_walk steps returns ends | assumption | simp; fail | auto;
     fail)+

lemma sval_kinds_named: "map_of sval_kinds k \<noteq> None \<Longrightarrow> tok_named k"
  by (auto simp: sval_kinds_def tok_named_def split: if_splits)

lemma primary_switch_returns [THEN within_mono, returns]:
  "has_left p n \<Longrightarrow> tok_ok t \<Longrightarrow> cur p = t_kind t \<Longrightarrow> (t_kind t \<noteq> TOK_EOF \<longrightarrow> 0 < n) \<Longrightarrow> 5 * n + 1 \<le> N \<Longrightarrow>
    yields (primary_switch K t s p) (within (n - taken p))"
  unfolding primary_switch_def
  by (rule left_close_block infix_walk steps returns ends | assumption | simp add: stmt_rank_def;
     fail | (rule sval_kinds_named, assumption) | auto simp: stmt_rank_def; fail)+

lemma parse_primary_returns [THEN within_mono, returns]:
  "has_left p n \<Longrightarrow> 5 * n + 1 \<le> N \<Longrightarrow>
    yields (parse_primary K p) (within (n - taken p))"
  unfolding parse_primary_def
  by (rule left_close_block infix_walk steps returns ends | assumption | simp add: prefix_bp_def;
     fail | auto simp: prefix_bp_def; fail)+

lemma parse_expr_returns [THEN within_mono, returns]:
  "has_left p n \<Longrightarrow> 5 * n + 1 \<le> N \<Longrightarrow>
    yields (parse_expr K b p) (within (n - taken p))"
  unfolding parse_expr_def
  by (rule left_close_block infix_walk steps returns ends | assumption | simp; fail | auto;
     fail)+

end

end
