(* ===== verification/RunStmt.thy ===== *)
theory RunStmt
  imports RunExpr
begin

section \<open>The parser returns: patterns and statements\<close>

text \<open>The same for the theories ParserStmt and ParserTop.\<close>

subsection \<open>Patterns, rescue clauses and targets\<close>

lemma walk_close_pattern:
  "has_left p n \<Longrightarrow> k \<noteq> TOK_EOF \<Longrightarrow> (\<And>q. has_left q n \<Longrightarrow> yields (f q) Q) \<Longrightarrow>
   yields (close_pattern k p \<bind> f) Q"
  unfolding close_pattern_def
  by (rule bind_walk(2), rule walk_skip_terminators, assumption, rule bind_walk(3))
    (simp add: left_snd_match)

lemma walk_pattern_key:
  "tok_ok t \<Longrightarrow> (\<And>v. yields (f v) Q) \<Longrightarrow> yields (pattern_key t \<bind> f) Q"
  by (auto simp: pattern_key_def tok_ok_def)

lemma walk_split: "(\<And>u w. x = (u, w) \<Longrightarrow> yields (h u w) Q) \<Longrightarrow> yields (case_prod h x) Q"
  by (cases x) simp

lemma hook_of_const: "hook_of t \<noteq> None \<Longrightarrow> t_kind t = TOK_CONST"
  by (auto simp: hook_of_def split: option.splits if_splits)

lemma left_rest_name:
  "has_left p n \<Longrightarrow> has_left (snd (rest_name  p)) n"
  unfolding rest_name_def
  by (rule pure_left) (rule steps returns ends | assumption | simp; fail | auto; fail)+

lemmas rest_name_rules [returns] =
  left_rest_name [THEN walk_pure(1)] left_rest_name [THEN walk_pure(2)] left_rest_name [THEN yields_pure]

lemma left_double_rest_name:
  "has_left p n \<Longrightarrow> has_left (snd (double_rest_name r p)) n"
  unfolding double_rest_name_def
  by (rule pure_left) (rule steps returns ends | assumption | simp; fail | auto; fail)+

lemmas double_rest_name_rules [returns] =
  left_double_rest_name [THEN walk_pure(1)] left_double_rest_name [THEN walk_pure(2)] left_double_rest_name [THEN yields_pure]

lemma left_pattern_binding:
  "has_left p n \<Longrightarrow> has_left (snd (pattern_binding s x p)) n"
  unfolding pattern_binding_def
  by (rule pure_left) (rule steps returns ends | assumption | simp; fail | auto; fail)+

lemmas pattern_binding_rules [returns] =
  left_pattern_binding [THEN walk_pure(1)] left_pattern_binding [THEN walk_pure(2)] left_pattern_binding [THEN yields_pure]

lemma left_method_name_from_token:
  "has_left p n \<Longrightarrow> has_left (snd (method_name_from_token t p)) n"
  unfolding method_name_from_token_def
  by (rule pure_left) (rule steps returns ends | assumption | simp; fail | auto; fail)+

lemmas method_name_from_token_rules [returns] =
  left_method_name_from_token [THEN walk_pure(1)] left_method_name_from_token [THEN walk_pure(2)] left_method_name_from_token [THEN yields_pure]

lemma left_unary_suffix:
  "has_left p n \<Longrightarrow> has_left (snd (unary_suffix name m p)) n"
  unfolding unary_suffix_def
  by (rule pure_left) (rule steps returns ends | assumption | simp; fail | auto; fail)+

lemmas unary_suffix_rules [returns] =
  left_unary_suffix [THEN walk_pure(1)] left_unary_suffix [THEN walk_pure(2)] left_unary_suffix [THEN yields_pure]

lemma left_def_suffix:
  "has_left p n \<Longrightarrow> has_left (snd (def_suffix name m p)) n"
  unfolding def_suffix_def
  by (rule pure_left) (rule steps returns ends | assumption | simp; fail | auto; fail)+

lemmas def_suffix_rules [returns] =
  left_def_suffix [THEN walk_pure(1)] left_def_suffix [THEN walk_pure(2)] left_def_suffix [THEN yields_pure]

lemma left_match_singleton:
  "has_left p n \<Longrightarrow> has_left (snd (match_singleton  p)) n"
  unfolding match_singleton_def
  by (rule pure_left) (rule steps returns ends | assumption | simp; fail | auto; fail)+

lemmas match_singleton_rules [returns] =
  left_match_singleton [THEN walk_pure(1)] left_match_singleton [THEN walk_pure(2)] left_match_singleton [THEN yields_pure]

context parser_knot
begin

lemma array_pattern_loop_returns [THEN within_mono, returns]:
  "has_left p n \<Longrightarrow> 5 * n + 2 < N \<Longrightarrow>
    yields (array_pattern_loop K b a p) (within n)"
  by (erule loop_induct2 [where g = "array_pattern_loop K"], subst array_pattern_loop.simps)
    (rule walk_close_pattern walk_pattern_key left_close_block infix_walk steps returns ends
     loops_call2 [where g = "array_pattern_loop K"] | assumption | simp; fail | auto; fail)+

lemma parse_array_pattern_returns [THEN within_mono, returns]:
  "has_left p n \<Longrightarrow> 5 * n + 2 < N \<Longrightarrow>
    yields (parse_array_pattern K s p) (within n)"
  unfolding parse_array_pattern_def
  by (rule walk_close_pattern walk_pattern_key left_close_block infix_walk steps returns ends |
     assumption | simp; fail | auto; fail)+

lemma hash_pattern_loop_returns [THEN within_mono, returns]:
  "has_left p n \<Longrightarrow> 5 * n + 2 < N \<Longrightarrow>
    yields (hash_pattern_loop K xs r p) (within n)"
  by (erule loop_induct2 [where g = "hash_pattern_loop K"], subst hash_pattern_loop.simps)
    (rule walk_close_pattern walk_pattern_key left_close_block infix_walk steps returns ends
     loops_call2 [where g = "hash_pattern_loop K"] | assumption | simp; fail | auto; fail)+

lemma parse_hash_pattern_returns [THEN within_mono, returns]:
  "has_left p n \<Longrightarrow> 5 * n + 2 < N \<Longrightarrow>
    yields (parse_hash_pattern K s p) (within n)"
  unfolding parse_hash_pattern_def
  by (rule walk_close_pattern walk_pattern_key left_close_block infix_walk steps returns ends |
     assumption | simp; fail | auto; fail)+

lemma negative_pattern_returns [THEN within_mono, returns]:
  "has_left p n \<Longrightarrow> 5 * n < N \<Longrightarrow>
    yields (negative_pattern s p) (within n)"
  unfolding negative_pattern_def
  by (rule walk_close_pattern walk_pattern_key left_close_block infix_walk steps returns ends |
     assumption | simp; fail | auto; fail)+

lemma capture_pattern_returns [THEN within_mono, returns]:
  "has_left p n \<Longrightarrow> tok_ok t \<Longrightarrow> tok_named (t_kind t) \<Longrightarrow> 5 * n < N \<Longrightarrow>
    yields (capture_pattern t s p) (within n)"
  unfolding capture_pattern_def
  by (rule walk_close_pattern walk_pattern_key left_close_block infix_walk steps returns ends |
     assumption | simp; fail | auto; fail)+

lemma pattern_primary_returns [THEN within_mono, returns]:
  "has_left p n \<Longrightarrow> tok_ok t \<Longrightarrow> cur p = t_kind t \<Longrightarrow> (t_kind t \<noteq> TOK_EOF \<longrightarrow> 0 < n) \<Longrightarrow> 5 * n + 2 \<le> N \<Longrightarrow>
    yields (pattern_primary K t s p) (within n)"
  unfolding pattern_primary_def
  by (rule walk_close_pattern walk_pattern_key left_close_block infix_walk steps returns ends |
     assumption | simp; fail | auto; fail)+

lemma parse_pattern_returns [THEN within_mono, returns]:
  "has_left p n \<Longrightarrow> 5 * n + 2 \<le> N \<Longrightarrow>
    yields (parse_pattern K p) (within n)"
  unfolding parse_pattern_def
  by (rule walk_close_pattern walk_pattern_key left_close_block infix_walk steps returns ends |
     assumption | simp; fail | auto; fail)+

lemma const_path_parts_returns [THEN within_mono, returns]:
  "has_left p n \<Longrightarrow> 5 * n < N \<Longrightarrow>
    yields (const_path_parts v p) (within n)"
  by (erule loop_induct [where f = "const_path_parts"], subst const_path_parts.simps)
    (rule walk_close_pattern walk_pattern_key left_close_block infix_walk steps returns ends
     loops_call [where f = "const_path_parts"] | assumption | simp; fail | auto; fail)+

lemma parse_const_path_name_returns [THEN within_mono, returns]:
  "has_left p n \<Longrightarrow> 5 * n < N \<Longrightarrow>
    yields (parse_const_path_name  p) (within n)"
  unfolding parse_const_path_name_def
  by (rule walk_close_pattern walk_pattern_key left_close_block infix_walk steps returns ends |
     assumption | simp; fail | auto; fail)+

lemma rescue_classes_returns [THEN within_mono, returns]:
  "has_left p n \<Longrightarrow> 5 * n + 1 < N \<Longrightarrow>
    yields (rescue_classes K xs p) (within n)"
  by (erule loop_induct [where f = "rescue_classes K"], subst rescue_classes.simps)
    (rule walk_close_pattern walk_pattern_key left_close_block infix_walk steps returns ends
     loops_call [where f = "rescue_classes K"] | assumption | simp; fail | auto; fail)+

lemma rescue_var_returns [THEN within_mono, returns]:
  "has_left p n \<Longrightarrow> 5 * n < N \<Longrightarrow>
    yields (rescue_var  p) (within n)"
  unfolding rescue_var_def
  by (rule walk_close_pattern walk_pattern_key left_close_block infix_walk steps returns ends |
     assumption | simp; fail | auto; fail)+

lemma rescue_clauses_returns [THEN within_mono, returns]:
  "has_left p n \<Longrightarrow> 5 * n \<le> N \<Longrightarrow>
    yields (rescue_clauses K s xs p) (within n)"
  by (erule loop_induct [where f = "rescue_clauses K s"], subst rescue_clauses.simps)
    (rule walk_close_pattern walk_pattern_key left_close_block infix_walk steps returns ends
     loops_call [where f = "rescue_clauses K s"] | assumption | simp; fail | auto; fail)+

lemma opt_clause_returns [THEN within_mono, returns]:
  "has_left p n \<Longrightarrow> k \<noteq> TOK_EOF \<Longrightarrow> 5 * n \<le> N \<Longrightarrow>
    yields (opt_clause K k p) (within n)"
  unfolding opt_clause_def
  by (rule walk_close_pattern walk_pattern_key left_close_block infix_walk steps returns ends |
     assumption | simp; fail | auto; fail)+

lemma wrap_rescue_ensure_returns [THEN within_mono, returns]:
  "has_left p n \<Longrightarrow> 5 * n \<le> N \<Longrightarrow>
    yields (wrap_rescue_ensure K s x p) (within n)"
  unfolding wrap_rescue_ensure_def
  by (rule walk_close_pattern walk_pattern_key left_close_block infix_walk steps returns ends |
     assumption | simp; fail | auto; fail)+

lemma expr_list_loop_returns [THEN within_mono, returns]:
  "has_left p n \<Longrightarrow> 5 * n \<le> N \<Longrightarrow>
    yields (expr_list_loop K b c xs p) (within n)"
  by (erule loop_induct [where f = "expr_list_loop K b c"], subst expr_list_loop.simps)
    (rule walk_close_pattern walk_pattern_key left_close_block infix_walk steps returns ends
     loops_call [where f = "expr_list_loop K b c"] | assumption | simp; fail | auto; fail)+

lemma parse_expr_list_returns [THEN within_mono, returns]:
  "has_left p n \<Longrightarrow> 5 * n \<le> N \<Longrightarrow>
    yields (parse_expr_list K x b c p) (within n)"
  unfolding parse_expr_list_def
  by (rule walk_close_pattern walk_pattern_key left_close_block infix_walk steps returns ends |
     assumption | simp; fail | auto; fail)+

lemma target_list_returns [THEN within_mono, returns]:
  "has_left p n \<Longrightarrow> 5 * n \<le> N \<Longrightarrow>
    yields (target_list K x p) (within n)"
  unfolding target_list_def
  by (rule walk_close_pattern walk_pattern_key left_close_block infix_walk steps returns ends |
     assumption | simp; fail | auto; fail)+

lemma parse_assignment_target_elem_returns [THEN within_mono, returns]:
  "has_left p n \<Longrightarrow> 5 * n + 2 \<le> N \<Longrightarrow>
    yields (parse_assignment_target_elem K p) (within (n - taken p))"
  unfolding parse_assignment_target_elem_def
  by (rule walk_close_pattern walk_pattern_key left_close_block infix_walk steps returns ends |
     assumption | simp; fail | auto; fail)+

end

subsection \<open>Statements and bodies\<close>

context parser_knot
begin

lemma stmt_hook_returns [THEN within_mono, returns]:
  "has_left p n \<Longrightarrow> cur p \<noteq> TOK_EOF \<Longrightarrow> 0 < n \<Longrightarrow> 5 * n \<le> N \<Longrightarrow>
    yields (stmt_hook K k s p) (within (n - 1))"
  unfolding stmt_hook_def
  by (rule walk_close_pattern walk_pattern_key left_close_block infix_walk steps returns ends |
     assumption | simp; fail | auto; fail)+

lemma then_body_returns [THEN within_mono, returns]:
  "has_left p n \<Longrightarrow> k \<noteq> TOK_EOF \<Longrightarrow> 5 * n + 4 < N \<Longrightarrow>
    yields (then_body K k p) (within n)"
  unfolding then_body_def
  by (rule walk_close_pattern walk_pattern_key left_close_block infix_walk steps returns ends |
     assumption | simp; fail | auto; fail)+

lemma elsif_loop_returns [THEN within_mono, returns]:
  "has_left p n \<Longrightarrow> 5 * n \<le> N \<Longrightarrow>
    yields (elsif_loop K s x p) (within n)"
  by (erule loop_induct [where f = "elsif_loop K s"], subst elsif_loop.simps)
    (rule walk_close_pattern walk_pattern_key left_close_block infix_walk steps returns ends
     loops_call [where f = "elsif_loop K s"] | assumption | simp; fail | auto; fail)+

lemma stmt_if_returns [THEN within_mono, returns]:
  "has_left p n \<Longrightarrow> cur p \<noteq> TOK_EOF \<Longrightarrow> 0 < n \<Longrightarrow> 5 * n \<le> N \<Longrightarrow>
    yields (stmt_if K k s p) (within (n - 1))"
  unfolding stmt_if_def
  by (rule walk_close_pattern walk_pattern_key left_close_block infix_walk steps returns ends |
     assumption | simp; fail | auto; fail)+

lemma stmt_while_returns [THEN within_mono, returns]:
  "has_left p n \<Longrightarrow> cur p \<noteq> TOK_EOF \<Longrightarrow> 0 < n \<Longrightarrow> 5 * n \<le> N \<Longrightarrow>
    yields (stmt_while K k s p) (within (n - 1))"
  unfolding stmt_while_def
  by (rule walk_close_pattern walk_pattern_key left_close_block infix_walk steps returns ends |
     assumption | simp; fail | auto; fail)+

lemma stmt_begin_returns [THEN within_mono, returns]:
  "has_left p n \<Longrightarrow> cur p \<noteq> TOK_EOF \<Longrightarrow> 0 < n \<Longrightarrow> 5 * n \<le> N \<Longrightarrow>
    yields (stmt_begin K s p) (within (n - 1))"
  unfolding stmt_begin_def
  by (rule walk_close_pattern walk_pattern_key left_close_block infix_walk steps returns ends |
     assumption | simp; fail | auto; fail)+

lemma stmt_for_returns [THEN within_mono, returns]:
  "has_left p n \<Longrightarrow> cur p \<noteq> TOK_EOF \<Longrightarrow> 0 < n \<Longrightarrow> 5 * n \<le> N \<Longrightarrow>
    yields (stmt_for K s p) (within (n - 1))"
  unfolding stmt_for_def
  by (rule walk_close_pattern walk_pattern_key left_close_block infix_walk steps returns ends |
     assumption | simp; fail | auto; fail)+

lemma def_parts_returns [THEN within_mono, returns]:
  "has_left p n \<Longrightarrow> 5 * n < N \<Longrightarrow>
    yields (def_parts xs p) (within n)"
  by (erule loop_induct [where f = "def_parts"], subst def_parts.simps)
    (rule walk_close_pattern walk_pattern_key left_close_block infix_walk steps returns ends
     loops_call [where f = "def_parts"] | assumption | simp; fail | auto; fail)+

lemma def_const_receiver_returns [THEN within_mono, returns]:
  "has_left p n \<Longrightarrow> tok_ok t \<Longrightarrow> 5 * n < N \<Longrightarrow>
    yields (def_const_receiver t p) (within n)"
  unfolding def_const_receiver_def
  by (rule walk_close_pattern walk_pattern_key left_close_block infix_walk steps returns ends |
     assumption | simp; fail | auto; fail)+

lemma def_dot_receiver_returns [THEN within_mono, returns]:
  "has_left p n \<Longrightarrow> 5 * n < N \<Longrightarrow>
    yields (def_dot_receiver x t p) (within n)"
  unfolding def_dot_receiver_def
  by (rule walk_close_pattern walk_pattern_key left_close_block infix_walk steps returns ends |
     assumption | simp; fail | auto; fail)+

lemma def_params_returns [THEN within_mono, returns]:
  "has_left p n \<Longrightarrow> 5 * n < N \<Longrightarrow>
    yields (def_params K t p) (within n)"
  unfolding def_params_def
  by (rule walk_close_pattern walk_pattern_key left_close_block infix_walk steps returns ends |
     assumption | simp; fail | auto; fail)+

lemma def_body_returns [THEN within_mono, returns]:
  "has_left p n \<Longrightarrow> 5 * n + 4 < N \<Longrightarrow>
    yields (def_body K s x m xs p) (within n)"
  unfolding def_body_def
  by (rule walk_close_pattern walk_pattern_key left_close_block infix_walk steps returns ends |
     assumption | simp; fail | auto; fail)+

lemma stmt_def_returns [THEN within_mono, returns]:
  "has_left p n \<Longrightarrow> cur p \<noteq> TOK_EOF \<Longrightarrow> 0 < n \<Longrightarrow> 5 * n \<le> N \<Longrightarrow>
    yields (stmt_def K s p) (within (n - 1))"
  unfolding stmt_def_def
  by (rule walk_close_pattern walk_pattern_key left_close_block infix_walk steps returns ends |
     assumption | simp; fail | rule walk_split | auto; fail)+

lemma alias_name_returns [THEN within_mono, returns]:
  "has_left p n \<Longrightarrow> 5 * n < N \<Longrightarrow>
    yields (alias_name m p) (within n)"
  unfolding alias_name_def
  by (rule walk_close_pattern walk_pattern_key left_close_block infix_walk steps returns ends |
     assumption | simp; fail | auto; fail)+

lemma stmt_alias_returns [THEN within_mono, returns]:
  "has_left p n \<Longrightarrow> cur p \<noteq> TOK_EOF \<Longrightarrow> 0 < n \<Longrightarrow> 5 * n \<le> N \<Longrightarrow>
    yields (stmt_alias s p) (within (n - 1))"
  unfolding stmt_alias_def
  by (rule walk_close_pattern walk_pattern_key left_close_block infix_walk steps returns ends |
     assumption | simp; fail | auto; fail)+

lemma ended_body_returns [THEN within_mono, returns]:
  "has_left p n \<Longrightarrow> 5 * n + 4 < N \<Longrightarrow>
    yields (ended_body K p) (within n)"
  unfolding ended_body_def
  by (rule walk_close_pattern walk_pattern_key left_close_block infix_walk steps returns ends |
     assumption | simp; fail | auto; fail)+

lemma stmt_class_returns [THEN within_mono, returns]:
  "has_left p n \<Longrightarrow> cur p \<noteq> TOK_EOF \<Longrightarrow> 0 < n \<Longrightarrow> 5 * n \<le> N \<Longrightarrow>
    yields (stmt_class K s p) (within (n - 1))"
  unfolding stmt_class_def
  by (rule walk_close_pattern walk_pattern_key left_close_block infix_walk steps returns ends |
     assumption | simp; fail | auto; fail)+

lemma stmt_module_returns [THEN within_mono, returns]:
  "has_left p n \<Longrightarrow> cur p \<noteq> TOK_EOF \<Longrightarrow> 0 < n \<Longrightarrow> 5 * n \<le> N \<Longrightarrow>
    yields (stmt_module K s p) (within (n - 1))"
  unfolding stmt_module_def
  by (rule walk_close_pattern walk_pattern_key left_close_block infix_walk steps returns ends |
     assumption | simp; fail | auto; fail)+

lemma when_patterns_returns [THEN within_mono, returns]:
  "has_left p n \<Longrightarrow> 5 * n \<le> N \<Longrightarrow>
    yields (when_patterns K xs p) (within n)"
  by (erule loop_induct [where f = "when_patterns K"], subst when_patterns.simps)
    (rule walk_close_pattern walk_pattern_key left_close_block infix_walk steps returns ends
     loops_call [where f = "when_patterns K"] | assumption | simp; fail | auto; fail)+

lemma when_loop_returns [THEN within_mono, returns]:
  "has_left p n \<Longrightarrow> 5 * n \<le> N \<Longrightarrow>
    yields (when_loop K xs p) (within n)"
  by (erule loop_induct [where f = "when_loop K"], subst when_loop.simps)
    (rule walk_close_pattern walk_pattern_key left_close_block infix_walk steps returns ends
     loops_call [where f = "when_loop K"] | assumption | simp; fail | auto; fail)+

lemma in_guard_returns [THEN within_mono, returns]:
  "has_left p n \<Longrightarrow> 5 * n \<le> N \<Longrightarrow>
    yields (in_guard K p) (within n)"
  unfolding in_guard_def
  by (rule walk_close_pattern walk_pattern_key left_close_block infix_walk steps returns ends |
     assumption | simp; fail | auto; fail)+

lemma in_loop_returns [THEN within_mono, returns]:
  "has_left p n \<Longrightarrow> 5 * n \<le> N \<Longrightarrow>
    yields (in_loop K xs p) (within n)"
  by (erule loop_induct [where f = "in_loop K"], subst in_loop.simps)
    (rule walk_close_pattern walk_pattern_key left_close_block infix_walk steps returns ends
     loops_call [where f = "in_loop K"] | assumption | simp; fail | auto; fail)+

lemma stmt_case_returns [THEN within_mono, returns]:
  "has_left p n \<Longrightarrow> cur p \<noteq> TOK_EOF \<Longrightarrow> 0 < n \<Longrightarrow> 5 * n \<le> N \<Longrightarrow>
    yields (stmt_case K s p) (within (n - 1))"
  unfolding stmt_case_def
  by (rule walk_close_pattern walk_pattern_key left_close_block infix_walk steps returns ends |
     assumption | simp; fail | auto; fail)+

lemma masgn_returns [THEN within_mono, returns]:
  "has_left p n \<Longrightarrow> 5 * n + 1 < N \<Longrightarrow>
    yields (masgn K s x p) (within n)"
  unfolding masgn_def
  by (rule walk_close_pattern walk_pattern_key left_close_block infix_walk steps returns ends |
     assumption | simp; fail | auto; fail)+

lemma stmt_expr_returns [THEN within_mono, returns]:
  "has_left p n \<Longrightarrow> 5 * n + 3 \<le> N \<Longrightarrow>
    yields (stmt_expr K t s p) (within (n - taken p))"
  unfolding stmt_expr_def
  by (rule walk_close_pattern walk_pattern_key left_close_block infix_walk steps returns ends |
     assumption | simp; fail | auto; fail)+

lemma opt_rescue_returns [THEN within_mono, returns]:
  "has_left p n \<Longrightarrow> 5 * n \<le> N \<Longrightarrow>
    yields (opt_rescue K s x p) (within n)"
  unfolding opt_rescue_def
  by (rule walk_close_pattern walk_pattern_key left_close_block infix_walk steps returns ends |
     assumption | simp; fail | auto; fail)+

lemma condition_modifier_returns [THEN within_mono, returns]:
  "has_left p n \<Longrightarrow> 5 * n \<le> N \<Longrightarrow>
    yields (condition_modifier K s x p) (within n)"
  unfolding condition_modifier_def
  by (rule walk_close_pattern walk_pattern_key left_close_block infix_walk steps returns ends |
     assumption | simp; fail | auto; fail)+

lemma stmt_simple_returns [THEN within_mono, returns]:
  "has_left p n \<Longrightarrow> 5 * n + 3 \<le> N \<Longrightarrow>
    yields (stmt_simple K t s p) (within (n - taken p))"
  unfolding stmt_simple_def
  by (rule walk_close_pattern walk_pattern_key left_close_block infix_walk steps returns ends |
     assumption | simp; fail | auto; fail)+

lemma parse_stmt_returns [THEN within_mono, returns]:
  "has_left p n \<Longrightarrow> 5 * n + stmt_rank p \<le> N \<Longrightarrow>
    yields (parse_stmt K p) (within (n - taken p))"
  unfolding parse_stmt_def
  by (rule walk_close_pattern walk_pattern_key left_close_block infix_walk steps returns ends |
     assumption | simp add: stmt_rank_def statement_kinds_def; fail | (drule conjunct1, drule
     hook_of_const, simp add: taken_def; fail) | auto simp: stmt_rank_def statement_kinds_def;
     fail)+

lemma body_loop_returns [THEN within_mono, returns]:
  "has_left p n \<Longrightarrow> 5 * n + 3 < N \<Longrightarrow>
    yields (body_loop K b xs p) (within n)"
  by (erule loop_induct [where f = "body_loop K b"], subst body_loop.simps)
    (rule walk_close_pattern walk_pattern_key left_close_block infix_walk steps returns ends
     loops_call [where f = "body_loop K b"] | assumption | simp add: stmt_rank_def body_ends_def;
     fail | auto simp: stmt_rank_def body_ends_def; fail)+

lemma parse_body_returns [THEN within_mono, returns]:
  "has_left p n \<Longrightarrow> 5 * n + 4 \<le> N \<Longrightarrow>
    yields (parse_body K b p) (within n)"
  unfolding parse_body_def
  by (rule walk_close_pattern walk_pattern_key left_close_block infix_walk steps returns ends |
     assumption | simp; fail | auto; fail)+

lemma program_loop_returns [THEN within_mono, returns]:
  "has_left p n \<Longrightarrow> 5 * n + 3 \<le> N \<Longrightarrow>
    yields (program_loop K xs p) (within n)"
  by (erule loop_induct [where f = "program_loop K"], subst program_loop.simps)
    (rule walk_close_pattern walk_pattern_key left_close_block infix_walk steps returns ends
     loops_call [where f = "program_loop K"] | assumption | simp add: stmt_rank_def; fail | auto
     simp: stmt_rank_def; fail)+

end

end
