(* ===== verification/RunProgram.thy ===== *)
theory RunProgram
  imports RunStmt
begin

section \<open>The parser returns: programs\<close>

text \<open>The contract of a \<open>knot\<close> holds for the functions of the parser: \<open>knots (n + 1)\<close> satisfies it
  for \<open>n + 1\<close> when \<open>knots n\<close> does for \<open>n\<close>. So the parser returns on every source without heredocs,
  and its recursion is not deeper than ten levels for each character.\<close>

subsection \<open>The recursion tied\<close>

context parser_knot
begin

lemma knot_suc: "parser_knot (tie K) (Suc N)"
proof (unfold_locales, goal_cases)
  case (7 p n x b)
  then have "yields (parse_expr_continue K x b p) (within n)"
    by (intro parse_expr_continue_returns [OF _ _ order_refl]) simp_all
  then show ?case by (auto simp: yields_def within_def tie_def)
qed (simp_all add: tie_def parse_stmt_returns parse_expr_returns
    parse_assignment_target_elem_returns parse_pattern_returns parse_body_returns
    parse_block_returns cur_pos wrap_rescue_ensure_returns parse_param_node_returns)

end

lemma knots_zero: "parser_knot (knots 0) 0"
  by unfold_locales simp_all

lemma knots_ok: "parser_knot (knots n) n"
proof (induction n)
  case (Suc n)
  then show ?case by (simp only: knots.simps(2) Let_def) (rule parser_knot.knot_suc)
qed (rule knots_zero)

interpretation knot_run: parser_knot "knots n" n for n
  by (rule knots_ok)

subsection \<open>Programs\<close>

text \<open>The program is read to its end.\<close>

lemma program_loop_eof: "program_loop K xs p = Some (r, q) \<Longrightarrow> cur q = TOK_EOF"
proof -
  assume a: "program_loop K xs p = Some (r, q)"
  have "cur (snd (r, q)) = TOK_EOF"
  proof (rule program_loop.raw_induct [OF _ a], goal_cases)
    case (1 loop K xs p y)
    show ?case using 1(2)
      by (auto simp: cur_def p_peek_def lexer_peek_def Let_def dest!: 1(1)
          split: prod.splits if_splits option.splits bind_splits)
  qed
  then show ?thesis by simp
qed

lemma parser_init_left: "heredoc_free src \<Longrightarrow> has_left (parser_init src) (2 * (length src + 1))"
  using lexer_init_ok [of src]
  by (simp add: has_left_def ready_def left_def parser_init_def)

text \<open>C5: the parser is total. On every source without heredocs, of whatever tokens,
  \<open>parse_program\<close> returns: no loop runs for ever, no recursion is deeper than ten levels for each
  character and thirteen more, no null string is dereferenced. It has then read the source to its
  end, holds at most 64 errors, and the lexer has stayed inside its arrays.\<close>

theorem parse_program_returns:
  assumes "heredoc_free src" "10 * length src + 13 \<le> n"
  shows "\<exists>stmts q. parse_program n (parser_init src) =
      Some (mk_node \<lparr>sp_line = 1, sp_col = 1, sp_len = 0\<rparr> (NBody K_PROGRAM stmts), q) \<and>
    cur q = TOK_EOF \<and> length (ps_errors q) \<le> MAX_ERRORS \<and> lex_ok (ps_lexer q)"
proof -
  let ?m = "2 * (length src + 1)"
  have "yields (parse_program n (parser_init src)) (within ?m)"
    unfolding parse_program_def using parser_init_left [OF assms(1)] assms(2)
    by - (rule steps knot_run.program_loop_returns ends | assumption | simp; fail | auto; fail)+
  then obtain r q where 1: "parse_program n (parser_init src) = Some (r, q)" "has_left q ?m"
    by (auto simp: yields_def within_def)
  then show ?thesis using program_loop_eof
    by (auto simp: parse_program_def has_left_def ready_def split: bind_splits)
qed

definition broken_source :: string where
  "broken_source = ''def f(a; if ) end''"

theorem parse_program_returns_witness:
  "\<exists>stmts q. parse_program 200 (parser_init broken_source) =
      Some (mk_node \<lparr>sp_line = 1, sp_col = 1, sp_len = 0\<rparr> (NBody K_PROGRAM stmts), q) \<and>
    cur q = TOK_EOF \<and> length (ps_errors q) \<le> MAX_ERRORS \<and> lex_ok (ps_lexer q)"
proof (rule parse_program_returns)
  show "heredoc_free broken_source" by code_simp
  show "10 * length broken_source + 13 \<le> 200" by code_simp
qed

end
