(* ===== verification/RunFuel.thy ===== *)
theory RunFuel
  imports RunProgram
begin

section \<open>More fuel does not change the result\<close>

text \<open>
  The bound on the recursion is not part of the code. A run that returns with some bound returns the
  same with any larger one: every function of the parser is monotone in the functions it calls.
\<close>

definition below :: "'a option \<Rightarrow> 'a option \<Rightarrow> bool" where
  "below m m' \<longleftrightarrow> (\<forall>y. m = Some y \<longrightarrow> m' = Some y)"

lemma belowD: "m = Some y \<Longrightarrow> below m m' \<Longrightarrow> m' = Some y"
  by (simp add: below_def)

lemma below_refl: "below m m"
  by (simp add: below_def)

lemma below_walk:
  "below m m' \<Longrightarrow> (\<And>x. below (f x) (g x)) \<Longrightarrow> below (m \<bind> f) (m' \<bind> g)"
  "below n1 n2 \<Longrightarrow> below o1 o2 \<Longrightarrow> below (if b then n1 else o1) (if b then n2 else o2)"
  "(\<And>x. below (f x) (g x)) \<Longrightarrow> below (Let a f) (Let a g)"
  "(\<And>u w. below (h u w) (k u w)) \<Longrightarrow> below (case_prod h x) (case_prod k x)"
  "below q1 q2 \<Longrightarrow> (\<And>v. below (i v) (j v)) \<Longrightarrow>
     below (case z of None \<Rightarrow> q1 | Some v \<Rightarrow> i v) (case z of None \<Rightarrow> q2 | Some v \<Rightarrow> j v)"
  by (auto simp: below_def split: option.split bind_splits prod.splits)

lemma below_walk2:
  "(\<And>u w. below (h u w q) (k u w q)) \<Longrightarrow> below (case_prod h x q) (case_prod k x q)"
  by (cases x) simp

text \<open>The hypothesis of the induction over a loop, for one to four arguments.\<close>

lemma below_ih1:
  "(\<And>k x p r. c k x p = Some r \<Longrightarrow> k = K \<longrightarrow> d x p = Some r) \<Longrightarrow> \<forall>x p. below (c K x p) (d x p)"
  by (simp add: below_def)

lemma below_ih2:
  "(\<And>k x y p r. c k x y p = Some r \<Longrightarrow> k = K \<longrightarrow> d x y p = Some r) \<Longrightarrow>
   \<forall>x y p. below (c K x y p) (d x y p)"
  by (simp add: below_def)

lemma below_ih3:
  "(\<And>k x y z p r. c k x y z p = Some r \<Longrightarrow> k = K \<longrightarrow> d x y z p = Some r) \<Longrightarrow>
   \<forall>x y z p. below (c K x y z p) (d x y z p)"
  by (simp add: below_def)

lemma below_ih4:
  "(\<And>k x y z u p r. c k x y z u p = Some r \<Longrightarrow> k = K \<longrightarrow> d x y z u p = Some r) \<Longrightarrow>
   \<forall>x y z u p. below (c K x y z u p) (d x y z u p)"
  by (simp add: below_def)

named_theorems belows \<open>functions of the parser that are monotone\<close>

locale knots_below =
  fixes K K' :: knot
  assumes stmt: "below (k_stmt K p) (k_stmt K' p)"
    and expr: "below (k_expr K b p) (k_expr K' b p)"
    and continue: "below (k_continue K x b p) (k_continue K' x b p)"
    and body: "below (k_body K c p) (k_body K' c p)"
    and block: "below (k_block K p) (k_block K' p)"
    and wrap: "below (k_wrap K s y p) (k_wrap K' s y p)"
    and param: "below (k_param K c p) (k_param K' c p)"
    and target: "below (k_target K p) (k_target K' p)"
    and pattern: "below (k_pattern K p) (k_pattern K' p)"
begin

declare stmt [belows] expr [belows] continue [belows] body [belows] block [belows] wrap [belows]
  param [belows] target [belows] pattern [belows]

lemma comma_exprs_below [belows]: "below (comma_exprs K xs p) (comma_exprs K' xs p)"
  unfolding below_def
  by (intro allI impI, erule comma_exprs.raw_induct [where P =
        "\<lambda>k xs p r. k = K \<longrightarrow> comma_exprs K' xs p = Some r", THEN mp, rotated], rule refl,
      intro impI, hypsubst, subst comma_exprs.simps, erule belowD, drule below_ih1)
    (rule below_refl below_walk below_walk2 belows | (erule allE)+, assumption)+

lemma rparen_loop_below [belows]: "below (rparen_loop K stmts p) (rparen_loop K' stmts p)"
  unfolding below_def
  by (intro allI impI, erule rparen_loop.raw_induct [where P =
        "\<lambda>k stmts p r. k = K \<longrightarrow> rparen_loop K' stmts p = Some r", THEN mp, rotated], rule refl,
      intro impI, hypsubst, subst rparen_loop.simps, erule belowD, drule below_ih1)
    (rule below_refl below_walk below_walk2 belows | (erule allE)+, assumption)+

lemma parse_body_until_rparen_below [belows]: "below (parse_body_until_rparen K p) (parse_body_until_rparen K' p)"
  unfolding parse_body_until_rparen_def by (rule below_refl below_walk below_walk2 belows)+

lemma jump_values_below [belows]: "below (jump_values K xs p) (jump_values K' xs p)"
  unfolding below_def
  by (intro allI impI, erule jump_values.raw_induct [where P =
        "\<lambda>k xs p r. k = K \<longrightarrow> jump_values K' xs p = Some r", THEN mp, rotated], rule refl,
      intro impI, hypsubst, subst jump_values.simps, erule belowD, drule below_ih1)
    (rule below_refl below_walk below_walk2 belows | (erule allE)+, assumption)+

lemma parse_jump_value_below [belows]: "below (parse_jump_value K x s p) (parse_jump_value K' x s p)"
  unfolding parse_jump_value_def by (rule below_refl below_walk below_walk2 belows)+

lemma attach_pending_do_block_below [belows]: "below (attach_pending_do_block K arg min_bp p) (attach_pending_do_block K' arg min_bp p)"
  unfolding attach_pending_do_block_def by (rule below_refl below_walk below_walk2 belows)+

lemma opt_block_below [belows]: "below (opt_block K cond p) (opt_block K' cond p)"
  unfolding opt_block_def by (rule below_refl below_walk below_walk2 belows)+

lemma parse_command_hash_below [belows]: "below (parse_command_hash K x v p) (parse_command_hash K' x v p)"
  unfolding parse_command_hash_def by (rule below_refl below_walk below_walk2 belows)+

lemma arrow_pairs_below [belows]: "below (arrow_pairs K key pairs p) (arrow_pairs K' key pairs p)"
  unfolding below_def
  by (intro allI impI, erule arrow_pairs.raw_induct [where P =
        "\<lambda>k key pairs p r. k = K \<longrightarrow> arrow_pairs K' key pairs p = Some r", THEN mp, rotated], rule refl,
      intro impI, hypsubst, subst arrow_pairs.simps, erule belowD, drule below_ih2)
    (rule below_refl below_walk below_walk2 belows | (erule allE)+, assumption)+

lemma parse_arrow_hash_below [belows]: "below (parse_arrow_hash K x p) (parse_arrow_hash K' x p)"
  unfolding parse_arrow_hash_def by (rule below_refl below_walk below_walk2 belows)+

lemma parse_arg_expr_below [belows]: "below (parse_arg_expr K p) (parse_arg_expr K' p)"
  unfolding parse_arg_expr_def by (rule below_refl below_walk below_walk2 belows)+

lemma parse_command_arg_below [belows]: "below (parse_command_arg K p) (parse_command_arg K' p)"
  unfolding parse_command_arg_def by (rule below_refl below_walk below_walk2 belows)+

lemma parse_block_pass_below [belows]: "below (parse_block_pass K p) (parse_block_pass K' p)"
  unfolding parse_block_pass_def by (rule below_refl below_walk below_walk2 belows)+

lemma parse_splat_arg_below [belows]: "below (parse_splat_arg K p) (parse_splat_arg K' p)"
  unfolding parse_splat_arg_def by (rule below_refl below_walk below_walk2 belows)+

lemma command_args_loop_below [belows]: "below (command_args_loop K saved args p) (command_args_loop K' saved args p)"
  unfolding below_def
  by (intro allI impI, erule command_args_loop.raw_induct [where P =
        "\<lambda>k saved args p r. k = K \<longrightarrow> command_args_loop K' saved args p = Some r", THEN mp, rotated], rule refl,
      intro impI, hypsubst, subst command_args_loop.simps, erule belowD, drule below_ih2)
    (rule below_refl below_walk below_walk2 belows | (erule allE)+, assumption)+

lemma parse_command_args_below [belows]: "below (parse_command_args K p) (parse_command_args K' p)"
  unfolding parse_command_args_def by (rule below_refl below_walk below_walk2 belows)+

lemma args_loop_below [belows]: "below (args_loop K args p) (args_loop K' args p)"
  unfolding below_def
  by (intro allI impI, erule args_loop.raw_induct [where P =
        "\<lambda>k args p r. k = K \<longrightarrow> args_loop K' args p = Some r", THEN mp, rotated], rule refl,
      intro impI, hypsubst, subst args_loop.simps, erule belowD, drule below_ih1)
    (rule below_refl below_walk below_walk2 belows | (erule allE)+, assumption)+

lemma parse_args_below [belows]: "below (parse_args K p) (parse_args K' p)"
  unfolding parse_args_def by (rule below_refl below_walk below_walk2 belows)+

lemma paren_args_below [belows]: "below (paren_args K p) (paren_args K' p)"
  unfolding paren_args_def by (rule below_refl below_walk below_walk2 belows)+

lemma dot_args_below [belows]: "below (dot_args K v m p) (dot_args K' v m p)"
  unfolding dot_args_def by (rule below_refl below_walk below_walk2 belows)+

lemma infix_call_below [belows]: "below (infix_call K x op v p) (infix_call K' x op v p)"
  unfolding infix_call_def by (rule below_refl below_walk below_walk2 belows)+

lemma infix_dot_below [belows]: "below (infix_dot K x op p) (infix_dot K' x op p)"
  unfolding infix_dot_def by (rule below_refl below_walk below_walk2 belows)+

lemma infix_index_below [belows]: "below (infix_index K x p) (infix_index K' x p)"
  unfolding infix_index_def by (rule below_refl below_walk below_walk2 belows)+

lemma infix_assign_below [belows]: "below (infix_assign K x rbp p) (infix_assign K' x rbp p)"
  unfolding infix_assign_def by (rule below_refl below_walk below_walk2 belows)+

lemma infix_range_below [belows]: "below (infix_range K x op rbp p) (infix_range K' x op rbp p)"
  unfolding infix_range_def by (rule below_refl below_walk below_walk2 belows)+

lemma infix_binop_below [belows]: "below (infix_binop K k x op rbp p) (infix_binop K' k x op rbp p)"
  unfolding infix_binop_def by (rule below_refl below_walk below_walk2 belows)+

lemma infix_ternary_below [belows]: "below (infix_ternary K x rbp p) (infix_ternary K' x rbp p)"
  unfolding infix_ternary_def by (rule below_refl below_walk below_walk2 belows)+

lemma infix_step_below [belows]: "below (infix_step K x op rbp p) (infix_step K' x op rbp p)"
  unfolding infix_step_def by (rule below_refl below_walk below_walk2 belows)+

lemma parse_expr_continue_below [belows]: "below (parse_expr_continue K x min_bp p) (parse_expr_continue K' x min_bp p)"
  unfolding below_def
  by (intro allI impI, erule parse_expr_continue.raw_induct [where P =
        "\<lambda>k x min_bp p r. k = K \<longrightarrow> parse_expr_continue K' x min_bp p = Some r", THEN mp, rotated], rule refl,
      intro impI, hypsubst, subst parse_expr_continue.simps, erule belowD, drule below_ih2)
    (rule below_refl below_walk below_walk2 belows | (erule allE)+, assumption)+

lemma parse_hash_key_below [belows]: "below (parse_hash_key K p) (parse_hash_key K' p)"
  unfolding parse_hash_key_def by (rule below_refl below_walk below_walk2 belows)+

lemma rescued_body_below [belows]: "below (rescued_body K s body p) (rescued_body K' s body p)"
  unfolding rescued_body_def by (rule below_refl below_walk below_walk2 belows)+

lemma params_loop_below [belows]: "below (params_loop K params p) (params_loop K' params p)"
  unfolding below_def
  by (intro allI impI, erule params_loop.raw_induct [where P =
        "\<lambda>k params p r. k = K \<longrightarrow> params_loop K' params p = Some r", THEN mp, rotated], rule refl,
      intro impI, hypsubst, subst params_loop.simps, erule belowD, drule below_ih1)
    (rule below_refl below_walk below_walk2 belows | (erule allE)+, assumption)+

lemma parse_params_below [belows]: "below (parse_params K p) (parse_params K' p)"
  unfolding parse_params_def by (rule below_refl below_walk below_walk2 belows)+

lemma params_unparen_loop_below [belows]: "below (params_unparen_loop K def_line params p) (params_unparen_loop K' def_line params p)"
  unfolding below_def
  by (intro allI impI, erule params_unparen_loop.raw_induct [where P =
        "\<lambda>k def_line params p r. k = K \<longrightarrow> params_unparen_loop K' def_line params p = Some r", THEN mp, rotated], rule refl,
      intro impI, hypsubst, subst params_unparen_loop.simps, erule belowD, drule below_ih2)
    (rule below_refl below_walk below_walk2 belows | (erule allE)+, assumption)+

lemma parse_params_unparen_below [belows]: "below (parse_params_unparen K def_line p) (parse_params_unparen K' def_line p)"
  unfolding parse_params_unparen_def by (rule below_refl below_walk below_walk2 belows)+

lemma param_group_below [belows]: "below (param_group K elems p) (param_group K' elems p)"
  unfolding below_def
  by (intro allI impI, erule param_group.raw_induct [where P =
        "\<lambda>k elems p r. k = K \<longrightarrow> param_group K' elems p = Some r", THEN mp, rotated], rule refl,
      intro impI, hypsubst, subst param_group.simps, erule belowD, drule below_ih1)
    (rule below_refl below_walk below_walk2 belows | (erule allE)+, assumption)+

lemma param_default_below [belows]: "below (param_default K allow_default p) (param_default K' allow_default p)"
  unfolding param_default_def by (rule below_refl below_walk below_walk2 belows)+

lemma parse_param_node_below [belows]: "below (parse_param_node K allow_default p) (parse_param_node K' allow_default p)"
  unfolding parse_param_node_def by (rule below_refl below_walk below_walk2 belows)+

lemma block_params_below [belows]: "below (block_params K p) (block_params K' p)"
  unfolding block_params_def by (rule below_refl below_walk below_walk2 belows)+

lemma parse_block_below [belows]: "below (parse_block K p) (parse_block K' p)"
  unfolding parse_block_def by (rule below_refl below_walk below_walk2 belows)+

lemma lambda_params_below [belows]: "below (lambda_params K p) (lambda_params K' p)"
  unfolding lambda_params_def by (rule below_refl below_walk below_walk2 belows)+

lemma parse_lambda_literal_below [belows]: "below (parse_lambda_literal K s p) (parse_lambda_literal K' s p)"
  unfolding parse_lambda_literal_def by (rule below_refl below_walk below_walk2 belows)+

lemma interp_segments_below [belows]: "below (interp_segments K is_regex rope fl p) (interp_segments K' is_regex rope fl p)"
  unfolding below_def
  by (intro allI impI, erule interp_segments.raw_induct [where P =
        "\<lambda>k is_regex rope fl p r. k = K \<longrightarrow> interp_segments K' is_regex rope fl p = Some r", THEN mp, rotated], rule refl,
      intro impI, hypsubst, subst interp_segments.simps, erule belowD, drule below_ih3)
    (rule below_refl below_walk below_walk2 belows | (erule allE)+, assumption)+

lemma interp_strings_below [belows]: "below (interp_strings K is_backtick is_regex rope fl p) (interp_strings K' is_backtick is_regex rope fl p)"
  unfolding below_def
  by (intro allI impI, erule interp_strings.raw_induct [where P =
        "\<lambda>k is_backtick is_regex rope fl p r. k = K \<longrightarrow> interp_strings K' is_backtick is_regex rope fl p = Some r", THEN mp, rotated], rule refl,
      intro impI, hypsubst, subst interp_strings.simps, erule belowD, drule below_ih4)
    (rule below_refl below_walk below_walk2 belows | (erule allE)+, assumption)+

lemma parse_interp_below [belows]: "below (parse_interp K t s p) (parse_interp K' t s p)"
  unfolding parse_interp_def by (rule below_refl below_walk below_walk2 belows)+

lemma command_call_below [belows]: "below (command_call K s v p) (command_call K' s v p)"
  unfolding command_call_def by (rule below_refl below_walk below_walk2 belows)+

lemma paren_call_below [belows]: "below (paren_call K s v p) (paren_call K' s v p)"
  unfolding paren_call_def by (rule below_refl below_walk below_walk2 belows)+

lemma parse_const_below [belows]: "below (parse_const K t s p) (parse_const K' t s p)"
  unfolding parse_const_def by (rule below_refl below_walk below_walk2 belows)+

lemma parse_ident_below [belows]: "below (parse_ident K t s p) (parse_ident K' t s p)"
  unfolding parse_ident_def by (rule below_refl below_walk below_walk2 belows)+

lemma parse_yield_below [belows]: "below (parse_yield K t s p) (parse_yield K' t s p)"
  unfolding parse_yield_def by (rule below_refl below_walk below_walk2 belows)+

lemma parse_super_below [belows]: "below (parse_super K t s p) (parse_super K' t s p)"
  unfolding parse_super_def by (rule below_refl below_walk below_walk2 belows)+

lemma array_elems_below [belows]: "below (array_elems K elems p) (array_elems K' elems p)"
  unfolding below_def
  by (intro allI impI, erule array_elems.raw_induct [where P =
        "\<lambda>k elems p r. k = K \<longrightarrow> array_elems K' elems p = Some r", THEN mp, rotated], rule refl,
      intro impI, hypsubst, subst array_elems.simps, erule belowD, drule below_ih1)
    (rule below_refl below_walk below_walk2 belows | (erule allE)+, assumption)+

lemma parse_array_below [belows]: "below (parse_array K s p) (parse_array K' s p)"
  unfolding parse_array_def by (rule below_refl below_walk below_walk2 belows)+

lemma hash_pair_below [belows]: "below (hash_pair K p) (hash_pair K' p)"
  unfolding hash_pair_def by (rule below_refl below_walk below_walk2 belows)+

lemma hash_pairs_below [belows]: "below (hash_pairs K pairs p) (hash_pairs K' pairs p)"
  unfolding below_def
  by (intro allI impI, erule hash_pairs.raw_induct [where P =
        "\<lambda>k pairs p r. k = K \<longrightarrow> hash_pairs K' pairs p = Some r", THEN mp, rotated], rule refl,
      intro impI, hypsubst, subst hash_pairs.simps, erule belowD, drule below_ih1)
    (rule below_refl below_walk below_walk2 belows | (erule allE)+, assumption)+

lemma parse_hash_below [belows]: "below (parse_hash K s p) (parse_hash K' s p)"
  unfolding parse_hash_def by (rule below_refl below_walk below_walk2 belows)+

lemma parse_paren_below [belows]: "below (parse_paren K p) (parse_paren K' p)"
  unfolding parse_paren_def by (rule below_refl below_walk below_walk2 belows)+

lemma parse_defined_below [belows]: "below (parse_defined K s p) (parse_defined K' s p)"
  unfolding parse_defined_def by (rule below_refl below_walk below_walk2 belows)+

lemma parse_jump_below [belows]: "below (parse_jump K k s p) (parse_jump K' k s p)"
  unfolding parse_jump_def by (rule below_refl below_walk below_walk2 belows)+

lemma parse_beginless_below [belows]: "below (parse_beginless K t s p) (parse_beginless K' t s p)"
  unfolding parse_beginless_def by (rule below_refl below_walk below_walk2 belows)+

lemma parse_unop_below [belows]: "below (parse_unop K t s p) (parse_unop K' t s p)"
  unfolding parse_unop_def by (rule below_refl below_walk below_walk2 belows)+

lemma primary_switch_below [belows]: "below (primary_switch K t s p) (primary_switch K' t s p)"
  unfolding primary_switch_def by (rule below_refl below_walk below_walk2 belows)+

lemma parse_primary_below [belows]: "below (parse_primary K p) (parse_primary K' p)"
  unfolding parse_primary_def by (rule below_refl below_walk below_walk2 belows)+

lemma parse_expr_below [belows]: "below (parse_expr K min_bp p) (parse_expr K' min_bp p)"
  unfolding parse_expr_def by (rule below_refl below_walk below_walk2 belows)+

lemma array_pattern_loop_below [belows]: "below (array_pattern_loop K x a p) (array_pattern_loop K' x a p)"
  unfolding below_def
  by (intro allI impI, erule array_pattern_loop.raw_induct [where P =
        "\<lambda>k x a p r. k = K \<longrightarrow> array_pattern_loop K' x a p = Some r", THEN mp, rotated], rule refl,
      intro impI, hypsubst, subst array_pattern_loop.simps, erule belowD, drule below_ih2)
    (rule below_refl below_walk below_walk2 belows | (erule allE)+, assumption)+

lemma parse_array_pattern_below [belows]: "below (parse_array_pattern K s p) (parse_array_pattern K' s p)"
  unfolding parse_array_pattern_def by (rule below_refl below_walk below_walk2 belows)+

lemma hash_pattern_loop_below [belows]: "below (hash_pattern_loop K elems v p) (hash_pattern_loop K' elems v p)"
  unfolding below_def
  by (intro allI impI, erule hash_pattern_loop.raw_induct [where P =
        "\<lambda>k elems v p r. k = K \<longrightarrow> hash_pattern_loop K' elems v p = Some r", THEN mp, rotated], rule refl,
      intro impI, hypsubst, subst hash_pattern_loop.simps, erule belowD, drule below_ih2)
    (rule below_refl below_walk below_walk2 belows | (erule allE)+, assumption)+

lemma parse_hash_pattern_below [belows]: "below (parse_hash_pattern K s p) (parse_hash_pattern K' s p)"
  unfolding parse_hash_pattern_def by (rule below_refl below_walk below_walk2 belows)+

lemma pattern_primary_below [belows]: "below (pattern_primary K t s p) (pattern_primary K' t s p)"
  unfolding pattern_primary_def by (rule below_refl below_walk below_walk2 belows)+

lemma parse_pattern_below [belows]: "below (parse_pattern K p) (parse_pattern K' p)"
  unfolding parse_pattern_def by (rule below_refl below_walk below_walk2 belows)+

lemma rescue_classes_below [belows]: "below (rescue_classes K xs p) (rescue_classes K' xs p)"
  unfolding below_def
  by (intro allI impI, erule rescue_classes.raw_induct [where P =
        "\<lambda>k xs p r. k = K \<longrightarrow> rescue_classes K' xs p = Some r", THEN mp, rotated], rule refl,
      intro impI, hypsubst, subst rescue_classes.simps, erule belowD, drule below_ih1)
    (rule below_refl below_walk below_walk2 belows | (erule allE)+, assumption)+

lemma rescue_clauses_below [belows]: "below (rescue_clauses K s rescues p) (rescue_clauses K' s rescues p)"
  unfolding below_def
  by (intro allI impI, erule rescue_clauses.raw_induct [where P =
        "\<lambda>k s rescues p r. k = K \<longrightarrow> rescue_clauses K' s rescues p = Some r", THEN mp, rotated], rule refl,
      intro impI, hypsubst, subst rescue_clauses.simps, erule belowD, drule below_ih2)
    (rule below_refl below_walk below_walk2 belows | (erule allE)+, assumption)+

lemma opt_clause_below [belows]: "below (opt_clause K k p) (opt_clause K' k p)"
  unfolding opt_clause_def by (rule below_refl below_walk below_walk2 belows)+

lemma wrap_rescue_ensure_below [belows]: "below (wrap_rescue_ensure K s body p) (wrap_rescue_ensure K' s body p)"
  unfolding wrap_rescue_ensure_def by (rule below_refl below_walk below_walk2 belows)+

lemma expr_list_loop_below [belows]: "below (expr_list_loop K min_bp is_target elems p) (expr_list_loop K' min_bp is_target elems p)"
  unfolding below_def
  by (intro allI impI, erule expr_list_loop.raw_induct [where P =
        "\<lambda>k min_bp is_target elems p r. k = K \<longrightarrow> expr_list_loop K' min_bp is_target elems p = Some r", THEN mp, rotated], rule refl,
      intro impI, hypsubst, subst expr_list_loop.simps, erule belowD, drule below_ih3)
    (rule below_refl below_walk below_walk2 belows | (erule allE)+, assumption)+

lemma parse_expr_list_below [belows]: "below (parse_expr_list K x min_bp is_target p) (parse_expr_list K' x min_bp is_target p)"
  unfolding parse_expr_list_def by (rule below_refl below_walk below_walk2 belows)+

lemma target_list_below [belows]: "below (target_list K x p) (target_list K' x p)"
  unfolding target_list_def by (rule below_refl below_walk below_walk2 belows)+

lemma parse_assignment_target_elem_below [belows]: "below (parse_assignment_target_elem K p) (parse_assignment_target_elem K' p)"
  unfolding parse_assignment_target_elem_def by (rule below_refl below_walk below_walk2 belows)+

lemma stmt_hook_below [belows]: "below (stmt_hook K k s p) (stmt_hook K' k s p)"
  unfolding stmt_hook_def by (rule below_refl below_walk below_walk2 belows)+

lemma then_body_below [belows]: "below (then_body K k p) (then_body K' k p)"
  unfolding then_body_def by (rule below_refl below_walk below_walk2 belows)+

lemma elsif_loop_below [belows]: "below (elsif_loop K s chain p) (elsif_loop K' s chain p)"
  unfolding below_def
  by (intro allI impI, erule elsif_loop.raw_induct [where P =
        "\<lambda>k s chain p r. k = K \<longrightarrow> elsif_loop K' s chain p = Some r", THEN mp, rotated], rule refl,
      intro impI, hypsubst, subst elsif_loop.simps, erule belowD, drule below_ih2)
    (rule below_refl below_walk below_walk2 belows | (erule allE)+, assumption)+

lemma stmt_if_below [belows]: "below (stmt_if K k s p) (stmt_if K' k s p)"
  unfolding stmt_if_def by (rule below_refl below_walk below_walk2 belows)+

lemma stmt_while_below [belows]: "below (stmt_while K k s p) (stmt_while K' k s p)"
  unfolding stmt_while_def by (rule below_refl below_walk below_walk2 belows)+

lemma stmt_begin_below [belows]: "below (stmt_begin K s p) (stmt_begin K' s p)"
  unfolding stmt_begin_def by (rule below_refl below_walk below_walk2 belows)+

lemma stmt_for_below [belows]: "below (stmt_for K s p) (stmt_for K' s p)"
  unfolding stmt_for_def by (rule below_refl below_walk below_walk2 belows)+

lemma def_params_below [belows]: "below (def_params K v p) (def_params K' v p)"
  unfolding def_params_def by (rule below_refl below_walk below_walk2 belows)+

lemma def_body_below [belows]: "below (def_body K s recv m params p) (def_body K' s recv m params p)"
  unfolding def_body_def by (rule below_refl below_walk below_walk2 belows)+

lemma stmt_def_below [belows]: "below (stmt_def K s p) (stmt_def K' s p)"
  unfolding stmt_def_def by (rule below_refl below_walk below_walk2 belows)+

lemma ended_body_below [belows]: "below (ended_body K p) (ended_body K' p)"
  unfolding ended_body_def by (rule below_refl below_walk below_walk2 belows)+

lemma stmt_class_below [belows]: "below (stmt_class K s p) (stmt_class K' s p)"
  unfolding stmt_class_def by (rule below_refl below_walk below_walk2 belows)+

lemma stmt_module_below [belows]: "below (stmt_module K s p) (stmt_module K' s p)"
  unfolding stmt_module_def by (rule below_refl below_walk below_walk2 belows)+

lemma when_patterns_below [belows]: "below (when_patterns K pats p) (when_patterns K' pats p)"
  unfolding below_def
  by (intro allI impI, erule when_patterns.raw_induct [where P =
        "\<lambda>k pats p r. k = K \<longrightarrow> when_patterns K' pats p = Some r", THEN mp, rotated], rule refl,
      intro impI, hypsubst, subst when_patterns.simps, erule belowD, drule below_ih1)
    (rule below_refl below_walk below_walk2 belows | (erule allE)+, assumption)+

lemma when_loop_below [belows]: "below (when_loop K whens p) (when_loop K' whens p)"
  unfolding below_def
  by (intro allI impI, erule when_loop.raw_induct [where P =
        "\<lambda>k whens p r. k = K \<longrightarrow> when_loop K' whens p = Some r", THEN mp, rotated], rule refl,
      intro impI, hypsubst, subst when_loop.simps, erule belowD, drule below_ih1)
    (rule below_refl below_walk below_walk2 belows | (erule allE)+, assumption)+

lemma in_guard_below [belows]: "below (in_guard K p) (in_guard K' p)"
  unfolding in_guard_def by (rule below_refl below_walk below_walk2 belows)+

lemma in_loop_below [belows]: "below (in_loop K ins p) (in_loop K' ins p)"
  unfolding below_def
  by (intro allI impI, erule in_loop.raw_induct [where P =
        "\<lambda>k ins p r. k = K \<longrightarrow> in_loop K' ins p = Some r", THEN mp, rotated], rule refl,
      intro impI, hypsubst, subst in_loop.simps, erule belowD, drule below_ih1)
    (rule below_refl below_walk below_walk2 belows | (erule allE)+, assumption)+

lemma stmt_case_below [belows]: "below (stmt_case K s p) (stmt_case K' s p)"
  unfolding stmt_case_def by (rule below_refl below_walk below_walk2 belows)+

lemma masgn_below [belows]: "below (masgn K s lhs p) (masgn K' s lhs p)"
  unfolding masgn_def by (rule below_refl below_walk below_walk2 belows)+

lemma stmt_expr_below [belows]: "below (stmt_expr K t s p) (stmt_expr K' t s p)"
  unfolding stmt_expr_def by (rule below_refl below_walk below_walk2 belows)+

lemma opt_rescue_below [belows]: "below (opt_rescue K s x p) (opt_rescue K' s x p)"
  unfolding opt_rescue_def by (rule below_refl below_walk below_walk2 belows)+

lemma condition_modifier_below [belows]: "below (condition_modifier K s x p) (condition_modifier K' s x p)"
  unfolding condition_modifier_def by (rule below_refl below_walk below_walk2 belows)+

lemma stmt_simple_below [belows]: "below (stmt_simple K t s p) (stmt_simple K' t s p)"
  unfolding stmt_simple_def by (rule below_refl below_walk below_walk2 belows)+

lemma parse_stmt_below [belows]: "below (parse_stmt K p) (parse_stmt K' p)"
  unfolding parse_stmt_def by (rule below_refl below_walk below_walk2 belows)+

lemma body_loop_below [belows]: "below (body_loop K stop_at_rbrace stmts p) (body_loop K' stop_at_rbrace stmts p)"
  unfolding below_def
  by (intro allI impI, erule body_loop.raw_induct [where P =
        "\<lambda>k stop_at_rbrace stmts p r. k = K \<longrightarrow> body_loop K' stop_at_rbrace stmts p = Some r", THEN mp, rotated], rule refl,
      intro impI, hypsubst, subst body_loop.simps, erule belowD, drule below_ih2)
    (rule below_refl below_walk below_walk2 belows | (erule allE)+, assumption)+

lemma parse_body_below [belows]: "below (parse_body K stop_at_rbrace p) (parse_body K' stop_at_rbrace p)"
  unfolding parse_body_def by (rule below_refl below_walk below_walk2 belows)+

lemma program_loop_below [belows]: "below (program_loop K stmts p) (program_loop K' stmts p)"
  unfolding below_def
  by (intro allI impI, erule program_loop.raw_induct [where P =
        "\<lambda>k stmts p r. k = K \<longrightarrow> program_loop K' stmts p = Some r", THEN mp, rotated], rule refl,
      intro impI, hypsubst, subst program_loop.simps, erule belowD, drule below_ih1)
    (rule below_refl below_walk below_walk2 belows | (erule allE)+, assumption)+

lemma map_option_below: "below m m' \<Longrightarrow> below (map_option f m) (map_option f m')"
  by (auto simp: below_def)

lemma tie_below: "knots_below (tie K) (tie K')"
  by unfold_locales (simp_all add: tie_def map_option_below parse_stmt_below parse_expr_below
      parse_expr_continue_below parse_body_below parse_block_below wrap_rescue_ensure_below
      parse_param_node_below parse_pattern_below parse_assignment_target_elem_below)

end

subsection \<open>Any two bounds\<close>

lemma knots_below_suc: "knots_below (knots n) (knots (Suc n))"
proof (induction n)
  case 0
  show ?case by unfold_locales (simp_all add: below_def)
next
  case (Suc n)
  show ?case using knots_below.tie_below [OF Suc]
    by (simp only: knots.simps(2) [of n] knots.simps(2) [of "Suc n"] Let_def)
qed

interpretation knot_fuel: knots_below "knots n" "knots (Suc n)" for n
  by (rule knots_below_suc)

lemma parse_program_suc: "below (parse_program n p) (parse_program (Suc n) p)"
  unfolding parse_program_def
  by (rule below_refl below_walk below_walk2 knot_fuel.program_loop_below)+

text \<open>The bound on the recursion does not show in the result: a program that parses with one bound
  parses to the same tree, with the same errors, with every larger bound.\<close>

lemma parse_program_mono:
  assumes "parse_program n p = Some r" "n \<le> m"
  shows "parse_program m p = Some r"
  using assms(2)
proof (induction m rule: dec_induct)
  case (step k)
  then show ?case using parse_program_suc [of k p] by (simp add: below_def)
qed (rule assms(1))

end
