(* ===== verification/Arena.thy ===== *)
theory Arena
  imports Prelude
begin

section \<open>The arena allocator (src/arena.c)\<close>

text \<open>
  An arena is the list of its blocks, the head first. A block's \<open>used\<close> and \<open>capacity\<close> are
  \<open>size_t\<close>; its bytes are a function of the offset. A pointer into the arena is the number of
  blocks below the block it points into, with an offset. \<open>malloc\<close> is a parameter: \<open>None\<close> when the
  allocation fails, otherwise the bytes that happen to be in the new memory. An operation is
  \<open>None\<close> when the code dereferences a null block.
\<close>

record arena_block =
  b_used :: u64
  b_capacity :: u64
  b_data :: "nat \<Rightarrow> char"

type_synonym arena = "arena_block list"
type_synonym arena_ptr = "nat \<times> nat"
type_synonym malloc = "u64 \<Rightarrow> (nat \<Rightarrow> char) option"

definition ARENA_BLOCK_SIZE :: u64 where
  "ARENA_BLOCK_SIZE = 1024 * 64"

definition SIZEOF_ARENA_BLOCK :: u64 where
  "SIZEOF_ARENA_BLOCK = 24"

definition block_new :: "malloc \<Rightarrow> u64 \<Rightarrow> arena_block option" where
  "block_new malloc capacity =
     (case malloc (SIZEOF_ARENA_BLOCK + capacity) of
        None \<Rightarrow> None
      | Some bytes \<Rightarrow> Some \<lparr>b_used = 0, b_capacity = capacity, b_data = bytes\<rparr>)"

text \<open>The arena whose block could not be allocated has a null head.\<close>

definition arena_new :: "malloc \<Rightarrow> arena" where
  "arena_new malloc = (case block_new malloc ARENA_BLOCK_SIZE of None \<Rightarrow> [] | Some b \<Rightarrow> [b])"

definition align8 :: "u64 \<Rightarrow> u64" where
  "align8 sz = (sz + 7) AND NOT 7"

definition memset0 :: "nat \<Rightarrow> nat \<Rightarrow> (nat \<Rightarrow> char) \<Rightarrow> nat \<Rightarrow> char" where
  "memset0 off n d = (\<lambda>i. if off \<le> i \<and> i < off + n then NUL else d i)"

definition arena_room :: "malloc \<Rightarrow> u64 \<Rightarrow> arena \<Rightarrow> arena option" where
  "arena_room malloc sz a =
     (case a of
        [] \<Rightarrow> None
      | b # rest \<Rightarrow>
          if b_capacity b < b_used b + sz then
            (let cap = (if ARENA_BLOCK_SIZE < sz then sz else ARENA_BLOCK_SIZE)
             in case block_new malloc cap of None \<Rightarrow> None | Some nb \<Rightarrow> Some (nb # a))
          else Some a)"

definition arena_alloc :: "malloc \<Rightarrow> u64 \<Rightarrow> arena \<Rightarrow> (arena_ptr \<times> arena) option" where
  "arena_alloc malloc sz a =
     (let sz = align8 sz
      in case arena_room malloc sz a of
           Some (b # rest) \<Rightarrow>
             Some ((length rest, unat (b_used b)),
               b\<lparr>b_used := b_used b + sz,
                 b_data := memset0 (unat (b_used b)) (unat sz) (b_data b)\<rparr> # rest)
         | _ \<Rightarrow> None)"

text \<open>The blocks \<open>arena_free\<close> frees, in order, and the arena after it.\<close>

fun arena_free :: "arena \<Rightarrow> nat list \<times> arena" where
  "arena_free [] = ([], [])"
| "arena_free (b # rest) = (let (freed, a) = arena_free rest in (length rest # freed, a))"

subsection \<open>Access through a pointer\<close>

definition arena_block_at :: "arena \<Rightarrow> nat \<Rightarrow> arena_block" where
  "arena_block_at a k = a ! (length a - 1 - k)"

definition arena_load :: "arena \<Rightarrow> arena_ptr \<Rightarrow> nat \<Rightarrow> char" where
  "arena_load a p i = b_data (arena_block_at a (fst p)) (snd p + i)"

definition arena_store :: "arena_ptr \<Rightarrow> nat \<Rightarrow> char \<Rightarrow> arena \<Rightarrow> arena" where
  "arena_store p i c a =
     (let k = length a - 1 - fst p; b = a ! k
      in a[k := b\<lparr>b_data := (b_data b)(snd p + i := c)\<rparr>])"

text \<open>\<open>p\<close> points to \<open>n\<close> allocated bytes.\<close>

definition arena_live :: "arena \<Rightarrow> arena_ptr \<Rightarrow> nat \<Rightarrow> bool" where
  "arena_live a p n \<longleftrightarrow>
     fst p < length a \<and> snd p + n \<le> unat (b_used (arena_block_at a (fst p)))"

definition arena_sep :: "arena_ptr \<Rightarrow> nat \<Rightarrow> arena_ptr \<Rightarrow> nat \<Rightarrow> bool" where
  "arena_sep p n q m \<longleftrightarrow> fst p \<noteq> fst q \<or> snd p + n \<le> snd q \<or> snd q + m \<le> snd p"

text \<open>The invariant: every block's used part is a multiple of 8 bytes and inside its capacity,
  which is at most \<open>2 ^ 62\<close> when no request is larger.\<close>

definition arena_limit :: nat where
  "arena_limit = 2 ^ 62"

definition block_ok :: "arena_block \<Rightarrow> bool" where
  "block_ok b \<longleftrightarrow>
     unat (b_used b) \<le> unat (b_capacity b) \<and> unat (b_used b) mod 8 = 0 \<and>
     unat (b_capacity b) \<le> arena_limit"

definition arena_ok :: "arena \<Rightarrow> bool" where
  "arena_ok a \<longleftrightarrow> a \<noteq> [] \<and> (\<forall>b \<in> set a. block_ok b)"

subsection \<open>Alignment\<close>

lemma unat_drop_bit_word: "unat (drop_bit n w) = unat (w :: 'a :: len word) div 2 ^ n"
proof -
  have "take_bit LENGTH('a) (unat w) = unat w"
    using unsigned_less [of w] by (intro take_bit_nat_eq_self) simp
  then show ?thesis by (subst unsigned_drop_bit_eq) (simp add: drop_bit_eq_div)
qed

lemma unat_align8:
  assumes "unat sz \<le> arena_limit"
  shows "unat (align8 sz) = (unat sz + 7) div 8 * 8"
proof -
  have s: "unat (sz + 7) = unat sz + 7"
    using assms by (simp add: arena_limit_def unat_word_ariths)
  have m: "(7 :: u64) = mask 3" by (simp add: mask_eq_exp_minus_1)
  have "align8 sz = push_bit 3 (drop_bit 3 (sz + 7))"
    unfolding align8_def m by (rule bit_word_eqI) (auto simp: bit_simps)
  then have "unat (align8 sz) = unat (push_bit 3 (drop_bit 3 (sz + 7)) :: u64)" by simp
  also have "\<dots> = unat (drop_bit 3 (sz + 7)) * 8 mod 2 ^ 64"
    by (simp add: push_bit_eq_mult unat_word_ariths mult.commute)
  also have "unat (drop_bit 3 (sz + 7) :: u64) = (unat sz + 7) div 8"
    by (simp add: unat_drop_bit_word s)
  also have "(unat sz + 7) div 8 * 8 mod 2 ^ 64 = (unat sz + 7) div 8 * 8"
    using assms by (simp add: arena_limit_def)
  finally show ?thesis .
qed

lemma align8_bounds:
  assumes "unat sz \<le> arena_limit"
  shows "unat sz \<le> unat (align8 sz)" "unat (align8 sz) \<le> arena_limit"
    "unat (align8 sz) mod 8 = 0"
proof -
  show "unat sz \<le> unat (align8 sz)" using assms by (simp add: unat_align8)
  show "unat (align8 sz) mod 8 = 0" using assms by (simp add: unat_align8)
  have "(unat sz + 7) div 8 \<le> 2 ^ 59" using assms by (simp add: arena_limit_def)
  then show "unat (align8 sz) \<le> arena_limit"
    using assms by (simp add: unat_align8 arena_limit_def)
qed

subsection \<open>Allocation\<close>

lemma block_new_ok:
  assumes "block_new malloc cap = Some b" "unat cap \<le> arena_limit"
  shows "block_ok b" "b_used b = 0" "b_capacity b = cap"
  using assms by (auto simp: block_new_def block_ok_def split: option.splits)

text \<open>After \<open>arena_room\<close>, the head block has room for the request; the old blocks are below.\<close>

lemma arena_room_spec:
  assumes "arena_ok a" "unat sz \<le> arena_limit" "arena_room malloc sz a = Some a'"
  obtains b rest where "a' = b # rest" "block_ok b"
    "unat (b_used b) + unat sz \<le> unat (b_capacity b)"
    "a' = a \<or> rest = a \<and> b_used b = 0"
proof (cases a)
  case Nil
  then show thesis using assms(1) by (simp add: arena_ok_def)
next
  case (Cons b rest)
  have b: "block_ok b" using assms(1) Cons by (simp add: arena_ok_def)
  then have sum: "unat (b_used b + sz) = unat (b_used b) + unat sz"
    using assms(2) by (simp add: block_ok_def arena_limit_def unat_word_ariths)
  show thesis
  proof (cases "b_capacity b < b_used b + sz")
    case False
    then have "unat (b_used b) + unat sz \<le> unat (b_capacity b)"
      by (simp add: not_less word_le_nat_alt sum)
    then show thesis using that assms(3) Cons False b by (simp add: arena_room_def)
  next
    case True
    define cap where "cap = (if ARENA_BLOCK_SIZE < sz then sz else ARENA_BLOCK_SIZE)"
    have cap: "unat cap \<le> arena_limit" "unat sz \<le> unat cap"
      using assms(2)
      by (auto simp: cap_def ARENA_BLOCK_SIZE_def arena_limit_def word_less_nat_alt)
    obtain nb where nb: "block_new malloc cap = Some nb" "a' = nb # a"
      using assms(3) Cons True
      by (auto simp: arena_room_def cap_def Let_def split: option.splits)
    show thesis
      using that [of nb a] nb block_new_ok [OF nb(1) cap(1)] cap(2) by simp
  qed
qed

lemma arena_alloc_cases:
  assumes "arena_ok a" "unat sz \<le> arena_limit" "arena_alloc malloc sz a = Some (p, a')"
  obtains b rest where
    "block_ok b" "a' = b\<lparr>b_used := b_used b + align8 sz,
       b_data := memset0 (unat (b_used b)) (unat (align8 sz)) (b_data b)\<rparr> # rest"
    "p = (length rest, unat (b_used b))"
    "unat (b_used b) + unat (align8 sz) \<le> unat (b_capacity b)"
    "b # rest = a \<or> rest = a \<and> b_used b = 0"
proof -
  note al = align8_bounds [OF assms(2)]
  obtain a1 where a1: "arena_room malloc (align8 sz) a = Some a1"
    using assms(3) by (auto simp: arena_alloc_def Let_def split: option.splits list.splits)
  obtain b rest where b: "a1 = b # rest" "block_ok b"
    "unat (b_used b) + unat (align8 sz) \<le> unat (b_capacity b)"
    "a1 = a \<or> rest = a \<and> b_used b = 0"
    using arena_room_spec [OF assms(1) al(2) a1] by blast
  show thesis using that [of b rest] b assms(3) a1 by (auto simp: arena_alloc_def Let_def)
qed

lemma used_after:
  assumes "block_ok b" "unat (b_used b) + unat s8 \<le> unat (b_capacity b)"
  shows "unat (b_used b + s8) = unat (b_used b) + unat s8"
  using assms by (simp add: block_ok_def arena_limit_def unat_word_ariths)

lemma arena_block_at_Cons:
  "k < length rest \<Longrightarrow> arena_block_at (b # rest) k = arena_block_at rest k"
  "arena_block_at (b # rest) (length rest) = b"
proof -
  assume "k < length rest"
  then have "length rest - k = Suc (length rest - 1 - k)" by simp
  then show "arena_block_at (b # rest) k = arena_block_at rest k"
    by (simp add: arena_block_at_def)
qed (simp add: arena_block_at_def)

lemma arena_live_Cons:
  assumes "arena_live rest p n"
  shows "arena_live (b # rest) p n" "arena_load (b # rest) p i = arena_load rest p i"
    "fst p \<noteq> length rest"
  using assms by (auto simp: arena_live_def arena_load_def arena_block_at_Cons)

text \<open>The laws of an allocation, one by one.\<close>

lemma arena_alloc_ok:
  assumes "arena_ok a" "unat sz \<le> arena_limit" "arena_alloc malloc sz a = Some (p, a')"
  shows "arena_ok a'"
proof -
  note al = align8_bounds [OF assms(2)]
  obtain b rest where b: "block_ok b"
    "a' = b\<lparr>b_used := b_used b + align8 sz,
       b_data := memset0 (unat (b_used b)) (unat (align8 sz)) (b_data b)\<rparr> # rest"
    "unat (b_used b) + unat (align8 sz) \<le> unat (b_capacity b)"
    "b # rest = a \<or> rest = a \<and> b_used b = 0"
    by (rule arena_alloc_cases [OF assms]) metis
  have "(unat (b_used b) + unat (align8 sz)) mod 8 = 0"
    using b(1) al(3) by (auto simp: block_ok_def)
  then show ?thesis
    using assms(1) b used_after [OF b(1,3)]
    by (auto simp: arena_ok_def block_ok_def)
qed

lemma arena_alloc_fresh:
  assumes "arena_ok a" "unat sz \<le> arena_limit" "arena_alloc malloc sz a = Some (p, a')"
  shows "arena_live a' p (unat sz)" "snd p mod 8 = 0"
    "i < unat sz \<Longrightarrow> arena_load a' p i = NUL"
    "arena_live a q n \<Longrightarrow> arena_sep q n p (unat sz)"
proof -
  note al = align8_bounds [OF assms(2)]
  obtain b rest where b: "block_ok b"
    "a' = b\<lparr>b_used := b_used b + align8 sz,
       b_data := memset0 (unat (b_used b)) (unat (align8 sz)) (b_data b)\<rparr> # rest"
    "p = (length rest, unat (b_used b))"
    "unat (b_used b) + unat (align8 sz) \<le> unat (b_capacity b)"
    "b # rest = a \<or> rest = a \<and> b_used b = 0"
    by (rule arena_alloc_cases [OF assms]) metis
  show "arena_live a' p (unat sz)" "snd p mod 8 = 0"
    using b al(1) used_after [OF b(1,4)]
    by (auto simp: arena_live_def arena_block_at_Cons block_ok_def)
  show "i < unat sz \<Longrightarrow> arena_load a' p i = NUL"
    using b al(1) by (simp add: arena_load_def arena_block_at_Cons memset0_def)
  show "arena_live a q n \<Longrightarrow> arena_sep q n p (unat sz)"
    using b(3,5) arena_live_Cons(3) [of rest q n]
    by (auto simp: arena_sep_def arena_live_def arena_block_at_Cons)
qed

lemma arena_alloc_keeps:
  assumes "arena_ok a" "unat sz \<le> arena_limit" "arena_alloc malloc sz a = Some (p, a')"
    "arena_live a q n"
  shows "arena_live a' q n" "i < n \<Longrightarrow> arena_load a' q i = arena_load a q i"
proof -
  obtain b rest where b: "block_ok b"
    "a' = b\<lparr>b_used := b_used b + align8 sz,
       b_data := memset0 (unat (b_used b)) (unat (align8 sz)) (b_data b)\<rparr> # rest"
    "unat (b_used b) + unat (align8 sz) \<le> unat (b_capacity b)"
    "b # rest = a \<or> rest = a \<and> b_used b = 0"
    by (rule arena_alloc_cases [OF assms(1-3)]) metis
  note u = used_after [OF b(1,3)]
  consider "b # rest = a" "fst q = length rest" | "b # rest = a" "fst q < length rest"
    | "rest = a" "fst q < length rest"
    using b(4) assms(4) by (fastforce simp: arena_live_def)
  then have "arena_live a' q n \<and> (i < n \<longrightarrow> arena_load a' q i = arena_load a q i)"
  proof cases
    case 1
    then show ?thesis using assms(4) b(2) u
      by (auto simp: arena_live_def arena_load_def memset0_def arena_block_at_Cons)
  next
    case 2
    then show ?thesis using assms(4) b(2)
      by (auto simp: arena_live_def arena_load_def arena_block_at_Cons)
  next
    case 3
    then show ?thesis using assms(4) b(2)
      by (auto simp: arena_live_def arena_load_def arena_block_at_Cons)
  qed
  then show "arena_live a' q n" "i < n \<Longrightarrow> arena_load a' q i = arena_load a q i" by auto
qed

subsection \<open>Stores\<close>

lemma arena_block_at_store:
  assumes "fst p < length a" "k < length a"
  shows "arena_block_at (arena_store p i c a) k =
    (if k = fst p then (arena_block_at a k)
       \<lparr>b_data := (b_data (arena_block_at a k))(snd p + i := c)\<rparr>
     else arena_block_at a k)"
proof -
  have "length a - 1 - k = length a - 1 - fst p \<longleftrightarrow> k = fst p" using assms by auto
  then show ?thesis using assms
    by (auto simp: arena_block_at_def arena_store_def Let_def nth_list_update)
qed

lemma length_arena_store [simp]: "length (arena_store p i c a) = length a"
  by (simp add: arena_store_def Let_def)

lemma arena_store_live:
  assumes "arena_live a p n"
  shows "arena_live (arena_store p i c a) q m = arena_live a q m"
  using assms by (auto simp: arena_live_def arena_block_at_store split: if_splits)

lemma arena_store_load:
  assumes "arena_live a p n" "arena_live a q m" "j < m"
  shows "arena_load (arena_store p i c a) q j =
    (if fst q = fst p \<and> snd q + j = snd p + i then c else arena_load a q j)"
  using assms by (auto simp: arena_live_def arena_load_def arena_block_at_store)

lemma arena_store_ok:
  assumes "arena_ok a" "arena_live a p n"
  shows "arena_ok (arena_store p i c a)"
proof -
  let ?k = "length a - 1 - fst p"
  have k: "?k < length a" using assms(2) by (auto simp: arena_live_def)
  have ne: "arena_store p i c a \<noteq> []"
    using assms(1) length_arena_store [of p i c a] by (force simp: arena_ok_def)
  have "block_ok b" if "b \<in> set (arena_store p i c a)" for b
    using that assms(1) k set_update_subset_insert
    by (fastforce simp: arena_store_def Let_def arena_ok_def block_ok_def)
  with ne show ?thesis by (simp add: arena_ok_def)
qed

subsection \<open>The memory interface, and the buffers that grow in it\<close>

text \<open>
  What the code relies on when it grows a buffer in the arena: an allocation is live, separate
  from every region that was live before, and changes none; a store changes one byte of a live
  region.
\<close>

locale memory =
  fixes mem_ok :: "'m \<Rightarrow> bool"
    and live :: "'m \<Rightarrow> 'p \<Rightarrow> nat \<Rightarrow> bool"
    and separate :: "'p \<Rightarrow> nat \<Rightarrow> 'p \<Rightarrow> nat \<Rightarrow> bool"
    and load :: "'m \<Rightarrow> 'p \<Rightarrow> nat \<Rightarrow> char"
    and store :: "'p \<Rightarrow> nat \<Rightarrow> char \<Rightarrow> 'm \<Rightarrow> 'm"
    and alloc :: "nat \<Rightarrow> 'm \<Rightarrow> ('p \<times> 'm) option"
    and limit :: nat
  assumes alloc_ok: "mem_ok m \<Longrightarrow> n \<le> limit \<Longrightarrow> alloc n m = Some (p, m') \<Longrightarrow> mem_ok m'"
    and alloc_live: "mem_ok m \<Longrightarrow> n \<le> limit \<Longrightarrow> alloc n m = Some (p, m') \<Longrightarrow> live m' p n"
    and alloc_separate: "mem_ok m \<Longrightarrow> n \<le> limit \<Longrightarrow> alloc n m = Some (p, m') \<Longrightarrow>
      live m q k \<Longrightarrow> separate q k p n"
    and alloc_keeps_live: "mem_ok m \<Longrightarrow> n \<le> limit \<Longrightarrow> alloc n m = Some (p, m') \<Longrightarrow>
      live m q k \<Longrightarrow> live m' q k"
    and alloc_keeps_load: "mem_ok m \<Longrightarrow> n \<le> limit \<Longrightarrow> alloc n m = Some (p, m') \<Longrightarrow>
      live m q k \<Longrightarrow> i < k \<Longrightarrow> load m' q i = load m q i"
    and store_ok: "mem_ok m \<Longrightarrow> live m p n \<Longrightarrow> i < n \<Longrightarrow> mem_ok (store p i c m)"
    and store_live: "live m p n \<Longrightarrow> i < n \<Longrightarrow> live (store p i c m) q k = live m q k"
    and store_load: "live m p n \<Longrightarrow> i < n \<Longrightarrow> j < n \<Longrightarrow>
      load (store p i c m) p j = (if j = i then c else load m p j)"
    and store_separate: "live m p n \<Longrightarrow> live m q k \<Longrightarrow> separate q k p n \<Longrightarrow> i < n \<Longrightarrow> j < k \<Longrightarrow>
      load (store p i c m) q j = load m q j"
begin

text \<open>\<open>memcpy(nb, buf, n)\<close>, byte by byte.\<close>

primrec copy :: "'p \<Rightarrow> 'p \<Rightarrow> nat \<Rightarrow> 'm \<Rightarrow> 'm" where
  "copy dst src 0 m = m"
| "copy dst src (Suc n) m = (let m' = copy dst src n m in store dst n (load m' src n) m')"

lemma copy_spec:
  assumes "mem_ok m" "live m src k" "live m dst d" "separate src k dst d" "n \<le> k" "n \<le> d"
  shows "mem_ok (copy dst src n m) \<and> (\<forall>q x. live (copy dst src n m) q x = live m q x) \<and>
    (\<forall>i<k. load (copy dst src n m) src i = load m src i) \<and>
    (\<forall>i<n. load (copy dst src n m) dst i = load m src i)"
  using assms(5,6)
proof (induction n)
  case (Suc n)
  let ?m = "copy dst src n m"
  have IH: "mem_ok ?m" "live ?m dst d" "live ?m src k"
    "\<forall>i<k. load ?m src i = load m src i" "\<forall>i<n. load ?m dst i = load m src i"
    "\<forall>q x. live ?m q x = live m q x"
    using Suc assms(2,3) by auto
  have n: "n < d" "n < k" using Suc.prems by auto
  let ?m' = "store dst n (load ?m src n) ?m"
  have "mem_ok ?m'" using store_ok [OF IH(1,2) n(1)] .
  moreover have "\<forall>q x. live ?m' q x = live m q x" using store_live [OF IH(2) n(1)] IH(6) by simp
  moreover have "\<forall>i<k. load ?m' src i = load m src i"
    using store_separate [OF IH(2,3) assms(4) n(1)] IH(4) by simp
  moreover have "\<forall>i<Suc n. load ?m' dst i = load m src i"
    using store_load [OF IH(2) n(1)] IH(4,5) n Suc.prems by (auto simp: less_Suc_eq)
  ultimately show ?case by (simp add: Let_def)
qed (use assms in auto)

text \<open>A buffer \<open>(buf, cap, blen)\<close> holds a list: the first \<open>blen\<close> bytes, with room for one more.\<close>

definition holds :: "'m \<Rightarrow> 'p \<Rightarrow> nat \<Rightarrow> string \<Rightarrow> bool" where
  "holds m p cap xs \<longleftrightarrow>
     mem_ok m \<and> live m p cap \<and> length xs < cap \<and> (\<forall>i < length xs. load m p i = xs ! i)"

text \<open>The macro \<open>BUF_PUSH\<close>.\<close>

definition push :: "char \<Rightarrow> 'p \<times> nat \<times> nat \<Rightarrow> 'm \<Rightarrow> (('p \<times> nat \<times> nat) \<times> 'm) option" where
  "push c b m =
     (case b of (buf, cap, blen) \<Rightarrow>
        if cap \<le> blen + 1 then
          (case alloc (cap * 2) m of
             None \<Rightarrow> None
           | Some (nb, m) \<Rightarrow>
               let m = copy nb buf blen m in Some ((nb, cap * 2, blen + 1), store nb blen c m))
        else Some ((buf, cap, blen + 1), store buf blen c m))"

lemma store_holds:
  assumes "holds m p cap xs" "length xs + 1 < cap"
  shows "holds (store p (length xs) c m) p cap (xs @ [c])"
proof -
  have l: "mem_ok m" "live m p cap" "length xs < cap" "\<forall>i < length xs. load m p i = xs ! i"
    using assms by (auto simp: holds_def)
  show ?thesis unfolding holds_def
    using store_ok [OF l(1-3)] store_live [OF l(2,3)] store_load [OF l(2,3)] l assms(2)
    by (auto simp: nth_append less_Suc_eq)
qed

lemma push_holds:
  assumes h: "holds m buf cap xs" and lim: "cap * 2 \<le> limit" and two: "2 \<le> cap"
    and push: "push c (buf, cap, length xs) m = Some ((buf', cap', blen'), m')"
  shows "holds m' buf' cap' (xs @ [c]) \<and> blen' = length (xs @ [c]) \<and> 2 \<le> cap' \<and>
    (cap' = cap \<or> cap' = cap * 2 \<and> cap \<le> length (xs @ [c]))"
proof (cases "cap \<le> length xs + 1")
  case False
  then show ?thesis using store_holds [OF h] push two by (auto simp: push_def)
next
  case True
  have l: "mem_ok m" "live m buf cap" "length xs < cap" "\<forall>i < length xs. load m buf i = xs ! i"
    using h by (auto simp: holds_def)
  obtain m1 where m1: "alloc (cap * 2) m = Some (buf', m1)" "cap' = cap * 2"
    "blen' = length xs + 1" "m' = store buf' (length xs) c (copy buf' buf (length xs) m1)"
    using push True by (auto simp: push_def Let_def split: option.splits)
  note a = alloc_ok [OF l(1) lim m1(1)] alloc_live [OF l(1) lim m1(1)]
    alloc_separate [OF l(1) lim m1(1) l(2)] alloc_keeps_live [OF l(1) lim m1(1) l(2)]
    alloc_keeps_load [OF l(1) lim m1(1) l(2)]
  have "holds (copy buf' buf (length xs) m1) buf' (cap * 2) xs"
    using copy_spec [OF a(1) a(4) a(2) a(3), of "length xs"] a(2,5) l(3,4)
    by (auto simp: holds_def)
  then have "holds m' buf' cap' (xs @ [c])"
    unfolding m1 using l(3) two by (intro store_holds) auto
  then show ?thesis using m1 True two by simp
qed

text \<open>A run of pushes, as the scanning loops do them, appends the bytes in order.\<close>

primrec push_all :: "string \<Rightarrow> 'p \<times> nat \<times> nat \<Rightarrow> 'm \<Rightarrow> (('p \<times> nat \<times> nat) \<times> 'm) option" where
  "push_all [] b m = Some (b, m)"
| "push_all (c # cs) b m = (case push c b m of None \<Rightarrow> None | Some (b, m) \<Rightarrow> push_all cs b m)"

lemma push_all_holds:
  assumes "holds m buf cap xs" "2 \<le> cap" "cap \<le> K" "2 * (length xs + length cs) \<le> K" "2 * K \<le> limit"
    "push_all cs (buf, cap, length xs) m = Some ((buf', cap', blen'), m')"
  shows "holds m' buf' cap' (xs @ cs) \<and> blen' = length (xs @ cs)"
  using assms
proof (induction cs arbitrary: m buf cap xs)
  case (Cons c cs)
  obtain b1 cap1 len1 m1 where p: "push c (buf, cap, length xs) m = Some ((b1, cap1, len1), m1)"
    using Cons.prems(6) by (auto split: option.splits)
  have lim: "cap * 2 \<le> limit" using Cons.prems by simp
  note h = push_holds [OF Cons.prems(1) lim Cons.prems(2) p]
  have "holds m' buf' cap' ((xs @ [c]) @ cs) \<and> blen' = length ((xs @ [c]) @ cs)"
  proof (rule Cons.IH)
    show "holds m1 b1 cap1 (xs @ [c])" "2 \<le> cap1" using h by auto
    show "cap1 \<le> K" using h Cons.prems by auto
    show "2 * (length (xs @ [c]) + length cs) \<le> K" "2 * K \<le> limit" using Cons.prems by auto
    show "push_all cs (b1, cap1, length (xs @ [c])) m1 = Some ((buf', cap', blen'), m')"
      using Cons.prems(6) p h by simp
  qed
  then show ?case by simp
qed auto

end

text \<open>The arena provides the interface.\<close>

abbreviation arena_allocate :: "malloc \<Rightarrow> nat \<Rightarrow> arena \<Rightarrow> (arena_ptr \<times> arena) option" where
  "arena_allocate malloc n \<equiv> arena_alloc malloc (word_of_nat n)"

lemma arena_limit_word: "n \<le> arena_limit \<Longrightarrow> unat (word_of_nat n :: u64) = n"
  by (simp add: arena_limit_def unat_of_nat take_bit_nat_eq_self_iff)

interpretation arena_mem: memory arena_ok arena_live arena_sep arena_load arena_store
  "arena_allocate malloc" arena_limit for malloc
proof (unfold_locales, goal_cases)
  case (1 m n p m')
  then show ?case using arena_alloc_ok arena_limit_word by metis
next
  case (2 m n p m')
  then show ?case using arena_alloc_fresh(1) arena_limit_word by metis
next
  case (3 m n p m' q k)
  then show ?case using arena_alloc_fresh(4) arena_limit_word by metis
next
  case (4 m n p m' q k)
  then show ?case using arena_alloc_keeps(1) arena_limit_word by metis
next
  case (5 m n p m' q k i)
  then show ?case using arena_alloc_keeps(2) arena_limit_word by metis
next
  case (6 m p n i c)
  then show ?case by (simp add: arena_store_ok)
next
  case (7 m p n i c q k)
  then show ?case by (simp add: arena_store_live)
next
  case (8 m p n i j c)
  then show ?case by (simp add: arena_store_load)
next
  case (9 m p n q k i j c)
  then show ?case by (auto simp: arena_store_load arena_sep_def)
qed

subsection \<open>Properties\<close>

text \<open>C23: an allocation returns a zeroed, 8-byte aligned region inside its block, separate from every
  region allocated before; it changes no byte of those, and keeps the invariant.\<close>

theorem arena_alloc_correct:
  assumes "arena_ok a" "unat sz \<le> arena_limit" "arena_alloc malloc sz a = Some (p, a')"
  shows "arena_ok a' \<and> arena_live a' p (unat sz) \<and> snd p mod 8 = 0 \<and>
    (\<forall>i < unat sz. arena_load a' p i = NUL) \<and>
    (\<forall>q n. arena_live a q n \<longrightarrow> arena_live a' q n \<and> arena_sep q n p (unat sz) \<and>
       (\<forall>i < n. arena_load a' q i = arena_load a q i))"
  using arena_alloc_ok [OF assms] arena_alloc_fresh [OF assms] arena_alloc_keeps [OF assms]
  by auto

definition zero_malloc :: malloc where
  "zero_malloc n = Some (\<lambda>_. NUL)"

definition two_blocks :: "(arena_ptr \<times> arena) option" where
  "two_blocks = arena_alloc zero_malloc 100000 (arena_new zero_malloc)"

lemma two_blocks_eval:
  "\<exists>a. two_blocks = Some ((1, 0), a) \<and> map b_used a = [100000, 0]"
  by (simp add: two_blocks_def arena_new_def block_new_def zero_malloc_def arena_alloc_def
      arena_room_def ARENA_BLOCK_SIZE_def SIZEOF_ARENA_BLOCK_def align8_def)

lemma arena_new_ok: "arena_ok (arena_new zero_malloc)"
  by (simp add: arena_ok_def arena_new_def block_new_def zero_malloc_def block_ok_def
      ARENA_BLOCK_SIZE_def arena_limit_def)

theorem arena_alloc_correct_witness:
  "\<exists>a. two_blocks = Some ((1, 0), a) \<and> arena_ok a \<and> arena_live a (1, 0) 100000 \<and>
     arena_load a (1, 0) 99999 = NUL"
proof -
  obtain a where a: "two_blocks = Some ((1, 0), a)" using two_blocks_eval by blast
  have sz: "unat (100000 :: u64) \<le> arena_limit" by (simp add: arena_limit_def)
  from arena_alloc_correct [OF arena_new_ok sz a [unfolded two_blocks_def]] a
  show ?thesis by auto
qed

text \<open>The buffers of the scanners: \<open>memcpy\<close>, the macro \<open>BUF_PUSH\<close>, and a run of it.\<close>

primrec arena_copy :: "arena_ptr \<Rightarrow> arena_ptr \<Rightarrow> nat \<Rightarrow> arena \<Rightarrow> arena" where
  "arena_copy dst src 0 a = a"
| "arena_copy dst src (Suc n) a =
     (let a' = arena_copy dst src n a in arena_store dst n (arena_load a' src n) a')"

type_synonym arena_buf = "arena_ptr \<times> nat \<times> nat"

definition buf_push :: "malloc \<Rightarrow> char \<Rightarrow> arena_buf \<Rightarrow> arena \<Rightarrow> (arena_buf \<times> arena) option" where
  "buf_push malloc c b a =
     (case b of (buf, cap, blen) \<Rightarrow>
        if cap \<le> blen + 1 then
          (case arena_alloc malloc (word_of_nat (cap * 2)) a of
             None \<Rightarrow> None
           | Some (nb, a) \<Rightarrow>
               let a = arena_copy nb buf blen a
               in Some ((nb, cap * 2, blen + 1), arena_store nb blen c a))
        else Some ((buf, cap, blen + 1), arena_store buf blen c a))"

primrec buf_push_all ::
  "malloc \<Rightarrow> string \<Rightarrow> arena_buf \<Rightarrow> arena \<Rightarrow> (arena_buf \<times> arena) option" where
  "buf_push_all malloc [] b a = Some (b, a)"
| "buf_push_all malloc (c # cs) b a =
     (case buf_push malloc c b a of None \<Rightarrow> None | Some (b, a) \<Rightarrow> buf_push_all malloc cs b a)"

definition buf_holds :: "arena \<Rightarrow> arena_ptr \<Rightarrow> nat \<Rightarrow> string \<Rightarrow> bool" where
  "buf_holds a p cap xs \<longleftrightarrow>
     arena_ok a \<and> arena_live a p cap \<and> length xs < cap \<and>
     (\<forall>i < length xs. arena_load a p i = xs ! i)"

lemma arena_copy_eq: "arena_copy = arena_mem.copy"
proof (intro ext)
  show "arena_copy dst src n a = arena_mem.copy dst src n a" for dst src n a
    by (induction n) simp_all
qed

lemma buf_push_eq: "buf_push = arena_mem.push"
  unfolding buf_push_def arena_mem.push_def arena_copy_eq by (rule refl)

lemma buf_push_all_eq: "buf_push_all malloc cs b a = arena_mem.push_all malloc cs b a"
  by (induction cs arbitrary: b a) (simp_all add: buf_push_eq split: option.split)

lemma buf_holds_eq: "buf_holds = arena_mem.holds"
  by (intro ext) (simp add: buf_holds_def arena_mem.holds_def)

text \<open>C25: pushing bytes into a buffer that grows in the arena, as the scanners of the lexer do, appends
  them in order: the buffer then holds the list the model of the lexer uses for it.\<close>

theorem buf_push_all_appends:
  assumes "buf_holds a buf cap xs" "2 \<le> cap" "cap \<le> K"
    "2 * (length xs + length cs) \<le> K" "2 * K \<le> arena_limit"
    "buf_push_all malloc cs (buf, cap, length xs) a = Some ((buf', cap', blen'), a')"
  shows "buf_holds a' buf' cap' (xs @ cs) \<and> blen' = length (xs @ cs)"
  using assms arena_mem.push_all_holds unfolding buf_holds_eq buf_push_all_eq by blast

definition buf_example :: arena where
  "buf_example = [\<lparr>b_used = 8, b_capacity = 65536, b_data = \<lambda>_. NUL\<rparr>]"

lemma buf_example_run:
  "case buf_push_all zero_malloc ''abc'' ((0, 0), 2, 0) buf_example of
     None \<Rightarrow> False | Some (b, a) \<Rightarrow> b = ((0, 8), 4, 3)"
  by code_simp

lemma buf_example_holds: "buf_holds buf_example (0, 0) 2 []"
  unfolding buf_holds_def
proof (intro conjI)
  show "arena_ok buf_example" "arena_live buf_example (0, 0) 2" by code_simp+
qed simp_all

theorem buf_push_all_appends_witness:
  "\<exists>a. buf_push_all zero_malloc ''abc'' ((0, 0), 2, 0) buf_example = Some (((0, 8), 4, 3), a) \<and>
     buf_holds a (0, 8) 4 ''abc''"
proof -
  obtain a where a: "buf_push_all zero_malloc ''abc'' ((0, 0), 2, 0) buf_example
      = Some (((0, 8), 4, 3), a)"
    using buf_example_run by (auto split: option.splits)
  have "buf_holds a (0, 8) 4 ([] @ ''abc'')"
    using buf_push_all_appends [OF buf_example_holds, of 6 "''abc''" zero_malloc] a
    by (simp add: arena_limit_def)
  with a show ?thesis by auto
qed

end
