(* ===== verification/SemaKeep.thy ===== *)
theory SemaKeep
  imports Sema
begin

section \<open>What the semantic analysis keeps of its state\<close>

text \<open>
  The operations of a run restore the scopes below the innermost and the depths, and only append
  errors, at most 64 of them (\<open>keeps\<close>); and what they do does not depend on the scopes below the
  nearest definition (\<open>indep\<close>).
\<close>

named_theorems sm_simps \<open>when a sequence of calls returns\<close>

lemma sm_ret_Some [sm_simps]: "sm_ret x s = Some (y, s') \<longleftrightarrow> y = x \<and> s' = s"
  by (auto simp: sm_ret_def)

lemma sm_bind_Some [sm_simps]:
  "sm_bind m f s = Some (y, s') \<longleftrightarrow> (\<exists>x s1. m s = Some (x, s1) \<and> f x s1 = Some (y, s'))"
  by (auto simp: sm_bind_def split: option.split)

lemma sm1_Some [sm_simps]:
  "sm1 f m s = Some (y, s') \<longleftrightarrow> (\<exists>x. m s = Some (x, s') \<and> y = f x)"
  by (auto simp: sm1_def sm_simps)

lemma sm2_Some [sm_simps]:
  "sm2 f m n s = Some (y, s') \<longleftrightarrow>
     (\<exists>x s1 z. m s = Some (x, s1) \<and> n s1 = Some (z, s') \<and> y = f x z)"
  by (auto simp: sm2_def sm_simps)

lemma sm3_Some [sm_simps]:
  "sm3 f m n p s = Some (y, s') \<longleftrightarrow>
     (\<exists>x s1 z s2 w. m s = Some (x, s1) \<and> n s1 = Some (z, s2) \<and> p s2 = Some (w, s') \<and> y = f x z w)"
  by (auto simp: sm3_def sm_simps)

lemma sm_in_Some [sm_simps]:
  "sm_in enter m leave s = Some (x, s') \<longleftrightarrow> (\<exists>s1. m (enter s) = Some (x, s1) \<and> s' = leave s1)"
  by (auto simp: sm_in_def split: option.split)

lemma sm_do_Some [sm_simps]: "sm_do f m s = m (f s)"
  by (simp add: sm_do_def)

lemma sm_fail_Some [sm_simps]: "sm_fail s = Some y \<longleftrightarrow> False"
  by (simp add: sm_fail_def)

subsection \<open>What an operation keeps of the state\<close>

definition frame_grows :: "scope \<Rightarrow> scope \<Rightarrow> bool" where
  "frame_grows sc sc' \<longleftrightarrow>
     sc_is_def sc' = sc_is_def sc \<and> (\<exists>new. sc_locals sc' = new @ sc_locals sc)"

text \<open>Only the innermost frame gains names; the depths are those before; errors are appended, at
  most \<open>MAX_ERRORS\<close> of them.\<close>

definition sema_grows :: "sema \<Rightarrow> sema \<Rightarrow> bool" where
  "sema_grows s s' \<longleftrightarrow>
     (\<exists>sc sc' rest. s_scope s = sc # rest \<and> s_scope s' = sc' # rest \<and> frame_grows sc sc') \<and>
     s_loop_depth s' = s_loop_depth s \<and> s_block_depth s' = s_block_depth s \<and>
     s_def_depth s' = s_def_depth s \<and> s_lambda_depth s' = s_lambda_depth s \<and>
     s_proc_depth s' = s_proc_depth s \<and> s_rescue_depth s' = s_rescue_depth s \<and>
     (\<exists>new. s_errors s' = s_errors s @ new) \<and>
     (length (s_errors s) \<le> MAX_ERRORS \<longrightarrow> length (s_errors s') \<le> MAX_ERRORS)"

lemma frame_grows_refl [simp]: "frame_grows sc sc"
  by (simp add: frame_grows_def)

lemma frame_grows_trans: "frame_grows a b \<Longrightarrow> frame_grows b c \<Longrightarrow> frame_grows a c"
  by (auto simp: frame_grows_def)

lemma sema_grows_refl: "s_scope s \<noteq> [] \<Longrightarrow> sema_grows s s"
  by (cases "s_scope s") (auto simp: sema_grows_def)

lemma sema_grows_trans: "sema_grows a b \<Longrightarrow> sema_grows b c \<Longrightarrow> sema_grows a c"
  by (auto simp: sema_grows_def intro: frame_grows_trans)

lemma sema_grows_scope: "sema_grows a b \<Longrightarrow> s_scope a \<noteq> [] \<and> s_scope b \<noteq> []"
  by (auto simp: sema_grows_def)

text \<open>Operations that return a state.\<close>

definition grows :: "(sema \<Rightarrow> sema) \<Rightarrow> bool" where
  "grows f \<longleftrightarrow> (\<forall>s. s_scope s \<noteq> [] \<longrightarrow> sema_grows s (f s))"

named_theorems grow_intros \<open>operations that only add names and errors\<close>

lemma growsD: "grows f \<Longrightarrow> s_scope s \<noteq> [] \<Longrightarrow> sema_grows s (f s)"
  by (simp add: grows_def)

lemma grows_id [grow_intros]: "grows id"
  by (simp add: grows_def sema_grows_refl)

lemma grows_ident [grow_intros]: "grows (\<lambda>s. s)"
  by (simp add: grows_def sema_grows_refl)

lemma grows_seq_Nil [grow_intros]: "grows (seq [])"
  by (simp add: grows_def sema_grows_refl seq_simps)

lemma grows_seq_Cons [grow_intros]: "grows f \<Longrightarrow> grows (seq fs) \<Longrightarrow> grows (seq (f # fs))"
  unfolding grows_def seq_simps by (auto intro: sema_grows_trans dest: sema_grows_scope)

lemma seq_fun: "seq [] = (\<lambda>s. s)" "seq (f # fs) = (\<lambda>s. seq fs (f s))"
  by (simp_all add: fun_eq_iff seq_simps)

lemma grows_sema_error [grow_intros]: "grows (sema_error msg sp)"
  by (auto simp: grows_def sema_grows_def sema_error_def neq_Nil_conv)

lemma grows_check_jump [grow_intros]: "grows (check_jump k sp)"
  using grows_sema_error sema_grows_refl
  by (auto simp: grows_def check_jump_def split: jump_kind.split)

subsection \<open>Operations that add names\<close>

definition adder :: "(sema \<Rightarrow> sema) \<Rightarrow> bool" where
  "adder f \<longleftrightarrow> (\<exists>ns. f = fold scope_add ns)"

named_theorems add_intros \<open>operations that only add names to the innermost scope\<close>

lemma grows_scope_add [grow_intros]: "grows (scope_add name)"
  by (auto simp: grows_def sema_grows_def scope_add_def frame_add_def frame_grows_def
      split: list.split)

lemma adder_grows [grow_intros]: "adder f \<Longrightarrow> grows f"
proof -
  have "grows (fold scope_add ns)" for ns
  proof (induction ns)
    case (Cons n ns)
    then show ?case using grows_seq_Cons [OF grows_scope_add [of n], of "[fold scope_add ns]"]
        grows_seq_Cons [OF Cons grows_seq_Nil] by (simp add: seq_fun comp_def)
  qed (simp add: grows_ident)
  then show "adder f \<Longrightarrow> grows f" by (auto simp: adder_def)
qed

lemma adder_id [add_intros]: "adder id" "adder (\<lambda>s. s)"
  unfolding adder_def by (auto intro!: exI [of _ "[]"])

lemma adder_scope_add [add_intros]: "adder (scope_add n)"
  unfolding adder_def by (auto intro!: exI [of _ "[n]"])

lemma adder_seq [add_intros]:
  "adder (seq [])" "adder f \<Longrightarrow> adder (seq fs) \<Longrightarrow> adder (seq (f # fs))"
proof -
  show "adder (seq [])" by (simp add: seq_fun add_intros)
  assume "adder f" "adder (seq fs)"
  then obtain ns ms where "f = fold scope_add ns" "seq fs = fold scope_add ms"
    by (auto simp: adder_def)
  then have "seq (f # fs) = fold scope_add (ns @ ms)" by (simp add: seq_fun comp_def)
  then show "adder (seq (f # fs))" unfolding adder_def by blast
qed

lemma adder_scope_add_opt [add_intros]: "adder (scope_add_opt name)"
  by (auto simp: scope_add_opt_def intro: add_intros split: option.split)

lemma adder_scope_add_unless [add_intros]: "adder (scope_add_unless excl name)"
  by (auto simp: scope_add_unless_def intro: add_intros)

lemma adder_target [add_intros]: "adder (scope_add_target t)" "adder (scope_add_targets ts)"
proof (induction t and ts rule: scope_add_target_scope_add_targets.induct)
  case (2 sp sl d)
  then show ?case by (auto intro!: add_intros split: ndata.split sval_kind.split)
qed (simp_all add: add_intros)

lemma adder_params [add_intros]: "adder (scope_add_param p)" "adder (scope_add_params ps)"
proof (induction p and ps rule: scope_add_param_scope_add_params.induct)
  case (2 sp sl d)
  then show ?case by (auto intro!: add_intros split: ndata.split)
qed (simp_all add: add_intros)

lemma adder_collect_target [add_intros]:
  "adder (collect_assignment_target t excl)" "adder (collect_assignment_targets ts excl)"
proof (induction t excl and ts excl
    rule: collect_assignment_target_collect_assignment_targets.induct)
  case (2 sp sl d excl)
  then show ?case by (auto intro!: add_intros split: ndata.split sval_kind.split option.split)
qed (simp_all add: add_intros)

lemma adder_pattern_caps [add_intros]:
  "adder (collect_pattern_caps p)" "adder (collect_pattern_caps_list ps)"
proof (induction p and ps rule: collect_pattern_caps_collect_pattern_caps_list.induct)
  case (2 sp sl d)
  then show ?case by (auto intro!: add_intros split: ndata.split pattern_kind.split)
qed (simp_all add: add_intros)

lemmas collect_induct =
  collect_collect_list_collect_block_collect_whens_collect_when_collect_ins_collect_in.induct

lemma adder_collect [add_intros]:
  "adder (collect x excl)" "adder (collect_list xs excl)" "adder (collect_block blk)"
  "adder (collect_whens ws excl)" "adder (collect_when w excl)"
  "adder (collect_ins is excl)" "adder (collect_in i excl)"
proof (induction x excl and xs excl and blk and ws excl and w excl and "is" excl and i excl
    rule: collect_induct)
  case (2 sp sl d excl)
  then show ?case by (cases d) (auto intro!: add_intros split: binop_kind.split)
next
  case (6 sp sl d)
  then show ?case by (auto intro!: add_intros split: ndata.split)
next
  case (10 sp sl d excl)
  then show ?case by (auto intro!: add_intros split: ndata.split)
next
  case (14 sp sl d excl)
  then show ?case by (auto intro!: add_intros split: ndata.split)
qed (simp_all add: add_intros)

text \<open>The names an operation adds, and that they are all visible already.\<close>

definition covers :: "(sema \<Rightarrow> sema) \<Rightarrow> sema \<Rightarrow> bool" where
  "covers f s \<longleftrightarrow> (\<forall>n. scope_has (f (scope_push True sema_init)) n \<longrightarrow> scope_has s n)"

lemma scope_has_simps [simp]:
  "scope_has (add_loop k s) = scope_has s" "scope_has (add_block k s) = scope_has s"
  "scope_has (add_def k s) = scope_has s" "scope_has (add_rescue k s) = scope_has s"
  "scope_has (call_block_depths k recv m s) = scope_has s"
  "scope_has (scope_push False s) = scope_has s"
  "scope_has (scope_push True s) n = False"
  "s_scope (add_loop k s) = s_scope s" "s_scope (add_block k s) = s_scope s"
  "s_scope (add_def k s) = s_scope s" "s_scope (add_rescue k s) = s_scope s"
  "s_scope (call_block_depths k recv m s) = s_scope s"
  "s_scope (scope_push is_def s) \<noteq> []"
  by (auto simp: scope_has_def add_loop_def add_block_def add_def_def add_rescue_def
      call_block_depths_def seq_fun add_lambda_def add_proc_def scope_push_def fun_eq_iff)

lemma covers_simps [simp]:
  "covers f (add_loop k s) = covers f s" "covers f (add_block k s) = covers f s"
  "covers f (add_def k s) = covers f s" "covers f (add_rescue k s) = covers f s"
  "covers f (call_block_depths k recv m s) = covers f s"
  "covers f (scope_push False s) = covers f s"
  by (simp_all add: covers_def)

lemma scope_has_add:
  "s_scope s \<noteq> [] \<Longrightarrow> scope_has (scope_add m s) n \<longleftrightarrow> streq m n \<or> scope_has s n"
  by (auto simp: scope_has_def scope_add_def frame_add_def neq_Nil_conv list_ex_iff streq_def
      split: if_splits)

lemma scope_add_nonempty [simp]: "s_scope (scope_add m s) = [] \<longleftrightarrow> s_scope s = []"
  by (simp add: scope_add_def split: list.split)

lemma scope_has_fold:
  "s_scope s \<noteq> [] \<Longrightarrow>
     scope_has (fold scope_add ns s) n \<longleftrightarrow> (\<exists>m \<in> set ns. streq m n) \<or> scope_has s n"
  by (induction ns arbitrary: s) (auto simp: scope_has_add)

lemma covers_fold: "covers (fold scope_add ns) s \<longleftrightarrow> (\<forall>n. \<forall>m \<in> set ns. streq m n \<longrightarrow> scope_has s n)"
  by (auto simp: covers_def scope_has_fold)

lemma covers_seq:
  "adder f \<Longrightarrow> adder (seq fs) \<Longrightarrow> covers (seq (f # fs)) s \<longleftrightarrow> covers f s \<and> covers (seq fs) s"
proof -
  assume "adder f" "adder (seq fs)"
  then obtain ns ms where f: "f = fold scope_add ns" "seq fs = fold scope_add ms"
    by (auto simp: adder_def)
  then have "seq (f # fs) = fold scope_add (ns @ ms)" by (simp add: seq_fun comp_def)
  then show ?thesis by (simp only: f covers_fold) auto
qed

lemma covers_seq_Nil: "covers (seq []) s"
  by (simp add: covers_def seq_fun)

lemma covers_after: "adder f \<Longrightarrow> s_scope s \<noteq> [] \<Longrightarrow> covers f (f s)"
  by (auto simp: adder_def covers_fold scope_has_fold)

lemma sema_grows_has: "sema_grows s s' \<Longrightarrow> scope_has s n \<Longrightarrow> scope_has s' n"
  by (auto simp: sema_grows_def frame_grows_def scope_has_def)

lemma covers_mono: "sema_grows s s' \<Longrightarrow> covers f s \<Longrightarrow> covers f s'"
  by (auto simp: covers_def intro: sema_grows_has)

lemma covers_scope_add: "covers (scope_add n) s \<Longrightarrow> scope_has s n"
  using covers_fold [of "[n]" s] by simp

subsection \<open>What resolve keeps of the state\<close>

definition keeps :: "'a sema_m \<Rightarrow> bool" where
  "keeps m \<longleftrightarrow> (\<forall>s x s'. s_scope s \<noteq> [] \<longrightarrow> m s = Some (x, s') \<longrightarrow> sema_grows s s')"

text \<open>The brackets of \<open>resolve\<close>: what they leave is what they found.\<close>

definition bracket :: "(sema \<Rightarrow> sema) \<Rightarrow> (sema \<Rightarrow> sema) \<Rightarrow> bool" where
  "bracket enter leave \<longleftrightarrow>
     (\<forall>s s'. s_scope s \<noteq> [] \<longrightarrow> s_scope (enter s) \<noteq> [] \<and>
       (sema_grows (enter s) s' \<longrightarrow> sema_grows s (leave s')))"

named_theorems keep_intros \<open>calls of resolve that keep the state\<close>

lemma keeps_ret [keep_intros]: "keeps (sm_ret x)"
  by (auto simp: keeps_def sm_simps sema_grows_refl)

lemma keeps_fail [keep_intros]: "keeps sm_fail"
  by (auto simp: keeps_def sm_simps)

lemma keeps_bind [keep_intros]: "keeps m \<Longrightarrow> (\<And>x. keeps (f x)) \<Longrightarrow> keeps (sm_bind m f)"
  unfolding keeps_def
  by (auto simp: sm_simps) (meson sema_grows_scope sema_grows_trans)

lemma keeps_sm1 [keep_intros]: "keeps m \<Longrightarrow> keeps (sm1 f m)"
  unfolding sm1_def by (intro keep_intros)

lemma keeps_sm2 [keep_intros]: "keeps m \<Longrightarrow> keeps n \<Longrightarrow> keeps (sm2 f m n)"
  unfolding sm2_def by (intro keep_intros)

lemma keeps_sm3 [keep_intros]: "keeps m \<Longrightarrow> keeps n \<Longrightarrow> keeps p \<Longrightarrow> keeps (sm3 f m n p)"
  unfolding sm3_def by (intro keep_intros)

lemma keeps_do [keep_intros]: "grows f \<Longrightarrow> keeps m \<Longrightarrow> keeps (sm_do f m)"
  unfolding keeps_def grows_def
  by (auto simp: sm_simps) (meson sema_grows_scope sema_grows_trans)

lemma keeps_in [keep_intros]: "bracket enter leave \<Longrightarrow> keeps m \<Longrightarrow> keeps (sm_in enter m leave)"
  unfolding keeps_def bracket_def by (auto simp: sm_simps)

lemma keeps_lvar [keep_intros]: "keeps (resolve_lvar name)"
  by (auto simp: keeps_def resolve_lvar_def sema_grows_refl split: if_splits)

text \<open>Counting a depth up and down; pushing a frame, adding names to it and popping it.\<close>

lemma bracket_depth [keep_intros]:
  "bracket (add_loop 1) (add_loop (- 1))" "bracket (add_def 1) (add_def (- 1))"
  "bracket (add_lambda 1) (add_lambda (- 1))" "bracket (add_proc 1) (add_proc (- 1))"
  "bracket (add_rescue 1) (add_rescue (- 1))" "bracket (add_block 1) (add_block (- 1))"
  by (auto simp: bracket_def sema_grows_def add_loop_def add_def_def add_lambda_def add_proc_def
      add_rescue_def add_block_def)

lemma bracket_after:
  "grows f \<Longrightarrow> bracket enter leave \<Longrightarrow> bracket (\<lambda>s. enter (f s)) leave"
  unfolding bracket_def grows_def by (meson sema_grows_scope sema_grows_trans)

lemma bracket_push [keep_intros]: "bracket (scope_push is_def) scope_pop"
  by (auto simp: bracket_def sema_grows_def scope_push_def scope_pop_def neq_Nil_conv)

lemma bracket_id: "bracket id id"
  by (simp add: bracket_def)

lemma bracket_nest:
  "bracket e l \<Longrightarrow> bracket e' l' \<Longrightarrow> bracket (\<lambda>s. e' (e s)) (\<lambda>s. l (l' s))"
  unfolding bracket_def by blast

lemma bracket_push_grow [keep_intros]:
  "grows f \<Longrightarrow> bracket (seq [scope_push k, f]) scope_pop"
  "grows f \<Longrightarrow> grows g \<Longrightarrow> bracket (seq [scope_push k, f, g]) scope_pop"
  using bracket_nest [OF bracket_push bracket_after [OF _ bracket_id], of f]
    bracket_nest [OF bracket_push bracket_after [OF _ bracket_after [OF _ bracket_id]], of f g]
  by (simp_all add: seq_fun)

lemma bracket_scope [keep_intros]:
  "grows f \<Longrightarrow> grows g \<Longrightarrow> bracket e l \<Longrightarrow>
     bracket (seq [scope_push k, f, g, e]) (seq [l, scope_pop])"
  using bracket_nest [OF bracket_push bracket_after [OF _ bracket_after [of g e l]], of f]
  by (simp add: seq_fun)

lemma bracket_first [keep_intros]: "grows f \<Longrightarrow> bracket e l \<Longrightarrow> bracket (seq [f, e]) l"
  using bracket_after [of f e l] by (simp add: seq_fun)

lemma bracket_call [keep_intros]:
  "bracket (call_block_depths 1 recv m) (call_block_depths (- 1) recv m)"
  by (cases "is_lambda_call recv m"; cases "is_proc_call recv m \<or> is_proc_new recv m")
    (simp_all add: bracket_def sema_grows_def call_block_depths_def seq_fun add_lambda_def
      add_proc_def)

lemma grows_retry [grow_intros]:
  "grows (\<lambda>s. if s_rescue_depth s = 0 then sema_error msg sp s else s)"
  using grows_sema_error sema_grows_refl by (simp add: grows_def)

lemmas resolve_induct = resolve_resolve_list_resolve_pairs_resolve_pair_resolve_param_defaults_resolve_param_resolve_whens_resolve_when_resolve_ins_resolve_in_resolve_rope.induct

lemma keeps_resolve:
  "keeps (resolve x)" "keeps (resolve_list xs)" "keeps (resolve_pairs ps)" "keeps (resolve_pair p)"
  "keeps (resolve_param_defaults ds)" "keeps (resolve_param d)" "keeps (resolve_whens ws)"
  "keeps (resolve_when w)" "keeps (resolve_ins is)" "keeps (resolve_in i)"
  "keeps (resolve_rope r n)"
proof (induction x and xs and ps and p and ds and d and ws and w and "is" and i and r n
    rule: resolve_induct)
  case (2 sp sl d)
  then show ?case
    unfolding resolve.simps
    by (cases d) (auto intro!: keep_intros grow_intros add_intros
        split: sval_kind.split plain_kind.split klass_kind.split)
next
  case (8 sp sl d)
  then show ?case by (auto intro!: keep_intros simp: resolve.simps split: ndata.split)
next
  case (12 sp sl d)
  then show ?case by (auto intro!: keep_intros simp: resolve.simps split: ndata.split)
next
  case (16 sp sl d)
  then show ?case by (auto intro!: keep_intros simp: resolve.simps split: ndata.split)
next
  case (20 sp sl d)
  then show ?case by (auto intro!: keep_intros simp: resolve.simps split: ndata.split)
next
  case (24 l r n)
  then show ?case by (auto intro!: keep_intros simp: resolve.simps split: option.split)
qed (simp_all add: resolve.simps keep_intros)

text \<open>The state is kept by every call of \<open>resolve\<close> on the way.\<close>

lemma resolve_grows:
  "resolve x s = Some (y, s') \<Longrightarrow> s_scope s \<noteq> [] \<Longrightarrow> sema_grows s s'"
  "resolve_list xs s = Some (ys, s') \<Longrightarrow> s_scope s \<noteq> [] \<Longrightarrow> sema_grows s s'"
  "resolve_whens xs s = Some (ys, s') \<Longrightarrow> s_scope s \<noteq> [] \<Longrightarrow> sema_grows s s'"
  "resolve_ins xs s = Some (ys, s') \<Longrightarrow> s_scope s \<noteq> [] \<Longrightarrow> sema_grows s s'"
  "resolve_param_defaults xs s = Some (ys, s') \<Longrightarrow> s_scope s \<noteq> [] \<Longrightarrow> sema_grows s s'"
  using keeps_resolve by (auto simp: keeps_def)

subsection \<open>Definitions hide the scopes around them\<close>

text \<open>Two states that differ only in the scopes below a definition's, the \<open>n\<close>th.\<close>

definition alike :: "nat \<Rightarrow> sema \<Rightarrow> sema \<Rightarrow> bool" where
  "alike n s t \<longleftrightarrow>
     (\<exists>fs d rest rest'. s_scope s = fs @ d # rest \<and> s_scope t = fs @ d # rest' \<and> length fs = n \<and>
        sc_is_def d) \<and>
     t = s\<lparr>s_scope := s_scope t\<rparr>"

text \<open>Operations that push \<open>k\<close> scopes, or pop them, and depend on nothing below the definition's.\<close>

definition up :: "nat \<Rightarrow> (sema \<Rightarrow> sema) \<Rightarrow> bool" where
  "up k f \<longleftrightarrow> (\<forall>n s t. alike n s t \<longrightarrow> alike (n + k) (f s) (f t))"

definition down :: "nat \<Rightarrow> (sema \<Rightarrow> sema) \<Rightarrow> bool" where
  "down k f \<longleftrightarrow> (\<forall>n s t. alike (n + k) s t \<longrightarrow> alike n (f s) (f t))"

definition indep :: "'a sema_m \<Rightarrow> bool" where
  "indep m \<longleftrightarrow> (\<forall>n s t. alike n s t \<longrightarrow> rel_option (rel_prod (=) (alike n)) (m s) (m t))"

named_theorems up_intros \<open>operations that depend on nothing below a definition's scope\<close>

lemma frames_have_above: "sc_is_def d \<Longrightarrow> frames_have (fs @ d # rest) n = frames_have (fs @ d # rest') n"
  by (induction fs) auto

lemma alike_has: "alike n s t \<Longrightarrow> scope_has s name = scope_has t name"
  unfolding alike_def scope_has_def using frames_have_above by metis

lemma alike_error: "alike n s t \<Longrightarrow> alike n (sema_error msg sp s) (sema_error msg sp t)"
  by (cases s; cases t) (auto simp: alike_def sema_error_def)

lemma alike_fields:
  "alike n s t \<Longrightarrow> s_loop_depth t = s_loop_depth s" "alike n s t \<Longrightarrow> s_block_depth t = s_block_depth s"
  "alike n s t \<Longrightarrow> s_def_depth t = s_def_depth s" "alike n s t \<Longrightarrow> s_lambda_depth t = s_lambda_depth s"
  "alike n s t \<Longrightarrow> s_proc_depth t = s_proc_depth s" "alike n s t \<Longrightarrow> s_rescue_depth t = s_rescue_depth s"
  by (cases s; cases t; simp add: alike_def)+

lemma alikeI:
  "s_scope s = fs @ d # rest \<Longrightarrow> s_scope t = fs @ d # rest' \<Longrightarrow> length fs = n \<Longrightarrow> sc_is_def d \<Longrightarrow>
     t = s\<lparr>s_scope := s_scope t\<rparr> \<Longrightarrow> alike n s t"
  unfolding alike_def by blast

lemma up_scope_add: "up 0 (scope_add name)"
  unfolding up_def
proof (intro allI impI)
  fix n s t assume "alike n s t"
  then obtain fs d rest rest' where s: "s_scope s = fs @ d # rest" "s_scope t = fs @ d # rest'"
    "length fs = n" "sc_is_def d" "t = s\<lparr>s_scope := s_scope t\<rparr>" by (auto simp: alike_def)
  have t: "scope_add name t = scope_add name s\<lparr>s_scope := s_scope (scope_add name t)\<rparr>"
    by (subst s(5)) (auto simp: scope_add_def split: list.split)
  show "alike (n + 0) (scope_add name s) (scope_add name t)"
  proof (cases fs)
    case Nil
    show ?thesis
      by (rule alikeI [where fs = "[]" and d = "frame_add name d", OF _ _ _ _ t])
        (use s Nil in \<open>simp_all add: scope_add_def frame_add_def\<close>)
  next
    case (Cons f fs')
    show ?thesis
      by (rule alikeI [where fs = "frame_add name f # fs'" and d = d, OF _ _ _ _ t])
        (use s Cons in \<open>simp_all add: scope_add_def\<close>)
  qed
qed

lemma up_ident [up_intros]: "up 0 (\<lambda>s. s)" "up 0 id"
  by (simp_all add: up_def)

lemma up_adder: "adder f \<Longrightarrow> up 0 f"
proof -
  have "up 0 (fold scope_add ns)" for ns
    by (induction ns) (use up_scope_add in \<open>auto simp: up_def\<close>)
  then show "adder f \<Longrightarrow> up 0 f" by (auto simp: adder_def)
qed

lemmas up_adders [up_intros] =
  adder_scope_add [THEN up_adder] adder_scope_add_opt [THEN up_adder] adder_target [THEN up_adder]
  adder_params [THEN up_adder] adder_collect [THEN up_adder]

lemma up_depth [up_intros]:
  "up 0 (add_loop k)" "up 0 (add_def k)" "up 0 (add_lambda k)" "up 0 (add_proc k)"
  "up 0 (add_rescue k)" "up 0 (add_block k)"
  by (auto simp: up_def alike_def add_loop_def add_def_def add_lambda_def add_proc_def
      add_rescue_def add_block_def)

lemma up_seq [up_intros]:
  "up 0 (seq [])" "up 0 f \<Longrightarrow> up 0 (seq fs) \<Longrightarrow> up 0 (seq (f # fs))"
  "up 0 (seq fs) \<Longrightarrow> up 1 (seq (scope_push k # fs))" "up 1 (scope_push k)"
proof -
  have push: "alike (n + 1) (scope_push k s) (scope_push k t)" if "alike n s t" for n s t
  proof -
    from that obtain fs d rest rest' where s: "s_scope s = fs @ d # rest" "s_scope t = fs @ d # rest'"
      "length fs = n" "sc_is_def d" "t = s\<lparr>s_scope := s_scope t\<rparr>" by (auto simp: alike_def)
    show ?thesis unfolding alike_def
    proof (intro conjI exI)
      show "s_scope (scope_push k s) = (\<lparr>sc_is_def = k, sc_locals = []\<rparr> # fs) @ d # rest"
        "s_scope (scope_push k t) = (\<lparr>sc_is_def = k, sc_locals = []\<rparr> # fs) @ d # rest'"
        using s by (simp_all add: scope_push_def)
      show "scope_push k t = scope_push k s\<lparr>s_scope := s_scope (scope_push k t)\<rparr>"
        by (subst s(5)) (simp add: scope_push_def)
    qed (use s in simp_all)
  qed
  then show "up 1 (scope_push k)" by (simp add: up_def)
  show "up 0 (seq fs) \<Longrightarrow> up 1 (seq (scope_push k # fs))"
    using push by (fastforce simp: up_def seq_simps)
qed (simp_all add: up_def seq_simps)

lemma down_pop [up_intros]: "down 1 scope_pop"
  unfolding down_def
proof (intro allI impI)
  fix n s t assume "alike (n + 1) s t"
  then obtain fs d rest rest' where s: "s_scope s = fs @ d # rest" "s_scope t = fs @ d # rest'"
    "length fs = n + 1" "sc_is_def d" "t = s\<lparr>s_scope := s_scope t\<rparr>" by (auto simp: alike_def)
  then obtain f fs' where "fs = f # fs'" by (cases fs) auto
  with s show "alike n (scope_pop s) (scope_pop t)" unfolding alike_def
    by (cases s; cases t) (auto simp: scope_pop_def)
qed

lemma down_seq [up_intros]:
  "up 0 f \<Longrightarrow> down 1 (seq fs) \<Longrightarrow> down 1 (seq (f # fs))" "down 1 f \<Longrightarrow> down 1 (seq [f])"
  "up 0 f \<Longrightarrow> down 0 f"
  by (fastforce simp: up_def down_def seq_simps)+

lemma up_call [up_intros]: "up 0 (call_block_depths k recv m)"
  unfolding call_block_depths_def
  by (cases "is_lambda_call recv m"; cases "is_proc_call recv m \<or> is_proc_new recv m")
    (simp_all only: if_True if_False up_intros)

lemma up_check_jump [up_intros]: "up 0 (check_jump k sp)"
  by (auto simp: up_def check_jump_def in_loop_or_block_def alike_fields alike_error
      split: jump_kind.split)

lemma up_retry [up_intros]: "up 0 (\<lambda>s. if s_rescue_depth s = 0 then sema_error msg sp s else s)"
  by (auto simp: up_def alike_fields alike_error)

text \<open>The calls of the resolution.\<close>

lemma indepE:
  assumes "indep m" "alike n s t"
  obtains "m s = None" "m t = None"
  | x s' t' where "m s = Some (x, s')" "m t = Some (x, t')" "alike n s' t'"
proof -
  have "rel_option (rel_prod (=) (alike n)) (m s) (m t)" using assms by (simp add: indep_def)
  then show thesis
  proof (cases rule: option.rel_cases)
    case None
    then show ?thesis by (intro that(1))
  next
    case (Some a b)
    then show ?thesis by (cases a; cases b) (auto intro: that(2))
  qed
qed

lemma indep_ret [up_intros]: "indep (sm_ret x)" and indep_fail [up_intros]: "indep sm_fail"
  by (simp_all add: indep_def sm_ret_def sm_fail_def)

lemma indep_bind [up_intros]:
  assumes "indep m" "\<And>x. indep (f x)"
  shows "indep (sm_bind m f)"
  unfolding indep_def
proof (intro allI impI)
  fix n s t assume "alike n s t"
  then show "rel_option (rel_prod (=) (alike n)) (sm_bind m f s) (sm_bind m f t)"
    by (rule indepE [OF assms(1)]) (use assms(2) in \<open>simp_all add: sm_bind_def indep_def\<close>)
qed

lemma indep_sm [up_intros]:
  "indep m \<Longrightarrow> indep (sm1 f1 m)" "indep m \<Longrightarrow> indep n \<Longrightarrow> indep (sm2 f2 m n)"
  "indep m \<Longrightarrow> indep n \<Longrightarrow> indep p \<Longrightarrow> indep (sm3 f3 m n p)"
  unfolding sm1_def sm2_def sm3_def by (intro indep_bind indep_ret; assumption)+

lemma indep_do [up_intros]: "up 0 f \<Longrightarrow> indep m \<Longrightarrow> indep (sm_do f m)"
  by (auto simp: indep_def up_def sm_do_def)

lemma indep_in [up_intros]:
  assumes "up k enter" "down k leave" "indep m"
  shows "indep (sm_in enter m leave)"
  unfolding indep_def
proof (intro allI impI)
  fix n s t assume "alike n s t"
  then have "alike (n + k) (enter s) (enter t)" using assms(1) by (simp add: up_def)
  then show "rel_option (rel_prod (=) (alike n)) (sm_in enter m leave s) (sm_in enter m leave t)"
    by (rule indepE [OF assms(3)]) (use assms(2) in \<open>simp_all add: sm_in_def down_def\<close>)
qed

lemma indep_lvar [up_intros]: "indep (resolve_lvar name)"
  by (auto simp: indep_def resolve_lvar_def dest: alike_has)

lemma indep_resolve:
  "indep (resolve x)" "indep (resolve_list xs)" "indep (resolve_pairs ps)" "indep (resolve_pair p)"
  "indep (resolve_param_defaults ds)" "indep (resolve_param d)" "indep (resolve_whens ws)"
  "indep (resolve_when w)" "indep (resolve_ins is)" "indep (resolve_in i)"
  "indep (resolve_rope r n)"
proof (induction x and xs and ps and p and ds and d and ws and w and "is" and i and r n
    rule: resolve_induct)
  case (2 sp sl d)
  then show ?case
    unfolding resolve.simps
    by (cases d) (auto intro!: up_intros
        split: sval_kind.split plain_kind.split klass_kind.split)
next
  case (8 sp sl d)
  then show ?case by (auto intro!: up_intros simp: resolve.simps split: ndata.split)
next
  case (12 sp sl d)
  then show ?case by (auto intro!: up_intros simp: resolve.simps split: ndata.split)
next
  case (16 sp sl d)
  then show ?case by (auto intro!: up_intros simp: resolve.simps split: ndata.split)
next
  case (20 sp sl d)
  then show ?case by (auto intro!: up_intros simp: resolve.simps split: ndata.split)
next
  case (24 l r n)
  then show ?case by (auto intro!: up_intros simp: resolve.simps split: option.split)
qed (simp_all add: resolve.simps up_intros)

end
