(* ===== verification/SemaFixed.thy ===== *)
theory SemaFixed
  imports SemaKeep
begin

section \<open>A resolved tree is a fixed point of the analysis\<close>

text \<open>
  What the resolution does to names: the tree it returns collects the names the given tree did
  (\<open>stays\<close>), and resolving it again changes nothing (\<open>fixed\<close>).
\<close>

subsection \<open>A resolved tree collects the same names\<close>

text \<open>
  \<open>collect\<close> is run before \<open>resolve\<close>, so that the names it adds are visible when the same subtree is
  resolved. The assignments then stay assignments, and a second \<open>collect\<close> adds the same names.
\<close>

text \<open>What a node is as an assignment target: a name, a parameter, a list, or none of these.\<close>

definition target_shape :: "ndata \<Rightarrow> nat" where
  "target_shape d =
     (case d of NSval K_LVAR _ \<Rightarrow> 1 | NParam _ _ _ \<Rightarrow> 2 | NArray _ \<Rightarrow> 3 | _ \<Rightarrow> 0)"

lemma target_shape_cases:
  obtains name where "d = NSval K_LVAR name" | name dflt fl where "d = NParam name dflt fl"
    | els where "d = NArray els" | "target_shape d = 0"
proof (cases d)
  case (NSval k name)
  then show thesis using that(1,4) by (cases k) (auto simp: target_shape_def)
qed (auto simp: target_shape_def intro: that)

lemma target_shape_0: "target_shape d = 0 \<Longrightarrow> collect_assignment_target (Some (Node sp sl d)) excl = id"
  by (cases d) (auto simp: target_shape_def split: sval_kind.splits)

lemma resolve_shape_0:
  assumes "resolve (Some (Node sp sl d)) s = Some (t', s')" "target_shape d = 0"
  shows "\<exists>d'. t' = Some (Node sp sl d') \<and> target_shape d' = 0"
  using assms
  by (cases d) (auto simp: resolve.simps sm_simps target_shape_def
      split: sval_kind.splits klass_kind.splits plain_kind.splits)

lemma target_stable:
  "s_scope s \<noteq> [] \<Longrightarrow> covers (collect_assignment_target t excl) s \<Longrightarrow>
     resolve t s = Some (t', s') \<Longrightarrow>
     collect_assignment_target t' excl = collect_assignment_target t excl"
  "s_scope s \<noteq> [] \<Longrightarrow> covers (collect_assignment_targets ts excl) s \<Longrightarrow>
     resolve_list ts s = Some (ts', s') \<Longrightarrow>
     collect_assignment_targets ts' excl = collect_assignment_targets ts excl"
proof (induction t excl and ts excl arbitrary: s t' s' and s ts' s'
    rule: collect_assignment_target_collect_assignment_targets.induct)
  case (2 sp sl d excl)
  note R = 2(4)
  consider name where "d = NSval K_LVAR name" | name dflt fl where "d = NParam name dflt fl"
    | els where "d = NArray els" | "target_shape d = 0"
    by (rule target_shape_cases)
  then show ?case
  proof cases
    case 1
    with R show ?thesis using covers_scope_add [of "name" s] 2(3)
      by (auto simp: resolve.simps sm_simps resolve_lvar_def scope_add_unless_def
          split: if_splits)
  next
    case 2
    with R show ?thesis by (auto simp: resolve.simps sm_simps)
  next
    case 3
    with R obtain els' where e: "resolve_list els s = Some (els', s')"
      "t' = Some (Node sp sl (NArray els'))"
      by (auto simp: resolve.simps sm_simps)
    show ?thesis using "2.IH" [OF _ "2.prems"(1) _ e(1)] "2.prems"(2) 3 e(2) by simp
  next
    case 4
    then obtain d' where "t' = Some (Node sp sl d')" "target_shape d' = 0"
      using resolve_shape_0 [OF R] by blast
    then show ?thesis using 4 by (simp only: target_shape_0)
  qed
next
  case (4 t ts excl)
  from "4.prems"(3) obtain x s1 xs where r: "resolve t s = Some (x, s1)" "resolve_list ts s1 = Some (xs, s')"
    "ts' = x # xs"
    by (auto simp: resolve.simps sm_simps)
  have c: "covers (collect_assignment_target t excl) s" "covers (collect_assignment_targets ts excl) s"
    using "4.prems"(2) by (simp_all add: covers_seq add_intros)
  have g: "sema_grows s s1" using resolve_grows(1) [OF r(1) "4.prems"(1)] .
  then have n: "s_scope s1 \<noteq> []" "covers (collect_assignment_targets ts excl) s1"
    using sema_grows_scope covers_mono c(2) by blast+
  note e = "4.IH"(1) [OF "4.prems"(1) c(1) r(1)] "4.IH"(2) [OF n r(2)]
  show ?case by (simp only: r(3) e collect_assignment_targets.simps)
qed (auto simp: resolve.simps sm_simps)

text \<open>
  The same for the whole of \<open>collect\<close>. \<open>stays c m k\<close>: when the names of \<open>c\<close> are visible and \<open>m\<close>
  returns \<open>x\<close>, then \<open>k x\<close> adds what \<open>c\<close> adds; here \<open>c\<close> is the collection of a subtree, \<open>m\<close> its
  resolution and \<open>k\<close> the collection of the result.
\<close>

definition stays :: "(sema \<Rightarrow> sema) \<Rightarrow> 'a sema_m \<Rightarrow> ('a \<Rightarrow> sema \<Rightarrow> sema) \<Rightarrow> bool" where
  "stays c m k \<longleftrightarrow>
     (\<forall>s x s'. s_scope s \<noteq> [] \<longrightarrow> covers c s \<longrightarrow> m s = Some (x, s') \<longrightarrow> k x = c)"

lemma keeps_nonempty: "keeps m \<Longrightarrow> m s = Some (x, s') \<Longrightarrow> s_scope s \<noteq> [] \<Longrightarrow> s_scope s' \<noteq> []"
  by (meson keeps_def sema_grows_scope)

lemma keeps_covers: "keeps m \<Longrightarrow> m s = Some (x, s') \<Longrightarrow> s_scope s \<noteq> [] \<Longrightarrow> covers c s \<Longrightarrow> covers c s'"
  by (meson keeps_def covers_mono)

lemma stays_const: "(\<And>s x s'. m s = Some (x, s') \<Longrightarrow> k x = c) \<Longrightarrow> stays c m k"
  by (simp add: stays_def)

lemma stays_1: "stays c m (\<lambda>x. k (f x)) \<Longrightarrow> stays c (sm1 f m) k"
  by (auto simp: stays_def sm_simps)

lemma stays_in:
  "(\<And>s. s_scope s \<noteq> [] \<Longrightarrow> covers c s \<Longrightarrow> s_scope (enter s) \<noteq> [] \<and> covers c (enter s)) \<Longrightarrow>
     stays c m k \<Longrightarrow> stays c (sm_in enter m leave) k"
  unfolding stays_def by (auto simp: sm_simps)

lemma stays_in_covered:
  "(\<And>s. s_scope s \<noteq> [] \<Longrightarrow> s_scope (enter s) \<noteq> [] \<and> covers c (enter s)) \<Longrightarrow>
     stays c m k \<Longrightarrow> stays c (sm_in enter m leave) k"
  unfolding stays_def by (auto simp: sm_simps)

lemma stays_weaken:
  "stays c1 m k1 \<Longrightarrow> (\<And>s. covers c s \<Longrightarrow> covers c1 s) \<Longrightarrow> (\<And>x. k1 x = c1 \<Longrightarrow> k x = c) \<Longrightarrow>
     stays c m k"
  by (simp add: stays_def)

lemma stays_do: "grows f \<Longrightarrow> stays c m k \<Longrightarrow> stays c (sm_do f m) k"
  unfolding stays_def grows_def by (auto simp: sm_simps) (meson covers_mono sema_grows_scope)

lemma stays_bind:
  assumes "keeps m" "stays c1 m k1" "\<And>x. k1 x = c1 \<Longrightarrow> stays c (f x) k"
    "\<And>s. covers c s \<Longrightarrow> covers c1 s"
  shows "stays c (sm_bind m f) k"
  unfolding stays_def
proof (intro allI impI)
  fix s y s'
  assume s: "s_scope s \<noteq> []" "covers c s" "sm_bind m f s = Some (y, s')"
  then obtain x s1 where r: "m s = Some (x, s1)" "f x s1 = Some (y, s')"
    by (auto simp: sm_simps)
  have "k1 x = c1" using assms(2) s r assms(4) [OF s(2)] unfolding stays_def by blast
  then show "k y = c"
    using assms(3) r(2) keeps_nonempty [OF assms(1) r(1) s(1)]
      keeps_covers [OF assms(1) r(1) s(1,2)] unfolding stays_def by blast
qed

lemma stays_2:
  assumes "keeps m" "stays c1 m k1" "stays c2 n k2"
    "\<And>s. covers c s \<Longrightarrow> covers c1 s \<and> covers c2 s"
    "\<And>x y. k1 x = c1 \<Longrightarrow> k2 y = c2 \<Longrightarrow> k (f x y) = c"
  shows "stays c (sm2 f m n) k"
  unfolding stays_def
proof (intro allI impI)
  fix s z s'
  assume s: "s_scope s \<noteq> []" "covers c s" "sm2 f m n s = Some (z, s')"
  then obtain x s1 y where r: "m s = Some (x, s1)" "n s1 = Some (y, s')" "z = f x y"
    by (auto simp: sm_simps)
  have "s_scope s1 \<noteq> []" "covers c2 s1"
    using keeps_nonempty [OF assms(1) r(1) s(1)] keeps_covers [OF assms(1) r(1) s(1)]
      assms(4) [OF s(2)] by auto
  then show "k z = c"
    using assms(2,3,5) s r assms(4) [OF s(2)] unfolding stays_def by metis
qed

lemma stays_3:
  assumes "keeps m" "keeps n" "stays c1 m k1" "stays c2 n k2" "stays c3 p k3"
    "\<And>s. covers c s \<Longrightarrow> covers c1 s \<and> covers c2 s \<and> covers c3 s"
    "\<And>x y z. k1 x = c1 \<Longrightarrow> k2 y = c2 \<Longrightarrow> k3 z = c3 \<Longrightarrow> k (f x y z) = c"
  shows "stays c (sm3 f m n p) k"
  unfolding stays_def
proof (intro allI impI)
  fix s w s'
  assume s: "s_scope s \<noteq> []" "covers c s" "sm3 f m n p s = Some (w, s')"
  then obtain x s1 y s2 z where r: "m s = Some (x, s1)" "n s1 = Some (y, s2)"
    "p s2 = Some (z, s')" "w = f x y z"
    by (auto simp: sm_simps)
  note n1 = keeps_nonempty [OF assms(1) r(1) s(1)] keeps_covers [OF assms(1) r(1) s(1)]
  note n2 = keeps_nonempty [OF assms(2) r(2) n1(1)] keeps_covers [OF assms(2) r(2) n1(1)]
  have "k1 x = c1" "k2 y = c2" "k3 z = c3"
    using assms(3-5) s r assms(6) [OF s(2)] n1 n2 unfolding stays_def by metis+
  then show "k w = c" using assms(7) r(4) by simp
qed

text \<open>The frame a block or rescue body is resolved in.\<close>

lemma enter_frame:
  assumes "adder f" "adder g"
    and e: "\<And>s h. covers h (e s) = covers h s" "\<And>s. s_scope (e s) = s_scope s"
  shows "s_scope (seq [scope_push False, f, g, e] s) \<noteq> []"
    "covers g (seq [scope_push False, f, g, e] s)"
    "covers h s \<Longrightarrow> covers h (seq [scope_push False, f, g, e] s)"
proof -
  let ?p = "scope_push False s"
  have f: "sema_grows ?p (f ?p)" using assms(1) by (intro growsD adder_grows) simp_all
  have n: "s_scope (f ?p) \<noteq> []" using sema_grows_scope [OF f] by simp
  have g: "sema_grows (f ?p) (g (f ?p))" using assms(2) n by (intro growsD adder_grows)
  show "s_scope (seq [scope_push False, f, g, e] s) \<noteq> []"
    using sema_grows_scope [OF g] by (simp add: seq_simps e)
  show "covers g (seq [scope_push False, f, g, e] s)"
    using covers_after [OF assms(2) n] by (simp add: seq_simps e)
  show "covers h s \<Longrightarrow> covers h (seq [scope_push False, f, g, e] s)"
    using covers_mono [OF f] covers_mono [OF g] by (simp add: seq_simps e)
qed

lemmas covers_split = covers_seq covers_seq_Nil add_intros

lemma collect_stable:
  "stays (collect x excl) (resolve x) (\<lambda>x. collect x excl)"
  "stays (collect_list xs excl) (resolve_list xs) (\<lambda>xs. collect_list xs excl)"
  "stays (collect_block blk) (resolve blk) collect_block"
  "stays (collect_whens ws excl) (resolve_whens ws) (\<lambda>ws. collect_whens ws excl)"
  "stays (collect_when w excl) (resolve_when w) (\<lambda>w. collect_when w excl)"
  "stays (collect_ins is excl) (resolve_ins is) (\<lambda>is. collect_ins is excl)"
  "stays (collect_in i excl) (resolve_in i) (\<lambda>i. collect_in i excl)"
proof (induction x excl and xs excl and blk and ws excl and w excl and "is" excl and i excl
    rule: collect_induct)
  case (1 excl)
  show ?case by (rule stays_const) (simp add: resolve.simps sm_simps)
next
  case (2 sp sl d excl)
  show ?case
  proof (cases d)
    case (NAssign target val)
    have t: "stays (collect_assignment_target target excl) (resolve target)
        (\<lambda>t. collect_assignment_target t excl)"
      using target_stable(1) by (auto simp: stays_def)
    show ?thesis unfolding NAssign resolve.simps ndata.case
      by (rule stays_1, rule stays_2 [OF keeps_resolve(1) 2(5) [OF NAssign] t])
        (simp_all add: covers_split)
  next
    case (NBinop k op l r)
    show ?thesis
    proof (cases k)
      case K_BINOP
      show ?thesis unfolding NBinop resolve.simps ndata.case
        by (rule stays_1, rule stays_2 [OF keeps_resolve(1) 2(1) [OF NBinop K_BINOP]
              2(2) [OF NBinop K_BINOP]]) (simp_all add: covers_split K_BINOP)
    next
      case K_OP_ASSIGN
      have l: "stays id (resolve l) (\<lambda>_. id)" by (simp add: stays_const)
      show ?thesis unfolding NBinop resolve.simps ndata.case
        by (rule stays_1, rule stays_2 [OF keeps_resolve(1) l
              2(3) [OF NBinop K_OP_ASSIGN]])
          (simp_all add: covers_split K_OP_ASSIGN covers_def)
    qed
  next
    case (NUnop op x)
    show ?thesis unfolding NUnop resolve.simps ndata.case using 2(4) [OF NUnop]
      by (intro stays_1) simp
  next
    case (NBlockPass x)
    show ?thesis unfolding NBlockPass resolve.simps ndata.case using 2(27) [OF NBlockPass]
      by (intro stays_1) simp
  next
    case (NDefined x)
    show ?thesis unfolding NDefined resolve.simps ndata.case using 2(28) [OF NDefined]
      by (intro stays_1) simp
  next
    case (NBody k stmts)
    show ?thesis unfolding NBody resolve.simps ndata.case using 2(29) [OF NBody]
      by (intro stays_1) simp
  next
    case (NCond k c t e)
    show ?thesis unfolding NCond resolve.simps ndata.case
      by (rule stays_1, rule stays_3 [OF keeps_resolve(1) keeps_resolve(1) 2(9) [OF NCond]
            2(10) [OF NCond] 2(11) [OF NCond]]) (simp_all add: covers_split)
  next
    case (NCase c t e)
    show ?thesis unfolding NCase resolve.simps ndata.case
      by (rule stays_1, rule stays_3 [OF keeps_resolve(1) keeps_resolve(7) 2(21) [OF NCase]
            2(22) [OF NCase] 2(23) [OF NCase]]) (simp_all add: covers_split)
  next
    case (NPatcase c t e)
    show ?thesis unfolding NPatcase resolve.simps ndata.case
      by (rule stays_1, rule stays_3 [OF keeps_resolve(1) keeps_resolve(9) 2(24) [OF NPatcase]
            2(25) [OF NPatcase] 2(26) [OF NPatcase]]) (simp_all add: covers_split)
  next
    case (NLoop k c b post)
    have b: "stays (collect b excl) (sm_in (add_loop 1) (resolve b) (add_loop (- 1)))
        (\<lambda>b. collect b excl)"
      using 2(13) [OF NLoop] by (intro stays_in) simp_all
    show ?thesis unfolding NLoop resolve.simps ndata.case
      by (rule stays_1, rule stays_2 [OF keeps_resolve(1) 2(12) [OF NLoop] b])
        (simp_all add: covers_split)
  next
    case (NRescue classes var b)
    have b: "stays (collect b excl)
        (sm_in (seq [scope_push False, scope_add_opt var, collect b [], add_rescue 1])
          (resolve b) (seq [add_rescue (- 1), scope_pop])) (\<lambda>b. collect b excl)"
      using 2(19) [OF NRescue] by (intro stays_in) (simp_all add: enter_frame add_intros)
    show ?thesis unfolding NRescue resolve.simps ndata.case
      by (rule stays_1, rule stays_2 [OF keeps_resolve(2) 2(18) [OF NRescue] b])
        (simp_all add: covers_split)
  next
    case (NJump k val)
    show ?thesis unfolding NJump resolve.simps ndata.case using 2(20) [OF NJump]
      by (intro stays_1 stays_do grow_intros) simp
  next
    case (NBegin b rescues e ensure)
    show ?thesis unfolding NBegin resolve.simps ndata.case
      by (rule stays_1, rule stays_bind [OF keeps_resolve(1) 2(14) [OF NBegin]],
          rule stays_3 [OF keeps_resolve(2) keeps_resolve(1) 2(15) [OF NBegin]
            2(16) [OF NBegin] 2(17) [OF NBegin]]) (simp_all add: covers_split)
  next
    case (NCall recv m args blk safe)
    show ?thesis unfolding NCall resolve.simps ndata.case
      by (rule stays_1, rule stays_bind [OF keeps_resolve(1) 2(6) [OF NCall]],
          rule stays_bind [OF keeps_resolve(2) 2(7) [OF NCall]], rule stays_1, rule stays_in,
          simp_all add: covers_split)
        (rule stays_weaken [OF 2(8) [OF NCall]], simp_all add: covers_split)
  next
    case (NSval k name)
    then show ?thesis
      by (cases k) (auto intro!: stays_const simp: resolve.simps sm_simps resolve_lvar_def
          seq_fun split: if_splits)
  qed (rule stays_const, auto simp: resolve.simps sm_simps
      split: plain_kind.splits klass_kind.splits)+
next
  case (6 sp sl d)
  show ?case
  proof (cases d)
    case (NBlock params b)
    have "stays (collect b params) (sm_in (seq [scope_push False, scope_add_params params,
        collect b params, add_block 1]) (resolve b) (seq [add_block (- 1), scope_pop]))
        (\<lambda>b. collect b params)"
      using 6 [OF NBlock] by (intro stays_in_covered) (simp_all add: enter_frame add_intros)
    then show ?thesis unfolding NBlock resolve.simps ndata.case by (intro stays_1) simp
  next
    case (NSval k name)
    then show ?thesis
      by (cases k) (auto intro!: stays_const simp: resolve.simps sm_simps resolve_lvar_def
          seq_fun split: if_splits)
  qed (rule stays_const, auto simp: resolve.simps sm_simps
      split: plain_kind.splits klass_kind.splits)+
next
  case (10 sp sl d excl)
  show ?case
  proof (cases d)
    case (NWhen ps b)
    show ?thesis unfolding NWhen resolve_when.simps ndata.case
      by (rule stays_2 [OF keeps_resolve(2) 10(1) [OF NWhen] 10(2) [OF NWhen]])
        (simp_all add: covers_split)
  qed (rule stays_const, auto simp: resolve.simps sm_simps)+
next
  case (14 sp sl d excl)
  show ?case
  proof (cases d)
    case (NIn pat guard b)
    have p: "covers (collect_in (Some (Node sp sl (NIn pat guard b))) excl) s \<Longrightarrow>
        covers (collect guard excl) s \<and> covers (collect b excl) s" for s
      by (simp add: covers_split)
    show ?thesis unfolding NIn resolve_in.simps ndata.case
      by (rule stays_2 [OF keeps_resolve(1) 14(1) [OF NIn] 14(2) [OF NIn] p]) simp_all
  qed (rule stays_const, auto simp: resolve.simps sm_simps)+
next
  case (4 x xs excl)
  show ?case unfolding resolve_list.simps
    by (rule stays_2 [OF keeps_resolve(1) 4]) (simp_all add: covers_split)
next
  case (8 w ws excl)
  show ?case unfolding resolve_whens.simps
    by (rule stays_2 [OF keeps_resolve(8) 8]) (simp_all add: covers_split)
next
  case (12 i ins excl)
  show ?case unfolding resolve_ins.simps
    by (rule stays_2 [OF keeps_resolve(10) 12]) (simp_all add: covers_split)
qed (rule stays_const, simp add: resolve.simps sm_simps)+

subsection \<open>A resolved tree is a fixed point\<close>

text \<open>Resolving the result of \<open>m\<close> again, from the same state, gives the same result and state.\<close>

definition fixed :: "'a sema_m \<Rightarrow> ('a \<Rightarrow> 'a sema_m) \<Rightarrow> bool" where
  "fixed m res \<longleftrightarrow>
     (\<forall>s x s'. s_scope s \<noteq> [] \<longrightarrow> m s = Some (x, s') \<longrightarrow> res x s = Some (x, s'))"

lemma fixedD: "fixed m res \<Longrightarrow> s_scope s \<noteq> [] \<Longrightarrow> m s = Some (x, s') \<Longrightarrow> res x s = Some (x, s')"
  by (simp add: fixed_def)

lemma params_stable:
  "resolve_param p s = Some (p', s') \<Longrightarrow> scope_add_param p' = scope_add_param p"
  "resolve_param_defaults ps s = Some (ps', s') \<Longrightarrow> scope_add_params ps' = scope_add_params ps"
proof (induction p and ps arbitrary: s p' s' and s ps' s' rule: scope_add_param_scope_add_params.induct)
  case (2 sp sl d)
  show ?case
  proof (cases d)
    case (NArray els)
    with "2.prems" obtain els' where "resolve_param_defaults els s = Some (els', s')"
      "p' = Some (Node sp sl (NArray els'))"
      by (auto simp: resolve.simps sm_simps)
    then show ?thesis using "2.IH" [OF NArray] NArray by simp
  qed (use "2.prems" in \<open>auto simp: resolve.simps sm_simps\<close>)
next
  case (4 p ps)
  from "4.prems" obtain x s1 xs where r: "resolve_param p s = Some (x, s1)"
    "resolve_param_defaults ps s1 = Some (xs, s')" "ps' = x # xs"
    by (auto simp: resolve.simps sm_simps)
  show ?case by (simp only: r(3) scope_add_params.simps "4.IH"(1) [OF r(1)] "4.IH"(2) [OF r(2)])
qed (auto simp: resolve.simps sm_simps)

lemma fixed_ret: "res x = sm_ret x \<Longrightarrow> fixed (sm_ret x) res"
  by (simp add: fixed_def sm_simps sm_ret_def)

lemma fixed_1:
  assumes "fixed m r" "\<And>x. res (f x) = sm1 f (r x)"
  shows "fixed (sm1 f m) res"
  using assms by (auto simp: fixed_def sm_simps)

lemma fixed_do:
  assumes "fixed m r" "\<And>s x s'. m s = Some (x, s') \<Longrightarrow> res x = sm_do f (r x)"
    "\<And>s. s_scope (f s) = s_scope s"
  shows "fixed (sm_do f m) res"
  unfolding fixed_def
proof (intro allI impI)
  fix s x s'
  assume s: "s_scope s \<noteq> []" "sm_do f m s = Some (x, s')"
  then have "m (f s) = Some (x, s')" by (simp add: sm_simps)
  moreover from this have "r x (f s) = Some (x, s')" using fixedD [OF assms(1)] s(1) assms(3) by simp
  ultimately show "res x s = Some (x, s')" using assms(2) by (simp add: sm_simps)
qed

lemma fixed_bind:
  assumes "keeps m" "fixed m r" "\<And>x. fixed (f x) (g x)"
    "\<And>x s z s'. f x s = Some (z, s') \<Longrightarrow> res z = sm_bind (r x) (\<lambda>x. g x z)"
  shows "fixed (sm_bind m f) res"
  unfolding fixed_def
proof (intro allI impI)
  fix s z s'
  assume s: "s_scope s \<noteq> []" "sm_bind m f s = Some (z, s')"
  then obtain x s1 where r: "m s = Some (x, s1)" "f x s1 = Some (z, s')"
    by (auto simp: sm_simps)
  have "r x s = Some (x, s1)" "g x z s1 = Some (z, s')"
    using fixedD [OF assms(2) s(1) r(1)]
      fixedD [OF assms(3) keeps_nonempty [OF assms(1) r(1) s(1)] r(2)] by auto
  then show "res z s = Some (z, s')" using assms(4) [OF r(2)] by (simp add: sm_simps)
qed

lemma fixed_2:
  assumes "keeps m" "fixed m r1" "fixed n r2"
    "\<And>x y s s1 s2. m s = Some (x, s1) \<Longrightarrow> n s1 = Some (y, s2) \<Longrightarrow>
       res (f x y) = sm2 f (r1 x) (r2 y)"
  shows "fixed (sm2 f m n) res"
  unfolding fixed_def
proof (intro allI impI)
  fix s z s'
  assume s: "s_scope s \<noteq> []" "sm2 f m n s = Some (z, s')"
  then obtain x s1 y where r: "m s = Some (x, s1)" "n s1 = Some (y, s')" "z = f x y"
    by (auto simp: sm_simps)
  have "r1 x s = Some (x, s1)" "r2 y s1 = Some (y, s')"
    using fixedD [OF assms(2) s(1) r(1)]
      fixedD [OF assms(3) keeps_nonempty [OF assms(1) r(1) s(1)] r(2)] by auto
  then show "res z s = Some (z, s')" using assms(4) [OF r(1,2)] r(3) by (auto simp: sm_simps)
qed

lemma fixed_3:
  assumes "keeps m" "keeps n" "fixed m r1" "fixed n r2" "fixed p r3"
    "\<And>x y z. res (f x y z) = sm3 f (r1 x) (r2 y) (r3 z)"
  shows "fixed (sm3 f m n p) res"
  unfolding fixed_def
proof (intro allI impI)
  fix s w s'
  assume s: "s_scope s \<noteq> []" "sm3 f m n p s = Some (w, s')"
  then obtain x s1 y s2 z where r: "m s = Some (x, s1)" "n s1 = Some (y, s2)"
    "p s2 = Some (z, s')" "w = f x y z"
    by (auto simp: sm_simps)
  note n1 = keeps_nonempty [OF assms(1) r(1) s(1)]
  note n2 = keeps_nonempty [OF assms(2) r(2) n1]
  have "r1 x s = Some (x, s1)" "r2 y s1 = Some (y, s2)" "r3 z s2 = Some (z, s')"
    using fixedD [OF assms(3) s(1) r(1)] fixedD [OF assms(4) n1 r(2)]
      fixedD [OF assms(5) n2 r(3)] by auto
  then show "res w s = Some (w, s')" using assms(6) r(4) by (auto simp: sm_simps)
qed

text \<open>A bracket whose entry looks at the tree, as the entry of a block does, must not change when it
  looks at the result.\<close>

lemma fixed_in:
  assumes "fixed m r" "\<And>s. s_scope s \<noteq> [] \<Longrightarrow> s_scope (enter s) \<noteq> []"
    "\<And>s x s'. s_scope s \<noteq> [] \<Longrightarrow> m (enter s) = Some (x, s') \<Longrightarrow> enter' x s = enter s"
    "\<And>s x s'. m (enter s) = Some (x, s') \<Longrightarrow> res x = sm_in (enter' x) (r x) leave"
  shows "fixed (sm_in enter m leave) res"
  unfolding fixed_def
proof (intro allI impI)
  fix s x s'
  assume s: "s_scope s \<noteq> []" "sm_in enter m leave s = Some (x, s')"
  then obtain s1 where r: "m (enter s) = Some (x, s1)" "s' = leave s1"
    by (auto simp: sm_simps)
  have "r x (enter s) = Some (x, s1)" using fixedD [OF assms(1) assms(2) [OF s(1)] r(1)] .
  then show "res x s = Some (x, s')"
    using assms(3) [OF s(1) r(1)] assms(4) [OF r(1)] r(2) by (auto simp: sm_simps)
qed

lemma fixed_depth:
  assumes "fixed m r" "\<And>s. s_scope (enter s) = s_scope s"
  shows "fixed (sm_in enter m leave) (\<lambda>x. sm_in enter (r x) leave)"
  by (rule fixed_in [OF assms(1), of enter "\<lambda>_. enter"]) (simp_all add: assms(2))

text \<open>The resolution of the data of a node.\<close>

definition resolve_data :: "span \<Rightarrow> ndata \<Rightarrow> ndata sema_m" where
  "resolve_data sp d = sm1 (\<lambda>x. n_data (the x)) (resolve (Some (Node sp 0 d)))"

lemma sm1_sm1: "sm1 f (sm1 g m) = sm1 (\<lambda>x. f (g x)) m"
  by (auto simp: fun_eq_iff sm1_def sm_bind_def sm_ret_def split: option.split)

lemma sm1_ident: "sm1 (\<lambda>x. x) m = m"
  by (auto simp: fun_eq_iff sm1_def sm_bind_def sm_ret_def split: option.split)

lemma resolve_node: "resolve (Some (Node sp sl d)) = sm1 (\<lambda>d. Some (Node sp sl d)) (resolve_data sp d)"
  unfolding resolve_data_def resolve.simps sm1_sm1 by simp

lemmas resolve_data = resolve_data_def resolve.simps sm1_sm1 option.sel node.sel sm1_ident

lemma call_block_depths_undo: "call_block_depths (- 1) recv m (call_block_depths 1 recv m s) = s"
  by (simp add: call_block_depths_def seq_fun add_lambda_def add_proc_def)

lemma check_jump_scope [simp]: "s_scope (check_jump k sp s) = s_scope s"
  by (simp add: check_jump_def sema_error_def split: jump_kind.split)

text \<open>The collection of a body that the bracket has already collected.\<close>

lemma staysD:
  "stays c m k \<Longrightarrow> s_scope s \<noteq> [] \<Longrightarrow> covers c s \<Longrightarrow> m s = Some (x, s') \<Longrightarrow> k x = c"
  by (auto simp: stays_def)

lemma adder_nonempty: "adder f \<Longrightarrow> s_scope s \<noteq> [] \<Longrightarrow> s_scope (f s) \<noteq> []"
  using sema_grows_scope growsD adder_grows by blast

lemma fixed_frame:
  assumes "fixed (resolve b) resolve" "adder f"
    and "\<And>s h. covers h (e s) = covers h s" "\<And>s. s_scope (e s) = s_scope s"
  shows "fixed (sm_in (seq [scope_push False, f, collect b excl, e]) (resolve b) leave)
    (\<lambda>b. sm_in (seq [scope_push False, f, collect b excl, e]) (resolve b) leave)"
proof (rule fixed_in [OF assms(1), where enter' = "\<lambda>b. seq [scope_push False, f, collect b excl, e]"],
    goal_cases)
  case (1 s)
  then show ?case using enter_frame(1) [OF assms(2) adder_collect(1) assms(3,4)] by blast
next
  case (2 s x s')
  have "collect x excl = collect b excl"
    using staysD [OF collect_stable(1) _ _ 2(2)]
      enter_frame(1,2) [OF assms(2) adder_collect(1) assms(3,4)] by blast
  then show ?case by simp
qed simp

lemma fixed_after_collect:
  assumes "fixed (resolve b) resolve" "\<And>s h. covers h (e s) = covers h s" "\<And>s. s_scope (e s) = s_scope s"
  shows "fixed (sm_in (seq [collect b [], e]) (resolve b) leave)
    (\<lambda>b. sm_in (seq [collect b [], e]) (resolve b) leave)"
proof (rule fixed_in [OF assms(1), where enter' = "\<lambda>b. seq [collect b [], e]"], goal_cases)
  case (1 s)
  then show ?case using adder_nonempty [OF adder_collect(1)] by (simp add: seq_simps assms)
next
  case (2 s x s')
  have "s_scope (seq [collect b [], e] s) \<noteq> []" "covers (collect b []) (seq [collect b [], e] s)"
    using adder_nonempty [OF adder_collect(1) 2(1)] covers_after [OF adder_collect(1) 2(1)]
    by (simp_all add: seq_simps assms)
  then have "collect x [] = collect b []" using staysD [OF collect_stable(1) _ _ 2(2)] by blast
  then show ?case by simp
qed simp

lemma fixed_do_collect:
  assumes "fixed (resolve b) resolve"
  shows "fixed (sm_do (collect b []) (resolve b)) (\<lambda>b. sm_do (collect b []) (resolve b))"
proof -
  have e: "sm_do (collect b []) (resolve b) = sm_in (seq [collect b [], id]) (resolve b) id" for b
    by (auto simp: fun_eq_iff sm_do_def sm_in_def seq_fun split: option.split)
  show ?thesis unfolding e using assms by (intro fixed_after_collect) simp_all
qed

text \<open>A frame pushed around two resolutions.\<close>

lemma fixed_push: "fixed m r \<Longrightarrow> fixed (sm_in (scope_push k) m leave) (\<lambda>x. sm_in (scope_push k) (r x) leave)"
  by (rule fixed_in [where enter' = "\<lambda>_. scope_push k"]) simp_all

lemma resolve_rope_None:
  "resolve_rope r n s = Some (r', s') \<Longrightarrow> r' = None \<longleftrightarrow> r = None"
  by (cases r; cases "the r") (auto simp: sm_simps split: option.splits)

lemma rope_top_None: "(r' = None \<longleftrightarrow> r = None) \<Longrightarrow> rope_top r' n = rope_top r n"
  by (auto simp: rope_top_def split: option.split)

lemma resolve_fixed:
  "fixed (resolve x) resolve" "fixed (resolve_list xs) resolve_list"
  "fixed (resolve_pairs ps) resolve_pairs" "fixed (resolve_pair p) resolve_pair"
  "fixed (resolve_param_defaults ds) resolve_param_defaults" "fixed (resolve_param d) resolve_param"
  "fixed (resolve_whens ws) resolve_whens" "fixed (resolve_when w) resolve_when"
  "fixed (resolve_ins is) resolve_ins" "fixed (resolve_in i) resolve_in"
  "fixed (resolve_rope r n) (\<lambda>r. resolve_rope r n)"
proof (induction x and xs and ps and p and ds and d and ws and w and "is" and i and r n
    rule: resolve_induct)
  case 1
  show ?case by (simp add: resolve.simps fixed_ret)
next
  case (2 sp sl d)
  have "fixed (resolve_data sp d) (resolve_data sp)"
  proof (cases d)
    case (NSval k name)
    show ?thesis
      by (cases k) (auto simp: NSval resolve_data fixed_def sm_simps resolve_lvar_def
          resolve_list.simps call_block_depths_undo split: if_splits)
  next
    case (NBinop k op l r)
    show ?thesis unfolding NBinop resolve_data ndata.case
      by (rule fixed_2 [OF keeps_resolve(1) 2(1) [OF NBinop] 2(2) [OF NBinop]])
        (simp add: resolve_data)
  next
    case (NUnop op x)
    show ?thesis unfolding NUnop resolve_data ndata.case
      by (rule fixed_1 [OF 2(3) [OF NUnop]]) (simp add: resolve_data)
  next
    case (NAssign t v)
    show ?thesis unfolding NAssign resolve_data ndata.case
      by (rule fixed_2 [OF keeps_resolve(1) 2(4) [OF NAssign] 2(5) [OF NAssign]])
        (simp add: resolve_data)
  next
    case (NBlockPass x)
    show ?thesis unfolding NBlockPass resolve_data ndata.case
      by (rule fixed_1 [OF 2(40) [OF NBlockPass]]) (simp add: resolve_data)
  next
    case (NDefined x)
    show ?thesis unfolding NDefined resolve_data ndata.case
      by (rule fixed_1 [OF 2(41) [OF NDefined]]) (simp add: resolve_data)
  next
    case (NRope r)
    show ?thesis unfolding NRope resolve_data ndata.case
      by (rule fixed_1 [OF 2(42) [OF NRope]]) (simp add: resolve_data)
  next
    case (NBody k stmts)
    show ?thesis unfolding NBody resolve_data ndata.case
      by (rule fixed_1 [OF 2(43) [OF NBody]]) (simp add: resolve_data)
  next
    case (NArray els)
    show ?thesis unfolding NArray resolve_data ndata.case
      by (rule fixed_1 [OF 2(31) [OF NArray]]) (simp add: resolve_data)
  next
    case (NHash ps kw)
    show ?thesis unfolding NHash resolve_data ndata.case
      by (rule fixed_1 [OF 2(32) [OF NHash]]) (simp add: resolve_data)
  next
    case (NSuper args fwd)
    show ?thesis unfolding NSuper resolve_data ndata.case
      by (rule fixed_1 [OF 2(39) [OF NSuper]]) (simp add: resolve_data)
  next
    case (NCond k c t e)
    show ?thesis unfolding NCond resolve_data ndata.case
      by (rule fixed_3 [OF keeps_resolve(1) keeps_resolve(1) 2(10) [OF NCond] 2(11) [OF NCond]
            2(12) [OF NCond]]) (simp add: resolve_data)
  next
    case (NCase c t e)
    show ?thesis unfolding NCase resolve_data ndata.case
      by (rule fixed_3 [OF keeps_resolve(1) keeps_resolve(7) 2(33) [OF NCase] 2(34) [OF NCase]
            2(35) [OF NCase]]) (simp add: resolve_data)
  next
    case (NPatcase c t e)
    show ?thesis unfolding NPatcase resolve_data ndata.case
      by (rule fixed_3 [OF keeps_resolve(1) keeps_resolve(9) 2(36) [OF NPatcase]
            2(37) [OF NPatcase] 2(38) [OF NPatcase]]) (simp add: resolve_data)
  next
    case (NJump k v)
    show ?thesis unfolding NJump resolve_data ndata.case
      by (rule fixed_do [where r = "\<lambda>d. case d of NJump k v \<Rightarrow> sm1 (NJump k) (resolve v)"],
          rule fixed_1 [OF 2(30) [OF NJump]]) (auto simp: resolve_data sm_simps)
  next
    case (NLoop k c b post)
    show ?thesis unfolding NLoop resolve_data ndata.case
      by (rule fixed_2 [OF keeps_resolve(1) 2(13) [OF NLoop] fixed_depth [OF 2(14) [OF NLoop]]])
        (simp_all add: resolve_data)
  next
    case (NBlock params b)
    show ?thesis unfolding NBlock resolve_data ndata.case
      by (rule fixed_1 [OF fixed_frame [OF 2(9) [OF NBlock] adder_params(2)]])
        (simp_all add: resolve_data)
  next
    case (NRescue classes var b)
    show ?thesis unfolding NRescue resolve_data ndata.case
      by (rule fixed_2 [OF keeps_resolve(2) 2(21) [OF NRescue]
            fixed_frame [OF 2(22) [OF NRescue] adder_scope_add_opt]])
        (simp_all add: resolve_data)
  next
    case (NSclass recv b)
    show ?thesis unfolding NSclass resolve_data ndata.case
      by (rule fixed_2 [OF keeps_resolve(1) 2(28) [OF NSclass]
            fixed_push [OF fixed_do_collect [OF 2(29) [OF NSclass]]]])
        (simp add: resolve_data)
  next
    case (NCall recv m args blk safe)
    let ?blk = "\<lambda>recv args blk. sm1 (\<lambda>blk. NCall recv m args blk safe)
        (sm_in (call_block_depths 1 recv m) (resolve blk) (call_block_depths (- 1) recv m))"
    have "fixed (?blk recv args blk) (\<lambda>z. case z of NCall _ _ _ blk _ \<Rightarrow> ?blk recv args blk)" for recv args
      by (rule fixed_1 [OF fixed_depth [OF 2(8) [OF NCall]]]) simp_all
    then have "fixed (sm_bind (resolve_list args) (\<lambda>args. ?blk recv args blk))
        (\<lambda>z. case z of NCall _ _ args blk _ \<Rightarrow> sm_bind (resolve_list args) (\<lambda>args. ?blk recv args blk))"
      for recv
      by (rule fixed_bind [OF keeps_resolve(2) 2(7) [OF NCall]]) (auto simp: sm_simps)
    then show ?thesis unfolding NCall resolve_data ndata.case
      by (rule fixed_bind [OF keeps_resolve(1) 2(6) [OF NCall]]) (auto simp: sm_simps resolve_data)
  next
    case (NBegin b rs e en)
    have "fixed (sm3 (NBegin b) (resolve_list rs) (resolve e) (resolve en))
        (\<lambda>z. case z of NBegin _ rs e en \<Rightarrow> sm3 (NBegin b) (resolve_list rs) (resolve e) (resolve en))"
      for b
      by (rule fixed_3 [OF keeps_resolve(2) keeps_resolve(1) 2(18) [OF NBegin] 2(19) [OF NBegin]
            2(20) [OF NBegin]]) simp
    then show ?thesis unfolding NBegin resolve_data ndata.case
      by (rule fixed_bind [OF keeps_resolve(1) 2(17) [OF NBegin]]) (auto simp: sm_simps resolve_data)
  next
    case (NFor target iter b)
    have "fixed (sm_in (seq [scope_add_target target, add_loop 1]) (resolve b) (add_loop (- 1)))
        (\<lambda>b. sm_in (seq [scope_add_target target, add_loop 1]) (resolve b) (add_loop (- 1)))"
      by (rule fixed_in [OF 2(16) [OF NFor], where enter' = "\<lambda>_. seq [scope_add_target target, add_loop 1]"])
        (simp_all add: seq_simps adder_nonempty [OF adder_target(1)])
    then show ?thesis unfolding NFor resolve_data ndata.case
      by (rule fixed_2 [OF keeps_resolve(1) 2(15) [OF NFor]]) (simp add: resolve_data)
  next
    case (NDef recv name params b)
    let ?enter = "\<lambda>params. seq [scope_push True, scope_add ''self'', scope_add_params params]"
    let ?in = "\<lambda>params b. sm2 (NDef recv name) (resolve_param_defaults params)
        (sm_in (seq [collect b [], add_def 1]) (resolve b) (add_def (- 1)))"
    have "fixed (?in params b) (\<lambda>z. case z of NDef _ _ params b \<Rightarrow> ?in params b)"
      by (rule fixed_2 [OF keeps_resolve(5) 2(23) [OF NDef] fixed_after_collect [OF 2(24) [OF NDef]]])
        simp_all
    moreover have ne: "s_scope (?enter params s) \<noteq> []" for s
      unfolding seq_simps
      by (intro adder_nonempty [OF adder_params(2)] adder_nonempty [OF adder_scope_add]) simp
    ultimately show ?thesis unfolding NDef resolve_data ndata.case
      by (rule fixed_in [where enter' = "\<lambda>z. case z of NDef _ _ params b \<Rightarrow> ?enter params"])
        (auto simp: sm_simps resolve_data params_stable)
  next
    case (NKlass k name super b)
    show ?thesis
    proof (cases k)
      case K_CLASS
      have "fixed (sm2 (NKlass K_CLASS name) (resolve super) (sm_do (collect b []) (resolve b)))
          (\<lambda>z. case z of NKlass _ _ super b \<Rightarrow>
             sm2 (NKlass K_CLASS name) (resolve super) (sm_do (collect b []) (resolve b)))"
        by (rule fixed_2 [OF keeps_resolve(1) 2(25) [OF NKlass K_CLASS]
              fixed_do_collect [OF 2(26) [OF NKlass K_CLASS]]]) simp
      then show ?thesis unfolding NKlass K_CLASS resolve_data ndata.case klass_kind.case
        by (rule fixed_in [where enter' = "\<lambda>_. scope_push True"]) (auto simp: sm_simps resolve_data)
    next
      case K_MODULE
      have "fixed (sm1 (NKlass K_MODULE name super) (sm_do (collect b []) (resolve b)))
          (\<lambda>z. case z of NKlass _ _ super b \<Rightarrow>
             sm1 (NKlass K_MODULE name super) (sm_do (collect b []) (resolve b)))"
        by (rule fixed_1 [OF fixed_do_collect [OF 2(27) [OF NKlass K_MODULE]]]) simp
      then show ?thesis unfolding NKlass K_MODULE resolve_data ndata.case klass_kind.case
        by (rule fixed_in [where enter' = "\<lambda>_. scope_push True"]) (auto simp: sm_simps resolve_data)
    qed
  next
    case (NPlain k)
    show ?thesis by (cases k) (auto simp: NPlain resolve_data fixed_def sm_simps)
  qed (auto simp: resolve_data fixed_def sm_simps)
  then show ?case unfolding resolve_node by (rule fixed_1) (rule resolve_node)
next
  case 3
  show ?case by (simp add: fixed_ret)
next
  case (4 x xs)
  show ?case unfolding resolve_list.simps by (rule fixed_2 [OF keeps_resolve(1) 4]) simp
next
  case 5
  show ?case by (simp add: fixed_ret)
next
  case (6 p ps)
  show ?case unfolding resolve_pairs.simps by (rule fixed_2 [OF keeps_resolve(4) 6]) simp
next
  case 7
  show ?case by (simp add: fixed_ret)
next
  case (8 sp sl d)
  show ?case
  proof (cases d)
    case (NPair k v)
    show ?thesis unfolding NPair resolve_pair.simps ndata.case
      by (rule fixed_2 [OF keeps_resolve(1) 8(1) [OF NPair] 8(2) [OF NPair]]) simp
  qed (simp_all add: fixed_ret)
next
  case 9
  show ?case by (simp add: fixed_ret)
next
  case (10 p ps)
  show ?case unfolding resolve_param_defaults.simps by (rule fixed_2 [OF keeps_resolve(6) 10]) simp
next
  case 11
  show ?case by (simp add: fixed_ret)
next
  case (12 sp sl d)
  show ?case
  proof (cases d)
    case (NParam name dflt fl)
    show ?thesis unfolding NParam resolve_param.simps ndata.case sm1_sm1
      by (rule fixed_1 [OF 12(1) [OF NParam]]) (simp add: sm1_sm1)
  next
    case (NArray els)
    show ?thesis unfolding NArray resolve_param.simps ndata.case sm1_sm1
      by (rule fixed_1 [OF 12(2) [OF NArray]]) (simp add: sm1_sm1)
  qed (auto simp: fixed_def sm_simps)
next
  case 13
  show ?case by (simp add: fixed_ret)
next
  case (14 w ws)
  show ?case unfolding resolve_whens.simps by (rule fixed_2 [OF keeps_resolve(8) 14]) simp
next
  case 15
  show ?case by (simp add: fixed_ret)
next
  case (16 sp sl d)
  show ?case
  proof (cases d)
    case (NWhen ps b)
    show ?thesis unfolding NWhen resolve_when.simps ndata.case
      by (rule fixed_2 [OF keeps_resolve(2) 16(1) [OF NWhen] 16(2) [OF NWhen]]) simp
  qed (simp_all add: fixed_ret)
next
  case 17
  show ?case by (simp add: fixed_ret)
next
  case (18 i ins)
  show ?case unfolding resolve_ins.simps by (rule fixed_2 [OF keeps_resolve(10) 18]) simp
next
  case 19
  show ?case by (simp add: fixed_ret)
next
  case (20 sp sl d)
  show ?case
  proof (cases d)
    case (NIn pat g b)
    show ?thesis unfolding NIn resolve_in.simps ndata.case
      by (rule fixed_2 [OF keeps_resolve(1) 20(1) [OF NIn] 20(2) [OF NIn]]) simp
  qed (simp_all add: fixed_ret)
next
  case (21 n)
  show ?case by (simp add: fixed_ret)
next
  case (22 t n)
  show ?case by (simp add: fixed_ret)
next
  case (23 x n)
  show ?case unfolding resolve_rope.simps by (rule fixed_1 [OF 23]) simp
next
  case (24 l r n)
  show ?case
  proof (cases "rope_top r n")
    case None
    then show ?thesis by (simp add: fixed_def sm_simps)
  next
    case n1: (Some n1)
    show ?thesis
    proof (cases "rope_top l n1")
      case None
      then show ?thesis using n1 by (simp add: fixed_def sm_simps)
    next
      case n2: (Some n2)
      have same: "resolve_rope (Some (RopeCat l' r')) n =
          sm2 (\<lambda>l r. Some (RopeCat l r)) (resolve_rope l' n1) (resolve_rope r' n)"
        if "l' = None \<longleftrightarrow> l = None" "r' = None \<longleftrightarrow> r = None" for l' r'
        unfolding resolve_rope.simps rope_top_None [OF that(1)] rope_top_None [OF that(2)] n1 n2 option.case ..
      note fxd = fixed_2 [OF keeps_resolve(11) 24(1) [OF n1 n2] 24(2) [OF n1 n2],
          where f = "\<lambda>l r. Some (RopeCat l r)" and res = "\<lambda>r. resolve_rope r n"]
      show ?thesis unfolding resolve_rope.simps n1 n2 option.case
      proof (rule fxd)
        fix l' r' s s1 s2
        assume "resolve_rope l n1 s = Some (l', s1)" "resolve_rope r n s1 = Some (r', s2)"
        then show "resolve_rope (Some (RopeCat l' r')) n =
            sm2 (\<lambda>l r. Some (RopeCat l r)) (resolve_rope l' n1) (resolve_rope r' n)"
          by (intro same) (erule resolve_rope_None)+
      qed
    qed
  qed
qed

end
