(* ===== verification/SemaProps.thy ===== *)
theory SemaProps
  imports SemaFixed
begin

section \<open>Properties of the semantic analysis\<close>

text \<open>A program for the witnesses: \<open>x = 1; x; y; break\<close>, and what the analysis makes of it.\<close>

definition at_line :: "u32 \<Rightarrow> ndata \<Rightarrow> node option" where
  "at_line l d = Some (Node \<lparr>sp_line = l, sp_col = 1, sp_len = 1\<rparr> 0 d)"

definition sample_program :: "node option" where
  "sample_program = at_line 1 (NBody K_PROGRAM
     [at_line 1 (NAssign (at_line 1 (NSval K_LVAR ''x'')) (at_line 1 (NInt 1))),
      at_line 2 (NSval K_LVAR ''x''), at_line 3 (NSval K_LVAR ''y''),
      at_line 4 (NJump K_BREAK None)])"

definition sample_resolved :: "node option" where
  "sample_resolved = at_line 1 (NBody K_PROGRAM
     [at_line 1 (NAssign (at_line 1 (NSval K_LVAR ''x'')) (at_line 1 (NInt 1))),
      at_line 2 (NSval K_LVAR ''x''), at_line 3 (NCall None ''y'' [] None False),
      at_line 4 (NJump K_BREAK None)])"

definition sample_state :: sema where
  "sample_state = sema_init\<lparr>s_errors :=
     [\<lparr>e_message = quoted ''break'' '' outside of loop or block'', e_line = 4, e_col = 1\<rparr>]\<rparr>"

lemma sample_run: "sema_run sample_program sema_init = Some (sample_resolved, sample_state)"
  by code_simp

text \<open>C22: a run of the analysis leaves the scope stack and every depth as it found them, and only
  appends errors; it never holds more than 64.\<close>

theorem sema_run_keeps:
  assumes "sema_run p s = Some (p', s')" "length (s_errors s) \<le> MAX_ERRORS"
  shows "\<exists>new. s' = s\<lparr>s_errors := s_errors s @ new\<rparr> \<and> length (s_errors s') \<le> MAX_ERRORS"
proof -
  let ?f = "scope_push True s" and ?e = "seq [scope_push True, collect p []] s"
  from assms(1) obtain s1 where s1: "resolve p ?e = Some (p', s1)" "s' = scope_pop s1"
    by (auto simp: sema_run_def sm_simps)
  have e: "sema_grows ?f ?e"
    using growsD [OF adder_grows [OF adder_collect(1)], of ?f] by (simp add: seq_simps)
  then have "sema_grows ?f s1"
    using sema_grows_trans resolve_grows(1) [OF s1(1)] sema_grows_scope by blast
  then show ?thesis using assms(2) s1(2)
    by (cases s; cases s1) (auto simp: sema_grows_def scope_push_def scope_pop_def)
qed

theorem sema_run_keeps_witness:
  "\<exists>new. sample_state = sema_init\<lparr>s_errors := s_errors sema_init @ new\<rparr> \<and>
     length (s_errors sample_state) \<le> MAX_ERRORS"
  by (rule sema_run_keeps [OF sample_run]) (simp add: sema_init_def)

text \<open>C20: the tree a run returns is resolved: run from the same state, the analysis returns it
  unchanged, with the same errors.\<close>

theorem sema_run_idempotent:
  assumes "sema_run p s = Some (p', s')"
  shows "sema_run p' s = Some (p', s')"
proof -
  let ?e = "seq [scope_push True, collect p []] s"
  from assms obtain s1 where s1: "resolve p ?e = Some (p', s1)" "s' = scope_pop s1"
    by (auto simp: sema_run_def sm_simps)
  have e: "s_scope ?e \<noteq> []" "covers (collect p []) ?e"
    using adder_nonempty [OF adder_collect(1), of "scope_push True s"]
      covers_after [OF adder_collect(1), of "scope_push True s"] by (simp_all add: seq_simps)
  have "collect p' [] = collect p []" using staysD [OF collect_stable(1) e s1(1)] .
  then show ?thesis using fixedD [OF resolve_fixed(1) e(1) s1(1)] s1(2)
    by (auto simp: sema_run_def sm_simps)
qed

theorem sema_run_idempotent_witness:
  "sema_run sample_resolved sema_init = Some (sample_resolved, sample_state)"
  by (rule sema_run_idempotent [OF sample_run])

text \<open>The nodes that open a definition's scope.\<close>

definition opens_definition :: "ndata \<Rightarrow> bool" where
  "opens_definition d = (case d of NDef _ _ _ _ \<Rightarrow> True | NKlass _ _ _ _ \<Rightarrow> True | _ \<Rightarrow> False)"

lemma indep_frame:
  assumes "up 0 f" "grows f" "indep m" "keeps m"
  shows "sm_in (\<lambda>s. f (scope_push True s)) m scope_pop (s\<lparr>s_scope := sc\<rparr>) =
    map_option (\<lambda>(x, s'). (x, s'\<lparr>s_scope := sc\<rparr>)) (sm_in (\<lambda>s. f (scope_push True s)) m scope_pop s)"
proof -
  let ?e = "\<lambda>s. f (scope_push True s)" and ?t = "s\<lparr>s_scope := sc\<rparr>"
  have "alike 0 (scope_push True s) (scope_push True ?t)"
    by (rule alikeI [where fs = "[]" and d = "\<lparr>sc_is_def = True, sc_locals = []\<rparr>"])
      (simp_all add: scope_push_def)
  then have a: "alike 0 (?e s) (?e ?t)" using assms(1) by (auto simp: up_def)
  have g: "sema_grows (scope_push True s) s'" if "m (?e s) = Some (x, s')" for x s s'
  proof -
    have e: "sema_grows (scope_push True s) (?e s)" using growsD [OF assms(2)] by simp
    moreover have "sema_grows (?e s) s'"
      using assms(4) that sema_grows_scope [OF e] by (auto simp: keeps_def)
    ultimately show ?thesis by (rule sema_grows_trans)
  qed
  show ?thesis
  proof (rule indepE [OF assms(3) a])
    fix x s' t' assume r: "m (?e s) = Some (x, s')" "m (?e ?t) = Some (x, t')" "alike 0 s' t'"
    then have "scope_pop t' = scope_pop s'\<lparr>s_scope := sc\<rparr>"
      using g [OF r(2)] by (auto simp: sema_grows_def scope_push_def scope_pop_def alike_def)
    then show ?thesis using r by (simp add: sm_in_def)
  qed (simp_all add: sm_in_def)
qed

lemma sm1_map: "sm1 f m s = map_option (\<lambda>(x, s). (f x, s)) (m s)"
  by (simp add: sm1_def sm_bind_def sm_ret_def split: option.split)

text \<open>C21: the body of a method, a class or a module does not see the locals around it: whatever the
  enclosing scopes hold, the definition is resolved to the same tree with the same errors.\<close>

theorem definition_hides_locals:
  assumes "opens_definition d"
  shows "resolve (Some (Node sp sl d)) (s\<lparr>s_scope := sc\<rparr>) =
    map_option (\<lambda>(x, s'). (x, s'\<lparr>s_scope := sc\<rparr>)) (resolve (Some (Node sp sl d)) s)"
proof -
  have "resolve_data sp d (s\<lparr>s_scope := sc\<rparr>) =
      map_option (\<lambda>(x, s'). (x, s'\<lparr>s_scope := sc\<rparr>)) (resolve_data sp d s)"
  proof (cases d)
    case (NDef recv name params b)
    let ?f = "seq [scope_add ''self'', scope_add_params params]"
    have e: "seq [scope_push True, scope_add ''self'', scope_add_params params] =
        (\<lambda>s. ?f (scope_push True s))" by (simp add: seq_fun)
    have f: "up 0 ?f" "grows ?f" by (intro up_intros grow_intros add_intros)+
    show ?thesis unfolding NDef resolve_data ndata.case e
      by (rule indep_frame [OF f])
        (auto intro!: up_intros keep_intros grow_intros add_intros indep_resolve keeps_resolve)
  next
    case (NKlass k name super b)
    have e: "scope_push True = (\<lambda>s. (\<lambda>s. s) (scope_push True s))" by simp
    show ?thesis
    proof (cases k)
      case K_CLASS
      show ?thesis unfolding NKlass K_CLASS resolve_data ndata.case klass_kind.case
        by (subst (1 2) e, rule indep_frame)
          (intro up_intros keep_intros grow_intros add_intros indep_resolve keeps_resolve)+
    next
      case K_MODULE
      show ?thesis unfolding NKlass K_MODULE resolve_data ndata.case klass_kind.case
        by (subst (1 2) e, rule indep_frame)
          (intro up_intros keep_intros grow_intros add_intros indep_resolve keeps_resolve)+
    qed
  qed (use assms in \<open>simp_all add: opens_definition_def\<close>)
  then show ?thesis unfolding resolve_node
    by (auto simp: sm1_map option.map_comp comp_def intro!: option.map_cong)
qed

theorem definition_hides_locals_witness:
  "resolve (at_line 1 (NDef None ''f'' [] (at_line 2 (NSval K_LVAR ''x''))))
     (sema_init\<lparr>s_scope := [\<lparr>sc_is_def = True, sc_locals = [''x'']\<rparr>]\<rparr>) =
   Some (at_line 1 (NDef None ''f'' [] (at_line 2 (NCall None ''x'' [] None False))),
     sema_init\<lparr>s_scope := [\<lparr>sc_is_def = True, sc_locals = [''x'']\<rparr>]\<rparr>)"
proof -
  have d: "opens_definition (NDef None ''f'' [] (at_line 2 (NSval K_LVAR ''x'')))" by code_simp
  have r: "resolve (at_line 1 (NDef None ''f'' [] (at_line 2 (NSval K_LVAR ''x'')))) sema_init =
      Some (at_line 1 (NDef None ''f'' [] (at_line 2 (NCall None ''x'' [] None False))), sema_init)"
    by code_simp
  show ?thesis using definition_hides_locals [OF d] r by (simp add: at_line_def)
qed

lemma resolve_rope_need:
  "r \<noteq> None \<Longrightarrow> n < ROPE_STACK \<Longrightarrow> ROPE_STACK < n + rope_need r \<Longrightarrow> resolve_rope r n s = None"
proof (induction r arbitrary: n s rule: rope_need.induct)
  case (4 l r n s)
  show ?case
  proof (cases "ROPE_STACK < n + rope_need r")
    case True
    then have "r \<noteq> None" using "4.prems" by (cases r) auto
    then have "resolve_rope r n s = None" for s by (rule 4(1) [OF _ "4.prems"(2) True])
    then show ?thesis
      by (auto simp: sm_fail_def sm2_def sm1_def sm_bind_def sm_ret_def split: option.split)
  next
    case False
    define n1 where "n1 = n + (if r = None then 0 else 1)"
    have n1: "rope_top r n = Some n1" using "4.prems" by (auto simp: rope_top_def n1_def)
    have l: "l \<noteq> None" "ROPE_STACK < n1 + rope_need l"
      using "4.prems" False by (auto simp: n1_def split: if_splits)
    show ?thesis
    proof (cases "n1 < ROPE_STACK")
      case True
      have "resolve_rope l n1 s = None" by (rule 4(2) [OF l(1) l(1) True l(2)])
      then show ?thesis unfolding resolve_rope.simps n1 option.case
        by (auto simp: sm_fail_def sm2_def sm_bind_def split: option.split)
    next
      case False
      then have "rope_top l n1 = None" using l by (auto simp: rope_top_def)
      then show ?thesis unfolding resolve_rope.simps n1 option.case by (simp add: sm_fail_def)
    qed
  qed
qed simp_all

text \<open>C29: the analysis walks the rope of a string with interpolations on a stack of 256 entries that
  it does not check: a string of more than 256 segments writes past it.\<close>

theorem resolve_rope_overflows:
  assumes "length segs > 256"
  shows "resolve (Some (Node sp sl (NRope (rope_of_segments segs)))) s = None"
proof -
  have "resolve_rope (rope_of_segments segs) 0 s = None"
    using assms rope_of_segments_props [of segs]
    by (intro resolve_rope_need) (auto simp: ROPE_STACK_def)
  then show ?thesis unfolding resolve.simps
    by (simp add: sm1_def sm_bind_def)
qed

theorem resolve_rope_overflows_witness:
  "resolve (at_line 1 (NRope (rope_of_segments (replicate 257 (Inl ''a''))))) sema_init = None"
  unfolding at_line_def by (rule resolve_rope_overflows) simp

end
