(* ===== verification/Table.thy ===== *)
theory Table
  imports Clib
begin

section \<open>Tables of named entries\<close>

text \<open>
  The linked lists of entries the sources search by \<open>strcmp\<close>: the variables of an environment,
  the globals and the instance variables of an object. The first entry of a name counts; a new
  entry goes to the front.
\<close>

type_synonym 'v entries = "(string \<times> 'v) list"

fun entry_get :: "'v entries \<Rightarrow> string \<Rightarrow> 'v option" where
  "entry_get [] name = None"
| "entry_get ((n, v) # es) name = (if streq n name then Some v else entry_get es name)"

text \<open>Assign to the first entry of the name; \<open>None\<close> when there is none.\<close>

fun entry_update :: "string \<Rightarrow> 'v \<Rightarrow> 'v entries \<Rightarrow> 'v entries option" where
  "entry_update name v [] = None"
| "entry_update name v ((n, w) # es) =
     (if streq n name then Some ((n, v) # es)
      else map_option ((#) (n, w)) (entry_update name v es))"

definition entry_define :: "string \<Rightarrow> 'v \<Rightarrow> 'v entries \<Rightarrow> 'v entries" where
  "entry_define name v es =
     (case entry_update name v es of Some es' \<Rightarrow> es' | None \<Rightarrow> (name, v) # es)"

text \<open>Unlink the first entry of the name.\<close>

fun entry_remove :: "string \<Rightarrow> 'v entries \<Rightarrow> 'v entries option" where
  "entry_remove name [] = None"
| "entry_remove name ((n, w) # es) =
     (if streq n name then Some es else map_option ((#) (n, w)) (entry_remove name es))"

subsection \<open>The interface of a table\<close>

text \<open>
  What the clients of a table rely on: keys that count as the same, a state that is well formed,
  and what a lookup returns after a store or a removal.
\<close>

locale table =
  fixes same :: "'k \<Rightarrow> 'k \<Rightarrow> bool"
    and key :: "'k \<Rightarrow> bool"
    and ok :: "'s \<Rightarrow> bool"
    and get :: "'s \<Rightarrow> 'k \<Rightarrow> 'v option"
    and put :: "'k \<Rightarrow> 'v \<Rightarrow> 's \<Rightarrow> 's"
    and del :: "'k \<Rightarrow> 's \<Rightarrow> 's"
  assumes same_refl: "key k \<Longrightarrow> same k k"
    and same_sym: "key k \<Longrightarrow> key l \<Longrightarrow> same k l \<Longrightarrow> same l k"
    and same_trans: "key j \<Longrightarrow> key k \<Longrightarrow> key l \<Longrightarrow> same j k \<Longrightarrow> same k l \<Longrightarrow> same j l"
    and ok_put: "ok s \<Longrightarrow> key k \<Longrightarrow> ok (put k v s)"
    and ok_del: "ok s \<Longrightarrow> key k \<Longrightarrow> ok (del k s)"
    and get_put: "ok s \<Longrightarrow> key k \<Longrightarrow> key l \<Longrightarrow>
      get (put k v s) l = (if same k l then Some v else get s l)"
    and get_del: "ok s \<Longrightarrow> key k \<Longrightarrow> key l \<Longrightarrow>
      get (del k s) l = (if same k l then None else get s l)"
begin

text \<open>A sequence of stores (\<open>Some v\<close>) and removals (\<open>None\<close>).\<close>

primrec run :: "('k \<times> 'v option) list \<Rightarrow> 's \<Rightarrow> 's" where
  "run [] s = s"
| "run (op # ops) s =
     run ops (case op of (k, Some v) \<Rightarrow> put k v s | (k, None) \<Rightarrow> del k s)"

primrec last_op :: "'k \<Rightarrow> ('k \<times> 'v option) list \<Rightarrow> 'v option option" where
  "last_op l [] = None"
| "last_op l (op # ops) =
     (case last_op l ops of
        Some r \<Rightarrow> Some r
      | None \<Rightarrow> if same (fst op) l then Some (snd op) else None)"

lemma ok_run: "ok s \<Longrightarrow> \<forall>(k, _) \<in> set ops. key k \<Longrightarrow> ok (run ops s)"
  by (induction ops arbitrary: s) (auto simp: ok_put ok_del split: option.split)

text \<open>A lookup after any sequence of operations returns what the last one on its key left.\<close>

lemma get_run:
  "ok s \<Longrightarrow> \<forall>(k, _) \<in> set ops. key k \<Longrightarrow> key l \<Longrightarrow>
     get (run ops s) l = (case last_op l ops of Some r \<Rightarrow> r | None \<Rightarrow> get s l)"
proof (induction ops arbitrary: s)
  case (Cons op ops)
  obtain k w where op: "op = (k, w)" by force
  then show ?case using Cons
    by (cases w) (auto simp: ok_put ok_del get_put get_del split: option.split)
qed simp

end

subsection \<open>Entry lists are tables\<close>

definition entries_ok :: "'v entries \<Rightarrow> bool" where
  "entries_ok es \<longleftrightarrow> distinct (map (\<lambda>e. cstr (fst e)) es)"

definition entry_delete :: "string \<Rightarrow> 'v entries \<Rightarrow> 'v entries" where
  "entry_delete name es = (case entry_remove name es of None \<Rightarrow> es | Some es' \<Rightarrow> es')"

abbreviation entry_names :: "'v entries \<Rightarrow> string list" where
  "entry_names es \<equiv> map (\<lambda>e. cstr (fst e)) es"

lemma entry_get_None: "entry_get es name = None \<longleftrightarrow> cstr name \<notin> set (entry_names es)"
  by (induction es name rule: entry_get.induct) (auto simp: streq_def)

lemma entry_update_None: "entry_update name v es = None \<longleftrightarrow> entry_get es name = None"
  by (induction es name rule: entry_get.induct) auto

lemma entry_update_found: "entry_get es name = Some w \<Longrightarrow> \<exists>es'. entry_update name v es = Some es'"
  using entry_update_None [of name v es] by auto

lemma entry_update_absent: "entry_get es name = None \<Longrightarrow> entry_update name v es = None"
  by (simp add: entry_update_None)

lemma entry_update_names:
  "entry_update name v es = Some es' \<Longrightarrow> entry_names es' = entry_names es"
  by (induction es arbitrary: es') (auto split: if_splits)

lemma entry_update_get:
  "entry_update name v es = Some es' \<Longrightarrow>
     entry_get es' l = (if streq name l then Some v else entry_get es l)"
  by (induction es arbitrary: es') (auto simp: streq_def split: if_splits)

lemma entry_remove_None: "entry_remove name es = None \<longleftrightarrow> entry_get es name = None"
  by (induction es name rule: entry_get.induct) auto

lemma entry_remove_names:
  "entry_remove name es = Some es' \<Longrightarrow> entries_ok es \<Longrightarrow>
     entries_ok es' \<and> set (entry_names es') = set (entry_names es) - {cstr name}"
proof (induction es arbitrary: es')
  case (Cons e es)
  obtain n w where e: "e = (n, w)" by force
  show ?case
  proof (cases "streq n name")
    case True
    then show ?thesis using Cons.prems by (auto simp: e streq_def entries_ok_def)
  next
    case False
    then obtain r where r: "entry_remove name es = Some r" "es' = (n, w) # r"
      using Cons.prems(1) by (auto simp: e)
    moreover have "entries_ok es" using Cons.prems(2) by (simp add: entries_ok_def)
    ultimately have "entries_ok r \<and> set (entry_names r) = set (entry_names es) - {cstr name}"
      by (intro Cons.IH)
    then show ?thesis using Cons.prems(2) False r by (auto simp: e entries_ok_def streq_def)
  qed
qed simp

lemma entry_remove_get:
  "entry_remove name es = Some es' \<Longrightarrow> entries_ok es \<Longrightarrow>
     entry_get es' l = (if streq name l then None else entry_get es l)"
proof -
  assume r: "entry_remove name es = Some es'" and ok: "entries_ok es"
  show ?thesis
  proof (cases "streq name l")
    case True
    then have "cstr l \<notin> set (entry_names es')"
      using entry_remove_names [OF r ok] by (simp add: streq_def)
    then show ?thesis using True by (simp only: entry_get_None if_True not_False_eq_True)
  next
    case False
    from r have "entry_get es' l = entry_get es l"
      using False by (induction es arbitrary: es') (auto simp: streq_def split: if_splits)
    then show ?thesis using False by simp
  qed
qed

interpretation entry_table: table streq "\<lambda>_. True" entries_ok entry_get entry_define entry_delete
proof (unfold_locales, goal_cases)
  case (4 s k v)
  show ?case
  proof (cases "entry_update k v s")
    case None
    then have "cstr k \<notin> set (entry_names s)" by (simp only: entry_update_None entry_get_None not_False_eq_True)
    then show ?thesis using 4 None by (simp add: entry_define_def entries_ok_def)
  next
    case (Some s')
    then show ?thesis using 4 entry_update_names [OF Some]
      by (simp add: entry_define_def entries_ok_def)
  qed
next
  case (5 s k)
  then show ?case by (auto simp: entry_delete_def dest: entry_remove_names split: option.split)
next
  case (6 s k l v)
  show ?case
    by (auto simp: entry_define_def entry_update_get entry_update_None split: option.split)
next
  case (7 s k l)
  show ?case
  proof (cases "entry_remove k s")
    case None
    then have "entry_get s l = None" if "streq k l"
      using that by (simp only: entry_remove_None entry_get_None streq_def not_False_eq_True)
    then show ?thesis using None by (simp add: entry_delete_def)
  next
    case (Some s')
    then show ?thesis using 7 entry_remove_get [OF Some] by (simp add: entry_delete_def)
  qed
qed (auto simp: streq_def)

end
