(* ===== verification/Cfmt.thy ===== *)
theory Cfmt
  imports Clib
begin

section \<open>The C formatting functions the sources call\<close>

text \<open>
  \<open>printf\<close>'s \<open>%lld\<close>, \<open>%.*f\<close> and \<open>%.*e\<close> on finite doubles, rounded correctly to nearest with ties
  to even as the C library does, \<open>snprintf\<close>'s truncation, and \<open>strtod\<close> with its sign.
\<close>

subsection \<open>Decimal numbers\<close>

fun show_nat :: "nat \<Rightarrow> string" where
  "show_nat n = (if n < 10 then [char_of (48 + n)] else show_nat (n div 10) @ [char_of (48 + n mod 10)])"

declare show_nat.simps [simp del]

definition pad_zeros :: "nat \<Rightarrow> string \<Rightarrow> string" where
  "pad_zeros k s = replicate (k - length s) (CHR ''0'') @ s"

definition fmt_int :: "int \<Rightarrow> string" where
  "fmt_int i = (if i < 0 then CHR ''-'' # show_nat (nat (- i)) else show_nat (nat i))"

text \<open>\<open>%+03d\<close>: a sign and at least two digits.\<close>

definition fmt_plus2 :: "int \<Rightarrow> string" where
  "fmt_plus2 i = (if i < 0 then CHR ''-'' else CHR ''+'') # pad_zeros 2 (show_nat (nat \<bar>i\<bar>))"

definition snprintf :: "nat \<Rightarrow> string \<Rightarrow> string" where
  "snprintf n s = take (n - 1) s"

subsection \<open>Doubles\<close>

definition dbl_neg :: "u64 \<Rightarrow> bool" where
  "dbl_neg w \<longleftrightarrow> 2 ^ 63 \<le> unat w"

text \<open>The magnitude of a finite double as a fraction.\<close>

definition dbl_ratio :: "u64 \<Rightarrow> nat \<times> nat" where
  "dbl_ratio w =
     (let m = unat w mod 2 ^ 63; e = m div 2 ^ 52; f = m mod 2 ^ 52
      in if e = 0 then (f, 2 ^ 1074)
         else if 1075 \<le> e then ((2 ^ 52 + f) * 2 ^ (e - 1075), 1)
         else (2 ^ 52 + f, 2 ^ (1075 - e)))"

definition sign_str :: "u64 \<Rightarrow> string" where
  "sign_str w = (if dbl_neg w then ''-'' else [])"

definition fmt_f :: "nat \<Rightarrow> u64 \<Rightarrow> string" where
  "fmt_f digs w =
     (let (n, d) = dbl_ratio w; q = round_half_even (n * 10 ^ digs) d
      in sign_str w @ show_nat (q div 10 ^ digs) @
         (if digs = 0 then [] else CHR ''.'' # pad_zeros digs (show_nat (q mod 10 ^ digs))))"

text \<open>The exponent \<open>e\<close> with \<open>10 ^ e \<le> n / d < 10 ^ (e + 1)\<close>.\<close>

definition ratio_exp10 :: "nat \<Rightarrow> nat \<Rightarrow> int" where
  "ratio_exp10 n d =
     (if d \<le> n then int (length (show_nat (n div d))) - 1
      else - int (length (show_nat ((d + n - 1) div n - 1))))"

definition fmt_e :: "nat \<Rightarrow> u64 \<Rightarrow> string" where
  "fmt_e sig w =
     (let (n, d) = dbl_ratio w;
          e = (if n = 0 then 0 else ratio_exp10 n d);
          k = int sig - e;
          q = (if 0 \<le> k then round_half_even (n * 10 ^ nat k) d
               else round_half_even n (d * 10 ^ nat (- k)));
          (q, e) = (if q = 10 ^ (sig + 1) then (10 ^ sig, e + 1) else (q, e));
          ds = pad_zeros (sig + 1) (show_nat q)
      in sign_str w @ [hd ds] @ (if sig = 0 then [] else CHR ''.'' # tl ds) @ CHR ''e'' # fmt_plus2 e)"

definition strtod_signed :: "string \<Rightarrow> u64" where
  "strtod_signed s =
     (case strtoll_sign s of (neg, t) \<Rightarrow> if neg then strtod t OR 2 ^ 63 else strtod t)"

definition atoi :: "string \<Rightarrow> int" where
  "atoi s = strtoll_int s 10"

text \<open>The powers of ten bound a decimal number.\<close>

lemma show_nat_digits: "\<forall>c \<in> set (show_nat n). isdigit c"
proof (induction n rule: show_nat.induct)
  case (1 n)
  have d: "isdigit (char_of (48 + k))" if "k < 10" for k :: nat
    using that by (auto simp: isdigit_def)
  show ?case
  proof (cases "n < 10")
    case True
    then show ?thesis using d by (simp add: show_nat.simps)
  next
    case False
    then show ?thesis using 1 d [of "n mod 10"] by (subst show_nat.simps) simp
  qed
qed

lemma length_show_nat: "0 < k \<Longrightarrow> n < 10 ^ k \<Longrightarrow> length (show_nat n) \<le> k"
proof (induction k arbitrary: n)
  case (Suc k)
  show ?case
  proof (cases "n < 10")
    case True
    then show ?thesis by (simp add: show_nat.simps)
  next
    case False
    then have "n div 10 < 10 ^ k" "0 < k" using Suc.prems by (cases k; simp)+
    then have "length (show_nat (n div 10)) \<le> k" using Suc.IH by blast
    then show ?thesis using False by (subst show_nat.simps) simp
  qed
qed simp

end
