(* ===== verification/Value.thy ===== *)
theory Value
  imports Cfmt
begin

section \<open>Values (src/value.h, src/value.c)\<close>

text \<open>
  A value is the \<open>struct Value\<close>: its flags and the member of the union its kind selects. What the
  members point to is in a heap, one list for each type; a pointer is an index into its list, and
  a pointer that may be null is an option. A string buffer holds the bytes before the terminator
  that the code writes after them. Allocation appends to a list; whether memory runs out is the
  subject of the arena's theory. Nodes and environments are pointers that only their owners read.
\<close>

subsection \<open>The data\<close>

type_synonym ptr = nat

datatype string_encoding = STRING_ENCODING_UTF8 | STRING_ENCODING_ASCII_8BIT

datatype method_visibility = METHOD_PUBLIC | METHOD_PRIVATE | METHOD_PROTECTED

datatype vdata =
    VAL_NIL
  | VAL_BOOL int
  | VAL_INT i64
  | VAL_FLOAT u64
  | VAL_STRING "ptr option"
  | VAL_SYMBOL "ptr option"
  | VAL_ARRAY "ptr option"
  | VAL_HASH "ptr option"
  | VAL_RANGE ptr
  | VAL_CLASS ptr
  | VAL_OBJECT ptr
  | VAL_METHOD "ptr option" "ptr option" method_visibility "string option"
  | VAL_UNDEF_METHOD
  | VAL_BLOCK "ptr option" "ptr option" bool bool "string option"
  | VAL_EXCEPTION
  | VAL_RETURN "ptr option" "ptr option"
  | VAL_BREAK "ptr option"
  | VAL_NEXT "ptr option"
  | VAL_RETRY
  | VAL_THROW "ptr option" "ptr option"

record rvalue =
  v_frozen :: int
  v_encoding :: string_encoding
  v_byte_len :: nat
  v_data :: vdata

record ruby_array =
  ra_elems :: "rvalue list"
  ra_cap :: nat
  ra_singleton_env :: "ptr option"
  ra_frozen :: int

record ruby_class =
  rc_name :: "string option"
  rc_superclass :: rvalue
  rc_class_env :: "ptr option"
  rc_prepended :: "ptr list"
  rc_included :: "ptr list"
  rc_extended :: "ptr list"
  rc_is_module :: int

record ruby_object =
  ro_klass :: rvalue
  ro_ivars :: "(string \<times> rvalue) list"
  ro_singleton_env :: "ptr option"
  ro_native :: "ptr option"
  ro_frozen :: int

record ruby_hash =
  rh_keys :: "rvalue list"
  rh_vals :: "rvalue list"
  rh_cap :: nat
  rh_singleton_env :: "ptr option"
  rh_default_value :: rvalue
  rh_default_proc :: rvalue
  rh_by_identity :: bool
  rh_frozen :: int

record ruby_range =
  rr_begin :: rvalue
  rr_end :: rvalue
  rr_exclusive :: int

record heap =
  h_strs :: "string list"
  h_vals :: "rvalue list"
  h_arrays :: "ruby_array list"
  h_hashes :: "ruby_hash list"
  h_ranges :: "ruby_range list"
  h_classes :: "ruby_class list"
  h_objects :: "ruby_object list"

definition heap_empty :: heap where
  "heap_empty = \<lparr>h_strs = [], h_vals = [], h_arrays = [], h_hashes = [], h_ranges = [],
     h_classes = [], h_objects = []\<rparr>"

subsection \<open>Constructors\<close>

text \<open>Every constructor clears the flags of a value.\<close>

definition mk_val :: "vdata \<Rightarrow> rvalue" where
  "mk_val d = \<lparr>v_frozen = 0, v_encoding = STRING_ENCODING_UTF8, v_byte_len = 0, v_data = d\<rparr>"

definition val_nil :: rvalue where "val_nil = mk_val VAL_NIL"
definition val_true :: rvalue where "val_true = mk_val (VAL_BOOL 1)"
definition val_false :: rvalue where "val_false = mk_val (VAL_BOOL 0)"
definition val_bool :: "bool \<Rightarrow> rvalue" where "val_bool b = (if b then val_true else val_false)"
definition val_int :: "i64 \<Rightarrow> rvalue" where "val_int i = mk_val (VAL_INT i)"
definition val_float :: "u64 \<Rightarrow> rvalue" where "val_float f = mk_val (VAL_FLOAT f)"
definition val_symbol :: "ptr \<Rightarrow> rvalue" where "val_symbol s = mk_val (VAL_SYMBOL (Some s))"

definition alloc_str :: "string \<Rightarrow> heap \<Rightarrow> ptr \<times> heap" where
  "alloc_str s h = (length (h_strs h), h\<lparr>h_strs := h_strs h @ [s]\<rparr>)"

definition val_string_n :: "string \<Rightarrow> heap \<Rightarrow> rvalue \<times> heap" where
  "val_string_n s h =
     (let (p, h) = alloc_str s h
      in ((mk_val (VAL_STRING (Some p)))\<lparr>v_byte_len := length s\<rparr>, h))"

text \<open>\<open>val_string\<close> copies up to the first terminator; a null argument is the empty literal.\<close>

definition val_string :: "string option \<Rightarrow> heap \<Rightarrow> rvalue \<times> heap" where
  "val_string s h =
     (case s of
        None \<Rightarrow> (let (p, h) = alloc_str [] h in (mk_val (VAL_STRING (Some p)), h))
      | Some s \<Rightarrow> val_string_n (cstr s) h)"

definition val_array_new :: "heap \<Rightarrow> rvalue \<times> heap" where
  "val_array_new h =
     (mk_val (VAL_ARRAY (Some (length (h_arrays h)))),
      h\<lparr>h_arrays := h_arrays h @
          [\<lparr>ra_elems = [], ra_cap = 0, ra_singleton_env = None, ra_frozen = 0\<rparr>]\<rparr>)"

definition grow_cap :: "nat \<Rightarrow> nat \<Rightarrow> nat" where
  "grow_cap len cap = (if cap \<le> len then (if cap = 0 then 8 else cap * 2) else cap)"

definition array_push :: "rvalue \<Rightarrow> ruby_array \<Rightarrow> ruby_array" where
  "array_push x a =
     a\<lparr>ra_cap := grow_cap (length (ra_elems a)) (ra_cap a), ra_elems := ra_elems a @ [x]\<rparr>"

definition val_array_push :: "rvalue \<Rightarrow> rvalue \<Rightarrow> heap \<Rightarrow> heap" where
  "val_array_push arr x h =
     (case v_data arr of
        VAL_ARRAY (Some p) \<Rightarrow> h\<lparr>h_arrays := (h_arrays h)[p := array_push x (h_arrays h ! p)]\<rparr>
      | _ \<Rightarrow> h)"

definition val_range :: "rvalue \<Rightarrow> rvalue \<Rightarrow> int \<Rightarrow> heap \<Rightarrow> rvalue \<times> heap" where
  "val_range b e excl h =
     (mk_val (VAL_RANGE (length (h_ranges h))),
      h\<lparr>h_ranges := h_ranges h @ [\<lparr>rr_begin = b, rr_end = e, rr_exclusive = excl\<rparr>]\<rparr>)"

definition val_hash_val :: "ptr \<Rightarrow> rvalue" where
  "val_hash_val p = mk_val (VAL_HASH (Some p))"

definition val_hash_new_with_defaults :: "rvalue \<Rightarrow> rvalue \<Rightarrow> heap \<Rightarrow> rvalue \<times> heap" where
  "val_hash_new_with_defaults dv dp h =
     (val_hash_val (length (h_hashes h)),
      h\<lparr>h_hashes := h_hashes h @
          [\<lparr>rh_keys = [], rh_vals = [], rh_cap = 0, rh_singleton_env = None, rh_default_value = dv,
            rh_default_proc = dp, rh_by_identity = False, rh_frozen = 0\<rparr>]\<rparr>)"

definition val_hash_new :: "heap \<Rightarrow> rvalue \<times> heap" where
  "val_hash_new h = val_hash_new_with_defaults val_nil val_nil h"

definition val_class :: "string option \<Rightarrow> rvalue \<Rightarrow> heap \<Rightarrow> rvalue \<times> heap" where
  "val_class name super h =
     (mk_val (VAL_CLASS (length (h_classes h))),
      h\<lparr>h_classes := h_classes h @
          [\<lparr>rc_name = map_option cstr name, rc_superclass = super, rc_class_env = None,
            rc_prepended = [], rc_included = [], rc_extended = [], rc_is_module = 0\<rparr>]\<rparr>)"

definition val_object :: "rvalue \<Rightarrow> heap \<Rightarrow> rvalue \<times> heap" where
  "val_object klass h =
     (mk_val (VAL_OBJECT (length (h_objects h))),
      h\<lparr>h_objects := h_objects h @
          [\<lparr>ro_klass = klass, ro_ivars = [], ro_singleton_env = None, ro_native = None,
            ro_frozen = 0\<rparr>]\<rparr>)"

definition val_method ::
  "ptr option \<Rightarrow> ptr option \<Rightarrow> method_visibility \<Rightarrow> string option \<Rightarrow> rvalue" where
  "val_method node closure vis file = mk_val (VAL_METHOD node closure vis file)"

definition val_block :: "ptr option \<Rightarrow> ptr option \<Rightarrow> rvalue" where
  "val_block node closure = mk_val (VAL_BLOCK node closure False False None)"

definition val_proc :: "ptr option \<Rightarrow> ptr option \<Rightarrow> rvalue" where
  "val_proc node closure = mk_val (VAL_BLOCK node closure False True None)"

definition val_lambda :: "ptr option \<Rightarrow> ptr option \<Rightarrow> rvalue" where
  "val_lambda node closure = mk_val (VAL_BLOCK node closure True True None)"

definition alloc_val :: "rvalue \<Rightarrow> heap \<Rightarrow> ptr \<times> heap" where
  "alloc_val v h = (length (h_vals h), h\<lparr>h_vals := h_vals h @ [v]\<rparr>)"

definition val_return :: "rvalue \<Rightarrow> ptr option \<Rightarrow> heap \<Rightarrow> rvalue \<times> heap" where
  "val_return v target h = (let (p, h) = alloc_val v h in (mk_val (VAL_RETURN (Some p) target), h))"

definition val_break :: "rvalue \<Rightarrow> heap \<Rightarrow> rvalue \<times> heap" where
  "val_break v h = (let (p, h) = alloc_val v h in (mk_val (VAL_BREAK (Some p)), h))"

definition val_next :: "rvalue \<Rightarrow> heap \<Rightarrow> rvalue \<times> heap" where
  "val_next v h = (let (p, h) = alloc_val v h in (mk_val (VAL_NEXT (Some p)), h))"

definition val_retry :: rvalue where "val_retry = mk_val VAL_RETRY"
definition val_exception :: rvalue where "val_exception = mk_val VAL_EXCEPTION"

subsection \<open>Predicates\<close>

definition val_truthy :: "rvalue \<Rightarrow> bool" where
  "val_truthy v = (case v_data v of VAL_NIL \<Rightarrow> False | VAL_BOOL b \<Rightarrow> b \<noteq> 0 | _ \<Rightarrow> True)"

definition val_is_signal :: "rvalue \<Rightarrow> bool" where
  "val_is_signal v =
     (case v_data v of
        VAL_EXCEPTION \<Rightarrow> True | VAL_RETURN _ _ \<Rightarrow> True | VAL_BREAK _ \<Rightarrow> True | VAL_NEXT _ \<Rightarrow> True
      | VAL_RETRY \<Rightarrow> True | VAL_THROW _ _ \<Rightarrow> True | _ \<Rightarrow> False)"

text \<open>
  A test that may not end: \<open>None\<close> when the fuel runs out. \<open>and_then\<close> is \<open>&&\<close>; \<open>all_pairs\<close> and
  \<open>find_key\<close> are the loops over the elements.
\<close>

type_synonym test = "bool option"

definition and_then :: "test \<Rightarrow> test \<Rightarrow> test" where
  "and_then a b = (case a of Some True \<Rightarrow> b | _ \<Rightarrow> a)"

fun all_pairs :: "('a \<Rightarrow> 'b \<Rightarrow> test) \<Rightarrow> 'a list \<Rightarrow> 'b list \<Rightarrow> test" where
  "all_pairs eq (x # xs) (y # ys) = and_then (eq x y) (all_pairs eq xs ys)"
| "all_pairs eq _ _ = Some True"

text \<open>The index of the first key that is equal, \<open>Some None\<close> when there is none.\<close>

fun find_key :: "('a \<Rightarrow> test) \<Rightarrow> 'a list \<Rightarrow> nat option option" where
  "find_key eq [] = Some None"
| "find_key eq (k # ks) =
     (case eq k of
        None \<Rightarrow> None
      | Some True \<Rightarrow> Some (Some 0)
      | Some False \<Rightarrow> map_option (map_option Suc) (find_key eq ks))"

definition str_equal :: "(string \<Rightarrow> string \<Rightarrow> bool) \<Rightarrow> heap \<Rightarrow> ptr option \<Rightarrow> ptr option \<Rightarrow> bool" where
  "str_equal same h p q =
     (case (p, q) of (Some p, Some q) \<Rightarrow> same (h_strs h ! p) (h_strs h ! q) | _ \<Rightarrow> p = q)"

text \<open>The pointer comparisons of \<open>compare_by_identity\<close>; \<open>eq\<close> is \<open>val_equal\<close>.\<close>

definition val_identity_equal :: "(rvalue \<Rightarrow> rvalue \<Rightarrow> test) \<Rightarrow> rvalue \<Rightarrow> rvalue \<Rightarrow> test" where
  "val_identity_equal eq a b =
     (case (v_data a, v_data b) of
        (VAL_OBJECT p, VAL_OBJECT q) \<Rightarrow> Some (p = q)
      | (VAL_BLOCK p _ _ _ _, VAL_BLOCK q _ _ _ _) \<Rightarrow> Some (p = q)
      | (VAL_STRING p, VAL_STRING q) \<Rightarrow> Some (p = q)
      | (VAL_ARRAY p, VAL_ARRAY q) \<Rightarrow> Some (p = q)
      | (VAL_HASH p, VAL_HASH q) \<Rightarrow> Some (p = q)
      | (VAL_CLASS p, VAL_CLASS q) \<Rightarrow> Some (p = q)
      | (VAL_INT _, VAL_FLOAT _) \<Rightarrow> Some False
      | (VAL_FLOAT _, VAL_INT _) \<Rightarrow> Some False
      | _ \<Rightarrow> eq a b)"

definition val_hash_key_equal ::
  "(rvalue \<Rightarrow> rvalue \<Rightarrow> test) \<Rightarrow> ruby_hash \<Rightarrow> rvalue \<Rightarrow> rvalue \<Rightarrow> test" where
  "val_hash_key_equal eq h stored key =
     (if rh_by_identity h then val_identity_equal eq stored key else eq stored key)"

definition hash_find :: "(rvalue \<Rightarrow> rvalue \<Rightarrow> test) \<Rightarrow> ruby_hash \<Rightarrow> rvalue \<Rightarrow> nat option option" where
  "hash_find eq h key = find_key (\<lambda>k. val_hash_key_equal eq h k key) (rh_keys h)"

text \<open>\<open>val_hash_get\<close>: the value found, or \<open>Some None\<close> when the key is absent.\<close>

definition hash_get :: "(rvalue \<Rightarrow> rvalue \<Rightarrow> test) \<Rightarrow> ruby_hash \<Rightarrow> rvalue \<Rightarrow> rvalue option option" where
  "hash_get eq h key = map_option (map_option (\<lambda>i. rh_vals h ! i)) (hash_find eq h key)"

text \<open>One level of \<open>val_equal\<close>; \<open>eq\<close> is the recursive call.\<close>

definition val_equal_step ::
  "(rvalue \<Rightarrow> rvalue \<Rightarrow> test) \<Rightarrow> heap \<Rightarrow> rvalue \<Rightarrow> rvalue \<Rightarrow> test" where
  "val_equal_step eq h a b =
     (case (v_data a, v_data b) of
        (VAL_INT i, VAL_FLOAT f) \<Rightarrow> Some (dbl_eq (dbl_of_int64 i) f)
      | (VAL_FLOAT f, VAL_INT i) \<Rightarrow> Some (dbl_eq f (dbl_of_int64 i))
      | (VAL_NIL, VAL_NIL) \<Rightarrow> Some True
      | (VAL_BOOL x, VAL_BOOL y) \<Rightarrow> Some (x = y)
      | (VAL_INT i, VAL_INT j) \<Rightarrow> Some (i = j)
      | (VAL_FLOAT f, VAL_FLOAT g) \<Rightarrow> Some (dbl_eq f g)
      | (VAL_STRING p, VAL_STRING q) \<Rightarrow>
          Some (str_equal (\<lambda>s t. v_byte_len a = v_byte_len b \<and>
                  take (v_byte_len a) s = take (v_byte_len a) t) h p q)
      | (VAL_SYMBOL p, VAL_SYMBOL q) \<Rightarrow> Some (str_equal streq h p q)
      | (VAL_CLASS p, VAL_CLASS q) \<Rightarrow> Some (p = q)
      | (VAL_OBJECT p, VAL_OBJECT q) \<Rightarrow> Some (p = q)
      | (VAL_RANGE p, VAL_RANGE q) \<Rightarrow>
          let r = h_ranges h ! p; s = h_ranges h ! q
          in and_then (Some (rr_exclusive r = rr_exclusive s))
               (and_then (eq (rr_begin r) (rr_begin s)) (eq (rr_end r) (rr_end s)))
      | (VAL_ARRAY p, VAL_ARRAY q) \<Rightarrow>
          if p = q then Some True
          else (case (p, q) of
             (Some p, Some q) \<Rightarrow>
               let xs = ra_elems (h_arrays h ! p); ys = ra_elems (h_arrays h ! q)
               in if length xs \<noteq> length ys then Some False else all_pairs eq xs ys
           | _ \<Rightarrow> Some False)
      | (VAL_HASH p, VAL_HASH q) \<Rightarrow>
          if p = q then Some True
          else (case (p, q) of
             (Some p, Some q) \<Rightarrow>
               let g = h_hashes h ! p; k = h_hashes h ! q
               in if length (rh_keys g) \<noteq> length (rh_keys k) then Some False
                  else all_pairs (\<lambda>key v. case hash_get eq k key of
                         None \<Rightarrow> None | Some None \<Rightarrow> Some False | Some (Some w) \<Rightarrow> eq v w)
                       (rh_keys g) (rh_vals g)
           | _ \<Rightarrow> Some False)
      | _ \<Rightarrow> Some False)"

primrec val_equal :: "nat \<Rightarrow> heap \<Rightarrow> rvalue \<Rightarrow> rvalue \<Rightarrow> test" where
  "val_equal 0 h = (\<lambda>a b. None)"
| "val_equal (Suc n) h = val_equal_step (val_equal n h) h"

subsection \<open>Hashes, and the variables of an object\<close>

definition val_hash_get :: "nat \<Rightarrow> heap \<Rightarrow> ptr \<Rightarrow> rvalue \<Rightarrow> rvalue option option" where
  "val_hash_get n h p key = hash_get (val_equal n h) (h_hashes h ! p) key"

definition hash_append :: "rvalue \<Rightarrow> rvalue \<Rightarrow> ruby_hash \<Rightarrow> ruby_hash" where
  "hash_append key val r =
     r\<lparr>rh_cap := grow_cap (length (rh_keys r)) (rh_cap r), rh_keys := rh_keys r @ [key],
       rh_vals := rh_vals r @ [val]\<rparr>"

definition hash_put ::
  "(rvalue \<Rightarrow> rvalue \<Rightarrow> test) \<Rightarrow> rvalue \<Rightarrow> rvalue \<Rightarrow> ruby_hash \<Rightarrow> ruby_hash option" where
  "hash_put eq key val r =
     (case hash_find eq r key of
        None \<Rightarrow> None
      | Some (Some i) \<Rightarrow> Some (r\<lparr>rh_vals := (rh_vals r)[i := val]\<rparr>)
      | Some None \<Rightarrow> Some (hash_append key val r))"

definition set_hash :: "ptr \<Rightarrow> ruby_hash \<Rightarrow> heap \<Rightarrow> heap" where
  "set_hash p r h = h\<lparr>h_hashes := (h_hashes h)[p := r]\<rparr>"

definition val_hash_set :: "nat \<Rightarrow> ptr \<Rightarrow> rvalue \<Rightarrow> rvalue \<Rightarrow> heap \<Rightarrow> heap option" where
  "val_hash_set n p key val h =
     map_option (\<lambda>r. set_hash p r h) (hash_put (val_equal n h) key val (h_hashes h ! p))"

text \<open>\<open>memmove\<close> of the entries after \<open>i\<close> over it.\<close>

definition remove_at :: "nat \<Rightarrow> 'a list \<Rightarrow> 'a list" where
  "remove_at i xs = take i xs @ drop (i + 1) xs"

definition hash_del ::
  "(rvalue \<Rightarrow> rvalue \<Rightarrow> test) \<Rightarrow> rvalue \<Rightarrow> ruby_hash \<Rightarrow> (bool \<times> ruby_hash) option" where
  "hash_del eq key r =
     (case hash_find eq r key of
        None \<Rightarrow> None
      | Some None \<Rightarrow> Some (False, r)
      | Some (Some i) \<Rightarrow>
          Some (True, r\<lparr>rh_keys := remove_at i (rh_keys r), rh_vals := remove_at i (rh_vals r)\<rparr>))"

definition val_hash_delete :: "nat \<Rightarrow> ptr \<Rightarrow> rvalue \<Rightarrow> heap \<Rightarrow> (bool \<times> heap) option" where
  "val_hash_delete n p key h =
     map_option (\<lambda>(found, r). (found, set_hash p r h))
       (hash_del (val_equal n h) key (h_hashes h ! p))"

end
