(* ===== verification/Env.thy ===== *)
theory Env
  imports Table Value
begin

section \<open>Environments and globals (src/env.h, src/env.c)\<close>

text \<open>
  The frames live in one store, a list; a pointer to a frame is its index. \<open>env_new\<close> is the only
  operation that creates one, and no operation changes a \<open>parent\<close>. The walks along the parents are
  loops the code does not bound: they are partial functions, whose result is \<open>None\<close> when they do
  not end. \<open>block_arg\<close> is a pointer to a value.
\<close>

subsection \<open>The operations\<close>

record env =
  e_vars :: "rvalue entries"
  e_parent :: "ptr option"
  e_is_def :: bool
  e_block_arg :: "ptr option"

type_synonym envs = "env list"

definition env_new :: "ptr option \<Rightarrow> bool \<Rightarrow> envs \<Rightarrow> ptr \<times> envs" where
  "env_new parent is_def es =
     (length es, es @ [\<lparr>e_vars = [], e_parent = parent, e_is_def = is_def, e_block_arg = None\<rparr>])"

partial_function (option) env_nearest_def :: "envs \<Rightarrow> ptr option \<Rightarrow> ptr option option" where
  "env_nearest_def es sc =
     (case sc of
        None \<Rightarrow> Some None
      | Some p \<Rightarrow> if e_is_def (es ! p) then Some (Some p) else env_nearest_def es (e_parent (es ! p)))"

partial_function (option) env_get :: "envs \<Rightarrow> ptr option \<Rightarrow> string \<Rightarrow> rvalue option option" where
  "env_get es sc name =
     (case sc of
        None \<Rightarrow> Some None
      | Some p \<Rightarrow>
          (case entry_get (e_vars (es ! p)) name of
             Some v \<Rightarrow> Some (Some v)
           | None \<Rightarrow> env_get es (e_parent (es ! p)) name))"

definition env_get_own :: "envs \<Rightarrow> ptr option \<Rightarrow> string \<Rightarrow> rvalue option" where
  "env_get_own es sc name =
     (case sc of None \<Rightarrow> None | Some p \<Rightarrow> entry_get (e_vars (es ! p)) name)"

definition set_vars :: "ptr \<Rightarrow> rvalue entries \<Rightarrow> envs \<Rightarrow> envs" where
  "set_vars p vs es = es[p := (es ! p)\<lparr>e_vars := vs\<rparr>]"

partial_function (option) env_update ::
  "ptr option \<Rightarrow> string \<Rightarrow> rvalue \<Rightarrow> envs \<Rightarrow> (bool \<times> envs) option" where
  "env_update sc name v es =
     (case sc of
        None \<Rightarrow> Some (False, es)
      | Some p \<Rightarrow>
          (case entry_update name v (e_vars (es ! p)) of
             Some vs \<Rightarrow> Some (True, set_vars p vs es)
           | None \<Rightarrow>
               if e_is_def (es ! p) then Some (False, es)
               else env_update (e_parent (es ! p)) name v es))"

definition env_set :: "ptr \<Rightarrow> string \<Rightarrow> rvalue \<Rightarrow> envs \<Rightarrow> envs option" where
  "env_set p name v es =
     (case env_update (Some p) name v es of
        None \<Rightarrow> None
      | Some (True, es) \<Rightarrow> Some es
      | Some (False, es) \<Rightarrow> Some (set_vars p ((name, v) # e_vars (es ! p)) es))"

definition env_define :: "ptr \<Rightarrow> string \<Rightarrow> rvalue \<Rightarrow> envs \<Rightarrow> envs" where
  "env_define p name v es = set_vars p (entry_define name v (e_vars (es ! p))) es"

definition env_remove_own :: "ptr option \<Rightarrow> string \<Rightarrow> envs \<Rightarrow> bool \<times> envs" where
  "env_remove_own sc name es =
     (case sc of
        None \<Rightarrow> (False, es)
      | Some p \<Rightarrow>
          (case entry_remove name (e_vars (es ! p)) of
             None \<Rightarrow> (False, es) | Some vs \<Rightarrow> (True, set_vars p vs es)))"

text \<open>Globals, and the instance variables of an object (\<open>val_object_set_ivar\<close>, \<open>val_object_get_ivar\<close>).\<close>

definition global_set :: "string \<Rightarrow> rvalue \<Rightarrow> rvalue entries \<Rightarrow> rvalue entries" where
  "global_set name v gt = entry_define name v gt"

definition global_get :: "rvalue entries \<Rightarrow> string \<Rightarrow> rvalue option" where
  "global_get gt name = entry_get gt name"

definition val_object_set_ivar :: "rvalue \<Rightarrow> string \<Rightarrow> rvalue \<Rightarrow> heap \<Rightarrow> heap" where
  "val_object_set_ivar obj name v h =
     (case v_data obj of
        VAL_OBJECT p \<Rightarrow>
          h\<lparr>h_objects := (h_objects h)[p :=
              (h_objects h ! p)\<lparr>ro_ivars := entry_define name v (ro_ivars (h_objects h ! p))\<rparr>]\<rparr>
      | _ \<Rightarrow> h)"

definition val_object_get_ivar :: "rvalue \<Rightarrow> string \<Rightarrow> heap \<Rightarrow> rvalue option" where
  "val_object_get_ivar obj name h =
     (case v_data obj of VAL_OBJECT p \<Rightarrow> entry_get (ro_ivars (h_objects h ! p)) name | _ \<Rightarrow> None)"

subsection \<open>Well-formed stores\<close>

text \<open>Every parent is an older frame; no frame has two entries of the same name.\<close>

definition envs_ok :: "envs \<Rightarrow> bool" where
  "envs_ok es \<longleftrightarrow>
     (\<forall>p < length es. entries_ok (e_vars (es ! p)) \<and>
        (case e_parent (es ! p) of None \<Rightarrow> True | Some q \<Rightarrow> q < p))"

definition in_envs :: "envs \<Rightarrow> ptr option \<Rightarrow> bool" where
  "in_envs es sc = (case sc of None \<Rightarrow> True | Some p \<Rightarrow> p < length es)"

text \<open>The walk of the code reaches the frames of the chain in order, then a null parent.\<close>

inductive env_path :: "envs \<Rightarrow> ptr option \<Rightarrow> ptr list \<Rightarrow> bool" where
  path_null: "env_path es None []"
| path_frame: "env_path es (e_parent (es ! p)) ps \<Longrightarrow> env_path es (Some p) (p # ps)"

inductive_simps env_path_simps: "env_path es None ps" "env_path es (Some p) ps"

lemma env_path_det: "env_path es sc ps \<Longrightarrow> env_path es sc qs \<Longrightarrow> ps = qs"
proof (induction arbitrary: qs rule: env_path.induct)
  case (path_frame es p ps)
  from path_frame.prems obtain rs where "qs = p # rs" "env_path es (e_parent (es ! p)) rs"
    unfolding env_path_simps by blast
  then show ?case using path_frame.IH by blast
qed (simp add: env_path_simps)

lemma env_path_exists: "envs_ok es \<Longrightarrow> in_envs es sc \<Longrightarrow> \<exists>ps. env_path es sc ps"
proof (cases sc)
  case (Some p)
  assume ok: "envs_ok es" and "in_envs es sc"
  then have "p < length es" by (simp add: Some in_envs_def)
  then have "\<exists>ps. env_path es (Some p) ps"
  proof (induction p rule: less_induct)
    case (less p)
    show ?case
    proof (cases "e_parent (es ! p)")
      case None
      then show ?thesis by (simp add: env_path_simps)
    next
      case (Some q)
      then have "q < p" using ok less.prems by (auto simp: envs_ok_def)
      then obtain ps where "env_path es (Some q) ps" using less by auto
      then show ?thesis using Some by (auto simp: env_path_simps)
    qed
  qed
  then show ?thesis by (simp add: Some)
qed (auto intro: path_null)

lemma env_path_less: "env_path es sc ps \<Longrightarrow> envs_ok es \<Longrightarrow> in_envs es sc \<Longrightarrow>
    (\<forall>q \<in> set ps. q < length es \<and> (case sc of None \<Rightarrow> False | Some p \<Rightarrow> q \<le> p)) \<and> distinct ps"
proof (induction rule: env_path.induct)
  case (path_frame es p ps)
  have p: "p < length es" using path_frame.prems by (simp add: in_envs_def)
  show ?case
  proof (cases "e_parent (es ! p)")
    case None
    then have "ps = []" using path_frame.hyps by (simp add: env_path_simps)
    then show ?thesis using p by simp
  next
    case (Some q)
    then have "q < p" using path_frame.prems(1) p by (auto simp: envs_ok_def)
    then show ?thesis using path_frame.IH path_frame.prems(1) p Some
      by (fastforce simp: in_envs_def)
  qed
qed simp

subsection \<open>What the walks compute\<close>

fun first_some :: "('a \<Rightarrow> 'b option) \<Rightarrow> 'a list \<Rightarrow> 'b option" where
  "first_some f [] = None"
| "first_some f (x # xs) = (case f x of Some y \<Rightarrow> Some y | None \<Rightarrow> first_some f xs)"

abbreviation own :: "envs \<Rightarrow> string \<Rightarrow> ptr \<Rightarrow> rvalue option" where
  "own es name p \<equiv> entry_get (e_vars (es ! p)) name"

text \<open>The frames up to and with the nearest definition's.\<close>

fun to_def :: "envs \<Rightarrow> ptr list \<Rightarrow> ptr list" where
  "to_def es [] = []"
| "to_def es (p # ps) = p # (if e_is_def (es ! p) then [] else to_def es ps)"

lemma env_get_path: "env_path es sc ps \<Longrightarrow> env_get es sc name = Some (first_some (own es name) ps)"
  by (induction rule: env_path.induct) (simp_all add: env_get.simps split: option.split)

lemma env_nearest_def_path:
  "env_path es sc ps \<Longrightarrow> env_nearest_def es sc = Some (find (\<lambda>p. e_is_def (es ! p)) ps)"
  by (induction rule: env_path.induct) (simp_all add: env_nearest_def.simps)

definition holder :: "envs \<Rightarrow> string \<Rightarrow> ptr list \<Rightarrow> ptr option" where
  "holder es name ps = find (\<lambda>p. own es name p \<noteq> None) ps"

lemma env_update_path:
  "env_path es sc ps \<Longrightarrow> env_update sc name v es =
     Some (case holder es name (to_def es ps) of
        None \<Rightarrow> (False, es)
      | Some p \<Rightarrow> (True, set_vars p (the (entry_update name v (e_vars (es ! p)))) es))"
proof (induction rule: env_path.induct)
  case (path_frame es p ps)
  show ?case
  proof (cases "own es name p")
    case None
    then show ?thesis using path_frame.IH
      by (subst env_update.simps) (simp add: holder_def entry_update_absent)
  next
    case (Some w)
    then show ?thesis using entry_update_found [OF Some, of v]
      by (subst env_update.simps) (auto simp: holder_def)
  qed
qed (simp add: env_update.simps holder_def)

lemma entry_define_update:
  "entry_get vs name \<noteq> None \<Longrightarrow> the (entry_update name v vs) = entry_define name v vs"
  using entry_update_found [of vs name _ v] by (auto simp: entry_define_def)

lemma entry_define_new: "entry_get vs name = None \<Longrightarrow> entry_define name v vs = (name, v) # vs"
  by (simp add: entry_define_def entry_update_absent)

lemma entry_define_get:
  "entry_get (entry_define name v vs) l = (if streq name l then Some v else entry_get vs l)"
  by (auto simp: entry_define_def entry_update_get entry_update_None split: option.split)

lemma holder_Some:
  "holder es name ps = Some q \<Longrightarrow> q \<in> set ps \<and> own es name q \<noteq> None"
  by (auto simp: holder_def find_Some_iff)

lemma to_def_subset: "set (to_def es ps) \<subseteq> set ps"
  by (induction ps) auto

text \<open>An assignment defines the variable in one frame: the one that holds it, or the current one.\<close>

lemma env_set_path:
  assumes "env_path es (Some p) ps"
  shows "env_set p name v es =
    Some (env_define (case holder es name (to_def es ps) of None \<Rightarrow> p | Some q \<Rightarrow> q) name v es)"
proof -
  note u = env_update_path [OF assms, of name v]
  show ?thesis
  proof (cases "holder es name (to_def es ps)")
    case None
    obtain ps' where "ps = p # ps'" using assms by (auto simp: env_path_simps)
    then have "own es name p = None" using None by (auto simp: holder_def split: if_splits)
    then show ?thesis using u None by (simp add: env_set_def env_define_def entry_define_new)
  next
    case (Some q)
    then show ?thesis using u holder_Some [OF Some]
      by (simp add: env_set_def env_define_def entry_define_update)
  qed
qed

lemma env_define_frame:
  "q < length es \<Longrightarrow> p < length es \<Longrightarrow>
     env_define p name v es ! q =
       (if q = p then (es ! p)\<lparr>e_vars := entry_define name v (e_vars (es ! p))\<rparr> else es ! q)"
  "length (env_define p name v es) = length es"
  by (simp_all add: env_define_def set_vars_def nth_list_update)

lemma set_vars_ok:
  "envs_ok es \<Longrightarrow> entries_ok vs \<Longrightarrow> envs_ok (set_vars p vs es)"
  by (cases "p < length es") (auto simp: envs_ok_def set_vars_def nth_list_update)

lemma env_define_ok: "envs_ok es \<Longrightarrow> p < length es \<Longrightarrow> envs_ok (env_define p name v es)"
  unfolding env_define_def
  by (intro set_vars_ok entry_table.ok_put) (auto simp: envs_ok_def)

text \<open>Defining a variable does not move the frames.\<close>

lemma env_path_same_parents:
  "env_path es sc ps \<Longrightarrow> (\<forall>p. e_parent (es' ! p) = e_parent (es ! p)) \<Longrightarrow> env_path es' sc ps"
  by (induction rule: env_path.induct) (auto simp: env_path_simps)

lemma set_vars_parent: "e_parent (set_vars p vs es ! q) = e_parent (es ! q)"
proof (cases "p < length es")
  case True
  then show ?thesis by (cases "q = p") (simp_all add: set_vars_def)
qed (simp add: set_vars_def not_less list_update_beyond)

lemma env_define_path: "env_path es sc ps \<Longrightarrow> env_path (env_define p name v es) sc ps"
  by (erule env_path_same_parents) (simp add: env_define_def set_vars_parent)

lemma own_define:
  "p < length es \<Longrightarrow> q < length es \<Longrightarrow> own (env_define p name v es) l q =
     (if q = p \<and> streq name l then Some v else own es l q)"
  by (simp add: env_define_frame entry_define_get)

interpretation frame_table: table streq "\<lambda>_. True" "\<lambda>es. envs_ok es \<and> p < length es"
  "\<lambda>es. env_get_own es (Some p)" "env_define p" "\<lambda>name es. snd (env_remove_own (Some p) name es)"
  for p
proof (unfold_locales, goal_cases)
  case (4 es k v)
  then show ?case by (simp add: env_define_ok env_define_frame)
next
  case (5 es k)
  then show ?case
    by (auto simp: env_remove_own_def envs_ok_def set_vars_def nth_list_update
        dest: entry_remove_names split: option.split)
next
  case (6 es k l v)
  then show ?case by (simp add: env_get_own_def own_define)
next
  case (7 es k l)
  then have "entries_ok (e_vars (es ! p))" by (simp add: envs_ok_def)
  from entry_table.get_del [OF this, of k l] 7 show ?case
    by (auto simp: env_get_own_def env_remove_own_def entry_delete_def set_vars_def
        split: option.split)
qed (auto simp: streq_def)

interpretation global_table: table streq "\<lambda>_. True" entries_ok global_get global_set entry_delete
  unfolding global_get_def global_set_def by (rule entry_table.table_axioms)

lemma entry_get_same: "streq n m \<Longrightarrow> entry_get vs m = entry_get vs n"
  by (induction vs n rule: entry_get.induct) (auto simp: streq_def)

lemma find_to_def: "find P (to_def es ps) = Some q \<Longrightarrow> find P ps = Some q"
  by (induction ps) (auto split: if_splits)

lemma first_some_found:
  "find P ps = Some q \<Longrightarrow> f q = Some v \<Longrightarrow> (\<And>r. r \<in> set ps \<Longrightarrow> \<not> P r \<Longrightarrow> r \<noteq> q \<Longrightarrow> f r = None) \<Longrightarrow>
     first_some f ps = Some v"
proof (induction ps)
  case (Cons r ps)
  show ?case
  proof (cases "r = q")
    case False
    then have "\<not> P r" "find P ps = Some q" using Cons.prems(1) by (auto split: if_splits)
    then show ?thesis using Cons False by simp
  qed (use Cons.prems in simp)
qed simp

subsection \<open>Properties\<close>

text \<open>A program frame, a method's frame and a block's frame in it, for the witnesses.\<close>

definition sample_envs :: envs where
  "sample_envs =
     env_define 0 ''x'' (val_int 1) (snd (env_new (Some 1) False (snd (env_new (Some 0) True
       (snd (env_new None True []))))))"

lemma sample_envs_ok: "envs_ok sample_envs" "length sample_envs = 3"
  by (simp_all add: sample_envs_def env_new_def env_define_def set_vars_def envs_ok_def
      entries_ok_def entry_define_def numeral_3_eq_3 All_less_Suc)

text \<open>C32: the walks over the parents of a frame end, also when the name is nowhere; a lookup finds the
  innermost frame that holds the name, across the boundaries of definitions.\<close>

theorem env_walks_end:
  assumes "envs_ok es" "in_envs es sc"
  shows "\<exists>ps. env_path es sc ps \<and>
    env_get es sc name = Some (first_some (\<lambda>p. env_get_own es (Some p) name) ps) \<and>
    env_nearest_def es sc = Some (find (\<lambda>p. e_is_def (es ! p)) ps) \<and>
    env_update sc name v es \<noteq> None"
proof -
  obtain ps where ps: "env_path es sc ps" using env_path_exists [OF assms] by blast
  show ?thesis
    using env_get_path [OF ps, of name] env_nearest_def_path [OF ps] env_update_path [OF ps, of name v]
      ps by (auto simp: env_get_own_def)
qed

theorem env_walks_end_witness:
  "\<exists>ps. env_path sample_envs (Some 2) ps \<and>
    env_get sample_envs (Some 2) ''x'' =
      Some (first_some (\<lambda>p. env_get_own sample_envs (Some p) ''x'') ps) \<and>
    env_nearest_def sample_envs (Some 2) = Some (find (\<lambda>p. e_is_def (sample_envs ! p)) ps) \<and>
    env_update (Some 2) ''x'' val_nil sample_envs \<noteq> None"
  by (rule env_walks_end) (simp_all add: sample_envs_ok in_envs_def)

text \<open>C30: an assignment returns, keeps the store well formed, and changes lookups from the frame it is
  made in only at its name, which then has the value assigned.\<close>

theorem env_set_get:
  assumes "envs_ok es" "p < length es"
  shows "\<exists>es'. env_set p name v es = Some es' \<and> envs_ok es' \<and>
    (\<forall>l. env_get es' (Some p) l =
       (if streq name l then Some (Some v) else env_get es (Some p) l))"
proof -
  have "in_envs es (Some p)" using assms(2) by (simp add: in_envs_def)
  then obtain ps where ps: "env_path es (Some p) ps" using env_path_exists [OF assms(1)] by blast
  then have less: "\<forall>q \<in> set ps. q < length es"
    using env_path_less [OF ps assms(1)] assms(2) by (auto simp: in_envs_def)
  define q where "q = (case holder es name (to_def es ps) of None \<Rightarrow> p | Some q \<Rightarrow> q)"
  obtain ps' where p: "ps = p # ps'" using ps by (auto simp: env_path_simps)
  have q: "q \<in> set ps"
    using p to_def_subset [of es ps] by (auto simp: q_def split: option.split dest!: holder_Some)
  define es' where "es' = env_define q name v es"
  have "env_get es' (Some p) l = (if streq name l then Some (Some v) else env_get es (Some p) l)"
    for l
  proof -
    have own: "own es' l r = (if r = q \<and> streq name l then Some v else own es l r)"
      if "r \<in> set ps" for r
      unfolding es'_def using less q that by (intro own_define) auto
    show ?thesis
    proof (cases "streq name l")
      case False
      then have "own es' l r = own es l r" if "r \<in> set ps" for r using own that by simp
      then have "first_some (own es' l) ps = first_some (own es l) ps"
        by (induction ps) (auto split: option.split)
      then show ?thesis using False env_get_path [OF ps] env_get_path [OF env_define_path [OF ps]]
        by (simp add: es'_def)
    next
      case True
      then have l: "own es l r = own es name r" for r by (rule entry_get_same)
      have "first_some (own es' l) ps = Some v"
      proof (cases "holder es name (to_def es ps)")
        case None
        then show ?thesis using own [of p] True p by (simp add: q_def)
      next
        case (Some r)
        then have "q = r" by (simp add: q_def)
        then have "find (\<lambda>r. own es name r \<noteq> None) ps = Some q"
          using find_to_def [OF Some [unfolded holder_def]] by (rule ssubst)
        then show ?thesis
        proof (rule first_some_found)
          show "own es' l q = Some v" using own [OF q] True by simp
          show "own es' l r = None" if "r \<in> set ps" "\<not> own es name r \<noteq> None" "r \<noteq> q" for r
            using own [OF that(1)] that(2,3) l by simp
        qed
      qed
      then show ?thesis using True env_get_path [OF env_define_path [OF ps]]
        by (simp add: es'_def)
    qed
  qed
  moreover have "env_set p name v es = Some es'"
    using env_set_path [OF ps] by (simp add: es'_def q_def)
  moreover have "envs_ok es'" using assms(1) less q by (simp add: es'_def env_define_ok)
  ultimately show ?thesis by blast
qed

theorem env_set_get_witness:
  "\<exists>es'. env_set 2 ''x'' val_nil sample_envs = Some es' \<and> envs_ok es' \<and>
    (\<forall>l. env_get es' (Some 2) l =
       (if streq ''x'' l then Some (Some val_nil) else env_get sample_envs (Some 2) l))"
  by (rule env_set_get) (simp_all add: sample_envs_ok)

text \<open>C31: an assignment changes no frame beyond the nearest definition: a method that assigns a name
  that only its surroundings hold gets a variable of its own, and theirs is kept.\<close>

theorem env_set_stays_inside:
  assumes "envs_ok es" "p < length es" "env_path es (Some p) ps" "env_set p name v es = Some es'"
  shows "length es' = length es \<and>
    (\<forall>q < length es. q \<notin> set (to_def es ps) \<longrightarrow> es' ! q = es ! q) \<and>
    (holder es name (to_def es ps) = None \<longrightarrow> es' = env_define p name v es \<and>
       e_vars (es' ! p) = (name, v) # e_vars (es ! p))"
proof -
  define q where "q = (case holder es name (to_def es ps) of None \<Rightarrow> p | Some q \<Rightarrow> q)"
  have es': "es' = env_define q name v es"
    using env_set_path [OF assms(3)] assms(4) by (simp add: q_def)
  obtain ps' where p: "ps = p # ps'" using assms(3) by (auto simp: env_path_simps)
  have q: "q \<in> set (to_def es ps)"
    using p by (auto simp: q_def split: option.split dest!: holder_Some)
  moreover have "\<forall>q \<in> set ps. q < length es"
    using env_path_less [OF assms(3,1)] assms(2) by (auto simp: in_envs_def)
  ultimately have less: "q < length es" using to_def_subset by blast
  have "e_vars (es' ! p) = (name, v) # e_vars (es ! p)" if "holder es name (to_def es ps) = None"
  proof -
    have "own es name p = None" using that p by (auto simp: holder_def split: if_splits)
    then show ?thesis using that assms(2)
      by (simp add: es' q_def env_define_frame entry_define_new)
  qed
  then show ?thesis using less q by (auto simp: es' env_define_frame q_def)
qed

theorem env_set_stays_inside_witness:
  "case env_set 2 ''x'' val_nil sample_envs of
     None \<Rightarrow> False
   | Some es' \<Rightarrow> es' ! 0 = sample_envs ! 0 \<and> env_get_own es' (Some 2) ''x'' = Some val_nil"
proof -
  have path: "env_path sample_envs (Some 2) [2, 1, 0]"
    by (simp add: env_path_simps sample_envs_def env_new_def env_define_def set_vars_def)
  have def: "to_def sample_envs [2, 1, 0] = [2, 1]" "holder sample_envs ''x'' [2, 1] = None"
    by (simp_all add: holder_def sample_envs_def env_new_def env_define_def set_vars_def)
  obtain es' where es': "env_set 2 ''x'' val_nil sample_envs = Some es'"
    using env_set_get [of sample_envs 2 "''x''" val_nil] sample_envs_ok by auto
  have p: "2 < length sample_envs" by (simp add: sample_envs_ok)
  note s = env_set_stays_inside [OF sample_envs_ok(1) p path es', unfolded def]
  from s have "\<forall>q < length sample_envs. q \<notin> set [2, 1] \<longrightarrow> es' ! q = sample_envs ! q" by blast
  then have "es' ! 0 = sample_envs ! 0" by (auto simp: sample_envs_ok)
  moreover from s have "e_vars (es' ! 2) = (''x'', val_nil) # e_vars (sample_envs ! 2)" by blast
  ultimately show ?thesis using es' by (simp add: env_get_own_def)
qed

text \<open>A frame's own variables are a table: after any definitions and removals in it, a lookup in the
  frame returns what the last operation on the name left.\<close>

theorem env_own_table:
  assumes "envs_ok es" "p < length es"
  shows "env_get_own (env_define p k v es) (Some p) l =
      (if streq k l then Some v else env_get_own es (Some p) l) \<and>
    env_get_own (snd (env_remove_own (Some p) k es)) (Some p) l =
      (if streq k l then None else env_get_own es (Some p) l) \<and>
    fst (env_remove_own (Some p) k es) = (env_get_own es (Some p) k \<noteq> None) \<and>
    envs_ok (env_define p k v es) \<and> envs_ok (snd (env_remove_own (Some p) k es))"
proof -
  have "fst (env_remove_own (Some p) k es) = (env_get_own es (Some p) k \<noteq> None)"
    using entry_remove_None [of k "e_vars (es ! p)"]
    by (auto simp: env_remove_own_def env_get_own_def split: option.split)
  then show ?thesis
    using assms frame_table.get_put [of es p k v l] frame_table.get_del [of es p k l]
      frame_table.ok_put [of es p k v] frame_table.ok_del [of es p k] by simp
qed

theorem env_own_table_witness:
  "env_get_own (snd (env_remove_own (Some 0) ''x'' sample_envs)) (Some 0) ''x'' = None"
  using env_own_table [OF sample_envs_ok(1), of 0 "''x''" val_nil "''x''"] by (simp add: sample_envs_ok)

text \<open>After any sequence of assignments to globals, a lookup returns the value the last assignment
  to the name gave it.\<close>

theorem global_table_last:
  "entries_ok gt \<Longrightarrow>
     global_get (fold (\<lambda>(k, v). global_set k v) kvs gt) l =
       (case find (\<lambda>(k, _). streq k l) (rev kvs) of
          Some (_, v) \<Rightarrow> Some v | None \<Rightarrow> global_get gt l)"
proof (induction kvs rule: rev_induct)
  case (snoc kv kvs)
  have ok: "entries_ok (fold (\<lambda>(k, v). global_set k v) kvs gt)"
    using snoc.prems by (induction kvs rule: rev_induct) (auto intro: global_table.ok_put)
  show ?case using snoc global_table.get_put [OF ok] by (auto split: prod.splits)
qed simp

theorem global_table_last_witness:
  "global_get (fold (\<lambda>(k, v). global_set k v)
     [(''$x'', val_nil), (''$y'', val_true), (''$x'', val_int 2)] []) ''$x'' = Some (val_int 2)"
  by (subst global_table_last) (simp_all add: entries_ok_def)

end
