(* ===== verification/ValueStr.thy ===== *)
theory ValueStr
  imports Value
begin

section \<open>Values as strings (val_to_s, val_inspect and val_kind_name of src/value.c)\<close>

text \<open>
  A result is the C string returned, \<open>None\<close> when the pointer is null, or an error: the recursion
  did not end within its fuel, the code passed a null pointer to a function of the C library, or it
  wrote past the buffer it allocated. The address that \<open>%lx\<close> prints is a parameter.
\<close>

datatype str_error = Endless | Null_pointer | Overflow

type_synonym 'a str_result = "str_error + 'a"

definition str_bind :: "'a str_result \<Rightarrow> ('a \<Rightarrow> 'b str_result) \<Rightarrow> 'b str_result" where
  "str_bind m f = (case m of Inl e \<Rightarrow> Inl e | Inr x \<Rightarrow> f x)"

subsection \<open>Integers and floats\<close>

definition int_to_s :: "i64 \<Rightarrow> string" where
  "int_to_s i = snprintf 32 (fmt_int (sint i))"

text \<open>The least number of digits after the point with which \<open>%e\<close> reads back; 16 when none does.\<close>

definition float_sig :: "u64 \<Rightarrow> nat" where
  "float_sig f =
     (case find (\<lambda>sig. dbl_eq (strtod_signed (fmt_e sig f)) f) [0..<17] of
        Some sig \<Rightarrow> sig | None \<Rightarrow> 16)"

definition before_e :: "string \<Rightarrow> string" where
  "before_e s = takeWhile (\<lambda>c. c \<noteq> CHR ''e'') s"

definition after_e :: "string \<Rightarrow> string" where
  "after_e s = tl (dropWhile (\<lambda>c. c \<noteq> CHR ''e'') s)"

text \<open>\<open>strncat(buf, ".0", size - strlen(buf) - 1)\<close> when there is no point.\<close>

definition add_point :: "nat \<Rightarrow> string \<Rightarrow> string" where
  "add_point cap buf =
     (if CHR ''.'' \<in> set buf then buf else buf @ take (cap - length buf - 1) ''.0'')"

text \<open>\<open>%.*f\<close> with the digits the exponent leaves, and more while it does not read back.\<close>

definition float_decimal :: "nat \<Rightarrow> int \<Rightarrow> u64 \<Rightarrow> string" where
  "float_decimal sig e f =
     (let digs = nat (int sig - e);
          show_at = (\<lambda>d. snprintf 64 (fmt_f d f));
          exact = (\<lambda>d. dbl_eq (strtod_signed (show_at d)) f);
          buf = (if exact digs \<or> 17 \<le> digs then show_at digs
                 else case find exact [digs + 1..<18] of Some d \<Rightarrow> show_at d | None \<Rightarrow> show_at 17)
      in add_point 64 buf)"

definition float_to_s :: "u64 \<Rightarrow> string" where
  "float_to_s f =
     (if \<not> dbl_eq f f then ''NaN''
      else if f = word_of_nat dbl_infinity then ''Infinity''
      else if f = word_of_nat dbl_infinity OR 2 ^ 63 then ''-Infinity''
      else
        (let sig = float_sig f;
             esc = snprintf 64 (fmt_e sig f);
             e = atoi (after_e esc)
         in if - 4 \<le> e \<and> e \<le> 14 then float_decimal sig e f
            else snprintf 64 (add_point 48 (before_e esc) @ CHR ''e'' # fmt_plus2 e)))"

subsection \<open>Strings\<close>

definition hex_char :: "nat \<Rightarrow> char" where
  "hex_char n = ''0123456789abcdef'' ! n"

definition inspect_char :: "string_encoding \<Rightarrow> char \<Rightarrow> string" where
  "inspect_char enc c =
     (if c = CHR 0x22 then [CHR 0x5C, CHR 0x22]
      else if c = CHR 0x5C then [CHR 0x5C, CHR 0x5C]
      else if c = CHR 0x0A then [CHR 0x5C, CHR ''n'']
      else if c = CHR 0x0D then [CHR 0x5C, CHR ''r'']
      else if c = CHR 0x09 then [CHR 0x5C, CHR ''t'']
      else if c = CHR 0x1B then [CHR 0x5C, CHR ''e'']
      else if byte c < 0x20 \<or> byte c = 0x7F \<or> enc = STRING_ENCODING_ASCII_8BIT \<and> 0x7E < byte c
      then [CHR 0x5C, CHR ''x'', hex_char (byte c div 16), hex_char (byte c mod 16)]
      else [c])"

text \<open>A buffer of \<open>cap\<close> bytes that is filled with \<open>s\<close> and a terminator.\<close>

definition fill_buf :: "nat \<Rightarrow> string \<Rightarrow> string str_result" where
  "fill_buf cap s = (if length s < cap then Inr s else Inl Overflow)"

definition deref_str :: "heap \<Rightarrow> ptr option \<Rightarrow> string" where
  "deref_str h p = (case p of None \<Rightarrow> [] | Some p \<Rightarrow> h_strs h ! p)"

definition inspect_string :: "heap \<Rightarrow> rvalue \<Rightarrow> ptr option \<Rightarrow> string str_result" where
  "inspect_string h v p =
     (let s = take (v_byte_len v) (deref_str h p)
      in fill_buf (v_byte_len v * 4 + 3)
           (CHR 0x22 # concat (map (inspect_char (v_encoding v)) s) @ [CHR 0x22]))"

subsection \<open>Compound values\<close>

fun join_comma :: "string list \<Rightarrow> string" where
  "join_comma [] = []"
| "join_comma [s] = s"
| "join_comma (s # t # ss) = s @ '', '' @ join_comma (t # ss)"

fun map_strs :: "('a \<Rightarrow> string option str_result) \<Rightarrow> 'a list \<Rightarrow> string list str_result" where
  "map_strs f [] = Inr []"
| "map_strs f (x # xs) =
     str_bind (f x) (\<lambda>s. case s of None \<Rightarrow> Inl Null_pointer
       | Some s \<Rightarrow> str_bind (map_strs f xs) (\<lambda>ss. Inr (cstr s # ss)))"

definition array_to_s :: "(rvalue \<Rightarrow> string option str_result) \<Rightarrow> rvalue list \<Rightarrow> string option str_result"
where
  "array_to_s insp xs =
     str_bind (map_strs insp xs) (\<lambda>ss.
     str_bind (fill_buf (3 + sum_list (map (\<lambda>s. length s + 2) ss))
                 (CHR ''['' # join_comma ss @ '']'')) (\<lambda>s. Inr (Some s)))"

text \<open>The key's part of an entry and what it adds to the total.\<close>

definition key_to_s ::
  "(rvalue \<Rightarrow> string option str_result) \<Rightarrow> heap \<Rightarrow> rvalue \<Rightarrow> (string \<times> nat) str_result" where
  "key_to_s insp h k =
     (case v_data k of
        VAL_SYMBOL (Some p) \<Rightarrow> (let s = cstr (h_strs h ! p) in Inr (s @ '': '', length s + 4))
      | _ \<Rightarrow> str_bind (map_strs insp [k]) (\<lambda>ss. Inr (hd ss @ '' => '', length (hd ss) + 6)))"

fun pairs_to_s ::
  "(rvalue \<Rightarrow> string option str_result) \<Rightarrow> heap \<Rightarrow> rvalue list \<Rightarrow> rvalue list \<Rightarrow>
     (string list \<times> nat) str_result" where
  "pairs_to_s insp h (k # ks) (v # vs) =
     str_bind (key_to_s insp h k) (\<lambda>(ksr, n).
     str_bind (map_strs insp [v]) (\<lambda>vsr.
     str_bind (pairs_to_s insp h ks vs) (\<lambda>(ss, m).
       Inr ((ksr @ hd vsr) # ss, n + length (hd vsr) + m))))"
| "pairs_to_s insp h _ _ = Inr ([], 0)"

definition hash_to_s ::
  "(rvalue \<Rightarrow> string option str_result) \<Rightarrow> heap \<Rightarrow> ruby_hash \<Rightarrow> string option str_result" where
  "hash_to_s insp h r =
     str_bind (pairs_to_s insp h (rh_keys r) (rh_vals r)) (\<lambda>(ss, n).
     str_bind (fill_buf (3 + n) (CHR 0x7B # join_comma ss @ [CHR 0x7D])) (\<lambda>s. Inr (Some s)))"

definition range_to_s :: "(rvalue \<Rightarrow> string option str_result) \<Rightarrow> ruby_range \<Rightarrow> string option str_result"
where
  "range_to_s insp r =
     str_bind (map_strs insp [rr_begin r, rr_end r]) (\<lambda>ss.
       let dots = (if rr_exclusive r \<noteq> 0 then ''...'' else ''..'')
       in str_bind (fill_buf (length (ss ! 0) + length dots + length (ss ! 1) + 1)
                      (ss ! 0 @ dots @ ss ! 1)) (\<lambda>s. Inr (Some s)))"

fun show_hex :: "nat \<Rightarrow> string" where
  "show_hex n = (if n < 16 then [hex_char n] else show_hex (n div 16) @ [hex_char (n mod 16)])"

declare show_hex.simps [simp del]

definition object_to_s :: "(ptr \<Rightarrow> u64) \<Rightarrow> heap \<Rightarrow> ptr \<Rightarrow> string option str_result" where
  "object_to_s addr h p =
     (case (case v_data (ro_klass (h_objects h ! p)) of
              VAL_CLASS c \<Rightarrow> rc_name (h_classes h ! c) | _ \<Rightarrow> Some ''?'') of
        None \<Rightarrow> Inl Null_pointer
      | Some name \<Rightarrow>
          Inr (Some (snprintf (length name + 30)
            (''#<'' @ name @ '':0x'' @ show_hex (unat (addr p)) @ ''>''))))"

subsection \<open>The conversions\<close>

definition to_s_step ::
  "(ptr \<Rightarrow> u64) \<Rightarrow> (rvalue \<Rightarrow> string option str_result) \<Rightarrow> heap \<Rightarrow> rvalue \<Rightarrow> string option str_result"
where
  "to_s_step addr insp h v =
     (case v_data v of
        VAL_NIL \<Rightarrow> Inr (Some [])
      | VAL_BOOL b \<Rightarrow> Inr (Some (if b \<noteq> 0 then ''true'' else ''false''))
      | VAL_INT i \<Rightarrow> Inr (Some (int_to_s i))
      | VAL_FLOAT f \<Rightarrow> Inr (Some (float_to_s f))
      | VAL_STRING p \<Rightarrow> Inr (Some (deref_str h p))
      | VAL_SYMBOL p \<Rightarrow> Inr (Some (deref_str h p))
      | VAL_ARRAY p \<Rightarrow>
          (case p of None \<Rightarrow> Inl Null_pointer | Some p \<Rightarrow> array_to_s insp (ra_elems (h_arrays h ! p)))
      | VAL_HASH p \<Rightarrow>
          (case p of None \<Rightarrow> Inl Null_pointer | Some p \<Rightarrow> hash_to_s insp h (h_hashes h ! p))
      | VAL_RANGE p \<Rightarrow> range_to_s insp (h_ranges h ! p)
      | VAL_METHOD _ _ _ _ \<Rightarrow> Inr (Some ''#<Method>'')
      | VAL_BLOCK _ _ _ _ _ \<Rightarrow> Inr (Some ''#<Proc>'')
      | VAL_CLASS p \<Rightarrow> Inr (rc_name (h_classes h ! p))
      | VAL_OBJECT p \<Rightarrow> object_to_s addr h p
      | _ \<Rightarrow> Inr (Some ''#<?>''))"

definition inspect_step ::
  "(rvalue \<Rightarrow> string option str_result) \<Rightarrow> heap \<Rightarrow> rvalue \<Rightarrow> string option str_result" where
  "inspect_step to_s h v =
     (case v_data v of
        VAL_NIL \<Rightarrow> Inr (Some ''nil'')
      | VAL_BOOL b \<Rightarrow> Inr (Some (if b \<noteq> 0 then ''true'' else ''false''))
      | VAL_STRING p \<Rightarrow> str_bind (inspect_string h v p) (\<lambda>s. Inr (Some s))
      | VAL_SYMBOL p \<Rightarrow>
          (case p of None \<Rightarrow> Inl Null_pointer | Some p \<Rightarrow> Inr (Some (CHR '':'' # cstr (h_strs h ! p))))
      | _ \<Rightarrow> to_s v)"

primrec val_inspect :: "(ptr \<Rightarrow> u64) \<Rightarrow> nat \<Rightarrow> heap \<Rightarrow> rvalue \<Rightarrow> string option str_result" where
  "val_inspect addr 0 h = (\<lambda>v. Inl Endless)"
| "val_inspect addr (Suc n) h = inspect_step (to_s_step addr (val_inspect addr n h) h) h"

definition val_to_s :: "(ptr \<Rightarrow> u64) \<Rightarrow> nat \<Rightarrow> heap \<Rightarrow> rvalue \<Rightarrow> string option str_result" where
  "val_to_s addr n h = to_s_step addr (val_inspect addr n h) h"

definition val_kind_name :: "vdata \<Rightarrow> string" where
  "val_kind_name d =
     (case d of
        VAL_NIL \<Rightarrow> ''NilClass''
      | VAL_BOOL _ \<Rightarrow> ''TrueClass/FalseClass''
      | VAL_INT _ \<Rightarrow> ''Integer''
      | VAL_FLOAT _ \<Rightarrow> ''Float''
      | VAL_STRING _ \<Rightarrow> ''String''
      | VAL_SYMBOL _ \<Rightarrow> ''Symbol''
      | VAL_ARRAY _ \<Rightarrow> ''Array''
      | VAL_HASH _ \<Rightarrow> ''Hash''
      | VAL_RANGE _ \<Rightarrow> ''Range''
      | VAL_CLASS _ \<Rightarrow> ''Class''
      | VAL_OBJECT _ \<Rightarrow> ''Object''
      | VAL_METHOD _ _ _ _ \<Rightarrow> ''Method''
      | VAL_BLOCK _ _ _ _ _ \<Rightarrow> ''Proc''
      | VAL_EXCEPTION \<Rightarrow> ''Exception''
      | _ \<Rightarrow> ''?'')"

end
