(* ===== verification/ValueProps.thy ===== *)
theory ValueProps
  imports ValueStr Table
begin

section \<open>Properties of values\<close>

subsection \<open>Equality and its fuel\<close>

text \<open>The values a value holds.\<close>

definition parts :: "heap \<Rightarrow> rvalue \<Rightarrow> rvalue list" where
  "parts h v =
     (case v_data v of
        VAL_ARRAY (Some p) \<Rightarrow> ra_elems (h_arrays h ! p)
      | VAL_HASH (Some p) \<Rightarrow> rh_keys (h_hashes h ! p) @ rh_vals (h_hashes h ! p)
      | VAL_RANGE p \<Rightarrow> [rr_begin (h_ranges h ! p), rr_end (h_ranges h ! p)]
      | _ \<Rightarrow> [])"

text \<open>A heap without cycles: every value in it holds values in it, of a smaller rank only.\<close>

definition in_heap :: "heap \<Rightarrow> rvalue \<Rightarrow> bool" where
  "in_heap h v =
     (case v_data v of
        VAL_ARRAY (Some p) \<Rightarrow> p < length (h_arrays h)
      | VAL_HASH (Some p) \<Rightarrow> p < length (h_hashes h)
      | VAL_RANGE p \<Rightarrow> p < length (h_ranges h)
      | _ \<Rightarrow> True)"

definition ranked :: "heap \<Rightarrow> (rvalue \<Rightarrow> nat) \<Rightarrow> bool" where
  "ranked h rank \<longleftrightarrow>
     (\<forall>v. in_heap h v \<longrightarrow> (\<forall>x \<in> set (parts h v). in_heap h x \<and> rank x < rank v))"

text \<open>A test that answers more.\<close>

definition answers :: "('a \<Rightarrow> 'b \<Rightarrow> test) \<Rightarrow> ('a \<Rightarrow> 'b \<Rightarrow> test) \<Rightarrow> bool" where
  "answers eq eq' \<longleftrightarrow> (\<forall>a b r. eq a b = Some r \<longrightarrow> eq' a b = Some r)"

lemma ex_bools [simp]: "\<exists>y. y" "\<exists>y. \<not> y"
  by auto

lemma answersD: "answers eq eq' \<Longrightarrow> eq a b = Some r \<Longrightarrow> eq' a b = Some r"
  by (simp add: answers_def)

lemma and_then_mono:
  "and_then a b = Some r \<Longrightarrow> (\<And>r. a = Some r \<Longrightarrow> a' = Some r) \<Longrightarrow> (\<And>r. b = Some r \<Longrightarrow> b' = Some r) \<Longrightarrow>
     and_then a' b' = Some r"
  by (auto simp: and_then_def split: option.splits bool.splits)

lemma all_pairs_mono:
  "all_pairs eq xs ys = Some r \<Longrightarrow> answers eq eq' \<Longrightarrow> all_pairs eq' xs ys = Some r"
proof (induction eq xs ys arbitrary: r rule: all_pairs.induct)
  case (1 eq x xs y ys)
  then show ?case unfolding all_pairs.simps
    by (elim and_then_mono) (auto dest: answersD)
qed auto

lemma find_key_mono:
  "find_key eq ks = Some r \<Longrightarrow> (\<And>k r. eq k = Some r \<Longrightarrow> eq' k = Some r) \<Longrightarrow> find_key eq' ks = Some r"
proof (induction eq ks arbitrary: r rule: find_key.induct)
  case (2 eq k ks)
  then show ?case by (fastforce split: option.splits bool.splits)
qed simp

lemma identity_mono: "answers eq eq' \<Longrightarrow> answers (val_identity_equal eq) (val_identity_equal eq')"
  by (auto simp: answers_def val_identity_equal_def split: vdata.splits)

lemma key_equal_mono:
  "answers eq eq' \<Longrightarrow> answers (val_hash_key_equal eq h) (val_hash_key_equal eq' h)"
  using identity_mono [of eq eq'] by (auto simp: val_hash_key_equal_def answers_def)

lemma hash_get_mono:
  "answers eq eq' \<Longrightarrow> hash_get eq h key = Some r \<Longrightarrow> hash_get eq' h key = Some r"
  unfolding hash_get_def hash_find_def
  by (auto intro!: find_key_mono dest: answersD [OF key_equal_mono])

lemma step_mono: "answers eq eq' \<Longrightarrow> answers (val_equal_step eq h) (val_equal_step eq' h)"
proof -
  assume m: "answers eq eq'"
  have hash: "answers (\<lambda>key v. case hash_get eq k key of None \<Rightarrow> None | Some None \<Rightarrow> Some False
        | Some (Some w) \<Rightarrow> eq v w)
      (\<lambda>key v. case hash_get eq' k key of None \<Rightarrow> None | Some None \<Rightarrow> Some False
        | Some (Some w) \<Rightarrow> eq' v w)" for k
    unfolding answers_def
  proof (intro allI impI, goal_cases)
    case (1 key v r)
    then obtain g where g: "hash_get eq k key = Some g" by (auto split: option.splits)
    then show ?case using 1 hash_get_mono [OF m g] answersD [OF m] by (auto split: option.splits)
  qed
  have range: "and_then x (and_then (eq a b) (eq c d)) = Some r \<Longrightarrow>
      and_then x (and_then (eq' a b) (eq' c d)) = Some r" for x a b c d r
    by (elim and_then_mono) (auto dest: answersD [OF m])
  show ?thesis
    unfolding answers_def
  proof (intro allI impI)
    fix a b r assume r: "val_equal_step eq h a b = Some r"
    show "val_equal_step eq' h a b = Some r"
    proof (cases "v_data a")
      case (VAL_ARRAY p)
      then show ?thesis using r all_pairs_mono [OF _ m] unfolding val_equal_step_def
        by (cases "v_data b"; simp) (auto simp: Let_def split: option.splits if_splits)
    next
      case (VAL_HASH p)
      then show ?thesis using r all_pairs_mono [OF _ hash] unfolding val_equal_step_def
        by (cases "v_data b"; simp) (auto simp: Let_def split: option.splits if_splits)
    next
      case (VAL_RANGE p)
      then show ?thesis using r range unfolding val_equal_step_def
        by (cases "v_data b") (simp_all add: Let_def)
    qed (use r in \<open>cases "v_data b"; simp add: val_equal_step_def\<close>)+
  qed
qed

lemma val_equal_Suc: "answers (val_equal n h) (val_equal (Suc n) h)"
proof (induction n)
  case (Suc n)
  then show ?case unfolding val_equal.simps by (rule step_mono)
qed (simp add: answers_def)

lemma val_equal_mono: "n \<le> m \<Longrightarrow> answers (val_equal n h) (val_equal m h)"
proof (induction m)
  case (Suc m)
  then show ?case using val_equal_Suc [of m h] by (auto simp: le_Suc_eq answers_def)
qed (simp add: answers_def)

text \<open>The loops answer when every comparison they may make does.\<close>

lemma and_then_answer: "a \<noteq> None \<Longrightarrow> b \<noteq> None \<Longrightarrow> and_then a b \<noteq> None"
  by (auto simp: and_then_def split: option.splits bool.splits)

lemma all_pairs_answer:
  "(\<And>x y. x \<in> set xs \<Longrightarrow> y \<in> set ys \<Longrightarrow> eq x y \<noteq> None) \<Longrightarrow> all_pairs eq xs ys \<noteq> None"
proof (induction eq xs ys rule: all_pairs.induct)
  case (1 eq x xs y ys)
  then show ?case unfolding all_pairs.simps by (intro and_then_answer) auto
qed auto

lemma find_key_answer:
  "(\<And>k. k \<in> set ks \<Longrightarrow> eq k \<noteq> None) \<Longrightarrow> find_key eq ks \<noteq> None"
  by (induction ks) (auto split: option.splits bool.splits)

lemma key_equal_answer: "eq k key \<noteq> None \<Longrightarrow> val_hash_key_equal eq h k key \<noteq> None"
  by (auto simp: val_hash_key_equal_def val_identity_equal_def split: vdata.splits)

lemma hash_get_answer:
  "(\<And>k. k \<in> set (rh_keys h) \<Longrightarrow> eq k key \<noteq> None) \<Longrightarrow> hash_get eq h key \<noteq> None"
  unfolding hash_get_def hash_find_def
  using find_key_answer [of "rh_keys h" "\<lambda>k. val_hash_key_equal eq h k key"] key_equal_answer
  by auto

lemma find_key_index: "find_key eq ks = Some (Some i) \<Longrightarrow> i < length ks \<and> eq (ks ! i) = Some True"
  by (induction eq ks arbitrary: i rule: find_key.induct) (auto split: option.splits bool.splits)

text \<open>A hash's keys and values are parallel arrays.\<close>

definition hash_shape :: "ruby_hash \<Rightarrow> bool" where
  "hash_shape r \<longleftrightarrow> length (rh_vals r) = length (rh_keys r) \<and> length (rh_keys r) \<le> rh_cap r"

definition heap_shape :: "heap \<Rightarrow> bool" where
  "heap_shape h \<longleftrightarrow> (\<forall>r \<in> set (h_hashes h). hash_shape r)"

lemma step_answer:
  assumes "\<And>x y. x \<in> set (parts h a) \<Longrightarrow> y \<in> set (parts h b) \<Longrightarrow> eq x y \<noteq> None \<and> eq y x \<noteq> None"
    and shape: "\<And>p. v_data b = VAL_HASH (Some p) \<Longrightarrow> hash_shape (h_hashes h ! p)"
  shows "val_equal_step eq h a b \<noteq> None"
proof (cases "(v_data a, v_data b)" rule: prod.exhaust)
  case (Pair da db)
  have d: "v_data a = da" "v_data b = db" using Pair by auto
  show ?thesis
  proof (cases "\<exists>p q. da = VAL_HASH (Some p) \<and> db = VAL_HASH (Some q)")
    case True
    then obtain p q where pq: "da = VAL_HASH (Some p)" "db = VAL_HASH (Some q)" by blast
    let ?g = "h_hashes h ! p" and ?k = "h_hashes h ! q"
    have "all_pairs (\<lambda>key v. case hash_get eq ?k key of None \<Rightarrow> None | Some None \<Rightarrow> Some False
        | Some (Some w) \<Rightarrow> eq v w) (rh_keys ?g) (rh_vals ?g) \<noteq> None"
    proof (rule all_pairs_answer)
      fix x y assume x: "x \<in> set (rh_keys ?g)" and y: "y \<in> set (rh_vals ?g)"
      have "hash_get eq ?k x \<noteq> None"
        using assms(1) [of x] x d pq by (intro hash_get_answer) (auto simp: parts_def)
      moreover have "eq y w \<noteq> None" if w: "hash_get eq ?k x = Some (Some w)" for w
      proof -
        obtain i where "i < length (rh_keys ?k)" "w = rh_vals ?k ! i"
          using w by (auto simp: hash_get_def hash_find_def dest: find_key_index)
        then have "w \<in> set (rh_vals ?k)" using shape [of q] d pq by (simp add: hash_shape_def)
        then show ?thesis using assms(1) [of y w] y d pq by (simp add: parts_def)
      qed
      ultimately show "(case hash_get eq ?k x of None \<Rightarrow> None | Some None \<Rightarrow> Some False
        | Some (Some w) \<Rightarrow> eq y w) \<noteq> None" by (auto split: option.split)
    qed
    then show ?thesis using d pq unfolding val_equal_step_def Let_def by (cases "p = q") auto
  next
    case False
    show ?thesis
    proof (cases da)
      case (VAL_ARRAY p)
      have "all_pairs eq (ra_elems (h_arrays h ! x)) (ra_elems (h_arrays h ! y)) \<noteq> None"
        if "da = VAL_ARRAY (Some x)" "db = VAL_ARRAY (Some y)" for x y
        using assms(1) d that by (intro all_pairs_answer) (simp add: parts_def)
      then show ?thesis using VAL_ARRAY d
        by (cases db; cases p) (auto simp: val_equal_step_def Let_def split: option.split)
    next
      case (VAL_RANGE p)
      have "eq (rr_begin (h_ranges h ! p)) (rr_begin (h_ranges h ! q)) \<noteq> None"
        "eq (rr_end (h_ranges h ! p)) (rr_end (h_ranges h ! q)) \<noteq> None" if "db = VAL_RANGE q" for q
        using assms(1) d that VAL_RANGE by (auto simp: parts_def)
      then show ?thesis using VAL_RANGE d and_then_answer
        by (cases db) (simp_all add: val_equal_step_def Let_def)
    next
      case (VAL_HASH p)
      then show ?thesis using False d
        by (cases db; cases p) (simp_all add: val_equal_step_def Let_def split: option.split)
    qed (use d in \<open>cases db; simp add: val_equal_step_def\<close>)+
  qed
qed


lemma val_equal_answer:
  "ranked h rank \<Longrightarrow> heap_shape h \<Longrightarrow> in_heap h a \<Longrightarrow> in_heap h b \<Longrightarrow> rank a < n \<Longrightarrow> rank b < n \<Longrightarrow>
     val_equal n h a b \<noteq> None"
proof (induction n arbitrary: a b)
  case (Suc n)
  show ?case unfolding val_equal.simps
  proof (rule step_answer)
    fix x y assume x: "x \<in> set (parts h a)" and y: "y \<in> set (parts h b)"
    then have "in_heap h x" "in_heap h y" "rank x < rank a" "rank y < rank b"
      using Suc.prems by (auto simp: ranked_def)
    then show "val_equal n h x y \<noteq> None \<and> val_equal n h y x \<noteq> None"
      using Suc by auto
  next
    fix p assume "v_data b = VAL_HASH (Some p)"
    then show "hash_shape (h_hashes h ! p)"
      using Suc.prems by (simp add: heap_shape_def in_heap_def)
  qed
qed simp

subsection \<open>Hashes are tables\<close>

text \<open>Keys on which equality is one comparison, and an equivalence: not floats (\<open>NaN\<close>, and the
  comparison with integers), nor values that hold others.\<close>

definition simple_key :: "rvalue \<Rightarrow> bool" where
  "simple_key v =
     (case v_data v of
        VAL_NIL \<Rightarrow> True | VAL_BOOL _ \<Rightarrow> True | VAL_INT _ \<Rightarrow> True | VAL_CLASS _ \<Rightarrow> True
      | VAL_OBJECT _ \<Rightarrow> True | VAL_STRING p \<Rightarrow> p \<noteq> None | VAL_SYMBOL p \<Rightarrow> p \<noteq> None | _ \<Rightarrow> False)"

definition key_eq :: "heap \<Rightarrow> rvalue \<Rightarrow> rvalue \<Rightarrow> bool" where
  "key_eq h a b = (val_equal 1 h a b = Some True)"

lemma simple_key_cases:
  assumes "simple_key v"
  obtains "v_data v = VAL_NIL" | x where "v_data v = VAL_BOOL x" | i where "v_data v = VAL_INT i"
  | p where "v_data v = VAL_CLASS p" | p where "v_data v = VAL_OBJECT p"
  | p where "v_data v = VAL_STRING (Some p)" | p where "v_data v = VAL_SYMBOL (Some p)"
  using assms by (cases "v_data v") (auto simp: simple_key_def)

lemma val_equal_simple:
  "simple_key a \<Longrightarrow> simple_key b \<Longrightarrow> val_equal (Suc n) h a b = Some (key_eq h a b)"
  by (erule simple_key_cases; erule simple_key_cases)
    (simp_all add: key_eq_def val_equal_step_def)

lemma key_eq_heap: "simple_key a \<Longrightarrow> simple_key b \<Longrightarrow> h_strs h' = h_strs h \<Longrightarrow>
    key_eq h' a b = key_eq h a b"
  by (erule simple_key_cases; erule simple_key_cases)
    (simp_all add: key_eq_def val_equal_step_def str_equal_def)

lemma key_eq_refl: "simple_key a \<Longrightarrow> key_eq h a a"
  by (erule simple_key_cases) (simp_all add: key_eq_def val_equal_step_def str_equal_def)

lemma key_eq_sym: "simple_key a \<Longrightarrow> simple_key b \<Longrightarrow> key_eq h a b \<Longrightarrow> key_eq h b a"
  by (erule simple_key_cases; erule simple_key_cases)
    (auto simp: key_eq_def val_equal_step_def str_equal_def streq_def)

lemma key_eq_trans:
  "simple_key a \<Longrightarrow> simple_key b \<Longrightarrow> simple_key c \<Longrightarrow> key_eq h a b \<Longrightarrow> key_eq h b c \<Longrightarrow> key_eq h a c"
  by (erule simple_key_cases; erule simple_key_cases; erule simple_key_cases)
    (auto simp: key_eq_def val_equal_step_def str_equal_def streq_def)

lemma key_eq_via:
  "simple_key a \<Longrightarrow> simple_key b \<Longrightarrow> simple_key c \<Longrightarrow> key_eq h a b \<Longrightarrow> key_eq h a c \<Longrightarrow> key_eq h b c"
  using key_eq_sym key_eq_trans by blast

lemma key_eq_common:
  "simple_key a \<Longrightarrow> simple_key b \<Longrightarrow> simple_key c \<Longrightarrow> key_eq h a c \<Longrightarrow> key_eq h b c \<Longrightarrow> key_eq h a b"
  using key_eq_sym key_eq_trans by blast

text \<open>The index of the first entry that satisfies a test.\<close>

fun index_of :: "('a \<Rightarrow> bool) \<Rightarrow> 'a list \<Rightarrow> nat option" where
  "index_of P [] = None"
| "index_of P (x # xs) = (if P x then Some 0 else map_option Suc (index_of P xs))"

lemma find_key_index_of: "(\<forall>k \<in> set ks. eq k = Some (P k)) \<Longrightarrow> find_key eq ks = Some (index_of P ks)"
  by (induction ks) auto

lemma index_of_None: "index_of P xs = None \<longleftrightarrow> (\<forall>x \<in> set xs. \<not> P x)"
  by (induction xs) auto

lemma index_of_Some: "index_of P xs = Some i \<Longrightarrow> i < length xs \<and> P (xs ! i) \<and> (\<forall>j < i. \<not> P (xs ! j))"
proof (induction xs arbitrary: i)
  case (Cons x xs)
  show ?case
  proof (cases "P x")
    case False
    then obtain j where "i = Suc j" "index_of P xs = Some j" using Cons.prems by auto
    then show ?thesis using Cons.IH [of j] False by (auto simp: less_Suc_eq_0_disj)
  qed (use Cons.prems in simp)
qed simp

lemma index_of_append: "index_of P (xs @ ys) =
    (case index_of P xs of Some i \<Rightarrow> Some i
     | None \<Rightarrow> map_option (\<lambda>i. length xs + i) (index_of P ys))"
  by (induction xs; cases "index_of P ys") (auto split: option.split)

lemma index_of_cong: "(\<And>x. x \<in> set xs \<Longrightarrow> P x = Q x) \<Longrightarrow> index_of P xs = index_of Q xs"
  by (induction xs) auto

lemma index_of_remove:
  "i < length xs \<Longrightarrow> \<not> P (xs ! i) \<Longrightarrow>
     index_of P (remove_at i xs) = map_option (\<lambda>j. if i < j then j - 1 else j) (index_of P xs)"
proof (induction xs arbitrary: i)
  case (Cons x xs)
  show ?case
  proof (cases i)
    case 0
    then show ?thesis using Cons.prems
      by (cases "index_of P xs") (simp_all add: remove_at_def)
  next
    case (Suc j)
    have "index_of P (remove_at j xs) = map_option (\<lambda>k. if j < k then k - 1 else k) (index_of P xs)"
      using Cons Suc by simp
    moreover have "remove_at i (x # xs) = x # remove_at j xs" by (simp add: Suc remove_at_def)
    ultimately show ?thesis using Suc by (cases "index_of P xs") (auto split: if_splits)
  qed
qed simp

definition hash_ok :: "heap \<Rightarrow> ruby_hash \<Rightarrow> bool" where
  "hash_ok h r \<longleftrightarrow> hash_shape r \<and> \<not> rh_by_identity r \<and> (\<forall>k \<in> set (rh_keys r). simple_key k) \<and>
     (\<forall>i < length (rh_keys r). \<forall>j < i. \<not> key_eq h (rh_keys r ! j) (rh_keys r ! i))"

definition lookup :: "heap \<Rightarrow> ruby_hash \<Rightarrow> rvalue \<Rightarrow> rvalue option" where
  "lookup h r key = map_option (\<lambda>i. rh_vals r ! i) (index_of (\<lambda>k. key_eq h k key) (rh_keys r))"

lemma hash_find_ok:
  "hash_ok h r \<Longrightarrow> simple_key key \<Longrightarrow>
     hash_find (val_equal (Suc n) h) r key = Some (index_of (\<lambda>k. key_eq h k key) (rh_keys r))"
  unfolding hash_find_def
  by (rule find_key_index_of) (auto simp: val_hash_key_equal_def hash_ok_def val_equal_simple
      simp del: val_equal.simps)

lemma hash_get_ok:
  "hash_ok h r \<Longrightarrow> simple_key key \<Longrightarrow> hash_get (val_equal (Suc n) h) r key = Some (lookup h r key)"
  by (simp add: hash_get_def hash_find_ok lookup_def del: val_equal.simps)

definition put_entry :: "heap \<Rightarrow> rvalue \<Rightarrow> rvalue \<Rightarrow> ruby_hash \<Rightarrow> ruby_hash" where
  "put_entry h key val r =
     (case index_of (\<lambda>k. key_eq h k key) (rh_keys r) of
        Some i \<Rightarrow> r\<lparr>rh_vals := (rh_vals r)[i := val]\<rparr> | None \<Rightarrow> hash_append key val r)"

definition del_entry :: "heap \<Rightarrow> rvalue \<Rightarrow> ruby_hash \<Rightarrow> ruby_hash" where
  "del_entry h key r =
     (case index_of (\<lambda>k. key_eq h k key) (rh_keys r) of
        None \<Rightarrow> r
      | Some i \<Rightarrow> r\<lparr>rh_keys := remove_at i (rh_keys r), rh_vals := remove_at i (rh_vals r)\<rparr>)"

lemma hash_put_ok: "hash_ok h r \<Longrightarrow> simple_key key \<Longrightarrow>
    hash_put (val_equal (Suc n) h) key val r = Some (put_entry h key val r)"
  by (simp add: hash_put_def hash_find_ok put_entry_def del: val_equal.simps split: option.split)

lemma hash_del_ok: "hash_ok h r \<Longrightarrow> simple_key key \<Longrightarrow>
    hash_del (val_equal (Suc n) h) key r = Some (lookup h r key \<noteq> None, del_entry h key r)"
  by (simp add: hash_del_def hash_find_ok del_entry_def lookup_def del: val_equal.simps
      split: option.split)

lemma grow_cap_le: "len \<le> cap \<Longrightarrow> len < grow_cap len cap"
  by (simp add: grow_cap_def)

lemma nth_remove_at:
  "i < length xs \<Longrightarrow> remove_at i xs ! j = (if j < i then xs ! j else xs ! Suc j)"
  by (simp add: remove_at_def nth_append min_def)

lemma length_remove_at: "i < length xs \<Longrightarrow> length (remove_at i xs) = length xs - 1"
  by (simp add: remove_at_def)

lemma set_remove_at: "set (remove_at i xs) \<subseteq> set xs"
  by (auto simp: remove_at_def dest: in_set_takeD in_set_dropD)

interpretation hash_table: table "key_eq h" simple_key "hash_ok h" "lookup h" "put_entry h" "del_entry h"
  for h
proof (unfold_locales, goal_cases)
  case (1 k)
  then show ?case by (rule key_eq_refl)
next
  case (2 k l)
  then show ?case by (rule key_eq_sym)
next
  case (3 j k l)
  then show ?case by (rule key_eq_trans)
next
  case (4 r k v)
  show ?case
  proof (cases "index_of (\<lambda>l. key_eq h l k) (rh_keys r)")
    case None
    then have "\<forall>l \<in> set (rh_keys r). \<not> key_eq h l k" by (simp add: index_of_None)
    then show ?thesis using 4 None grow_cap_le [of "length (rh_keys r)" "rh_cap r"]
      by (auto simp: put_entry_def hash_ok_def hash_shape_def hash_append_def nth_append less_Suc_eq)
  next
    case (Some i)
    then show ?thesis using 4 by (simp add: put_entry_def hash_ok_def hash_shape_def)
  qed
next
  case (5 r k)
  show ?case
  proof (cases "index_of (\<lambda>l. key_eq h l k) (rh_keys r)")
    case (Some i)
    then have "i < length (rh_keys r)" by (simp add: index_of_Some)
    then show ?thesis using 5 Some set_remove_at [of i "rh_keys r"]
      by (auto simp: del_entry_def hash_ok_def hash_shape_def length_remove_at nth_remove_at)
  qed (use 5 in \<open>simp add: del_entry_def\<close>)
next
  case (6 r k l v)
  let ?K = "\<lambda>x. key_eq h x k" and ?L = "\<lambda>x. key_eq h x l"
  have eq: "?L x \<longleftrightarrow> ?K x" if "key_eq h k l" "x \<in> set (rh_keys r)" for x
    using that 6 key_eq_trans key_eq_sym by (meson hash_ok_def)
  show ?case
  proof (cases "index_of ?K (rh_keys r)")
    case None
    then show ?thesis using 6 eq
      by (auto simp: put_entry_def lookup_def hash_append_def index_of_append nth_append
          index_of_None hash_ok_def hash_shape_def split: option.split dest: index_of_Some)
  next
    case (Some i)
    note i = index_of_Some [OF Some]
    have put: "lookup h (put_entry h k v r) l =
        map_option (\<lambda>j. (rh_vals r)[i := v] ! j) (index_of ?L (rh_keys r))"
      by (simp add: put_entry_def Some lookup_def)
    show ?thesis
    proof (cases "key_eq h k l")
      case True
      then have "index_of ?L (rh_keys r) = Some i" using eq Some by (simp cong: index_of_cong)
      then show ?thesis using 6 True i put by (simp add: hash_ok_def hash_shape_def)
    next
      case False
      have "i \<noteq> j" if "index_of ?L (rh_keys r) = Some j" for j
      proof
        assume "i = j"
        then have "key_eq h (rh_keys r ! i) l" "key_eq h (rh_keys r ! i) k"
          using index_of_Some [OF that] i by auto
        moreover have "simple_key (rh_keys r ! i)" using 6(1) i by (simp add: hash_ok_def)
        ultimately show False using False 6 key_eq_via by blast
      qed
      then show ?thesis using False put
        by (cases "index_of ?L (rh_keys r)") (simp_all add: lookup_def)
    qed
  qed
next
  case (7 r k l)
  let ?K = "\<lambda>x. key_eq h x k" and ?L = "\<lambda>x. key_eq h x l"
  have simple: "simple_key x" if "x \<in> set (rh_keys r)" for x using 7(1) that by (simp add: hash_ok_def)
  have eq: "?L x \<longleftrightarrow> ?K x" if "key_eq h k l" "x \<in> set (rh_keys r)" for x
    using that 7(2,3) key_eq_trans key_eq_sym simple by meson
  show ?case
  proof (cases "index_of ?K (rh_keys r)")
    case None
    then have "index_of ?L (rh_keys r) = None" if "key_eq h k l"
      using eq that by (simp add: index_of_None)
    then show ?thesis using None by (simp add: del_entry_def lookup_def)
  next
    case (Some i)
    note i = index_of_Some [OF Some]
    have del: "lookup h (del_entry h k r) l =
        map_option (\<lambda>j. remove_at i (rh_vals r) ! j) (index_of ?L (remove_at i (rh_keys r)))"
      by (simp add: del_entry_def Some lookup_def)
    show ?thesis
    proof (cases "key_eq h k l")
      case True
      have "\<not> ?K (remove_at i (rh_keys r) ! j)" if j: "j < length (rh_keys r) - 1" for j
      proof
        assume a: "?K (remove_at i (rh_keys r) ! j)"
        define m where "m = (if j < i then j else Suc j)"
        have m: "m < length (rh_keys r)" "m \<noteq> i" "?K (rh_keys r ! m)"
          using a i j by (auto simp: m_def nth_remove_at split: if_splits)
        have "simple_key (rh_keys r ! m)" "simple_key (rh_keys r ! i)" using simple m i by simp_all
        then have "key_eq h (rh_keys r ! m) (rh_keys r ! i)" "key_eq h (rh_keys r ! i) (rh_keys r ! m)"
          using m(3) i 7(2) by (blast intro: key_eq_common [where c = k])+
        then show False using 7(1) m i unfolding hash_ok_def by (meson nat_neq_iff)
      qed
      then have "\<forall>x \<in> set (remove_at i (rh_keys r)). \<not> ?K x"
        using i by (auto simp: in_set_conv_nth length_remove_at)
      then have "index_of ?L (remove_at i (rh_keys r)) = None"
        using eq [OF True] set_remove_at [of i "rh_keys r"] by (auto simp: index_of_None)
      then show ?thesis using True del by simp
    next
      case False
      have si: "simple_key (rh_keys r ! i)" using simple i by simp
      have notL: "\<not> ?L (rh_keys r ! i)"
        using key_eq_via [OF si 7(2,3)] False i by blast
      then have rem: "index_of ?L (remove_at i (rh_keys r)) =
          map_option (\<lambda>j. if i < j then j - 1 else j) (index_of ?L (rh_keys r))"
        using i by (intro index_of_remove) auto
      have ne: "j \<noteq> i" if "index_of ?L (rh_keys r) = Some j" for j
        using index_of_Some [OF that] notL by auto
      have len: "i < length (rh_vals r)" using 7 i by (simp add: hash_ok_def hash_shape_def)
      show ?thesis
      proof (cases "index_of ?L (rh_keys r)")
        case None
        then show ?thesis using False del rem by (simp add: lookup_def)
      next
        case (Some j)
        then show ?thesis using False del rem ne [OF Some] len
          by (cases "i < j") (auto simp: lookup_def nth_remove_at)
      qed
    qed
  qed
qed

subsection \<open>Printing stays in its buffers\<close>

lemma length_join: "length (join_comma ss) + 2 \<le> 2 + sum_list (map (\<lambda>s. length s + 2) ss)"
  by (induction ss rule: join_comma.induct) simp_all

lemma length_inspect_char: "length (inspect_char enc c) \<le> 4"
  by (simp add: inspect_char_def)

lemma length_inspect_chars: "length (concat (map (inspect_char enc) s)) \<le> 4 * length s"
  by (induction s) (use length_inspect_char [of enc] in \<open>auto simp: add_mono\<close>)

lemma str_bind_Inl: "str_bind m f = Inl e \<longleftrightarrow> m = Inl e \<or> (\<exists>x. m = Inr x \<and> f x = Inl e)"
  by (auto simp: str_bind_def split: sum.split)

lemma str_bind_Inr: "str_bind m f = Inr y \<longleftrightarrow> (\<exists>x. m = Inr x \<and> f x = Inr y)"
  by (auto simp: str_bind_def split: sum.split)

lemma fill_buf_Inl: "fill_buf cap s = Inl e \<longleftrightarrow> cap \<le> length s \<and> e = Overflow"
  by (auto simp: fill_buf_def)

lemma inspect_string_fits: "inspect_string h v p \<noteq> Inl e"
proof -
  let ?s = "take (v_byte_len v) (deref_str h p)"
  have "length (concat (map (inspect_char (v_encoding v)) ?s)) \<le> 4 * v_byte_len v"
    by (rule order_trans [OF length_inspect_chars]) simp
  then show ?thesis unfolding inspect_string_def Let_def fill_buf_Inl by simp
qed

text \<open>An error of the elements is not an overflow; \<open>bad e\<close> says which errors they may have.\<close>

lemma map_strs_error:
  "map_strs f xs = Inl e \<Longrightarrow> e = Null_pointer \<or> (\<exists>x \<in> set xs. f x = Inl e)"
  by (induction xs) (auto simp: str_bind_Inl split: option.splits)

lemma array_fits: "array_to_s insp xs = Inl e \<Longrightarrow> e = Null_pointer \<or> (\<exists>x \<in> set xs. insp x = Inl e)"
proof -
  assume "array_to_s insp xs = Inl e"
  then consider "map_strs insp xs = Inl e"
    | ss where "3 + sum_list (map (\<lambda>s. length s + 2) ss) \<le> length (join_comma ss) + 2"
    by (auto simp: array_to_s_def str_bind_Inl fill_buf_Inl)
  then show ?thesis
  proof cases
    case 1
    then show ?thesis by (rule map_strs_error)
  next
    case 2
    then show ?thesis using length_join [of ss] by simp
  qed
qed

lemma key_to_s_size: "key_to_s insp h k = Inr (s, n) \<Longrightarrow> length s + 2 \<le> n"
  by (auto simp: key_to_s_def str_bind_Inr Let_def split: vdata.splits option.splits)

lemma key_to_s_error: "key_to_s insp h k = Inl e \<Longrightarrow> e = Null_pointer \<or> insp k = Inl e"
  using map_strs_error [of insp "[k]" e]
  by (auto simp: key_to_s_def str_bind_Inl Let_def split: vdata.splits option.splits)

lemma pairs_to_s_size:
  "pairs_to_s insp h ks vs = Inr (ss, n) \<Longrightarrow> sum_list (map (\<lambda>s. length s + 2) ss) \<le> n"
proof (induction insp h ks vs arbitrary: ss n rule: pairs_to_s.induct)
  case (1 insp h k ks v vs)
  then show ?case by (fastforce simp: str_bind_Inr dest: key_to_s_size)
qed simp_all

lemma pairs_to_s_error:
  "pairs_to_s insp h ks vs = Inl e \<Longrightarrow> e = Null_pointer \<or> (\<exists>x \<in> set ks \<union> set vs. insp x = Inl e)"
proof (induction insp h ks vs rule: pairs_to_s.induct)
  case (1 insp h k ks v vs)
  from 1(2) consider "key_to_s insp h k = Inl e" | "map_strs insp [v] = Inl e"
    | "pairs_to_s insp h ks vs = Inl e" by (auto simp: str_bind_Inl)
  then show ?case
  proof cases
    case 1
    then show ?thesis using key_to_s_error by auto
  next
    case 2
    then show ?thesis using map_strs_error [of insp "[v]"] by auto
  next
    case 3
    then show ?thesis using "1.IH" by auto
  qed
qed simp_all

lemma hash_fits:
  "hash_to_s insp h r = Inl e \<Longrightarrow>
     e = Null_pointer \<or> (\<exists>x \<in> set (rh_keys r) \<union> set (rh_vals r). insp x = Inl e)"
proof -
  assume "hash_to_s insp h r = Inl e"
  then consider "pairs_to_s insp h (rh_keys r) (rh_vals r) = Inl e"
    | ss n where "pairs_to_s insp h (rh_keys r) (rh_vals r) = Inr (ss, n)"
        "3 + n \<le> length (join_comma ss) + 2"
    by (auto simp: hash_to_s_def str_bind_Inl fill_buf_Inl)
  then show ?thesis
  proof cases
    case 1
    then show ?thesis by (rule pairs_to_s_error)
  next
    case 2
    then show ?thesis using pairs_to_s_size [OF 2(1)] length_join [of ss] by simp
  qed
qed

lemma range_fits:
  "range_to_s insp r = Inl e \<Longrightarrow> e = Null_pointer \<or> insp (rr_begin r) = Inl e \<or> insp (rr_end r) = Inl e"
  using map_strs_error [of insp "[rr_begin r, rr_end r]" e]
  by (auto simp: range_to_s_def str_bind_Inl fill_buf_Inl Let_def)

lemma to_s_error:
  "to_s_step addr insp h v = Inl e \<Longrightarrow> e = Null_pointer \<or> (\<exists>x \<in> set (parts h v). insp x = Inl e)"
  using array_fits hash_fits range_fits
  by (cases "v_data v")
    (fastforce simp: to_s_step_def parts_def object_to_s_def split: option.splits vdata.splits)+

lemma inspect_error:
  "inspect_step to_s h v = Inl e \<Longrightarrow> e = Null_pointer \<or> to_s v = Inl e"
  using inspect_string_fits
  by (cases "v_data v") (auto simp: inspect_step_def str_bind_Inl split: option.splits)

lemma val_inspect_error:
  "val_inspect addr (Suc n) h v = Inl e \<Longrightarrow>
     e = Null_pointer \<or> (\<exists>x \<in> set (parts h v). val_inspect addr n h x = Inl e)"
  unfolding val_inspect.simps using inspect_error to_s_error by blast

lemma val_inspect_fits: "val_inspect addr n h v \<noteq> Inl Overflow"
proof (induction n arbitrary: v)
  case (Suc n)
  then show ?case using val_inspect_error by blast
qed simp

lemma val_inspect_ends:
  "ranked h rank \<Longrightarrow> in_heap h v \<Longrightarrow> rank v < n \<Longrightarrow> val_inspect addr n h v \<noteq> Inl Endless"
proof (induction n arbitrary: v)
  case (Suc n)
  have "val_inspect addr n h x \<noteq> Inl Endless" if "x \<in> set (parts h v)" for x
    using Suc that unfolding ranked_def by (meson less_Suc_eq_le less_le_trans)
  then show ?case using val_inspect_error by blast
qed simp

subsection \<open>The order of the entries\<close>

lemma zip_remove_at:
  "length xs = length ys \<Longrightarrow> zip (remove_at i xs) (remove_at i ys) = remove_at i (zip xs ys)"
  by (simp add: remove_at_def take_zip drop_zip)

lemma filter_remove_at:
  assumes "i < length xs" "\<And>j. j < length xs \<Longrightarrow> P (xs ! j) \<longleftrightarrow> j = i"
  shows "filter (\<lambda>x. \<not> P x) xs = remove_at i xs"
proof -
  have "filter (\<lambda>x. \<not> P x) (take i xs) = take i xs" "filter (\<lambda>x. \<not> P x) (drop (Suc i) xs) = drop (Suc i) xs"
    using assms by (auto simp: in_set_conv_nth intro!: filter_True)
  then show ?thesis
    using assms by (subst id_take_nth_drop [OF assms(1)]) (simp add: remove_at_def)
qed

definition entries :: "ruby_hash \<Rightarrow> (rvalue \<times> rvalue) list" where
  "entries r = zip (rh_keys r) (rh_vals r)"

text \<open>At most one key of a table is equal to a given one.\<close>

lemma hash_key_unique:
  assumes "hash_ok h r" "simple_key key" "i < length (rh_keys r)" "key_eq h (rh_keys r ! i) key"
    "j < length (rh_keys r)"
  shows "key_eq h (rh_keys r ! j) key \<longleftrightarrow> j = i"
proof
  assume "key_eq h (rh_keys r ! j) key"
  moreover have s: "simple_key (rh_keys r ! i)" "simple_key (rh_keys r ! j)"
    using assms by (simp_all add: hash_ok_def)
  ultimately have "key_eq h (rh_keys r ! j) (rh_keys r ! i)" "key_eq h (rh_keys r ! i) (rh_keys r ! j)"
    using assms(2,4) key_eq_sym key_eq_trans by blast+
  then show "j = i" using assms unfolding hash_ok_def by (metis linorder_neqE_nat)
qed (use assms in simp)

lemma put_entries:
  assumes "hash_ok h r" "simple_key key"
  shows "entries (put_entry h key val r) =
    map (\<lambda>(k, v). (k, if key_eq h k key then val else v)) (entries r) @
    (if lookup h r key = None then [(key, val)] else [])"
proof (cases "index_of (\<lambda>k. key_eq h k key) (rh_keys r)")
  case None
  then have "map (\<lambda>(k, v). (k, if key_eq h k key then val else v)) (entries r) = entries r"
    by (auto simp: entries_def index_of_None intro!: map_idI dest: set_zip_leftD)
  then show ?thesis
    using None assms by (simp add: put_entry_def lookup_def hash_append_def entries_def hash_ok_def hash_shape_def)
next
  case (Some i)
  have i: "i < length (rh_keys r)" "key_eq h (rh_keys r ! i) key" using index_of_Some [OF Some] by simp_all
  have "zip (rh_keys r) ((rh_vals r)[i := val]) =
      map (\<lambda>(k, v). (k, if key_eq h k key then val else v)) (zip (rh_keys r) (rh_vals r))"
    using assms hash_key_unique [OF assms i]
    by (intro nth_equalityI) (auto simp: nth_list_update hash_ok_def hash_shape_def)
  then show ?thesis using Some by (simp add: put_entry_def lookup_def entries_def)
qed

lemma del_entries:
  assumes "hash_ok h r" "simple_key key"
  shows "entries (del_entry h key r) = filter (\<lambda>(k, v). \<not> key_eq h k key) (entries r)"
proof (cases "index_of (\<lambda>k. key_eq h k key) (rh_keys r)")
  case None
  then have "filter (\<lambda>(k, v). \<not> key_eq h k key) (entries r) = entries r"
    by (auto simp: entries_def index_of_None intro!: filter_True dest: set_zip_leftD)
  then show ?thesis using None by (simp add: del_entry_def entries_def)
next
  case (Some i)
  have i: "i < length (rh_keys r)" "key_eq h (rh_keys r ! i) key" using index_of_Some [OF Some] by simp_all
  have len: "length (rh_keys r) = length (rh_vals r)" using assms by (simp add: hash_ok_def hash_shape_def)
  have "filter (\<lambda>x. \<not> key_eq h (fst x) key) (entries r) = remove_at i (entries r)"
    using i len hash_key_unique [OF assms i] by (intro filter_remove_at) (simp_all add: entries_def)
  then show ?thesis
    using Some len by (simp add: del_entry_def entries_def zip_remove_at case_prod_unfold)
qed

lemma all_pairs_True:
  "length xs = length ys \<Longrightarrow> (\<And>i. i < length xs \<Longrightarrow> f (xs ! i) (ys ! i) = Some True) \<Longrightarrow>
   all_pairs f xs ys = Some True"
proof (induction xs ys rule: list_induct2)
  case (Cons x xs y ys)
  have "f x y = Some True" using Cons.prems [of 0] by simp
  moreover have "all_pairs f xs ys = Some True"
    using Cons.prems [of "Suc _"] by (intro Cons.IH) simp_all
  ultimately show ?case by (simp add: and_then_def)
qed simp

lemma find_key_absent: "\<forall>k \<in> set ks. eq k = Some False \<Longrightarrow> find_key eq ks = Some None"
  by (induction ks) simp_all

lemma hash_get_at:
  assumes "hash_ok h r" "simple_key key" "i < length (rh_keys r)" "key_eq h (rh_keys r ! i) key"
  shows "hash_get (val_equal (Suc n) h) r key = Some (Some (rh_vals r ! i))"
proof -
  have "\<exists>j. index_of (\<lambda>k. key_eq h k key) (rh_keys r) = Some j"
    using assms(3,4) index_of_None [of "\<lambda>k. key_eq h k key" "rh_keys r"] nth_mem by (metis not_None_eq)
  then obtain j where j: "index_of (\<lambda>k. key_eq h k key) (rh_keys r) = Some j" by blast
  have "j = i" using index_of_Some [OF j] hash_key_unique [OF assms] by blast
  then show ?thesis using j assms(1,2) by (simp add: hash_get_def hash_find_ok del: val_equal.simps)
qed

subsection \<open>Cycles\<close>

lemma str_bind_Inr_part: "str_bind m f = Inr y \<Longrightarrow> \<exists>x. m = Inr x"
  by (simp add: str_bind_Inr) blast

lemma map_strs_all: "map_strs f xs = Inr ss \<Longrightarrow> x \<in> set xs \<Longrightarrow> \<exists>s. f x = Inr s"
  by (induction xs arbitrary: ss) (auto simp: str_bind_Inr split: option.splits)

lemma key_to_s_all:
  "key_to_s f h k = Inr r \<Longrightarrow> parts h k \<noteq> [] \<Longrightarrow> \<exists>s. f k = Inr s"
  by (auto simp: key_to_s_def parts_def str_bind_Inr dest: map_strs_all split: vdata.splits option.splits)

lemma pairs_to_s_all:
  "pairs_to_s f h ks vs = Inr r \<Longrightarrow> length ks = length vs \<Longrightarrow> x \<in> set (ks @ vs) \<Longrightarrow> parts h x \<noteq> [] \<Longrightarrow>
     \<exists>s. f x = Inr s"
  by (induction f h ks vs arbitrary: r rule: pairs_to_s.induct)
    (auto simp: str_bind_Inr dest: map_strs_all key_to_s_all)

lemma to_s_all:
  assumes "to_s_step addr f h v = Inr r" "x \<in> set (parts h v)" "parts h x \<noteq> []" "in_heap h v" "heap_shape h"
  shows "\<exists>s. f x = Inr s"
  using assms
  by (auto simp: to_s_step_def parts_def in_heap_def heap_shape_def hash_shape_def array_to_s_def hash_to_s_def
      range_to_s_def str_bind_Inr
      dest: map_strs_all pairs_to_s_all split: vdata.splits option.splits)

lemma all_pairs_diverge:
  assumes "length xs = length ys" "i < length xs" "eq (xs ! i) (ys ! i) = None"
    "\<And>j. j < i \<Longrightarrow> eq (xs ! j) (ys ! j) \<noteq> Some False"
  shows "all_pairs eq xs ys = None"
  using assms
proof (induction xs ys arbitrary: i rule: list_induct2)
  case (Cons x xs y ys)
  show ?case
  proof (cases i)
    case 0
    then show ?thesis using Cons.prems by (simp add: and_then_def)
  next
    case (Suc k)
    have before: "eq (xs ! j) (ys ! j) \<noteq> Some False" if "j < k" for j
      using Cons.prems(3) [of "Suc j"] Suc that by simp
    have "all_pairs eq xs ys = None"
      using Cons.prems(1,2) Suc before by (intro Cons.IH [of k]) simp_all
    then show ?thesis using Cons.prems(3) [of 0] Suc by (auto simp: and_then_def split: option.split bool.split)
  qed
qed simp

text \<open>The elements that \<open>val_equal\<close> compares for two different arrays.\<close>

definition array_pair :: "heap \<Rightarrow> rvalue \<Rightarrow> rvalue \<Rightarrow> (rvalue list \<times> rvalue list) option" where
  "array_pair h a b =
     (case (v_data a, v_data b) of
        (VAL_ARRAY (Some p), VAL_ARRAY (Some q)) \<Rightarrow>
          if p = q then None else Some (ra_elems (h_arrays h ! p), ra_elems (h_arrays h ! q))
      | _ \<Rightarrow> None)"

end
