(* ===== verification/ValueNum.thy ===== *)
theory ValueNum
  imports Value
begin

section \<open>Integers converted to doubles\<close>

text \<open>Comparing an integer with a float converts the integer (\<open>value.h\<close>, \<open>val_equal\<close>). The conversion rounds
  once; here it is shown to be exact, and so injective, up to the magnitude \<open>2 ^ 53\<close>.\<close>

lemma bit_length_bounds: "0 < n \<Longrightarrow> 2 ^ (bit_length n - 1) \<le> n \<and> n < 2 ^ bit_length n \<and> 0 < bit_length n"
proof (induction n rule: bit_length.induct)
  case (1 n)
  show ?case
  proof (cases "n = 1")
    case True
    then show ?thesis by (simp add: bit_length.simps)
  next
    case False
    then have "0 < n div 2" using 1(2) by auto
    then have IH: "2 ^ (bit_length (n div 2) - 1) \<le> n div 2" "n div 2 < 2 ^ bit_length (n div 2)"
        "0 < bit_length (n div 2)"
      using 1 by simp_all
    have step: "bit_length n = Suc (bit_length (n div 2))" using 1(2) by (subst bit_length.simps) simp
    obtain k where k: "bit_length (n div 2) = Suc k" using IH(3) gr0_implies_Suc by blast
    show ?thesis using IH(1,2) by (simp add: step k) linarith
  qed
qed

text \<open>A positive integer up to \<open>2 ^ 53\<close> is a double: its exponent and its digits are the bits.\<close>

lemma ratio_bits_exact:
  assumes "0 < n" "n \<le> 2 ^ 53"
  shows "\<exists>e q. ratio_bits n 1 = (e + 1022) * 2 ^ 52 + q \<and> 2 ^ 52 \<le> q \<and> q < 2 ^ 53 \<and> n * 2 ^ 52 = q * 2 ^ e \<and> e \<le> 53"
proof -
  define e where "e = bit_length n - 1"
  have b: "2 ^ e \<le> n" "n < 2 ^ Suc e" "bit_length n = Suc e"
    using bit_length_bounds [OF assms(1)] by (simp_all add: e_def)
  have "(2::nat) ^ e \<le> 2 ^ 53" using b(1) assms(2) by linarith
  then have e53: "e \<le> 53" by (subst (asm) power_increasing_iff) simp_all
  have one: "bit_length (Suc 0) = 1" by (simp add: bit_length.simps)
  have ex: "ratio_exponent n (Suc 0) = int e" using b by (simp add: ratio_exponent_def one)
  define q where "q = (if e \<le> 52 then n * 2 ^ (52 - e) else n div 2)"
  have q: "2 ^ 52 \<le> q \<and> q < 2 ^ 53 \<and> n * 2 ^ 52 = q * 2 ^ e"
  proof (cases "e \<le> 52")
    case True
    have p: "(2::nat) ^ e * 2 ^ (52 - e) = 2 ^ 52" using True by (simp flip: power_add)
    then have "(2::nat) ^ Suc e * 2 ^ (52 - e) = 2 ^ 53" by simp
    then show ?thesis
      using True b p mult_le_mono1 [OF b(1), of "2 ^ (52 - e)"] mult_less_mono1 [OF b(2), of "2 ^ (52 - e)"]
      by (simp add: q_def mult.assoc mult.commute [of "2 ^ (52 - e)"])
  next
    case False
    then have e: "e = 53" using e53 by simp
    then have "n = 2 ^ 53" using b(1) assms(2) by simp
    then show ?thesis using e by (simp add: q_def)
  qed
  have "ratio_bits n 1 = (e + 1022) * 2 ^ 52 + q"
  proof (cases "e \<le> 52")
    case True
    then have "nat (52 - int e) = 52 - e" "0 \<le> 52 - int e" "nat (int e + 1022) = e + 1022" by simp_all
    then show ?thesis
      using True q assms(1) by (simp add: ratio_bits_def ex round_half_even_def q_def dbl_infinity_def)
  next
    case False
    then have e: "e = 53" using e53 by simp
    then have n: "n = 2 ^ 53" using b(1) assms(2) by simp
    have "ratio_exponent 9007199254740992 (Suc 0) = 53" using ex n e by simp
    then show ?thesis by (simp add: e n ratio_bits_def round_half_even_def q_def dbl_infinity_def)
  qed
  then show ?thesis using q e53 by blast
qed

lemma ratio_bits_inj:
  assumes "m \<le> 2 ^ 53" "n \<le> 2 ^ 53" "ratio_bits m 1 = ratio_bits n 1"
  shows "m = n"
proof (cases "m = 0 \<or> n = 0")
  case True
  have "ratio_bits k 1 \<noteq> 0" if "0 < k" "k \<le> 2 ^ 53" for k
    using ratio_bits_exact [OF that] by auto
  then show ?thesis using True assms by (metis gr0I ratio_bits_def)
next
  case False
  then obtain e q f r where
      m: "ratio_bits m 1 = (e + 1022) * 2 ^ 52 + q" "2 ^ 52 \<le> q" "q < 2 ^ 53" "m * 2 ^ 52 = q * 2 ^ e"
    and n: "ratio_bits n 1 = (f + 1022) * 2 ^ 52 + r" "2 ^ 52 \<le> r" "r < 2 ^ 53" "n * 2 ^ 52 = r * 2 ^ f"
    using ratio_bits_exact [of m] ratio_bits_exact [of n] assms by auto
  have eq: "(e + 1022) * 2 ^ 52 + q = (f + 1022) * 2 ^ 52 + r" using m(1) n(1) assms(3) by simp
  have "e = f" using eq m(2,3) n(2,3) by simp
  then show ?thesis using eq m(4) n(4) by simp
qed

lemma ratio_bits_small: "n \<le> 2 ^ 53 \<Longrightarrow> ratio_bits n 1 < dbl_infinity"
  using ratio_bits_exact [of n] by (cases "n = 0") (auto simp: ratio_bits_def dbl_infinity_def)

lemma unat_dbl_of_int64:
  assumes "\<bar>sint i\<bar> \<le> 2 ^ 53"
  shows "unat (dbl_of_int64 i) = (if sint i < 0 then 2 ^ 63 else 0) + ratio_bits (nat \<bar>sint i\<bar>) 1"
proof -
  define r where "r = ratio_bits (nat \<bar>sint i\<bar>) 1"
  have "r < 2 ^ 63"
    using ratio_bits_small [of "nat \<bar>sint i\<bar>"] assms by (simp add: r_def nat_le_iff dbl_infinity_def)
  then have "(if sint i < 0 then 2 ^ 63 else 0) + r < 2 ^ LENGTH(64)" by simp
  then show ?thesis unfolding dbl_of_int64_def dbl_of_ratio_def r_def [symmetric] unsigned_of_nat of_nat_id
    by (rule take_bit_nat_eq_self)
qed

lemma mod_sign_bit: "r < 2 ^ 63 \<Longrightarrow> ((if c then 2 ^ 63 else 0) + r) mod 2 ^ 63 = (r :: nat)"
  by simp

text \<open>Integers of magnitude up to \<open>2 ^ 53\<close> are equal when they are equal to the same double.\<close>

lemma dbl_of_int64_inj:
  assumes "\<bar>sint i\<bar> \<le> 2 ^ 53" "\<bar>sint j\<bar> \<le> 2 ^ 53" "dbl_eq (dbl_of_int64 i) f" "dbl_eq f (dbl_of_int64 j)"
  shows "i = j"
proof -
  let ?m = "nat \<bar>sint i\<bar>" and ?n = "nat \<bar>sint j\<bar>"
  let ?s = "\<lambda>k :: i64. if sint k < 0 then 2 ^ 63 else 0 :: nat"
  have mn: "?m \<le> 2 ^ 53" "?n \<le> 2 ^ 53" using assms(1,2) by (simp_all add: nat_le_iff)
  have lt: "ratio_bits ?m 1 < 2 ^ 63" "ratio_bits ?n 1 < 2 ^ 63"
    using ratio_bits_small [OF mn(1)] ratio_bits_small [OF mn(2)] by (simp_all add: dbl_infinity_def)
  have mag: "unat (dbl_of_int64 i) mod 2 ^ 63 = ratio_bits ?m 1" "unat (dbl_of_int64 j) mod 2 ^ 63 = ratio_bits ?n 1"
    unfolding unat_dbl_of_int64 [OF assms(1)] unat_dbl_of_int64 [OF assms(2)]
    by (rule mod_sign_bit, fact lt)+
  have same: "dbl_of_int64 i = dbl_of_int64 j \<or> ratio_bits ?m 1 = 0 \<and> ratio_bits ?n 1 = 0"
    using assms(3,4) mag unfolding dbl_eq_def by auto
  then have "ratio_bits ?m 1 = ratio_bits ?n 1" using mag by auto
  then have abs: "?m = ?n" using ratio_bits_inj mn by blast
  have "sint i = sint j"
  proof (cases "?n = 0")
    case True
    then show ?thesis using abs by simp
  next
    case False
    then have "ratio_bits ?n 1 \<noteq> 0" using ratio_bits_exact [OF _ mn(2)] by auto
    then have "?s i = ?s j"
      using same unat_dbl_of_int64 [OF assms(1)] unat_dbl_of_int64 [OF assms(2)] abs by simp
    then show ?thesis using abs by (auto split: if_splits)
  qed
  then show ?thesis by (rule signed_word_eqI)
qed

end
