(* ===== verification/ValueThms.thy ===== *)
theory ValueThms
  imports ValueProps ValueNum
begin

section \<open>The properties of values\<close>

text \<open>A heap with the arrays \<open>["x", [1]]\<close> and \<open>[1]\<close>, a hash \<open>{"x" => 1}\<close> and a copy of it that
  compares keys by identity.\<close>

definition str_at :: "ptr \<Rightarrow> rvalue" where
  "str_at p = (mk_val (VAL_STRING (Some p)))\<lparr>v_byte_len := 1\<rparr>"

definition array_at :: "ptr \<Rightarrow> rvalue" where
  "array_at p = mk_val (VAL_ARRAY (Some p))"

definition array_of :: "rvalue list \<Rightarrow> ruby_array" where
  "array_of xs = \<lparr>ra_elems = xs, ra_cap = 8, ra_singleton_env = None, ra_frozen = 0\<rparr>"

definition hash_of :: "bool \<Rightarrow> rvalue list \<Rightarrow> rvalue list \<Rightarrow> ruby_hash" where
  "hash_of ident ks vs =
     \<lparr>rh_keys = ks, rh_vals = vs, rh_cap = 8, rh_singleton_env = None, rh_default_value = val_nil,
      rh_default_proc = val_nil, rh_by_identity = ident, rh_frozen = 0\<rparr>"

definition sample_heap :: heap where
  "sample_heap = heap_empty\<lparr>h_strs := [''x'', ''x'', ''y'', ''z''],
     h_arrays := [array_of [str_at 0, array_at 1], array_of [val_int 1]],
     h_hashes := [hash_of False [str_at 0] [val_int 1], hash_of True [str_at 1] [val_int 1],
       hash_of False [str_at 0, str_at 2, str_at 3] [val_int 1, val_int 2, val_int 3]]\<rparr>"

definition sample_rank :: "rvalue \<Rightarrow> nat" where
  "sample_rank v =
     (case v_data v of
        VAL_ARRAY (Some 0) \<Rightarrow> 2 | VAL_ARRAY (Some _) \<Rightarrow> 1 | VAL_HASH _ \<Rightarrow> 1 | VAL_RANGE _ \<Rightarrow> 1 | _ \<Rightarrow> 0)"

lemma sample_ranked: "ranked sample_heap sample_rank"
  unfolding ranked_def
proof (intro allI impI)
  fix v assume "in_heap sample_heap v"
  then show "\<forall>x \<in> set (parts sample_heap v). in_heap sample_heap x \<and> sample_rank x < sample_rank v"
    by (cases "v_data v")
      (auto simp: in_heap_def parts_def sample_heap_def heap_empty_def array_of_def hash_of_def
        sample_rank_def str_at_def array_at_def val_int_def mk_val_def less_Suc_eq
        split: option.splits nat.splits)
qed

lemma sample_shape: "heap_shape sample_heap"
  by (simp add: heap_shape_def sample_heap_def heap_empty_def hash_of_def hash_shape_def)

text \<open>C34: in a heap without cycles, the comparison of two values ends, and more fuel does not change its
  result.\<close>

theorem val_equal_ends:
  assumes "ranked h rank" "heap_shape h" "in_heap h a" "in_heap h b" "rank a < n" "rank b < n"
  shows "\<exists>r. \<forall>m \<ge> n. val_equal m h a b = Some r"
proof -
  obtain r where "val_equal n h a b = Some r" using val_equal_answer [OF assms] by auto
  then show ?thesis using val_equal_mono by (meson answersD)
qed

theorem val_equal_ends_witness:
  "\<exists>r. \<forall>m \<ge> 3. val_equal m sample_heap (array_at 0) (array_at 1) = Some r"
  by (rule val_equal_ends [OF sample_ranked sample_shape])
    (simp_all add: in_heap_def array_at_def mk_val_def sample_heap_def heap_empty_def sample_rank_def)

lemma same_strs: "h_strs h' = h_strs h \<Longrightarrow> hash_ok h r \<Longrightarrow> hash_ok h' r"
  unfolding hash_ok_def using key_eq_heap [of _ _ h' h] by (meson nth_mem less_trans)

lemma same_lookup: "h_strs h' = h_strs h \<Longrightarrow> hash_ok h r \<Longrightarrow> simple_key l \<Longrightarrow> lookup h' r l = lookup h r l"
  unfolding lookup_def
  by (intro arg_cong [where f = "map_option _"] index_of_cong key_eq_heap) (auto simp: hash_ok_def)

lemma set_hash_simps:
  "h_strs (set_hash p r h) = h_strs h"
  "p < length (h_hashes h) \<Longrightarrow> h_hashes (set_hash p r h) ! p = r"
  by (simp_all add: set_hash_def)

text \<open>C33: a hash is an insertion-ordered table: on keys whose equality is an equivalence, setting a key
  changes the lookup of the equal keys only: the entries stay in their order, with the value of the
  equal key replaced, and an absent key is added at the end. Deleting a key reports whether it was
  there and leaves the other entries, in their order.\<close>

theorem val_hash_ops:
  assumes "p < length (h_hashes h)" "hash_ok h (h_hashes h ! p)" "simple_key key"
  shows "\<exists>h1 found h2.
    val_hash_set (Suc n) p key val h = Some h1 \<and> hash_ok h1 (h_hashes h1 ! p) \<and>
    rh_keys (h_hashes h1 ! p) = rh_keys (h_hashes h ! p) @ (if found then [] else [key]) \<and>
    entries (h_hashes h1 ! p) =
      map (\<lambda>(k, v). (k, if key_eq h k key then val else v)) (entries (h_hashes h ! p)) @
      (if found then [] else [(key, val)]) \<and>
    (\<forall>l. simple_key l \<longrightarrow> val_hash_get (Suc n) h1 p l =
       (if key_eq h key l then Some (Some val) else val_hash_get (Suc n) h p l)) \<and>
    val_hash_delete (Suc n) p key h = Some (found, h2) \<and> hash_ok h2 (h_hashes h2 ! p) \<and>
    entries (h_hashes h2 ! p) = filter (\<lambda>(k, v). \<not> key_eq h k key) (entries (h_hashes h ! p)) \<and>
    found = (val_hash_get (Suc n) h p key \<noteq> Some None) \<and>
    (\<forall>l. simple_key l \<longrightarrow> val_hash_get (Suc n) h2 p l =
       (if key_eq h key l then Some None else val_hash_get (Suc n) h p l))"
proof -
  let ?r = "h_hashes h ! p"
  define r1 where "r1 = put_entry h key val ?r"
  define r2 where "r2 = del_entry h key ?r"
  have ok: "hash_ok h r1" "hash_ok h r2"
    using hash_table.ok_put hash_table.ok_del assms by (simp_all add: r1_def r2_def)
  have get: "val_hash_get (Suc n) (set_hash p r h) p l = Some (lookup h r l)"
    if "hash_ok h r" "simple_key l" for r l
    using that assms(1) same_strs [OF _ that(1), of "set_hash p r h"]
      same_lookup [OF _ that, of "set_hash p r h"]
    by (simp add: val_hash_get_def set_hash_simps hash_get_ok del: val_equal.simps)
  have get0: "val_hash_get (Suc n) h p l = Some (lookup h ?r l)" if "simple_key l" for l
    using that assms(2) by (simp add: val_hash_get_def hash_get_ok del: val_equal.simps)
  define found where "found = (lookup h ?r key \<noteq> None)"
  have keys: "rh_keys r1 = rh_keys ?r @ (if found then [] else [key])"
    by (auto simp: r1_def put_entry_def found_def lookup_def hash_append_def split: option.split)
  have ops: "val_hash_set (Suc n) p key val h = Some (set_hash p r1 h)"
    "val_hash_delete (Suc n) p key h = Some (found, set_hash p r2 h)"
    using assms
    by (simp_all add: val_hash_set_def val_hash_delete_def hash_put_ok hash_del_ok r1_def r2_def
        found_def del: val_equal.simps)
  show ?thesis
  proof (intro exI conjI)
    show "hash_ok (set_hash p r1 h) (h_hashes (set_hash p r1 h) ! p)"
      "hash_ok (set_hash p r2 h) (h_hashes (set_hash p r2 h) ! p)"
      using ok same_strs assms(1) by (simp_all add: set_hash_simps)
    show "found = (val_hash_get (Suc n) h p key \<noteq> Some None)"
      using get0 [OF assms(3)] by (simp add: found_def)
    show "\<forall>l. simple_key l \<longrightarrow> val_hash_get (Suc n) (set_hash p r1 h) p l =
       (if key_eq h key l then Some (Some val) else val_hash_get (Suc n) h p l)"
      using get [OF ok(1)] get0 hash_table.get_put [OF assms(2,3)] by (simp add: r1_def)
    show "\<forall>l. simple_key l \<longrightarrow> val_hash_get (Suc n) (set_hash p r2 h) p l =
       (if key_eq h key l then Some None else val_hash_get (Suc n) h p l)"
      using get [OF ok(2)] get0 hash_table.get_del [OF assms(2,3)] by (simp add: r2_def)
    show "entries (h_hashes (set_hash p r1 h) ! p) =
        map (\<lambda>(k, v). (k, if key_eq h k key then val else v)) (entries ?r) @
        (if found then [] else [(key, val)])"
      using put_entries [OF assms(2,3), of val] assms(1)
      by (simp add: set_hash_simps r1_def found_def)
    show "entries (h_hashes (set_hash p r2 h) ! p) =
        filter (\<lambda>(k, v). \<not> key_eq h k key) (entries ?r)"
      using del_entries [OF assms(2,3)] assms(1) by (simp add: set_hash_simps r2_def)
    show "rh_keys (h_hashes (set_hash p r1 h) ! p) =
        rh_keys ?r @ (if found then [] else [key])"
      using keys assms(1) by (simp add: set_hash_simps)
  qed (use ops in simp_all)
qed

theorem val_hash_ops_witness:
  "(case val_hash_set 1 0 (str_at 2) val_true sample_heap of
     None \<Rightarrow> False
   | Some h \<Rightarrow> val_hash_get 1 h 0 (str_at 2) = Some (Some val_true) \<and>
       entries (h_hashes h ! 0) = [(str_at 0, val_int 1), (str_at 2, val_true)]) \<and>
   (case val_hash_delete 1 2 (str_at 0) sample_heap of
     None \<Rightarrow> False
   | Some (found, h) \<Rightarrow> found \<and>
       entries (h_hashes h ! 2) = [(str_at 2, val_int 2), (str_at 3, val_int 3)])"
proof
  have ok: "0 < length (h_hashes sample_heap)" "hash_ok sample_heap (h_hashes sample_heap ! 0)"
    "simple_key (str_at 2)" "h_hashes sample_heap ! 0 = hash_of False [str_at 0] [val_int 1]"
    by (simp_all add: sample_heap_def heap_empty_def hash_ok_def hash_shape_def hash_of_def
        simple_key_def str_at_def mk_val_def)
  have absent: "val_hash_get 1 sample_heap 0 (str_at 2) = Some None" by code_simp
  have refl: "key_eq sample_heap (str_at 2) (str_at 2)" by (rule key_eq_refl [OF ok(3)])
  have other: "\<not> key_eq sample_heap (str_at 0) (str_at 2)" by code_simp
  show "case val_hash_set 1 0 (str_at 2) val_true sample_heap of
     None \<Rightarrow> False
   | Some h \<Rightarrow> val_hash_get 1 h 0 (str_at 2) = Some (Some val_true) \<and>
       entries (h_hashes h ! 0) = [(str_at 0, val_int 1), (str_at 2, val_true)]"
    using val_hash_ops [OF ok(1-3), of 0 val_true] absent refl other ok(3,4)
    by (auto simp: hash_of_def entries_def)
next
  have ok: "2 < length (h_hashes sample_heap)" "hash_ok sample_heap (h_hashes sample_heap ! 2)"
    "simple_key (str_at 0)"
    "entries (h_hashes sample_heap ! 2) = [(str_at 0, val_int 1), (str_at 2, val_int 2), (str_at 3, val_int 3)]"
    by (simp_all add: sample_heap_def heap_empty_def hash_ok_def hash_shape_def hash_of_def entries_def
        simple_key_def str_at_def mk_val_def All_less_Suc key_eq_def val_equal_step_def str_equal_def)
  have "val_hash_get 1 sample_heap 2 (str_at 0) = Some (Some (val_int 1))"
    "key_eq sample_heap (str_at 0) (str_at 0)" "\<not> key_eq sample_heap (str_at 2) (str_at 0)"
    "\<not> key_eq sample_heap (str_at 3) (str_at 0)" by code_simp+
  then show "case val_hash_delete 1 2 (str_at 0) sample_heap of
     None \<Rightarrow> False
   | Some (found, h) \<Rightarrow> found \<and>
       entries (h_hashes h ! 2) = [(str_at 2, val_int 2), (str_at 3, val_int 3)]"
    using val_hash_ops [OF ok(1-3), of 0 val_true] ok(4) by auto
qed

text \<open>C35: printing a value never writes past the buffer allocated for it, whatever the value: the totals
  computed first are large enough.\<close>

theorem val_inspect_in_bounds:
  "val_inspect addr n h v \<noteq> Inl Overflow \<and> val_to_s addr n h v \<noteq> Inl Overflow"
  using val_inspect_fits to_s_error [of addr "val_inspect addr n h" h v]
  unfolding val_to_s_def by blast

text \<open>C36: in a heap without cycles, printing a value ends.\<close>

theorem val_inspect_returns:
  assumes "ranked h rank" "in_heap h v" "rank v < n"
  shows "val_inspect addr n h v \<noteq> Inl Endless \<and> val_to_s addr n h v \<noteq> Inl Endless"
proof -
  have "val_inspect addr n h x \<noteq> Inl Endless" if "x \<in> set (parts h v)" for x
    using val_inspect_ends [OF assms(1)] assms that unfolding ranked_def
    by (meson less_trans)
  then show ?thesis
    using val_inspect_ends [OF assms] to_s_error [of addr "val_inspect addr n h" h v]
    unfolding val_to_s_def by blast
qed

theorem val_inspect_returns_witness:
  "val_inspect (\<lambda>_. 0) 3 sample_heap (array_at 0) \<noteq> Inl Endless \<and>
   val_to_s (\<lambda>_. 0) 3 sample_heap (array_at 0) \<noteq> Inl Endless"
  by (rule val_inspect_returns [OF sample_ranked])
    (simp_all add: in_heap_def array_at_def mk_val_def sample_heap_def heap_empty_def sample_rank_def)

lemma array_push_simps:
  "ra_elems (array_push x a) = ra_elems a @ [x]"
  "ra_cap (array_push x a) = grow_cap (length (ra_elems a)) (ra_cap a)"
  by (simp_all add: array_push_def)

text \<open>C37: pushing values onto an array appends them in order and keeps its length within its capacity,
  which is zero or eight times a power of two.\<close>

theorem array_push_grows:
  assumes "length (ra_elems a) \<le> ra_cap a" "ra_cap a = 0 \<or> (\<exists>k. ra_cap a = 8 * 2 ^ k)"
  shows "ra_elems (fold array_push xs a) = ra_elems a @ xs \<and>
    length (ra_elems (fold array_push xs a)) \<le> ra_cap (fold array_push xs a) \<and>
    (ra_cap (fold array_push xs a) = 0 \<or> (\<exists>k. ra_cap (fold array_push xs a) = 8 * 2 ^ k))"
  using assms
proof (induction xs arbitrary: a)
  case (Cons x xs)
  have pow: "\<exists>k. grow_cap (length (ra_elems a)) (ra_cap a) = 8 * 2 ^ k"
    using Cons.prems
    by (auto simp: grow_cap_def intro: exI [of _ 0] exI [of _ "Suc _"])
  have "length (ra_elems (array_push x a)) \<le> ra_cap (array_push x a)"
    using grow_cap_le [OF Cons.prems(1)] by (simp add: array_push_simps)
  then show ?case using Cons.IH [of "array_push x a"] pow by (auto simp: array_push_simps)
qed simp

theorem array_push_grows_witness:
  "ra_elems (fold array_push [val_nil, val_true] (array_of [])) = [val_nil, val_true] \<and>
   length (ra_elems (fold array_push [val_nil, val_true] (array_of []))) \<le>
     ra_cap (fold array_push [val_nil, val_true] (array_of []))"
  using array_push_grows [of "array_of []" "[val_nil, val_true]"] by (auto simp: array_of_def)

text \<open>Values on cycles: the arrays \<open>[1, itself]\<close> and \<open>[1, itself]\<close>, and an array that holds a hash that holds
  the array.\<close>

definition cyclic_heap :: heap where
  "cyclic_heap = heap_empty\<lparr>h_strs := [''x''],
     h_arrays := [array_of [val_int 1, array_at 0], array_of [val_int 1, array_at 1],
       array_of [val_true, val_hash_val 0]],
     h_hashes := [hash_of False [str_at 0] [array_at 2]]\<rparr>"

lemma cyclic_shape: "heap_shape cyclic_heap"
  by (simp add: heap_shape_def cyclic_heap_def heap_empty_def hash_of_def hash_shape_def)

text \<open>C26: a value on a cycle, whatever the cycle goes through, is printed by a recursion that gives no
  text at any depth: there is no guard against cycles.\<close>

theorem cyclic_values_not_printed:
  assumes "heap_shape h" "\<forall>x \<in> S. in_heap h x \<and> (\<exists>y \<in> set (parts h x). y \<in> S)" "v \<in> S"
  shows "val_inspect addr n h v \<noteq> Inr t \<and> val_to_s addr n h v \<noteq> Inr t"
proof -
  have no_text: "to_s_step addr f h x \<noteq> Inr t" if x: "x \<in> S" and rest: "\<And>y t. y \<in> S \<Longrightarrow> f y \<noteq> Inr t" for f x t
  proof
    assume printed: "to_s_step addr f h x = Inr t"
    obtain y where y: "y \<in> set (parts h x)" "y \<in> S" "in_heap h x" using bspec [OF assms(2) x] by blast
    obtain z where "z \<in> set (parts h y)" using bspec [OF assms(2) y(2)] by blast
    then have "parts h y \<noteq> []" by auto
    then obtain s where "f y = Inr s" using to_s_all [OF printed y(1) _ y(3) assms(1)] by blast
    then show False using rest [OF y(2), of s] by simp
  qed
  have "val_inspect addr n h x \<noteq> Inr t" if "x \<in> S" for x t
    using that
  proof (induction n arbitrary: x t)
    case (Suc n)
    obtain z where "z \<in> set (parts h x)" using bspec [OF assms(2) Suc.prems] by blast
    then have "parts h x \<noteq> []" by auto
    then have "val_inspect addr (Suc n) h x = to_s_step addr (val_inspect addr n h) h x"
      by (auto simp: inspect_step_def parts_def split: vdata.split)
    then show ?case using no_text [OF Suc.prems Suc.IH] by simp
  qed simp
  then show ?thesis using no_text [OF assms(3)] assms(3) by (auto simp: val_to_s_def)
qed

theorem cyclic_values_not_printed_witness:
  "\<forall>t. val_inspect (\<lambda>_. 0) 100 cyclic_heap (array_at 2) \<noteq> Inr t \<and>
    val_to_s (\<lambda>_. 0) 100 cyclic_heap (array_at 2) \<noteq> Inr t"
  by (intro allI, rule cyclic_values_not_printed [OF cyclic_shape, of "{array_at 2, val_hash_val 0}"])
    (auto simp: in_heap_def parts_def array_at_def val_hash_val_def mk_val_def cyclic_heap_def heap_empty_def
      array_of_def hash_of_def)

text \<open>C38: two different arrays of the same length that hold, at a place before which nothing is found
  different, two arrays of the same kind again, are compared by a recursion that gives no answer at
  any depth: two arrays that hold themselves, and any pair of cycles of arrays alike.\<close>

theorem cyclic_arrays_not_compared:
  assumes "\<forall>(a, b) \<in> R. \<exists>xs ys i. array_pair h a b = Some (xs, ys) \<and> length xs = length ys \<and>
      i < length xs \<and> (xs ! i, ys ! i) \<in> R \<and> (\<forall>j < i. \<forall>m. val_equal m h (xs ! j) (ys ! j) \<noteq> Some False)"
    and "(a, b) \<in> R"
  shows "val_equal n h a b = None"
  using assms(2)
proof (induction n arbitrary: a b)
  case (Suc n)
  obtain xs ys i where p: "array_pair h a b = Some (xs, ys)" "length xs = length ys" "i < length xs"
      "(xs ! i, ys ! i) \<in> R" "\<forall>j < i. \<forall>m. val_equal m h (xs ! j) (ys ! j) \<noteq> Some False"
    using assms(1) Suc.prems by blast
  have "all_pairs (val_equal n h) xs ys = None"
    using p Suc.IH by (intro all_pairs_diverge [of _ _ i]) auto
  then show ?case
    using p(1,2) by (auto simp: val_equal_step_def array_pair_def split: vdata.splits option.splits if_splits)
qed simp

theorem cyclic_arrays_not_compared_witness:
  "val_equal 100 cyclic_heap (array_at 0) (array_at 1) = None"
proof (rule cyclic_arrays_not_compared [of "{(array_at 0, array_at 1)}"])
  have "val_equal m cyclic_heap (val_int 1) (val_int 1) \<noteq> Some False" for m
    by (cases m) (simp_all add: val_equal_step_def val_int_def mk_val_def)
  then show "\<forall>(a, b) \<in> {(array_at 0, array_at 1)}. \<exists>xs ys i. array_pair cyclic_heap a b = Some (xs, ys) \<and>
      length xs = length ys \<and> i < length xs \<and> (xs ! i, ys ! i) \<in> {(array_at 0, array_at 1)} \<and>
      (\<forall>j < i. \<forall>m. val_equal m cyclic_heap (xs ! j) (ys ! j) \<noteq> Some False)"
    by (auto simp: array_pair_def array_at_def mk_val_def cyclic_heap_def heap_empty_def array_of_def
        intro!: exI [of _ 1])
qed simp

text \<open>C39: \<open>==\<close> on hashes depends on the receiver: its keys are looked up in the argument by the
  argument's rule. A hash of strings and one with the same contents in other string objects, which
  compares its keys by identity, are equal when the second is the receiver and different when the
  first is.\<close>

theorem hash_equal_asymmetric:
  assumes "hash_ok h (h_hashes h ! p)" "rh_by_identity (h_hashes h ! q)" "p \<noteq> q"
    and "rh_keys (h_hashes h ! p) \<noteq> []" "length (rh_keys (h_hashes h ! q)) = length (rh_keys (h_hashes h ! p))"
    "length (rh_vals (h_hashes h ! q)) = length (rh_keys (h_hashes h ! q))"
    and strings: "\<forall>k \<in> set (rh_keys (h_hashes h ! p) @ rh_keys (h_hashes h ! q)). \<exists>s. v_data k = VAL_STRING (Some s)"
    and apart: "v_data ` set (rh_keys (h_hashes h ! p)) \<inter> v_data ` set (rh_keys (h_hashes h ! q)) = {}"
    and same: "\<forall>i < length (rh_keys (h_hashes h ! p)).
      key_eq h (rh_keys (h_hashes h ! p) ! i) (rh_keys (h_hashes h ! q) ! i) \<and>
      val_equal (Suc n) h (rh_vals (h_hashes h ! q) ! i) (rh_vals (h_hashes h ! p) ! i) = Some True"
  shows "val_equal (Suc (Suc n)) h (val_hash_val q) (val_hash_val p) = Some True \<and>
    val_equal (Suc (Suc n)) h (val_hash_val p) (val_hash_val q) = Some False"
proof -
  let ?p = "h_hashes h ! p" and ?q = "h_hashes h ! q"
  let ?eq = "val_equal (Suc n) h"
  let ?test = "\<lambda>r key v. case hash_get ?eq r key of
    None \<Rightarrow> None | Some None \<Rightarrow> Some False | Some (Some w) \<Rightarrow> ?eq v w"
  have "?test ?p (rh_keys ?q ! i) (rh_vals ?q ! i) = Some True" if "i < length (rh_keys ?q)" for i
  proof -
    have "\<exists>s. v_data (rh_keys ?q ! i) = VAL_STRING (Some s)"
      using strings nth_mem [OF that] by (intro bspec [OF strings]) simp
    then have "simple_key (rh_keys ?q ! i)" by (auto simp: simple_key_def)
    then show ?thesis using hash_get_at [OF assms(1), of "rh_keys ?q ! i" i] same that assms(5)
      by (simp del: val_equal.simps)
  qed
  then have "all_pairs (?test ?p) (rh_keys ?q) (rh_vals ?q) = Some True"
    using assms(6) by (intro all_pairs_True) simp_all
  moreover obtain k ks where k: "rh_keys ?p = k # ks" using assms(4) by (cases "rh_keys ?p") auto
  obtain v vs where v: "rh_vals ?p = v # vs" using k assms(1) by (cases "rh_vals ?p") (auto simp: hash_ok_def hash_shape_def)
  have "val_hash_key_equal ?eq ?q l k = Some False" if l: "l \<in> set (rh_keys ?q)" for l
  proof -
    have "v_data k \<in> v_data ` set (rh_keys ?p)" "v_data l \<in> v_data ` set (rh_keys ?q)"
      using k l by simp_all
    then have "v_data l \<noteq> v_data k" using apart by (metis IntI empty_iff)
    moreover have "\<exists>s. v_data k = VAL_STRING (Some s)" "\<exists>s. v_data l = VAL_STRING (Some s)"
      by (rule bspec [OF strings], simp add: k l)+
    ultimately show ?thesis
      using assms(2) by (elim exE) (simp add: val_hash_key_equal_def val_identity_equal_def del: val_equal.simps)
  qed
  then have "hash_get ?eq ?q k = Some None"
    by (simp add: hash_get_def hash_find_def find_key_absent del: val_equal.simps)
  then have "all_pairs (?test ?q) (rh_keys ?p) (rh_vals ?p) = Some False"
    by (simp add: k v and_then_def del: val_equal.simps)
  ultimately show ?thesis
    using assms(3,5) by (simp add: val_equal_step_def val_hash_val_def mk_val_def del: val_equal.simps(2) add: val_equal.simps(2) [of "Suc n"])
qed

theorem hash_equal_asymmetric_witness:
  "val_equal 2 sample_heap (val_hash_val 1) (val_hash_val 0) = Some True \<and>
   val_equal 2 sample_heap (val_hash_val 0) (val_hash_val 1) = Some False"
proof -
  have "val_equal (Suc (Suc 0)) sample_heap (val_hash_val 1) (val_hash_val 0) = Some True \<and>
      val_equal (Suc (Suc 0)) sample_heap (val_hash_val 0) (val_hash_val 1) = Some False"
    by (rule hash_equal_asymmetric)
      (simp_all add: sample_heap_def heap_empty_def hash_of_def hash_ok_def hash_shape_def simple_key_def
        str_at_def val_int_def mk_val_def key_eq_def val_equal_step_def str_equal_def)
  then show ?thesis by (simp only: numeral_2_eq_2)
qed



end
