(* ===== verification/Methods.thy ===== *)
theory Methods
  imports Env
begin

section \<open>Classes, modules and method lookup (src/eval_support.c, src/eval_dispatch_objects.c)\<close>

text \<open>
  A class holds its superclass, its environment and the modules prepended, included and extended,
  the last added first. The code searches these by recursion over pointers with no bound: the
  searches are partial functions, whose result is \<open>None\<close> when they do not return. A search that
  returns gives \<open>Some None\<close> when nothing is found. The callers' \<open>owner\<close> is null before the call.
\<close>

subsection \<open>Searches\<close>

text \<open>\<open>or_else\<close> goes on when the first search finds nothing; \<open>first_of\<close> is the loop over a list.\<close>

definition or_else :: "'a option option \<Rightarrow> 'a option option \<Rightarrow> 'a option option" where
  "or_else a b = Option.bind a (\<lambda>r. case r of None \<Rightarrow> b | Some y \<Rightarrow> Some (Some y))"

fun first_of :: "('a \<Rightarrow> 'b option option) \<Rightarrow> 'a list \<Rightarrow> 'b option option" where
  "first_of f [] = Some None"
| "first_of f (x # xs) = or_else (f x) (first_of f xs)"

text \<open>\<open>each\<close> threads a state through the calls for the elements, in order.\<close>

fun each :: "('a \<Rightarrow> 's \<Rightarrow> 's option) \<Rightarrow> 'a list \<Rightarrow> 's \<Rightarrow> 's option" where
  "each f [] s = Some s"
| "each f (x # xs) s = Option.bind (f x s) (each f xs)"

lemma or_else_mono [partial_function_mono]:
  "mono_option A \<Longrightarrow> mono_option B \<Longrightarrow> mono_option (\<lambda>f. or_else (A f) (B f))"
  unfolding or_else_def
proof (rule bind_mono)
  fix y :: "'c option"
  assume "mono_option B"
  then show "mono_option (\<lambda>f. case y of None \<Rightarrow> B f | Some y \<Rightarrow> Some (Some y))"
    by (cases y) (simp_all add: option.const_mono)
qed

lemma first_of_mono [partial_function_mono]:
  "(\<And>x. mono_option (B x)) \<Longrightarrow> mono_option (\<lambda>f. first_of (\<lambda>x. B x f) xs)"
  by (induction xs) (auto intro: or_else_mono option.const_mono)

lemma each_mono [partial_function_mono]:
  "(\<And>x s. mono_option (B x s)) \<Longrightarrow> mono_option (\<lambda>f. each (\<lambda>x s. B x s f) xs s)"
  by (induction xs arbitrary: s) (auto intro: bind_mono option.const_mono)

lemma or_else_simps [simp]:
  "or_else (Some None) b = b" "or_else (Some (Some y)) b = Some (Some y)" "or_else None b = None"
  by (simp_all add: or_else_def)

lemma each_append: "each f (xs @ ys) s = Option.bind (each f xs s) (each f ys)"
proof (induction xs arbitrary: s)
  case (Cons x xs)
  then show ?case by (cases "f x s") simp_all
qed simp

subsection \<open>The class hierarchy\<close>

abbreviation klass_at :: "heap \<Rightarrow> ptr \<Rightarrow> ruby_class" where
  "klass_at h k \<equiv> h_classes h ! k"

definition class_of :: "rvalue \<Rightarrow> ptr option" where
  "class_of v = (case v_data v of VAL_CLASS k \<Rightarrow> Some k | _ \<Rightarrow> None)"

definition superclass :: "heap \<Rightarrow> ptr \<Rightarrow> ptr option" where
  "superclass h k = class_of (rc_superclass (klass_at h k))"

partial_function (option) class_inherits_from :: "heap \<Rightarrow> ptr option \<Rightarrow> ptr \<Rightarrow> bool option" where
  "class_inherits_from h klass target =
     (case klass of
        None \<Rightarrow> Some False
      | Some k \<Rightarrow> if k = target then Some True else class_inherits_from h (superclass h k) target)"

text \<open>An entry of a class that is a method ends the search, and so does an \<open>undef\<close>, without an owner.\<close>

definition own_method ::
  "heap \<Rightarrow> envs \<Rightarrow> string \<Rightarrow> ptr \<Rightarrow> (rvalue \<times> ptr option) option" where
  "own_method h es name k =
     (case env_get_own es (rc_class_env (klass_at h k)) name of
        None \<Rightarrow> None
      | Some v \<Rightarrow>
          (case v_data v of
             VAL_METHOD _ _ _ _ \<Rightarrow> Some (v, Some k)
           | VAL_UNDEF_METHOD \<Rightarrow> Some (v, None)
           | _ \<Rightarrow> None))"

partial_function (option) ruby_class_find_instance_method ::
  "heap \<Rightarrow> envs \<Rightarrow> string \<Rightarrow> ptr \<Rightarrow> (rvalue \<times> ptr option) option option" where
  "ruby_class_find_instance_method h es name k =
     or_else (first_of (\<lambda>m. ruby_class_find_instance_method h es name m) (rc_prepended (klass_at h k)))
     (or_else (Some (own_method h es name k))
     (or_else (first_of (\<lambda>m. ruby_class_find_instance_method h es name m) (rc_included (klass_at h k)))
     (if rc_is_module (klass_at h k) \<noteq> 0 then Some None
      else (case superclass h k of
              None \<Rightarrow> Some None | Some s \<Rightarrow> ruby_class_find_instance_method h es name s))))"

text \<open>
  The search for \<open>super\<close> carries \<open>seen_after\<close>. Where it looks at a class it uses \<open>env_get\<close>, which
  also walks to the parents of the class's environment.
\<close>

type_synonym super_search = "(rvalue \<times> ptr) option \<times> bool"

definition or_next ::
  "super_search option \<Rightarrow> (bool \<Rightarrow> super_search option) \<Rightarrow> super_search option" where
  "or_next a f =
     Option.bind a (\<lambda>(r, seen). case r of None \<Rightarrow> f seen | Some y \<Rightarrow> Some (Some y, seen))"

fun first_next ::
  "(ptr \<Rightarrow> bool \<Rightarrow> super_search option) \<Rightarrow> ptr list \<Rightarrow> bool \<Rightarrow> super_search option" where
  "first_next f [] seen = Some (None, seen)"
| "first_next f (m # ms) seen = or_next (f m seen) (first_next f ms)"

lemma or_next_mono [partial_function_mono]:
  "mono_option A \<Longrightarrow> (\<And>s. mono_option (\<lambda>f. B f s)) \<Longrightarrow> mono_option (\<lambda>f. or_next (A f) (B f))"
  unfolding or_next_def
proof (rule bind_mono)
  fix y :: super_search
  assume "\<And>s. mono_option (\<lambda>f. B f s)"
  then show "mono_option
      (\<lambda>f. case y of (r, seen) \<Rightarrow> (case r of None \<Rightarrow> B f seen | Some y \<Rightarrow> Some (Some y, seen)))"
    by (cases y; cases "fst y") (simp_all add: option.const_mono)
qed

lemma first_next_mono [partial_function_mono]:
  "(\<And>m s. mono_option (B m s)) \<Longrightarrow> mono_option (\<lambda>f. first_next (\<lambda>m s. B m s f) ms seen)"
  by (induction ms arbitrary: seen) (auto intro: or_next_mono option.const_mono)

lemma or_next_simps [simp]:
  "or_next None f = None" "or_next (Some (None, seen)) f = f seen"
  "or_next (Some (Some y, seen)) f = Some (Some y, seen)"
  by (simp_all add: or_next_def)

definition visible_method :: "heap \<Rightarrow> envs \<Rightarrow> string \<Rightarrow> ptr \<Rightarrow> (rvalue \<times> ptr) option option" where
  "visible_method h es name k =
     map_option (\<lambda>found. case found of
         None \<Rightarrow> None
       | Some v \<Rightarrow> (case v_data v of VAL_METHOD _ _ _ _ \<Rightarrow> Some (v, k) | _ \<Rightarrow> None))
       (env_get es (rc_class_env (klass_at h k)) name)"

definition super_here ::
  "heap \<Rightarrow> envs \<Rightarrow> ptr \<Rightarrow> string \<Rightarrow> ptr \<Rightarrow> bool \<Rightarrow> super_search option" where
  "super_here h es after name k seen =
     or_next (if seen then map_option (\<lambda>r. (r, seen)) (visible_method h es name k)
              else Some (None, seen))
       (\<lambda>seen. Some (None, seen \<or> k = after))"

partial_function (option) ruby_class_find_super_method_inner ::
  "heap \<Rightarrow> envs \<Rightarrow> ptr \<Rightarrow> string \<Rightarrow> ptr \<Rightarrow> bool \<Rightarrow> super_search option" where
  "ruby_class_find_super_method_inner h es after name k seen =
     or_next (first_next (\<lambda>m seen. ruby_class_find_super_method_inner h es after name m seen)
       (rc_prepended (klass_at h k)) seen)
     (\<lambda>seen. or_next (super_here h es after name k seen)
     (\<lambda>seen. or_next (first_next (\<lambda>m seen. ruby_class_find_super_method_inner h es after name m seen)
       (rc_included (klass_at h k)) seen)
     (\<lambda>seen. if rc_is_module (klass_at h k) \<noteq> 0 then Some (None, seen)
        else (case superclass h k of
                None \<Rightarrow> Some (None, seen)
              | Some s \<Rightarrow> ruby_class_find_super_method_inner h es after name s seen))))"

definition ruby_class_find_super_method ::
  "heap \<Rightarrow> envs \<Rightarrow> ptr \<Rightarrow> ptr \<Rightarrow> string \<Rightarrow> (rvalue \<times> ptr) option option" where
  "ruby_class_find_super_method h es start after name =
     map_option fst (ruby_class_find_super_method_inner h es after name start False)"

partial_function (option) ruby_class_has_module :: "heap \<Rightarrow> ptr \<Rightarrow> ptr \<Rightarrow> unit option option" where
  "ruby_class_has_module h target k =
     or_else (Some (if k = target then Some () else None))
     (or_else (first_of (\<lambda>m. or_else (Some (if m = target then Some () else None))
         (ruby_class_has_module h target m)) (rc_prepended (klass_at h k)))
     (or_else (first_of (\<lambda>m. or_else (Some (if m = target then Some () else None))
         (ruby_class_has_module h target m)) (rc_included (klass_at h k)))
     (if rc_is_module (klass_at h k) \<noteq> 0 then Some None
      else (case superclass h k of
              None \<Rightarrow> Some None | Some s \<Rightarrow> ruby_class_has_module h target s))))"

subsection \<open>Class methods\<close>

text \<open>The methods of a class itself are entries whose name starts with \<open>self.\<close>.\<close>

definition is_method :: "rvalue \<Rightarrow> bool" where
  "is_method v = (case v_data v of VAL_METHOD _ _ _ _ \<Rightarrow> True | _ \<Rightarrow> False)"

fun self_entry :: "rvalue entries \<Rightarrow> string \<Rightarrow> rvalue option" where
  "self_entry [] name = None"
| "self_entry ((n, v) # es) name =
     (if take 5 (cstr n) = ''self.'' \<and> streq (drop 5 n) name \<and> is_method v then Some v
      else self_entry es name)"

definition ruby_class_get_direct_class_method ::
  "heap \<Rightarrow> envs \<Rightarrow> string \<Rightarrow> ptr \<Rightarrow> rvalue option" where
  "ruby_class_get_direct_class_method h es name k =
     (case rc_class_env (klass_at h k) of None \<Rightarrow> None | Some p \<Rightarrow> self_entry (e_vars (es ! p)) name)"

definition direct_class_method ::
  "heap \<Rightarrow> envs \<Rightarrow> string \<Rightarrow> ptr \<Rightarrow> (rvalue \<times> ptr option) option" where
  "direct_class_method h es name k =
     map_option (\<lambda>v. (v, Some k)) (ruby_class_get_direct_class_method h es name k)"

partial_function (option) ruby_class_find_class_method ::
  "heap \<Rightarrow> envs \<Rightarrow> string \<Rightarrow> ptr \<Rightarrow> (rvalue \<times> ptr option) option option" where
  "ruby_class_find_class_method h es name k =
     or_else (Some (direct_class_method h es name k))
     (or_else (first_of (ruby_class_find_instance_method h es name) (rc_extended (klass_at h k)))
     (case superclass h k of
        None \<Rightarrow> Some None | Some s \<Rightarrow> ruby_class_find_class_method h es name s))"

type_synonym class_super_search = "(rvalue \<times> ptr option) option \<times> bool"

fun extended_next ::
  "heap \<Rightarrow> envs \<Rightarrow> ptr \<Rightarrow> string \<Rightarrow> ptr list \<Rightarrow> bool \<Rightarrow> class_super_search option" where
  "extended_next h es after name [] seen = Some (None, seen)"
| "extended_next h es after name (m # ms) seen =
     (if seen then
        (case ruby_class_find_instance_method h es name m of
           None \<Rightarrow> None
         | Some (Some r) \<Rightarrow> Some (Some r, seen)
         | Some None \<Rightarrow> extended_next h es after name ms seen)
      else
        (case ruby_class_find_super_method_inner h es after name m seen of
           None \<Rightarrow> None
         | Some (Some (v, k), seen) \<Rightarrow> Some (Some (v, Some k), seen)
         | Some (None, seen) \<Rightarrow> extended_next h es after name ms seen))"

partial_function (option) ruby_class_find_class_super_method_inner ::
  "heap \<Rightarrow> envs \<Rightarrow> ptr \<Rightarrow> string \<Rightarrow> ptr \<Rightarrow> bool \<Rightarrow> class_super_search option" where
  "ruby_class_find_class_super_method_inner h es after name k seen =
     (if seen \<and> direct_class_method h es name k \<noteq> None then
        Some (direct_class_method h es name k, seen)
      else Option.bind (extended_next h es after name (rc_extended (klass_at h k)) (seen \<or> k = after))
        (\<lambda>(r, seen). if r \<noteq> None then Some (r, seen)
           else (case superclass h k of
                   None \<Rightarrow> Some (None, seen)
                 | Some s \<Rightarrow> ruby_class_find_class_super_method_inner h es after name s seen)))"

definition ruby_class_find_class_super_method ::
  "heap \<Rightarrow> envs \<Rightarrow> ptr \<Rightarrow> ptr \<Rightarrow> string \<Rightarrow> (rvalue \<times> ptr option) option option" where
  "ruby_class_find_class_super_method h es start after name =
     map_option fst (ruby_class_find_class_super_method_inner h es after name start False)"

subsection \<open>Ancestors and listings\<close>

text \<open>
  Two collectors walk the hierarchy with an array of the classes visited, which has 256 places and
  no test for its end. The array of results is the list of what has been pushed.
\<close>

definition visit ::
  "(ptr \<Rightarrow> 's \<times> ptr list \<Rightarrow> ('s \<times> ptr list) option) \<Rightarrow> heap \<Rightarrow> (ptr \<Rightarrow> 's \<Rightarrow> 's) \<Rightarrow> ptr \<Rightarrow>
     's \<times> ptr list \<Rightarrow> ('s \<times> ptr list) option" where
  "visit rec h push k = (\<lambda>(arr, visited).
     if k \<in> set visited then Some (arr, visited)
     else if length visited \<ge> 256 then None
     else Option.bind (each rec (rc_prepended (klass_at h k)) (arr, visited @ [k]))
       (\<lambda>(arr, visited). Option.bind (each rec (rc_included (klass_at h k)) (push k arr, visited))
       (\<lambda>st. if rc_is_module (klass_at h k) \<noteq> 0 then Some st
          else (case superclass h k of None \<Rightarrow> Some st | Some s \<Rightarrow> rec s st))))"

text \<open>The visited classes grow at every level, so 257 levels are enough.\<close>

primrec collect_classes ::
  "nat \<Rightarrow> heap \<Rightarrow> (ptr \<Rightarrow> 's \<Rightarrow> 's) \<Rightarrow> ptr \<Rightarrow> 's \<times> ptr list \<Rightarrow> ('s \<times> ptr list) option" where
  "collect_classes 0 h push = (\<lambda>k st. None)"
| "collect_classes (Suc n) h push = visit (collect_classes n h push) h push"

definition collect_class_ancestors ::
  "heap \<Rightarrow> ptr \<Rightarrow> rvalue list \<times> ptr list \<Rightarrow> (rvalue list \<times> ptr list) option" where
  "collect_class_ancestors h =
     collect_classes 257 h (\<lambda>k arr. arr @ [mk_val (VAL_CLASS k)])"

definition vis_matches :: "int \<Rightarrow> method_visibility \<Rightarrow> bool" where
  "vis_matches vis_mask vis =
     (case vis of
        METHOD_PUBLIC \<Rightarrow> bit vis_mask 0
      | METHOD_PROTECTED \<Rightarrow> bit vis_mask 1
      | METHOD_PRIVATE \<Rightarrow> bit vis_mask 2)"

fun collect_own_instance_methods ::
  "int \<Rightarrow> rvalue entries \<Rightarrow> string list \<Rightarrow> string list" where
  "collect_own_instance_methods vis_mask [] arr = arr"
| "collect_own_instance_methods vis_mask ((n, v) # es) arr =
     collect_own_instance_methods vis_mask es
       (case v_data v of
          VAL_METHOD _ _ vis _ \<Rightarrow>
            if take 5 (cstr n) \<noteq> ''self.'' \<and> vis_matches vis_mask vis \<and> \<not> list_ex (\<lambda>s. streq s n) arr
            then arr @ [n] else arr
        | _ \<Rightarrow> arr)"

definition collect_all_instance_methods ::
  "heap \<Rightarrow> envs \<Rightarrow> int \<Rightarrow> ptr \<Rightarrow> string list \<times> ptr list \<Rightarrow> (string list \<times> ptr list) option" where
  "collect_all_instance_methods h es vis_mask =
     collect_classes 257 h
       (\<lambda>k arr. case rc_class_env (klass_at h k) of
           None \<Rightarrow> arr | Some p \<Rightarrow> collect_own_instance_methods vis_mask (e_vars (es ! p)) arr)"

subsection \<open>Visibility\<close>

text \<open>The visibility of the methods to come is a variable of the frame; a null symbol has no text.\<close>

definition frame_visibility :: "heap \<Rightarrow> envs \<Rightarrow> ptr option \<Rightarrow> string option option" where
  "frame_visibility h es sc =
     Option.bind (env_get es sc ''__visibility__'') (\<lambda>found. case found of
         None \<Rightarrow> Some None
       | Some v \<Rightarrow>
           (case v_data v of
              VAL_SYMBOL None \<Rightarrow> None
            | VAL_SYMBOL (Some p) \<Rightarrow> Some (Some (h_strs h ! p))
            | _ \<Rightarrow> Some None))"

definition current_method_visibility ::
  "heap \<Rightarrow> envs \<Rightarrow> ptr option \<Rightarrow> method_visibility option" where
  "current_method_visibility h es sc =
     map_option (\<lambda>found. case found of
         None \<Rightarrow> METHOD_PUBLIC
       | Some s \<Rightarrow>
           if streq s ''private'' then METHOD_PRIVATE
           else if streq s ''protected'' then METHOD_PROTECTED
           else if streq s ''module_function'' then METHOD_PRIVATE
           else METHOD_PUBLIC)
       (frame_visibility h es sc)"

definition is_module_function_mode :: "heap \<Rightarrow> envs \<Rightarrow> ptr option \<Rightarrow> bool option" where
  "is_module_function_mode h es sc =
     map_option (\<lambda>found. case found of None \<Rightarrow> False | Some s \<Rightarrow> streq s ''module_function'')
       (frame_visibility h es sc)"

definition set_current_method_visibility ::
  "ptr \<Rightarrow> method_visibility \<Rightarrow> heap \<times> envs \<Rightarrow> heap \<times> envs" where
  "set_current_method_visibility p vis = (\<lambda>(h, es).
     let name = (case vis of METHOD_PRIVATE \<Rightarrow> ''private'' | METHOD_PROTECTED \<Rightarrow> ''protected''
                           | METHOD_PUBLIC \<Rightarrow> ''public'');
         (s, h) = alloc_str name h
     in (h, env_define p ''__visibility__'' (val_symbol s) es))"

definition set_visibility :: "method_visibility \<Rightarrow> rvalue \<Rightarrow> rvalue" where
  "set_visibility vis v =
     (case v_data v of
        VAL_METHOD node closure _ file \<Rightarrow> v\<lparr>v_data := VAL_METHOD node closure vis file\<rparr>
      | _ \<Rightarrow> v)"

fun update_entries_visibility ::
  "string \<Rightarrow> method_visibility \<Rightarrow> bool \<Rightarrow> rvalue entries \<Rightarrow> rvalue entries" where
  "update_entries_visibility name vis singleton_only [] = []"
| "update_entries_visibility name vis singleton_only ((n, v) # es) =
     (n, if streq n name \<and> is_method v \<and> \<not> (singleton_only \<and> take 5 (cstr n) \<noteq> ''self.'')
         then set_visibility vis v else v)
     # update_entries_visibility name vis singleton_only es"

definition update_method_visibility ::
  "ptr option \<Rightarrow> string \<Rightarrow> method_visibility \<Rightarrow> bool \<Rightarrow> envs \<Rightarrow> envs" where
  "update_method_visibility sc name vis singleton_only es =
     (case sc of
        None \<Rightarrow> es
      | Some p \<Rightarrow>
          set_vars p (update_entries_visibility name vis singleton_only (e_vars (es ! p))) es)"

text \<open>
  \<open>n\<close> bounds the depth of \<open>val_equal\<close>. A negative \<open>explicit_receiver\<close> stands for a call that skips
  the test.
\<close>

definition kind_no :: "rvalue \<Rightarrow> nat" where
  "kind_no v =
     (case v_data v of
        VAL_NIL \<Rightarrow> 0 | VAL_BOOL _ \<Rightarrow> 1 | VAL_INT _ \<Rightarrow> 2 | VAL_FLOAT _ \<Rightarrow> 3 | VAL_STRING _ \<Rightarrow> 4
      | VAL_SYMBOL _ \<Rightarrow> 5 | VAL_ARRAY _ \<Rightarrow> 6 | VAL_HASH _ \<Rightarrow> 7 | VAL_RANGE _ \<Rightarrow> 8 | VAL_CLASS _ \<Rightarrow> 9
      | VAL_OBJECT _ \<Rightarrow> 10 | VAL_METHOD _ _ _ _ \<Rightarrow> 11 | VAL_UNDEF_METHOD \<Rightarrow> 12
      | VAL_BLOCK _ _ _ _ _ \<Rightarrow> 13 | VAL_EXCEPTION \<Rightarrow> 14 | VAL_RETURN _ _ \<Rightarrow> 15 | VAL_BREAK _ \<Rightarrow> 16
      | VAL_NEXT _ \<Rightarrow> 17 | VAL_RETRY \<Rightarrow> 18 | VAL_THROW _ _ \<Rightarrow> 19)"

definition same_self :: "nat \<Rightarrow> heap \<Rightarrow> rvalue \<Rightarrow> rvalue \<Rightarrow> test" where
  "same_self n h self recv =
     (case (v_data self, v_data recv) of
        (VAL_OBJECT p, VAL_OBJECT q) \<Rightarrow> Some (p = q)
      | (VAL_CLASS p, VAL_CLASS q) \<Rightarrow> Some (p = q)
      | (VAL_OBJECT _, _) \<Rightarrow> Some False
      | (VAL_CLASS _, _) \<Rightarrow> Some False
      | (_, VAL_OBJECT _) \<Rightarrow> Some False
      | (_, VAL_CLASS _) \<Rightarrow> Some False
      | _ \<Rightarrow> if kind_no self \<noteq> kind_no recv then Some False else val_equal n h self recv)"

definition same_family :: "heap \<Rightarrow> rvalue \<Rightarrow> rvalue \<Rightarrow> ptr option \<Rightarrow> test" where
  "same_family h self recv owner =
     (case (v_data self, v_data recv, owner) of
        (VAL_OBJECT p, VAL_OBJECT q, Some k) \<Rightarrow>
          (case (class_of (ro_klass (h_objects h ! p)), class_of (ro_klass (h_objects h ! q))) of
             (Some caller, Some target) \<Rightarrow>
               and_then (class_inherits_from h (Some caller) k) (class_inherits_from h (Some target) k)
           | _ \<Rightarrow> Some False)
      | _ \<Rightarrow> Some False)"

definition method_visibility_allows_call ::
  "nat \<Rightarrow> heap \<Rightarrow> envs \<Rightarrow> ptr option \<Rightarrow> rvalue \<Rightarrow> ptr option \<Rightarrow> method_visibility \<Rightarrow> bool \<Rightarrow> int \<Rightarrow>
     test" where
  "method_visibility_allows_call n h es sc recv owner vis public_only explicit_receiver =
     (if explicit_receiver < 0 then Some True
      else if vis = METHOD_PUBLIC then Some True
      else if public_only then Some False
      else Option.bind (env_get es sc ''self'') (\<lambda>found. case found of
          None \<Rightarrow> Some False
        | Some self \<Rightarrow>
            if vis = METHOD_PRIVATE then same_self n h self recv else same_family h self recv owner))"

subsection \<open>Questions about a value's class\<close>

text \<open>A class without a name, or a union read at another member, gives no result.\<close>

definition or_test :: "test \<Rightarrow> test \<Rightarrow> test" where
  "or_test a b = Option.bind a (\<lambda>r. case r of True \<Rightarrow> Some True | False \<Rightarrow> b)"

lemma or_test_mono [partial_function_mono]:
  "mono_option A \<Longrightarrow> mono_option B \<Longrightarrow> mono_option (\<lambda>f. or_test (A f) (B f))"
  unfolding or_test_def
proof (rule bind_mono)
  fix y :: bool
  assume "mono_option B"
  then show "mono_option (\<lambda>f. case y of True \<Rightarrow> Some True | False \<Rightarrow> B f)"
    by (cases y) (simp_all add: option.const_mono)
qed

definition name_is :: "heap \<Rightarrow> string \<Rightarrow> ptr \<Rightarrow> test" where
  "name_is h name k = map_option (\<lambda>n. streq n name) (rc_name (klass_at h k))"

fun any_named :: "heap \<Rightarrow> string \<Rightarrow> ptr list \<Rightarrow> test" where
  "any_named h name [] = Some False"
| "any_named h name (m # ms) =
     or_test (name_is h name m) (any_named h name ms)"

definition named_class :: "envs \<Rightarrow> ptr option \<Rightarrow> string \<Rightarrow> ptr option option" where
  "named_class es root name = map_option (\<lambda>found. Option.bind found class_of) (env_get es root name)"

partial_function (option) chain_named :: "heap \<Rightarrow> ptr \<Rightarrow> ptr option \<Rightarrow> string \<Rightarrow> test" where
  "chain_named h target klass name =
     (case klass of
        None \<Rightarrow> Some False
      | Some k \<Rightarrow>
          if k = target then Some True
          else or_test (name_is h name k) (chain_named h target (superclass h k) name))"

definition class_is_a_named_class ::
  "heap \<Rightarrow> envs \<Rightarrow> ptr option \<Rightarrow> ptr option \<Rightarrow> string \<Rightarrow> test" where
  "class_is_a_named_class h es root klass name =
     (if klass = None then Some False
      else Option.bind (named_class es root name) (\<lambda>found. case found of
          None \<Rightarrow> Some False | Some target \<Rightarrow> chain_named h target klass name))"

definition value_is_a_named_class ::
  "heap \<Rightarrow> envs \<Rightarrow> ptr option \<Rightarrow> rvalue \<Rightarrow> string \<Rightarrow> test" where
  "value_is_a_named_class h es root v name =
     (case v_data v of
        VAL_OBJECT p \<Rightarrow>
          Option.bind (named_class es root name) (\<lambda>found. case found of
              None \<Rightarrow> Some False
            | Some target \<Rightarrow>
                (case class_of (ro_klass (h_objects h ! p)) of
                   None \<Rightarrow> None | Some k \<Rightarrow> chain_named h target (Some k) name))
      | _ \<Rightarrow> Some False)"

definition builtin_class_name :: "rvalue \<Rightarrow> string option" where
  "builtin_class_name v =
     (case v_data v of
        VAL_INT _ \<Rightarrow> Some ''Integer''
      | VAL_FLOAT _ \<Rightarrow> Some ''Float''
      | VAL_STRING _ \<Rightarrow> Some ''String''
      | VAL_ARRAY _ \<Rightarrow> Some ''Array''
      | VAL_HASH _ \<Rightarrow> Some ''Hash''
      | VAL_NIL \<Rightarrow> Some ''NilClass''
      | VAL_BOOL b \<Rightarrow> Some (if b \<noteq> 0 then ''TrueClass'' else ''FalseClass'')
      | _ \<Rightarrow> None)"

definition module_holder :: "heap \<Rightarrow> envs \<Rightarrow> ptr option \<Rightarrow> rvalue \<Rightarrow> ptr option option" where
  "module_holder h es root recv =
     (case v_data recv of
        VAL_OBJECT p \<Rightarrow>
          (case class_of (ro_klass (h_objects h ! p)) of None \<Rightarrow> None | Some k \<Rightarrow> Some (Some k))
      | VAL_CLASS k \<Rightarrow> Some (Some k)
      | _ \<Rightarrow> (case builtin_class_name recv of
                None \<Rightarrow> Some None | Some name \<Rightarrow> named_class es root name))"

definition value_has_module ::
  "heap \<Rightarrow> envs \<Rightarrow> ptr option \<Rightarrow> rvalue \<Rightarrow> string \<Rightarrow> test" where
  "value_has_module h es root recv module_name =
     Option.bind (named_class es root module_name) (\<lambda>found. case found of
         None \<Rightarrow> Some False
       | Some target \<Rightarrow>
           Option.bind (module_holder h es root recv) (\<lambda>holder. case holder of
               None \<Rightarrow> Some False
             | Some k \<Rightarrow> map_option (\<lambda>r. r \<noteq> None) (ruby_class_has_module h target k)))"

definition class_includes_module :: "heap \<Rightarrow> ptr \<Rightarrow> string \<Rightarrow> test" where
  "class_includes_module h k mod_name =
     or_test (any_named h mod_name (rc_included (klass_at h k)))
       (any_named h mod_name (rc_prepended (klass_at h k)))"

partial_function (option) class_includes_module_name :: "heap \<Rightarrow> ptr option \<Rightarrow> string \<Rightarrow> test" where
  "class_includes_module_name h klass name =
     (case klass of
        None \<Rightarrow> Some False
      | Some k \<Rightarrow>
          or_test (class_includes_module h k name)
            (if rc_is_module (klass_at h k) \<noteq> 0 then Some False
            else class_includes_module_name h (superclass h k) name))"

definition prim_class_name :: "heap \<Rightarrow> rvalue \<Rightarrow> string option" where
  "prim_class_name h v =
     (case v_data v of
        VAL_SYMBOL _ \<Rightarrow> Some ''Symbol''
      | VAL_RANGE _ \<Rightarrow> Some ''Range''
      | VAL_CLASS _ \<Rightarrow> Some ''Class''
      | VAL_METHOD _ _ _ _ \<Rightarrow> Some ''Method''
      | VAL_BLOCK _ _ _ _ _ \<Rightarrow> Some ''Proc''
      | VAL_OBJECT p \<Rightarrow>
          Option.bind (class_of (ro_klass (h_objects h ! p))) (\<lambda>k. rc_name (klass_at h k))
      | _ \<Rightarrow> Some (case builtin_class_name v of Some name \<Rightarrow> name | None \<Rightarrow> ''Object''))"

partial_function (option) chain_is_a :: "heap \<Rightarrow> ptr option \<Rightarrow> string \<Rightarrow> test" where
  "chain_is_a h klass kname =
     (case klass of
        None \<Rightarrow> Some False
      | Some k \<Rightarrow>
          or_test (name_is h kname k)
            (or_test (class_includes_module h k kname) (chain_is_a h (superclass h k) kname)))"

definition object_is_a :: "heap \<Rightarrow> rvalue \<Rightarrow> ptr \<Rightarrow> string \<Rightarrow> test" where
  "object_is_a h v p kname =
     or_test
       (case Option.bind (val_object_get_ivar v ''__sclass__'' h) class_of of
          None \<Rightarrow> Some False | Some sclass \<Rightarrow> class_includes_module h sclass kname)
       (case class_of (ro_klass (h_objects h ! p)) of
          None \<Rightarrow> None | Some k \<Rightarrow> chain_is_a h (Some k) kname)"

definition val_is_a :: "heap \<Rightarrow> rvalue \<Rightarrow> rvalue \<Rightarrow> test" where
  "val_is_a h v klass_arg =
     (case class_of klass_arg of
        None \<Rightarrow> Some False
      | Some c \<Rightarrow> Option.bind (rc_name (klass_at h c)) (\<lambda>kname.
          if streq kname ''Object'' \<or> streq kname ''BasicObject'' then Some True
          else
            (case v_data v of
               VAL_CLASS k \<Rightarrow>
                 Some (streq kname ''Module'' \<or>
                       streq kname ''Class'' \<and> rc_is_module (klass_at h k) = 0)
             | VAL_OBJECT p \<Rightarrow> object_is_a h v p kname
             | d \<Rightarrow>
                 if streq kname ''Numeric'' then
                   Some (case d of VAL_INT _ \<Rightarrow> True | VAL_FLOAT _ \<Rightarrow> True | _ \<Rightarrow> False)
                 else if streq kname ''Comparable'' then
                   Some (case d of VAL_INT _ \<Rightarrow> True | VAL_FLOAT _ \<Rightarrow> True | VAL_STRING _ \<Rightarrow> True
                                 | VAL_SYMBOL _ \<Rightarrow> True | _ \<Rightarrow> False)
                 else if streq kname ''Enumerable'' then
                   Some (case d of VAL_RANGE _ \<Rightarrow> True | VAL_ARRAY _ \<Rightarrow> True | VAL_HASH _ \<Rightarrow> True
                                 | _ \<Rightarrow> False)
                 else map_option (\<lambda>n. streq n kname) (prim_class_name h v))))"

text \<open>\<open>include\<close>, \<open>prepend\<close> and \<open>extend\<close> put the module in front of a list of the class.\<close>

definition update_class :: "(ruby_class \<Rightarrow> ruby_class) \<Rightarrow> ptr \<Rightarrow> heap \<Rightarrow> heap" where
  "update_class f k h = h\<lparr>h_classes := (h_classes h)[k := f (klass_at h k)]\<rparr>"

definition include_module :: "ptr \<Rightarrow> ptr \<Rightarrow> heap \<Rightarrow> heap" where
  "include_module m = update_class (\<lambda>c. c\<lparr>rc_included := m # rc_included c\<rparr>)"

definition prepend_module :: "ptr \<Rightarrow> ptr \<Rightarrow> heap \<Rightarrow> heap" where
  "prepend_module m = update_class (\<lambda>c. c\<lparr>rc_prepended := m # rc_prepended c\<rparr>)"

definition extend_module :: "ptr \<Rightarrow> ptr \<Rightarrow> heap \<Rightarrow> heap" where
  "extend_module m = update_class (\<lambda>c. c\<lparr>rc_extended := m # rc_extended c\<rparr>)"

end
