(* ===== verification/MethodThms.thy ===== *)
theory MethodThms
  imports Methods
begin

section \<open>The order in which methods are looked up\<close>

text \<open>
  Reference definition: the classes a class looks methods up in, in order. It is what the searches of
  the code have in common, and it is finite when no class includes, prepends or inherits from itself.
\<close>

subsection \<open>The linearization\<close>

fun concat_opt :: "('a \<Rightarrow> 'b list option) \<Rightarrow> 'a list \<Rightarrow> 'b list option" where
  "concat_opt f [] = Some []"
| "concat_opt f (x # xs) =
     Option.bind (f x) (\<lambda>ys. Option.bind (concat_opt f xs) (\<lambda>zs. Some (ys @ zs)))"

lemma concat_opt_mono [partial_function_mono]:
  "(\<And>x. mono_option (B x)) \<Longrightarrow> mono_option (\<lambda>f. concat_opt (\<lambda>x. B x f) xs)"
  by (induction xs) (auto intro!: bind_mono simp: option.const_mono)

text \<open>The classes above a class: a module has none.\<close>

definition above :: "heap \<Rightarrow> ptr \<Rightarrow> ptr list" where
  "above h k =
     (if rc_is_module (klass_at h k) \<noteq> 0 then []
      else (case superclass h k of None \<Rightarrow> [] | Some s \<Rightarrow> [s]))"

partial_function (option) mro :: "heap \<Rightarrow> ptr \<Rightarrow> ptr list option" where
  "mro h k =
     Option.bind (concat_opt (mro h) (rc_prepended (klass_at h k))) (\<lambda>pre.
     Option.bind (concat_opt (mro h) (rc_included (klass_at h k))) (\<lambda>inc.
     Option.bind (concat_opt (mro h) (above h k)) (\<lambda>up. Some (pre @ k # inc @ up))))"

definition next_classes :: "heap \<Rightarrow> ptr \<Rightarrow> ptr list" where
  "next_classes h k = rc_prepended (klass_at h k) @ rc_included (klass_at h k) @ above h k"

abbreviation ends :: "heap \<Rightarrow> ptr \<Rightarrow> bool" where
  "ends h k \<equiv> mro h k \<noteq> None"

definition order :: "heap \<Rightarrow> ptr \<Rightarrow> ptr list" where
  "order h k = the (mro h k)"

abbreviation orders :: "heap \<Rightarrow> ptr list \<Rightarrow> ptr list" where
  "orders h ms \<equiv> concat (map (order h) ms)"

lemma concat_opt_None: "concat_opt f xs = None \<longleftrightarrow> (\<exists>x \<in> set xs. f x = None)"
  by (induction xs) (auto simp: bind_eq_None_conv)

lemma ends_iff: "ends h k \<longleftrightarrow> (\<forall>m \<in> set (next_classes h k). ends h m)"
proof -
  have "mro h k = None \<longleftrightarrow> (\<exists>m \<in> set (next_classes h k). mro h m = None)"
    by (subst mro.simps) (auto simp: bind_eq_None_conv concat_opt_None [of "mro h"] next_classes_def)
  then show ?thesis by simp
qed

lemma next_subsets:
  "set (rc_prepended (klass_at h k)) \<subseteq> set (next_classes h k)"
  "set (rc_included (klass_at h k)) \<subseteq> set (next_classes h k)"
  "set (above h k) \<subseteq> set (next_classes h k)"
  by (auto simp: next_classes_def)

lemma concat_opt_orders: "\<forall>m \<in> set ms. ends h m \<Longrightarrow> concat_opt (mro h) ms = Some (orders h ms)"
  by (induction ms) (auto simp: order_def)

lemma order_eq:
  assumes "ends h k"
  shows "order h k =
    orders h (rc_prepended (klass_at h k)) @ k # orders h (rc_included (klass_at h k)) @
    orders h (above h k)"
proof -
  have "\<forall>m \<in> set (next_classes h k). ends h m" using assms ends_iff by blast
  then have "mro h k = Some (orders h (rc_prepended (klass_at h k)) @ k #
      orders h (rc_included (klass_at h k)) @ orders h (above h k))"
    by (subst mro.simps) (simp add: next_classes_def concat_opt_orders)
  then show ?thesis by (simp add: order_def)
qed

lemma length_orders: "m \<in> set ms \<Longrightarrow> length (order h m) \<le> length (orders h ms)"
  by (induction ms) auto

lemma order_next:
  assumes "ends h k" "m \<in> set (next_classes h k)"
  shows "ends h m" "length (order h m) < length (order h k)"
proof -
  show "ends h m" using assms ends_iff by blast
  show "length (order h m) < length (order h k)"
    using assms(2) by (auto simp: order_eq [OF assms(1)] next_classes_def dest!: length_orders [of _ _ h])
qed

lemma ends_induct [consumes 1, case_names ends]:
  assumes "ends h k"
    and step: "\<And>k. ends h k \<Longrightarrow> (\<And>m. m \<in> set (next_classes h k) \<Longrightarrow> ends h m \<Longrightarrow> P m) \<Longrightarrow> P k"
  shows "P k"
  using assms(1)
proof (induction "length (order h k)" arbitrary: k rule: less_induct)
  case less
  show ?case
  proof (rule step)
    show "P m" if "m \<in> set (next_classes h k)" "ends h m" for m
      using less.hyps [OF order_next(2) [OF less.prems that(1)] that(2)] .
  qed (rule less.prems)
qed

text \<open>Where a rank decreases along every step, the order is finite.\<close>

definition ranked :: "(ptr \<Rightarrow> nat) \<Rightarrow> heap \<Rightarrow> bool" where
  "ranked rank h \<longleftrightarrow>
     (\<forall>k < length (h_classes h). \<forall>m \<in> set (next_classes h k).
        m < length (h_classes h) \<and> rank m < rank k)"

lemma ends_rank: "ranked rank h \<Longrightarrow> k < length (h_classes h) \<Longrightarrow> ends h k"
proof (induction "rank k" arbitrary: k rule: less_induct)
  case less
  have "ends h m" if "m \<in> set (next_classes h k)" for m
    using less that by (auto simp: ranked_def)
  then show ?case by (subst ends_iff) blast
qed

subsection \<open>The searches follow the order\<close>

lemma first_some_append:
  "first_some f (xs @ ys) = (case first_some f xs of Some y \<Rightarrow> Some y | None \<Rightarrow> first_some f ys)"
  by (induction xs) (simp_all split: option.split)

lemma or_else_none [simp]: "or_else a (Some None) = a"
  by (cases a) (auto simp: or_else_def split: option.split)

lemma or_else_first:
  "or_else (Some (first_some f xs)) (Some (first_some f ys)) = Some (first_some f (xs @ ys))"
  by (cases "first_some f xs") (simp_all add: first_some_append)

lemma first_of_orders:
  "(\<And>m. m \<in> set ms \<Longrightarrow> g m = Some (first_some f (order h m))) \<Longrightarrow>
     first_of g ms = Some (first_some f (orders h ms))"
  by (induction ms) (simp_all add: or_else_first)

lemma above_search:
  "(if rc_is_module (klass_at h k) \<noteq> 0 then Some None
    else (case superclass h k of None \<Rightarrow> Some None | Some s \<Rightarrow> g s)) = first_of g (above h k)"
  by (auto simp: above_def split: option.split)

lemma find_instance_method_order:
  "ends h k \<Longrightarrow>
     ruby_class_find_instance_method h es name k = Some (first_some (own_method h es name) (order h k))"
proof (induction rule: ends_induct)
  case (ends k)
  have "first_some (own_method h es name) [k] = own_method h es name k"
    by (simp split: option.split)
  then have own: "Some (own_method h es name k) = Some (first_some (own_method h es name) [k])" by simp
  have sub: "first_of (ruby_class_find_instance_method h es name) ms =
      Some (first_some (own_method h es name) (orders h ms))"
    if "set ms \<subseteq> set (next_classes h k)" for ms
    using that ends.IH order_next(1) [OF ends.hyps] by (intro first_of_orders) blast
  show ?case
    by (subst ruby_class_find_instance_method.simps, subst own)
      (simp add: above_search sub next_subsets or_else_first order_eq [OF ends.hyps]
        del: first_some.simps)
qed

lemma has_module_order:
  "ends h k \<Longrightarrow> ruby_class_has_module h target k =
     Some (first_some (\<lambda>c. if c = target then Some () else None) (order h k))"
proof (induction rule: ends_induct)
  case (ends k)
  let ?f = "\<lambda>c. if c = target then Some () else None"
  have here: "\<exists>xs ys. order h m = xs @ m # ys" if "ends h m" for m
    using order_eq [OF that] by blast
  have hit: "first_some ?f zs = (if target \<in> set zs then Some () else None)" for zs
    by (induction zs) auto
  have sub: "first_of (ruby_class_has_module h target) ms = Some (first_some ?f (orders h ms))"
    if "set ms \<subseteq> set (next_classes h k)" for ms
    using that ends.IH order_next(1) [OF ends.hyps] by (intro first_of_orders) blast
  have sub': "first_of (\<lambda>m. or_else (Some (if m = target then Some () else None))
      (ruby_class_has_module h target m)) ms = Some (first_some ?f (orders h ms))"
    if "set ms \<subseteq> set (next_classes h k)" for ms
  proof (intro first_of_orders)
    fix m assume "m \<in> set ms"
    then have m: "ends h m" "ruby_class_has_module h target m = Some (first_some ?f (order h m))"
      using that ends.IH order_next(1) [OF ends.hyps] by blast+
    then show "or_else (Some (if m = target then Some () else None)) (ruby_class_has_module h target m)
        = Some (first_some ?f (order h m))"
      using here [OF m(1)] by (auto simp: hit)
  qed
  show ?case
  proof (cases "k = target")
    case True
    then have "target \<in> set (order h k)" using here [OF ends.hyps] by auto
    then show ?thesis using True by (subst ruby_class_has_module.simps) (simp add: hit)
  next
    case False
    then show ?thesis
      by (subst ruby_class_has_module.simps)
        (simp add: above_search sub sub' next_subsets or_else_first order_eq [OF ends.hyps] hit)
  qed
qed

lemma first_some_mem:
  "first_some (\<lambda>c. if c = target then Some () else None) ks =
     (if target \<in> set ks then Some () else None)"
  by (induction ks) auto

text \<open>The search for \<open>super\<close> scans the order for the class it comes after, then for the method.\<close>

fun scan_after :: "(ptr \<Rightarrow> 'a option) \<Rightarrow> ptr \<Rightarrow> ptr list \<Rightarrow> bool \<Rightarrow> 'a option \<times> bool" where
  "scan_after f after [] seen = (None, seen)"
| "scan_after f after (k # ks) seen =
     (case (if seen then f k else None) of
        Some y \<Rightarrow> (Some y, seen)
      | None \<Rightarrow> scan_after f after ks (seen \<or> k = after))"

lemma scan_after_append:
  "scan_after f after (xs @ ys) seen =
     (case scan_after f after xs seen of
        (Some y, seen) \<Rightarrow> (Some y, seen) | (None, seen) \<Rightarrow> scan_after f after ys seen)"
  by (induction xs arbitrary: seen) (simp_all split: option.split)

lemma or_next_scan:
  "(\<And>seen. g seen = Some (scan_after f after ys seen)) \<Longrightarrow>
     or_next (Some (scan_after f after xs seen)) g = Some (scan_after f after (xs @ ys) seen)"
  by (cases "scan_after f after xs seen"; cases "fst (scan_after f after xs seen)")
    (auto simp: scan_after_append)

lemma first_next_scan:
  "(\<And>m seen. m \<in> set ms \<Longrightarrow> g m seen = Some (scan_after f after (order h m) seen)) \<Longrightarrow>
     first_next g ms seen = Some (scan_after f after (orders h ms) seen)"
proof (induction ms arbitrary: seen)
  case (Cons m ms)
  have "first_next g ms seen = Some (scan_after f after (orders h ms) seen)" for seen
    using Cons by simp
  from or_next_scan [OF this, of "order h m" seen] show ?case using Cons.prems by simp
qed simp

lemma or_next_none [simp]: "or_next a (\<lambda>seen. Some (None, seen)) = a"
proof (cases a)
  case (Some y)
  then show ?thesis by (cases y; cases "fst y") auto
qed simp

lemma above_next:
  "(\<lambda>seen. if rc_is_module (klass_at h k) \<noteq> 0 then Some (None, seen)
     else (case superclass h k of None \<Rightarrow> Some (None, seen) | Some s \<Rightarrow> g s seen)) =
   first_next g (above h k)"
proof -
  have none: "first_next g [] = (\<lambda>seen. Some (None, seen))" by (simp add: fun_eq_iff)
  show ?thesis by (rule ext) (simp add: above_def none split: option.split)
qed

lemma super_here_scan:
  assumes "visible_method h es name k = Some (f k)"
  shows "super_here h es after name k seen = Some (scan_after f after [k] seen)"
  using assms by (cases "f k") (simp_all add: super_here_def)

lemma find_super_order:
  assumes "ends h k"
    and f: "\<And>c. c \<in> set (order h k) \<Longrightarrow> visible_method h es name c = Some (f c)"
  shows "ruby_class_find_super_method_inner h es after name k seen =
     Some (scan_after f after (order h k) seen)"
  using assms
proof (induction arbitrary: seen rule: ends_induct)
  case (ends k)
  let ?inner = "\<lambda>m seen. ruby_class_find_super_method_inner h es after name m seen"
  have sub: "first_next ?inner ms seen = Some (scan_after f after (orders h ms) seen)"
    if ms: "set ms \<subseteq> set (next_classes h k)" "set (orders h ms) \<subseteq> set (order h k)" for ms seen
  proof (rule first_next_scan)
    fix m seen assume m: "m \<in> set ms"
    then have "set (order h m) \<subseteq> set (order h k)" using ms(2) by auto
    then show "?inner m seen = Some (scan_after f after (order h m) seen)"
      using m ms(1) ends.prems order_next(1) [OF ends.hyps] by (intro ends.IH) auto
  qed
  note o = order_eq [OF ends.hyps]
  have here: "super_here h es after name k seen = Some (scan_after f after [k] seen)" for seen
    using ends.prems by (intro super_here_scan) (simp add: o)
  have pre: "first_next ?inner (rc_prepended (klass_at h k)) seen =
      Some (scan_after f after (orders h (rc_prepended (klass_at h k))) seen)" for seen
    by (rule sub [OF next_subsets(1)]) (auto simp: o)
  have inc: "first_next ?inner (rc_included (klass_at h k)) seen =
      Some (scan_after f after (orders h (rc_included (klass_at h k))) seen)" for seen
    by (rule sub [OF next_subsets(2)]) (auto simp: o)
  have up: "first_next ?inner (above h k) seen =
      Some (scan_after f after (orders h (above h k)) seen)" for seen
    by (rule sub [OF next_subsets(3)]) (auto simp: o)
  note below = or_next_scan [OF up, of "orders h (rc_included (klass_at h k))", folded inc]
  note rest = or_next_scan [OF below, of "[k]", folded here]
  show ?case
    by (subst ruby_class_find_super_method_inner.simps, subst above_next, subst pre)
      (simp only: or_next_scan [OF rest] o append_Cons append_Nil)
qed

lemma scan_seen: "fst (scan_after f after ks True) = first_some f ks"
  by (induction ks) (simp_all split: option.split)

lemma scan_not_seen:
  "fst (scan_after f after ks False) = first_some f (tl (dropWhile (\<lambda>c. c \<noteq> after) ks))"
  by (induction ks) (simp_all add: scan_seen)

subsection \<open>The collectors list each class once\<close>

definition firsts :: "'a list \<Rightarrow> 'a list" where
  "firsts xs = rev (remdups (rev xs))"

fun fresh :: "'a set \<Rightarrow> 'a list \<Rightarrow> 'a list" where
  "fresh S [] = []"
| "fresh S (x # xs) = (if x \<in> S then fresh S xs else x # fresh (insert x S) xs)"

lemma fresh_append: "fresh S (xs @ ys) = fresh S xs @ fresh (S \<union> set xs) ys"
  by (induction xs arbitrary: S) (auto simp: insert_absorb)

lemma fresh_insert: "x \<notin> set xs \<Longrightarrow> fresh (insert x S) xs = fresh S xs"
proof (induction xs arbitrary: S)
  case (Cons a xs)
  then have "fresh (insert x (insert a S)) xs = fresh (insert a S) xs" by simp
  then show ?case using Cons by (auto simp: insert_commute)
qed simp

lemma fresh_none: "set xs \<subseteq> S \<Longrightarrow> fresh S xs = []"
  by (induction xs) auto

lemma fresh_firsts: "fresh {} xs = firsts xs"
  by (induction xs rule: rev_induct) (auto simp: fresh_append firsts_def)

lemma order_self: "ends h k \<Longrightarrow> k \<in> set (order h k)"
  using order_eq by fastforce

lemma order_closed:
  "ends h k \<Longrightarrow> \<forall>x \<in> set (order h k).
     ends h x \<and> set (order h x) \<subseteq> set (order h k) \<and> length (order h x) \<le> length (order h k)"
proof (induction rule: ends_induct)
  case (ends k)
  note o = order_eq [OF ends.hyps]
  have sub: "set (order h m) \<subseteq> set (order h k)" if "m \<in> set (next_classes h k)" for m
    using that by (auto simp: o next_classes_def)
  show ?case
  proof
    fix x assume "x \<in> set (order h k)"
    then consider "x = k" | m where "m \<in> set (next_classes h k)" "x \<in> set (order h m)"
      by (auto simp: o next_classes_def)
    then show "ends h x \<and> set (order h x) \<subseteq> set (order h k) \<and> length (order h x) \<le> length (order h k)"
    proof cases
      case 2
      then show ?thesis
        using ends.IH [OF 2(1)] order_next [OF ends.hyps 2(1)] sub [OF 2(1)] by fastforce
    qed (simp add: ends.hyps)
  qed
qed

lemma order_next_self:
  assumes "ends h k" "m \<in> set (next_classes h k)"
  shows "k \<notin> set (order h m)"
  using order_closed [of h m] order_next [OF assms] assms(1) by (auto simp: not_le [symmetric])

text \<open>A class is done when all of its order is visited; the others visited are still open.\<close>

definition closed_done :: "heap \<Rightarrow> ptr set \<Rightarrow> bool" where
  "closed_done h D \<longleftrightarrow> (\<forall>d \<in> D. ends h d \<and> set (order h d) \<subseteq> D)"

definition room :: "nat \<Rightarrow> ptr set \<Rightarrow> ptr set \<Rightarrow> ptr list \<Rightarrow> ptr list \<Rightarrow> bool" where
  "room n D U ks vis \<longleftrightarrow>
     distinct vis \<and> set vis = D \<union> U \<and> U \<inter> set ks = {} \<and> card (set vis \<union> set ks) \<le> 256 \<and>
     257 \<le> n + length vis"

definition lists ::
  "(ptr \<Rightarrow> 's \<Rightarrow> 's) \<Rightarrow> ptr set \<Rightarrow> ptr list \<Rightarrow> 's \<times> ptr list \<Rightarrow> ('s \<times> ptr list) option \<Rightarrow> bool" where
  "lists push D ks st r \<longleftrightarrow>
     (\<exists>vis. r = Some (fold push (fresh D ks) (fst st), vis) \<and> distinct vis \<and>
        set vis = set (snd st) \<union> set ks)"

lemma closed_orders: "closed_done h D \<Longrightarrow> \<forall>m \<in> set ms. ends h m \<Longrightarrow> closed_done h (D \<union> set (orders h ms))"
  using order_closed unfolding closed_done_def by fastforce

lemma each_lists:
  assumes "\<And>m D U st. m \<in> set ms \<Longrightarrow> closed_done h D \<Longrightarrow> room n D U (order h m) (snd st) \<Longrightarrow>
      lists push D (order h m) st (g m st)"
    and "\<forall>m \<in> set ms. ends h m" "closed_done h D" "room n D U (orders h ms) (snd st)"
  shows "lists push D (orders h ms) st (each g ms st)"
  using assms
proof (induction ms arbitrary: D st)
  case Nil
  then show ?case by (cases st) (simp add: lists_def room_def)
next
  case (Cons m ms)
  have "card (set (snd st) \<union> set (order h m)) \<le> card (set (snd st) \<union> set (orders h (m # ms)))"
    by (intro card_mono) auto
  then have "room n D U (order h m) (snd st)"
    using Cons.prems(4) unfolding room_def by auto
  then have "lists push D (order h m) st (g m st)" using Cons.prems by simp
  then obtain vis where g: "g m st = Some (fold push (fresh D (order h m)) (fst st), vis)"
    and vis: "distinct vis" "set vis = set (snd st) \<union> set (order h m)" by (auto simp: lists_def)
  have "card (set (snd st)) \<le> card (set vis)" using vis(2) by (intro card_mono) auto
  moreover have "distinct (snd st)" using Cons.prems(4) by (simp add: room_def)
  ultimately have "length (snd st) \<le> length vis" using vis(1) by (metis distinct_card)
  then have "room n (D \<union> set (order h m)) U (orders h ms) vis"
    using Cons.prems(4) vis by (auto simp: room_def Un_ac)
  then have "lists push (D \<union> set (order h m)) (orders h ms)
      (fold push (fresh D (order h m)) (fst st), vis)
      (each g ms (fold push (fresh D (order h m)) (fst st), vis))"
    using Cons.prems closed_orders [OF Cons.prems(3), of "[m]"] by (intro Cons.IH) auto
  then show ?case
    using g vis by (auto simp: lists_def fresh_append)
qed

lemma above_each:
  "(if rc_is_module (klass_at h k) \<noteq> 0 then Some st
    else (case superclass h k of None \<Rightarrow> Some st | Some s \<Rightarrow> g s st)) = each g (above h k) st"
proof -
  have "each g [] = Some" by (simp add: fun_eq_iff)
  then show ?thesis by (simp add: above_def split: option.split)
qed

lemma collect_lists:
  "ends h k \<Longrightarrow> closed_done h D \<Longrightarrow> room n D U (order h k) (snd st) \<Longrightarrow>
     lists push D (order h k) st (collect_classes n h push k st)"
proof (induction arbitrary: n D U st rule: ends_induct)
  case (ends k)
  obtain arr vis where st: "st = (arr, vis)" by (cases st)
  have vis: "distinct vis" "set vis = D \<union> U" "U \<inter> set (order h k) = {}"
    "card (set vis \<union> set (order h k)) \<le> 256" "257 \<le> n + length vis"
    using ends.prems(2) by (auto simp: room_def st)
  have lv: "length vis = card (set vis)" using vis(1) by (simp add: distinct_card)
  also have "\<dots> \<le> card (set vis \<union> set (order h k))" by (simp add: card_mono)
  finally obtain n' where n: "n = Suc n'" using vis(4,5) by (cases n) auto
  have k: "k \<in> set (order h k)" by (rule order_self [OF ends.hyps])
  show ?case
  proof (cases "k \<in> set vis")
    case True
    then have "set (order h k) \<subseteq> D" using vis k ends.prems(1) by (auto simp: closed_done_def)
    then show ?thesis using True vis by (auto simp: n st visit_def lists_def fresh_none)
  next
    case False
    let ?pre = "rc_prepended (klass_at h k)" and ?inc = "rc_included (klass_at h k)"
    note o = order_eq [OF ends.hyps]
    have "card (insert k (set vis)) \<le> card (set vis \<union> set (order h k))"
      using k by (intro card_mono) auto
    then have len: "length vis < 256" using False vis(4) lv by simp
    have out: "k \<notin> set (orders h ms)" if "set ms \<subseteq> set (next_classes h k)" for ms
      using that order_next_self [OF ends.hyps] by auto
    have step: "lists push E (orders h ms) (a, v) (each (collect_classes n' h push) ms (a, v))"
      if ms: "set ms \<subseteq> set (next_classes h k)" "set (orders h ms) \<subseteq> set (order h k)"
        and E: "closed_done h E" "D \<subseteq> E" "E \<subseteq> D \<union> set (order h k)"
        and v: "distinct v" "set v = E \<union> insert k U"
      for ms E a v
    proof (rule each_lists)
      show "lists push D' (order h m) st' (collect_classes n' h push m st')"
        if "m \<in> set ms" "closed_done h D'" "room n' D' U' (order h m) (snd st')" for m D' U' st'
        using that ms(1) order_next(1) [OF ends.hyps] by (intro ends.IH) auto
      show "\<forall>m \<in> set ms. ends h m" using ms(1) order_next(1) [OF ends.hyps] by auto
      have "set v \<union> set (orders h ms) \<subseteq> set vis \<union> set (order h k)"
        using v(2) vis(2) E(3) ms(2) k by auto
      then have "card (set v \<union> set (orders h ms)) \<le> card (set vis \<union> set (order h k))"
        by (intro card_mono) simp_all
      then have "card (set v \<union> set (orders h ms)) \<le> 256" using vis(4) by simp
      moreover have "card (insert k (set vis)) \<le> card (set v)"
        using E(2) v(2) vis(2) by (intro card_mono [OF finite_set]) auto
      then have "257 \<le> n' + length v"
        using vis(5) n False lv distinct_card [OF v(1)] by simp
      moreover have "insert k U \<inter> set (orders h ms) = {}"
        using vis(3) ms(2) out [OF ms(1)] by blast
      ultimately show "room n' E (insert k U) (orders h ms) (snd (a, v))"
        using v by (simp add: room_def)
    qed (rule E(1))
    have sets: "set (orders h ?pre) \<subseteq> set (order h k)" "set (orders h ?inc) \<subseteq> set (order h k)"
      "set (orders h (above h k)) \<subseteq> set (order h k)"
      by (auto simp: o)
    note ns = next_subsets [of h k]
    have cl: "closed_done h (E \<union> set (orders h ms))"
      if "closed_done h E" "set ms \<subseteq> set (next_classes h k)" for E ms
      using that order_next(1) [OF ends.hyps] by (intro closed_orders) auto
    let ?D1 = "D \<union> set (orders h ?pre)" and ?a1 = "fold push (fresh D (orders h ?pre)) arr"
    let ?D2 = "?D1 \<union> set (orders h ?inc)"
    let ?a2 = "fold push (fresh ?D1 (orders h ?inc)) (push k ?a1)"
    note listed = step [unfolded lists_def fst_conv snd_conv]
    have D1: "closed_done h ?D1" by (rule cl [OF ends.prems(1) ns(1)])
    have D2: "closed_done h ?D2" by (rule cl [OF D1 ns(2)])
    have le: "?D1 \<subseteq> D \<union> set (order h k)" "?D2 \<subseteq> D \<union> set (order h k)" using sets by blast+
    have v0: "distinct (vis @ [k])" "set (vis @ [k]) = D \<union> insert k U" using vis(1,2) False by auto
    obtain v1 where 1: "each (collect_classes n' h push) ?pre (arr, vis @ [k]) = Some (?a1, v1)"
      "distinct v1" "set v1 = set (vis @ [k]) \<union> set (orders h ?pre)"
      using listed [OF ns(1) sets(1) ends.prems(1) subset_refl _ v0] by blast
    have v1: "set v1 = ?D1 \<union> insert k U" using 1(3) v0(2) by blast
    obtain v2 where 2: "each (collect_classes n' h push) ?inc (push k ?a1, v1) = Some (?a2, v2)"
      "distinct v2" "set v2 = set v1 \<union> set (orders h ?inc)"
      using listed [OF ns(2) sets(2) D1 _ le(1) 1(2) v1] by blast
    have v2: "set v2 = ?D2 \<union> insert k U" using 2(3) v1 by blast
    obtain v3 where 3: "each (collect_classes n' h push) (above h k) (?a2, v2) =
        Some (fold push (fresh ?D2 (orders h (above h k))) ?a2, v3)"
      "distinct v3" "set v3 = set v2 \<union> set (orders h (above h k))"
      using listed [OF ns(3) sets(3) D2 _ le(2) 2(2) v2] by blast
    have "k \<notin> D" using False vis(2) by auto
    then have "fresh D (order h k) = fresh D (orders h ?pre) @ k #
        fresh (insert k ?D1) (orders h ?inc @ orders h (above h k))"
      using out [OF ns(1)] by (simp add: o fresh_append)
    also have "fresh (insert k ?D1) (orders h ?inc @ orders h (above h k)) =
        fresh ?D1 (orders h ?inc) @ fresh ?D2 (orders h (above h k))"
      using out [OF ns(2)] out [OF ns(3)] by (subst fresh_insert) (auto simp: fresh_append)
    finally have fr: "fresh D (order h k) = fresh D (orders h ?pre) @ k #
        fresh ?D1 (orders h ?inc) @ fresh ?D2 (orders h (above h k))" .
    have "collect_classes n h push k st =
        Some (fold push (fresh ?D2 (orders h (above h k))) ?a2, v3)"
      using False len 1(1) 2(1) 3(1) by (simp add: n st visit_def above_each)
    moreover have "set v3 = set vis \<union> set (order h k)"
      unfolding 3(3) v2 vis(2) o set_append list.set(2) by blast
    ultimately show ?thesis using fr 3(2) by (simp add: lists_def st)
  qed
qed

subsection \<open>Properties\<close>

lemma first_some_firsts: "first_some f (firsts ks) = first_some f ks"
proof (induction ks rule: rev_induct)
  case (snoc k ks)
  have "first_some f ks = None \<Longrightarrow> k \<in> set ks \<Longrightarrow> f k = None" for k
    by (induction ks) (auto split: option.splits)
  then show ?case using snoc
    by (auto simp: firsts_def first_some_append split: option.split)
qed (simp add: firsts_def)

lemma fold_snoc: "fold (\<lambda>k arr. arr @ [f k]) ks arr = arr @ map f ks"
  by (induction ks arbitrary: arr) simp_all

definition class_value :: "ptr \<Rightarrow> rvalue" where
  "class_value k = mk_val (VAL_CLASS k)"

text \<open>A module, a root class and a class that includes the module, each with a method, for the witnesses.\<close>

definition sample_class :: "ptr option \<Rightarrow> ptr \<Rightarrow> ptr list \<Rightarrow> int \<Rightarrow> ruby_class" where
  "sample_class super e inc is_mod =
     \<lparr>rc_name = Some ''K'',
      rc_superclass = (case super of None \<Rightarrow> val_nil | Some s \<Rightarrow> class_value s),
      rc_class_env = Some e, rc_prepended = [], rc_included = inc, rc_extended = [],
      rc_is_module = is_mod\<rparr>"

definition sample_classes :: heap where
  "sample_classes = heap_empty\<lparr>h_classes :=
     [sample_class None 0 [] 1, sample_class None 1 [] 0, sample_class (Some 1) 2 [0] 0]\<rparr>"

definition sample_frames :: envs where
  "sample_frames = map (\<lambda>n. \<lparr>e_vars = [(n, val_method None None METHOD_PUBLIC None)],
     e_parent = None, e_is_def = True, e_block_arg = None\<rparr>) [''f'', ''g'', ''f'']"

lemmas sample_class_simps =
  sample_classes_def sample_class_def class_value_def mk_val_def val_nil_def superclass_def class_of_def

lemma sample_classes_at:
  "rc_prepended (klass_at sample_classes 0) = []" "rc_included (klass_at sample_classes 0) = []"
  "above sample_classes 0 = []"
  "rc_prepended (klass_at sample_classes (Suc 0)) = []"
  "rc_included (klass_at sample_classes (Suc 0)) = []" "above sample_classes (Suc 0) = []"
  "rc_prepended (klass_at sample_classes 2) = []" "rc_included (klass_at sample_classes 2) = [0]"
  "above sample_classes 2 = [1]"
  by (simp_all add: sample_class_simps above_def)

lemma sample_order: "mro sample_classes 2 = Some [2, 0, 1]"
proof -
  have "mro sample_classes 0 = Some [0]" "mro sample_classes 1 = Some [1]"
    by (subst mro.simps, simp add: sample_classes_at)+
  then show ?thesis by (subst mro.simps) (simp add: sample_classes_at)
qed

lemma ancestors_firsts:
  assumes "mro h k = Some ks" "card (set ks) \<le> 256"
  shows "\<exists>visited. collect_class_ancestors h k ([], []) = Some (map class_value (firsts ks), visited)"
proof -
  have e: "ends h k" and o: "order h k = ks" using assms(1) by (simp_all add: order_def)
  have "room 257 {} {} (order h k) (snd ([], []))" using assms(2) by (simp add: room_def o)
  from collect_lists [OF e _ this, of "\<lambda>k arr. arr @ [mk_val (VAL_CLASS k)]"]
  show ?thesis
    by (auto simp: closed_done_def lists_def collect_class_ancestors_def fold_snoc fresh_firsts o
        class_value_def [abs_def])
qed

lemma find_method_firsts:
  assumes "mro h k = Some ks"
  shows "ruby_class_find_instance_method h es name k = Some (first_some (own_method h es name) (firsts ks))"
  using find_instance_method_order [of h k es name] assms by (simp add: order_def first_some_firsts)

text \<open>C1: the listing of a class's ancestors ends, names each class once, and is the order both method
  lookup and the test for an included module go by: the method found is that of the first ancestor
  that defines or undefines the name, and the module is found just when it is an ancestor.\<close>

theorem lookup_follows_ancestors:
  assumes "mro h k = Some ks" "card (set ks) \<le> 256"
  shows "\<exists>anc visited. collect_class_ancestors h k ([], []) = Some (map class_value anc, visited) \<and>
    distinct anc \<and> set anc = set ks \<and>
    ruby_class_find_instance_method h es name k = Some (first_some (own_method h es name) anc) \<and>
    ruby_class_has_module h target k = Some (if target \<in> set anc then Some () else None)"
proof -
  have e: "ends h k" and o: "order h k = ks" using assms(1) by (simp_all add: order_def)
  obtain vis where "collect_class_ancestors h k ([], []) = Some (map class_value (firsts ks), vis)"
    using ancestors_firsts [OF assms] by blast
  moreover have "distinct (firsts ks)" "set (firsts ks) = set ks" by (simp_all add: firsts_def)
  ultimately show ?thesis
    using find_method_firsts [OF assms(1), of es name] has_module_order [OF e, of target]
    by (auto simp: first_some_firsts first_some_mem o)
qed

theorem lookup_follows_ancestors_witness:
  "\<exists>anc visited.
    collect_class_ancestors sample_classes 2 ([], []) = Some (map class_value anc, visited) \<and>
    distinct anc \<and> set anc = set [2, 0, 1] \<and>
    ruby_class_find_instance_method sample_classes sample_frames ''f'' 2 =
      Some (first_some (own_method sample_classes sample_frames ''f'') anc) \<and>
    ruby_class_has_module sample_classes 0 2 = Some (if 0 \<in> set anc then Some () else None)"
  by (rule lookup_follows_ancestors) (simp_all add: sample_order)

definition visible :: "heap \<Rightarrow> envs \<Rightarrow> string \<Rightarrow> ptr \<Rightarrow> (rvalue \<times> ptr) option" where
  "visible h es name k = Option.bind (visible_method h es name k) id"

lemma visible_method_returns:
  assumes "envs_ok es" "in_envs es (rc_class_env (klass_at h k))"
  shows "visible_method h es name k = Some (visible h es name k)"
  using env_path_exists [OF assms] env_get_path [of es "rc_class_env (klass_at h k)"]
  by (auto simp: visible_def visible_method_def)

text \<open>C2: \<open>super\<close> finds the method of the first class that sees one strictly after the first place of
  the class it is called from in the lookup order; it finds none when that class is not in the order.\<close>

theorem super_follows_order:
  assumes "mro h k = Some ks" "envs_ok es" "\<forall>c \<in> set ks. in_envs es (rc_class_env (klass_at h c))"
  shows "ruby_class_find_super_method h es k after name =
    Some (first_some (visible h es name) (tl (dropWhile (\<lambda>c. c \<noteq> after) ks)))"
proof -
  have e: "ends h k" and o: "order h k = ks" using assms(1) by (simp_all add: order_def)
  have "visible_method h es name c = Some (visible h es name c)" if "c \<in> set (order h k)" for c
    using that assms o by (intro visible_method_returns) auto
  from find_super_order [where f = "visible h es name", OF e this] show ?thesis
    by (simp add: ruby_class_find_super_method_def scan_not_seen o)
qed

theorem super_follows_order_witness:
  "ruby_class_find_super_method sample_classes sample_frames 2 2 ''f'' =
    Some (first_some (visible sample_classes sample_frames ''f'')
      (tl (dropWhile (\<lambda>c. c \<noteq> 2) [2, 0, 1])))"
proof (rule super_follows_order)
  show "envs_ok sample_frames"
    by (simp add: sample_frames_def envs_ok_def entries_ok_def All_less_Suc numeral_3_eq_3)
  show "\<forall>c \<in> set [2, 0, 1]. in_envs sample_frames (rc_class_env (klass_at sample_classes c))"
    by (simp add: sample_frames_def in_envs_def sample_class_simps)
qed (simp add: sample_order)

text \<open>C3: when every step from a class to a class it includes, prepends or inherits from goes down a
  rank, as it does without cycles, lookups and tests return whatever the name.\<close>

theorem lookup_returns_ranked:
  assumes "ranked rank h" "k < length (h_classes h)"
  shows "ruby_class_find_instance_method h es name k \<noteq> None \<and> ruby_class_has_module h target k \<noteq> None"
  using ends_rank [OF assms] find_instance_method_order has_module_order by simp

theorem lookup_returns_ranked_witness:
  "ruby_class_find_instance_method sample_classes sample_frames ''h'' 2 \<noteq> None \<and>
    ruby_class_has_module sample_classes 7 2 \<noteq> None"
proof (rule lookup_returns_ranked)
  show "ranked (\<lambda>c. if c = 2 then 1 else 0) sample_classes"
    using sample_classes_at
    by (simp add: ranked_def next_classes_def All_less_Suc numeral_3_eq_3 numeral_2_eq_2 sample_classes_def)
qed (simp add: sample_classes_def)

lemma cycle_diverges:
  assumes k: "rc_prepended (klass_at H k) = []" "rc_included (klass_at H k) = k # ms"
    "own_method H es name k = None"
  shows "ruby_class_find_instance_method H es name k = None"
proof -
  have False if "ruby_class_find_instance_method H es name k = Some r" for r
  proof -
    have "\<not> (H = H \<and> es = es \<and> name = name \<and> k = k)"
    proof (rule ruby_class_find_instance_method.raw_induct
          [where P = "\<lambda>h' es' name' k' r. \<not> (h' = H \<and> es' = es \<and> name' = name \<and> k' = k)", OF _ that])
      fix f h' es' name' k' r
      assume IH: "\<And>h' es' name' k' r. f h' es' name' k' = Some r \<Longrightarrow>
          \<not> (h' = H \<and> es' = es \<and> name' = name \<and> k' = k)"
        and body: "or_else (first_of (f h' es' name') (rc_prepended (klass_at h' k')))
          (or_else (Some (own_method h' es' name' k'))
          (or_else (first_of (f h' es' name') (rc_included (klass_at h' k')))
          (if rc_is_module (klass_at h' k') \<noteq> 0 then Some None
           else (case superclass h' k' of None \<Rightarrow> Some None | Some s \<Rightarrow> f h' es' name' s)))) = Some r"
      have "f H es name k = None" using IH [of H es name k] by (cases "f H es name k") auto
      then show "\<not> (h' = H \<and> es' = es \<and> name' = name \<and> k' = k)" using body k by auto
    qed
    then show ?thesis by simp
  qed
  then show ?thesis by (cases "ruby_class_find_instance_method H es name k") blast+
qed

text \<open>C4: a module that has been included in itself, which \<open>include\<close> does not refuse, makes the lookup of
  a method it does not have go on for ever.\<close>

theorem self_include_diverges:
  assumes "k < length (h_classes h)" "rc_prepended (klass_at h k) = []"
    "own_method h es name k = None"
  shows "ruby_class_find_instance_method (include_module k k h) es name k = None"
  using assms
  by (intro cycle_diverges) (simp_all add: include_module_def update_class_def own_method_def)

theorem self_include_diverges_witness:
  "ruby_class_find_instance_method (include_module 0 0 sample_classes) sample_frames ''h'' 0 = None"
proof (rule self_include_diverges)
  show "own_method sample_classes sample_frames ''h'' 0 = None"
    by (simp add: own_method_def env_get_own_def sample_class_simps sample_frames_def streq_def cstr_def)
qed (simp_all add: sample_class_simps)

end
