(* ===== verification/Dbl.thy ===== *)
theory Dbl
  imports Cfmt "HOL-Library.Signed_Division"
begin

section \<open>Integer and floating-point arithmetic of C\<close>

text \<open>
  An operation on \<open>int64_t\<close> with no defined result (overflow of \<open>+\<close>, \<open>-\<close>, \<open>*\<close>, division by zero or
  of the least integer by \<open>-1\<close>, a shift by a count out of range) gives \<open>None\<close>. The shifts are those
  of the compilers the program is built with: to the left on the bits, to the right with the sign.
  The operations on doubles are exact, then rounded to nearest; a NaN is the quiet one.
\<close>

subsection \<open>64-bit signed integers\<close>

definition i64_of :: "int \<Rightarrow> i64 option" where
  "i64_of i = (if LLONG_MIN \<le> i \<and> i \<le> LLONG_MAX then Some (word_of_int i) else None)"

definition add64 :: "i64 \<Rightarrow> i64 \<Rightarrow> i64 option" where "add64 a b = i64_of (sint a + sint b)"
definition sub64 :: "i64 \<Rightarrow> i64 \<Rightarrow> i64 option" where "sub64 a b = i64_of (sint a - sint b)"
definition mul64 :: "i64 \<Rightarrow> i64 \<Rightarrow> i64 option" where "mul64 a b = i64_of (sint a * sint b)"
definition neg64 :: "i64 \<Rightarrow> i64 option" where "neg64 a = i64_of (- sint a)"

definition div64 :: "i64 \<Rightarrow> i64 \<Rightarrow> i64 option" where
  "div64 a b = (if b = 0 then None else i64_of (sint a sdiv sint b))"

definition rem64 :: "i64 \<Rightarrow> i64 \<Rightarrow> i64 option" where
  "rem64 a b =
     (if b = 0 \<or> sint a = LLONG_MIN \<and> sint b = - 1 then None else i64_of (sint a smod sint b))"

definition shl64 :: "i64 \<Rightarrow> i64 \<Rightarrow> i64 option" where
  "shl64 a b = (if 0 \<le> sint b \<and> sint b < 64 then Some (push_bit (nat (sint b)) a) else None)"

definition shr64 :: "i64 \<Rightarrow> i64 \<Rightarrow> i64 option" where
  "shr64 a b =
     (if 0 \<le> sint b \<and> sint b < 64 then Some (word_of_int (drop_bit (nat (sint b)) (sint a))) else None)"

lemma sint_range: "LLONG_MIN \<le> sint (a :: i64) \<and> sint a \<le> LLONG_MAX"
  using sint_greater_eq [of a] sint_lt [of a] by (simp add: LLONG_MIN_def LLONG_MAX_def)

lemma sint_word: "LLONG_MIN \<le> i \<Longrightarrow> i \<le> LLONG_MAX \<Longrightarrow> sint (word_of_int i :: i64) = i"
  by (simp add: LLONG_MIN_def LLONG_MAX_def sint_sbintrunc' signed_take_bit_int_eq_self)

lemma i64_of_Some: "i64_of i = Some w \<longleftrightarrow> LLONG_MIN \<le> i \<and> i \<le> LLONG_MAX \<and> w = word_of_int i"
  by (auto simp: i64_of_def)

lemma sint_i64_of: "i64_of i = Some w \<Longrightarrow> sint w = i"
  by (auto simp: i64_of_Some sint_word)

lemma sint_eq_0 [simp]: "sint (a :: i64) = 0 \<longleftrightarrow> a = 0"
  by (fact signed_eq_0_iff)

subsection \<open>Doubles\<close>

definition dbl_nan :: u64 where "dbl_nan = 0x7FF8000000000000"

definition dbl_mag :: "u64 \<Rightarrow> nat" where "dbl_mag w = unat w mod 2 ^ 63"

definition dbl_is_inf :: "u64 \<Rightarrow> bool" where "dbl_is_inf w \<longleftrightarrow> dbl_mag w = dbl_infinity"

definition dbl_is_zero :: "u64 \<Rightarrow> bool" where "dbl_is_zero w \<longleftrightarrow> dbl_mag w = 0"

definition dbl_inf :: "bool \<Rightarrow> u64" where
  "dbl_inf neg = word_of_nat ((if neg then 2 ^ 63 else 0) + dbl_infinity)"

definition dbl_zero :: "bool \<Rightarrow> u64" where
  "dbl_zero neg = word_of_nat (if neg then 2 ^ 63 else 0)"

text \<open>The value of a finite double as a numerator and a denominator.\<close>

definition dbl_frac :: "u64 \<Rightarrow> int \<times> nat" where
  "dbl_frac w = (let (n, d) = dbl_ratio w in (if dbl_neg w then - int n else int n, d))"

definition dbl_round :: "int \<Rightarrow> nat \<Rightarrow> u64" where
  "dbl_round n d = dbl_of_ratio (n < 0) (nat \<bar>n\<bar>) d"

definition dbl_negate :: "u64 \<Rightarrow> u64" where "dbl_negate w = w XOR 0x8000000000000000"

definition dbl_add :: "u64 \<Rightarrow> u64 \<Rightarrow> u64" where
  "dbl_add a b =
     (if dbl_is_nan a \<or> dbl_is_nan b then dbl_nan
      else if dbl_is_inf a then (if dbl_is_inf b \<and> dbl_neg a \<noteq> dbl_neg b then dbl_nan else a)
      else if dbl_is_inf b then b
      else let (m, c) = dbl_frac a; (n, d) = dbl_frac b; s = m * int d + n * int c
           in if s = 0 then dbl_zero (dbl_neg a \<and> dbl_neg b) else dbl_round s (c * d))"

definition dbl_sub :: "u64 \<Rightarrow> u64 \<Rightarrow> u64" where "dbl_sub a b = dbl_add a (dbl_negate b)"

definition dbl_mul :: "u64 \<Rightarrow> u64 \<Rightarrow> u64" where
  "dbl_mul a b =
     (let neg = (dbl_neg a \<noteq> dbl_neg b)
      in if dbl_is_nan a \<or> dbl_is_nan b then dbl_nan
         else if dbl_is_inf a \<or> dbl_is_inf b then
           (if dbl_is_zero a \<or> dbl_is_zero b then dbl_nan else dbl_inf neg)
         else let (m, c) = dbl_ratio a; (n, d) = dbl_ratio b in dbl_of_ratio neg (m * n) (c * d))"

definition dbl_div :: "u64 \<Rightarrow> u64 \<Rightarrow> u64" where
  "dbl_div a b =
     (let neg = (dbl_neg a \<noteq> dbl_neg b)
      in if dbl_is_nan a \<or> dbl_is_nan b then dbl_nan
         else if dbl_is_inf a then (if dbl_is_inf b then dbl_nan else dbl_inf neg)
         else if dbl_is_inf b then dbl_zero neg
         else if dbl_is_zero b then (if dbl_is_zero a then dbl_nan else dbl_inf neg)
         else let (m, c) = dbl_ratio a; (n, d) = dbl_ratio b in dbl_of_ratio neg (m * d) (c * n))"

text \<open>\<open>fmod\<close> is exact; its result has the sign of the dividend.\<close>

definition dbl_fmod :: "u64 \<Rightarrow> u64 \<Rightarrow> u64" where
  "dbl_fmod a b =
     (if dbl_is_nan a \<or> dbl_is_nan b \<or> dbl_is_inf a \<or> dbl_is_zero b then dbl_nan
      else if dbl_is_inf b then a
      else let (m, c) = dbl_ratio a; (n, d) = dbl_ratio b
           in dbl_of_ratio (dbl_neg a) ((m * d) mod (n * c)) (c * d))"

definition dbl_less :: "u64 \<Rightarrow> u64 \<Rightarrow> bool" where
  "dbl_less a b \<longleftrightarrow>
     \<not> dbl_is_nan a \<and> \<not> dbl_is_nan b \<and> \<not> (dbl_is_zero a \<and> dbl_is_zero b) \<and>
     (if dbl_neg a then (if dbl_neg b then dbl_mag b < dbl_mag a else True)
      else (if dbl_neg b then False else dbl_mag a < dbl_mag b))"

definition dbl_leq :: "u64 \<Rightarrow> u64 \<Rightarrow> bool" where
  "dbl_leq a b \<longleftrightarrow> dbl_less a b \<or> dbl_eq a b"

text \<open>The conversion \<open>(int64_t)f\<close> truncates; out of range it is undefined.\<close>

definition dbl_to_int64 :: "u64 \<Rightarrow> i64 option" where
  "dbl_to_int64 w =
     (if dbl_is_nan w \<or> dbl_is_inf w then None
      else let (n, d) = dbl_ratio w; q = int (n div d) in i64_of (if dbl_neg w then - q else q))"

end
