(* ===== verification/EvalState.thy ===== *)
theory EvalState
  imports Methods Dbl ValueStr Ast "HOL-Library.Monad_Syntax"
begin

section \<open>The evaluator: state and exceptions (src/eval.h, src/eval_support.c)\<close>

text \<open>
  The struct \<open>Eval\<close> with the stores that pointers refer to: the heap, the frames of variables, and
  the nodes that methods and blocks point to. Nodes of equal content are one node of the store. A
  function takes the state and returns its result with the state after it; \<open>None\<close> is no result: the
  recursion does not end within the bound, or the C code has no defined behaviour.
\<close>

subsection \<open>The state\<close>

record eval_frame =
  fr_line :: u32
  fr_col :: u32
  fr_label :: string

record eval =
  ev_heap :: heap
  ev_envs :: envs
  ev_nodes :: "node list"
  ev_globals :: "rvalue entries"
  ev_top_env :: ptr
  ev_call_depth :: nat
  ev_errored :: bool
  ev_errmsg :: string
  ev_current_exception :: rvalue
  ev_rescue_context :: rvalue
  ev_exception_line :: u32
  ev_exception_col :: u32
  ev_exception_class :: "string option"
  ev_exception_msg :: string
  ev_frames :: "eval_frame list"
  ev_active_defs :: "ptr list"
  ev_current_file :: "string option"

definition EVAL_MAX_DEPTH :: nat where "EVAL_MAX_DEPTH = 512"

type_synonym 'a run = "('a \<times> eval) option"

text \<open>
  The functions that call each other, and what the evaluator calls outside the modelled code:
  \<open>dispatch_method\<close> with the built-in methods, \<open>builtin_kernel\<close>, \<open>val_responds_to\<close>, the regexp
  compiler, \<open>pow\<close> of the mathematical library, the addresses printed for objects. \<open>k_depth\<close> bounds the nesting of values compared and
  printed. A block is a pointer to a value.
\<close>

record runner =
  k_eval :: "ptr \<Rightarrow> node option \<Rightarrow> eval \<Rightarrow> rvalue run"
  k_assign :: "ptr \<Rightarrow> node option \<Rightarrow> rvalue \<Rightarrow> eval \<Rightarrow> eval option"
  k_bind :: "ptr \<Rightarrow> node option \<Rightarrow> rvalue \<Rightarrow> eval \<Rightarrow> eval option"
  k_match :: "ptr \<Rightarrow> ptr \<Rightarrow> rvalue \<Rightarrow> node option \<Rightarrow> eval \<Rightarrow> bool run"
  k_rope :: "ptr \<Rightarrow> rope option \<Rightarrow> string \<Rightarrow> eval \<Rightarrow> string run"
  k_dispatch :: "ptr \<Rightarrow> rvalue \<Rightarrow> string \<Rightarrow> rvalue list \<Rightarrow> ptr option \<Rightarrow> node option \<Rightarrow> bool \<Rightarrow> int \<Rightarrow>
    eval \<Rightarrow> rvalue run"
  k_kernel :: "ptr \<Rightarrow> string \<Rightarrow> rvalue list \<Rightarrow> ptr option \<Rightarrow> node \<Rightarrow> eval \<Rightarrow> rvalue run"
  k_responds_to :: "rvalue \<Rightarrow> string \<Rightarrow> bool \<Rightarrow> eval \<Rightarrow> bool run"
  k_pow :: "u64 \<Rightarrow> u64 \<Rightarrow> u64"
  k_regex_compile :: "string \<Rightarrow> u32 \<Rightarrow> string + ptr"
  k_addr :: "ptr \<Rightarrow> u64"
  k_depth :: nat

subsection \<open>Access to the stores\<close>

definition on_heap :: "(heap \<Rightarrow> 'a \<times> heap) \<Rightarrow> eval \<Rightarrow> 'a \<times> eval" where
  "on_heap f ev = (let (x, h) = f (ev_heap ev) in (x, ev\<lparr>ev_heap := h\<rparr>))"

definition set_heap :: "(heap \<Rightarrow> heap) \<Rightarrow> eval \<Rightarrow> eval" where
  "set_heap f ev = ev\<lparr>ev_heap := f (ev_heap ev)\<rparr>"

definition new_env :: "ptr option \<Rightarrow> bool \<Rightarrow> eval \<Rightarrow> ptr \<times> eval" where
  "new_env parent is_def ev =
     (let (p, es) = env_new parent is_def (ev_envs ev) in (p, ev\<lparr>ev_envs := es\<rparr>))"

definition lookup :: "ptr option \<Rightarrow> string \<Rightarrow> eval \<Rightarrow> rvalue option option" where
  "lookup sc name ev = env_get (ev_envs ev) sc name"

definition lookup_own :: "ptr option \<Rightarrow> string \<Rightarrow> eval \<Rightarrow> rvalue option" where
  "lookup_own sc name ev = env_get_own (ev_envs ev) sc name"

definition define_var :: "ptr \<Rightarrow> string \<Rightarrow> rvalue \<Rightarrow> eval \<Rightarrow> eval" where
  "define_var p name v ev = ev\<lparr>ev_envs := env_define p name v (ev_envs ev)\<rparr>"

definition set_var :: "ptr \<Rightarrow> string \<Rightarrow> rvalue \<Rightarrow> eval \<Rightarrow> eval option" where
  "set_var p name v ev =
     map_option (\<lambda>es. ev\<lparr>ev_envs := es\<rparr>) (env_set p name v (ev_envs ev))"

text \<open>A variable that a caller has set to nil before it looks the name up.\<close>

definition lookup_nil :: "ptr option \<Rightarrow> string \<Rightarrow> eval \<Rightarrow> rvalue option" where
  "lookup_nil sc name ev =
     map_option (\<lambda>found. case found of Some v \<Rightarrow> v | None \<Rightarrow> val_nil) (lookup sc name ev)"

definition set_global :: "string \<Rightarrow> rvalue \<Rightarrow> eval \<Rightarrow> eval" where
  "set_global name v ev = ev\<lparr>ev_globals := global_set name v (ev_globals ev)\<rparr>"

definition get_global :: "string \<Rightarrow> eval \<Rightarrow> rvalue option" where
  "get_global name ev = global_get (ev_globals ev) name"

definition set_ivar :: "rvalue \<Rightarrow> string \<Rightarrow> rvalue \<Rightarrow> eval \<Rightarrow> eval" where
  "set_ivar obj name v = set_heap (val_object_set_ivar obj name v)"

definition get_ivar :: "rvalue \<Rightarrow> string \<Rightarrow> eval \<Rightarrow> rvalue option" where
  "get_ivar obj name ev = val_object_get_ivar obj name (ev_heap ev)"

definition new_string :: "string \<Rightarrow> eval \<Rightarrow> rvalue \<times> eval" where
  "new_string s = on_heap (val_string (Some s))"

definition new_symbol :: "string \<Rightarrow> eval \<Rightarrow> rvalue \<times> eval" where
  "new_symbol s ev = (let (p, ev) = on_heap (alloc_str s) ev in (val_symbol p, ev))"

definition new_array :: "rvalue list \<Rightarrow> eval \<Rightarrow> rvalue \<times> eval" where
  "new_array xs ev =
     (let (arr, ev) = on_heap val_array_new ev
      in (arr, fold (\<lambda>x. set_heap (val_array_push arr x)) xs ev))"

definition node_at :: "ptr option \<Rightarrow> eval \<Rightarrow> node option" where
  "node_at p ev = (case p of None \<Rightarrow> None
     | Some i \<Rightarrow> if i < length (ev_nodes ev) then Some (ev_nodes ev ! i) else None)"

fun index_of :: "'a \<Rightarrow> 'a list \<Rightarrow> nat" where
  "index_of x [] = 0"
| "index_of x (y # ys) = (if x = y then 0 else Suc (index_of x ys))"

definition node_ptr :: "node \<Rightarrow> eval \<Rightarrow> ptr \<times> eval" where
  "node_ptr nd ev =
     (index_of nd (ev_nodes ev),
      if nd \<in> set (ev_nodes ev) then ev else ev\<lparr>ev_nodes := ev_nodes ev @ [nd]\<rparr>)"

definition obj_at :: "ptr \<Rightarrow> eval \<Rightarrow> ruby_object" where
  "obj_at p ev = h_objects (ev_heap ev) ! p"

definition klass_of :: "ptr \<Rightarrow> eval \<Rightarrow> ruby_class" where
  "klass_of k ev = klass_at (ev_heap ev) k"

definition array_elems :: "ptr \<Rightarrow> eval \<Rightarrow> rvalue list" where
  "array_elems p ev = ra_elems (h_arrays (ev_heap ev) ! p)"

definition hash_at :: "ptr \<Rightarrow> eval \<Rightarrow> ruby_hash" where
  "hash_at p ev = h_hashes (ev_heap ev) ! p"

text \<open>The text of a string or a symbol, as \<open>strcmp\<close> reads it.\<close>

definition sval_text :: "rvalue \<Rightarrow> eval \<Rightarrow> string option" where
  "sval_text v ev =
     (case v_data v of
        VAL_STRING (Some p) \<Rightarrow> Some (h_strs (ev_heap ev) ! p)
      | VAL_SYMBOL (Some p) \<Rightarrow> Some (h_strs (ev_heap ev) ! p)
      | _ \<Rightarrow> None)"

text \<open>The value a jump carries.\<close>

definition wrapped :: "rvalue \<Rightarrow> eval \<Rightarrow> rvalue option" where
  "wrapped v ev =
     (case v_data v of
        VAL_RETURN (Some p) _ \<Rightarrow> Some (h_vals (ev_heap ev) ! p)
      | VAL_BREAK (Some p) \<Rightarrow> Some (h_vals (ev_heap ev) ! p)
      | VAL_NEXT (Some p) \<Rightarrow> Some (h_vals (ev_heap ev) ! p)
      | _ \<Rightarrow> None)"

definition str_ok :: "string option str_result \<Rightarrow> string option" where
  "str_ok r = (case r of Inr (Some s) \<Rightarrow> Some s | _ \<Rightarrow> None)"

definition to_s :: "runner \<Rightarrow> rvalue \<Rightarrow> eval \<Rightarrow> string option" where
  "to_s K v ev = str_ok (val_to_s (k_addr K) (k_depth K) (ev_heap ev) v)"

definition inspect :: "runner \<Rightarrow> rvalue \<Rightarrow> eval \<Rightarrow> string option" where
  "inspect K v ev = str_ok (val_inspect (k_addr K) (k_depth K) (ev_heap ev) v)"

definition equal :: "runner \<Rightarrow> rvalue \<Rightarrow> rvalue \<Rightarrow> eval \<Rightarrow> bool option" where
  "equal K a b ev = val_equal (k_depth K) (ev_heap ev) a b"

text \<open>The macro \<open>CHECK\<close>: an error or a signal is passed on.\<close>

definition stops :: "rvalue \<Rightarrow> eval \<Rightarrow> bool" where
  "stops v ev \<longleftrightarrow> ev_errored ev \<or> val_is_signal v"

definition is_nil :: "rvalue \<Rightarrow> bool" where "is_nil v \<longleftrightarrow> v_data v = VAL_NIL"

definition is_object :: "rvalue \<Rightarrow> bool" where
  "is_object v = (case v_data v of VAL_OBJECT _ \<Rightarrow> True | _ \<Rightarrow> False)"

definition is_exception :: "rvalue \<Rightarrow> bool" where "is_exception v \<longleftrightarrow> v_data v = VAL_EXCEPTION"

subsection \<open>Frames of the backtrace\<close>

text \<open>A full stack drops the frame that is pushed; a pop takes one off all the same.\<close>

definition eval_push_frame :: "u32 \<Rightarrow> u32 \<Rightarrow> string \<Rightarrow> eval \<Rightarrow> eval" where
  "eval_push_frame line col label ev =
     (if length (ev_frames ev) \<ge> EVAL_MAX_DEPTH then ev
      else ev\<lparr>ev_frames := ev_frames ev @ [\<lparr>fr_line = line, fr_col = col, fr_label = label\<rparr>]\<rparr>)"

definition eval_pop_frame :: "eval \<Rightarrow> eval" where
  "eval_pop_frame ev = ev\<lparr>ev_frames := butlast (ev_frames ev)\<rparr>"

definition push_active :: "ptr \<Rightarrow> eval \<Rightarrow> eval" where
  "push_active p ev =
     (if length (ev_active_defs ev) < EVAL_MAX_DEPTH
      then ev\<lparr>ev_active_defs := ev_active_defs ev @ [p]\<rparr> else ev)"

definition pop_active :: "eval \<Rightarrow> eval" where
  "pop_active ev = ev\<lparr>ev_active_defs := butlast (ev_active_defs ev)\<rparr>"

definition eval_def_target_active :: "ptr option \<Rightarrow> eval \<Rightarrow> bool" where
  "eval_def_target_active target ev =
     (case target of None \<Rightarrow> False | Some p \<Rightarrow> p \<in> set (ev_active_defs ev))"

subsection \<open>Exceptions\<close>

definition exception_value_class_name :: "rvalue \<Rightarrow> eval \<Rightarrow> string option" where
  "exception_value_class_name exc ev =
     (case v_data exc of
        VAL_OBJECT p \<Rightarrow>
          (case class_of (ro_klass (obj_at p ev)) of
             Some k \<Rightarrow> rc_name (klass_of k ev) | None \<Rightarrow> Some ''RuntimeError'')
      | _ \<Rightarrow> Some ''RuntimeError'')"

definition exception_value_message :: "runner \<Rightarrow> rvalue \<Rightarrow> eval \<Rightarrow> string option" where
  "exception_value_message K exc ev =
     (case get_ivar exc ''message'' ev of
        Some msg \<Rightarrow> to_s K msg ev | None \<Rightarrow> exception_value_class_name exc ev)"

definition frame_text :: "eval_frame \<Rightarrow> string" where
  "frame_text f = snprintf 256 (show_nat (unat (fr_line f)) @ '':'' @ show_nat (unat (fr_col f)) @
     '':in `'' @ fr_label f @ ''`'')"

definition push_string :: "rvalue \<Rightarrow> string \<Rightarrow> eval \<Rightarrow> eval" where
  "push_string arr s ev = (let (v, ev) = new_string s ev in set_heap (val_array_push arr v) ev)"

text \<open>\<open>klass\<close> may be nil: the exception then has no class, and the message is given.\<close>

definition build_exception_object :: "rvalue \<Rightarrow> string \<Rightarrow> eval \<Rightarrow> rvalue \<times> eval" where
  "build_exception_object klass msg ev =
     (let (exc, ev) = on_heap (val_object klass) ev;
          (m, ev) = new_string msg ev;
          ev = set_ivar exc ''message'' m ev;
          (trace, ev) = on_heap val_array_new ev;
          ev = fold (push_string trace) (map frame_text (rev (ev_frames ev))) ev
      in (exc, set_ivar exc ''backtrace'' trace ev))"

text \<open>An uninitialized class is undefined: neither the name nor \<open>RuntimeError\<close> was found.\<close>

definition build_exception :: "string \<Rightarrow> string \<Rightarrow> eval \<Rightarrow> rvalue run" where
  "build_exception class_name msg ev = do {
     found \<leftarrow> lookup (Some (ev_top_env ev)) class_name ev;
     runtime \<leftarrow> lookup (Some (ev_top_env ev)) ''RuntimeError'' ev;
     klass \<leftarrow> (case Option.bind found class_of of
         Some k \<Rightarrow> found
       | None \<Rightarrow> (case runtime of Some v \<Rightarrow> Some v | None \<Rightarrow> found));
     Some (build_exception_object klass msg ev)
   }"

definition exception_set_message :: "rvalue \<Rightarrow> rvalue \<Rightarrow> eval \<Rightarrow> eval" where
  "exception_set_message exc msg ev = (if is_object exc then set_ivar exc ''message'' msg ev else ev)"

definition exception_set_backtrace :: "rvalue \<Rightarrow> rvalue \<Rightarrow> eval \<Rightarrow> eval" where
  "exception_set_backtrace exc trace ev =
     (if is_object exc then set_ivar exc ''backtrace'' trace ev else ev)"

definition set_exception_origin :: "rvalue \<Rightarrow> u32 \<Rightarrow> u32 \<Rightarrow> eval \<Rightarrow> eval" where
  "set_exception_origin exc line col ev =
     (if is_object exc then
        set_ivar exc ''col'' (val_int (ucast col)) (set_ivar exc ''line'' (val_int (ucast line)) ev)
      else ev)"

definition ivar_u32 :: "rvalue \<Rightarrow> string \<Rightarrow> eval \<Rightarrow> u32" where
  "ivar_u32 exc name ev =
     (case get_ivar exc name ev of
        Some v \<Rightarrow> (case v_data v of VAL_INT i \<Rightarrow> ucast i | _ \<Rightarrow> 0) | None \<Rightarrow> 0)"

definition exception_value_line :: "rvalue \<Rightarrow> eval \<Rightarrow> u32" where
  "exception_value_line exc ev = ivar_u32 exc ''line'' ev"

definition exception_value_col :: "rvalue \<Rightarrow> eval \<Rightarrow> u32" where
  "exception_value_col exc ev = ivar_u32 exc ''col'' ev"

definition exception_value_backtrace :: "rvalue \<Rightarrow> eval \<Rightarrow> rvalue \<times> eval" where
  "exception_value_backtrace exc ev =
     (case get_ivar exc ''backtrace'' ev of Some v \<Rightarrow> (v, ev) | None \<Rightarrow> new_array [] ev)"

definition span_text :: "span \<Rightarrow> string" where
  "span_text s = show_nat (unat (sp_line s)) @ '':'' @ show_nat (unat (sp_col s))"

definition eval_error :: "node option \<Rightarrow> string \<Rightarrow> eval \<Rightarrow> rvalue \<times> eval" where
  "eval_error n msg ev =
     (val_nil,
      if ev_errored ev then ev
      else ev\<lparr>ev_errored := True,
              ev_errmsg := (let tmp = snprintf 480 msg
                 in snprintf 512 (case n of None \<Rightarrow> tmp | Some n \<Rightarrow> span_text (n_span n) @ '': '' @ tmp))\<rparr>)"

text \<open>A negative precision is no precision.\<close>

definition format_exception_summary :: "string \<Rightarrow> string \<Rightarrow> eval \<Rightarrow> eval" where
  "format_exception_summary class_name msg ev =
     (let room = int 512 - int (length class_name) - 3;
          m = (if room < 0 then msg else take (nat room) msg)
      in ev\<lparr>ev_exception_msg := snprintf 512 (class_name @ '': '' @ m)\<rparr>)"

definition set_origin :: "node option \<Rightarrow> eval \<Rightarrow> eval" where
  "set_origin n ev =
     (case n of
        None \<Rightarrow> ev
      | Some n \<Rightarrow> ev\<lparr>ev_exception_line := sp_line (n_span n), ev_exception_col := sp_col (n_span n)\<rparr>)"

definition set_node_origin :: "rvalue \<Rightarrow> node option \<Rightarrow> eval \<Rightarrow> eval" where
  "set_node_origin exc n ev =
     (case n of None \<Rightarrow> ev
      | Some n \<Rightarrow> set_exception_origin exc (sp_line (n_span n)) (sp_col (n_span n)) ev)"

text \<open>An exception already in flight, which \<open>exception_msg\<close> shows, is kept.\<close>

definition eval_raise :: "node option \<Rightarrow> string \<Rightarrow> eval \<Rightarrow> rvalue run" where
  "eval_raise n msg ev =
     (if ev_exception_msg ev \<noteq> [] then Some (val_exception, ev)
      else do {
        let raw = snprintf 512 msg;
        (exc, ev) \<leftarrow> build_exception ''RuntimeError'' raw (ev\<lparr>ev_exception_class := Some ''RuntimeError''\<rparr>);
        let ev = set_node_origin exc n (ev\<lparr>ev_current_exception := exc\<rparr>);
        Some (val_exception, set_origin n (format_exception_summary ''RuntimeError'' raw ev))
      })"

definition eval_raise_class :: "node option \<Rightarrow> string \<Rightarrow> string \<Rightarrow> eval \<Rightarrow> rvalue run" where
  "eval_raise_class n class_name msg ev =
     (if ev_exception_msg ev \<noteq> [] then Some (val_exception, ev)
      else do {
        let raw = snprintf 512 msg;
        (exc, ev) \<leftarrow> build_exception class_name raw (ev\<lparr>ev_exception_class := Some class_name\<rparr>);
        let ev = ev\<lparr>ev_current_exception := exc\<rparr>;
        let ev = (if is_object (ev_rescue_context ev)
                  then set_ivar exc ''__cause__'' (ev_rescue_context ev) ev else ev);
        let ev = set_node_origin exc n ev;
        Some (val_exception, set_origin n (format_exception_summary class_name raw ev))
      })"

definition eval_raise_encoding_error :: "node option \<Rightarrow> string \<Rightarrow> eval \<Rightarrow> rvalue run" where
  "eval_raise_encoding_error n where_from =
     eval_raise_class n ''EncodingError'' (''invalid UTF-8 in '' @ where_from)"

definition add_cause :: "rvalue \<Rightarrow> eval \<Rightarrow> eval" where
  "add_cause exc ev =
     (if is_object (ev_rescue_context ev) \<and> is_object exc \<and>
         (case get_ivar exc ''__cause__'' ev of None \<Rightarrow> True | Some v \<Rightarrow> is_nil v)
      then set_ivar exc ''__cause__'' (ev_rescue_context ev) ev else ev)"

definition eval_raise_value :: "runner \<Rightarrow> node option \<Rightarrow> rvalue \<Rightarrow> eval \<Rightarrow> rvalue run" where
  "eval_raise_value K n exc ev =
     (if ev_exception_msg ev \<noteq> [] then Some (val_exception, ev)
      else do {
        let ev = add_cause exc ev;
        cls \<leftarrow> exception_value_class_name exc ev;
        msg \<leftarrow> exception_value_message K exc ev;
        let line = exception_value_line exc ev;
        let col = exception_value_col exc ev;
        let ev = ev\<lparr>ev_current_exception := exc, ev_exception_class := Some cls,
                    ev_exception_msg := snprintf 512 (cls @ '': '' @ msg),
                    ev_exception_line := line, ev_exception_col := col\<rparr>;
        Some (val_exception,
          if line = 0 \<or> col = 0 then set_node_origin exc n (set_origin n ev) else ev)
      })"

definition eval_clear_exception :: "eval \<Rightarrow> eval" where
  "eval_clear_exception ev =
     ev\<lparr>ev_current_exception := val_nil, ev_exception_line := 0, ev_exception_col := 0,
        ev_exception_class := None, ev_exception_msg := []\<rparr>"

text \<open>What several callers do after a dispatch that failed.\<close>

definition forget_error :: "eval \<Rightarrow> eval" where
  "forget_error ev = ev\<lparr>ev_errored := False, ev_exception_class := None, ev_exception_msg := []\<rparr>"

definition value_class_name :: "rvalue \<Rightarrow> eval \<Rightarrow> string option" where
  "value_class_name v ev =
     (let own = (case v_data v of
            VAL_OBJECT p \<Rightarrow> Option.bind (class_of (ro_klass (obj_at p ev))) (\<lambda>k. rc_name (klass_of k ev))
          | VAL_CLASS k \<Rightarrow> rc_name (klass_of k ev)
          | _ \<Rightarrow> None)
      in case own of
           Some n \<Rightarrow> Some n
         | None \<Rightarrow>
             (case v_data v of
                VAL_INT _ \<Rightarrow> Some ''Integer'' | VAL_FLOAT _ \<Rightarrow> Some ''Float''
              | VAL_STRING _ \<Rightarrow> Some ''String'' | VAL_SYMBOL _ \<Rightarrow> Some ''Symbol''
              | VAL_ARRAY _ \<Rightarrow> Some ''Array'' | VAL_HASH _ \<Rightarrow> Some ''Hash''
              | VAL_RANGE _ \<Rightarrow> Some ''Range'' | VAL_NIL \<Rightarrow> Some ''NilClass''
              | VAL_BOOL b \<Rightarrow> Some (if b \<noteq> 0 then ''TrueClass'' else ''FalseClass'')
              | VAL_METHOD _ _ _ _ \<Rightarrow> Some ''Method'' | VAL_BLOCK _ _ _ _ _ \<Rightarrow> Some ''Proc''
              | d \<Rightarrow> do {
                  found \<leftarrow> lookup (Some (ev_top_env ev)) (val_kind_name d) ev;
                  Some (case Option.bind found class_of of
                      Some k \<Rightarrow> (case rc_name (klass_of k ev) of Some n \<Rightarrow> n | None \<Rightarrow> val_kind_name d)
                    | None \<Rightarrow> val_kind_name d)
                }))"

end
