(* ===== verification/EvalNames.thy ===== *)
theory EvalNames
  imports EvalState
begin

section \<open>The evaluator: constants, class variables and assignment (src/eval.c)\<close>

subsection \<open>Singleton environments and local variables\<close>

text \<open>The slot of a heap object; \<open>None\<close> for a value that has none.\<close>

definition value_singleton_env_slot :: "rvalue \<Rightarrow> eval \<Rightarrow> ptr option option" where
  "value_singleton_env_slot recv ev =
     (case v_data recv of
        VAL_OBJECT p \<Rightarrow> Some (ro_singleton_env (obj_at p ev))
      | VAL_ARRAY (Some p) \<Rightarrow> Some (ra_singleton_env (h_arrays (ev_heap ev) ! p))
      | VAL_HASH (Some p) \<Rightarrow> Some (rh_singleton_env (hash_at p ev))
      | _ \<Rightarrow> None)"

definition set_singleton_env :: "rvalue \<Rightarrow> ptr \<Rightarrow> eval \<Rightarrow> eval" where
  "set_singleton_env recv e = set_heap (\<lambda>h.
     case v_data recv of
       VAL_OBJECT p \<Rightarrow>
         h\<lparr>h_objects := (h_objects h)[p := (h_objects h ! p)\<lparr>ro_singleton_env := Some e\<rparr>]\<rparr>
     | VAL_ARRAY (Some p) \<Rightarrow>
         h\<lparr>h_arrays := (h_arrays h)[p := (h_arrays h ! p)\<lparr>ra_singleton_env := Some e\<rparr>]\<rparr>
     | VAL_HASH (Some p) \<Rightarrow>
         h\<lparr>h_hashes := (h_hashes h)[p := (h_hashes h ! p)\<lparr>rh_singleton_env := Some e\<rparr>]\<rparr>
     | _ \<Rightarrow> h)"

text \<open>The environment in the slot, made when it is missing.\<close>

definition open_singleton_env :: "rvalue \<Rightarrow> eval \<Rightarrow> (ptr \<times> eval) option" where
  "open_singleton_env recv ev =
     (case value_singleton_env_slot recv ev of
        None \<Rightarrow> None
      | Some (Some e) \<Rightarrow> Some (e, ev)
      | Some None \<Rightarrow> (let (e, ev) = new_env None True ev in Some (e, set_singleton_env recv e ev)))"

definition assign_lvar :: "ptr \<Rightarrow> string \<Rightarrow> rvalue \<Rightarrow> eval \<Rightarrow> eval option" where
  "assign_lvar env name v ev = do {
     (found, es) \<leftarrow> env_update (Some env) name v (ev_envs ev);
     if found then Some (ev\<lparr>ev_envs := es\<rparr>) else set_var env name v ev
   }"

subsection \<open>Names with ::\<close>

fun last_sep :: "nat \<Rightarrow> string \<Rightarrow> nat option \<Rightarrow> nat option" where
  "last_sep i (c # d # s) found =
     (if c = CHR '':'' \<and> d = CHR '':'' then last_sep (i + 2) s (Some i)
      else last_sep (i + 1) (d # s) found)"
| "last_sep i s found = found"

fun first_sep :: "string \<Rightarrow> nat option" where
  "first_sep (c # d # s) =
     (if c = CHR '':'' \<and> d = CHR '':'' then Some 0 else map_option Suc (first_sep (d # s)))"
| "first_sep s = None"

definition skip_colons :: "string \<Rightarrow> string" where
  "skip_colons s = (if take 2 s = ''::'' then drop 2 s else s)"

definition split_const_path :: "string \<Rightarrow> string option \<times> string" where
  "split_const_path full_name =
     (let cursor = skip_colons full_name
      in case last_sep 0 cursor None of
           None \<Rightarrow> (None, cursor)
         | Some i \<Rightarrow> (Some (take i cursor), drop (i + 2) cursor))"

definition qualify_const_name :: "string option \<Rightarrow> string \<Rightarrow> string" where
  "qualify_const_name prefix leaf =
     (case prefix of None \<Rightarrow> leaf | Some [] \<Rightarrow> leaf | Some p \<Rightarrow> p @ ''::'' @ leaf)"

subsection \<open>Constants\<close>

text \<open>A name in the environments of a class and its superclasses, with the class it is found at.\<close>

partial_function (option) chain_get ::
  "heap \<Rightarrow> envs \<Rightarrow> ptr option \<Rightarrow> string \<Rightarrow> (ptr \<times> rvalue) option option" where
  "chain_get h es klass name =
     (case klass of
        None \<Rightarrow> Some None
      | Some k \<Rightarrow> or_else (map_option (map_option (Pair k)) (env_get es (rc_class_env (klass_at h k)) name))
          (chain_get h es (superclass h k) name))"

definition chain_lookup :: "ptr option \<Rightarrow> string \<Rightarrow> eval \<Rightarrow> (ptr \<times> rvalue) option option" where
  "chain_lookup klass name ev = chain_get (ev_heap ev) (ev_envs ev) klass name"

definition current_class :: "ptr option \<Rightarrow> eval \<Rightarrow> ptr option option" where
  "current_class env ev = map_option (\<lambda>c. Option.bind c class_of) (lookup env ''__class__'' ev)"

text \<open>
  The scopes around a class are found by cutting its qualified name; the head of the shorter name is
  looked up at the top only. Two classes whose names refer to each other would never be left.
\<close>

partial_function (option) scope_search :: "eval \<Rightarrow> string \<Rightarrow> ptr option \<Rightarrow> rvalue option option" where
  "scope_search ev name scope =
     (case scope of
        None \<Rightarrow> Some None
      | Some k \<Rightarrow> or_else (map_option (map_option snd) (chain_lookup (Some k) name ev))
          (case rc_name (klass_of k ev) of
             None \<Rightarrow> Some None
           | Some n \<Rightarrow>
               (case last_sep 0 n None of
                  None \<Rightarrow> Some None
                | Some i \<Rightarrow>
                    Option.bind (lookup_nil (Some (ev_top_env ev)) (take i n) ev)
                      (\<lambda>outer. scope_search ev name (class_of outer)))))"

definition qualified_entry :: "string \<Rightarrow> string \<Rightarrow> string \<times> rvalue \<Rightarrow> bool" where
  "qualified_entry name cls e =
     (let n = cstr (fst e); at = length n - (length name + 2)
      in length name + 2 < length n \<and> take 2 (drop at n) = ''::'' \<and> drop (at + 2) n = name \<and>
         length cls + 2 + length name \<le> length n \<and> take (length cls) n = cls)"

definition lookup_const_head :: "ptr option \<Rightarrow> string \<Rightarrow> eval \<Rightarrow> rvalue option" where
  "lookup_const_head env name ev = do {
     scope \<leftarrow> current_class env ev;
     scoped \<leftarrow> scope_search ev name scope;
     at_top \<leftarrow> lookup (Some (ev_top_env ev)) name ev;
     case (scoped, at_top) of
       (Some v, _) \<Rightarrow> Some v
     | (None, Some v) \<Rightarrow> Some v
     | (None, None) \<Rightarrow>
         (case Option.bind scope (\<lambda>k. rc_name (klass_of k ev)) of
            None \<Rightarrow> Some val_nil
          | Some cls \<Rightarrow>
              Some (case find (qualified_entry name cls) (e_vars (ev_envs ev ! ev_top_env ev)) of
                  Some (n, v) \<Rightarrow> v | None \<Rightarrow> val_nil))
   }"

text \<open>A part of a path has at most 255 characters.\<close>

partial_function (option) const_parts :: "eval \<Rightarrow> rvalue \<Rightarrow> string \<Rightarrow> rvalue option" where
  "const_parts ev current cursor =
     (let sep = first_sep cursor;
          part = (case sep of None \<Rightarrow> cursor | Some i \<Rightarrow> take i cursor)
      in if 256 \<le> length part then Some val_nil
         else (case Option.bind (class_of current) (\<lambda>k. rc_class_env (klass_of k ev)) of
            None \<Rightarrow> Some val_nil
          | Some e \<Rightarrow>
              Option.bind (chain_lookup (class_of current) part ev) (\<lambda>found.
                case found of
                  None \<Rightarrow> Some val_nil
                | Some (k, v) \<Rightarrow>
                    (case sep of None \<Rightarrow> Some v | Some i \<Rightarrow> const_parts ev v (drop (i + 2) cursor)))))"

definition lookup_const_path :: "ptr option \<Rightarrow> string \<Rightarrow> eval \<Rightarrow> rvalue option" where
  "lookup_const_path env name ev =
     (let cursor = skip_colons name
      in case first_sep cursor of
           None \<Rightarrow> lookup_const_head env cursor ev
         | Some i \<Rightarrow>
             if 256 \<le> i then Some val_nil
             else do {
               current \<leftarrow> lookup_const_head env (take i cursor) ev;
               if is_nil current then Some val_nil else const_parts ev current (drop (i + 2) cursor)
             })"

definition lookup_const_on_class :: "rvalue \<Rightarrow> string \<Rightarrow> eval \<Rightarrow> rvalue option" where
  "lookup_const_on_class current part ev =
     map_option (\<lambda>found. case found of Some (k, v) \<Rightarrow> v | None \<Rightarrow> val_nil)
       (chain_lookup (class_of current) part ev)"

subsection \<open>Class variables\<close>

definition cvar_key :: "string \<Rightarrow> string" where "cvar_key name = ''@@'' @ name"

definition self_klass :: "rvalue \<Rightarrow> eval \<Rightarrow> ptr option" where
  "self_klass self ev =
     (case v_data self of
        VAL_CLASS k \<Rightarrow> Some k | VAL_OBJECT p \<Rightarrow> class_of (ro_klass (obj_at p ev)) | _ \<Rightarrow> None)"

text \<open>The defining class of the method first, then the classes of \<open>self\<close>.\<close>

definition find_cvar :: "ptr \<Rightarrow> string \<Rightarrow> eval \<Rightarrow> (ptr \<times> rvalue) option option" where
  "find_cvar env name ev = do {
     ctx \<leftarrow> current_class (Some env) ev;
     self \<leftarrow> lookup_nil (Some env) ''self'' ev;
     or_else (chain_lookup ctx (cvar_key name) ev) (chain_lookup (self_klass self ev) (cvar_key name) ev)
   }"

definition assign_cvar :: "ptr \<Rightarrow> string \<Rightarrow> rvalue \<Rightarrow> eval \<Rightarrow> eval option" where
  "assign_cvar env name v ev = do {
     ctx \<leftarrow> current_class (Some env) ev;
     self \<leftarrow> lookup_nil (Some env) ''self'' ev;
     found \<leftarrow> find_cvar env name ev;
     let owner = (case found of Some (k, w) \<Rightarrow> Some k
       | None \<Rightarrow> (case ctx of Some k \<Rightarrow> Some k | None \<Rightarrow> self_klass self ev));
     Some (case Option.bind owner (\<lambda>k. rc_class_env (klass_of k ev)) of
         Some e \<Rightarrow> define_var e (cvar_key name) v ev
       | None \<Rightarrow> set_global (cvar_key name) v ev)
   }"

end
