(* ===== verification/EvalAssign.thy ===== *)
theory EvalAssign
  imports EvalNames
begin

subsection \<open>Destructuring (assign_target of src/eval.c, bind_pattern of src/eval_support.c)\<close>

definition data_of :: "node option \<Rightarrow> ndata option" where
  "data_of n = map_option n_data n"

definition is_splat :: "node option \<Rightarrow> bool" where
  "is_splat n = (case data_of n of Some (NParam _ _ f) \<Rightarrow> p_splat f | _ \<Rightarrow> False)"

text \<open>The elements of the value assigned, read again for each target; \<open>None\<close> when it is no array.\<close>

definition value_elems :: "rvalue \<Rightarrow> eval \<Rightarrow> rvalue list option" where
  "value_elems v ev = (case v_data v of VAL_ARRAY (Some p) \<Rightarrow> Some (array_elems p ev) | _ \<Rightarrow> None)"

fun splat_index :: "nat \<Rightarrow> node_list \<Rightarrow> nat option \<Rightarrow> nat option" where
  "splat_index i [] found = found"
| "splat_index i (x # xs) found = splat_index (i + 1) xs (if is_splat x then Some i else found)"

definition splat_values :: "rvalue \<Rightarrow> nat \<Rightarrow> nat \<Rightarrow> eval \<Rightarrow> rvalue list" where
  "splat_values v len idx ev =
     (let tail = len - idx - 1
      in case value_elems v ev of
           Some xs \<Rightarrow> map (\<lambda>j. xs ! j) [idx ..< length xs - tail]
         | None \<Rightarrow> if idx = 0 \<and> tail = 0 then [v] else [])"

definition element_value :: "rvalue \<Rightarrow> nat \<Rightarrow> nat option \<Rightarrow> nat \<Rightarrow> eval \<Rightarrow> rvalue" where
  "element_value v len splat idx ev =
     (case (value_elems v ev, splat) of
        (Some xs, Some s) \<Rightarrow>
          if s < idx then (if len - idx \<le> length xs then xs ! (length xs - (len - idx)) else val_nil)
          else if idx < length xs then xs ! idx else val_nil
      | (Some xs, None) \<Rightarrow> if idx < length xs then xs ! idx else val_nil
      | (None, _) \<Rightarrow> if idx = 0 then v else val_nil)"

fun destructure ::
  "(node option \<Rightarrow> rvalue \<Rightarrow> eval \<Rightarrow> eval option) \<Rightarrow> rvalue \<Rightarrow> nat \<Rightarrow> nat option \<Rightarrow> nat \<Rightarrow>
     node_list \<Rightarrow> eval \<Rightarrow> eval option" where
  "destructure f v len splat idx [] ev = Some ev"
| "destructure f v len splat idx (x # xs) ev = do {
     let (e, ev) = (if is_splat x then new_array (splat_values v len idx ev) ev
                    else (element_value v len splat idx ev, ev));
     ev \<leftarrow> f x e ev;
     destructure f v len splat (idx + 1) xs ev
   }"

definition destructure_all ::
  "(node option \<Rightarrow> rvalue \<Rightarrow> eval \<Rightarrow> eval option) \<Rightarrow> node_list \<Rightarrow> rvalue \<Rightarrow> eval \<Rightarrow> eval option" where
  "destructure_all f xs v = destructure f v (length xs) (splat_index 0 xs None) 0 xs"

definition bind_pattern :: "runner \<Rightarrow> ptr \<Rightarrow> node option \<Rightarrow> rvalue \<Rightarrow> eval \<Rightarrow> eval option" where
  "bind_pattern K env pat v ev =
     (case data_of pat of
        Some (NParam name _ _) \<Rightarrow>
          Some (case name of Some n \<Rightarrow> define_var env n v ev | None \<Rightarrow> ev)
      | Some (NArray xs) \<Rightarrow> destructure_all (k_bind K env) xs v ev
      | _ \<Rightarrow> Some ev)"

subsection \<open>Assignment to a target\<close>

definition validate_special_global_assignment ::
  "runner \<Rightarrow> node \<Rightarrow> string \<Rightarrow> rvalue \<Rightarrow> eval \<Rightarrow> bool run" where
  "validate_special_global_assignment K target name v ev =
     (if \<not> (streq name ''stdout'' \<or> streq name ''stderr'') then Some (True, ev)
      else do {
        io \<leftarrow> or_test
          (value_is_a_named_class (ev_heap ev) (ev_envs ev) (Some (ev_top_env ev)) v ''IO'')
          (value_is_a_named_class (ev_heap ev) (ev_envs ev) (Some (ev_top_env ev)) v ''File'');
        if io then Some (True, ev)
        else do {
          (ok, ev) \<leftarrow> k_responds_to K v ''write'' True ev;
          if ok then Some (True, ev)
          else do {
            cls \<leftarrow> value_class_name v ev;
            (r, ev) \<leftarrow> eval_raise_class (Some target) ''TypeError''
              (''$'' @ name @ '' must have write method, '' @ cls @ '' given'') ev;
            Some (False, ev)
          }
        }
      })"

definition assign_ivar :: "node \<Rightarrow> ptr \<Rightarrow> string \<Rightarrow> rvalue \<Rightarrow> eval \<Rightarrow> eval option" where
  "assign_ivar target env name v ev = do {
     found \<leftarrow> lookup (Some env) ''self'' ev;
     case found of
       None \<Rightarrow> Some (set_global name v ev)
     | Some self \<Rightarrow>
         (case v_data self of
            VAL_OBJECT p \<Rightarrow>
              if ro_frozen (obj_at p ev) \<noteq> 0 then do {
                kname \<leftarrow> (case class_of (ro_klass (obj_at p ev)) of
                    Some k \<Rightarrow> rc_name (klass_of k ev) | None \<Rightarrow> Some ''Object'');
                (r, ev) \<leftarrow> eval_raise_class (Some target) ''FrozenError'' (''can't modify frozen '' @ kname) ev;
                Some ev
              } else Some (set_ivar self name v ev)
          | VAL_CLASS k \<Rightarrow>
              Some (case rc_class_env (klass_of k ev) of
                  Some e \<Rightarrow> define_var e (CHR ''@'' # name) v ev | None \<Rightarrow> set_global name v ev)
          | _ \<Rightarrow> Some (set_global name v ev))
   }"

definition anonymous_name :: "string \<Rightarrow> bool" where
  "anonymous_name n \<longleftrightarrow>
     take 17 n = ''Struct::Anonymous'' \<or> take 8 n = ''#<Class:'' \<or> streq n ''#<Class>'' \<or>
     take 9 n = ''Anonymous''"

definition rename_anonymous :: "string \<Rightarrow> rvalue \<Rightarrow> eval \<Rightarrow> eval" where
  "rename_anonymous name v ev =
     (case v_data v of
        VAL_CLASS k \<Rightarrow>
          (case rc_name (klass_of k ev) of
             Some n \<Rightarrow>
               if anonymous_name n then set_heap (update_class (\<lambda>c. c\<lparr>rc_name := Some name\<rparr>) k) ev else ev
           | None \<Rightarrow> ev)
      | _ \<Rightarrow> ev)"

text \<open>Whether \<open>self\<close> is the class whose body is being run in this environment.\<close>

definition class_body_self :: "ptr \<Rightarrow> eval \<Rightarrow> ptr option option" where
  "class_body_self env ev =
     map_option (\<lambda>found. case Option.bind found class_of of
         Some k \<Rightarrow> if rc_class_env (klass_of k ev) = Some env then Some k else None
       | None \<Rightarrow> None) (lookup (Some env) ''self'' ev)"

definition assign_const :: "ptr \<Rightarrow> string \<Rightarrow> rvalue \<Rightarrow> eval \<Rightarrow> eval option" where
  "assign_const env name v ev =
     (let (parent_name, leaf) = split_const_path name; root = ev_top_env ev
      in do {
        parent \<leftarrow> (case parent_name of
            None \<Rightarrow> Some val_nil | Some pn \<Rightarrow> lookup_const_path (Some env) pn ev);
        case Option.bind (class_of parent) (\<lambda>k. rc_class_env (klass_of k ev)) of
          Some e \<Rightarrow> Some (define_var root name v (define_var e leaf v ev))
        | None \<Rightarrow> do {
            body \<leftarrow> class_body_self env ev;
            Some (rename_anonymous name v
              (case body of
                 Some k \<Rightarrow> define_var root (qualify_const_name (rc_name (klass_of k ev)) name) v
                             (define_var env name v ev)
               | None \<Rightarrow> define_var root name v ev))
          }
      })"

text \<open>The arguments of a subscript or attribute: at most 64, those without a node left out.\<close>

fun target_args :: "runner \<Rightarrow> ptr \<Rightarrow> node_list \<Rightarrow> rvalue list \<Rightarrow> eval \<Rightarrow> rvalue list option run" where
  "target_args K env [] acc ev = Some (Some acc, ev)"
| "target_args K env (x # xs) acc ev =
     (if 64 \<le> length acc then Some (Some acc, ev)
      else if x = None then target_args K env xs acc ev
      else do {
        (a, ev) \<leftarrow> k_eval K env x ev;
        if val_is_signal a then Some (None, ev\<lparr>ev_errored := True\<rparr>)
        else target_args K env xs (acc @ [a]) ev
      })"

definition setter_name :: "string \<Rightarrow> string" where
  "setter_name m =
     (if streq m ''[]'' then ''[]=''
      else if cstr m \<noteq> [] \<and> last (cstr m) \<noteq> CHR ''='' then cstr m @ ''='' else m)"

definition assign_call ::
  "runner \<Rightarrow> ptr \<Rightarrow> node \<Rightarrow> node option \<Rightarrow> string \<Rightarrow> node_list \<Rightarrow> rvalue \<Rightarrow> eval \<Rightarrow> eval option" where
  "assign_call K env target recv meth args v ev = do {
     (r, ev) \<leftarrow> k_eval K env (if recv = None then Some target else recv) ev;
     if val_is_signal r then Some (ev\<lparr>ev_errored := True\<rparr>)
     else do {
       (vals, ev) \<leftarrow> target_args K env args [] ev;
       case vals of
         None \<Rightarrow> Some ev
       | Some vs \<Rightarrow> do {
           (w, ev) \<leftarrow> k_dispatch K env r (setter_name meth) (vs @ [v]) None (Some target) False 1 ev;
           Some ev
         }
     }
   }"

definition assign_target :: "runner \<Rightarrow> ptr \<Rightarrow> node option \<Rightarrow> rvalue \<Rightarrow> eval \<Rightarrow> eval option" where
  "assign_target K env target v ev =
     (case target of
        None \<Rightarrow> Some ev
      | Some t \<Rightarrow>
          (case n_data t of
             NArray xs \<Rightarrow> destructure_all (k_assign K env) xs v ev
           | NParam (Some name) _ _ \<Rightarrow> assign_lvar env name v ev
           | NSval K_LVAR name \<Rightarrow> assign_lvar env name v ev
           | NSval K_IVAR name \<Rightarrow> assign_ivar t env name v ev
           | NSval K_GVAR name \<Rightarrow> do {
               (ok, ev) \<leftarrow> validate_special_global_assignment K t name v ev;
               Some (if ok then set_global name v ev else ev)
             }
           | NSval K_CVAR name \<Rightarrow> assign_cvar env name v ev
           | NSval K_CONST name \<Rightarrow> assign_const env name v ev
           | NCall recv meth args _ _ \<Rightarrow> assign_call K env t recv meth args v ev
           | _ \<Rightarrow> Some ev))"

subsection \<open>Exceptions caught, and defined?\<close>

partial_function (option) chain_has_name :: "heap \<Rightarrow> ptr option \<Rightarrow> string \<Rightarrow> bool option" where
  "chain_has_name h klass name =
     (case klass of
        None \<Rightarrow> Some False
      | Some k \<Rightarrow> or_test (name_is h name k) (chain_has_name h (superclass h k) name))"

definition exception_is_a :: "rvalue \<Rightarrow> eval \<Rightarrow> bool option" where
  "exception_is_a klass ev =
     (case (class_of klass, v_data (ev_current_exception ev)) of
        (Some c, VAL_OBJECT p) \<Rightarrow>
          (case (class_of (ro_klass (obj_at p ev)), rc_name (klass_of c ev)) of
             (Some k, Some name) \<Rightarrow> chain_has_name (ev_heap ev) (Some k) name
           | _ \<Rightarrow> None)
      | _ \<Rightarrow> Some False)"

text \<open>The value of a simple expression, \<open>Some None\<close> when it is not defined or not simple.\<close>

definition defined_simple_value :: "ptr \<Rightarrow> node option \<Rightarrow> eval \<Rightarrow> rvalue option run" where
  "defined_simple_value env n ev =
     (case n of
        None \<Rightarrow> Some (None, ev)
      | Some n \<Rightarrow>
          (case n_data n of
             NPlain K_NIL \<Rightarrow> Some (Some val_nil, ev)
           | NPlain K_TRUE \<Rightarrow> Some (Some val_true, ev)
           | NPlain K_FALSE \<Rightarrow> Some (Some val_false, ev)
           | NPlain K_SELF \<Rightarrow> map_option (\<lambda>v. (v, ev)) (lookup (Some env) ''self'' ev)
           | NInt i \<Rightarrow> Some (Some (val_int i), ev)
           | NFloat f \<Rightarrow> Some (Some (val_float f), ev)
           | NSval K_STRING s \<Rightarrow>
               (let (v, ev) = on_heap (val_string_n (take (n_slen n) s)) ev in Some (Some v, ev))
           | NSval K_SYMBOL s \<Rightarrow> (let (v, ev) = new_symbol s ev in Some (Some v, ev))
           | NSval K_LVAR s \<Rightarrow> map_option (\<lambda>v. (v, ev)) (lookup (Some env) s ev)
           | NSval K_IVAR s \<Rightarrow>
               map_option (\<lambda>found. (case found of
                   Some self \<Rightarrow> if is_object self then get_ivar self s ev else get_global s ev
                 | None \<Rightarrow> get_global s ev, ev)) (lookup (Some env) ''self'' ev)
           | NSval K_GVAR s \<Rightarrow> Some (get_global s ev, ev)
           | NSval K_CVAR s \<Rightarrow> map_option (\<lambda>found. (map_option snd found, ev)) (find_cvar env s ev)
           | NSval K_CONST s \<Rightarrow>
               map_option (\<lambda>v. (if is_nil v then None else Some v, ev)) (lookup_const_path (Some env) s ev)
           | _ \<Rightarrow> Some (None, ev)))"

definition defined_method :: "runner \<Rightarrow> ptr \<Rightarrow> rvalue \<Rightarrow> string \<Rightarrow> node \<Rightarrow> eval \<Rightarrow> bool run" where
  "defined_method K env recv name site ev = do {
     let (sym, ev) = new_symbol name ev;
     (r, ev) \<leftarrow> k_dispatch K env recv ''respond_to?'' [sym, val_true] None (Some site) False 1 ev;
     if is_exception r then Some (False, eval_clear_exception ev)
     else Some (case v_data r of VAL_BOOL b \<Rightarrow> b \<noteq> 0 | _ \<Rightarrow> False, ev)
   }"

definition when_defined :: "string \<Rightarrow> 'a option run \<Rightarrow> string option run" where
  "when_defined label r = map_option (\<lambda>(v, ev). (if v = None then None else Some label, ev)) r"

definition when_method :: "bool run \<Rightarrow> string option run" where
  "when_method r = map_option (\<lambda>(b, ev). (if b then Some ''method'' else None, ev)) r"

definition defined_expr :: "runner \<Rightarrow> ptr \<Rightarrow> node option \<Rightarrow> eval \<Rightarrow> string option run" where
  "defined_expr K env n ev =
     (case n of
        None \<Rightarrow> Some (None, ev)
      | Some nd \<Rightarrow>
          (case n_data nd of
             NSval K_LVAR s \<Rightarrow> do {
               found \<leftarrow> lookup (Some env) s ev;
               self \<leftarrow> lookup_nil (Some env) ''self'' ev;
               if found \<noteq> None then Some (Some ''local-variable'', ev)
               else when_method (defined_method K env self s nd ev)
             }
           | NSval K_IVAR s \<Rightarrow> when_defined ''instance-variable'' (defined_simple_value env n ev)
           | NSval K_CVAR s \<Rightarrow> when_defined ''class variable'' (defined_simple_value env n ev)
           | NSval K_GVAR s \<Rightarrow> when_defined ''global-variable'' (defined_simple_value env n ev)
           | NSval K_CONST s \<Rightarrow> when_defined ''constant'' (defined_simple_value env n ev)
           | NPlain K_SELF \<Rightarrow> Some (Some ''self'', ev)
           | NAssign _ _ \<Rightarrow> Some (Some ''assignment'', ev)
           | NBinop K_OP_ASSIGN _ _ _ \<Rightarrow> Some (Some ''assignment'', ev)
           | NPlain K_NIL \<Rightarrow> Some (Some ''nil'', ev)
           | NPlain K_TRUE \<Rightarrow> Some (Some ''true'', ev)
           | NPlain K_FALSE \<Rightarrow> Some (Some ''false'', ev)
           | NCall None meth _ _ _ \<Rightarrow> do {
               self \<leftarrow> lookup_nil (Some env) ''self'' ev;
               when_method (defined_method K env self meth nd ev)
             }
           | NCall recv meth _ _ _ \<Rightarrow> do {
               (v, ev) \<leftarrow> defined_simple_value env recv ev;
               case v of
                 None \<Rightarrow> Some (None, ev) | Some r \<Rightarrow> when_method (defined_method K env r meth nd ev)
             }
           | _ \<Rightarrow> Some (Some ''expression'', ev)))"

end
