(* ===== verification/EvalMatch.thy ===== *)
theory EvalMatch
  imports EvalAssign
begin

section \<open>The evaluator: pattern matching (src/eval.c)\<close>

text \<open>
  Every function gives whether the value matches, with the state after it; the variables captured are
  defined in \<open>benv\<close>. Signals met on the way are cleared and count as no match.
\<close>

subsection \<open>Array patterns\<close>

text \<open>The elements are matched one by one from the start given; \<open>False\<close> at the first that does not.\<close>

fun match_each :: "runner \<Rightarrow> ptr \<Rightarrow> ptr \<Rightarrow> ptr \<Rightarrow> nat \<Rightarrow> node_list \<Rightarrow> eval \<Rightarrow> bool run" where
  "match_each K env benv arr i [] ev = Some (True, ev)"
| "match_each K env benv arr i (x # xs) ev = do {
     (ok, ev) \<leftarrow> k_match K env benv (array_elems arr ev ! i) x ev;
     if ok then match_each K env benv arr (i + 1) xs ev else Some (False, ev)
   }"

definition bind_slice :: "ptr \<Rightarrow> string option \<Rightarrow> ptr \<Rightarrow> nat \<Rightarrow> nat \<Rightarrow> eval \<Rightarrow> eval" where
  "bind_slice benv name arr from till ev =
     (case name of
        None \<Rightarrow> ev
      | Some n \<Rightarrow>
          (let (v, ev) = new_array (map (\<lambda>j. array_elems arr ev ! j) [from ..< till]) ev
           in define_var benv n v ev))"

definition copy_vars :: "ptr \<Rightarrow> ptr \<Rightarrow> eval \<Rightarrow> eval" where
  "copy_vars from benv ev =
     fold (\<lambda>(n, v). define_var benv n v) (e_vars (ev_envs ev ! from)) ev"

text \<open>The find pattern: the first start where all elements match in a trial environment.\<close>

fun find_match ::
  "runner \<Rightarrow> ptr \<Rightarrow> ptr \<Rightarrow> node_list \<Rightarrow> string option \<Rightarrow> string option \<Rightarrow> ptr \<Rightarrow> nat \<Rightarrow> nat list \<Rightarrow>
     eval \<Rightarrow> bool run" where
  "find_match K env benv elems pre_name rest_name arr len [] ev = Some (False, ev)"
| "find_match K env benv elems pre_name rest_name arr len (start # starts) ev = do {
     let (trial, ev) = new_env (Some env) False ev;
     (ok, ev) \<leftarrow> match_each K env trial arr start elems ev;
     if ok then
       Some (True, bind_slice benv rest_name arr (start + length elems) len
         (bind_slice benv pre_name arr 0 start (copy_vars trial benv ev)))
     else find_match K env benv elems pre_name rest_name arr len starts ev
   }"

text \<open>The array of the value; \<open>None\<close> when \<open>deconstruct\<close> gives none.\<close>

definition deconstructed ::
  "runner \<Rightarrow> ptr \<Rightarrow> rvalue \<Rightarrow> string \<Rightarrow> rvalue list \<Rightarrow> node \<Rightarrow> eval \<Rightarrow> rvalue option run" where
  "deconstructed K env v meth args pat ev = do {
     (d, ev) \<leftarrow> k_dispatch K env v meth args None (Some pat) False 1 ev;
     if val_is_signal d then Some (None, eval_clear_exception ev) else Some (Some d, ev)
   }"

definition array_ptr :: "rvalue \<Rightarrow> ptr option" where
  "array_ptr v = (case v_data v of VAL_ARRAY p \<Rightarrow> p | _ \<Rightarrow> None)"

definition hash_ptr :: "rvalue \<Rightarrow> ptr option" where
  "hash_ptr v = (case v_data v of VAL_HASH p \<Rightarrow> p | _ \<Rightarrow> None)"

definition match_elements ::
  "runner \<Rightarrow> ptr \<Rightarrow> ptr \<Rightarrow> ptr \<Rightarrow> node_list \<Rightarrow> bool \<Rightarrow> bool \<Rightarrow> string option \<Rightarrow> string option \<Rightarrow>
     eval \<Rightarrow> bool run" where
  "match_elements K env benv arr elems has_rest has_pre rest_name pre_name ev =
     (let nreq = length elems; len = length (array_elems arr ev)
      in if has_pre \<and> has_rest \<and> 0 < nreq then
           if len < nreq then Some (False, ev)
           else find_match K env benv elems pre_name rest_name arr len [0 ..< len - nreq + 1] ev
         else if \<not> has_pre then
           if \<not> has_rest \<and> nreq \<noteq> len \<or> has_rest \<and> len < nreq then Some (False, ev)
           else do {
             (ok, ev) \<leftarrow> match_each K env benv arr 0 elems ev;
             if ok then Some (True, if has_rest then bind_slice benv rest_name arr nreq len ev else ev)
             else Some (False, ev)
           }
         else if \<not> has_rest then
           if len < nreq then Some (False, ev)
           else do {
             (ok, ev) \<leftarrow> match_each K env benv arr (len - nreq) elems ev;
             if ok then Some (True, bind_slice benv pre_name arr 0 (len - nreq) ev)
             else Some (False, ev)
           }
         else Some (False, ev))"

definition match_array_pattern ::
  "runner \<Rightarrow> ptr \<Rightarrow> ptr \<Rightarrow> rvalue \<Rightarrow> node \<Rightarrow> node_list \<Rightarrow> bool \<Rightarrow> bool \<Rightarrow> string option \<Rightarrow> string option \<Rightarrow>
     eval \<Rightarrow> bool run" where
  "match_array_pattern K env benv v pat elems has_rest has_pre rest_name pre_name ev =
     (case array_ptr v of
        Some arr \<Rightarrow> match_elements K env benv arr elems has_rest has_pre rest_name pre_name ev
      | None \<Rightarrow> do {
          (d, ev) \<leftarrow> deconstructed K env v ''deconstruct'' [] pat ev;
          case Option.bind d array_ptr of
            None \<Rightarrow> Some (False, ev)
          | Some arr \<Rightarrow> match_elements K env benv arr elems has_rest has_pre rest_name pre_name ev
        })"

subsection \<open>Hash patterns\<close>

text \<open>The elements are keys and patterns in turn; an odd one at the end is not looked at.\<close>

fun key_pairs :: "node_list \<Rightarrow> (node option \<times> node option) list" where
  "key_pairs (k # v # xs) = (k, v) # key_pairs xs"
| "key_pairs _ = []"

definition key_name :: "node \<Rightarrow> string" where
  "key_name n = (case n_data n of NSval _ s \<Rightarrow> s | _ \<Rightarrow> [])"

definition key_value :: "node option \<Rightarrow> eval \<Rightarrow> rvalue \<times> eval" where
  "key_value k ev =
     (case data_of k of Some (NSval K_SYMBOL s) \<Rightarrow> new_symbol s ev | _ \<Rightarrow> (val_nil, ev))"

fun key_values :: "node option list \<Rightarrow> rvalue list \<Rightarrow> eval \<Rightarrow> rvalue list \<times> eval" where
  "key_values [] acc ev = (acc, ev)"
| "key_values (k # ks) acc ev = (let (v, ev) = key_value k ev in key_values ks (acc @ [v]) ev)"

definition hash_get_sym :: "runner \<Rightarrow> ptr \<Rightarrow> string \<Rightarrow> eval \<Rightarrow> rvalue option run" where
  "hash_get_sym K h name ev = do {
     let (key, ev) = new_symbol name ev;
     found \<leftarrow> val_hash_get (k_depth K) (ev_heap ev) h key;
     Some (found, ev)
   }"

definition bare_capture :: "node option \<Rightarrow> bool" where
  "bare_capture pat = (case data_of pat of Some (NPatternCapture None _) \<Rightarrow> True | _ \<Rightarrow> False)"

fun match_pairs ::
  "runner \<Rightarrow> ptr \<Rightarrow> ptr \<Rightarrow> ptr \<Rightarrow> (node option \<times> node option) list \<Rightarrow> eval \<Rightarrow> bool run" where
  "match_pairs K env benv h [] ev = Some (True, ev)"
| "match_pairs K env benv h ((k, pat) # ps) ev =
     (case k of
        None \<Rightarrow> match_pairs K env benv h ps ev
      | Some kn \<Rightarrow> do {
          (found, ev) \<leftarrow> hash_get_sym K h (key_name kn) ev;
          case found of
            None \<Rightarrow> if bare_capture pat then match_pairs K env benv h ps ev else Some (False, ev)
          | Some v \<Rightarrow> do {
              (ok, ev) \<leftarrow> k_match K env benv v pat ev;
              if ok then match_pairs K env benv h ps ev else Some (False, ev)
            }
        })"

fun key_matched :: "runner \<Rightarrow> rvalue \<Rightarrow> node option list \<Rightarrow> eval \<Rightarrow> bool run" where
  "key_matched K key [] ev = Some (False, ev)"
| "key_matched K key (k # ks) ev =
     (case k of
        None \<Rightarrow> key_matched K key ks ev
      | Some kn \<Rightarrow> do {
          let (sym, ev) = new_symbol (key_name kn) ev;
          same \<leftarrow> equal K key sym ev;
          if same then Some (True, ev) else key_matched K key ks ev
        })"

definition store_pair :: "runner \<Rightarrow> rvalue \<Rightarrow> rvalue \<Rightarrow> rvalue \<Rightarrow> eval \<Rightarrow> eval option" where
  "store_pair K h key v ev =
     (case hash_ptr h of
        None \<Rightarrow> None
      | Some p \<Rightarrow> map_option (\<lambda>heap. ev\<lparr>ev_heap := heap\<rparr>) (val_hash_set (k_depth K) p key v (ev_heap ev)))"

fun rest_pairs ::
  "runner \<Rightarrow> node option list \<Rightarrow> rvalue \<Rightarrow> (rvalue \<times> rvalue) list \<Rightarrow> eval \<Rightarrow> eval option" where
  "rest_pairs K ks dest [] ev = Some ev"
| "rest_pairs K ks dest ((key, v) # ps) ev = do {
     (matched, ev) \<leftarrow> key_matched K key ks ev;
     ev \<leftarrow> (if matched then Some ev else store_pair K dest key v ev);
     rest_pairs K ks dest ps ev
   }"

definition hash_pairs :: "ptr \<Rightarrow> eval \<Rightarrow> (rvalue \<times> rvalue) list" where
  "hash_pairs p ev = zip (rh_keys (hash_at p ev)) (rh_vals (hash_at p ev))"

definition match_keys ::
  "runner \<Rightarrow> ptr \<Rightarrow> ptr \<Rightarrow> ptr \<Rightarrow> (node option \<times> node option) list \<Rightarrow> string option \<Rightarrow> eval \<Rightarrow> bool run" where
  "match_keys K env benv h ps rest_name ev = do {
     (ok, ev) \<leftarrow> match_pairs K env benv h ps ev;
     if \<not> ok then Some (False, ev)
     else
       (case rest_name of
          None \<Rightarrow> Some (True, ev)
        | Some n \<Rightarrow> do {
            let (dest, ev) = on_heap val_hash_new ev;
            ev \<leftarrow> rest_pairs K (map fst ps) dest (hash_pairs h ev) ev;
            Some (True, define_var benv n dest ev)
          })
   }"

definition match_hash_pattern ::
  "runner \<Rightarrow> ptr \<Rightarrow> ptr \<Rightarrow> rvalue \<Rightarrow> node \<Rightarrow> node_list \<Rightarrow> bool \<Rightarrow> string option \<Rightarrow> eval \<Rightarrow> bool run" where
  "match_hash_pattern K env benv v pat elems has_rest rest_name ev =
     (let ps = key_pairs elems; rest = (if has_rest then rest_name else None)
      in case hash_ptr v of
           Some h \<Rightarrow> match_keys K env benv h ps rest ev
         | None \<Rightarrow> do {
             let (keys, ev) = key_values (map fst ps) [] ev;
             let (arr, ev) = new_array keys ev;
             (d, ev) \<leftarrow> deconstructed K env v ''deconstruct_keys'' [if has_rest then val_nil else arr] pat ev;
             case Option.bind d hash_ptr of
               None \<Rightarrow> Some (False, ev) | Some h \<Rightarrow> match_keys K env benv h ps rest ev
           })"

subsection \<open>Patterns\<close>

text \<open>A test asked of a value by a method, whose signals count as no.\<close>

definition ask :: "runner \<Rightarrow> ptr \<Rightarrow> rvalue \<Rightarrow> string \<Rightarrow> rvalue \<Rightarrow> node \<Rightarrow> eval \<Rightarrow> bool run" where
  "ask K env recv meth arg pat ev = do {
     (r, ev) \<leftarrow> k_dispatch K env recv meth [arg] None (Some pat) False 1 ev;
     if val_is_signal r then Some (False, eval_clear_exception ev) else Some (val_truthy r, ev)
   }"

definition match_string :: "rvalue \<Rightarrow> string \<Rightarrow> eval \<Rightarrow> bool" where
  "match_string v s ev =
     (case v_data v of
        VAL_STRING (Some p) \<Rightarrow> v_byte_len v = length s \<and> take (length s) (h_strs (ev_heap ev) ! p) = s
      | _ \<Rightarrow> False)"

definition match_pattern :: "runner \<Rightarrow> ptr \<Rightarrow> ptr \<Rightarrow> rvalue \<Rightarrow> node option \<Rightarrow> eval \<Rightarrow> bool run" where
  "match_pattern K env benv v pat ev =
     (case pat of
        None \<Rightarrow> Some (True, ev)
      | Some p \<Rightarrow>
          (case n_data p of
             NPlain K_NIL \<Rightarrow> Some (is_nil v, ev)
           | NPlain K_TRUE \<Rightarrow> Some (case v_data v of VAL_BOOL b \<Rightarrow> b \<noteq> 0 | _ \<Rightarrow> False, ev)
           | NPlain K_FALSE \<Rightarrow> Some (case v_data v of VAL_BOOL b \<Rightarrow> b = 0 | _ \<Rightarrow> False, ev)
           | NInt i \<Rightarrow> Some (v_data v = VAL_INT i, ev)
           | NFloat f \<Rightarrow> Some (case v_data v of VAL_FLOAT g \<Rightarrow> dbl_eq g f | _ \<Rightarrow> False, ev)
           | NSval K_STRING s \<Rightarrow> Some (match_string v (take (n_slen p) s) ev, ev)
           | NSval K_SYMBOL s \<Rightarrow>
               Some (case (v_data v, sval_text v ev) of (VAL_SYMBOL _, Some t) \<Rightarrow> streq t s | _ \<Rightarrow> False, ev)
           | NRope _ \<Rightarrow> do {
               (sv, ev) \<leftarrow> k_eval K env pat ev;
               if val_is_signal sv then Some (False, eval_clear_exception ev)
               else Some (case (v_data sv, v_data v, sval_text sv ev, sval_text v ev) of
                   (VAL_STRING _, VAL_STRING _, Some s, Some t) \<Rightarrow> streq t s | _ \<Rightarrow> False, ev)
             }
           | NSval K_CONST _ \<Rightarrow> do {
               (k, ev) \<leftarrow> k_eval K env pat ev;
               if val_is_signal k then Some (False, eval_clear_exception ev)
               else if class_of k = None then Some (False, ev)
               else ask K env v ''is_a?'' k p ev
             }
           | NConstAccess _ _ \<Rightarrow> do {
               (k, ev) \<leftarrow> k_eval K env pat ev;
               if val_is_signal k then Some (False, eval_clear_exception ev)
               else if class_of k = None then Some (False, ev)
               else ask K env v ''is_a?'' k p ev
             }
           | NRange _ _ _ \<Rightarrow> do {
               (r, ev) \<leftarrow> k_eval K env pat ev;
               (case v_data r of
                  VAL_RANGE _ \<Rightarrow> ask K env r ''==='' v p ev
                | _ \<Rightarrow> Some (False, eval_clear_exception ev))
             }
           | NPatternCollection K_PATTERN_ARRAY elems has_rest has_pre rest_name pre_name \<Rightarrow>
               match_array_pattern K env benv v p elems has_rest has_pre rest_name pre_name ev
           | NPatternCollection K_PATTERN_HASH elems has_rest _ rest_name _ \<Rightarrow>
               match_hash_pattern K env benv v p elems has_rest rest_name ev
           | NPatternCapture sub name \<Rightarrow> do {
               (ok, ev) \<leftarrow> k_match K env benv v sub ev;
               Some (ok, case (ok, name) of (True, Some n) \<Rightarrow> define_var benv n v ev | _ \<Rightarrow> ev)
             }
           | NPatternPin name \<Rightarrow> do {
               n \<leftarrow> name;
               found \<leftarrow> lookup (Some env) n ev;
               case found of
                 None \<Rightarrow> Some (False, ev) | Some w \<Rightarrow> map_option (\<lambda>b. (b, ev)) (equal K v w ev)
             }
           | NPatternOr a b \<Rightarrow> do {
               (ok, ev) \<leftarrow> k_match K env benv v a ev;
               if ok then Some (True, ev) else k_match K env benv v b ev
             }
           | _ \<Rightarrow> do {
               (pv, ev) \<leftarrow> k_eval K env pat ev;
               if val_is_signal pv then Some (False, eval_clear_exception ev)
               else ask K env pv ''==='' v p ev
             }))"

end
