(* ===== verification/EvalBind.thy ===== *)
theory EvalBind
  imports EvalMatch
begin

section \<open>The evaluator: parameters, blocks and methods (src/eval_support.c, src/eval_dispatch.c)\<close>

subsection \<open>Counting parameters\<close>

definition param_of :: "node option \<Rightarrow> (string option \<times> node option \<times> param_flags) option" where
  "param_of n = (case data_of n of Some (NParam name d f) \<Rightarrow> Some (name, d, f) | _ \<Rightarrow> None)"

definition is_array_node :: "node option \<Rightarrow> bool" where
  "is_array_node n = (case data_of n of Some (NArray _) \<Rightarrow> True | _ \<Rightarrow> False)"

definition required_param :: "node option \<Rightarrow> bool" where
  "required_param n =
     (case param_of n of
        Some (_, d, f) \<Rightarrow> \<not> p_splat f \<and> \<not> p_block_param f \<and> d = None \<and> \<not> p_keyword_splat f \<and>
          \<not> p_keyword_param f
      | None \<Rightarrow> is_array_node n)"

definition positional_param :: "node option \<Rightarrow> bool" where
  "positional_param n =
     (case param_of n of
        Some (_, d, f) \<Rightarrow> \<not> p_splat f \<and> \<not> p_block_param f \<and> \<not> p_keyword_param f \<and> \<not> p_keyword_splat f
      | None \<Rightarrow> is_array_node n)"

definition count_required_params :: "node_list \<Rightarrow> nat" where
  "count_required_params ps = length (filter required_param ps)"

definition count_total_params :: "node_list \<Rightarrow> nat" where
  "count_total_params ps = length (filter positional_param ps)"

definition has_kwarg_params :: "node_list \<Rightarrow> bool" where
  "has_kwarg_params ps \<longleftrightarrow> list_ex (\<lambda>n. case param_of n of
     Some (_, _, f) \<Rightarrow> p_keyword_param f \<or> p_keyword_splat f | None \<Rightarrow> False) ps"

definition has_kwrest_param :: "node_list \<Rightarrow> bool" where
  "has_kwrest_param ps \<longleftrightarrow>
     list_ex (\<lambda>n. case param_of n of Some (_, _, f) \<Rightarrow> p_keyword_splat f | None \<Rightarrow> False) ps"

fun has_splat_param :: "node_list \<Rightarrow> bool" where
  "has_splat_param [] = False"
| "has_splat_param (None # ps) = has_splat_param ps"
| "has_splat_param (Some (Node s l (NParam name d f)) # ps) = (p_splat f \<or> has_splat_param ps)"
| "has_splat_param (Some (Node s l (NArray xs)) # ps) = (has_splat_param xs \<or> has_splat_param ps)"
| "has_splat_param (Some n # ps) = has_splat_param ps"

text \<open>The trailing hash of a call to a method with keyword parameters: it with the arguments left.\<close>

definition extract_kwargs :: "node_list \<Rightarrow> rvalue list \<Rightarrow> rvalue \<times> nat" where
  "extract_kwargs ps args =
     (if has_kwarg_params ps \<and> args \<noteq> [] \<and> (case v_data (last args) of VAL_HASH _ \<Rightarrow> True | _ \<Rightarrow> False)
      then (last args, length args - 1) else (val_nil, length args))"

definition proc_arity :: "node_list \<Rightarrow> bool \<Rightarrow> int" where
  "proc_arity ps is_lambda =
     (let required = int (count_required_params ps);
          optional = list_ex (\<lambda>n. case param_of n of Some (_, d, _) \<Rightarrow> d \<noteq> None | None \<Rightarrow> False) ps
      in if has_splat_param ps \<or> is_lambda \<and> optional then - (required + 1) else required)"

definition count_bindable_params :: "node_list \<Rightarrow> nat" where
  "count_bindable_params ps = length (filter (\<lambda>n. n \<noteq> None \<and>
     (case param_of n of Some (_, _, f) \<Rightarrow> \<not> p_block_param f | None \<Rightarrow> True)) ps)"

subsection \<open>Binding arguments\<close>

text \<open>The parameters after a splat that need an argument.\<close>

fun post_splat_required :: "bool \<Rightarrow> node_list \<Rightarrow> nat" where
  "post_splat_required seen [] = 0"
| "post_splat_required seen (p # ps) =
     (if is_splat p then post_splat_required True ps
      else if seen \<and> required_param p then Suc (post_splat_required seen ps)
      else post_splat_required seen ps)"

definition block_value :: "ptr \<Rightarrow> eval \<Rightarrow> rvalue" where
  "block_value env ev =
     (case e_block_arg (ev_envs ev ! env) of Some b \<Rightarrow> h_vals (ev_heap ev) ! b | None \<Rightarrow> val_nil)"

definition argument ::
  "runner \<Rightarrow> ptr \<Rightarrow> rvalue list \<Rightarrow> nat \<Rightarrow> nat \<Rightarrow> node option \<Rightarrow> eval \<Rightarrow> rvalue run" where
  "argument K env args argc i dflt ev =
     (if i < argc then Some (args ! i, ev)
      else if dflt \<noteq> None then k_eval K env dflt ev else Some (val_nil, ev))"

fun bind_positional ::
  "runner \<Rightarrow> ptr \<Rightarrow> rvalue list \<Rightarrow> nat \<Rightarrow> nat \<Rightarrow> nat \<Rightarrow> node_list \<Rightarrow> eval \<Rightarrow> eval option" where
  "bind_positional K env args argc post i [] ev = Some ev"
| "bind_positional K env args argc post i (None # ps) ev = bind_positional K env args argc post i ps ev"
| "bind_positional K env args argc post i (Some p # ps) ev =
     (case param_of (Some p) of
        Some (name, d, f) \<Rightarrow>
          if p_block_param f then do {
            ev \<leftarrow> bind_pattern K env (Some p) (block_value env ev) ev;
            bind_positional K env args argc post i ps ev
          }
          else if p_keyword_param f \<or> p_keyword_splat f then bind_positional K env args argc post i ps ev
          else if p_splat f then do {
            let till = max i (argc - post);
            let (rest, ev) = new_array (map (\<lambda>j. args ! j) [i ..< till]) ev;
            ev \<leftarrow> bind_pattern K env (Some p) rest ev;
            bind_positional K env args argc post till ps ev
          }
          else do {
            (v, ev) \<leftarrow> argument K env args argc i d ev;
            ev \<leftarrow> bind_pattern K env (Some p) v ev;
            bind_positional K env args argc post (i + 1) ps ev
          }
      | None \<Rightarrow> do {
          (v, ev) \<leftarrow> argument K env args argc i None ev;
          ev \<leftarrow> bind_pattern K env (Some p) v ev;
          bind_positional K env args argc post (i + 1) ps ev
        })"

definition kwarg_get :: "runner \<Rightarrow> rvalue \<Rightarrow> string \<Rightarrow> eval \<Rightarrow> rvalue option run" where
  "kwarg_get K kwargs name ev =
     (case hash_ptr kwargs of None \<Rightarrow> Some (None, ev) | Some h \<Rightarrow> hash_get_sym K h name ev)"

text \<open>
  The keyword parameters: the names taken from the hash, at most 64 of them kept; \<open>None\<close> when an
  error ends the binding.
\<close>

fun bind_keywords ::
  "runner \<Rightarrow> ptr \<Rightarrow> rvalue \<Rightarrow> node_list \<Rightarrow> string list \<Rightarrow> eval \<Rightarrow> string list option run" where
  "bind_keywords K env kwargs [] taken ev = Some (Some taken, ev)"
| "bind_keywords K env kwargs (p # ps) taken ev =
     (case param_of p of
        Some (Some name, d, f) \<Rightarrow>
          if \<not> p_keyword_param f then bind_keywords K env kwargs ps taken ev
          else do {
            (found, ev) \<leftarrow> kwarg_get K kwargs name ev;
            case found of
              Some v \<Rightarrow> bind_keywords K env kwargs ps
                (if length taken < 64 then taken @ [name] else taken) (define_var env name v ev)
            | None \<Rightarrow>
                if d \<noteq> None then do {
                  (v, ev) \<leftarrow> k_eval K env d ev;
                  if stops v ev then Some (None, ev)
                  else bind_keywords K env kwargs ps taken (define_var env name v ev)
                }
                else do {
                  (r, ev) \<leftarrow> eval_raise_class None ''ArgumentError'' (''missing keyword: '' @ name) ev;
                  Some (None, ev)
                }
          }
      | _ \<Rightarrow> bind_keywords K env kwargs ps taken ev)"

definition key_taken :: "string list \<Rightarrow> rvalue \<Rightarrow> eval \<Rightarrow> bool" where
  "key_taken taken key ev =
     (case v_data key of
        VAL_SYMBOL (Some p) \<Rightarrow> list_ex (streq (h_strs (ev_heap ev) ! p)) taken | _ \<Rightarrow> False)"

fun store_untaken ::
  "runner \<Rightarrow> string list \<Rightarrow> rvalue \<Rightarrow> (rvalue \<times> rvalue) list \<Rightarrow> eval \<Rightarrow> eval option" where
  "store_untaken K taken dest [] ev = Some ev"
| "store_untaken K taken dest ((k, v) # ps) ev = do {
     ev \<leftarrow> (if key_taken taken k ev then Some ev else store_pair K dest k v ev);
     store_untaken K taken dest ps ev
   }"

definition kwarg_pairs :: "rvalue \<Rightarrow> eval \<Rightarrow> (rvalue \<times> rvalue) list" where
  "kwarg_pairs kwargs ev = (case hash_ptr kwargs of None \<Rightarrow> [] | Some h \<Rightarrow> hash_pairs h ev)"

definition bind_kwrest ::
  "runner \<Rightarrow> ptr \<Rightarrow> rvalue \<Rightarrow> string list \<Rightarrow> string option \<Rightarrow> eval \<Rightarrow> eval option" where
  "bind_kwrest K env kwargs taken name ev = do {
     let (dest, ev) = on_heap val_hash_new ev;
     ev \<leftarrow> store_untaken K taken dest (kwarg_pairs kwargs ev) ev;
     Some (case name of Some n \<Rightarrow> define_var env n dest ev | None \<Rightarrow> ev)
   }"

definition unknown_keyword :: "rvalue \<Rightarrow> string list \<Rightarrow> eval \<Rightarrow> eval option" where
  "unknown_keyword kwargs taken ev =
     (case find (\<lambda>kv. \<not> key_taken taken (fst kv) ev) (kwarg_pairs kwargs ev) of
        None \<Rightarrow> Some ev
      | Some (k, v) \<Rightarrow> do {
          (r, ev) \<leftarrow> eval_raise_class None ''ArgumentError''
            (case (v_data k, sval_text k ev) of
               (VAL_SYMBOL _, Some s) \<Rightarrow> ''unknown keyword: :'' @ cstr s | _ \<Rightarrow> ''unknown keyword'') ev;
          Some ev
        })"

definition kwrest_name :: "node_list \<Rightarrow> string option option" where
  "kwrest_name ps =
     map_option fst (first_some (\<lambda>n. case param_of n of
         Some (name, d, f) \<Rightarrow> if p_keyword_splat f then Some (name, f) else None | None \<Rightarrow> None) ps)"

definition bind_params :: "runner \<Rightarrow> ptr \<Rightarrow> node_list \<Rightarrow> rvalue list \<Rightarrow> eval \<Rightarrow> eval option" where
  "bind_params K env ps args ev = do {
     let (kwargs, argc) = extract_kwargs ps args;
     ev \<leftarrow> bind_positional K env args argc (post_splat_required False ps) 0 ps ev;
     (taken, ev) \<leftarrow> bind_keywords K env kwargs ps [] ev;
     case taken of
       None \<Rightarrow> Some ev
     | Some taken \<Rightarrow>
         (case kwrest_name ps of
            Some name \<Rightarrow> bind_kwrest K env kwargs taken name ev
          | None \<Rightarrow> unknown_keyword kwargs taken ev)
   }"

subsection \<open>Calls\<close>

definition site_line :: "node option \<Rightarrow> u32" where
  "site_line site = (case site of Some n \<Rightarrow> sp_line (n_span n) | None \<Rightarrow> 0)"

definition site_col :: "node option \<Rightarrow> u32" where
  "site_col site = (case site of Some n \<Rightarrow> sp_col (n_span n) | None \<Rightarrow> 0)"

definition arity_ok :: "node_list \<Rightarrow> rvalue list \<Rightarrow> bool" where
  "arity_ok ps args \<longleftrightarrow>
     (let argc = snd (extract_kwargs ps args)
      in count_required_params ps \<le> argc \<and> (has_splat_param ps \<or> argc \<le> count_total_params ps))"

definition autosplat :: "bool \<Rightarrow> node_list \<Rightarrow> rvalue list \<Rightarrow> eval \<Rightarrow> rvalue list" where
  "autosplat is_lambda ps args ev =
     (case args of
        [a] \<Rightarrow>
          (case array_ptr a of
             Some p \<Rightarrow>
               if \<not> is_lambda \<and> 1 < count_bindable_params ps then take 64 (array_elems p ev) else args
           | None \<Rightarrow> args)
      | _ \<Rightarrow> args)"

definition block_result ::
  "node option \<Rightarrow> bool \<Rightarrow> bool \<Rightarrow> rvalue \<Rightarrow> eval \<Rightarrow> rvalue run" where
  "block_result site is_lambda is_proc r ev =
     (case v_data r of
        VAL_RETURN _ target \<Rightarrow>
          if is_lambda then map_option (\<lambda>v. (v, ev)) (wrapped r ev)
          else if is_proc \<and> \<not> eval_def_target_active target ev
          then eval_raise_class site ''LocalJumpError'' ''unexpected return'' ev
          else Some (r, ev)
      | VAL_BREAK _ \<Rightarrow>
          if is_lambda then map_option (\<lambda>v. (v, ev)) (wrapped r ev)
          else if is_proc then eval_raise_class site ''LocalJumpError'' ''break from proc-closure'' ev
          else Some (r, ev)
      | VAL_NEXT _ \<Rightarrow> map_option (\<lambda>v. (v, ev)) (wrapped r ev)
      | _ \<Rightarrow> Some (r, ev))"

text \<open>The file is put back only when the body has been run.\<close>

definition run_block ::
  "runner \<Rightarrow> ptr option \<Rightarrow> node_list \<Rightarrow> node option \<Rightarrow> bool \<Rightarrow> bool \<Rightarrow> string option \<Rightarrow>
     rvalue list \<Rightarrow> node option \<Rightarrow> eval \<Rightarrow> rvalue run" where
  "run_block K closure ps body is_lambda is_proc file args site ev = do {
     let saved = ev_current_file ev;
     let ev = (if file = None then ev else ev\<lparr>ev_current_file := file\<rparr>);
     let (frame, ev) = new_env closure False ev;
     self \<leftarrow> lookup closure ''self'' ev;
     let ev = (case self of Some v \<Rightarrow> define_var frame ''self'' v ev | None \<Rightarrow> ev);
     let args = autosplat is_lambda ps args ev;
     if is_lambda \<and> \<not> arity_ok ps args
     then eval_raise_class site ''ArgumentError'' ''wrong number of arguments'' ev
     else do {
       ev \<leftarrow> bind_params K frame ps args ev;
       if ev_exception_class ev \<noteq> None then Some (val_exception, ev)
       else do {
         let ev = eval_push_frame (site_line site) (site_col site) ''block'' ev;
         (r, ev) \<leftarrow> k_eval K frame body ev;
         block_result site is_lambda is_proc r ((eval_pop_frame ev)\<lparr>ev_current_file := saved\<rparr>)
       }
     }
   }"

definition call_block ::
  "runner \<Rightarrow> rvalue \<Rightarrow> rvalue list \<Rightarrow> node option \<Rightarrow> eval \<Rightarrow> rvalue run" where
  "call_block K blk args site ev =
     (case v_data blk of
        VAL_BLOCK nd closure is_lambda is_proc file \<Rightarrow>
          (case data_of (node_at nd ev) of
             Some (NBlock ps body) \<Rightarrow> run_block K closure ps body is_lambda is_proc file args site ev
           | _ \<Rightarrow> None)
      | _ \<Rightarrow> eval_raise_class site ''LocalJumpError'' ''no block given'' ev)"

text \<open>The body of a method runs between the pushes and the pops of the two stacks.\<close>

definition enter_method :: "ptr \<Rightarrow> u32 \<Rightarrow> u32 \<Rightarrow> string \<Rightarrow> eval \<Rightarrow> eval" where
  "enter_method menv line col name ev =
     eval_push_frame line col name (push_active menv (ev\<lparr>ev_call_depth := ev_call_depth ev + 1\<rparr>))"

definition leave_method :: "eval \<Rightarrow> eval" where
  "leave_method ev =
     (let ev = pop_active (eval_pop_frame ev) in ev\<lparr>ev_call_depth := ev_call_depth ev - 1\<rparr>)"

definition set_block_arg :: "ptr \<Rightarrow> ptr option \<Rightarrow> eval \<Rightarrow> eval" where
  "set_block_arg env blk ev =
     (case blk of
        None \<Rightarrow> ev
      | Some b \<Rightarrow>
          ev\<lparr>ev_envs := (ev_envs ev)[env := (ev_envs ev ! env)\<lparr>e_block_arg := Some b\<rparr>]\<rparr>)"

definition owner_value :: "rvalue \<Rightarrow> ptr option \<Rightarrow> eval \<Rightarrow> rvalue" where
  "owner_value recv owner ev =
     (let v = (case v_data recv of VAL_OBJECT p \<Rightarrow> ro_klass (obj_at p ev) | _ \<Rightarrow> val_nil)
      in case owner of None \<Rightarrow> v | Some k \<Rightarrow> v\<lparr>v_data := VAL_CLASS k\<rparr>)"

definition method_result :: "ptr \<Rightarrow> ptr option \<Rightarrow> rvalue \<Rightarrow> eval \<Rightarrow> rvalue run" where
  "method_result menv blk r ev =
     (case v_data r of
        VAL_RETURN _ target \<Rightarrow>
          if target = Some menv then map_option (\<lambda>v. (v, ev)) (wrapped r ev) else Some (r, ev)
      | VAL_BREAK _ \<Rightarrow>
          if blk \<noteq> None then map_option (\<lambda>v. (v, ev)) (wrapped r ev) else Some (r, ev)
      | _ \<Rightarrow> Some (r, ev))"

definition run_method ::
  "runner \<Rightarrow> rvalue \<Rightarrow> ptr option \<Rightarrow> bool \<Rightarrow> node_list \<Rightarrow> node option \<Rightarrow> string option \<Rightarrow> ptr option \<Rightarrow>
     string \<Rightarrow> rvalue list \<Rightarrow> ptr option \<Rightarrow> node option \<Rightarrow> eval \<Rightarrow> rvalue run" where
  "run_method K recv closure is_def ps body file owner name args blk site ev =
     (if \<not> arity_ok ps args then eval_raise_class site ''ArgumentError'' ''wrong number of arguments'' ev
      else do {
        let (menv, ev) = new_env closure is_def ev;
        let ev = define_var menv ''self'' recv ev;
        let (sym, ev) = new_symbol name ev;
        let ev = define_var menv ''__method__'' sym ev;
        let ev = define_var menv ''__class__'' (owner_value recv owner ev) ev;
        let ev = set_block_arg menv blk ev;
        ev \<leftarrow> bind_params K menv ps args ev;
        if ev_exception_class ev \<noteq> None then Some (val_exception, ev)
        else do {
          let saved = ev_current_file ev;
          let ev = (if file = None then ev else ev\<lparr>ev_current_file := file\<rparr>);
          (r, ev) \<leftarrow> k_eval K menv body (enter_method menv (site_line site) (site_col site) name ev);
          method_result menv blk r ((leave_method ev)\<lparr>ev_current_file := saved\<rparr>)
        }
      })"

definition call_method_value ::
  "runner \<Rightarrow> rvalue \<Rightarrow> rvalue \<Rightarrow> ptr option \<Rightarrow> string \<Rightarrow> rvalue list \<Rightarrow> ptr option \<Rightarrow> node option \<Rightarrow>
     eval \<Rightarrow> rvalue run" where
  "call_method_value K recv meth owner name args blk site ev =
     (case v_data meth of
        VAL_METHOD nd closure _ file \<Rightarrow>
          (case data_of (node_at nd ev) of
             Some (NBlock ps body) \<Rightarrow>
               run_method K recv closure False ps body file owner name args blk site ev
           | Some (NDef _ _ ps body) \<Rightarrow>
               run_method K recv closure True ps body file owner name args blk site ev
           | _ \<Rightarrow> None)
      | _ \<Rightarrow> None)"

end
