(* ===== verification/EvalOps.thy ===== *)
theory EvalOps
  imports EvalBind
begin

section \<open>The evaluator: binary operators (eval_binop of src/eval_dispatch.c)\<close>

definition send ::
  "runner \<Rightarrow> ptr \<Rightarrow> rvalue \<Rightarrow> string \<Rightarrow> rvalue list \<Rightarrow> node \<Rightarrow> eval \<Rightarrow> rvalue run" where
  "send K env recv meth args site = k_dispatch K env recv meth args None (Some site) False 1"

definition in_quotes :: "string \<Rightarrow> string" where
  "in_quotes s = CHR 0x27 # cstr s @ [CHR 0x27]"

definition truth :: "bool \<Rightarrow> eval \<Rightarrow> rvalue run" where
  "truth b ev = Some (val_bool b, ev)"

subsection \<open>Integers and floats\<close>

text \<open>C divides towards zero and takes the sign of the dividend; both are put right afterwards.\<close>

definition int_div :: "i64 \<Rightarrow> i64 \<Rightarrow> i64 option" where
  "int_div a b = do {
     q \<leftarrow> div64 a b;
     r \<leftarrow> rem64 a b;
     if r \<noteq> 0 \<and> sint (r XOR b) < 0 then sub64 q 1 else Some q
   }"

definition int_mod :: "i64 \<Rightarrow> i64 \<Rightarrow> i64 option" where
  "int_mod a b = do {
     r \<leftarrow> rem64 a b;
     if r \<noteq> 0 \<and> (sint r < 0) \<noteq> (sint b < 0) then add64 r b else Some r
   }"

definition float_mod :: "u64 \<Rightarrow> u64 \<Rightarrow> u64" where
  "float_mod a b =
     (let r = dbl_fmod a b
      in if \<not> dbl_eq r 0 \<and> dbl_less r 0 \<noteq> dbl_less b 0 then dbl_add r b else r)"

text \<open>A value that is no number counts as zero.\<close>

definition num_dbl :: "rvalue \<Rightarrow> u64" where
  "num_dbl v = (case v_data v of VAL_INT i \<Rightarrow> dbl_of_int64 i | VAL_FLOAT f \<Rightarrow> f | _ \<Rightarrow> 0)"

definition is_num :: "rvalue \<Rightarrow> bool" where
  "is_num v = (case v_data v of VAL_INT _ \<Rightarrow> True | VAL_FLOAT _ \<Rightarrow> True | _ \<Rightarrow> False)"

definition arith_op :: "string \<Rightarrow> bool" where
  "arith_op op \<longleftrightarrow> streq op ''+'' \<or> streq op ''-'' \<or> streq op ''*'' \<or> streq op ''/''"

text \<open>Whether a value is an object whose class has one of the names.\<close>

definition instance_of_any :: "string list \<Rightarrow> rvalue \<Rightarrow> eval \<Rightarrow> test" where
  "instance_of_any names v ev =
     (case v_data v of
        VAL_OBJECT p \<Rightarrow>
          (case class_of (ro_klass (obj_at p ev)) of
             Some k \<Rightarrow> map_option (\<lambda>n. list_ex (streq n) names) (rc_name (klass_of k ev))
           | None \<Rightarrow> Some False)
      | _ \<Rightarrow> Some False)"

definition ev_int :: "eval \<Rightarrow> i64 option \<Rightarrow> rvalue run" where
  "ev_int ev = map_option (\<lambda>i. (val_int i, ev))"

definition zero_division :: "node \<Rightarrow> eval \<Rightarrow> rvalue run" where
  "zero_division site = eval_raise_class (Some site) ''ZeroDivisionError'' ''divided by 0''"

definition int_power :: "runner \<Rightarrow> ptr \<Rightarrow> node \<Rightarrow> u64 \<Rightarrow> u64 \<Rightarrow> i64 \<Rightarrow> eval \<Rightarrow> rvalue run" where
  "int_power K env site lf rf b ev =
     (if sint b < 0 then do {
        found \<leftarrow> lookup (Some (ev_top_env ev)) ''Rational'' ev;
        case Option.bind found class_of of
          Some k \<Rightarrow> do {
            rat \<leftarrow> found;
            d \<leftarrow> dbl_to_int64 (k_pow K lf (dbl_negate rf));
            send K env rat ''new'' [val_int 1, val_int d] site ev
          }
        | None \<Rightarrow> Some (val_float (k_pow K lf rf), ev)
      }
      else ev_int ev (dbl_to_int64 (k_pow K lf rf)))"

text \<open>The operators of two integers.\<close>

definition int_binop ::
  "runner \<Rightarrow> ptr \<Rightarrow> node \<Rightarrow> string \<Rightarrow> i64 \<Rightarrow> i64 \<Rightarrow> eval \<Rightarrow> rvalue run option" where
  "int_binop K env site op a b ev =
     (let lf = dbl_of_int64 a; rf = dbl_of_int64 b
      in if streq op ''+'' then Some (ev_int ev (add64 a b))
         else if streq op ''-'' then Some (ev_int ev (sub64 a b))
         else if streq op ''*'' then Some (ev_int ev (mul64 a b))
         else if streq op ''/'' then
           Some (if b = 0 then zero_division site ev else ev_int ev (int_div a b))
         else if streq op ''%'' then
           Some (if b = 0 then zero_division site ev else ev_int ev (int_mod a b))
         else if streq op ''**'' then Some (int_power K env site lf rf b ev)
         else if streq op ''<'' then Some (truth (dbl_less lf rf) ev)
         else if streq op ''<='' then Some (truth (dbl_leq lf rf) ev)
         else if streq op ''>'' then Some (truth (dbl_less rf lf) ev)
         else if streq op ''>='' then Some (truth (dbl_leq rf lf) ev)
         else if streq op ''<=>'' then
           Some (ev_int ev (Some (if dbl_less lf rf then - 1 else if dbl_less rf lf then 1 else 0)))
         else if streq op ''&'' then Some (ev_int ev (Some (a AND b)))
         else if streq op ''|'' then Some (ev_int ev (Some (a OR b)))
         else if streq op ''^'' then Some (ev_int ev (Some (a XOR b)))
         else if streq op ''<<'' then Some (ev_int ev (shl64 a b))
         else if streq op ''>>'' then Some (ev_int ev (shr64 a b))
         else None)"

text \<open>The operators of a number and a value of another kind, as doubles; \<open>None\<close> when it is none.\<close>

definition float_binop :: "runner \<Rightarrow> string \<Rightarrow> u64 \<Rightarrow> u64 \<Rightarrow> rvalue option" where
  "float_binop K op lf rf =
     (if streq op ''+'' then Some (val_float (dbl_add lf rf))
      else if streq op ''-'' then Some (val_float (dbl_sub lf rf))
      else if streq op ''*'' then Some (val_float (dbl_mul lf rf))
      else if streq op ''/'' then Some (val_float (dbl_div lf rf))
      else if streq op ''%'' then Some (val_float (float_mod lf rf))
      else if streq op ''**'' then Some (val_float (k_pow K lf rf))
      else if streq op ''<'' then Some (val_bool (dbl_less lf rf))
      else if streq op ''<='' then Some (val_bool (dbl_leq lf rf))
      else if streq op ''>'' then Some (val_bool (dbl_less rf lf))
      else if streq op ''>='' then Some (val_bool (dbl_leq rf lf))
      else if streq op ''<=>'' then
        Some (val_int (if dbl_less lf rf then - 1 else if dbl_less rf lf then 1 else 0))
      else None)"

definition mixed_binop ::
  "runner \<Rightarrow> ptr \<Rightarrow> node \<Rightarrow> string \<Rightarrow> rvalue \<Rightarrow> rvalue \<Rightarrow> eval \<Rightarrow> rvalue run option" where
  "mixed_binop K env site op l r ev =
     (case (v_data l, v_data r) of
        (VAL_INT a, VAL_INT b) \<Rightarrow> int_binop K env site op a b ev
      | (VAL_INT a, VAL_STRING _) \<Rightarrow>
          if streq op ''*'' then Some (send K env r ''*'' [l] site ev)
          else map_option (\<lambda>v. Some (v, ev)) (float_binop K op (num_dbl l) (num_dbl r))
      | _ \<Rightarrow> map_option (\<lambda>v. Some (v, ev)) (float_binop K op (num_dbl l) (num_dbl r)))"

definition numeric_binop ::
  "runner \<Rightarrow> ptr \<Rightarrow> node \<Rightarrow> string \<Rightarrow> rvalue \<Rightarrow> rvalue \<Rightarrow> eval \<Rightarrow> rvalue run option" where
  "numeric_binop K env site op l r ev =
     (case instance_of_any [''Complex'', ''Rational''] r ev of
        None \<Rightarrow> Some None
      | Some other \<Rightarrow>
          if other \<and> arith_op op then Some (send K env l op [r] site ev)
          else mixed_binop K env site op l r ev)"

subsection \<open>Strings and arrays\<close>

definition concat_strings :: "rvalue \<Rightarrow> rvalue \<Rightarrow> eval \<Rightarrow> (rvalue \<times> eval)" where
  "concat_strings l r ev =
     (let s = (case v_data l of VAL_STRING p \<Rightarrow> deref_str (ev_heap ev) p | _ \<Rightarrow> []);
          t = (case v_data r of VAL_STRING p \<Rightarrow> deref_str (ev_heap ev) p | _ \<Rightarrow> []);
          (v, ev) = on_heap (val_string_n (take (v_byte_len l) s @ take (v_byte_len r) t)) ev
      in (v\<lparr>v_encoding := v_encoding l\<rparr>, ev))"

definition is_string :: "rvalue \<Rightarrow> bool" where
  "is_string v = (case v_data v of VAL_STRING _ \<Rightarrow> True | _ \<Rightarrow> False)"

definition string_plus :: "runner \<Rightarrow> ptr \<Rightarrow> node \<Rightarrow> rvalue \<Rightarrow> rvalue \<Rightarrow> eval \<Rightarrow> rvalue run" where
  "string_plus K env site l r ev =
     (if is_string r then Some (concat_strings l r ev)
      else do {
        (c, ev) \<leftarrow> k_dispatch K env r ''to_str'' [] None (Some site) False (- 1) ev;
        if is_string c then Some (concat_strings l c ev)
        else do {
          let ev = forget_error ev;
          cls \<leftarrow> value_class_name r ev;
          eval_raise_class (Some site) ''TypeError''
            (''no implicit conversion of '' @ cls @ '' into String'') ev
        }
      })"

text \<open>\<open>strcmp\<close> compares the bytes as unsigned characters.\<close>

fun str_cmp :: "string \<Rightarrow> string \<Rightarrow> int" where
  "str_cmp [] [] = 0"
| "str_cmp [] (d # t) = - 1"
| "str_cmp (c # s) [] = 1"
| "str_cmp (c # s) (d # t) =
     (if c = d then str_cmp s t else if (of_char c :: nat) < of_char d then - 1 else 1)"

definition strcmp :: "string \<Rightarrow> string \<Rightarrow> int" where
  "strcmp s t = str_cmp (cstr s) (cstr t)"

definition string_binop ::
  "runner \<Rightarrow> ptr \<Rightarrow> node \<Rightarrow> string \<Rightarrow> rvalue \<Rightarrow> rvalue \<Rightarrow> eval \<Rightarrow> rvalue run option" where
  "string_binop K env site op l r ev =
     (case (v_data l, v_data r, sval_text l ev, sval_text r ev) of
        (VAL_STRING _, VAL_STRING _, Some s, Some t) \<Rightarrow>
          let c = strcmp s t
          in if streq op ''<=>'' then Some (Some (val_int (word_of_int c), ev))
             else if streq op ''<'' then Some (truth (c < 0) ev)
             else if streq op ''<='' then Some (truth (c \<le> 0) ev)
             else if streq op ''>'' then Some (truth (c > 0) ev)
             else if streq op ''>='' then Some (truth (c \<ge> 0) ev)
             else if streq op ''*'' then Some (send K env l ''*'' [r] site ev)
             else None
      | _ \<Rightarrow> None)"

definition array_binop :: "node \<Rightarrow> string \<Rightarrow> rvalue \<Rightarrow> rvalue \<Rightarrow> eval \<Rightarrow> rvalue run option" where
  "array_binop site op l r ev =
     (case v_data l of
        VAL_ARRAY (Some p) \<Rightarrow>
          (case (streq op ''+'', array_ptr r) of
             (True, Some q) \<Rightarrow> Some (Some (new_array (array_elems p ev @ array_elems q ev) ev))
           | _ \<Rightarrow>
               if streq op ''<<'' then
                 Some (if ra_frozen (h_arrays (ev_heap ev) ! p) \<noteq> 0
                   then eval_raise_class (Some site) ''FrozenError'' ''can't modify frozen Array'' ev
                   else Some (l, set_heap (val_array_push l r) ev))
               else None)
      | _ \<Rightarrow> None)"

subsection \<open>The operators\<close>

text \<open>The variable a mutating method was called on is given the value the method returned.\<close>

definition update_receiver :: "ptr \<Rightarrow> node option \<Rightarrow> rvalue \<Rightarrow> eval \<Rightarrow> eval option" where
  "update_receiver env recv v ev =
     (case data_of recv of
        Some (NSval K_LVAR s) \<Rightarrow> set_var env s v ev
      | Some (NSval K_IVAR s) \<Rightarrow> do {
          found \<leftarrow> lookup (Some env) ''self'' ev;
          Some (case found of
              Some self \<Rightarrow> if is_object self then set_ivar self s v ev else ev | None \<Rightarrow> ev)
        }
      | Some (NSval K_GVAR s) \<Rightarrow> Some (set_global s v ev)
      | _ \<Rightarrow> Some ev)"

definition dispatch_binop ::
  "runner \<Rightarrow> ptr \<Rightarrow> node \<Rightarrow> string \<Rightarrow> node option \<Rightarrow> rvalue \<Rightarrow> rvalue \<Rightarrow> eval \<Rightarrow> rvalue run" where
  "dispatch_binop K env site op ln l r ev = do {
     (v, ev) \<leftarrow> send K env l op [r] site ev;
     if \<not> stops v ev then do {
       ev \<leftarrow> (if is_string v \<and> (streq op ''<<'' \<or> streq op ''concat'') then update_receiver env ln v ev
               else Some ev);
       Some (v, ev)
     }
     else if ev_errored ev then
       eval_raise_class (Some site) ''NoMethodError''
         (''undefined operator '' @ in_quotes op @ '' for '' @ val_kind_name (v_data l)) (ev\<lparr>ev_errored := False\<rparr>)
     else Some (v, ev)
   }"

definition binop_values ::
  "runner \<Rightarrow> ptr \<Rightarrow> node \<Rightarrow> string \<Rightarrow> node option \<Rightarrow> rvalue \<Rightarrow> rvalue \<Rightarrow> eval \<Rightarrow> rvalue run" where
  "binop_values K env site op ln l r ev =
     (if streq op ''+'' \<and> is_string l then string_plus K env site l r ev
      else case array_binop site op l r ev of
        Some out \<Rightarrow> out
      | None \<Rightarrow>
          if streq op ''=='' \<or> streq op ''!='' then send K env l op [r] site ev
          else case (if is_num l then numeric_binop K env site op l r ev else None) of
            Some out \<Rightarrow> out
          | None \<Rightarrow>
              (case string_binop K env site op l r ev of
                 Some out \<Rightarrow> out
               | None \<Rightarrow> dispatch_binop K env site op ln l r ev))"

definition eval_binop ::
  "runner \<Rightarrow> ptr \<Rightarrow> node \<Rightarrow> string \<Rightarrow> node option \<Rightarrow> node option \<Rightarrow> eval \<Rightarrow> rvalue run" where
  "eval_binop K env site op ln rn ev = do {
     (l, ev) \<leftarrow> k_eval K env ln ev;
     if stops l ev then Some (l, ev)
     else if streq op ''&&'' \<or> streq op ''and'' then
       (if val_truthy l then k_eval K env rn ev else Some (l, ev))
     else if streq op ''||'' \<or> streq op ''or'' then
       (if val_truthy l then Some (l, ev) else k_eval K env rn ev)
     else do {
       (r, ev) \<leftarrow> k_eval K env rn ev;
       if stops r ev then Some (r, ev) else binop_values K env site op ln l r ev
     }
   }"

end
