(* ===== verification/EvalCall.thy ===== *)
theory EvalCall
  imports EvalOps Parser
begin

section \<open>The evaluator: calls (eval_call of src/eval_dispatch.c)\<close>

subsection \<open>Blocks made from a symbol or a method\<close>

definition no_span :: span where "no_span = \<lparr>sp_line = 0, sp_col = 0, sp_len = 0\<rparr>"

definition plain_param :: "bool \<Rightarrow> string \<Rightarrow> node option" where
  "plain_param splat name = Some (mk_node no_span (NParam (Some name) None
     \<lparr>p_splat = splat, p_block_param = False, p_keyword_param = False, p_keyword_splat = False\<rparr>))"

definition lvar_node :: "string \<Rightarrow> node option" where
  "lvar_node name = Some (mk_sval no_span K_LVAR name)"

definition forward_call :: "node option \<Rightarrow> string \<Rightarrow> string \<Rightarrow> node" where
  "forward_call recv meth rest_name =
     mk_call no_span recv meth [Some (mk_node no_span (NUnop ''*'' (lvar_node rest_name)))] None"

definition forward_block :: "node_list \<Rightarrow> node \<Rightarrow> node" where
  "forward_block ps call =
     mk_node no_span (NBlock ps (Some (mk_node no_span (NBody K_BODY [Some call]))))"

definition make_symbol_proc :: "string \<Rightarrow> eval \<Rightarrow> rvalue \<times> eval" where
  "make_symbol_proc meth ev =
     (let (nd, ev) = node_ptr (forward_block
            [plain_param False ''__sym_recv__'', plain_param True ''__sym_rest__'']
            (forward_call (lvar_node ''__sym_recv__'') meth ''__sym_rest__'')) ev
      in (val_lambda (Some nd) (Some (ev_top_env ev)), ev))"

definition make_bound_method_proc :: "rvalue \<Rightarrow> string \<Rightarrow> int \<Rightarrow> eval \<Rightarrow> rvalue \<times> eval" where
  "make_bound_method_proc receiver meth arity ev =
     (let (closure, ev) = new_env (Some (ev_top_env ev)) False ev;
          ev = define_var closure ''__bound_recv__'' receiver ev;
          ev = define_var closure ''__bound_arity__'' (val_int (word_of_int arity)) ev;
          (nd, ev) = node_ptr (forward_block [plain_param True ''__bound_args__'']
            (forward_call (if is_nil receiver then None else lvar_node ''__bound_recv__'') meth
               ''__bound_args__'')) ev
      in (val_lambda (Some nd) (Some closure), ev))"

text \<open>The parameters of the node of a definition; those of another node are not read.\<close>

definition method_object_arity :: "rvalue \<Rightarrow> eval \<Rightarrow> int option" where
  "method_object_arity m ev =
     (case map_option v_data (get_ivar m ''__method__'' ev) of
        Some (VAL_METHOD (Some nd) _ _ _) \<Rightarrow>
          (case data_of (node_at (Some nd) ev) of
             Some (NDef _ _ ps _) \<Rightarrow> Some (proc_arity ps True) | _ \<Rightarrow> None)
      | _ \<Rightarrow>
          (case map_option v_data (get_ivar m ''__native_arity__'' ev) of
             Some (VAL_INT i) \<Rightarrow> Some (sint (ucast i :: 32 word))
           | _ \<Rightarrow> Some (- 1)))"

subsection \<open>The arguments\<close>

text \<open>The pairs of the hash are added to the keyword arguments, which are made when there are none.\<close>

definition merge_kwargs :: "runner \<Rightarrow> rvalue \<Rightarrow> ptr \<Rightarrow> eval \<Rightarrow> rvalue run" where
  "merge_kwargs K kwargs h ev = do {
     let (kwargs, ev) = (if hash_ptr kwargs = None then on_heap val_hash_new ev else (kwargs, ev));
     ev \<leftarrow> each (\<lambda>(k, v). store_pair K kwargs k v) (hash_pairs h ev) ev;
     Some (kwargs, ev)
   }"

definition add_kwargs ::
  "runner \<Rightarrow> rvalue \<Rightarrow> rvalue list \<Rightarrow> rvalue \<Rightarrow> eval \<Rightarrow> (rvalue list \<times> rvalue) run" where
  "add_kwargs K v args kwargs ev =
     (case v_data v of
        VAL_HASH (Some h) \<Rightarrow> map_option (\<lambda>(kw, ev). ((args, kw), ev)) (merge_kwargs K kwargs h ev)
      | VAL_HASH None \<Rightarrow> None
      | _ \<Rightarrow> Some ((args @ [v], kwargs), ev))"

definition add_splat :: "rvalue \<Rightarrow> rvalue list \<Rightarrow> eval \<Rightarrow> rvalue list" where
  "add_splat v args ev =
     (case value_elems v ev of Some xs \<Rightarrow> args @ take (64 - length args) xs | None \<Rightarrow> args @ [v])"

definition starred :: "string \<Rightarrow> node \<Rightarrow> node option option" where
  "starred stars n =
     (case n_data n of NUnop op e \<Rightarrow> if streq op stars then Some e else None | _ \<Rightarrow> None)"

definition keyword_hash :: "node \<Rightarrow> bool" where
  "keyword_hash n = (case n_data n of NHash _ b \<Rightarrow> b | _ \<Rightarrow> False)"

definition block_pass_expr :: "node \<Rightarrow> node option option" where
  "block_pass_expr n = (case n_data n of NBlockPass e \<Rightarrow> Some e | _ \<Rightarrow> None)"

text \<open>
  One argument; what was collected are the values, the expression of \<open>&block\<close> and the keyword
  arguments. A value or signal that ends the call is on the left.
\<close>

type_synonym call_args = "rvalue list \<times> node option option \<times> rvalue"

definition call_arg ::
  "runner \<Rightarrow> ptr \<Rightarrow> node \<Rightarrow> call_args \<Rightarrow> eval \<Rightarrow> (rvalue + call_args) run" where
  "call_arg K env n = (\<lambda>(args, bp, kwargs) ev.
     case (block_pass_expr n, starred ''*'' n, starred ''**'' n) of
       (Some e, _, _) \<Rightarrow> Some (Inr (args, Some e, kwargs), ev)
     | (None, Some e, _) \<Rightarrow> do {
         (v, ev) \<leftarrow> k_eval K env e ev;
         if stops v ev then Some (Inl v, ev) else Some (Inr (add_splat v args ev, bp, kwargs), ev)
       }
     | (None, None, other) \<Rightarrow> do {
         (v, ev) \<leftarrow> k_eval K env (case other of Some e \<Rightarrow> e | None \<Rightarrow> Some n) ev;
         if stops v ev then Some (Inl v, ev)
         else if keyword_hash n \<or> other \<noteq> None then do {
           ((args, kwargs), ev) \<leftarrow> add_kwargs K v args kwargs ev;
           Some (Inr (args, bp, kwargs), ev)
         }
         else Some (Inr (args @ [v], bp, kwargs), ev)
       })"

fun call_arg_list ::
  "runner \<Rightarrow> ptr \<Rightarrow> node_list \<Rightarrow> call_args \<Rightarrow> eval \<Rightarrow> (rvalue + call_args) run" where
  "call_arg_list K env [] acc ev = Some (Inr acc, ev)"
| "call_arg_list K env (x # xs) acc ev =
     (if 64 \<le> length (fst acc) then Some (Inr acc, ev)
      else case x of
        None \<Rightarrow> call_arg_list K env xs acc ev
      | Some n \<Rightarrow> do {
          (r, ev) \<leftarrow> call_arg K env n acc ev;
          case r of Inl v \<Rightarrow> Some (Inl v, ev) | Inr acc \<Rightarrow> call_arg_list K env xs acc ev
        })"

text \<open>The values of the arguments, the keyword arguments last, when they fit.\<close>

definition final_args :: "call_args \<Rightarrow> rvalue list" where
  "final_args = (\<lambda>(args, bp, kwargs).
     if hash_ptr kwargs \<noteq> None \<and> length args < 64 then args @ [kwargs] else args)"

subsection \<open>The block of a call\<close>

text \<open>The pointer to a block is to a variable of the caller; here it is to a value of the heap.\<close>

definition block_cell :: "rvalue \<Rightarrow> eval \<Rightarrow> ptr option \<times> eval" where
  "block_cell v ev = (let (p, ev) = on_heap (alloc_val v) ev in (Some p, ev))"

definition literal_block :: "ptr \<Rightarrow> node \<Rightarrow> eval \<Rightarrow> ptr option \<times> eval" where
  "literal_block env b ev =
     (let (nd, ev) = node_ptr b ev
      in block_cell (mk_val (VAL_BLOCK (Some nd) (Some env) False False (ev_current_file ev))) ev)"

definition method_block :: "rvalue \<Rightarrow> eval \<Rightarrow> ptr option run" where
  "method_block m ev =
     (case (get_ivar m ''__receiver__'' ev, get_ivar m ''__method_name__'' ev) of
        (Some recv, Some name) \<Rightarrow> do {
          s \<leftarrow> sval_text name ev;
          arity \<leftarrow> method_object_arity m ev;
          let (v, ev) = make_bound_method_proc recv s arity ev;
          Some (block_cell v ev)
        }
      | _ \<Rightarrow> Some (None, ev))"

definition passed_block :: "rvalue \<Rightarrow> eval \<Rightarrow> ptr option run" where
  "passed_block bp ev =
     (case v_data bp of
        VAL_SYMBOL _ \<Rightarrow> do {
          s \<leftarrow> sval_text bp ev;
          let (v, ev) = make_symbol_proc s ev;
          Some (block_cell v ev)
        }
      | VAL_BLOCK _ _ _ _ _ \<Rightarrow> Some (block_cell bp ev)
      | _ \<Rightarrow> do {
          is_meth \<leftarrow> instance_of_any [''Method''] bp ev;
          if is_meth then method_block bp ev else Some (None, ev)
        })"

definition call_block_arg ::
  "runner \<Rightarrow> ptr \<Rightarrow> node option \<Rightarrow> node option option \<Rightarrow> eval \<Rightarrow> (rvalue + ptr option) run" where
  "call_block_arg K env b bp ev =
     (case (b, bp) of
        (Some b, _) \<Rightarrow> (let (p, ev) = literal_block env b ev in Some (Inr p, ev))
      | (None, Some e) \<Rightarrow> do {
          (v, ev) \<leftarrow> k_eval K env e ev;
          if val_is_signal v then Some (Inl v, ev)
          else map_option (\<lambda>(p, ev). (Inr p, ev)) (passed_block v ev)
        }
      | (None, None) \<Rightarrow> Some (Inr None, ev))"

end
