(* ===== verification/EvalSend.thy ===== *)
theory EvalSend
  imports EvalCall
begin

section \<open>The evaluator: receivers (eval_call of src/eval_dispatch.c)\<close>

subsection \<open>Calls without a receiver\<close>

text \<open>The block of the method around: the search stops at the first definition.\<close>

partial_function (option) enclosing_block :: "envs \<Rightarrow> ptr option \<Rightarrow> ptr option option" where
  "enclosing_block es sc =
     (case sc of
        None \<Rightarrow> Some None
      | Some p \<Rightarrow>
          (case e_block_arg (es ! p) of
             Some b \<Rightarrow> Some (Some b)
           | None \<Rightarrow>
               if e_is_def (es ! p) then Some None else enclosing_block es (e_parent (es ! p))))"

definition call_yield :: "runner \<Rightarrow> ptr \<Rightarrow> node \<Rightarrow> rvalue list \<Rightarrow> eval \<Rightarrow> rvalue run" where
  "call_yield K env site args ev = do {
     blk \<leftarrow> enclosing_block (ev_envs ev) (Some env);
     case blk of
       None \<Rightarrow> eval_raise_class (Some site) ''LocalJumpError'' ''no block given (yield)'' ev
     | Some b \<Rightarrow> call_block K (h_vals (ev_heap ev) ! b) args (Some site) ev
   }"

definition kernel_names :: "string list" where
  "kernel_names =
     [''puts'', ''print'', ''p'', ''pp'', ''warn'', ''Integer'', ''Float'', ''String'', ''Array'', ''Hash'',
      ''Rational'', ''Complex'', ''format'', ''sprintf'', ''printf'', ''raise'', ''proc'', ''lambda'',
      ''loop'', ''rand'', ''srand'', ''open'', ''exit'', ''exit!'', ''abort'', ''include'', ''prepend'',
      ''extend'', ''require'', ''require_relative'', ''public'', ''private'', ''protected'',
      ''private_class_method'', ''public_class_method'', ''protected_class_method'', ''attr_reader'',
      ''attr_writer'', ''attr_accessor'', ''alias_method'', ''module_function'', ''autoload'',
      ''deprecate_constant'', ''private_constant'', ''public_constant'', ''__dir__'', ''__method__'',
      ''__FILE__'', ''__LINE__'', ''__callee__'', ''binding'', ''eval'', ''`'', ''trap'', ''at_exit'',
      ''sleep'', ''catch'', ''throw'', ''method'', ''respond_to?'', ''caller'', ''caller_locations'',
      ''system'', ''spawn'', ''wait'', ''waitpid'', ''load'']"

definition method_var :: "ptr \<Rightarrow> string \<Rightarrow> eval \<Rightarrow> rvalue option option" where
  "method_var p name ev =
     map_option (\<lambda>found. case found of Some v \<Rightarrow> if is_method v then Some v else None | None \<Rightarrow> None)
       (lookup (Some p) name ev)"

definition kern_key :: "string \<Rightarrow> string" where "kern_key name = ''__kern__'' @ name"

text \<open>A function: a method found as a variable. The jump of a \<open>break\<close> is passed on.\<close>

definition call_function ::
  "runner \<Rightarrow> node \<Rightarrow> string \<Rightarrow> rvalue \<Rightarrow> rvalue list \<Rightarrow> ptr option \<Rightarrow> eval \<Rightarrow> rvalue run" where
  "call_function K site name fn args blk ev =
     (case v_data fn of
        VAL_METHOD nd closure _ _ \<Rightarrow>
          (case data_of (node_at nd ev) of
             Some (NDef _ _ ps body) \<Rightarrow> do {
               let (frame, ev) = new_env closure True ev;
               let (sym, ev) = new_symbol name ev;
               let ev = set_block_arg frame blk (define_var frame ''__method__'' sym ev);
               ev \<leftarrow> bind_params K frame ps args ev;
               if ev_exception_class ev \<noteq> None then Some (val_exception, ev)
               else do {
                 (r, ev) \<leftarrow> k_eval K frame body
                   (enter_method frame (sp_line (n_span site)) (sp_col (n_span site)) name ev);
                 method_result frame None r (leave_method ev)
               }
             }
           | _ \<Rightarrow> None)
      | _ \<Rightarrow> None)"

text \<open>Without a \<open>self\<close>, or when it is nil. The branches for an object or a class are not reached.\<close>

definition call_by_name ::
  "runner \<Rightarrow> ptr \<Rightarrow> node \<Rightarrow> string \<Rightarrow> rvalue list \<Rightarrow> ptr option \<Rightarrow> eval \<Rightarrow> rvalue run" where
  "call_by_name K env site name args blk ev = do {
     fn \<leftarrow> lookup (Some env) name ev;
     case fn of
       None \<Rightarrow> eval_raise_class (Some site) ''NoMethodError'' (''undefined method '' @ in_quotes name) ev
     | Some fn \<Rightarrow>
         if is_method fn then call_function K site name fn args blk ev
         else eval_raise_class (Some site) ''TypeError'' (in_quotes name @ '' is not a method'') ev
   }"

definition call_without_self ::
  "runner \<Rightarrow> ptr \<Rightarrow> node \<Rightarrow> string \<Rightarrow> rvalue list \<Rightarrow> ptr option \<Rightarrow> eval \<Rightarrow> rvalue run" where
  "call_without_self K env site name args blk ev = do {
     self \<leftarrow> lookup (Some env) ''self'' ev;
     case self of
       None \<Rightarrow> call_by_name K env site name args blk ev
     | Some v \<Rightarrow> do {
         (r, ev) \<leftarrow> k_dispatch K env v name args blk (Some site) False 0 ev;
         if \<not> ev_errored ev then Some (r, ev)
         else call_by_name K env site name args blk (ev\<lparr>ev_errored := False\<rparr>)
       }
   }"

definition own_method_of :: "rvalue \<Rightarrow> string \<Rightarrow> eval \<Rightarrow> bool option" where
  "own_method_of self name ev =
     (case v_data self of
        VAL_OBJECT p \<Rightarrow>
          (case class_of (ro_klass (obj_at p ev)) of
             Some k \<Rightarrow> map_option (\<lambda>found. found \<noteq> None)
               (ruby_class_find_instance_method (ev_heap ev) (ev_envs ev) name k)
           | None \<Rightarrow> Some False)
      | _ \<Rightarrow> Some False)"

definition bare_call ::
  "runner \<Rightarrow> ptr \<Rightarrow> node \<Rightarrow> string \<Rightarrow> rvalue list \<Rightarrow> ptr option \<Rightarrow> eval \<Rightarrow> rvalue run" where
  "bare_call K env site name args blk ev =
     (if streq name ''yield'' then call_yield K env site args ev
      else if streq name ''block_given?'' then
        map_option (\<lambda>b. (val_bool (b \<noteq> None), ev)) (enclosing_block (ev_envs ev) (Some env))
      else if list_ex (streq name) kernel_names then k_kernel K env name args blk site ev
      else do {
        self \<leftarrow> lookup_nil (Some env) ''self'' ev;
        own \<leftarrow> own_method_of self name ev;
        if own then k_dispatch K env self name args blk (Some site) False 0 ev
        else do {
          fn \<leftarrow> or_else (method_var (ev_top_env ev) (kern_key name) ev) (method_var env name ev);
          case fn of
            Some fn \<Rightarrow> call_function K site name fn args blk ev
          | None \<Rightarrow>
              if \<not> is_nil self then k_dispatch K env self name args blk (Some site) False 0 ev
              else call_without_self K env site name args blk ev
        }
      })"

subsection \<open>Subscripts of an array\<close>

definition int_of_val :: "rvalue \<Rightarrow> int option" where
  "int_of_val v = (case v_data v of VAL_INT i \<Rightarrow> Some (sint i) | _ \<Rightarrow> None)"

text \<open>A negative index counts from the end.\<close>

definition from_end :: "nat \<Rightarrow> int \<Rightarrow> int" where
  "from_end len i = (if i < 0 then i + int len else i)"

definition sub_array :: "rvalue list \<Rightarrow> int \<Rightarrow> int \<Rightarrow> eval \<Rightarrow> rvalue run" where
  "sub_array xs from till ev = Some (new_array (take (nat (till - from)) (drop (nat from) xs)) ev)"

text \<open>The end of an inclusive range is one more, and has to be representable.\<close>

definition range_end :: "nat \<Rightarrow> ruby_range \<Rightarrow> int \<Rightarrow> int option" where
  "range_end len r i =
     (let e = from_end len i
      in if rr_exclusive r \<noteq> 0 then Some e else if e = LLONG_MAX then None else Some (e + 1))"

definition slice_range :: "rvalue list \<Rightarrow> ruby_range \<Rightarrow> eval \<Rightarrow> rvalue run" where
  "slice_range xs r ev =
     (let len = length xs;
          b = (case int_of_val (rr_begin r) of Some i \<Rightarrow> from_end len i | None \<Rightarrow> 0)
      in if int_of_val (rr_begin r) = None \<and> \<not> is_nil (rr_begin r) then Some (val_nil, ev)
         else if int_of_val (rr_end r) = None \<and> \<not> is_nil (rr_end r) then Some (val_nil, ev)
         else do {
           e \<leftarrow> (case int_of_val (rr_end r) of Some i \<Rightarrow> range_end len r i | None \<Rightarrow> Some (int len));
           let b = max 0 b;
           let e = max b e;
           if int len < b then Some (val_nil, ev) else sub_array xs b (min e (int len)) ev
         })"

definition array_get :: "node \<Rightarrow> rvalue list \<Rightarrow> rvalue list \<Rightarrow> eval \<Rightarrow> rvalue run" where
  "array_get site xs args ev =
     (let len = length xs
      in case args of
           [] \<Rightarrow> eval_raise_class (Some site) ''ArgumentError'' ''wrong number of args for []'' ev
         | a # others \<Rightarrow>
             (let i = from_end len (case int_of_val a of Some i \<Rightarrow> i | None \<Rightarrow> 0)
              in case (v_data a, others) of
                   (VAL_RANGE p, _) \<Rightarrow> slice_range xs (h_ranges (ev_heap ev) ! p) ev
                 | (_, b # _) \<Rightarrow>
                     (case int_of_val b of
                        Some n \<Rightarrow>
                          if i < 0 \<or> int len < i \<or> n < 0 then Some (val_nil, ev)
                          else if LLONG_MAX < i + n then None
                          else sub_array xs i (min (i + n) (int len)) ev
                      | None \<Rightarrow>
                          Some (if i < 0 \<or> int len \<le> i then val_nil else xs ! nat i, ev))
                 | _ \<Rightarrow> Some (if i < 0 \<or> int len \<le> i then val_nil else xs ! nat i, ev)))"

definition set_array :: "ptr \<Rightarrow> (ruby_array \<Rightarrow> ruby_array) \<Rightarrow> eval \<Rightarrow> eval" where
  "set_array p f = set_heap (\<lambda>h. h\<lparr>h_arrays := (h_arrays h)[p := f (h_arrays h ! p)]\<rparr>)"

text \<open>A part replaced: at most 64 values, copied to a new array and back.\<close>

definition array_splice :: "ptr \<Rightarrow> int \<Rightarrow> int \<Rightarrow> rvalue \<Rightarrow> eval \<Rightarrow> rvalue run" where
  "array_splice p i n v ev =
     (let xs = array_elems p ev;
          start = max 0 (from_end (length xs) i);
          n = max 0 n;
          rep = (case value_elems v ev of Some ys \<Rightarrow> take 64 ys
                 | None \<Rightarrow> if is_nil v then [] else [v])
      in if LLONG_MAX < start + n then None
         else
           (let (copy, ev) = new_array (take (nat start) xs @ rep @ drop (nat (start + n)) xs) ev
            in case array_ptr copy of
                 None \<Rightarrow> None
               | Some c \<Rightarrow>
                   (let new = h_arrays (ev_heap ev) ! c
                    in Some (v, set_array p (\<lambda>a. a\<lparr>ra_elems := ra_elems new,
                         ra_cap := (if ra_cap a < length (ra_elems new) then ra_cap new else ra_cap a)\<rparr>) ev))))"

definition pad_to :: "nat \<Rightarrow> ruby_array \<Rightarrow> ruby_array" where
  "pad_to n a = ((array_push val_nil) ^^ (n - length (ra_elems a))) a"

definition array_store :: "ptr \<Rightarrow> int \<Rightarrow> rvalue \<Rightarrow> eval \<Rightarrow> eval" where
  "array_store p i v ev =
     (let i = from_end (length (array_elems p ev)) i
      in if i < 0 then ev
         else set_array p (\<lambda>a. let a = pad_to (nat i + 1) a
                in a\<lparr>ra_elems := (ra_elems a)[nat i := v]\<rparr>) ev)"

definition array_set :: "node \<Rightarrow> ptr \<Rightarrow> rvalue list \<Rightarrow> eval \<Rightarrow> rvalue run" where
  "array_set site p args ev =
     (if length args < 2 then
        eval_raise_class (Some site) ''ArgumentError'' ''wrong number of args for []='' ev
      else if ra_frozen (h_arrays (ev_heap ev) ! p) \<noteq> 0 then
        eval_raise_class (Some site) ''FrozenError'' ''can't modify frozen Array'' ev
      else
        (let i = (case int_of_val (args ! 0) of Some i \<Rightarrow> i | None \<Rightarrow> 0)
         in case (int_of_val (args ! 1), length args = 3) of
              (Some n, True) \<Rightarrow> array_splice p i n (args ! 2) ev
            | _ \<Rightarrow> Some (args ! 1, array_store p i (args ! 1) ev)))"

subsection \<open>Calls with a receiver\<close>

definition mutators :: "string list" where
  "mutators =
     [''<<'', ''concat'', ''replace'', ''clear'', ''prepend'', ''insert'', ''force_encoding'', ''freeze'',
      ''upcase!'', ''downcase!'', ''strip!'', ''lstrip!'', ''rstrip!'', ''chomp!'', ''chop!'', ''reverse!'',
      ''capitalize!'', ''swapcase!'', ''gsub!'', ''sub!'', ''setbyte'']"

definition mutable_kind :: "rvalue \<Rightarrow> bool" where
  "mutable_kind v = (case v_data v of
     VAL_STRING _ \<Rightarrow> True | VAL_ARRAY _ \<Rightarrow> True | VAL_HASH _ \<Rightarrow> True | _ \<Rightarrow> False)"

definition sliced :: "string \<Rightarrow> int \<Rightarrow> int option \<Rightarrow> eval \<Rightarrow> rvalue \<times> eval" where
  "sliced s i n ev =
     (let i = from_end (length s) i
      in if i < 0 \<or> int (length s) \<le> i then (val_nil, ev)
         else case n of
           Some n \<Rightarrow> if n < 0 then (val_nil, ev)
                     else on_heap (val_string_n (take (nat n) (drop (nat i) s))) ev
         | None \<Rightarrow> on_heap (val_string_n (take 1 (drop (nat i) s))) ev)"

definition second_int :: "rvalue list \<Rightarrow> int option" where
  "second_int args = (if length args < 2 then None else int_of_val (args ! 1))"

text \<open>After the method: the variable of the receiver, and the result of the call.\<close>

definition after_dispatch ::
  "ptr \<Rightarrow> node option \<Rightarrow> string \<Rightarrow> rvalue \<Rightarrow> rvalue list \<Rightarrow> rvalue \<Rightarrow> eval \<Rightarrow> rvalue run" where
  "after_dispatch env recv_node meth recv args r ev =
     (let strings = is_string recv \<and> is_string r
      in if mutable_kind r \<and> list_ex (streq meth) mutators then do {
           ev \<leftarrow> update_receiver env recv_node r ev;
           Some (if streq meth ''setbyte'' \<and> 2 \<le> length args then args ! 1 else r, ev)
         }
         else if streq meth ''[]='' \<and> strings then do {
           ev \<leftarrow> update_receiver env recv_node r ev;
           Some (if args = [] then r else last args, ev)
         }
         else if streq meth ''slice!'' \<and> strings \<and> args \<noteq> [] then
           (case int_of_val (hd args) of
              None \<Rightarrow> Some (r, ev)
            | Some i \<Rightarrow> do {
                ev \<leftarrow> update_receiver env recv_node r ev;
                s \<leftarrow> sval_text recv ev;
                Some (sliced (cstr s) i (second_int args) ev)
              })
         else Some (r, ev))"

definition call_on ::
  "runner \<Rightarrow> ptr \<Rightarrow> node \<Rightarrow> node option \<Rightarrow> string \<Rightarrow> rvalue \<Rightarrow> rvalue list \<Rightarrow> ptr option \<Rightarrow> eval \<Rightarrow>
     rvalue run" where
  "call_on K env site recv_node meth recv args blk ev =
     (case (array_ptr recv, streq meth ''[]'', streq meth ''[]='') of
        (Some p, True, _) \<Rightarrow> array_get site (array_elems p ev) args ev
      | (Some p, False, True) \<Rightarrow> array_set site p args ev
      | _ \<Rightarrow> do {
          (r, ev) \<leftarrow> k_dispatch K env recv meth args blk (Some site) False 1 ev;
          after_dispatch env recv_node meth recv args r ev
        })"

definition eval_call ::
  "runner \<Rightarrow> ptr \<Rightarrow> node \<Rightarrow> node option \<Rightarrow> string \<Rightarrow> node_list \<Rightarrow> node option \<Rightarrow> bool \<Rightarrow> eval \<Rightarrow>
     rvalue run" where
  "eval_call K env site recv_node meth arg_nodes b safe_nav ev =
     (if EVAL_MAX_DEPTH < ev_call_depth ev then
        eval_raise_class (Some site) ''SystemStackError'' ''stack level too deep'' ev
      else do {
        (r, ev) \<leftarrow> call_arg_list K env arg_nodes ([], None, val_nil) ev;
        case r of
          Inl v \<Rightarrow> Some (v, ev)
        | Inr acc \<Rightarrow> do {
            (r, ev) \<leftarrow> call_block_arg K env b (fst (snd acc)) ev;
            case r of
              Inl v \<Rightarrow> Some (v, ev)
            | Inr blk \<Rightarrow>
                if recv_node = None then bare_call K env site meth (final_args acc) blk ev
                else do {
                  (recv, ev) \<leftarrow> k_eval K env recv_node ev;
                  if stops recv ev then Some (recv, ev)
                  else if safe_nav \<and> is_nil recv then Some (val_nil, ev)
                  else call_on K env site recv_node meth recv (final_args acc) blk ev
                }
          }
      })"

end
