(* ===== verification/EvalExpr.thy ===== *)
theory EvalExpr
  imports EvalSend
begin

section \<open>The evaluator: expressions (eval_node of src/eval.c, eval_rope of src/eval_support.c)\<close>

subsection \<open>Interpolated strings\<close>

text \<open>A string is read up to its terminator. A signal leaves the buffer as it is, and is dropped.\<close>

definition rope_text :: "runner \<Rightarrow> ptr \<Rightarrow> rvalue \<Rightarrow> eval \<Rightarrow> string run" where
  "rope_text K env v ev =
     (if is_object v \<or> class_of v \<noteq> None then do {
        (t, ev) \<leftarrow> k_dispatch K env v ''to_s'' [] None None False 1 ev;
        s \<leftarrow> (case (is_string t, sval_text t ev) of (True, Some s) \<Rightarrow> Some s | _ \<Rightarrow> to_s K v ev);
        Some (cstr s, ev)
      }
      else map_option (\<lambda>s. (cstr s, ev)) (to_s K v ev))"

definition rope_collect :: "runner \<Rightarrow> ptr \<Rightarrow> rope option \<Rightarrow> string \<Rightarrow> eval \<Rightarrow> string run" where
  "rope_collect K env r buf ev =
     (case r of
        None \<Rightarrow> Some (buf, ev)
      | Some (RopeLit s) \<Rightarrow> Some (buf @ s, ev)
      | Some (RopeExpr n) \<Rightarrow> do {
          (v, ev) \<leftarrow> k_eval K env n ev;
          if stops v ev then Some (buf, ev)
          else map_option (\<lambda>(s, ev). (buf @ s, ev)) (rope_text K env v ev)
        }
      | Some (RopeCat a b) \<Rightarrow> do {
          (buf, ev) \<leftarrow> k_rope K env a buf ev;
          k_rope K env b buf ev
        })"

definition eval_rope :: "runner \<Rightarrow> ptr \<Rightarrow> rope option \<Rightarrow> eval \<Rightarrow> rvalue run" where
  "eval_rope K env r ev = do {
     (s, ev) \<leftarrow> rope_collect K env r [] ev;
     Some (if ev_errored ev then (val_nil, ev) else new_string s ev)
   }"

subsection \<open>Literals and variables\<close>

definition top_class :: "string \<Rightarrow> eval \<Rightarrow> rvalue option option" where
  "top_class name ev =
     map_option (\<lambda>found. case found of Some v \<Rightarrow> if class_of v \<noteq> None then Some v else None
       | None \<Rightarrow> None) (lookup (Some (ev_top_env ev)) name ev)"

definition set_native :: "ptr \<Rightarrow> ptr \<Rightarrow> eval \<Rightarrow> eval" where
  "set_native p nat_ptr = set_heap (\<lambda>h.
     h\<lparr>h_objects := (h_objects h)[p := (h_objects h ! p)\<lparr>ro_native := Some nat_ptr\<rparr>]\<rparr>)"

definition eval_regexp :: "runner \<Rightarrow> node \<Rightarrow> string \<Rightarrow> u32 \<Rightarrow> eval \<Rightarrow> rvalue run" where
  "eval_regexp K n pattern opts ev = do {
     cls \<leftarrow> top_class ''Regexp'' ev;
     case cls of
       None \<Rightarrow> eval_raise_class (Some n) ''NameError'' ''uninitialized constant Regexp'' ev
     | Some cls \<Rightarrow>
         (case k_regex_compile K pattern opts of
            Inl m \<Rightarrow> eval_raise_class (Some n) ''RegexpError''
              (if cstr m = [] then ''regexp compile failed'' else m) ev
          | Inr compiled \<Rightarrow>
              (let (obj, ev) = on_heap (val_object cls) ev;
                   ev = (case v_data obj of VAL_OBJECT p \<Rightarrow> set_native p compiled ev | _ \<Rightarrow> ev);
                   (src, ev) = new_string pattern ev;
                   ev = set_ivar obj ''source'' src ev
               in Some (obj, set_ivar obj ''__options__'' (val_int (ucast opts)) ev)))
   }"

text \<open>A name that is no variable calls a method of \<open>self\<close>; a method found as a variable is called.\<close>

definition eval_lvar :: "runner \<Rightarrow> ptr \<Rightarrow> node \<Rightarrow> string \<Rightarrow> eval \<Rightarrow> rvalue run" where
  "eval_lvar K env n name ev = do {
     found \<leftarrow> lookup (Some env) name ev;
     case found of
       Some v \<Rightarrow>
         if is_method v then do {
           self \<leftarrow> lookup_nil (Some env) ''self'' ev;
           call_method_value K self v None name [] None (Some n) ev
         }
         else Some (v, ev)
     | None \<Rightarrow> do {
         self \<leftarrow> lookup_nil (Some env) ''self'' ev;
         (case v_data self of
            VAL_OBJECT p \<Rightarrow>
              (case class_of (ro_klass (obj_at p ev)) of
                 None \<Rightarrow> Some (val_nil, ev)
               | Some k \<Rightarrow> do {
                   m \<leftarrow> ruby_class_find_instance_method (ev_heap ev) (ev_envs ev) name k;
                   case m of
                     None \<Rightarrow> Some (val_nil, ev)
                   | Some (m, owner) \<Rightarrow> call_method_value K self m owner name [] None (Some n) ev
                 })
          | _ \<Rightarrow> Some (val_nil, ev))
       }
   }"

definition or_nil :: "rvalue option \<Rightarrow> rvalue" where
  "or_nil v = (case v of Some v \<Rightarrow> v | None \<Rightarrow> val_nil)"

definition eval_ivar :: "ptr \<Rightarrow> string \<Rightarrow> eval \<Rightarrow> rvalue option" where
  "eval_ivar env name ev = do {
     found \<leftarrow> lookup (Some env) ''self'' ev;
     (case map_option v_data found of
        Some (VAL_OBJECT p) \<Rightarrow> Some (or_nil (Option.bind found (\<lambda>self. get_ivar self name ev)))
      | Some (VAL_CLASS k) \<Rightarrow>
          (case rc_class_env (klass_of k ev) of
             Some e \<Rightarrow> lookup_nil (Some e) (CHR ''@'' # name) ev
           | None \<Rightarrow> Some (or_nil (get_global name ev)))
      | _ \<Rightarrow> Some (or_nil (get_global name ev)))
   }"

text \<open>\<open>$?\<close> is a new \<open>Process::Status\<close> for the exit code of the last child.\<close>

definition eval_child_status :: "runner \<Rightarrow> ptr \<Rightarrow> node \<Rightarrow> eval \<Rightarrow> rvalue run" where
  "eval_child_status K env n ev = do {
     let code = (case get_global ''__child_exit__'' ev of Some v \<Rightarrow> v | None \<Rightarrow> val_int 0);
     proc_mod \<leftarrow> top_class ''Process'' ev;
     case Option.bind (Option.bind proc_mod class_of) (\<lambda>k. rc_class_env (klass_of k ev)) of
       None \<Rightarrow> Some (val_nil, ev)
     | Some e \<Rightarrow> do {
         status \<leftarrow> lookup_nil (Some e) ''Status'' ev;
         if class_of status = None then Some (val_nil, ev)
         else do {
           (r, ev) \<leftarrow> send K env status ''new'' [code] n ev;
           Some (if val_is_signal r then val_nil else r, ev)
         }
       }
   }"

definition eval_gvar :: "runner \<Rightarrow> ptr \<Rightarrow> node \<Rightarrow> string \<Rightarrow> eval \<Rightarrow> rvalue run" where
  "eval_gvar K env n name ev =
     (if streq name ''?'' then eval_child_status K env n ev
      else Some (or_nil (get_global name ev), ev))"

subsection \<open>Constants\<close>

definition uninitialized :: "node \<Rightarrow> string \<Rightarrow> eval \<Rightarrow> rvalue run" where
  "uninitialized n name =
     eval_raise_class (Some n) ''NameError'' (''uninitialized constant '' @ in_quotes name)"

text \<open>The hook of the module; when it fails, the error is that of the constant.\<close>

definition const_missing ::
  "runner \<Rightarrow> ptr \<Rightarrow> node \<Rightarrow> rvalue \<Rightarrow> string \<Rightarrow> string \<Rightarrow> eval \<Rightarrow> rvalue run" where
  "const_missing K env n parent leaf full ev = do {
     let (sym, ev) = new_symbol leaf ev;
     (r, ev) \<leftarrow> send K env parent ''const_missing'' [sym] n ev;
     if val_is_signal r then uninitialized n full (eval_clear_exception ev) else Some (r, ev)
   }"

definition eval_const :: "runner \<Rightarrow> ptr \<Rightarrow> node \<Rightarrow> string \<Rightarrow> eval \<Rightarrow> rvalue run" where
  "eval_const K env n name ev = do {
     v \<leftarrow> lookup_const_path (Some env) name ev;
     if \<not> is_nil v then Some (v, ev)
     else case split_const_path name of
       (None, leaf) \<Rightarrow> uninitialized n name ev
     | (Some pn, leaf) \<Rightarrow> do {
         parent \<leftarrow> lookup_const_path (Some env) pn ev;
         if class_of parent = None then uninitialized n name ev
         else const_missing K env n parent leaf name ev
       }
   }"

definition eval_const_access ::
  "runner \<Rightarrow> ptr \<Rightarrow> node \<Rightarrow> node option \<Rightarrow> string \<Rightarrow> eval \<Rightarrow> rvalue run" where
  "eval_const_access K env n recv_node name ev = do {
     (recv, ev) \<leftarrow> k_eval K env recv_node ev;
     if stops recv ev then Some (recv, ev)
     else do {
       v \<leftarrow> lookup_const_on_class recv name ev;
       if \<not> is_nil v then Some (v, ev)
       else if class_of recv \<noteq> None then const_missing K env n recv name name ev
       else uninitialized n name ev
     }
   }"

subsection \<open>Assignments\<close>

text \<open>An assignment that raised, as the class of the exception shows, is the exception.\<close>

definition eval_assign ::
  "runner \<Rightarrow> ptr \<Rightarrow> node option \<Rightarrow> node option \<Rightarrow> eval \<Rightarrow> rvalue run" where
  "eval_assign K env target value_node ev = do {
     (v, ev) \<leftarrow> k_eval K env value_node ev;
     if stops v ev then Some (v, ev)
     else do {
       let before = ev_exception_class ev;
       ev \<leftarrow> assign_target K env target v ev;
       Some (if ev_exception_class ev \<noteq> before then val_exception else v, ev)
     }
   }"

text \<open>The operator without its \<open>=\<close>, in a buffer of eight bytes.\<close>

definition op_of_assign :: "string \<Rightarrow> string option" where
  "op_of_assign raw =
     (let s = cstr raw; op = (if s \<noteq> [] \<and> last s = CHR ''='' then butlast s else s)
      in if 8 \<le> length op then None else Some op)"

definition eval_op_assign ::
  "runner \<Rightarrow> ptr \<Rightarrow> node \<Rightarrow> string \<Rightarrow> node option \<Rightarrow> node option \<Rightarrow> eval \<Rightarrow> rvalue run" where
  "eval_op_assign K env n raw ln rn ev = do {
     op \<leftarrow> op_of_assign raw;
     (v, ev) \<leftarrow> eval_binop K env (mk_node (n_span n) (NBinop K_BINOP op ln rn)) op ln rn ev;
     if stops v ev then Some (v, ev)
     else if ln = None then None
     else do {
       ev \<leftarrow> assign_target K env ln v ev;
       Some (v, ev)
     }
   }"

subsection \<open>Unary operators\<close>

text \<open>A part of a complex number that is no number is kept.\<close>

definition negate_part :: "rvalue \<Rightarrow> rvalue option" where
  "negate_part v =
     (case v_data v of
        VAL_INT i \<Rightarrow> map_option val_int (neg64 i)
      | VAL_FLOAT f \<Rightarrow> Some (val_float (dbl_negate f))
      | _ \<Rightarrow> Some v)"

definition negate_complex :: "runner \<Rightarrow> ptr \<Rightarrow> node \<Rightarrow> rvalue \<Rightarrow> rvalue \<Rightarrow> eval \<Rightarrow> rvalue run" where
  "negate_complex K env n cls v ev = do {
     re \<leftarrow> negate_part (or_nil (get_ivar v ''real'' ev));
     im \<leftarrow> negate_part (or_nil (get_ivar v ''imaginary'' ev));
     send K env cls ''new'' [re, im] n ev
   }"

text \<open>The method of the operator: its value, or the state with its error forgotten.\<close>

definition unary_method ::
  "runner \<Rightarrow> ptr \<Rightarrow> node \<Rightarrow> rvalue \<Rightarrow> string \<Rightarrow> eval \<Rightarrow> rvalue option run" where
  "unary_method K env n v meth ev = do {
     (r, ev) \<leftarrow> send K env v meth [] n ev;
     Some (if val_is_signal r then (None, forget_error ev) else (Some r, ev))
   }"

definition undefined_unary :: "node \<Rightarrow> string \<Rightarrow> eval \<Rightarrow> rvalue run" where
  "undefined_unary n op =
     eval_raise_class (Some n) ''NoMethodError'' (''undefined unary operator '' @ in_quotes op)"

definition eval_minus :: "runner \<Rightarrow> ptr \<Rightarrow> node \<Rightarrow> string \<Rightarrow> rvalue \<Rightarrow> eval \<Rightarrow> rvalue run" where
  "eval_minus K env n op v ev =
     (case v_data v of
        VAL_INT i \<Rightarrow> ev_int ev (neg64 i)
      | VAL_FLOAT f \<Rightarrow> Some (val_float (dbl_negate f), ev)
      | _ \<Rightarrow> do {
          complex \<leftarrow> instance_of_any [''Complex''] v ev;
          cls \<leftarrow> (if complex then top_class ''Complex'' ev else Some None);
          case cls of
            Some cls \<Rightarrow> negate_complex K env n cls v ev
          | None \<Rightarrow> do {
              (r, ev) \<leftarrow> unary_method K env n v ''-@'' ev;
              case r of Some r \<Rightarrow> Some (r, ev) | None \<Rightarrow> undefined_unary n op ev
            }
        })"

definition eval_unop ::
  "runner \<Rightarrow> ptr \<Rightarrow> node \<Rightarrow> string \<Rightarrow> node option \<Rightarrow> eval \<Rightarrow> rvalue run" where
  "eval_unop K env n op e ev = do {
     (v, ev) \<leftarrow> k_eval K env e ev;
     if stops v ev then Some (v, ev)
     else if streq op ''!'' \<or> streq op ''not'' then Some (val_bool (\<not> val_truthy v), ev)
     else if streq op ''-'' then eval_minus K env n op v ev
     else if streq op ''+'' then
       (if is_num v then Some (v, ev)
        else map_option (\<lambda>(r, ev). (case r of Some r \<Rightarrow> r | None \<Rightarrow> v, ev))
               (unary_method K env n v ''+@'' ev))
     else if streq op ''~'' then
       (case v_data v of
          VAL_INT i \<Rightarrow> Some (val_int (NOT i), ev)
        | _ \<Rightarrow> do {
            (r, ev) \<leftarrow> unary_method K env n v ''~'' ev;
            case r of Some r \<Rightarrow> Some (r, ev) | None \<Rightarrow> undefined_unary n op ev
          })
     else undefined_unary n op ev
   }"

definition eval_defined :: "runner \<Rightarrow> ptr \<Rightarrow> node option \<Rightarrow> eval \<Rightarrow> rvalue run" where
  "eval_defined K env e ev =
     map_option (\<lambda>(k, ev). case k of Some s \<Rightarrow> new_string s ev | None \<Rightarrow> (val_nil, ev))
       (defined_expr K env e ev)"

subsection \<open>Ranges, arrays and hashes\<close>

definition optional_value :: "runner \<Rightarrow> ptr \<Rightarrow> node option \<Rightarrow> eval \<Rightarrow> rvalue run" where
  "optional_value K env n ev = (if n = None then Some (val_nil, ev) else k_eval K env n ev)"

definition eval_range ::
  "runner \<Rightarrow> ptr \<Rightarrow> node option \<Rightarrow> node option \<Rightarrow> bool \<Rightarrow> eval \<Rightarrow> rvalue run" where
  "eval_range K env from till exclusive ev = do {
     (b, ev) \<leftarrow> optional_value K env from ev;
     if from \<noteq> None \<and> stops b ev then Some (b, ev)
     else do {
       (e, ev) \<leftarrow> optional_value K env till ev;
       if till \<noteq> None \<and> stops e ev then Some (e, ev)
       else Some (on_heap (val_range b e (of_bool exclusive)) ev)
     }
   }"

definition push_value :: "rvalue \<Rightarrow> rvalue \<Rightarrow> eval \<Rightarrow> eval" where
  "push_value arr v = set_heap (val_array_push arr v)"

text \<open>A failed \<open>to_a\<close> takes the class of its exception away, not the message.\<close>

definition splat_into ::
  "runner \<Rightarrow> ptr \<Rightarrow> node \<Rightarrow> rvalue \<Rightarrow> rvalue \<Rightarrow> eval \<Rightarrow> eval option" where
  "splat_into K env n arr v ev = do {
     (v, ev) \<leftarrow> (if array_ptr v \<noteq> None \<or> is_nil v then Some (v, ev)
        else do {
          (a, ev) \<leftarrow> send K env v ''to_a'' [] n ev;
          Some (if \<not> ev_errored ev \<and> array_ptr a \<noteq> None then (a, ev)
            else (v, ev\<lparr>ev_errored := False, ev_exception_class := None\<rparr>))
        });
     Some (case value_elems v ev of
         Some xs \<Rightarrow> fold (push_value arr) xs ev
       | None \<Rightarrow> if is_nil v then ev else push_value arr v ev)
   }"

fun eval_elements ::
  "runner \<Rightarrow> ptr \<Rightarrow> rvalue \<Rightarrow> node_list \<Rightarrow> eval \<Rightarrow> rvalue run" where
  "eval_elements K env arr [] ev = Some (arr, ev)"
| "eval_elements K env arr (x # xs) ev =
     (case Option.bind x (starred ''*'') of
        Some e \<Rightarrow> do {
          (v, ev) \<leftarrow> k_eval K env e ev;
          if stops v ev then Some (v, ev)
          else do {
            ev \<leftarrow> splat_into K env (the x) arr v ev;
            eval_elements K env arr xs ev
          }
        }
      | None \<Rightarrow> do {
          (v, ev) \<leftarrow> k_eval K env x ev;
          if stops v ev then Some (v, ev) else eval_elements K env arr xs (push_value arr v ev)
        })"

definition eval_array :: "runner \<Rightarrow> ptr \<Rightarrow> node_list \<Rightarrow> eval \<Rightarrow> rvalue run" where
  "eval_array K env xs ev =
     (let (arr, ev) = on_heap val_array_new ev in eval_elements K env arr xs ev)"

fun eval_pairs :: "runner \<Rightarrow> ptr \<Rightarrow> rvalue \<Rightarrow> node_list \<Rightarrow> eval \<Rightarrow> rvalue run" where
  "eval_pairs K env h [] ev = Some (h, ev)"
| "eval_pairs K env h (x # xs) ev =
     (case data_of x of
        Some (NPair None e) \<Rightarrow> do {
          (v, ev) \<leftarrow> k_eval K env e ev;
          if stops v ev then Some (v, ev)
          else do {
            ev \<leftarrow> (case hash_ptr v of
                Some p \<Rightarrow> each (\<lambda>(k, w). store_pair K h k w) (hash_pairs p ev) ev
              | None \<Rightarrow> Some ev);
            eval_pairs K env h xs ev
          }
        }
      | Some (NPair key e) \<Rightarrow> do {
          (k, ev) \<leftarrow> k_eval K env key ev;
          if stops k ev then Some (k, ev)
          else do {
            (v, ev) \<leftarrow> k_eval K env e ev;
            if stops v ev then Some (v, ev)
            else do {
              ev \<leftarrow> store_pair K h k v ev;
              eval_pairs K env h xs ev
            }
          }
        }
      | _ \<Rightarrow> eval_pairs K env h xs ev)"

definition eval_hash :: "runner \<Rightarrow> ptr \<Rightarrow> node_list \<Rightarrow> eval \<Rightarrow> rvalue run" where
  "eval_hash K env xs ev = (let (h, ev) = on_heap val_hash_new ev in eval_pairs K env h xs ev)"

end
