(* ===== verification/EvalFlow.thy ===== *)
theory EvalFlow
  imports EvalExpr
begin

section \<open>The evaluator: control flow (eval_node of src/eval.c)\<close>

subsection \<open>Conditions\<close>

definition eval_cond ::
  "runner \<Rightarrow> ptr \<Rightarrow> cond_kind \<Rightarrow> node option \<Rightarrow> node option \<Rightarrow> node option \<Rightarrow> eval \<Rightarrow> rvalue run" where
  "eval_cond K env kind cond_node then_body else_body ev = do {
     (c, ev) \<leftarrow> k_eval K env cond_node ev;
     if stops c ev then Some (c, ev)
     else if (if kind = K_IF then val_truthy c else \<not> val_truthy c) then k_eval K env then_body ev
     else optional_value K env else_body ev
   }"

subsection \<open>Loops\<close>

text \<open>
  One turn of a loop gives the value that ends it, if one does. A \<open>throw\<close> and a \<open>retry\<close> are not
  among the signals that do. The loop itself is not bounded: \<open>None\<close> when it does not end.
\<close>

definition loop_test ::
  "runner \<Rightarrow> ptr \<Rightarrow> loop_kind \<Rightarrow> node option \<Rightarrow> eval \<Rightarrow> rvalue option run" where
  "loop_test K env kind cond_node ev = do {
     (c, ev) \<leftarrow> k_eval K env cond_node ev;
     Some (if stops c ev then Some c
           else if (if kind = K_WHILE then val_truthy c else \<not> val_truthy c) then None
           else Some val_nil, ev)
   }"

definition body_exit :: "rvalue \<Rightarrow> eval \<Rightarrow> rvalue option run" where
  "body_exit r ev =
     (case v_data r of
        VAL_BREAK _ \<Rightarrow> map_option (\<lambda>v. (Some v, ev)) (wrapped r ev)
      | VAL_RETURN _ _ \<Rightarrow> Some (Some r, ev)
      | VAL_EXCEPTION \<Rightarrow> Some (Some r, ev)
      | _ \<Rightarrow> Some (None, ev))"

definition loop_turn ::
  "runner \<Rightarrow> ptr \<Rightarrow> loop_kind \<Rightarrow> bool \<Rightarrow> node option \<Rightarrow> node option \<Rightarrow> eval \<Rightarrow> rvalue option run" where
  "loop_turn K env kind post cond_node body ev = do {
     (stop, ev) \<leftarrow> (if post then Some (None, ev) else loop_test K env kind cond_node ev);
     if stop \<noteq> None then Some (stop, ev)
     else do {
       (r, ev) \<leftarrow> k_eval K env body ev;
       (stop, ev) \<leftarrow> body_exit r ev;
       if stop = None \<and> post then loop_test K env kind cond_node ev else Some (stop, ev)
     }
   }"

partial_function (option) eval_loop :: "(eval \<Rightarrow> rvalue option run) \<Rightarrow> eval \<Rightarrow> rvalue run" where
  "eval_loop turn ev =
     Option.bind (turn ev) (\<lambda>(stop, ev).
       if stop = None then eval_loop turn ev else Some (the stop, ev))"

text \<open>
  The body of a \<open>for\<close> for one item: the value of the turn, and whether the loop is done. The length
  of the array is read again at every turn.
\<close>

definition for_turn ::
  "runner \<Rightarrow> ptr \<Rightarrow> node option \<Rightarrow> node option \<Rightarrow> rvalue \<Rightarrow> eval \<Rightarrow> (rvalue \<times> bool) run" where
  "for_turn K env target body item ev = do {
     ev \<leftarrow> assign_target K env target item ev;
     (r, ev) \<leftarrow> k_eval K env body ev;
     (stop, ev) \<leftarrow> body_exit r ev;
     Some (case stop of
         Some v \<Rightarrow> (v, True)
       | None \<Rightarrow> (case v_data r of VAL_NEXT _ \<Rightarrow> (val_nil, False) | _ \<Rightarrow> (r, False)), ev)
   }"

partial_function (option) for_array ::
  "(rvalue \<Rightarrow> eval \<Rightarrow> (rvalue \<times> bool) run) \<Rightarrow> ptr \<Rightarrow> nat \<Rightarrow> rvalue \<Rightarrow> eval \<Rightarrow> rvalue run" where
  "for_array turn p i r ev =
     (if length (array_elems p ev) \<le> i then Some (r, ev)
      else Option.bind (turn (array_elems p ev ! i) ev) (\<lambda>((r, stop), ev).
        if stop then Some (r, ev) else for_array turn p (i + 1) r ev))"

text \<open>The counter has to stay representable after the last turn.\<close>

partial_function (option) for_range ::
  "(rvalue \<Rightarrow> eval \<Rightarrow> (rvalue \<times> bool) run) \<Rightarrow> int \<Rightarrow> bool \<Rightarrow> i64 \<Rightarrow> rvalue \<Rightarrow> eval \<Rightarrow> rvalue run" where
  "for_range turn hi exclusive i r ev =
     (if (if exclusive then sint i < hi else sint i \<le> hi) then
        Option.bind (turn (val_int i) ev) (\<lambda>((r, stop), ev).
          if stop then Some (r, ev)
          else Option.bind (add64 i 1) (\<lambda>i. for_range turn hi exclusive i r ev))
      else Some (r, ev))"

definition eval_for ::
  "runner \<Rightarrow> ptr \<Rightarrow> node \<Rightarrow> node option \<Rightarrow> node option \<Rightarrow> node option \<Rightarrow> eval \<Rightarrow> rvalue run" where
  "eval_for K env n target iter_node body ev = do {
     (it, ev) \<leftarrow> k_eval K env iter_node ev;
     if stops it ev then Some (it, ev)
     else
       (let turn = for_turn K env target body
        in case v_data it of
             VAL_ARRAY (Some p) \<Rightarrow> for_array turn p 0 val_nil ev
           | VAL_RANGE p \<Rightarrow>
               (let r = h_ranges (ev_heap ev) ! p
                in case (v_data (rr_begin r), v_data (rr_end r)) of
                     (VAL_INT lo, VAL_INT hi) \<Rightarrow>
                       for_range turn (sint hi) (rr_exclusive r \<noteq> 0) lo val_nil ev
                   | _ \<Rightarrow> eval_raise_class (Some n) ''TypeError'' ''for loop requires an Integer range'' ev)
           | _ \<Rightarrow> do {
               (a, ev) \<leftarrow> send K env it ''to_a'' [] n ev;
               if val_is_signal a then Some (a, ev)
               else case array_ptr a of
                 Some p \<Rightarrow> for_array turn p 0 val_nil ev
               | None \<Rightarrow> eval_raise_class (Some n) ''TypeError''
                   (''no implicit conversion of '' @ val_kind_name (v_data it) @ '' into Array'') ev
             })
   }"

subsection \<open>case and case/in\<close>

text \<open>The patterns of one \<open>when\<close>: a value that ends the \<open>case\<close>, or whether one matches.\<close>

fun when_matches ::
  "runner \<Rightarrow> ptr \<Rightarrow> node \<Rightarrow> rvalue option \<Rightarrow> node_list \<Rightarrow> eval \<Rightarrow> (rvalue + bool) run" where
  "when_matches K env n subject [] ev = Some (Inr False, ev)"
| "when_matches K env n subject (p # ps) ev = do {
     (pat, ev) \<leftarrow> k_eval K env p ev;
     if stops pat ev then Some (Inl pat, ev)
     else case subject of
       None \<Rightarrow>
         if val_truthy pat then Some (Inr True, ev) else when_matches K env n subject ps ev
     | Some s \<Rightarrow> do {
         (r, ev) \<leftarrow> send K env pat ''==='' [s] n ev;
         if stops r ev then Some (Inl r, ev)
         else if val_truthy r then Some (Inr True, ev) else when_matches K env n subject ps ev
       }
   }"

fun eval_whens ::
  "runner \<Rightarrow> ptr \<Rightarrow> node \<Rightarrow> rvalue option \<Rightarrow> node_list \<Rightarrow> node option \<Rightarrow> eval \<Rightarrow> rvalue run" where
  "eval_whens K env n subject [] else_body ev = optional_value K env else_body ev"
| "eval_whens K env n subject (w # ws) else_body ev =
     (case data_of w of
        Some (NWhen ps body) \<Rightarrow> do {
          (r, ev) \<leftarrow> when_matches K env n subject ps ev;
          case r of
            Inl v \<Rightarrow> Some (v, ev)
          | Inr True \<Rightarrow> k_eval K env body ev
          | Inr False \<Rightarrow> eval_whens K env n subject ws else_body ev
        }
      | _ \<Rightarrow> eval_whens K env n subject ws else_body ev)"

definition eval_case ::
  "runner \<Rightarrow> ptr \<Rightarrow> node \<Rightarrow> node option \<Rightarrow> node_list \<Rightarrow> node option \<Rightarrow> eval \<Rightarrow> rvalue run" where
  "eval_case K env n subject ws else_body ev =
     (if subject = None then eval_whens K env n None ws else_body ev
      else do {
        (s, ev) \<leftarrow> k_eval K env subject ev;
        if stops s ev then Some (s, ev) else eval_whens K env n (Some s) ws else_body ev
      })"

text \<open>A guard that is a signal counts as false; its exception is not cleared.\<close>

definition guard_holds :: "runner \<Rightarrow> ptr \<Rightarrow> node option \<Rightarrow> eval \<Rightarrow> bool run" where
  "guard_holds K benv guard ev =
     (if guard = None then Some (True, ev)
      else map_option (\<lambda>(g, ev). (\<not> val_is_signal g \<and> val_truthy g, ev)) (k_eval K benv guard ev))"

fun eval_ins ::
  "runner \<Rightarrow> ptr \<Rightarrow> node \<Rightarrow> rvalue \<Rightarrow> node_list \<Rightarrow> node option \<Rightarrow> eval \<Rightarrow> rvalue run" where
  "eval_ins K env n subject [] else_body ev =
     (if else_body \<noteq> None then k_eval K env else_body ev
      else do {
        s \<leftarrow> inspect K subject ev;
        eval_raise_class (Some n) ''NoMatchingPatternError''
          (''NoMatchingPatternError ('' @ s @ '')'') ev
      })"
| "eval_ins K env n subject (x # xs) else_body ev =
     (case data_of x of
        Some (NIn pat guard body) \<Rightarrow> do {
          let (benv, ev) = new_env (Some env) False ev;
          (ok, ev) \<leftarrow> match_pattern K env benv subject pat ev;
          (ok, ev) \<leftarrow> (if ok then guard_holds K benv guard ev else Some (False, ev));
          if ok then k_eval K benv body (copy_vars benv env ev)
          else eval_ins K env n subject xs else_body ev
        }
      | _ \<Rightarrow> eval_ins K env n subject xs else_body ev)"

definition eval_patcase ::
  "runner \<Rightarrow> ptr \<Rightarrow> node \<Rightarrow> node option \<Rightarrow> node_list \<Rightarrow> node option \<Rightarrow> eval \<Rightarrow> rvalue run" where
  "eval_patcase K env n subject xs else_body ev = do {
     (s, ev) \<leftarrow> k_eval K env subject ev;
     if stops s ev then Some (s, ev) else eval_ins K env n s xs else_body ev
   }"

subsection \<open>begin, rescue, else and ensure\<close>

text \<open>
  Whether the exception in flight is of one of the classes. A class that cannot be evaluated is
  passed over: the exception, its class and the error flag are put back, the message is not.
\<close>

fun rescue_matches :: "runner \<Rightarrow> ptr \<Rightarrow> node_list \<Rightarrow> eval \<Rightarrow> bool run" where
  "rescue_matches K env [] ev = Some (False, ev)"
| "rescue_matches K env (c # cs) ev = do {
     let saved = ev;
     (k, ev) \<leftarrow> k_eval K env c ev;
     if val_is_signal k then
       rescue_matches K env cs (ev\<lparr>ev_current_exception := ev_current_exception saved,
         ev_exception_class := ev_exception_class saved, ev_errored := ev_errored saved\<rparr>)
     else do {
       is_a \<leftarrow> exception_is_a k ev;
       if is_a then Some (True, ev) else rescue_matches K env cs ev
     }
   }"

text \<open>The first clause that applies: its variable and its body.\<close>

fun find_rescue ::
  "runner \<Rightarrow> ptr \<Rightarrow> node_list \<Rightarrow> eval \<Rightarrow> (string option \<times> node option) option run" where
  "find_rescue K env [] ev = Some (None, ev)"
| "find_rescue K env (r # rs) ev =
     (case data_of r of
        Some (NRescue classes var body) \<Rightarrow> do {
          (ok, ev) \<leftarrow> (if classes = [] then Some (True, ev) else rescue_matches K env classes ev);
          if ok then Some (Some (var, body), ev) else find_rescue K env rs ev
        }
      | _ \<Rightarrow> find_rescue K env rs ev)"

definition run_rescue ::
  "runner \<Rightarrow> ptr \<Rightarrow> string option \<Rightarrow> node option \<Rightarrow> eval \<Rightarrow> rvalue run" where
  "run_rescue K env var body ev = do {
     let exc = ev_current_exception ev;
     let context = ev_rescue_context ev;
     let bang = or_nil (get_global ''!'' ev);
     let ev = set_global ''!'' exc ((eval_clear_exception ev)\<lparr>ev_rescue_context := exc\<rparr>);
     (renv, ev) \<leftarrow> (case var of
         None \<Rightarrow> Some (env, ev)
       | Some name \<Rightarrow>
           (let (renv, ev) = new_env (Some env) False ev
            in map_option (Pair renv) (set_var renv name exc ev)));
     (r, ev) \<leftarrow> k_eval K renv body ev;
     Some (r, set_global ''!'' bang (ev\<lparr>ev_rescue_context := context\<rparr>))
   }"

text \<open>
  The body and its rescue clause, again after a \<open>retry\<close>. The flag \<open>rescued\<close> stays set once a clause
  has run. A clause that asks to retry gives no value.
\<close>

definition begin_turn ::
  "runner \<Rightarrow> ptr \<Rightarrow> node option \<Rightarrow> node_list \<Rightarrow> bool \<Rightarrow> eval \<Rightarrow> (rvalue option \<times> bool) run" where
  "begin_turn K env body rescues rescued ev = do {
     (r, ev) \<leftarrow> k_eval K env body ev;
     if \<not> is_exception r then Some ((Some r, rescued), ev)
     else do {
       (clause, ev) \<leftarrow> find_rescue K env rescues ev;
       case clause of
         None \<Rightarrow> Some ((Some r, rescued), ev)
       | Some (var, rbody) \<Rightarrow> do {
           (r, ev) \<leftarrow> run_rescue K env var rbody ev;
           Some ((if v_data r = VAL_RETRY then None else Some r, True), ev)
         }
     }
   }"

partial_function (option) begin_loop ::
  "(bool \<Rightarrow> eval \<Rightarrow> (rvalue option \<times> bool) run) \<Rightarrow> bool \<Rightarrow> eval \<Rightarrow> (rvalue \<times> bool) run" where
  "begin_loop turn rescued ev =
     Option.bind (turn rescued ev) (\<lambda>((r, rescued), ev).
       if r = None then begin_loop turn rescued ev else Some ((the r, rescued), ev))"

text \<open>The \<open>ensure\<close> clause: a signal of its own takes the place of the result.\<close>

definition run_ensure :: "runner \<Rightarrow> ptr \<Rightarrow> node option \<Rightarrow> rvalue \<Rightarrow> eval \<Rightarrow> rvalue run" where
  "run_ensure K env body r saved = do {
     (e, ev) \<leftarrow> k_eval K env body (eval_clear_exception saved);
     if val_is_signal e then Some (e, ev)
     else Some (r,
       if is_exception r then
         ev\<lparr>ev_current_exception := ev_current_exception saved,
            ev_exception_class := ev_exception_class saved,
            ev_exception_msg := ev_exception_msg saved,
            ev_exception_line := ev_exception_line saved,
            ev_exception_col := ev_exception_col saved\<rparr>
       else ev)
   }"

definition eval_begin ::
  "runner \<Rightarrow> ptr \<Rightarrow> node option \<Rightarrow> node_list \<Rightarrow> node option \<Rightarrow> node option \<Rightarrow> eval \<Rightarrow> rvalue run" where
  "eval_begin K env body rescues else_body ensure_body ev = do {
     ((r, rescued), ev) \<leftarrow> begin_loop (begin_turn K env body rescues) False ev;
     (r, ev) \<leftarrow> (if \<not> is_exception r \<and> \<not> rescued \<and> else_body \<noteq> None then k_eval K env else_body ev
               else Some (r, ev));
     if ensure_body = None then Some (r, ev) else run_ensure K env ensure_body r ev
   }"

subsection \<open>Jumps\<close>

definition make_jump :: "ptr \<Rightarrow> jump_kind \<Rightarrow> rvalue \<Rightarrow> eval \<Rightarrow> rvalue run" where
  "make_jump env kind v ev =
     (case kind of
        K_RETURN \<Rightarrow> map_option (\<lambda>target. on_heap (val_return v target) ev)
          (env_nearest_def (ev_envs ev) (Some env))
      | K_BREAK \<Rightarrow> Some (on_heap (val_break v) ev)
      | K_NEXT \<Rightarrow> Some (on_heap (val_next v) ev))"

definition eval_jump :: "runner \<Rightarrow> ptr \<Rightarrow> jump_kind \<Rightarrow> node option \<Rightarrow> eval \<Rightarrow> rvalue run" where
  "eval_jump K env kind e ev = do {
     (v, ev) \<leftarrow> optional_value K env e ev;
     if e \<noteq> None \<and> stops v ev then Some (v, ev) else make_jump env kind v ev
   }"

subsection \<open>Bodies\<close>

text \<open>First the \<open>BEGIN\<close> blocks, then the statements, then the \<open>END\<close> blocks from the last.\<close>

definition hook_body :: "hook_kind \<Rightarrow> node option \<Rightarrow> node option option" where
  "hook_body kind n =
     (case data_of n of Some (NProgHook k b) \<Rightarrow> if k = kind then Some b else None | _ \<Rightarrow> None)"

definition hook_bodies :: "hook_kind \<Rightarrow> node_list \<Rightarrow> node_list" where
  "hook_bodies kind xs = List.map_filter (hook_body kind) xs"

definition plain_stmts :: "node_list \<Rightarrow> node_list" where
  "plain_stmts xs = filter (\<lambda>n. n \<noteq> None \<and> hook_body K_PROG_BEGIN n = None \<and>
     hook_body K_PROG_END n = None) xs"

text \<open>The statements in order; the value of one that stops the body is on the left.\<close>

fun eval_stmts :: "runner \<Rightarrow> ptr \<Rightarrow> node_list \<Rightarrow> rvalue \<Rightarrow> eval \<Rightarrow> (rvalue + rvalue) run" where
  "eval_stmts K env [] r ev = Some (Inr r, ev)"
| "eval_stmts K env (x # xs) r ev = do {
     (r, ev) \<leftarrow> k_eval K env x ev;
     if stops r ev then Some (Inl r, ev) else eval_stmts K env xs r ev
   }"

definition run_ends :: "runner \<Rightarrow> ptr \<Rightarrow> node_list \<Rightarrow> eval \<Rightarrow> eval option" where
  "run_ends K env = each (\<lambda>b ev. map_option snd (k_eval K env b ev))"

definition eval_body :: "runner \<Rightarrow> ptr \<Rightarrow> node_list \<Rightarrow> eval \<Rightarrow> rvalue run" where
  "eval_body K env xs ev = do {
     (r, ev) \<leftarrow> eval_stmts K env (hook_bodies K_PROG_BEGIN xs @ plain_stmts xs) val_nil ev;
     case r of
       Inl v \<Rightarrow> Some (v, ev)
     | Inr v \<Rightarrow> do {
         ev \<leftarrow> run_ends K env (rev (hook_bodies K_PROG_END xs)) ev;
         Some (v, ev)
       }
   }"

end
