(* ===== verification/EvalDefs.thy ===== *)
theory EvalDefs
  imports EvalFlow
begin

section \<open>The evaluator: methods, classes and super (eval_node of src/eval.c)\<close>

subsection \<open>super\<close>

definition self_key :: "string \<Rightarrow> string" where "self_key name = ''self.'' @ name"

text \<open>The arguments given: at most 64.\<close>

fun super_arg_list ::
  "runner \<Rightarrow> ptr \<Rightarrow> node_list \<Rightarrow> rvalue list \<Rightarrow> eval \<Rightarrow> (rvalue + rvalue list) run" where
  "super_arg_list K env [] acc ev = Some (Inr acc, ev)"
| "super_arg_list K env (x # xs) acc ev =
     (if 64 \<le> length acc then Some (Inr acc, ev)
      else do {
        (v, ev) \<leftarrow> k_eval K env x ev;
        if stops v ev then Some (Inl v, ev) else super_arg_list K env xs (acc @ [v]) ev
      })"

text \<open>Without arguments the positional parameters of the method are passed on, as they are now.\<close>

definition forwarded :: "node option \<Rightarrow> string option" where
  "forwarded p =
     (case param_of p of
        Some (name, d, f) \<Rightarrow>
          if p_block_param f \<or> p_keyword_param f \<or> p_keyword_splat f then None else name
      | None \<Rightarrow> None)"

fun forward_values :: "ptr \<Rightarrow> node_list \<Rightarrow> rvalue list \<Rightarrow> eval \<Rightarrow> rvalue list option" where
  "forward_values env [] acc ev = Some acc"
| "forward_values env (p # ps) acc ev =
     (if 64 \<le> length acc then Some acc
      else if p = None then None
      else case forwarded p of
        None \<Rightarrow> forward_values env ps acc ev
      | Some name \<Rightarrow> do {
          found \<leftarrow> lookup (Some env) name ev;
          forward_values env ps (case found of Some v \<Rightarrow> acc @ [v] | None \<Rightarrow> acc) ev
        })"

text \<open>A class method is an entry of the class itself; other methods are also looked for around it.\<close>

definition method_entry :: "rvalue \<Rightarrow> ptr \<Rightarrow> string \<Rightarrow> eval \<Rightarrow> rvalue option option" where
  "method_entry self cls name ev =
     (let e = rc_class_env (klass_of cls ev);
          own = (if class_of self = None then None else lookup_own e (self_key name) ev)
      in case own of
           Some v \<Rightarrow> if is_method v then Some (Some v)
             else map_option (\<lambda>f. case f of Some v \<Rightarrow> if is_method v then Some v else None | None \<Rightarrow> None)
               (lookup e name ev)
         | None \<Rightarrow> map_option (\<lambda>f. case f of Some v \<Rightarrow> if is_method v then Some v else None | None \<Rightarrow> None)
               (lookup e name ev))"

definition forward_args :: "ptr \<Rightarrow> rvalue \<Rightarrow> ptr \<Rightarrow> string \<Rightarrow> eval \<Rightarrow> rvalue list option" where
  "forward_args env self cls name ev = do {
     m \<leftarrow> method_entry self cls name ev;
     (case map_option v_data m of
        Some (VAL_METHOD nd _ _ _) \<Rightarrow>
          (case data_of (node_at nd ev) of
             Some (NDef _ _ ps _) \<Rightarrow> forward_values env ps [] ev | _ \<Rightarrow> None)
      | _ \<Rightarrow> Some [])
   }"

definition find_super ::
  "rvalue \<Rightarrow> ptr \<Rightarrow> string \<Rightarrow> eval \<Rightarrow> (rvalue \<times> ptr option) option option" where
  "find_super self cls name ev =
     (case v_data self of
        VAL_OBJECT p \<Rightarrow>
          (case class_of (ro_klass (obj_at p ev)) of
             None \<Rightarrow> None
           | Some k \<Rightarrow> map_option (map_option (map_prod id Some))
               (ruby_class_find_super_method (ev_heap ev) (ev_envs ev) k cls name))
      | VAL_CLASS k \<Rightarrow> ruby_class_find_class_super_method (ev_heap ev) (ev_envs ev) k cls name
      | _ \<Rightarrow> None)"

definition no_super :: "node \<Rightarrow> eval \<Rightarrow> rvalue run" where
  "no_super n = eval_raise_class (Some n) ''NoMethodError'' ''super called outside of instance method''"

definition call_super ::
  "runner \<Rightarrow> ptr \<Rightarrow> node \<Rightarrow> rvalue \<Rightarrow> ptr \<Rightarrow> string \<Rightarrow> rvalue list \<Rightarrow> eval \<Rightarrow> rvalue run" where
  "call_super K env n self cls name args ev = do {
     found \<leftarrow> find_super self cls name ev;
     case found of
       Some (m, owner) \<Rightarrow> do {
         blk \<leftarrow> enclosing_block (ev_envs ev) (Some env);
         call_method_value K self m owner name args blk (Some n) ev
       }
     | None \<Rightarrow>
         if is_object self \<and> streq name ''initialize'' then Some (self, ev)
         else eval_raise_class (Some n) ''NoMethodError''
           (''super: no superclass method '' @ in_quotes name) ev
   }"

definition eval_super :: "runner \<Rightarrow> ptr \<Rightarrow> node \<Rightarrow> node_list \<Rightarrow> bool \<Rightarrow> eval \<Rightarrow> rvalue run" where
  "eval_super K env n xs forward ev = do {
     self \<leftarrow> lookup (Some env) ''self'' ev;
     cls \<leftarrow> lookup (Some env) ''__class__'' ev;
     meth \<leftarrow> lookup (Some env) ''__method__'' ev;
     case (self, Option.bind cls class_of, meth) of
       (Some self, Some k, Some m) \<Rightarrow>
         if \<not> is_object self \<and> class_of self = None then no_super n ev
         else do {
           name \<leftarrow> sval_text m ev;
           (r, ev) \<leftarrow> (if forward then map_option (\<lambda>xs. (Inr xs, ev)) (forward_args env self k name ev)
                     else super_arg_list K env xs [] ev);
           case r of
             Inl v \<Rightarrow> Some (v, ev) | Inr args \<Rightarrow> call_super K env n self k name args ev
         }
     | _ \<Rightarrow> no_super n ev
   }"

subsection \<open>Methods\<close>

definition method_value :: "node \<Rightarrow> method_visibility \<Rightarrow> eval \<Rightarrow> rvalue \<times> eval" where
  "method_value n vis ev =
     (let (nd, ev) = node_ptr n ev
      in (val_method (Some nd) (Some (ev_top_env ev)) vis (ev_current_file ev), ev))"

definition define_method ::
  "ptr \<Rightarrow> string \<Rightarrow> node \<Rightarrow> method_visibility \<Rightarrow> eval \<Rightarrow> eval" where
  "define_method e key n vis ev = (let (m, ev) = method_value n vis ev in define_var e key m ev)"

definition visibility_at :: "ptr \<Rightarrow> eval \<Rightarrow> method_visibility option" where
  "visibility_at env ev = current_method_visibility (ev_heap ev) (ev_envs ev) (Some env)"

text \<open>The hook is looked up, then called by name; what it raises is dropped.\<close>

definition fire_method_added ::
  "runner \<Rightarrow> ptr \<Rightarrow> rvalue \<Rightarrow> string \<Rightarrow> node \<Rightarrow> eval \<Rightarrow> eval option" where
  "fire_method_added K env klass name n ev =
     (case class_of klass of
        None \<Rightarrow> Some ev
      | Some k \<Rightarrow> do {
          hook \<leftarrow> ruby_class_find_class_method (ev_heap ev) (ev_envs ev) ''method_added'' k;
          if hook = None then Some ev
          else do {
            let (sym, ev) = new_symbol name ev;
            (r, ev) \<leftarrow> send K env klass ''method_added'' [sym] n ev;
            Some (ev\<lparr>ev_current_exception := val_nil, ev_exception_class := None,
                     ev_exception_msg := []\<rparr>)
          }
        })"

text \<open>After \<open>module_function\<close> a method of a module is a public method of the module itself too.\<close>

definition add_module_function :: "ptr \<Rightarrow> ptr \<Rightarrow> string \<Rightarrow> node \<Rightarrow> rvalue \<Rightarrow> eval \<Rightarrow> eval option" where
  "add_module_function env e name n self ev =
     (case class_of self of
        None \<Rightarrow> Some ev
      | Some k \<Rightarrow>
          if rc_is_module (klass_of k ev) = 0 then Some ev
          else map_option (\<lambda>b. if b then define_method e (self_key name) n METHOD_PUBLIC ev else ev)
            (is_module_function_mode (ev_heap ev) (ev_envs ev) (Some env)))"

definition define_in_scope ::
  "runner \<Rightarrow> ptr \<Rightarrow> ptr \<Rightarrow> string \<Rightarrow> node \<Rightarrow> rvalue \<Rightarrow> eval \<Rightarrow> eval option" where
  "define_in_scope K env e name n self ev = do {
     vis \<leftarrow> visibility_at env ev;
     ev \<leftarrow> fire_method_added K env self name n (define_method e name n vis ev);
     add_module_function env e name n self ev
   }"

text \<open>The environment of a class that is \<open>self\<close>, else the current one.\<close>

definition def_target :: "ptr \<Rightarrow> rvalue \<Rightarrow> eval \<Rightarrow> ptr" where
  "def_target env self ev =
     (case Option.bind (class_of self) (\<lambda>k. rc_class_env (klass_of k ev)) of
        Some e \<Rightarrow> e | None \<Rightarrow> env)"

text \<open>A top-level method does not hide a class of its name: it is kept under another key.\<close>

definition shadows_class :: "ptr \<Rightarrow> ptr \<Rightarrow> string \<Rightarrow> eval \<Rightarrow> bool option" where
  "shadows_class env e name ev =
     (if cstr name \<noteq> [] \<and> isupper (hd (cstr name)) \<and> e = env
      then map_option (\<lambda>c. c \<noteq> None) (top_class name ev) else Some False)"

definition define_plain :: "runner \<Rightarrow> ptr \<Rightarrow> string \<Rightarrow> node \<Rightarrow> eval \<Rightarrow> eval option" where
  "define_plain K env name n ev = do {
     self \<leftarrow> lookup_nil (Some env) ''self'' ev;
     let e = def_target env self ev;
     hides \<leftarrow> shadows_class env e name ev;
     if hides then Some (define_method (ev_top_env ev) (kern_key name) n METHOD_PRIVATE ev)
     else define_in_scope K env e name n self ev
   }"

definition define_for_target ::
  "runner \<Rightarrow> ptr \<Rightarrow> rvalue \<Rightarrow> string \<Rightarrow> node \<Rightarrow> eval \<Rightarrow> eval option" where
  "define_for_target K env target name n ev =
     (case class_of target of
        Some k \<Rightarrow> do {
          e \<leftarrow> rc_class_env (klass_of k ev);
          vis \<leftarrow> visibility_at env ev;
          Some (define_method e (self_key name) n vis ev)
        }
      | None \<Rightarrow>
          (case open_singleton_env target ev of
             Some (e, ev) \<Rightarrow>
               map_option (\<lambda>vis. define_method e name n vis ev) (visibility_at env ev)
           | None \<Rightarrow> do {
               self \<leftarrow> lookup_nil (Some env) ''self'' ev;
               define_in_scope K env (def_target env self ev) name n self ev
             }))"

definition eval_def_on ::
  "runner \<Rightarrow> ptr \<Rightarrow> node \<Rightarrow> node option \<Rightarrow> string \<Rightarrow> eval \<Rightarrow> rvalue run" where
  "eval_def_on K env n recv_node name ev = do {
     (recv, ev) \<leftarrow> k_eval K env recv_node ev;
     if stops recv ev then Some (recv, ev)
     else case class_of recv of
       Some k \<Rightarrow> do {
         e \<leftarrow> rc_class_env (klass_of k ev);
         Some (val_nil, define_method e (self_key name) n METHOD_PUBLIC ev)
       }
     | None \<Rightarrow>
         (case open_singleton_env recv ev of
            None \<Rightarrow> eval_raise_class (Some n) ''TypeError''
              ''can only define singleton methods on heap objects'' ev
          | Some (e, ev) \<Rightarrow> Some (val_nil, define_method e name n METHOD_PUBLIC ev))
   }"

definition eval_def ::
  "runner \<Rightarrow> ptr \<Rightarrow> node \<Rightarrow> node option \<Rightarrow> string \<Rightarrow> eval \<Rightarrow> rvalue run" where
  "eval_def K env n recv_node name ev =
     (if recv_node \<noteq> None then eval_def_on K env n recv_node name ev
      else do {
        target \<leftarrow> lookup (Some env) ''__singleton_target__'' ev;
        ev \<leftarrow> (case target of
            Some t \<Rightarrow> define_for_target K env t name n ev | None \<Rightarrow> define_plain K env name n ev);
        Some (val_nil, ev)
      })"

subsection \<open>alias\<close>

definition alias_kernel_fns :: "string list" where
  "alias_kernel_fns =
     [''load'', ''require'', ''require_relative'', ''puts'', ''print'', ''p'', ''pp'', ''warn'', ''exit'',
      ''abort'', ''raise'', ''fail'', ''lambda'', ''proc'', ''loop'', ''rand'', ''format'', ''sprintf'',
      ''system'', ''Integer'', ''Float'', ''String'', ''Array'', ''__method__'', ''__dir__'',
      ''__callee__'', ''gets'', ''sleep'', ''at_exit'']"

definition forwarding_def :: "string \<Rightarrow> string \<Rightarrow> node" where
  "forwarding_def new_name old_name =
     mk_node no_span (NDef None new_name [plain_param True ''__fwd_args__'']
       (Some (forward_call None old_name ''__fwd_args__'')))"

text \<open>An alias of a method not defined in Ruby is a symbol; a kernel function is forwarded to.\<close>

definition alias_symbol :: "ptr \<Rightarrow> string \<Rightarrow> string \<Rightarrow> eval \<Rightarrow> eval" where
  "alias_symbol e key old_name ev = (let (sym, ev) = new_symbol old_name ev in define_var e key sym ev)"

definition alias_kernel :: "ptr \<Rightarrow> ptr \<Rightarrow> string \<Rightarrow> string \<Rightarrow> eval \<Rightarrow> bool \<times> eval" where
  "alias_kernel env e new_name old_name ev =
     (if \<not> list_ex (streq old_name) alias_kernel_fns then (False, ev)
      else
        (let (nd, ev) = node_ptr (forwarding_def new_name old_name) ev
         in (True, define_var e new_name
               (val_method (Some nd) (Some env) METHOD_PUBLIC (ev_current_file ev)) ev)))"

definition alias_singleton ::
  "runner \<Rightarrow> ptr \<Rightarrow> rvalue \<Rightarrow> string \<Rightarrow> string \<Rightarrow> eval \<Rightarrow> bool run" where
  "alias_singleton K e self new_name old_name ev = do {
     m \<leftarrow> method_var e (self_key old_name) ev;
     case m of
       Some m \<Rightarrow> Some (True, define_var e (self_key new_name) m ev)
     | None \<Rightarrow> do {
         (ok, ev) \<leftarrow> k_responds_to K self old_name True ev;
         Some (ok, if ok then alias_symbol e (self_key new_name) old_name ev else ev)
       }
   }"

definition alias_instance ::
  "runner \<Rightarrow> ptr \<Rightarrow> ptr \<Rightarrow> rvalue \<Rightarrow> ptr \<Rightarrow> string \<Rightarrow> string \<Rightarrow> eval \<Rightarrow> bool run" where
  "alias_instance K env e self k new_name old_name ev = do {
     m \<leftarrow> ruby_class_find_instance_method (ev_heap ev) (ev_envs ev) old_name k;
     case m of
       Some (m, owner) \<Rightarrow> Some (True, define_var e new_name m ev)
     | None \<Rightarrow> do {
         let (probe, ev) = on_heap (val_object self) ev;
         (ok, ev) \<leftarrow> k_responds_to K probe old_name True ev;
         Some (if ok then (True, alias_symbol e new_name old_name ev)
               else alias_kernel env e new_name old_name ev)
       }
   }"

definition alias_in_class ::
  "runner \<Rightarrow> ptr \<Rightarrow> ptr \<Rightarrow> rvalue \<Rightarrow> ptr \<Rightarrow> string \<Rightarrow> string \<Rightarrow> eval \<Rightarrow> bool run" where
  "alias_in_class K env e self k new_name old_name ev = do {
     target \<leftarrow> lookup (Some env) ''__singleton_target__'' ev;
     if Option.bind target class_of = Some k then alias_singleton K e self new_name old_name ev
     else alias_instance K env e self k new_name old_name ev
   }"

definition alias_in_env :: "ptr \<Rightarrow> string \<Rightarrow> string \<Rightarrow> eval \<Rightarrow> bool run" where
  "alias_in_env env new_name old_name ev =
     map_option (\<lambda>m. case m of Some m \<Rightarrow> (True, define_var env new_name m ev) | None \<Rightarrow> (False, ev))
       (method_var env old_name ev)"

definition eval_alias :: "runner \<Rightarrow> ptr \<Rightarrow> node \<Rightarrow> string \<Rightarrow> string \<Rightarrow> eval \<Rightarrow> rvalue run" where
  "eval_alias K env n new_name old_name ev = do {
     self \<leftarrow> lookup_nil (Some env) ''self'' ev;
     (found, ev) \<leftarrow> (case class_of self of
         None \<Rightarrow> alias_in_env env new_name old_name ev
       | Some k \<Rightarrow>
           (case rc_class_env (klass_of k ev) of
              None \<Rightarrow> alias_in_env env new_name old_name ev
            | Some e \<Rightarrow> alias_in_class K env e self k new_name old_name ev));
     if found then Some (val_nil, ev)
     else eval_raise_class (Some n) ''NameError''
       (''undefined method '' @ in_quotes old_name @ '' for alias'') ev
   }"

subsection \<open>Classes and modules\<close>

text \<open>
  Where the class is to be found and its full name; \<open>Inl\<close> the parent that is no class. The parent's
  environment has to be there.
\<close>

definition class_place :: "ptr \<Rightarrow> string \<Rightarrow> eval \<Rightarrow> (string + ptr \<times> string \<times> string) option" where
  "class_place env name ev =
     (case split_const_path name of
        (Some pn, leaf) \<Rightarrow> do {
          parent \<leftarrow> lookup_const_path (Some env) pn ev;
          case class_of parent of
            None \<Rightarrow> Some (Inl pn)
          | Some k \<Rightarrow> map_option (\<lambda>e. Inr (e, leaf, name)) (rc_class_env (klass_of k ev))
        }
      | (None, leaf) \<Rightarrow> do {
          body \<leftarrow> class_body_self env ev;
          Some (Inr (case body of
              Some k \<Rightarrow> (env, leaf, qualify_const_name (rc_name (klass_of k ev)) leaf)
            | None \<Rightarrow> (ev_top_env ev, leaf, name)))
        })"

definition reopened :: "bool \<Rightarrow> ptr \<Rightarrow> string \<Rightarrow> eval \<Rightarrow> rvalue option" where
  "reopened is_module e leaf ev =
     (case lookup_own (Some e) leaf ev of
        None \<Rightarrow> None
      | Some v \<Rightarrow>
          (case class_of v of
             None \<Rightarrow> None
           | Some k \<Rightarrow> if (rc_is_module (klass_of k ev) \<noteq> 0) = is_module then Some v else None))"

definition new_class ::
  "bool \<Rightarrow> ptr \<Rightarrow> string \<Rightarrow> string \<Rightarrow> rvalue \<Rightarrow> eval \<Rightarrow> rvalue \<times> eval" where
  "new_class is_module e leaf full super ev =
     (let (klass, ev) = on_heap (val_class (Some full) super) ev;
          (cenv, ev) = new_env (Some e) True ev;
          ev = (case class_of klass of
              Some k \<Rightarrow> set_heap (update_class (\<lambda>c. c\<lparr>rc_class_env := Some cenv,
                rc_is_module := of_bool is_module\<rparr>) k) ev
            | None \<Rightarrow> ev)
      in (klass, define_var (ev_top_env ev) full klass (define_var e leaf klass ev)))"

text \<open>A class without a superclass of its own has \<open>Object\<close>, when there is one.\<close>

definition superclass_value ::
  "runner \<Rightarrow> ptr \<Rightarrow> node \<Rightarrow> string \<Rightarrow> node option \<Rightarrow> eval \<Rightarrow> (rvalue + rvalue) run" where
  "superclass_value K env n leaf base ev =
     (if base \<noteq> None then do {
        (s, ev) \<leftarrow> k_eval K env base ev;
        if stops s ev then Some (Inl s, ev)
        else if class_of s = None \<and> \<not> is_nil s then
          map_option (\<lambda>(r, ev). (Inl r, ev))
            (eval_raise_class (Some n) ''TypeError'' ''superclass must be a class'' ev)
        else Some (Inr s, ev)
      }
      else if streq leaf ''Object'' then Some (Inr val_nil, ev)
      else map_option (\<lambda>c. (Inr (or_nil c), ev)) (top_class ''Object'' ev))"

text \<open>The first class of the chain with a hook \<open>inherited\<close>.\<close>

partial_function (option) find_inherited :: "eval \<Rightarrow> ptr option \<Rightarrow> unit \<Rightarrow> (rvalue \<times> ptr) option option" where
  "find_inherited ev klass u =
     (case klass of
        None \<Rightarrow> Some None
      | Some k \<Rightarrow>
          or_else (Some (Option.bind (lookup_own (rc_class_env (klass_of k ev)) (self_key ''inherited'') ev)
              (\<lambda>m. if is_method m then Some (m, k) else None)))
            (find_inherited ev (superclass (ev_heap ev) k) u))"

definition fire_inherited :: "runner \<Rightarrow> rvalue \<Rightarrow> rvalue \<Rightarrow> node \<Rightarrow> eval \<Rightarrow> eval option" where
  "fire_inherited K super klass n ev = do {
     hook \<leftarrow> find_inherited ev (class_of super) ();
     case hook of
       None \<Rightarrow> Some ev
     | Some (m, k) \<Rightarrow>
         map_option snd (call_method_value K super m (Some k) ''inherited'' [klass] None (Some n) ev)
   }"

definition set_visibility_at :: "ptr \<Rightarrow> method_visibility \<Rightarrow> eval \<Rightarrow> eval" where
  "set_visibility_at e vis ev =
     (let (h, es) = set_current_method_visibility e vis (ev_heap ev, ev_envs ev)
      in ev\<lparr>ev_heap := h, ev_envs := es\<rparr>)"

text \<open>The body of a class runs in the environment of the class.\<close>

definition class_body :: "runner \<Rightarrow> rvalue \<Rightarrow> node option \<Rightarrow> eval \<Rightarrow> rvalue run" where
  "class_body K klass body ev = do {
     e \<leftarrow> Option.bind (class_of klass) (\<lambda>k. rc_class_env (klass_of k ev));
     ev \<leftarrow> set_var e ''self'' klass ev;
     ev \<leftarrow> set_var e ''__class__'' klass ev;
     ev \<leftarrow> set_var e ''__singleton_target__'' val_nil ev;
     let ev = set_visibility_at e METHOD_PUBLIC ev;
     (r, ev) \<leftarrow> optional_value K e body ev;
     Some (if val_is_signal r then r else klass, ev)
   }"

definition open_class ::
  "runner \<Rightarrow> ptr \<Rightarrow> node \<Rightarrow> ptr \<Rightarrow> string \<Rightarrow> string \<Rightarrow> node option \<Rightarrow> eval \<Rightarrow> (rvalue + rvalue) run" where
  "open_class K env n e leaf full base ev =
     (case reopened False e leaf ev of
        Some klass \<Rightarrow> Some (Inr klass, ev)
      | None \<Rightarrow> do {
          (s, ev) \<leftarrow> superclass_value K env n leaf base ev;
          case s of
            Inl v \<Rightarrow> Some (Inl v, ev)
          | Inr super \<Rightarrow> do {
              let (klass, ev) = new_class False e leaf full super ev;
              ev \<leftarrow> fire_inherited K super klass n ev;
              Some (Inr klass, ev)
            }
        })"

definition open_module :: "ptr \<Rightarrow> string \<Rightarrow> string \<Rightarrow> eval \<Rightarrow> rvalue \<times> eval" where
  "open_module e leaf full ev =
     (case reopened True e leaf ev of
        Some m \<Rightarrow> (m, ev) | None \<Rightarrow> new_class True e leaf full val_nil ev)"

definition eval_klass ::
  "runner \<Rightarrow> ptr \<Rightarrow> node \<Rightarrow> klass_kind \<Rightarrow> string \<Rightarrow> node option \<Rightarrow> node option \<Rightarrow> eval \<Rightarrow> rvalue run" where
  "eval_klass K env n kind name base body ev = do {
     place \<leftarrow> class_place env name ev;
     case place of
       Inl pn \<Rightarrow> uninitialized n pn ev
     | Inr (e, leaf, full) \<Rightarrow> do {
         (r, ev) \<leftarrow> (if kind = K_CLASS then open_class K env n e leaf full base ev
                   else let (m, ev) = open_module e leaf full ev in Some (Inr m, ev));
         case r of Inl v \<Rightarrow> Some (v, ev) | Inr klass \<Rightarrow> class_body K klass body ev
       }
   }"

text \<open>The environment of a singleton class: that of a class, or the one in the slot of an object.\<close>

definition sclass_env :: "rvalue \<Rightarrow> eval \<Rightarrow> (ptr \<times> eval) option" where
  "sclass_env recv ev =
     (case v_data recv of
        VAL_CLASS k \<Rightarrow> map_option (\<lambda>e. (e, ev)) (rc_class_env (klass_of k ev))
      | VAL_OBJECT _ \<Rightarrow> open_singleton_env recv ev
      | _ \<Rightarrow> None)"

definition sclass_body :: "runner \<Rightarrow> rvalue \<Rightarrow> ptr \<Rightarrow> node option \<Rightarrow> eval \<Rightarrow> rvalue run" where
  "sclass_body K recv e body ev = do {
     ev \<leftarrow> set_var e ''self'' recv ev;
     ev \<leftarrow> (if class_of recv = None then Some ev else set_var e ''__class__'' recv ev);
     target \<leftarrow> lookup_nil (Some e) ''__singleton_target__'' ev;
     vis \<leftarrow> lookup_nil (Some e) ''__visibility__'' ev;
     ev \<leftarrow> set_var e ''__singleton_target__'' recv ev;
     let ev = set_visibility_at e METHOD_PUBLIC ev;
     (r, ev) \<leftarrow> (if body = None then Some (recv, ev) else k_eval K e body ev);
     if val_is_signal r then Some (r, ev)
     else do {
       ev \<leftarrow> set_var e ''__singleton_target__'' target ev;
       ev \<leftarrow> (case v_data vis of
           VAL_SYMBOL _ \<Rightarrow> set_var e ''__visibility__'' vis ev
         | _ \<Rightarrow> Some (set_visibility_at e METHOD_PUBLIC ev));
       Some (r, ev)
     }
   }"

definition eval_sclass ::
  "runner \<Rightarrow> ptr \<Rightarrow> node \<Rightarrow> node option \<Rightarrow> node option \<Rightarrow> eval \<Rightarrow> rvalue run" where
  "eval_sclass K env n recv_node body ev = do {
     (recv, ev) \<leftarrow> k_eval K env recv_node ev;
     if stops recv ev then Some (recv, ev)
     else if \<not> is_object recv \<and> class_of recv = None then
       eval_raise_class (Some n) ''TypeError'' ''singleton class must be opened on an object'' ev
     else do {
       (e, ev) \<leftarrow> sclass_env recv ev;
       sclass_body K recv e body ev
     }
   }"

end
