(* ===== verification/EvalNode.thy ===== *)
theory EvalNode
  imports EvalDefs
begin

section \<open>The evaluator: nodes (eval_node of src/eval.c)\<close>

subsection \<open>One node\<close>

definition unknown_node :: "node \<Rightarrow> eval \<Rightarrow> rvalue \<times> eval" where
  "unknown_node n = eval_error (Some n) (''cannot evaluate node kind '' @ node_kind_name (n_data n))"

definition eval_plain :: "ptr \<Rightarrow> plain_kind \<Rightarrow> eval \<Rightarrow> rvalue option" where
  "eval_plain env kind ev =
     (case kind of
        K_NIL \<Rightarrow> Some val_nil
      | K_TRUE \<Rightarrow> Some val_true
      | K_FALSE \<Rightarrow> Some val_false
      | K_SELF \<Rightarrow> lookup_nil (Some env) ''self'' ev
      | K_RETRY \<Rightarrow> Some val_retry)"

definition eval_sval :: "runner \<Rightarrow> ptr \<Rightarrow> node \<Rightarrow> sval_kind \<Rightarrow> string \<Rightarrow> eval \<Rightarrow> rvalue run" where
  "eval_sval K env n kind s ev =
     (case kind of
        K_STRING \<Rightarrow> Some (on_heap (val_string_n (take (n_slen n) s)) ev)
      | K_SYMBOL \<Rightarrow> Some (new_symbol s ev)
      | K_LVAR \<Rightarrow> eval_lvar K env n s ev
      | K_IVAR \<Rightarrow> map_option (\<lambda>v. (v, ev)) (eval_ivar env s ev)
      | K_GVAR \<Rightarrow> eval_gvar K env n s ev
      | K_CVAR \<Rightarrow> map_option (\<lambda>found. (or_nil (map_option snd found), ev)) (find_cvar env s ev)
      | K_CONST \<Rightarrow> eval_const K env n s ev)"

definition eval_kind :: "runner \<Rightarrow> ptr \<Rightarrow> node \<Rightarrow> eval \<Rightarrow> rvalue run" where
  "eval_kind K env n ev =
     (case n_data n of
        NPlain kind \<Rightarrow> map_option (\<lambda>v. (v, ev)) (eval_plain env kind ev)
      | NInt i \<Rightarrow> Some (val_int i, ev)
      | NFloat f \<Rightarrow> Some (val_float f, ev)
      | NSval kind s \<Rightarrow> eval_sval K env n kind s ev
      | NRegexp pattern opts \<Rightarrow> eval_regexp K n pattern opts ev
      | NRope r \<Rightarrow> eval_rope K env r ev
      | NConstAccess recv name \<Rightarrow> eval_const_access K env n recv name ev
      | NAssign target e \<Rightarrow> eval_assign K env target e ev
      | NBinop K_OP_ASSIGN op l r \<Rightarrow> eval_op_assign K env n op l r ev
      | NBinop K_BINOP op l r \<Rightarrow> eval_binop K env n op l r ev
      | NUnop op e \<Rightarrow> eval_unop K env n op e ev
      | NCall recv meth args blk safe_nav \<Rightarrow> eval_call K env n recv meth args blk safe_nav ev
      | NDefined e \<Rightarrow> eval_defined K env e ev
      | NCond kind c t e \<Rightarrow> eval_cond K env kind c t e ev
      | NLoop kind c body post \<Rightarrow> eval_loop (loop_turn K env kind post c body) ev
      | NFor target iter_node body \<Rightarrow> eval_for K env n target iter_node body ev
      | NCase s ws e \<Rightarrow> eval_case K env n s ws e ev
      | NPatcase s xs e \<Rightarrow> eval_patcase K env n s xs e ev
      | NBegin body rescues e ens \<Rightarrow> eval_begin K env body rescues e ens ev
      | NJump kind e \<Rightarrow> eval_jump K env kind e ev
      | NSuper args forward \<Rightarrow> eval_super K env n args forward ev
      | NDef recv name _ _ \<Rightarrow> eval_def K env n recv name ev
      | NAlias new_name old_name \<Rightarrow> eval_alias K env n new_name old_name ev
      | NKlass kind name base body \<Rightarrow> eval_klass K env n kind name base body ev
      | NSclass recv body \<Rightarrow> eval_sclass K env n recv body ev
      | NRange b e exclusive \<Rightarrow> eval_range K env b e exclusive ev
      | NArray xs \<Rightarrow> eval_array K env xs ev
      | NHash xs _ \<Rightarrow> eval_hash K env xs ev
      | NBody _ xs \<Rightarrow> eval_body K env xs ev
      | NProgHook _ body \<Rightarrow> k_eval K env body ev
      | _ \<Rightarrow> Some (unknown_node n ev))"

definition eval_node :: "runner \<Rightarrow> ptr \<Rightarrow> node option \<Rightarrow> eval \<Rightarrow> rvalue run" where
  "eval_node K env n ev =
     (case n of
        None \<Rightarrow> Some (val_nil, ev)
      | Some n \<Rightarrow> if ev_errored ev then Some (val_nil, ev) else eval_kind K env n ev)"

subsection \<open>The recursion\<close>

text \<open>
  The functions at depth \<open>n + 1\<close> call those at depth \<open>n\<close>; at depth 0 there is no result. What is
  outside the model is given by \<open>natives\<close>, a function from the runner they call back.
\<close>

definition no_runner :: "runner \<Rightarrow> runner" where
  "no_runner K = K\<lparr>k_eval := \<lambda>_ _ _. None, k_assign := \<lambda>_ _ _ _. None, k_bind := \<lambda>_ _ _ _. None,
     k_match := \<lambda>_ _ _ _ _. None, k_rope := \<lambda>_ _ _ _. None,
     k_dispatch := \<lambda>_ _ _ _ _ _ _ _ _. None, k_kernel := \<lambda>_ _ _ _ _ _. None,
     k_responds_to := \<lambda>_ _ _ _. None\<rparr>"

record natives =
  n_dispatch :: "runner \<Rightarrow> ptr \<Rightarrow> rvalue \<Rightarrow> string \<Rightarrow> rvalue list \<Rightarrow> ptr option \<Rightarrow> node option \<Rightarrow>
    bool \<Rightarrow> int \<Rightarrow> eval \<Rightarrow> rvalue run"
  n_kernel :: "runner \<Rightarrow> ptr \<Rightarrow> string \<Rightarrow> rvalue list \<Rightarrow> ptr option \<Rightarrow> node \<Rightarrow> eval \<Rightarrow> rvalue run"
  n_responds_to :: "runner \<Rightarrow> rvalue \<Rightarrow> string \<Rightarrow> bool \<Rightarrow> eval \<Rightarrow> bool run"
  n_base :: runner

definition tie :: "natives \<Rightarrow> runner \<Rightarrow> runner" where
  "tie N K = (n_base N)\<lparr>k_eval := eval_node K, k_assign := assign_target K, k_bind := bind_pattern K,
     k_match := match_pattern K, k_rope := rope_collect K, k_dispatch := n_dispatch N K,
     k_kernel := n_kernel N K, k_responds_to := n_responds_to N K\<rparr>"

fun runner_at :: "natives \<Rightarrow> nat \<Rightarrow> runner" where
  "runner_at N 0 = no_runner (n_base N)"
| "runner_at N (Suc n) = tie N (runner_at N n)"

definition eval_at :: "natives \<Rightarrow> nat \<Rightarrow> ptr \<Rightarrow> node option \<Rightarrow> eval \<Rightarrow> rvalue run" where
  "eval_at N n = k_eval (runner_at N n)"

end
