(* ===== verification/EvalTable.thy ===== *)
theory EvalTable
  imports EvalNode
begin

section \<open>Built-in methods: calls and tables\<close>

text \<open>
  The arguments of \<open>dispatch_method\<close>. The built-in methods of a type are chains of
  \<open>if (strcmp(name, ...) == 0)\<close>, each with a body that returns: such a chain is a table, searched in
  order, of names and methods. \<open>None\<close> as the result of a handler is the return value 0, the method is
  not one of its own.
\<close>

subsection \<open>Calls\<close>

record call =
  c_env :: ptr
  c_recv :: rvalue
  c_name :: string
  c_args :: "rvalue list"
  c_blk :: "ptr option"
  c_site :: "node option"
  c_public :: bool
  c_explicit :: int

type_synonym meth = "call \<Rightarrow> eval \<Rightarrow> rvalue run"

type_synonym handler = "call \<Rightarrow> eval \<Rightarrow> rvalue option run"

definition give :: "rvalue \<Rightarrow> eval \<Rightarrow> rvalue run" where "give v ev = Some (v, ev)"

definition give_text :: "string \<Rightarrow> eval \<Rightarrow> rvalue run" where "give_text s ev = Some (new_string s ev)"

definition raise_at :: "call \<Rightarrow> string \<Rightarrow> string \<Rightarrow> eval \<Rightarrow> rvalue run" where
  "raise_at c = eval_raise_class (c_site c)"

definition wrong_args :: "call \<Rightarrow> eval \<Rightarrow> rvalue run" where
  "wrong_args c = raise_at c ''ArgumentError'' ''wrong number of arguments''"

definition arg :: "call \<Rightarrow> nat \<Rightarrow> rvalue option" where
  "arg c i = (if i < length (c_args c) then Some (c_args c ! i) else None)"

definition first_int :: "call \<Rightarrow> i64 option" where
  "first_int c = Option.bind (arg c 0) (\<lambda>v. case v_data v of VAL_INT i \<Rightarrow> Some i | _ \<Rightarrow> None)"

text \<open>The text of a symbol or a string among the arguments; another value has none.\<close>

definition name_arg :: "call \<Rightarrow> nat \<Rightarrow> eval \<Rightarrow> string option" where
  "name_arg c i ev = map_option cstr (Option.bind (arg c i) (\<lambda>v. sval_text v ev))"

definition named :: "string \<Rightarrow> string list \<Rightarrow> bool" where
  "named name names \<longleftrightarrow> list_ex (streq name) names"

subsection \<open>Calls back\<close>

definition call_on_value ::
  "runner \<Rightarrow> call \<Rightarrow> rvalue \<Rightarrow> string \<Rightarrow> rvalue list \<Rightarrow> int \<Rightarrow> eval \<Rightarrow> rvalue run" where
  "call_on_value K c recv name args explicit =
     k_dispatch K (c_env c) recv name args None (c_site c) False explicit"

definition invoke ::
  "runner \<Rightarrow> call \<Rightarrow> rvalue \<Rightarrow> ptr option \<Rightarrow> string \<Rightarrow> rvalue list \<Rightarrow> ptr option \<Rightarrow> eval \<Rightarrow> rvalue run" where
  "invoke K c method owner name args blk =
     call_method_value K (c_recv c) method owner name args blk (c_site c)"

definition value_at :: "ptr \<Rightarrow> eval \<Rightarrow> rvalue" where "value_at p ev = h_vals (ev_heap ev) ! p"

definition yield_to :: "runner \<Rightarrow> call \<Rightarrow> ptr \<Rightarrow> rvalue list \<Rightarrow> eval \<Rightarrow> rvalue run" where
  "yield_to K c b args ev = call_block K (value_at b ev) args (c_site c) ev"

text \<open>A signal that ends the method that yields, with the value it returns.\<close>

definition flow_signal_out :: "rvalue \<Rightarrow> eval \<Rightarrow> rvalue option option" where
  "flow_signal_out v ev =
     (case v_data v of
        VAL_BREAK _ \<Rightarrow> map_option Some (wrapped v ev)
      | VAL_RETURN _ _ \<Rightarrow> Some (Some v) | VAL_EXCEPTION \<Rightarrow> Some (Some v) | VAL_THROW _ _ \<Rightarrow> Some (Some v)
      | _ \<Rightarrow> Some None)"

text \<open>The part of a loop after a block was called: the value that ends the method, or none.\<close>

definition block_step :: "runner \<Rightarrow> call \<Rightarrow> ptr \<Rightarrow> rvalue list \<Rightarrow> eval \<Rightarrow> (rvalue + rvalue) run" where
  "block_step K c b args ev = do {
     (r, ev) \<leftarrow> yield_to K c b args ev;
     if ev_errored ev then Some (Inl val_nil, ev)
     else do {
       out \<leftarrow> flow_signal_out r ev;
       Some (case out of Some v \<Rightarrow> Inl v | None \<Rightarrow> Inr r, ev)
     }
   }"

text \<open>
  A loop: the turn returns the value of the method, or the state of the next turn. A loop that does
  not end has no result.
\<close>

partial_function (option) run_loop ::
  "('a \<Rightarrow> eval \<Rightarrow> (rvalue + 'a) run) \<Rightarrow> 'a \<Rightarrow> eval \<Rightarrow> rvalue run" where
  "run_loop turn x ev =
     Option.bind (turn x ev) (\<lambda>(r, ev). case r of Inl v \<Rightarrow> Some (v, ev) | Inr y \<Rightarrow> run_loop turn y ev)"

definition then_next :: "(rvalue + rvalue) run \<Rightarrow> (rvalue \<Rightarrow> eval \<Rightarrow> (rvalue + 'a) run) \<Rightarrow> (rvalue + 'a) run" where
  "then_next m f = do {
     (r, ev) \<leftarrow> m;
     case r of Inl v \<Rightarrow> Some (Inl v, ev) | Inr x \<Rightarrow> f x ev
   }"

text \<open>The elements of an array, which is read again at every turn.\<close>

definition array_turn ::
  "ptr \<Rightarrow> rvalue \<Rightarrow> (nat \<Rightarrow> rvalue \<Rightarrow> eval \<Rightarrow> (rvalue + 'b) run) \<Rightarrow> nat \<Rightarrow> eval \<Rightarrow> (rvalue + nat) run" where
  "array_turn p done f i ev =
     (if i < length (array_elems p ev) then do {
        (r, ev) \<leftarrow> f i (array_elems p ev ! i) ev;
        Some (case r of Inl v \<Rightarrow> Inl v | Inr _ \<Rightarrow> Inr (i + 1), ev)
      }
      else Some (Inl done, ev))"

subsection \<open>Tables\<close>

type_synonym method_table = "(string list \<times> meth) list"

definition find_method :: "method_table \<Rightarrow> string \<Rightarrow> meth option" where
  "find_method tab name = map_option snd (find (\<lambda>(names, f). named name names) tab)"

definition taken :: "rvalue run \<Rightarrow> rvalue option run" where
  "taken = map_option (\<lambda>(v, ev). (Some v, ev))"

definition not_taken :: handler where "not_taken c ev = Some (None, ev)"

definition by_table :: "method_table \<Rightarrow> handler" where
  "by_table tab c ev =
     (case find_method tab (c_name c) of Some f \<Rightarrow> taken (f c ev) | None \<Rightarrow> Some (None, ev))"

text \<open>A handler that is asked first, and the rest of the function when it does not answer.\<close>

definition or_method :: "rvalue option run \<Rightarrow> (eval \<Rightarrow> rvalue run) \<Rightarrow> rvalue run" where
  "or_method m f = do {
     (r, ev) \<leftarrow> m;
     case r of Some v \<Rightarrow> Some (v, ev) | None \<Rightarrow> f ev
   }"

definition or_handler :: "handler \<Rightarrow> handler \<Rightarrow> handler" where
  "or_handler f g c ev = do {
     (r, ev) \<leftarrow> f c ev;
     case r of Some v \<Rightarrow> Some (Some v, ev) | None \<Rightarrow> g c ev
   }"

text \<open>
  The parts of the built-in methods that are not modelled, as functions of a call, are a parameter:
  \<open>builtin\<close> names them.
\<close>

datatype builtin =
    B_FLOAT | B_STRING | B_ARRAY | B_HASH | B_RANGE | B_NAMED_CLASS | B_IO_CLASS | B_REGEXP_CLASS
  | B_REQUIRE | B_OBJECT | B_PATHNAME | B_BINDING | B_EVAL | B_KERNEL | B_ADDRESS

type_synonym builtins = "builtin \<Rightarrow> runner \<Rightarrow> handler"

end
