(* ===== verification/EvalLists.thy ===== *)
theory EvalLists
  imports EvalTable
begin

section \<open>Built-in methods: the lists of their names\<close>

text \<open>
  The arrays of names that the questions about methods (\<open>respond_to?\<close>, \<open>methods\<close>, \<open>arity\<close>) search.
  A comma-separated list is the list of its parts, in the same order.
\<close>

definition method_obj_methods :: "string list" where
  "method_obj_methods =
     [''name'', ''original_name'', ''owner'', ''receiver'', ''unbind'', ''call'', ''[]'', ''==='',
      ''bind_call'', ''arity'', ''parameters'', ''super_method'', ''to_proc'', ''curry'', ''>>'',
      ''<<'', ''source_location'']"

definition unbound_method_obj_methods :: "string list" where
  "unbound_method_obj_methods =
     [''name'', ''original_name'', ''owner'', ''arity'', ''parameters'', ''super_method'',
      ''bind_call'', ''bind'', ''source_location'']"

definition zero_arity_methods :: "string list" where
  "zero_arity_methods =
     [''to_f'', ''to_i'', ''to_r'', ''to_c'', ''to_s'', ''to_str'', ''to_sym'', ''to_a'', ''to_h'',
      ''to_proc'', ''inspect'', ''freeze'', ''frozen?'', ''dup'', ''clone'', ''nil?'', ''hash'',
      ''object_id'', ''__id__'', ''length'', ''size'', ''empty?'', ''chars'', ''bytes'', ''lines'',
      ''encoding'', ''bytesize'', ''ord'', ''upcase'', ''downcase'', ''capitalize'', ''swapcase'',
      ''strip'', ''lstrip'', ''rstrip'', ''chomp'', ''chop'', ''reverse'', ''reverse!'', ''succ'',
      ''next'', ''pred'', ''abs'', ''even?'', ''odd?'', ''zero?'', ''positive?'', ''negative?'',
      ''nonzero?'', ''floor'', ''ceil'', ''round'', ''truncate'', ''integer?'', ''infinite?'',
      ''finite?'', ''nan?'', ''chr'', ''compact'', ''compact!'', ''uniq'', ''uniq!'', ''sort'',
      ''sort!'', ''flatten'', ''transpose'', ''tally'', ''keys'', ''values'', ''invert'',
      ''each_pair'', ''class'', ''superclass'', ''name'', ''ancestors'', ''included_modules'',
      ''instance_methods'', ''public_methods'', ''private_methods'', ''protected_methods'',
      ''methods'', ''respond_to_missing?'', ''lambda?'', ''arity'', ''call'', ''first'', ''last'',
      ''min'', ''max'', ''minmax'', ''bsearch'', ''upcase!'', ''downcase!'', ''capitalize!'',
      ''swapcase!'', ''strip!'', ''lstrip!'', ''rstrip!'', ''chomp!'', ''chop!'', ''reverse!'',
      ''squeeze!'', ''unicode_normalize'', ''ascii_only?'', ''valid_encoding?'', ''force_encoding'',
      ''b'', ''hex'', ''oct'', ''dump'', ''undump'', ''next'', ''peek'', ''rewind'', ''size'',
      ''to_a'', ''next_values'', ''peek_values'', ''each'', ''reverse_each'', ''cycle'', ''map'',
      ''collect'', ''select'', ''find_all'', ''filter'', ''reject'', ''find'', ''detect'',
      ''find_index'', ''any?'', ''all?'', ''none?'', ''one?'', ''grep'', ''grep_v'', ''partition'',
      ''each_with_index'', ''flat_map'', ''collect_concat'', ''group_by'', ''sort_by'', ''min_by'',
      ''max_by'', ''minmax_by'', ''count'', ''each_slice'', ''each_cons'', ''each_with_object'',
      ''tally'', ''chunk'', ''chunk_while'', ''slice_when'', ''slice_before'', ''map!'', ''collect!'',
      ''select!'', ''filter!'', ''reject!'', ''delete_if'', ''keep_if'', ''each_line'', ''each_char'',
      ''each_byte'', ''each_key'', ''each_value'', ''shuffle'', ''flatten!'', ''compact!'']"

definition one_arity_methods :: "string list" where
  "one_arity_methods =
     [''+'', ''-'', ''*'', ''/'', ''%'', ''**'', ''<=>'', ''=='', ''!='', ''<'', ''>'', ''<='', ''>='',
      ''&'', ''|'', ''^'', ''>>'', ''<<'', ''==='', ''eql?'', ''equal?'', ''divmod'', ''gcd'', ''lcm'',
      ''div'', ''modulo'', ''quo'', ''remainder'', ''coerce'', ''include?'', ''member?'', ''has_key?'',
      ''key?'', ''has_value?'', ''value?'', ''delete'', ''delete_at'', ''index'', ''find_index'',
      ''rindex'', ''assoc'', ''rassoc'', ''take'', ''drop'', ''rotate'', ''at'', ''[]'', ''match'',
      ''match?'', ''tr'', ''is_a?'', ''kind_of?'', ''instance_of?'', ''instance_variable_get'',
      ''instance_variable_defined?'', ''const_get'', ''const_defined?'', ''upto'', ''downto'',
      ''with_index'', ''with_object'']"

definition int_methods :: "string list" where
  "int_methods =
     [''to_s'', ''to_f'', ''to_i'', ''to_int'', ''to_r'', ''abs'', ''abs2'', ''even?'', ''odd?'',
      ''zero?'', ''nonzero?'', ''positive?'', ''negative?'', ''integer?'', ''ceil'', ''floor'',
      ''round'', ''truncate'', ''succ'', ''next'', ''pred'', ''chr'', ''gcd'', ''lcm'', ''pow'',
      ''divmod'', ''digits'', ''between?'', ''clamp'', ''times'', ''upto'', ''downto'', ''step'',
      ''allbits?'', ''anybits?'', ''nobits?'', ''+'', ''-'', ''*'', ''/'', ''%'', ''**'', ''<'',
      ''<='', ''>'', ''>='', ''<=>'', ''<<'', ''>>'', ''&'', ''|'', ''^'', ''~'', ''-@'', ''[]'']"

definition float_methods :: "string list" where
  "float_methods =
     [''to_s'', ''to_f'', ''to_i'', ''truncate'', ''to_r'', ''abs'', ''abs2'', ''zero?'', ''nonzero?'',
      ''positive?'', ''negative?'', ''integer?'', ''nan?'', ''finite?'', ''infinite?'',
      ''rationalize'', ''ceil'', ''floor'', ''round'', ''divmod'', ''between?'', ''clamp'', ''step'',
      ''+'', ''-'', ''*'', ''/'', ''%'', ''**'', ''<'', ''<='', ''>'', ''>='', ''<=>'']"

definition str_methods :: "string list" where
  "str_methods =
     [''to_s'', ''to_str'', ''to_i'', ''to_f'', ''to_sym'', ''to_r'', ''to_c'', ''length'', ''size'',
      ''empty?'', ''upcase'', ''upcase!'', ''downcase'', ''downcase!'', ''strip'', ''strip!'',
      ''chars'', ''include?'', ''start_with?'', ''end_with?'', ''split'', ''each_char'', ''reverse'',
      ''reverse!'', ''next'', ''succ'', ''replace'', ''clear'', ''inspect'', ''chomp'', ''chomp!'',
      ''chop'', ''chop!'', ''lstrip'', ''rstrip'', ''lstrip!'', ''rstrip!'', ''capitalize'',
      ''swapcase'', ''ljust'', ''rjust'', ''center'', ''ord'', ''hex'', ''oct'', ''bytes'',
      ''codepoints'', ''each_codepoint'', ''bytesize'', ''<<'', ''index'', ''rindex'', ''[]'', ''[]='',
      ''slice'', ''slice!'', ''lines'', ''each_line'', ''each_byte'', ''tr'', ''tr!'', ''count'',
      ''delete'', ''delete!'', ''squeeze'', ''squeeze!'', ''scan'', ''sub'', ''sub!'', ''gsub'',
      ''gsub!'', ''match'', ''match?'', ''=~'', ''casecmp'', ''casecmp?'', ''partition'',
      ''rpartition'', ''*'', ''+'', ''encoding'', ''encode'', ''force_encoding'', ''b'', ''freeze'',
      ''frozen?'', ''dup'', ''clone'', ''delete_prefix'', ''delete_suffix'', ''insert'', ''prepend'',
      ''concat'', ''format'', ''unpack'', ''unpack1'', ''setbyte'', ''getbyte'', ''byteslice'',
      ''valid_encoding?'', ''ascii_only?'', ''hash'']"

definition arr_methods :: "string list" where
  "arr_methods =
     [''length'', ''size'', ''count'', ''empty?'', ''first'', ''last'', ''push'', ''append'',
      ''concat'', ''pop'', ''shift'', ''unshift'', ''prepend'', ''reverse'', ''reverse_each'',
      ''to_s'', ''to_a'', ''to_ary'', ''to_h'', ''inspect'', ''join'', ''include?'', ''each'',
      ''each_with_index'', ''map'', ''collect'', ''map!'', ''collect!'', ''select'', ''find_all'',
      ''filter'', ''select!'', ''filter!'', ''keep_if'', ''reject'', ''reject!'', ''delete_if'',
      ''reduce'', ''inject'', ''any?'', ''all?'', ''none?'', ''one?'', ''min'', ''max'', ''sum'',
      ''flatten'', ''flatten!'', ''uniq'', ''sort'', ''compact'', ''compact!'', ''zip'', ''cycle'',
      ''sample'', ''shuffle'', ''shuffle!'', ''grep'', ''grep_v'', ''partition'', ''flat_map'',
      ''collect_concat'', ''chunk'', ''chunk_while'', ''slice_when'', ''slice_before'', ''replace'',
      ''intersection'', ''intersect?'', ''union'', ''difference'', ''repeated_combination'',
      ''repeated_permutation'', ''rotate'', ''rotate!'', ''clear'', ''delete'', ''delete_at'',
      ''insert'', ''fill'', ''at'', ''fetch'', ''slice'', ''dig'', ''values_at'']"

definition hash_methods :: "string list" where
  "hash_methods =
     [''[]'', ''[]='', ''fetch'', ''has_key?'', ''key?'', ''include?'', ''member?'', ''has_value?'',
      ''value?'', ''delete'', ''keys'', ''values'', ''length'', ''size'', ''count'', ''empty?'',
      ''to_s'', ''inspect'', ''to_a'', ''to_h'', ''to_hash'', ''merge'', ''merge!'', ''update'',
      ''each'', ''each_pair'', ''each_key'', ''each_value'', ''each_with_object'', ''map'',
      ''collect'', ''select'', ''find_all'', ''filter'', ''select!'', ''filter!'', ''keep_if'',
      ''reject'', ''reject!'', ''delete_if'', ''any?'', ''all?'', ''none?'', ''one?'', ''find'',
      ''detect'', ''find_index'', ''reverse_each'', ''grep'', ''grep_v'', ''partition'', ''min_by'',
      ''max_by'', ''sort_by'', ''sort'', ''flat_map'', ''collect_concat'', ''reduce'', ''inject'',
      ''store'', ''clear'', ''dup'', ''nil?'', ''freeze'', ''frozen?'', ''default'', ''default='',
      ''default_proc'', ''default_proc='', ''rehash'', ''compare_by_identity'',
      ''compare_by_identity?'', ''compact'', ''compact!'', ''transform_values'', ''transform_keys'',
      ''transform_values!'', ''transform_keys!'', ''filter_map'', ''slice'', ''except'', ''invert'',
      ''key'', ''assoc'', ''rassoc'', ''values_at'', ''fetch_values'', ''group_by'', ''tally'',
      ''flat_map'', ''zip'', ''each_with_index'', ''min'', ''max'', ''chunk'', ''chunk_while'',
      ''slice_when'', ''slice_before'', ''sum'', ''reduce'', ''inject'', ''first'', ''take'', ''drop'',
      ''cycle'', ''replace'']"

definition proc_methods :: "string list" where
  "proc_methods =
     [''call'', ''[]'', ''lambda?'', ''arity'', ''parameters'', ''to_proc'', ''source_location'',
      ''binding'', ''to_s'', ''inspect'']"

definition range_methods :: "string list" where
  "range_methods =
     [''begin'', ''first'', ''end'', ''last'', ''exclude_end?'', ''include?'', ''member?'', ''cover?'',
      ''overlap?'', ''==='', ''each'', ''reverse_each'', ''each_with_index'', ''to_a'', ''entries'',
      ''size'', ''count'', ''length'', ''min'', ''max'', ''bsearch'', ''step'', ''map'', ''collect'',
      ''select'', ''find_all'', ''filter'', ''reject'', ''find_index'', ''grep'', ''grep_v'', ''one?'',
      ''cycle'', ''partition'', ''flat_map'', ''collect_concat'', ''chunk'', ''chunk_while'',
      ''slice_when'', ''slice_before'', ''to_s'', ''inspect'']"

definition symbol_methods :: "string list" where
  "symbol_methods =
     [''to_s'', ''to_sym'', ''to_proc'', ''id2name'', ''name'', ''inspect'', ''length'', ''size'',
      ''upcase'', ''downcase'', ''capitalize'', ''match'', ''match?'', ''=~'', ''[]'']"

definition nil_methods :: "string list" where
  "nil_methods =
     [''nil?'', ''to_s'', ''to_str'', ''to_a'', ''to_h'', ''to_i'', ''to_f'', ''to_r'', ''to_c'',
      ''inspect'', ''freeze'', ''frozen?'', ''dup'', ''class'', ''is_a?'', ''kind_of?'',
      ''respond_to?'', ''send'', ''=='', ''!='', ''!'', ''hash'', ''object_id'']"

definition bool_methods :: "string list" where
  "bool_methods =
     [''to_s'', ''inspect'', ''!'', ''nil?'', ''&'', ''|'', ''^'']"

definition kernel_methods :: "string list" where
  "kernel_methods =
     [''puts'', ''print'', ''p'', ''pp'', ''warn'', ''require'', ''require_relative'', ''raise'',
      ''fail'', ''exit'', ''exit!'', ''abort'', ''lambda'', ''proc'', ''loop'', ''rand'', ''srand'',
      ''open'', ''__method__'', ''__dir__'', ''__FILE__'', ''__LINE__'', ''sleep'', ''catch'',
      ''throw'', ''trap'', ''at_exit'', ''printf'', ''sprintf'', ''format'', ''system'', ''spawn'',
      ''wait'', ''waitpid'', ''`'', ''load'']"

definition obj_builtins :: "string list" where
  "obj_builtins =
     [''class'', ''nil?'', ''is_a?'', ''kind_of?'', ''instance_of?'', ''respond_to?'', ''equal?'',
      ''=='', ''!='', ''freeze'', ''frozen?'', ''itself'', ''tap'', ''then'', ''yield_self'',
      ''object_id'', ''__id__'', ''instance_eval'', ''class_eval'', ''module_eval'', ''send'',
      ''__send__'', ''public_send'', ''extend'', ''methods'', ''public_methods'', ''private_methods'',
      ''protected_methods'', ''method'', ''inspect'', ''to_s'', ''dup'', ''clone'', ''hash'', ''eql?'']"

definition probe_int :: "string list" where
  "probe_int =
     [''+'', ''-'', ''*'', ''/'', ''%'', ''**'', ''<'', ''<='', ''>'', ''>='', ''<=>'', ''<<'', ''>>'',
      ''&'', ''|'', ''^'', ''~'', ''[]'', ''to_i'', ''to_f'', ''to_r'', ''to_c'', ''abs'', ''even?'',
      ''odd?'', ''zero?'', ''nonzero?'', ''positive?'', ''negative?'', ''gcd'', ''lcm'', ''pow'',
      ''divmod'', ''ceil'', ''floor'', ''round'', ''truncate'', ''times'', ''upto'', ''downto'',
      ''succ'', ''next'', ''pred'', ''chr'', ''digits'', ''integer?'', ''bit_length'', ''size'',
      ''coerce'', ''allbits?'', ''anybits?'', ''nobits?'']"

definition probe_float :: "string list" where
  "probe_float =
     [''+'', ''-'', ''*'', ''/'', ''%'', ''**'', ''<'', ''<='', ''>'', ''>='', ''<=>'', ''to_f'',
      ''to_i'', ''to_r'', ''abs'', ''rationalize'', ''ceil'', ''floor'', ''round'', ''truncate'',
      ''zero?'', ''nan?'', ''infinite?'', ''finite?'', ''positive?'', ''negative?'', ''nonzero?'',
      ''divmod'', ''coerce'']"

definition probe_str :: "string list" where
  "probe_str =
     [''+'', ''*'', ''<<'', ''%'', ''[]'', ''[]='', ''=~'', ''length'', ''size'', ''empty?'',
      ''upcase'', ''downcase'', ''strip'', ''chars'', ''bytes'', ''split'', ''scan'', ''match'',
      ''match?'', ''sub'', ''gsub'', ''include?'', ''start_with?'', ''end_with?'', ''index'',
      ''rindex'', ''replace'', ''chomp'', ''chop'', ''reverse'', ''capitalize'', ''swapcase'',
      ''ljust'', ''rjust'', ''center'', ''to_sym'', ''to_i'', ''to_f'', ''each_char'', ''each_byte'',
      ''each_codepoint'', ''each_line'', ''tr'', ''count'', ''delete'', ''encode'', ''encoding'',
      ''bytesize'', ''insert'', ''prepend'', ''concat'', ''slice'', ''slice!'', ''delete_prefix'',
      ''delete_suffix'']"

definition probe_arr :: "string list" where
  "probe_arr =
     [''+'', ''-'', ''&'', ''|'', ''*'', ''<<'', ''[]'', ''[]='', ''push'', ''pop'', ''shift'',
      ''unshift'', ''length'', ''size'', ''count'', ''empty?'', ''first'', ''last'', ''reverse'',
      ''flatten'', ''uniq'', ''sort'', ''compact'', ''zip'', ''join'', ''include?'', ''index'',
      ''find_index'', ''rindex'', ''each'', ''map'', ''select'', ''reject'', ''reduce'', ''inject'',
      ''any?'', ''all?'', ''none?'', ''min'', ''max'', ''sum'', ''sample'', ''shuffle'', ''rotate'',
      ''combination'', ''permutation'', ''product'', ''transpose'', ''assoc'', ''rassoc'', ''delete'']"

definition probe_hash :: "string list" where
  "probe_hash =
     [''[]'', ''[]='', ''fetch'', ''keys'', ''values'', ''length'', ''size'', ''count'', ''empty?'',
      ''merge'', ''merge!'', ''update'', ''each'', ''each_pair'', ''each_key'', ''each_value'',
      ''select'', ''reject'', ''map'', ''any?'', ''all?'', ''none?'', ''delete'', ''has_key?'',
      ''key?'', ''has_value?'', ''to_a'', ''to_h'', ''transform_values'', ''transform_keys'',
      ''invert'', ''slice'', ''except'', ''compare_by_identity'', ''compare_by_identity?'']"

definition probe_sym :: "string list" where
  "probe_sym =
     [''to_s'', ''to_sym'', ''to_proc'', ''id2name'', ''inspect'', ''upcase'', ''downcase'',
      ''length'', ''size'']"

definition kern_nil :: "string list" where
  "kern_nil =
     [''puts'', ''print'', ''p'', ''pp'', ''warn'', ''require'', ''require_relative'', ''raise'',
      ''lambda'', ''proc'', ''loop'', ''rand'', ''srand'', ''open'', ''exit'', ''exit!'', ''abort'',
      ''format'', ''sprintf'', ''printf'', ''sleep'', ''catch'', ''throw'', ''trap'', ''at_exit'',
      ''`'', ''system'', ''spawn'', ''wait'', ''waitpid'', ''load'']"

definition primitive_method_lists :: "(string list \<times> string list) list" where
  "primitive_method_lists =
     [([''Object''],
        [''__id__'', ''__send__'', ''class'', ''clone'', ''dup'', ''eql?'', ''equal?'', ''freeze'',
         ''frozen?'', ''hash'', ''instance_of?'', ''is_a?'', ''itself'', ''kind_of?'', ''method'',
         ''nil?'', ''object_id'', ''public_send'', ''respond_to?'', ''send'', ''tap'', ''then'',
         ''yield_self'', ''=='', ''!='']),
      ([''NilClass''],
        [''nil?'', ''to_s'', ''to_str'', ''to_a'', ''to_h'', ''to_i'', ''to_f'', ''to_r'', ''to_c'',
         ''inspect'', ''!'', ''freeze'', ''frozen?'', ''dup'', ''hash'', ''object_id'', ''=='', ''!='']),
      ([''TrueClass'', ''FalseClass''],
        [''to_s'', ''inspect'', ''!'', ''nil?'', ''&'', ''|'', ''^'']),
      ([''Integer'', ''Numeric''],
        [''to_s'', ''to_i'', ''to_int'', ''to_f'', ''to_r'', ''to_c'', ''inspect'', ''+'', ''-'',
         ''-@'', ''*'', ''/'', ''%'', ''**'', ''<'', ''<='', ''>'', ''>='', ''<=>'', ''=='', ''!='',
         ''abs'', ''abs2'', ''divmod'', ''gcd'', ''lcm'', ''pow'', ''digits'', ''chr'', ''succ'',
         ''pred'', ''next'', ''times'', ''upto'', ''downto'', ''step'', ''zero?'', ''nonzero?'',
         ''positive?'', ''negative?'', ''odd?'', ''even?'', ''integer?'', ''allbits?'', ''anybits?'',
         ''nobits?'', ''between?'', ''clamp'', ''floor'', ''ceil'', ''round'', ''truncate'', ''fdiv'',
         ''remainder'', ''gcd'', ''lcm'', ''bit_length'', ''size'', ''[]'', ''<<'', ''>>'', ''&'',
         ''|'', ''^'', ''~'']),
      ([''Float''],
        [''to_s'', ''to_i'', ''to_f'', ''to_r'', ''inspect'', ''+'', ''-'', ''*'', ''/'', ''%'',
         ''**'', ''<'', ''<='', ''>'', ''>='', ''<=>'', ''=='', ''abs'', ''abs2'', ''divmod'',
         ''floor'', ''ceil'', ''round'', ''truncate'', ''rationalize'', ''nan?'', ''infinite?'',
         ''finite?'', ''zero?'', ''nonzero?'', ''positive?'', ''negative?'', ''integer?'',
         ''between?'', ''clamp'', ''step'']),
      ([''String''],
        [''to_s'', ''to_i'', ''to_f'', ''to_r'', ''to_c'', ''to_sym'', ''to_str'', ''length'',
         ''size'', ''empty?'', ''upcase'', ''upcase!'', ''downcase'', ''downcase!'', ''capitalize'',
         ''swapcase'', ''strip'', ''strip!'', ''lstrip'', ''lstrip!'', ''rstrip'', ''rstrip!'',
         ''chomp'', ''chomp!'', ''chop'', ''chop!'', ''chars'', ''bytes'', ''codepoints'', ''lines'',
         ''split'', ''join'', ''include?'', ''start_with?'', ''end_with?'', ''index'', ''rindex'',
         ''[]'', ''[]='', ''slice'', ''slice!'', ''replace'', ''clear'', ''reverse'', ''reverse!'',
         ''center'', ''ljust'', ''rjust'', ''count'', ''delete'', ''delete!'', ''squeeze'',
         ''squeeze!'', ''tr'', ''tr!'', ''scan'', ''sub'', ''sub!'', ''gsub'', ''gsub!'', ''match'',
         ''match?'', ''=~'', ''casecmp'', ''casecmp?'', ''partition'', ''rpartition'', ''ord'',
         ''hex'', ''oct'', ''succ'', ''next'', ''encode'', ''encoding'', ''freeze'', ''frozen?'',
         ''dup'', ''clone'', ''inspect'', ''hash'', ''<<'', ''+'', ''*'', ''concat'', ''each_line'',
         ''each_char'', ''each_byte'', ''each_codepoint'', ''insert'', ''prepend'', ''delete_prefix'',
         ''delete_suffix'', ''b'', ''force_encoding'', ''valid_encoding?'', ''ascii_only?'',
         ''bytesize'', ''byteslice'', ''unpack'', ''unpack1'', ''setbyte'', ''getbyte'']),
      ([''Symbol''],
        [''to_s'', ''to_sym'', ''to_proc'', ''id2name'', ''name'', ''inspect'', ''length'', ''size'',
         ''upcase'', ''downcase'', ''capitalize'', ''match'', ''match?'', ''=~'', ''[]'']),
      ([''Array''],
        [''length'', ''size'', ''count'', ''empty?'', ''first'', ''last'', ''push'', ''pop'',
         ''shift'', ''unshift'', ''append'', ''prepend'', ''concat'', ''<<'', ''+'', ''-'', ''&'',
         ''|'', ''*'', ''flatten'', ''compact'', ''compact!'', ''uniq'', ''sort'', ''sort_by'',
         ''reverse'', ''reverse_each'', ''map'', ''collect'', ''map!'', ''collect!'', ''select'',
         ''find_all'', ''filter'', ''select!'', ''filter!'', ''keep_if'', ''reject'', ''reject!'',
         ''delete_if'', ''grep'', ''grep_v'', ''partition'', ''each'', ''each_with_index'',
         ''each_with_object'', ''each_slice'', ''each_cons'', ''flat_map'', ''collect_concat'',
         ''inject'', ''reduce'', ''zip'', ''product'', ''combination'', ''permutation'',
         ''repeated_combination'', ''repeated_permutation'', ''transpose'', ''assoc'', ''rassoc'',
         ''sample'', ''shuffle'', ''shuffle!'', ''cycle'', ''include?'', ''index'', ''find_index'',
         ''rindex'', ''to_a'', ''to_ary'', ''to_h'', ''join'', ''min'', ''max'', ''min_by'',
         ''max_by'', ''minmax'', ''minmax_by'', ''sum'', ''any?'', ''all?'', ''none?'', ''one?'',
         ''count'', ''tally'', ''group_by'', ''chunk'', ''chunk_while'', ''slice_when'',
         ''slice_before'', ''rotate'', ''rotate!'', ''take'', ''take_while'', ''drop'', ''drop_while'',
         ''flatten'', ''flatten!'', ''inspect'', ''to_s'', ''freeze'', ''frozen?'', ''dup'', ''clone'',
         ''replace'', ''clear'', ''delete'', ''pack'', ''[]'', ''intersection'', ''intersect?'',
         ''union'', ''difference'', ''delete_at'', ''insert'', ''fill'', ''at'', ''fetch'', ''slice'',
         ''dig'', ''values_at'', ''bsearch'', ''bsearch_index'']),
      ([''Hash''],
        [''keys'', ''values'', ''length'', ''size'', ''empty?'', ''has_key?'', ''has_value?'',
         ''key?'', ''value?'', ''include?'', ''member?'', ''fetch'', ''fetch_values'', ''merge'',
         ''merge!'', ''update'', ''delete'', ''clear'', ''store'', ''key'', ''assoc'', ''rassoc'',
         ''values_at'', ''default'', ''default='', ''default_proc'', ''default_proc='', ''rehash'',
         ''compare_by_identity'', ''compare_by_identity?'', ''each'', ''reverse_each'', ''each_pair'',
         ''each_key'', ''each_value'', ''map'', ''select'', ''find_all'', ''filter'', ''select!'',
         ''filter!'', ''keep_if'', ''reject'', ''reject!'', ''delete_if'', ''grep'', ''grep_v'',
         ''partition'', ''any?'', ''all?'', ''none?'', ''one?'', ''count'', ''sum'', ''flat_map'',
         ''collect_concat'', ''find'', ''detect'', ''find_index'', ''cycle'', ''min_by'', ''max_by'',
         ''sort_by'', ''group_by'', ''tally'', ''chunk'', ''chunk_while'', ''slice_when'',
         ''slice_before'', ''each_with_object'', ''transform_keys'', ''transform_values'',
         ''transform_keys!'', ''transform_values!'', ''to_a'', ''to_h'', ''to_hash'', ''invert'',
         ''compact'', ''compact!'', ''slice'', ''except'', ''inspect'', ''to_s'', ''freeze'',
         ''frozen?'', ''dup'', ''clone'', ''replace'', ''[]'', ''[]='']),
      ([''Range''],
        [''begin'', ''first'', ''end'', ''last'', ''exclude_end?'', ''include?'', ''member?'',
         ''cover?'', ''overlap?'', ''==='', ''each'', ''reverse_each'', ''each_with_index'', ''to_a'',
         ''entries'', ''size'', ''count'', ''length'', ''min'', ''max'', ''bsearch'', ''step'',
         ''map'', ''collect'', ''select'', ''find_all'', ''filter'', ''reject'', ''find_index'',
         ''grep'', ''grep_v'', ''one?'', ''cycle'', ''partition'', ''flat_map'', ''collect_concat'',
         ''chunk'', ''chunk_while'', ''slice_when'', ''slice_before'', ''to_s'', ''inspect'']),
      ([''Struct''],
        [''to_a'', ''values'', ''deconstruct'', ''to_h'', ''deconstruct_keys'', ''members'',
         ''length'', ''size'', ''each'', ''each_pair'', ''values_at'', ''[]'', ''[]='', ''inspect'',
         ''to_s'', ''=='', ''eql?'', ''hash'']),
      ([''Binding''],
        [''eval'', ''local_variable_get'', ''local_variable_set'', ''local_variables'',
         ''source_location'', ''dup'', ''clone'']),
      ([''Proc''],
        [''call'', ''[]'', ''lambda?'', ''arity'', ''parameters'', ''to_proc'', ''curry'',
         ''source_location'', ''binding'', ''to_s'', ''inspect'']),
      ([''IO''],
        [''puts'', ''print'', ''write'', ''<<'', ''flush'', ''sync'', ''sync='', ''fileno'', ''to_i'',
         ''to_int'', ''isatty'', ''tty?'', ''winsize'', ''external_encoding'', ''internal_encoding'',
         ''wait_readable'', ''ungetc'', ''tell'', ''pos'', ''seek'', ''rewind'', ''eof?'', ''gets'',
         ''readline'', ''readlines'', ''read'', ''getc'', ''readchar'', ''getbyte'', ''readbyte'',
         ''each_byte'', ''each_char'', ''each_line'', ''close'', ''closed?'', ''path'', ''raw'',
         ''raw!'', ''cooked'', ''cooked!'']),
      ([''Time''],
        [''to_i'', ''tv_sec'', ''to_f'', ''tv_nsec'', ''nsec'', ''year'', ''month'', ''mon'', ''day'',
         ''mday'', ''hour'', ''min'', ''sec'', ''wday'', ''yday'', ''isdst'', ''dst?'', ''utc?'',
         ''gmt?'', ''strftime'', ''inspect'', ''to_s'', ''utc'', ''gmtime'', ''localtime'', ''zone'',
         ''=='', ''!='', ''<=>'']),
      ([''Regexp''],
        [''source'', ''inspect'', ''to_s'', ''options'', ''match'', ''match?'', ''=~'', ''casefold?'',
         ''named_captures'', ''names'']),
      ([''MatchData''],
        [''to_s'', ''inspect'', ''[]'', ''captures'', ''names'', ''named_captures'', ''begin'',
         ''end'', ''pre_match'', ''post_match'']),
      ([''Exception''],
        [''message'', ''to_s'', ''inspect'', ''exception'', ''backtrace'', ''set_backtrace'']),
      ([''Method''],
        [''name'', ''original_name'', ''owner'', ''receiver'', ''unbind'', ''call'', ''[]'', ''==='',
         ''bind_call'', ''arity'', ''parameters'', ''super_method'', ''to_proc'', ''curry'',
         ''source_location'', ''inspect'', ''to_s'', ''clone'', ''dup'', ''hash'', ''eql?'']),
      ([''UnboundMethod''],
        [''name'', ''original_name'', ''owner'', ''arity'', ''parameters'', ''super_method'',
         ''bind_call'', ''bind'', ''source_location'', ''inspect'', ''to_s'', ''clone'', ''dup'',
         ''hash'', ''eql?'']),
      ([''Fiber''],
        [''resume'', ''alive?''])]"

definition primitive_class_method_lists :: "(string list \<times> string list) list" where
  "primitive_class_method_lists =
     [([''Module''],
        [''constants'', ''instance_methods'', ''public_instance_methods'',
         ''private_instance_methods'', ''protected_instance_methods'', ''ancestors'', ''include?'',
         ''included_modules'', ''name'']),
      ([''Class''],
        [''superclass'', ''instance_methods'', ''public_instance_methods'',
         ''private_instance_methods'', ''protected_instance_methods'', ''new'', ''name'', ''ancestors'']),
      ([''Dir''],
        [''pwd'', ''chdir'', ''mkdir'', ''glob'', ''[]'', ''children'', ''entries'', ''exist?'',
         ''exists?'', ''home'']),
      ([''Kernel''],
        [''const_get'', ''instance_method'', ''load'', ''require'', ''require_relative'', ''system'',
         ''warn'']),
      ([''File''],
        [''open'', ''read'', ''write'', ''binread'', ''foreach'', ''readlines'', ''delete'',
         ''unlink'', ''exist?'', ''exists?'', ''basename'', ''dirname'', ''extname'', ''join'',
         ''split'', ''expand_path'', ''absolute_path'', ''realpath'', ''directory?'', ''file?'',
         ''readable?'', ''writable?'', ''executable?'', ''size'', ''zero?'', ''mtime'']),
      ([''IO''],
        [''open'', ''read'', ''write'', ''pipe'', ''popen'', ''console_size'', ''binread'',
         ''foreach'', ''readlines'']),
      ([''Process''],
        [''pid'']),
      ([''Struct''],
        [''new'', ''[]'', ''members'', ''keyword_init?'']),
      ([''Hash''],
        [''[]'', ''new'']),
      ([''Array''],
        [''[]'', ''new'']),
      ([''Encoding''],
        [''find'', ''default_external'', ''default_internal'', ''default_external='',
         ''default_internal='']),
      ([''Math''],
        [''sqrt'', ''cbrt'', ''sin'', ''cos'', ''tan'', ''asin'', ''acos'', ''atan'', ''atan2'',
         ''exp'', ''log'', ''log2'', ''log10'', ''hypot'', ''pow'', ''floor'', ''ceil'', ''ldexp'']),
      ([''Fiber''],
        [''new'', ''yield'', ''current'']),
      ([''Proc''],
        [''new'']),
      ([''Pathname''],
        [''new'']),
      ([''Shellwords''],
        [''split'']),
      ([''Reline''],
        [''encoding_system_needs'', ''readmultiline'']),
      ([''Reline::Unicode''],
        [''encoding_system_needs'']),
      ([''Thread''], []),
      ([''Regexp''],
        [''new'', ''escape'', ''quote'', ''union'']),
      ([''Time''],
        [''new'', ''now'', ''at'', ''local'', ''mktime'', ''gm'', ''utc''])]"

definition primitive_unbound_methods :: "string list" where
  "primitive_unbound_methods =
     [''inspect'', ''to_s'', ''class'', ''methods'', ''public_methods'', ''private_methods'',
      ''protected_methods'', ''instance_variables'', ''method'', ''public_method'', ''constants'']"

end
