(* ===== verification/EvalReflect.thy ===== *)
theory EvalReflect
  imports EvalLists
begin

section \<open>Built-in methods: questions about methods (src/eval_dispatch.c)\<close>

subsection \<open>Classes of values\<close>

definition singleton_env_of :: "rvalue \<Rightarrow> eval \<Rightarrow> ptr option" where
  "singleton_env_of recv ev =
     (case value_singleton_env_slot recv ev of Some s \<Rightarrow> s | None \<Rightarrow> None)"

definition object_class :: "rvalue \<Rightarrow> eval \<Rightarrow> ptr option" where
  "object_class v ev =
     (case v_data v of VAL_OBJECT p \<Rightarrow> class_of (ro_klass (obj_at p ev)) | _ \<Rightarrow> None)"

text \<open>A class that the program does not have is made, with an environment.\<close>

definition stub_class :: "string \<Rightarrow> eval \<Rightarrow> rvalue \<times> eval" where
  "stub_class name ev =
     (let (klass, ev) = on_heap (val_class (Some name) val_nil) ev;
          (e, ev) = new_env (Some (ev_top_env ev)) True ev
      in (klass, case class_of klass of
            Some k \<Rightarrow> set_heap (update_class (\<lambda>c. c\<lparr>rc_class_env := Some e\<rparr>) k) ev | None \<Rightarrow> ev))"

definition class_name_of :: "rvalue \<Rightarrow> eval \<Rightarrow> string option" where
  "class_name_of v ev =
     (case v_data v of
        VAL_CLASS k \<Rightarrow> Some (if rc_is_module (klass_of k ev) \<noteq> 0 then ''Module'' else ''Class'')
      | _ \<Rightarrow> prim_class_name (ev_heap ev) v)"

definition val_class_of :: "rvalue \<Rightarrow> eval \<Rightarrow> rvalue run" where
  "val_class_of v ev =
     (case v_data v of
        VAL_OBJECT p \<Rightarrow> Some (ro_klass (obj_at p ev), ev)
      | _ \<Rightarrow> do {
          name \<leftarrow> class_name_of v ev;
          found \<leftarrow> top_class name ev;
          Some (case found of Some k \<Rightarrow> (k, ev) | None \<Rightarrow> stub_class name ev)
        })"

text \<open>A search in a class and its superclasses; \<open>None\<close> when it does not end.\<close>

partial_function (option) chain_find ::
  "heap \<Rightarrow> ptr option \<Rightarrow> (ptr \<Rightarrow> 'a option option) \<Rightarrow> 'a option option" where
  "chain_find h klass f =
     (case klass of
        None \<Rightarrow> Some None
      | Some k \<Rightarrow> or_else (f k) (chain_find h (superclass h k) f))"

definition alias_text :: "eval \<Rightarrow> rvalue \<Rightarrow> string option" where
  "alias_text ev v =
     (case sval_text v ev of Some s \<Rightarrow> if cstr s = [] then None else Some (cstr s) | None \<Rightarrow> None)"

text \<open>A module with an environment ends the search for an alias.\<close>

partial_function (option) find_instance_alias_name ::
  "eval \<Rightarrow> ptr option \<Rightarrow> string \<Rightarrow> string option option" where
  "find_instance_alias_name ev klass name =
     (case klass of
        None \<Rightarrow> Some None
      | Some k \<Rightarrow>
          (case rc_class_env (klass_of k ev) of
             None \<Rightarrow> find_instance_alias_name ev (superclass (ev_heap ev) k) name
           | Some e \<Rightarrow>
               (case Option.bind (lookup_own (Some e) name ev) (alias_text ev) of
                  Some s \<Rightarrow> Some (Some s)
                | None \<Rightarrow>
                    if rc_is_module (klass_of k ev) \<noteq> 0 then Some None
                    else find_instance_alias_name ev (superclass (ev_heap ev) k) name)))"

definition instance_method :: "ptr \<Rightarrow> string \<Rightarrow> eval \<Rightarrow> (rvalue \<times> ptr option) option option" where
  "instance_method k name ev = ruby_class_find_instance_method (ev_heap ev) (ev_envs ev) name k"

definition class_method :: "ptr \<Rightarrow> string \<Rightarrow> eval \<Rightarrow> (rvalue \<times> ptr option) option option" where
  "class_method k name ev = ruby_class_find_class_method (ev_heap ev) (ev_envs ev) name k"

subsection \<open>Names of built-in methods\<close>

definition list_for :: "(string list \<times> string list) list \<Rightarrow> string \<Rightarrow> string list option" where
  "list_for tab klass_name = map_option snd (find (\<lambda>(ks, ns). named klass_name ks) tab)"

definition primitive_class_responds_to_name :: "string \<Rightarrow> string \<Rightarrow> bool" where
  "primitive_class_responds_to_name klass_name name =
     (case list_for primitive_method_lists klass_name of None \<Rightarrow> False | Some ns \<Rightarrow> named name ns)"

definition primitive_class_method_responds_to_name :: "string \<Rightarrow> string \<Rightarrow> bool" where
  "primitive_class_method_responds_to_name klass_name name =
     (case list_for primitive_class_method_lists klass_name of None \<Rightarrow> False | Some ns \<Rightarrow> named name ns)"

definition builtin_primitive_responds_to :: "rvalue \<Rightarrow> string \<Rightarrow> bool" where
  "builtin_primitive_responds_to recv name =
     named name
       (case v_data recv of
          VAL_INT _ \<Rightarrow> int_methods | VAL_FLOAT _ \<Rightarrow> float_methods | VAL_STRING _ \<Rightarrow> str_methods
        | VAL_ARRAY _ \<Rightarrow> arr_methods | VAL_HASH _ \<Rightarrow> hash_methods | VAL_RANGE _ \<Rightarrow> range_methods
        | VAL_SYMBOL _ \<Rightarrow> symbol_methods | VAL_BLOCK _ _ _ _ _ \<Rightarrow> proc_methods | VAL_NIL \<Rightarrow> nil_methods
        | VAL_BOOL _ \<Rightarrow> bool_methods | _ \<Rightarrow> [])"

definition builtin_method_arity :: "string \<Rightarrow> int" where
  "builtin_method_arity name =
     (if named name zero_arity_methods then 0
      else if named name one_arity_methods then 1
      else if streq name ''between?'' then 2 else - 1)"

subsection \<open>respond_to?\<close>

definition method_visible_for_respond_to :: "rvalue \<Rightarrow> bool \<Rightarrow> bool" where
  "method_visible_for_respond_to m include_private =
     (case v_data m of VAL_METHOD _ _ vis _ \<Rightarrow> include_private \<or> vis = METHOD_PUBLIC | _ \<Rightarrow> False)"

definition universal_methods :: "string list" where
  "universal_methods =
     [''is_a?'', ''kind_of?'', ''instance_of?'', ''class'', ''nil?'', ''respond_to?'', ''send'', ''__send__'',
      ''public_send'', ''freeze'', ''frozen?'', ''dup'', ''clone'', ''object_id'', ''__id__'', ''itself'',
      ''hash'', ''to_s'', ''inspect'', ''=='', ''!='', ''equal?'', ''eql?'', ''method'', ''tap'', ''then'',
      ''yield_self'']"

definition singleton_responds :: "rvalue \<Rightarrow> string \<Rightarrow> bool \<Rightarrow> eval \<Rightarrow> bool option" where
  "singleton_responds recv name include_private ev =
     (case singleton_env_of recv ev of
        None \<Rightarrow> Some False
      | Some e \<Rightarrow>
          map_option (\<lambda>found. case found of
              Some m \<Rightarrow> method_visible_for_respond_to m include_private | None \<Rightarrow> False)
            (lookup (Some e) name ev))"

text \<open>An object of a built-in class has the methods of the built-in type.\<close>

definition class_probe :: "string \<Rightarrow> rvalue option" where
  "class_probe cn =
     (if streq cn ''String'' then Some (mk_val (VAL_STRING None))
      else if streq cn ''Array'' then Some (mk_val (VAL_ARRAY None))
      else if streq cn ''Hash'' then Some (mk_val (VAL_HASH None))
      else if streq cn ''Integer'' then Some (val_int 0)
      else if streq cn ''Float'' then Some (val_float 0)
      else None)"

definition method_object_responds :: "string \<Rightarrow> string \<Rightarrow> bool" where
  "method_object_responds cn name \<longleftrightarrow>
     streq cn ''Method'' \<and> named name method_obj_methods \<or>
     streq cn ''UnboundMethod'' \<and> named name unbound_method_obj_methods"

definition chain_responds :: "(string \<Rightarrow> string \<Rightarrow> bool) \<Rightarrow> ptr \<Rightarrow> string \<Rightarrow> eval \<Rightarrow> bool option" where
  "chain_responds test k name ev =
     map_option (\<lambda>found. found \<noteq> None)
       (chain_find (ev_heap ev) (Some k) (\<lambda>k. map_option
         (\<lambda>n. if test n name then Some () else None) (rc_name (klass_of k ev))))"

definition object_responds :: "ptr \<Rightarrow> string \<Rightarrow> bool \<Rightarrow> eval \<Rightarrow> bool option" where
  "object_responds k name include_private ev = do {
     alias \<leftarrow> find_instance_alias_name ev (Some k) name;
     if alias \<noteq> None then Some True
     else do {
       m \<leftarrow> instance_method k name ev;
       case m of
         Some (m, owner) \<Rightarrow> Some (method_visible_for_respond_to m include_private)
       | None \<Rightarrow> do {
           cn \<leftarrow> rc_name (klass_of k ev);
           if method_object_responds cn name then Some True
           else do {
             b \<leftarrow> chain_responds primitive_class_responds_to_name k name ev;
             Some (b \<or> (case class_probe cn of Some v \<Rightarrow> builtin_primitive_responds_to v name | None \<Rightarrow> False))
           }
         }
     }
   }"

definition class_responds :: "ptr \<Rightarrow> string \<Rightarrow> bool \<Rightarrow> eval \<Rightarrow> bool option" where
  "class_responds k name include_private ev =
     (if streq name ''new'' then Some True
      else do {
        m \<leftarrow> class_method k name ev;
        if (case m of Some (m, owner) \<Rightarrow> method_visible_for_respond_to m include_private | None \<Rightarrow> False)
        then Some True
        else chain_responds primitive_class_method_responds_to_name k name ev
      })"

definition val_responds_to :: "rvalue \<Rightarrow> string \<Rightarrow> bool \<Rightarrow> eval \<Rightarrow> bool run" where
  "val_responds_to recv name include_private ev =
     (if named name universal_methods \<or> named name kernel_methods then Some (True, ev)
      else do {
        own \<leftarrow> singleton_responds recv name include_private ev;
        if own then Some (True, ev)
        else case v_data recv of
          VAL_OBJECT p \<Rightarrow> do {
            k \<leftarrow> object_class recv ev;
            b \<leftarrow> object_responds k name include_private ev;
            Some (b, ev)
          }
        | VAL_CLASS k \<Rightarrow> map_option (\<lambda>b. (b, ev)) (class_responds k name include_private ev)
        | _ \<Rightarrow>
            if builtin_primitive_responds_to recv name then Some (True, ev)
            else do {
              (klass, ev) \<leftarrow> val_class_of recv ev;
              case class_of klass of
                None \<Rightarrow> Some (False, ev)
              | Some k \<Rightarrow> do {
                  m \<leftarrow> instance_method k name ev;
                  Some (case m of
                      Some (m, owner) \<Rightarrow> method_visible_for_respond_to m include_private
                    | None \<Rightarrow> False, ev)
                }
            }
      })"

subsection \<open>Missing methods\<close>

text \<open>The method of a value that a class of the program defines.\<close>

definition class_hook :: "rvalue \<Rightarrow> string \<Rightarrow> eval \<Rightarrow> (rvalue \<times> ptr option) option run" where
  "class_hook recv name ev =
     (case v_data recv of
        VAL_OBJECT p \<Rightarrow> do {
          k \<leftarrow> object_class recv ev;
          m \<leftarrow> instance_method k name ev;
          Some (m, ev)
        }
      | VAL_CLASS k \<Rightarrow> map_option (\<lambda>m. (m, ev)) (class_method k name ev)
      | _ \<Rightarrow> do {
          (klass, ev) \<leftarrow> val_class_of recv ev;
          case class_of klass of
            None \<Rightarrow> Some (None, ev)
          | Some k \<Rightarrow> map_option (\<lambda>m. (m, ev)) (instance_method k name ev)
        })"

definition dispatch_respond_to_missing ::
  "runner \<Rightarrow> call \<Rightarrow> string \<Rightarrow> bool \<Rightarrow> eval \<Rightarrow> rvalue run" where
  "dispatch_respond_to_missing K c name include_private ev = do {
     (hook, ev) \<leftarrow> class_hook (c_recv c) ''respond_to_missing?'' ev;
     case hook of
       None \<Rightarrow> give val_false ev
     | Some (m, owner) \<Rightarrow> do {
         let (sym, ev) = new_symbol name ev;
         (r, ev) \<leftarrow> invoke K c m owner ''respond_to_missing?'' [sym, val_bool include_private] None ev;
         give (if val_is_signal r then r else val_bool (val_truthy r)) ev
       }
   }"

text \<open>The array of arguments has room for 64 and is read up to the number given.\<close>

definition no_method :: "call \<Rightarrow> eval \<Rightarrow> rvalue run" where
  "no_method c ev = do {
     kname \<leftarrow> prim_class_name (ev_heap ev) (c_recv c);
     raise_at c ''NoMethodError'' (''undefined method '' @ in_quotes (c_name c) @ '' for '' @ kname) ev
   }"

definition dispatch_method_missing :: "runner \<Rightarrow> call \<Rightarrow> eval \<Rightarrow> rvalue run" where
  "dispatch_method_missing K c ev = do {
     (hook, ev) \<leftarrow> class_hook (c_recv c) ''method_missing'' ev;
     case hook of
       None \<Rightarrow> no_method c ev
     | Some (m, owner) \<Rightarrow>
         if 64 < length (c_args c) then None
         else do {
           let (sym, ev) = new_symbol (c_name c) ev;
           invoke K c m owner ''method_missing'' (sym # c_args c) (c_blk c) ev
         }
   }"

subsection \<open>send\<close>

definition not_callable :: "call \<Rightarrow> string \<Rightarrow> string \<Rightarrow> eval \<Rightarrow> rvalue run" where
  "not_callable c how name ev = do {
     kname \<leftarrow> value_class_name (c_recv c) ev;
     raise_at c ''NoMethodError''
       (how @ '' method '' @ in_quotes name @ '' called for an instance of '' @ kname) ev
   }"

text \<open>The method that \<open>public_send\<close> does not call, for its error.\<close>

definition hidden_method :: "rvalue \<Rightarrow> string \<Rightarrow> eval \<Rightarrow> rvalue option run" where
  "hidden_method recv name ev = do {
     own \<leftarrow> (case singleton_env_of recv ev of Some e \<Rightarrow> method_var e name ev | None \<Rightarrow> Some None);
     case own of
       Some m \<Rightarrow> Some (Some m, ev)
     | None \<Rightarrow>
         (case (v_data recv, object_class recv ev) of
            (VAL_OBJECT _, None) \<Rightarrow> Some (None, ev)
          | _ \<Rightarrow> map_option (\<lambda>(m, ev). (map_option fst m, ev)) (class_hook recv name ev))
   }"

definition raise_hidden :: "call \<Rightarrow> string \<Rightarrow> eval \<Rightarrow> rvalue run" where
  "raise_hidden c name ev = do {
     (m, ev) \<leftarrow> hidden_method (c_recv c) name ev;
     case map_option v_data m of
       Some (VAL_METHOD _ _ METHOD_PROTECTED _) \<Rightarrow> not_callable c ''protected'' name ev
     | Some (VAL_METHOD _ _ METHOD_PRIVATE _) \<Rightarrow> not_callable c ''private'' name ev
     | _ \<Rightarrow> raise_at c ''NoMethodError'' (''undefined method '' @ in_quotes name @ '' for '' @
              val_kind_name (v_data (c_recv c))) ev
   }"

definition dispatch_dynamic_send :: "runner \<Rightarrow> bool \<Rightarrow> call \<Rightarrow> eval \<Rightarrow> rvalue run" where
  "dispatch_dynamic_send K public_only c ev =
     (if c_args c = [] then raise_at c ''ArgumentError'' (c_name c @ '' requires a method name'') ev
      else case name_arg c 0 ev of
        None \<Rightarrow> raise_at c ''TypeError'' (c_name c @ '': method name must be a symbol or string'') ev
      | Some name \<Rightarrow> do {
          (hidden, ev) \<leftarrow> (if public_only then do {
              (open_to_all, ev) \<leftarrow> val_responds_to (c_recv c) name False ev;
              if open_to_all then Some (False, ev) else val_responds_to (c_recv c) name True ev
            } else Some (False, ev));
          if hidden then raise_hidden c name ev
          else k_dispatch K (c_env c) (c_recv c) name (tl (c_args c)) (c_blk c) (c_site c) public_only
            (if public_only then 0 else - 1) ev
        })"

subsection \<open>to_s and inspect of the values of a collection\<close>

text \<open>What an object's method raised is dropped, and its message with it only from the flags.\<close>

definition drop_flags :: "eval \<Rightarrow> eval" where
  "drop_flags ev = ev\<lparr>ev_errored := False, ev_exception_class := None\<rparr>"

definition object_text :: "runner \<Rightarrow> call \<Rightarrow> string \<Rightarrow> rvalue \<Rightarrow> eval \<Rightarrow> string option run" where
  "object_text K c meth v ev =
     (if is_object v then do {
        (s, ev) \<leftarrow> call_on_value K c v meth [] 1 ev;
        if \<not> ev_errored ev \<and> is_string s
        then Some (map_option cstr (sval_text s ev), ev) else Some (None, drop_flags ev)
      }
      else Some (None, ev))"

definition dispatch_to_s :: "runner \<Rightarrow> call \<Rightarrow> rvalue \<Rightarrow> eval \<Rightarrow> string run" where
  "dispatch_to_s K c v ev = do {
     (s, ev) \<leftarrow> object_text K c ''to_s'' v ev;
     case s of Some s \<Rightarrow> Some (s, ev) | None \<Rightarrow> map_option (\<lambda>s. (cstr s, ev)) (to_s K v ev)
   }"

end
