(* ===== verification/EvalInteger.thy ===== *)
theory EvalInteger
  imports EvalReflect
begin

section \<open>Built-in methods of integers (dispatch_integer of src/eval_dispatch_primitives.c)\<close>

subsection \<open>Arithmetic\<close>

text \<open>Digits are taken off the low end of the magnitude.\<close>

definition base_digit :: "nat \<Rightarrow> char" where
  "base_digit d = ''0123456789abcdefghijklmnopqrstuvwxyz'' ! d"

fun digits_of :: "nat \<Rightarrow> nat \<Rightarrow> nat list" where
  "digits_of b n = (if n = 0 \<or> b < 2 then [] else n mod b # digits_of b (n div b))"

declare digits_of.simps [simp del]

definition int_to_s_base :: "i64 \<Rightarrow> nat \<Rightarrow> string" where
  "int_to_s_base n b =
     (if n = 0 then ''0''
      else (if sint n < 0 then ''-'' else []) @ map base_digit (rev (digits_of b (nat \<bar>sint n\<bar>))))"

definition abs64 :: "i64 \<Rightarrow> i64 option" where
  "abs64 a = (if sint a < 0 then neg64 a else Some a)"

fun gcd_loop :: "nat \<Rightarrow> nat \<Rightarrow> nat" where
  "gcd_loop a b = (if b = 0 then a else gcd_loop b (a mod b))"

declare gcd_loop.simps [simp del]

definition int_gcd :: "i64 \<Rightarrow> i64 \<Rightarrow> i64 option" where
  "int_gcd a b = do {
     a \<leftarrow> abs64 a;
     b \<leftarrow> abs64 b;
     Some (word_of_nat (gcd_loop (nat (sint a)) (nat (sint b))))
   }"

definition int_lcm :: "i64 \<Rightarrow> i64 \<Rightarrow> i64 option" where
  "int_lcm n b = do {
     g \<leftarrow> int_gcd n b;
     if g = 0 then Some 0
     else do {
       a \<leftarrow> abs64 n;
       q \<leftarrow> div64 a g;
       b \<leftarrow> abs64 b;
       mul64 q b
     }
   }"

text \<open>The power modulo \<open>m\<close> by squaring; each product has to be representable.\<close>

function pow_mod_loop :: "i64 \<Rightarrow> nat \<Rightarrow> i64 \<Rightarrow> i64 \<Rightarrow> i64 option" where
  "pow_mod_loop m e base result =
     (if e = 0 then Some result
      else do {
        result \<leftarrow> (if odd e then Option.bind (mul64 result base) (\<lambda>p. rem64 p m) else Some result);
        square \<leftarrow> mul64 base base;
        base \<leftarrow> rem64 square m;
        pow_mod_loop m (e div 2) base result
      })"
  by auto
termination by (relation "measure (\<lambda>(m, e, base, result). e)") auto

declare pow_mod_loop.simps [simp del]

definition int_pow_mod :: "i64 \<Rightarrow> i64 \<Rightarrow> i64 \<Rightarrow> i64 option" where
  "int_pow_mod n exponent m = do {
     r \<leftarrow> rem64 n m;
     s \<leftarrow> add64 r m;
     base \<leftarrow> rem64 s m;
     pow_mod_loop m (nat (sint exponent)) base 1
   }"

fun int_pow_loop :: "i64 \<Rightarrow> nat \<Rightarrow> i64 \<Rightarrow> i64 option" where
  "int_pow_loop n 0 result = Some result"
| "int_pow_loop n (Suc e) result = Option.bind (mul64 result n) (int_pow_loop n e)"

text \<open>Rounding to a multiple of a power of ten; the power itself has to be representable.\<close>

definition ten_factor :: "i64 \<Rightarrow> i64 option" where
  "ten_factor p = (if - 19 < sint p then i64_of (10 ^ nat (- sint p)) else None)"

definition int_ceil_to :: "i64 \<Rightarrow> i64 \<Rightarrow> i64 option" where
  "int_ceil_to n factor = do {
     q \<leftarrow> div64 n factor;
     r \<leftarrow> rem64 n factor;
     if r = 0 then Some n
     else if 0 < sint n then Option.bind (add64 q 1) (\<lambda>q. mul64 q factor) else mul64 q factor
   }"

definition int_floor_to :: "i64 \<Rightarrow> i64 \<Rightarrow> i64 option" where
  "int_floor_to n factor = do {
     q \<leftarrow> div64 n factor;
     r \<leftarrow> rem64 n factor;
     if r = 0 then Some n
     else if 0 < sint n then mul64 q factor else Option.bind (sub64 q 1) (\<lambda>q. mul64 q factor)
   }"

definition int_round_to :: "i64 \<Rightarrow> i64 \<Rightarrow> i64 option" where
  "int_round_to n factor = do {
     q \<leftarrow> div64 n factor;
     q \<leftarrow> (if 0 < sint n then Some q else sub64 q 1);
     lo \<leftarrow> mul64 q factor;
     hi \<leftarrow> add64 lo factor;
     half \<leftarrow> div64 factor 2;
     mid \<leftarrow> add64 lo half;
     Some (if sint n < sint mid then lo else hi)
   }"

definition int_truncate_to :: "i64 \<Rightarrow> i64 \<Rightarrow> i64 option" where
  "int_truncate_to n factor = Option.bind (div64 n factor) (\<lambda>q. mul64 q factor)"

definition rounding :: "string \<Rightarrow> i64 \<Rightarrow> i64 \<Rightarrow> i64 option" where
  "rounding name =
     (if streq name ''ceil'' then int_ceil_to else if streq name ''floor'' then int_floor_to
      else if streq name ''round'' then int_round_to else int_truncate_to)"

text \<open>Division and remainder, as the methods \<open>div\<close>, \<open>modulo\<close>, \<open>divmod\<close> and \<open>ceildiv\<close> write them.\<close>

definition int_div_method :: "i64 \<Rightarrow> i64 \<Rightarrow> i64 option" where
  "int_div_method n b = do {
     q \<leftarrow> div64 n b;
     if sint (n XOR b) < 0 then do {
       p \<leftarrow> mul64 q b;
       if p \<noteq> n then sub64 q 1 else Some q
     }
     else Some q
   }"

definition int_modulo :: "i64 \<Rightarrow> i64 \<Rightarrow> i64 option" where
  "int_modulo n b = do {
     r \<leftarrow> rem64 n b;
     if r \<noteq> 0 \<and> sint (r XOR b) < 0 then add64 r b else Some r
   }"

definition int_divmod :: "i64 \<Rightarrow> i64 \<Rightarrow> (i64 \<times> i64) option" where
  "int_divmod n b = do {
     q \<leftarrow> div64 n b;
     r \<leftarrow> rem64 n b;
     if r \<noteq> 0 \<and> sint (r XOR b) < 0 then do {
       q \<leftarrow> sub64 q 1;
       r \<leftarrow> add64 r b;
       Some (q, r)
     }
     else Some (q, r)
   }"

definition int_ceildiv :: "i64 \<Rightarrow> i64 \<Rightarrow> i64 option" where
  "int_ceildiv n b = do {
     q \<leftarrow> div64 n b;
     r \<leftarrow> rem64 n b;
     if r \<noteq> 0 \<and> 0 < sint (r XOR b) then add64 q 1 else Some q
   }"

definition int_bit_length :: "i64 \<Rightarrow> nat" where
  "int_bit_length n = bit_length (unat (if sint n < 0 then NOT n else n))"

text \<open>A shift by 64 or more, or by less than none, is undefined.\<close>

definition int_bit :: "i64 \<Rightarrow> i64 \<Rightarrow> i64 option" where
  "int_bit n i = (if sint i < 0 then Some 0 else map_option (\<lambda>s. s AND 1) (shr64 n i))"

definition int_bit_range :: "i64 \<Rightarrow> i64 \<Rightarrow> i64 \<Rightarrow> bool \<Rightarrow> i64 option" where
  "int_bit_range n lo hi exclusive = do {
     hi \<leftarrow> (if exclusive then sub64 hi 1 else Some hi);
     let lo = (if sint lo < 0 then 0 else lo);
     if sint hi < sint lo then Some 0
     else do {
       d \<leftarrow> sub64 hi lo;
       len \<leftarrow> add64 d 1;
       let len = (if 62 < sint len then 62 else len);
       s \<leftarrow> shr64 n lo;
       Some (s AND (push_bit (nat (sint len)) 1 - 1))
     }
   }"

definition chr_byte :: "i64 \<Rightarrow> char" where "chr_byte w = char_of (unat w)"

text \<open>The bytes of a code point.\<close>

definition chr_bytes :: "i64 \<Rightarrow> string" where
  "chr_bytes n =
     (if sint n < 0x80 then [chr_byte n]
      else if sint n < 0x800 then [chr_byte (0xC0 OR drop_bit 6 n), chr_byte (0x80 OR (n AND 0x3F))]
      else if sint n < 0x10000 then
        [chr_byte (0xE0 OR drop_bit 12 n), chr_byte (0x80 OR (drop_bit 6 n AND 0x3F)),
         chr_byte (0x80 OR (n AND 0x3F))]
      else
        [chr_byte (0xF0 OR drop_bit 18 n), chr_byte (0x80 OR (drop_bit 12 n AND 0x3F)),
         chr_byte (0x80 OR (drop_bit 6 n AND 0x3F)), chr_byte (0x80 OR (n AND 0x3F))])"

subsection \<open>Arguments\<close>

text \<open>A number as an \<open>int64_t\<close> or as a double; another kind would be read as one of the two.\<close>

definition int64_arg :: "rvalue \<Rightarrow> i64 option" where
  "int64_arg v =
     (case v_data v of VAL_INT i \<Rightarrow> Some i | VAL_FLOAT f \<Rightarrow> dbl_to_int64 f | _ \<Rightarrow> None)"

definition double_arg :: "rvalue \<Rightarrow> u64 option" where
  "double_arg v =
     (case v_data v of VAL_INT i \<Rightarrow> Some (dbl_of_int64 i) | VAL_FLOAT f \<Rightarrow> Some f | _ \<Rightarrow> None)"

definition requires_integer :: "call \<Rightarrow> (i64 \<Rightarrow> eval \<Rightarrow> rvalue run) \<Rightarrow> eval \<Rightarrow> rvalue run" where
  "requires_integer c f ev =
     (case first_int c of
        None \<Rightarrow> raise_at c ''TypeError'' (''Integer#'' @ c_name c @ '' requires an Integer'') ev
      | Some b \<Rightarrow> f b ev)"

definition divided_by_zero :: "call \<Rightarrow> eval \<Rightarrow> rvalue run" where
  "divided_by_zero c = raise_at c ''ZeroDivisionError'' ''divided by 0''"

text \<open>The divisor: \<open>f\<close> gets one that is not zero.\<close>

definition with_divisor :: "call \<Rightarrow> (i64 \<Rightarrow> i64 option) \<Rightarrow> eval \<Rightarrow> rvalue run" where
  "with_divisor c f ev =
     (case arg c 0 of
        None \<Rightarrow> wrong_args c ev
      | Some v \<Rightarrow> do {
          b \<leftarrow> int64_arg v;
          if b = 0 then divided_by_zero c ev else ev_int ev (f b)
        })"

definition make_numeric ::
  "runner \<Rightarrow> call \<Rightarrow> string \<Rightarrow> rvalue list \<Rightarrow> (eval \<Rightarrow> rvalue run) \<Rightarrow> eval \<Rightarrow> rvalue run" where
  "make_numeric K c cls args otherwise ev = do {
     found \<leftarrow> top_class cls ev;
     case found of
       Some k \<Rightarrow> call_on_value K c k ''new'' args 1 ev
     | None \<Rightarrow> otherwise ev
   }"

definition wrap_as_enumerator :: "runner \<Rightarrow> call \<Rightarrow> rvalue \<Rightarrow> eval \<Rightarrow> rvalue run" where
  "wrap_as_enumerator K c arr ev = do {
     found \<leftarrow> top_class ''Enumerator'' ev;
     case found of
       None \<Rightarrow> give arr ev
     | Some k \<Rightarrow> do {
         (r, ev) \<leftarrow> call_on_value K c k ''new'' [arr] 1 ev;
         if val_is_signal r then give arr (forget_error ev) else give r ev
       }
   }"

subsection \<open>The operators\<close>

text \<open>A complex or rational operand: the integer is made one of its class first.\<close>

definition coerced ::
  "runner \<Rightarrow> call \<Rightarrow> string \<Rightarrow> rvalue list \<Rightarrow> rvalue \<Rightarrow> eval \<Rightarrow> rvalue option run" where
  "coerced K c cls args r ev = do {
     found \<leftarrow> top_class cls ev;
     case found of
       None \<Rightarrow> Some (None, ev)
     | Some k \<Rightarrow> do {
         (me, ev) \<leftarrow> call_on_value K c k ''new'' args 1 ev;
         if val_is_signal me then Some (None, ev)
         else taken (call_on_value K c me (c_name c) [r] 1 ev)
       }
   }"

definition coerced_operator :: "runner \<Rightarrow> rvalue \<Rightarrow> handler" where
  "coerced_operator K r c ev =
     (if \<not> arith_op (c_name c) then Some (None, ev)
      else do {
        cplx \<leftarrow> instance_of_any [''Complex''] r ev;
        rat \<leftarrow> instance_of_any [''Rational''] r ev;
        if cplx then coerced K c ''Complex'' [c_recv c, val_int 0] r ev
        else if rat then coerced K c ''Rational'' [c_recv c] r ev
        else Some (None, ev)
      })"

definition give_bool :: "bool \<Rightarrow> meth" where "give_bool b c = give (val_bool b)"

definition give_int :: "i64 option \<Rightarrow> meth" where "give_int i c ev = ev_int ev i"

definition order_methods :: "u64 \<Rightarrow> u64 \<Rightarrow> method_table" where
  "order_methods lf rf =
     [([''<''], give_bool (dbl_less lf rf)), ([''<=''], give_bool (dbl_leq lf rf)),
      ([''>''], give_bool (dbl_less rf lf)), ([''>=''], give_bool (dbl_leq rf lf))]"

definition order_sign :: "u64 \<Rightarrow> u64 \<Rightarrow> i64" where
  "order_sign lf rf = (if dbl_less lf rf then - 1 else if dbl_less rf lf then 1 else 0)"

definition int_power_method :: "runner \<Rightarrow> i64 \<Rightarrow> i64 \<Rightarrow> meth" where
  "int_power_method K n b c ev =
     (let lf = dbl_of_int64 n; rf = dbl_of_int64 b
      in if sint b < 0 then do {
           found \<leftarrow> top_class ''Rational'' ev;
           case found of
             Some k \<Rightarrow> do {
               d \<leftarrow> dbl_to_int64 (k_pow K lf (dbl_negate rf));
               call_on_value K c k ''new'' [val_int 1, val_int d] 1 ev
             }
           | None \<Rightarrow> give (val_float (k_pow K lf rf)) ev
         }
         else ev_int ev (dbl_to_int64 (k_pow K lf rf)))"

text \<open>The remainder of \<open>%\<close> is that of C, with the sign of the dividend.\<close>

definition int_operators :: "runner \<Rightarrow> i64 \<Rightarrow> i64 \<Rightarrow> method_table" where
  "int_operators K n b =
     [([''+''], give_int (add64 n b)), ([''-''], give_int (sub64 n b)), ([''*''], give_int (mul64 n b)),
      ([''/''], \<lambda>c ev. if b = 0 then divided_by_zero c ev else ev_int ev (int_div n b)),
      ([''%''], \<lambda>c ev. if b = 0 then divided_by_zero c ev else ev_int ev (rem64 n b)),
      ([''**''], int_power_method K n b)]
     @ order_methods (dbl_of_int64 n) (dbl_of_int64 b) @
     [([''<=>''], give_int (Some (order_sign (dbl_of_int64 n) (dbl_of_int64 b)))),
      ([''&''], give_int (Some (n AND b))), ([''|''], give_int (Some (n OR b))),
      ([''^''], give_int (Some (n XOR b))), ([''<<''], give_int (shl64 n b)),
      ([''>>''], give_int (shr64 n b))]"

definition give_float :: "u64 \<Rightarrow> meth" where "give_float f c = give (val_float f)"

definition mixed_operators :: "runner \<Rightarrow> u64 \<Rightarrow> u64 \<Rightarrow> bool \<Rightarrow> method_table" where
  "mixed_operators K lf rf comparable =
     [([''+''], give_float (dbl_add lf rf)), ([''-''], give_float (dbl_sub lf rf)),
      ([''*''], give_float (dbl_mul lf rf)), ([''/''], give_float (dbl_div lf rf)),
      ([''%''], give_float (dbl_fmod lf rf)), ([''**''], give_float (k_pow K lf rf))]
     @ order_methods lf rf @
     [([''<=>''], \<lambda>c ev. if comparable then ev_int ev (Some (order_sign lf rf)) else give val_nil ev)]"

definition int_operator :: "runner \<Rightarrow> i64 \<Rightarrow> handler" where
  "int_operator K n c ev =
     (case c_args c of
        [r] \<Rightarrow> or_handler (coerced_operator K r)
          (by_table (case v_data r of
              VAL_INT b \<Rightarrow> int_operators K n b
            | _ \<Rightarrow> mixed_operators K (dbl_of_int64 n) (num_dbl r) (is_num r))) c ev
      | _ \<Rightarrow> Some (None, ev))"

subsection \<open>Methods with a block\<close>

definition int_values :: "int list \<Rightarrow> rvalue list" where
  "int_values = map (\<lambda>i. val_int (word_of_int i))"

definition give_enumerator :: "runner \<Rightarrow> call \<Rightarrow> rvalue list \<Rightarrow> eval \<Rightarrow> rvalue run" where
  "give_enumerator K c xs ev = (let (arr, ev) = new_array xs ev in wrap_as_enumerator K c arr ev)"

text \<open>The counter is stepped after each turn, also after the last one.\<close>

definition count_turn ::
  "runner \<Rightarrow> call \<Rightarrow> ptr \<Rightarrow> (i64 \<Rightarrow> bool) \<Rightarrow> (i64 \<Rightarrow> i64 option) \<Rightarrow> i64 \<Rightarrow> eval \<Rightarrow> (rvalue + i64) run" where
  "count_turn K c b goes_on step i ev =
     (if goes_on i then
        then_next (block_step K c b [val_int i] ev) (\<lambda>x ev. map_option (\<lambda>i. (Inr i, ev)) (step i))
      else Some (Inl (c_recv c), ev))"

definition int_times :: "runner \<Rightarrow> i64 \<Rightarrow> meth" where
  "int_times K n c ev =
     (case c_blk c of
        None \<Rightarrow> give_enumerator K c (int_values [0 .. sint n - 1]) ev
      | Some b \<Rightarrow> run_loop (count_turn K c b (\<lambda>i. sint i < sint n) (\<lambda>i. add64 i 1)) 0 ev)"

definition counting ::
  "runner \<Rightarrow> (i64 \<Rightarrow> rvalue list option) \<Rightarrow> (i64 \<Rightarrow> i64 \<Rightarrow> bool) \<Rightarrow> (i64 \<Rightarrow> i64 option) \<Rightarrow> i64 \<Rightarrow> meth"
where
  "counting K vals goes_on step n c ev =
     (case arg c 0 of
        None \<Rightarrow> raise_at c ''ArgumentError'' (''Integer#'' @ c_name c @ '' requires an argument'') ev
      | Some v \<Rightarrow> do {
          limit \<leftarrow> int64_arg v;
          case c_blk c of
            None \<Rightarrow> do {
              xs \<leftarrow> vals limit;
              give_enumerator K c xs ev
            }
          | Some b \<Rightarrow> run_loop (count_turn K c b (goes_on limit) step) n ev
        })"

definition int_upto :: "runner \<Rightarrow> i64 \<Rightarrow> meth" where
  "int_upto K n =
     counting K (\<lambda>limit. if sint limit = LLONG_MAX then None else Some (int_values [sint n .. sint limit]))
       (\<lambda>limit i. sint i \<le> sint limit) (\<lambda>i. add64 i 1) n"

definition int_downto :: "runner \<Rightarrow> i64 \<Rightarrow> meth" where
  "int_downto K n =
     counting K (\<lambda>limit. if sint limit = LLONG_MIN then None else Some (int_values (rev [sint limit .. sint n])))
       (\<lambda>limit i. sint limit \<le> sint i) (\<lambda>i. sub64 i 1) n"

text \<open>\<open>step\<close> counts in doubles, and ends within \<open>1e-10\<close> of its limit.\<close>

definition hash_option :: "runner \<Rightarrow> ptr \<Rightarrow> string \<Rightarrow> eval \<Rightarrow> rvalue option run" where
  "hash_option K h name ev = do {
     (found, ev) \<leftarrow> hash_get_sym K h name ev;
     if found \<noteq> None then Some (found, ev)
     else do {
       let (key, ev) = new_string name ev;
       found \<leftarrow> val_hash_get (k_depth K) (ev_heap ev) h key;
       Some (found, ev)
     }
   }"

definition numeric_step_args ::
  "runner \<Rightarrow> call \<Rightarrow> string \<Rightarrow> eval \<Rightarrow> (rvalue + rvalue \<times> rvalue) run" where
  "numeric_step_args K c klass_name ev =
     (let no_limit = \<lambda>ev. map_option (\<lambda>(r, ev). (Inl r, ev))
            (raise_at c ''ArgumentError'' (klass_name @ ''#step requires a limit'') ev)
      in case (c_args c, Option.bind (arg c 0) hash_ptr) of
           ([a], Some h) \<Rightarrow> do {
             (limit, ev) \<leftarrow> hash_option K h ''to'' ev;
             case limit of
               None \<Rightarrow> no_limit ev
             | Some limit \<Rightarrow> do {
                 (step, ev) \<leftarrow> hash_option K h ''by'' ev;
                 Some (Inr (limit, case step of Some s \<Rightarrow> s | None \<Rightarrow> val_int 1), ev)
               }
           }
         | ([], _) \<Rightarrow> no_limit ev
         | (a # others, _) \<Rightarrow>
             Some (Inr (a, case others of s # _ \<Rightarrow> s | [] \<Rightarrow> val_int 1), ev))"

definition step_slack :: u64 where "step_slack = 0x3DDB7CDFD9D7BDBB"

definition step_goes_on :: "u64 \<Rightarrow> u64 \<Rightarrow> u64 \<Rightarrow> bool" where
  "step_goes_on limit step i =
     (if dbl_less 0 step then dbl_leq i (dbl_add limit step_slack)
      else dbl_leq (dbl_sub limit step_slack) i)"

definition step_value :: "bool \<Rightarrow> u64 \<Rightarrow> rvalue option" where
  "step_value use_float i = (if use_float then Some (val_float i) else map_option val_int (dbl_to_int64 i))"

definition step_turn ::
  "(rvalue \<Rightarrow> eval \<Rightarrow> (rvalue + rvalue) run) \<Rightarrow> rvalue \<Rightarrow> bool \<Rightarrow> u64 \<Rightarrow> u64 \<Rightarrow> u64 \<Rightarrow> eval \<Rightarrow>
     (rvalue + u64) run" where
  "step_turn act done use_float limit step i ev =
     (if step_goes_on limit step i then do {
        v \<leftarrow> step_value use_float i;
        then_next (act v ev) (\<lambda>x ev. Some (Inr (dbl_add i step), ev))
      }
      else Some (Inl done, ev))"

definition push_step :: "rvalue \<Rightarrow> rvalue \<Rightarrow> eval \<Rightarrow> (rvalue + rvalue) run" where
  "push_step arr v ev = Some (Inr v, push_value arr v ev)"

definition numeric_step :: "runner \<Rightarrow> call \<Rightarrow> u64 \<Rightarrow> bool \<Rightarrow> u64 \<Rightarrow> u64 \<Rightarrow> eval \<Rightarrow> rvalue run" where
  "numeric_step K c from use_float limit step ev =
     (case c_blk c of
        Some b \<Rightarrow>
          run_loop (step_turn (\<lambda>v. block_step K c b [v]) (c_recv c) use_float limit step) from ev
      | None \<Rightarrow> do {
          let (arr, ev) = new_array [] ev;
          (arr, ev) \<leftarrow> run_loop (step_turn (push_step arr) arr use_float limit step) from ev;
          wrap_as_enumerator K c arr ev
        })"

definition is_float :: "rvalue \<Rightarrow> bool" where
  "is_float v = (case v_data v of VAL_FLOAT _ \<Rightarrow> True | _ \<Rightarrow> False)"

definition int_step :: "runner \<Rightarrow> i64 \<Rightarrow> meth" where
  "int_step K n c ev = do {
     (r, ev) \<leftarrow> numeric_step_args K c ''Integer'' ev;
     case r of
       Inl v \<Rightarrow> give v ev
     | Inr (limit_arg, step_arg) \<Rightarrow>
         (case (double_arg limit_arg, double_arg step_arg) of
            (Some limit, Some step) \<Rightarrow>
              if dbl_eq step 0 then raise_at c ''ArgumentError'' ''step cannot be 0'' ev
              else numeric_step K c (dbl_of_int64 n) (is_float limit_arg \<or> is_float step_arg) limit step ev
          | _ \<Rightarrow> raise_at c ''TypeError'' ''Integer#step requires numeric arguments'' ev)
   }"

subsection \<open>The other methods\<close>

definition int_text :: "runner \<Rightarrow> i64 \<Rightarrow> meth" where
  "int_text K n c ev =
     (case first_int c of
        Some b \<Rightarrow>
          (let base = sint (ucast b :: 32 word)
           in if base < 2 \<or> 36 < base then raise_at c ''ArgumentError'' (''invalid radix '' @ fmt_int base) ev
              else give_text (int_to_s_base n (nat base)) ev)
      | None \<Rightarrow> give_text (int_to_s n) ev)"

definition int_mask_test :: "i64 \<Rightarrow> meth" where
  "int_mask_test n c =
     requires_integer c (\<lambda>mask. give (val_bool
       (if streq (c_name c) ''allbits?'' then n AND mask = mask
        else if streq (c_name c) ''anybits?'' then n AND mask \<noteq> 0 else n AND mask = 0)))"

definition int_rounded :: "i64 \<Rightarrow> meth" where
  "int_rounded n c ev =
     (case first_int c of
        Some p \<Rightarrow>
          if sint p < 0 then ev_int ev (Option.bind (ten_factor p) (rounding (c_name c) n))
          else give (c_recv c) ev
      | None \<Rightarrow> give (c_recv c) ev)"

definition int_chr :: "i64 \<Rightarrow> meth" where
  "int_chr n c ev =
     (if sint n < 0 \<or> 0x10FFFF < sint n
      then raise_at c ''RangeError'' (fmt_int (sint n) @ '' out of char range'') ev
      else if sint n \<le> 127 then Some (on_heap (val_string_n [chr_byte n]) ev)
      else give_text (chr_bytes n) ev)"

definition int_index :: "i64 \<Rightarrow> meth" where
  "int_index n c ev =
     (case map_option v_data (arg c 0) of
        Some (VAL_RANGE p) \<Rightarrow>
          (let r = h_ranges (ev_heap ev) ! p
           in case (v_data (rr_begin r), v_data (rr_end r)) of
                (VAL_INT lo, VAL_INT hi) \<Rightarrow> ev_int ev (int_bit_range n lo hi (rr_exclusive r \<noteq> 0))
              | _ \<Rightarrow> give (val_int 0) ev)
      | Some (VAL_INT i) \<Rightarrow> ev_int ev (int_bit n i)
      | _ \<Rightarrow> give (val_int 0) ev)"

definition int_coerce :: "i64 \<Rightarrow> meth" where
  "int_coerce n c ev =
     (case arg c 0 of
        None \<Rightarrow> wrong_args c ev
      | Some v \<Rightarrow> Some (new_array
          (case v_data v of
             VAL_FLOAT _ \<Rightarrow> [v, val_float (dbl_of_int64 n)]
           | VAL_INT _ \<Rightarrow> [v, c_recv c]
           | _ \<Rightarrow> [val_int n, c_recv c]) ev))"

definition int_pow :: "runner \<Rightarrow> i64 \<Rightarrow> meth" where
  "int_pow K n c ev =
     (case arg c 0 of
        None \<Rightarrow> raise_at c ''ArgumentError'' ''Integer#pow requires an argument'' ev
      | Some v \<Rightarrow> do {
          e \<leftarrow> int64_arg v;
          case map_option v_data (arg c 1) of
            Some (VAL_INT m) \<Rightarrow> if m = 0 then divided_by_zero c ev else ev_int ev (int_pow_mod n e m)
          | _ \<Rightarrow>
              if sint e < 0 then give (val_float (k_pow K (dbl_of_int64 n) (dbl_of_int64 e))) ev
              else ev_int ev (int_pow_loop n (nat (sint e)) 1)
        })"

definition int_fdiv :: "i64 \<Rightarrow> meth" where
  "int_fdiv n c ev =
     (case arg c 0 of
        None \<Rightarrow> wrong_args c ev
      | Some v \<Rightarrow> do {
          b \<leftarrow> double_arg v;
          give (val_float (if dbl_eq b 0 then dbl_inf (sint n < 0) else dbl_div (dbl_of_int64 n) b)) ev
        })"

definition int_divmod_method :: "i64 \<Rightarrow> meth" where
  "int_divmod_method n c =
     requires_integer c (\<lambda>b ev. if b = 0 then divided_by_zero c ev
       else do {
         (q, r) \<leftarrow> int_divmod n b;
         Some (new_array [val_int q, val_int r] ev)
       })"

definition int_ceildiv_method :: "i64 \<Rightarrow> meth" where
  "int_ceildiv_method n c =
     requires_integer c (\<lambda>b ev. if b = 0 then divided_by_zero c ev else ev_int ev (int_ceildiv n b))"

definition int_digits :: "i64 \<Rightarrow> meth" where
  "int_digits n c ev =
     (let base = (case first_int c of Some b \<Rightarrow> b | None \<Rightarrow> 10)
      in if sint base < 2 then raise_at c ''ArgumentError'' (''invalid radix '' @ fmt_int (sint base)) ev
         else do {
           m \<leftarrow> abs64 n;
           Some (new_array (if m = 0 then [val_int 0]
             else map (\<lambda>d. val_int (word_of_nat d)) (digits_of (nat (sint base)) (nat (sint m)))) ev)
         })"

definition int_between :: "i64 \<Rightarrow> meth" where
  "int_between n c ev =
     (case c_args c of
        lo # hi # _ \<Rightarrow> do {
          lo \<leftarrow> double_arg lo;
          hi \<leftarrow> double_arg hi;
          give (val_bool (dbl_leq lo (dbl_of_int64 n) \<and> dbl_leq (dbl_of_int64 n) hi)) ev
        }
      | _ \<Rightarrow> wrong_args c ev)"

text \<open>A bound that is nil is none.\<close>

definition bound_arg :: "int \<Rightarrow> rvalue \<Rightarrow> i64 option" where
  "bound_arg dflt v = (if is_nil v then Some (word_of_int dflt) else int64_arg v)"

definition clamp_to :: "i64 \<Rightarrow> i64 \<Rightarrow> i64 \<Rightarrow> i64" where
  "clamp_to n lo hi = (if sint n < sint lo then lo else if sint hi < sint n then hi else n)"

definition int_clamp :: "i64 \<Rightarrow> meth" where
  "int_clamp n c ev =
     (case (c_args c, map_option v_data (arg c 0)) of
        ([_], Some (VAL_RANGE p)) \<Rightarrow> do {
          let r = h_ranges (ev_heap ev) ! p;
          lo \<leftarrow> bound_arg LLONG_MIN (rr_begin r);
          hi \<leftarrow> bound_arg LLONG_MAX (rr_end r);
          hi \<leftarrow> (if rr_exclusive r \<noteq> 0 \<and> int_of_val (rr_end r) \<noteq> None then sub64 hi 1 else Some hi);
          give (val_int (clamp_to n lo hi)) ev
        }
      | (lo # hi # _, _) \<Rightarrow> do {
          lo \<leftarrow> bound_arg LLONG_MIN lo;
          hi \<leftarrow> bound_arg LLONG_MAX hi;
          give (val_int (clamp_to n lo hi)) ev
        }
      | _ \<Rightarrow> wrong_args c ev)"

definition give_recv :: meth where "give_recv c = give (c_recv c)"

definition int_conversions :: "runner \<Rightarrow> i64 \<Rightarrow> method_table" where
  "int_conversions K n =
     [([''to_s''], int_text K n),
      ([''to_f''], give_float (dbl_of_int64 n)),
      ([''to_i'', ''to_int''], give_recv),
      ([''to_r''], \<lambda>c. make_numeric K c ''Rational'' [c_recv c] (give (c_recv c)))]"

definition int_methods_tab :: "runner \<Rightarrow> i64 \<Rightarrow> method_table" where
  "int_methods_tab K n =
     [([''abs''], give_int (abs64 n)),
      ([''abs2''], give_int (mul64 n n)),
      ([''even?''], give_bool (even (sint n))),
      ([''odd?''], give_bool (odd (sint n))),
      ([''zero?''], give_bool (n = 0)),
      ([''nonzero?''], \<lambda>c. give (if n = 0 then val_nil else c_recv c)),
      ([''positive?''], give_bool (0 < sint n)),
      ([''negative?''], give_bool (sint n < 0)),
      ([''allbits?'', ''anybits?'', ''nobits?''], int_mask_test n),
      ([''integer?''], give_bool True),
      ([''ceil'', ''floor'', ''round'', ''truncate''], int_rounded n),
      ([''succ'', ''next''], give_int (add64 n 1)),
      ([''pred''], give_int (sub64 n 1)),
      ([''infinite?''], \<lambda>c. give val_nil),
      ([''finite?''], give_bool True),
      ([''nan?''], give_bool False),
      ([''real?''], give_bool True),
      ([''real''], give_recv),
      ([''imaginary''], give_int (Some 0)),
      ([''chr''], int_chr n),
      ([''ord''], give_recv),
      ([''[]''], int_index n),
      ([''coerce''], int_coerce n),
      ([''gcd''], \<lambda>c. requires_integer c (\<lambda>b ev. ev_int ev (int_gcd n b))),
      ([''lcm''], \<lambda>c. requires_integer c (\<lambda>b ev. ev_int ev (int_lcm n b))),
      ([''pow''], int_pow K n),
      ([''div''], \<lambda>c. with_divisor c (int_div_method n)),
      ([''modulo'', ''%'', ''mod''], \<lambda>c. with_divisor c (int_modulo n)),
      ([''remainder''], \<lambda>c. with_divisor c (rem64 n)),
      ([''to_c''], \<lambda>c. make_numeric K c ''Complex'' [c_recv c, val_int 0]
         (give_text (snprintf 32 (''('' @ fmt_int (sint n) @ ''+0i)'')))),
      ([''fdiv''], int_fdiv n),
      ([''divmod''], int_divmod_method n),
      ([''bit_length''], give_int (Some (word_of_nat (int_bit_length n)))),
      ([''ceildiv''], int_ceildiv_method n),
      ([''digits''], int_digits n),
      ([''between?''], int_between n),
      ([''clamp''], int_clamp n),
      ([''times''], int_times K n),
      ([''upto''], int_upto K n),
      ([''downto''], int_downto K n),
      ([''step''], int_step K n)]"

definition dispatch_integer :: "runner \<Rightarrow> handler" where
  "dispatch_integer K c ev =
     (case v_data (c_recv c) of
        VAL_INT n \<Rightarrow>
          or_handler (by_table (int_conversions K n))
            (or_handler (int_operator K n) (by_table (int_methods_tab K n))) c ev
      | _ \<Rightarrow> Some (None, ev))"

end
