(* ===== verification/EvalArith.thy ===== *)
theory EvalArith
  imports EvalInteger Utf8
begin

section \<open>The arithmetic of integers\<close>

text \<open>
  The methods and operators on integers compute what they are named after: the divisions round down
  (\<open>ceildiv\<close> up), \<open>gcd\<close> and \<open>pow\<close> with a modulus are those of arithmetic, and the text of a number
  reads back to it.
\<close>

subsection \<open>Division\<close>

lemma floor_unique:
  fixes q r a b :: int
  assumes "a = q * b + r" and "0 \<le> r \<and> r < b \<or> b < r \<and> r \<le> 0"
  shows "a div b = q \<and> a mod b = r"
  using assms int_div_pos_eq [of a b q r] int_div_neg_eq [of a b q r]
    int_mod_pos_eq [of a b q r] int_mod_neg_eq [of a b q r] by (auto simp: mult.commute)

lemma smod_sign: "(a smod b < 0) \<longleftrightarrow> a < 0 \<and> a smod b \<noteq> 0" if "b \<noteq> 0" for a b :: int
  using that smod_int_compares [of a b] by (smt (verit))

lemma floor_from_c:
  fixes a b :: int
  assumes b: "b \<noteq> 0"
  shows "a div b = (if a smod b \<noteq> 0 \<and> (a smod b < 0) \<noteq> (b < 0) then a sdiv b - 1 else a sdiv b)"
    and "a mod b = (if a smod b \<noteq> 0 \<and> (a smod b < 0) \<noteq> (b < 0) then a smod b + b else a smod b)"
proof -
  have *: "a = a sdiv b * b + a smod b" "a = (a sdiv b - 1) * b + (a smod b + b)"
    by (simp_all add: sdiv_mult_smod_eq left_diff_distrib)
  have r: "- \<bar>b\<bar> < a smod b" "a smod b < \<bar>b\<bar>"
    using smod_int_range [OF b, of a] by auto
  show "a div b = (if a smod b \<noteq> 0 \<and> (a smod b < 0) \<noteq> (b < 0) then a sdiv b - 1 else a sdiv b)"
    "a mod b = (if a smod b \<noteq> 0 \<and> (a smod b < 0) \<noteq> (b < 0) then a smod b + b else a smod b)"
    using floor_unique [OF *(1)] floor_unique [OF *(2)] r b by (auto simp: abs_if split: if_splits)
qed

lemma ceiling_from_c:
  fixes a b :: int
  assumes b: "b \<noteq> 0"
  shows "- (- a div b) = (if a smod b \<noteq> 0 \<and> (a smod b < 0) = (b < 0) then a sdiv b + 1 else a sdiv b)"
  using floor_from_c(1) [OF b, of "- a"] smod_int_range [OF b, of a] by (auto simp: not_less)

lemma smod_smaller: "\<bar>a smod b\<bar> \<le> \<bar>a\<bar>" for a b :: int
  using zmod_le_nonneg_dividend [of "\<bar>a\<bar>" "\<bar>b\<bar>"] pos_mod_sign [of "\<bar>b\<bar>" "\<bar>a\<bar>"]
  by (cases "b = 0") (auto simp: smod_int_alt_def abs_mult sgn_if)

lemma sint_xor_neg: "sint (x XOR y) < 0 \<longleftrightarrow> (sint x < 0) \<noteq> (sint y < 0)" for x y :: i64
  by (simp add: signed_xor_eq)

lemma sint_xor_pos: "0 < sint (x XOR y) \<longleftrightarrow> (sint x < 0) = (sint y < 0) \<and> x \<noteq> y" for x y :: i64
proof -
  have "x XOR y = 0 \<longleftrightarrow> x = y" by (auto simp: bit_eq_iff bit_xor_iff)
  then have "sint (x XOR y) = 0 \<longleftrightarrow> x = y" by simp
  moreover have "sint (x XOR y) < 0 \<longleftrightarrow> (sint x < 0) \<noteq> (sint y < 0)" by (rule sint_xor_neg)
  ultimately show ?thesis by linarith
qed

text \<open>The quotient and the remainder in C, when they are representable.\<close>

lemma c_division:
  fixes a b :: i64
  assumes b: "b \<noteq> 0" and no: "\<not> (sint a = LLONG_MIN \<and> sint b = - 1)"
  obtains q r where "div64 a b = Some q" "rem64 a b = Some r" "sint q = sint a sdiv sint b"
    "sint r = sint a smod sint b"
proof -
  have b0: "sint b \<noteq> 0" using b by simp
  have d: "sint a sdiv sint b \<in> {- \<bar>sint a\<bar>..\<bar>sint a\<bar>}" by (rule sdiv_int_range)
  have "sint a sdiv sint b \<noteq> - LLONG_MIN"
  proof
    assume q: "sint a sdiv sint b = - LLONG_MIN"
    then have a: "sint a = LLONG_MIN" using d sint_range [of a] by (auto simp: LLONG_MIN_def LLONG_MAX_def)
    then have "sint b = - 1" using q int_sdiv_negated_is_minus1 [of "sint a" "sint b"]
      by (simp add: LLONG_MIN_def)
    then show False using no a by simp
  qed
  then have "LLONG_MIN \<le> sint a sdiv sint b" "sint a sdiv sint b \<le> LLONG_MAX"
    using d sint_range [of a] by (auto simp: LLONG_MIN_def LLONG_MAX_def abs_if split: if_splits)
  moreover have "LLONG_MIN \<le> sint a smod sint b" "sint a smod sint b \<le> LLONG_MAX"
    using smod_int_range [OF b0, of "sint a"] sint_range [of b]
    by (auto simp: LLONG_MIN_def LLONG_MAX_def abs_if split: if_splits)
  ultimately show thesis
    using that b no by (simp add: div64_def rem64_def i64_of_def sint_word)
qed

lemma c_division_overflow:
  assumes "sint a = LLONG_MIN \<and> sint b = - 1"
  shows "div64 a b = None" "rem64 a b = None"
  using assms by (auto simp: div64_def rem64_def i64_of_def LLONG_MIN_def LLONG_MAX_def)

lemma i64_of_sint: "i64_of (sint a) = Some a"
  using sint_range [of a] by (simp add: i64_of_def)

lemma i64_of_0 [simp]: "i64_of 0 = Some 0"
  by (simp add: i64_of_def LLONG_MIN_def LLONG_MAX_def)

lemma division_floor:
  assumes b: "b \<noteq> 0" and no: "\<not> (sint a = LLONG_MIN \<and> sint b = - 1)"
  shows "int_div a b = i64_of (sint a div sint b)"
    and "int_div_method a b = i64_of (sint a div sint b)"
    and "int_mod a b = i64_of (sint a mod sint b)"
    and "int_modulo a b = i64_of (sint a mod sint b)"
    and "int_divmod a b =
      do { q \<leftarrow> i64_of (sint a div sint b); r \<leftarrow> i64_of (sint a mod sint b); Some (q, r) }"
    and "int_ceildiv a b = i64_of (- (- sint a div sint b))"
proof -
  obtain q r where c: "div64 a b = Some q" "rem64 a b = Some r"
    and s: "sint q = sint a sdiv sint b" "sint r = sint a smod sint b"
    using c_division [OF b no] .
  have b0: "sint b \<noteq> 0" using b by simp
  have r0: "r = 0 \<longleftrightarrow> sint a smod sint b = 0" using s(2) sint_eq_0 [of r] by simp
  have eq: "sint q * sint b = sint a - sint r"
    using sdiv_mult_smod_eq [of "sint a" "sint b"] s by simp
  have sign: "sint r < 0 \<longleftrightarrow> sint a < 0 \<and> r \<noteq> 0" using smod_sign [OF b0, of "sint a"] s(2) r0 by simp
  have ne: "r \<noteq> b" using smod_int_range [OF b0, of "sint a"] s(2) by auto
  have range: "LLONG_MIN \<le> sint a - sint r" "sint a - sint r \<le> LLONG_MAX"
    using smod_smaller [of "sint a" "sint b"] sint_range [of a] sign s(2)
    by (auto simp: LLONG_MIN_def LLONG_MAX_def abs_if split: if_splits)
  note floor = floor_from_c [OF b0, of "sint a", folded s]
  note ceil = ceiling_from_c [OF b0, of "sint a", folded s]
  have r0': "sint r \<noteq> 0 \<longleftrightarrow> r \<noteq> 0" by simp
  show "int_div a b = i64_of (sint a div sint b)"
    by (simp add: int_div_def c floor(1) sub64_def i64_of_sint sint_xor_neg)
  show "int_mod a b = i64_of (sint a mod sint b)"
    by (simp add: int_mod_def c floor(2) add64_def i64_of_sint)
  show "int_modulo a b = i64_of (sint a mod sint b)"
    by (simp add: int_modulo_def c floor(2) add64_def i64_of_sint sint_xor_neg)
  show "int_divmod a b =
      do { q \<leftarrow> i64_of (sint a div sint b); r \<leftarrow> i64_of (sint a mod sint b); Some (q, r) }"
    by (simp add: int_divmod_def c floor sub64_def add64_def i64_of_sint sint_xor_neg)
  show "int_ceildiv a b = i64_of (- (- sint a div sint b))"
    using ne by (simp add: int_ceildiv_def c ceil add64_def i64_of_sint sint_xor_pos)
  have "mul64 q b = Some (word_of_int (sint a - sint r))"
    using range by (simp add: mul64_def eq i64_of_def)
  moreover have "word_of_int (sint a - sint r) \<noteq> a \<longleftrightarrow> r \<noteq> 0"
    using sint_word [OF range] by (cases "r = 0") auto
  ultimately show "int_div_method a b = i64_of (sint a div sint b)"
    using sign by (auto simp add: int_div_method_def c floor(1) sub64_def i64_of_sint sint_xor_neg)
qed

subsection \<open>Greatest common divisors and powers\<close>

lemma gcd_loop_eq: "gcd_loop a b = gcd a b"
  by (induction a b rule: gcd_loop.induct) (subst gcd_loop.simps, simp add: gcd_red_nat [symmetric])

lemma abs64_eq: "abs64 a = i64_of \<bar>sint a\<bar>"
  by (simp add: abs64_def neg64_def i64_of_sint)

lemma sint_of_nat: "int n \<le> LLONG_MAX \<Longrightarrow> sint (word_of_nat n :: i64) = int n"
  using sint_word [of "int n"] by (simp add: LLONG_MIN_def)

lemma smod_pos: "0 \<le> a \<Longrightarrow> a smod b = a mod \<bar>b\<bar>" for a b :: int
  by (simp add: smod_int_alt_def sgn_if)

lemma product_fits:
  assumes "0 \<le> x" "x < m" "0 \<le> y" "y < m" "m \<le> 2 ^ 31"
  shows "LLONG_MIN \<le> x * y" "x * y \<le> LLONG_MAX"
proof -
  have "x * y \<le> 2 ^ 31 * 2 ^ 31" using assms by (intro mult_mono) auto
  then show "LLONG_MIN \<le> x * y" "x * y \<le> LLONG_MAX"
    using mult_nonneg_nonneg [OF assms(1,3)] by (simp_all add: LLONG_MIN_def LLONG_MAX_def)
qed

lemma rem64_pos:
  assumes "0 \<le> sint a" "0 < sint m"
  shows "\<exists>r. rem64 a m = Some r \<and> sint r = sint a mod sint m"
proof -
  have m: "m \<noteq> 0" using assms by auto
  have "\<not> (sint a = LLONG_MIN \<and> sint m = - 1)" using assms by simp
  then obtain r where "rem64 a m = Some r" "sint r = sint a smod sint m"
    using c_division [OF m] by metis
  then show ?thesis using assms by (simp add: smod_pos)
qed

lemma mulmod:
  assumes "0 \<le> sint x" "sint x < sint m" "0 \<le> sint y" "sint y < sint m" "sint m \<le> 2 ^ 31"
  shows "\<exists>r. Option.bind (mul64 x y) (\<lambda>p. rem64 p m) = Some r \<and> sint r = sint x * sint y mod sint m"
proof -
  obtain p where p: "mul64 x y = Some p" and sp: "sint p = sint x * sint y"
    using product_fits [OF assms] sint_i64_of by (metis i64_of_def mul64_def)
  have "0 \<le> sint p" using sp assms(1,3) by simp
  then show ?thesis using rem64_pos [of p m] assms(1,2) p sp by auto
qed

lemma pow_mod_loop_eq:
  assumes "1 < sint m" "sint m \<le> 2 ^ 31" "0 \<le> sint base" "sint base < sint m" "0 \<le> sint result"
    "sint result < sint m"
  shows "\<exists>r. pow_mod_loop m e base result = Some r \<and> sint r = sint result * sint base ^ e mod sint m"
  using assms
proof (induction m e base result rule: pow_mod_loop.induct)
  case (1 m e base result)
  show ?case
  proof (cases "e = 0")
    case True
    then show ?thesis using 1 by (simp add: pow_mod_loop.simps)
  next
    case False
    obtain result' where r': "(if odd e then Option.bind (mul64 result base) (\<lambda>p. rem64 p m) else Some result) = Some result'"
      and sr: "sint result' = (if odd e then sint result * sint base mod sint m else sint result)"
      using mulmod [of result m base] 1 by (cases "odd e") auto
    obtain base' where b': "Option.bind (mul64 base base) (\<lambda>p. rem64 p m) = Some base'"
      and sb: "sint base' = sint base * sint base mod sint m"
      using mulmod [of base m base] 1 by auto
    obtain square where sq: "mul64 base base = Some square" "rem64 square m = Some base'"
      using b' by (cases "mul64 base base") auto
    have step: "pow_mod_loop m e base result = pow_mod_loop m (e div 2) base' result'"
      by (subst pow_mod_loop.simps) (use False r' sq in simp)
    have ranges: "0 \<le> sint base'" "sint base' < sint m" "0 \<le> sint result'" "sint result' < sint m"
      using sb sr 1 by auto
    have "\<exists>r. pow_mod_loop m (e div 2) base' result' = Some r \<and>
        sint r = sint result' * sint base' ^ (e div 2) mod sint m"
      using 1(1) [OF False r' sq] 1(2,3) ranges by blast
    moreover have "sint result' * sint base' ^ (e div 2) mod sint m = sint result * sint base ^ e mod sint m"
    proof -
      let ?B = "sint base * sint base"
      have power: "sint base ^ e = (if odd e then sint base else 1) * ?B ^ (e div 2)"
        by (cases "odd e") (auto elim!: oddE evenE simp: power_mult power2_eq_square)
      have "sint result' * sint base' ^ (e div 2) mod sint m = sint result' * ?B ^ (e div 2) mod sint m"
        unfolding sb by (metis mod_mult_right_eq power_mod)
      also have "\<dots> = sint result * sint base ^ e mod sint m"
        unfolding sr power by (simp add: mod_mult_left_eq mult.assoc)
      finally show ?thesis .
    qed
    ultimately show ?thesis using step by simp
  qed
qed

subsection \<open>Texts\<close>

lemma digits_value: "2 \<le> b \<Longrightarrow> foldr (\<lambda>d acc. d + b * acc) (digits_of b n) 0 = n"
  by (induction b n rule: digits_of.induct) (subst digits_of.simps, auto)

lemma digits_bound: "2 \<le> b \<Longrightarrow> d \<in> set (digits_of b n) \<Longrightarrow> d < b"
proof (induction b n rule: digits_of.induct)
  case (1 b n)
  then show ?case by (subst (asm) (2) digits_of.simps) (auto split: if_splits)
qed

text \<open>Reading a text of digits.\<close>

definition digit_value :: "char \<Rightarrow> nat" where
  "digit_value c = index_of c ''0123456789abcdefghijklmnopqrstuvwxyz''"

definition read_base :: "nat \<Rightarrow> string \<Rightarrow> int" where
  "read_base b s =
     (let value = (\<lambda>t. int (foldl (\<lambda>acc c. b * acc + digit_value c) 0 t))
      in case s of c # t \<Rightarrow> if c = CHR ''-'' then - value t else value s | [] \<Rightarrow> 0)"

lemma digit_value_base_digit: "d < 36 \<Longrightarrow> digit_value (base_digit d) = d \<and> base_digit d \<noteq> CHR ''-''"
proof -
  have "\<forall>d \<in> set [0..<36]. digit_value (base_digit d) = d \<and> base_digit d \<noteq> CHR ''-''"
    by code_simp
  then show "d < 36 \<Longrightarrow> digit_value (base_digit d) = d \<and> base_digit d \<noteq> CHR ''-''" by simp
qed

lemma read_digits:
  assumes "2 \<le> b" "b \<le> 36"
  shows "foldl (\<lambda>acc c. b * acc + digit_value c) 0 (map base_digit (rev (digits_of b n))) = n"
proof -
  have "foldr (\<lambda>d acc. b * acc + digit_value (base_digit d)) ds a = foldr (\<lambda>d acc. d + b * acc) ds a"
    if "\<forall>d \<in> set ds. d < b" for ds a
    using that assms by (induction ds) (auto simp: digit_value_base_digit)
  then show ?thesis
    using digits_value [OF assms(1), of n] digits_bound [OF assms(1)]
    by (simp add: foldl_conv_foldr rev_map foldr_map comp_def)
qed

lemma read_base_int_to_s:
  assumes "2 \<le> b" "b \<le> 36"
  shows "read_base b (int_to_s_base n b) = sint n"
proof (cases "n = 0")
  case True
  then show ?thesis by (simp add: int_to_s_base_def read_base_def digit_value_def)
next
  case False
  let ?ds = "digits_of b (nat \<bar>sint n\<bar>)"
  have "?ds \<noteq> []" using False assms by (subst digits_of.simps) simp
  then obtain d ds where ds: "rev ?ds = d # ds" by (cases "rev ?ds") auto
  have "d < 36" using digits_bound [OF assms(1), of d] ds assms(2)
    by (metis le_less_trans less_le_trans list.set_intros(1) set_rev)
  then show ?thesis
    using read_digits [OF assms, of "nat \<bar>sint n\<bar>"] False ds digit_value_base_digit [of d]
    by (simp add: int_to_s_base_def read_base_def)
qed

lemma unat_ucast_32 [simp]: "unat (ucast m :: i64) = unat m" for m :: u32
  using unsigned_less [where ?'a = nat, of m] by (simp add: unsigned_ucast_eq take_bit_nat_eq_self)

lemma sint_ucast_32: "sint (ucast m :: i64) = uint m" for m :: u32
  using sint_word [of "uint m"] unsigned_less [where ?'a = int, of m]
  by (simp add: LLONG_MIN_def LLONG_MAX_def order_trans [of _ 0])

lemma drop_bit_ucast: "drop_bit k (ucast m :: i64) = ucast (drop_bit k m)" for m :: u32
  by (simp add: word_eq_iff_unsigned [where ?'a = nat] unat_drop_bit_eq)

lemma chr_byte_ucast: "chr_byte (ucast w) = to_char w" for w :: u32
  by (simp add: chr_byte_def to_char_def)

lemma chr_parts:
  fixes m :: u32
  shows "(0xC0 OR drop_bit 6 (ucast m) :: i64) = ucast (0xC0 OR drop_bit 6 m)"
    "(0xE0 OR drop_bit 12 (ucast m) :: i64) = ucast (0xE0 OR drop_bit 12 m)"
    "(0xF0 OR drop_bit 18 (ucast m) :: i64) = ucast (0xF0 OR drop_bit 18 m)"
    "(0x80 OR (drop_bit 6 (ucast m) AND 0x3F) :: i64) = ucast (0x80 OR (drop_bit 6 m AND 0x3F))"
    "(0x80 OR (drop_bit 12 (ucast m) AND 0x3F) :: i64) = ucast (0x80 OR (drop_bit 12 m AND 0x3F))"
    "(0x80 OR (ucast m AND 0x3F) :: i64) = ucast (0x80 OR (m AND 0x3F))"
  by (simp_all add: unsigned_or_eq unsigned_and_eq drop_bit_ucast)

lemma chr_bytes_ucast:
  fixes m :: u32
  assumes "m \<le> 0x10FFFF"
  shows "chr_bytes (ucast m) = utf8_encode_one m"
  unfolding chr_bytes_def utf8_encode_one_def sint_ucast_32 chr_parts chr_byte_ucast
  by (simp add: word_le_def)

end
