(* ===== verification/IntegerThms.thy ===== *)
theory IntegerThms
  imports EvalArith
begin

section \<open>Properties of the methods of integers\<close>

subsection \<open>Division\<close>

lemma v_data_val_int [simp]: "v_data (val_int i) = VAL_INT i"
  by (simp add: val_int_def mk_val_def)

text \<open>C7: the operators \<open>/\<close> and \<open>%\<close> and the methods \<open>div\<close>, \<open>modulo\<close>, \<open>divmod\<close> and \<open>ceildiv\<close>, each
  written with C's division towards zero and a correction of its own, agree with the division that
  rounds down (\<open>ceildiv\<close>: up); where the quotient is not an \<open>int64_t\<close> the result is undefined.\<close>

theorem integer_division_floor:
  fixes a b :: i64
  assumes "b \<noteq> 0" and "\<not> (sint a = LLONG_MIN \<and> sint b = - 1)"
  shows "int_div a b = i64_of (sint a div sint b) \<and> int_div_method a b = i64_of (sint a div sint b) \<and>
    int_mod a b = i64_of (sint a mod sint b) \<and> int_modulo a b = i64_of (sint a mod sint b) \<and>
    int_divmod a b =
      do { q \<leftarrow> i64_of (sint a div sint b); r \<leftarrow> i64_of (sint a mod sint b); Some (q, r) } \<and>
    int_ceildiv a b = i64_of (- (- sint a div sint b))"
  using division_floor [OF assms] by blast

theorem integer_division_floor_witness:
  "int_div (- 7) 2 = Some (- 4) \<and> int_mod (- 7) 2 = Some 1 \<and> int_ceildiv (- 7) 2 = Some (- 3)"
  using integer_division_floor [of 2 "- 7"] by (simp add: i64_of_def LLONG_MIN_def LLONG_MAX_def)

lemma taken_then:
  "Option.bind (taken m) (\<lambda>(r, ev). case r of None \<Rightarrow> f ev | Some v \<Rightarrow> Some (Some v, ev)) = taken m"
  by (cases m) (auto simp: taken_def)

text \<open>A call of \<open>%\<close> as a method, and the operator.\<close>

lemma percent_method:
  assumes "v_data (c_recv c) = VAL_INT a" "c_name c = ''%''" "c_args c = [val_int b]" "b \<noteq> 0"
  shows "dispatch_integer K c ev = taken (ev_int ev (rem64 a b))"
proof -
  have "coerced_operator K (val_int b) c ev = Some (None, ev)"
    using assms by (simp add: coerced_operator_def arith_op_def streq_def cstr_def)
  then show ?thesis
    using assms by (simp add: dispatch_integer_def or_handler_def by_table_def int_conversions_def
        find_method_def named_def streq_def cstr_def int_operator_def int_operators_def give_int_def
        taken_then)
qed

lemma percent_operator:
  "b \<noteq> 0 \<Longrightarrow> int_binop K env site ''%'' a b ev = Some (ev_int ev (int_mod a b))"
  by (simp add: int_binop_def streq_def cstr_def)

text \<open>C8: \<open>a % b\<close> as an operator rounds down, and as a method call (\<open>a.send(:%, b)\<close>) it has the sign
  of \<open>a\<close>: the two differ exactly when the division is not exact and the signs are different.\<close>

theorem percent_differs:
  fixes a b :: i64
  assumes "b \<noteq> 0" "\<not> (sint a = LLONG_MIN \<and> sint b = - 1)"
    and c: "v_data (c_recv c) = VAL_INT a" "c_name c = ''%''" "c_args c = [val_int b]"
  shows "\<exists>r m. dispatch_integer K c ev = Some (Some (val_int r), ev) \<and>
    int_binop K env site ''%'' a b ev = Some (Some (val_int m, ev)) \<and>
    (r \<noteq> m \<longleftrightarrow> sint a mod sint b \<noteq> 0 \<and> (sint a < 0) \<noteq> (sint b < 0))"
proof -
  obtain q r where d: "div64 a b = Some q" "rem64 a b = Some r" "sint r = sint a smod sint b"
    using c_division [OF assms(1,2)] by metis
  have b0: "sint b \<noteq> 0" using assms(1) by simp
  have m: "int_mod a b = i64_of (sint a mod sint b)" using division_floor [OF assms(1,2)] by blast
  have sign: "sint r < 0 \<longleftrightarrow> sint a < 0 \<and> r \<noteq> 0"
    using smod_sign [OF b0, of "sint a"] d(3) by (metis sint_eq_0)
  have small: "\<bar>sint r\<bar> < \<bar>sint b\<bar>" using smod_int_range [OF b0, of "sint a"] d(3) by auto
  have "LLONG_MIN \<le> sint a mod sint b \<and> sint a mod sint b \<le> LLONG_MAX"
    using sint_range [of b] b0 by (smt (verit) LLONG_MIN_def LLONG_MAX_def neg_mod_bound neg_mod_sign
        pos_mod_bound pos_mod_sign)
  then obtain m where m: "i64_of (sint a mod sint b) = Some m" and sm: "sint m = sint a mod sint b"
    using sint_i64_of by (metis i64_of_def)
  have mod: "sint m = (if r \<noteq> 0 \<and> (sint r < 0) \<noteq> (sint b < 0) then sint r + sint b else sint r)"
    unfolding sm using floor_from_c(2) [OF b0, of "sint a", folded d(3)] by simp
  have "r \<noteq> m \<longleftrightarrow> sint r \<noteq> sint m" using signed_word_eqI by metis
  also have "\<dots> \<longleftrightarrow> sint m \<noteq> 0 \<and> (sint a < 0) \<noteq> (sint b < 0)"
    using mod sign small b0 by (auto split: if_splits)
  finally have "r \<noteq> m \<longleftrightarrow> sint a mod sint b \<noteq> 0 \<and> (sint a < 0) \<noteq> (sint b < 0)"
    unfolding sm .
  moreover have "dispatch_integer K c ev = Some (Some (val_int r), ev)"
    using percent_method [OF c assms(1)] d(2) by (simp add: ev_int_def taken_def)
  moreover have "int_binop K env site ''%'' a b ev = Some (Some (val_int m, ev))"
    using percent_operator [OF assms(1)] division_floor(3) [OF assms(1,2)] m by (simp add: ev_int_def)
  ultimately show ?thesis by (intro exI [of _ r] exI [of _ m] conjI)
qed

theorem percent_differs_witness:
  "\<forall>K ev env site. \<exists>r m. dispatch_integer K \<lparr>c_env = 0, c_recv = val_int (- 7), c_name = ''%'',
       c_args = [val_int 3], c_blk = None, c_site = None, c_public = False, c_explicit = 1\<rparr> ev =
         Some (Some (val_int r), ev) \<and>
     int_binop K env site ''%'' (- 7) 3 ev = Some (Some (val_int m, ev)) \<and> r \<noteq> m"
proof (intro allI)
  fix K ev env site
  let ?c = "\<lparr>c_env = 0, c_recv = val_int (- 7), c_name = ''%'', c_args = [val_int 3], c_blk = None,
    c_site = None, c_public = False, c_explicit = 1\<rparr>"
  have "(sint (- 7 :: i64) mod sint (3 :: i64) \<noteq> 0 \<and> (sint (- 7 :: i64) < 0) \<noteq> (sint (3 :: i64) < 0))"
    by simp
  then show "\<exists>r m. dispatch_integer K ?c ev = Some (Some (val_int r), ev) \<and>
      int_binop K env site ''%'' (- 7) 3 ev = Some (Some (val_int m, ev)) \<and> r \<noteq> m"
    using percent_differs [of 3 "- 7" ?c K ev env site] by (simp add: LLONG_MIN_def)
qed

subsection \<open>Greatest common divisors and powers\<close>

lemma sdiv_pos: "0 \<le> a \<Longrightarrow> 0 < b \<Longrightarrow> a sdiv b = a div b" for a b :: int
  by (simp add: signed_divide_int_def sgn_if)

text \<open>C9: \<open>gcd\<close> and \<open>lcm\<close> are those of arithmetic; \<open>lcm\<close> has no defined result when it is not
  representable.\<close>

theorem integer_gcd_lcm:
  fixes a b :: i64
  assumes "sint a \<noteq> LLONG_MIN" "sint b \<noteq> LLONG_MIN"
  shows "int_gcd a b = i64_of (gcd (sint a) (sint b)) \<and> int_lcm a b = i64_of (lcm (sint a) (sint b))"
proof -
  let ?a = "\<bar>sint a\<bar>" and ?b = "\<bar>sint b\<bar>" and ?g = "gcd (sint a) (sint b)"
  have fits: "?a \<le> LLONG_MAX" "?b \<le> LLONG_MAX"
    using sint_range [of a] sint_range [of b] assms by (auto simp: LLONG_MIN_def LLONG_MAX_def)
  have g: "0 \<le> ?g" "?g \<le> LLONG_MAX"
    using gcd_le1_int [of ?a ?b] gcd_le2_int [of ?a ?b] fits
    by (cases "a = 0"; cases "b = 0"; force simp: LLONG_MAX_def)+
  have repr: "\<exists>w. i64_of i = Some w \<and> sint w = i" if "0 \<le> i" "i \<le> LLONG_MAX" for i
    using that sint_word [of i] by (simp add: i64_of_def LLONG_MIN_def)
  obtain x y w where x: "i64_of ?a = Some x" "sint x = ?a" and y: "i64_of ?b = Some y" "sint y = ?b"
    and w: "i64_of ?g = Some w" "sint w = ?g"
    using repr fits g by (metis abs_ge_zero)
  have "word_of_nat (gcd_loop (nat ?a) (nat ?b)) = w"
  proof -
    have "int (gcd (nat ?a) (nat ?b)) = ?g" by (rule gcd_int_def [symmetric])
    then have "int (gcd_loop (nat ?a) (nat ?b)) = ?g" by (simp only: gcd_loop_eq)
    then show ?thesis using w(1) by (metis i64_of_Some of_int_of_nat_eq)
  qed
  then have gcd: "int_gcd a b = Some w"
    by (simp add: int_gcd_def abs64_eq x y)
  have "int_lcm a b = i64_of (lcm (sint a) (sint b))"
  proof (cases "w = 0")
    case True
    then have "?g = 0" using w(2) by simp
    then have "sint a = 0" by simp
    then have "lcm (sint a) (sint b) = 0" by simp
    then have "i64_of (lcm (sint a) (sint b)) = Some 0" by (simp only: i64_of_0)
    then show ?thesis using True gcd by (simp add: int_lcm_def)
  next
    case False
    have pos: "0 < ?g" using False w(2) by (metis gcd_ge_0_int order_le_less sint_eq_0)
    have "?a div ?g \<le> ?a div 1" using pos by (intro zdiv_mono2) linarith+
    then have "?a div ?g \<le> LLONG_MAX" by (rule order_trans) (simp only: div_by_1 fits(1))
    moreover have "0 \<le> ?a div ?g" by (simp only: pos_imp_zdiv_nonneg_iff [OF pos] abs_ge_zero)
    ultimately obtain q where q0: "i64_of (?a div ?g) = Some q" "sint q = ?a div ?g"
      using repr by blast
    then have q: "div64 x w = Some q" "sint q = ?a div ?g"
      using False sdiv_pos [OF abs_ge_zero pos, of "sint a"] by (simp_all add: div64_def x w)
    have "?a div ?g * ?b = ?a * ?b div ?g" by (rule dvd_div_mult) simp
    then have "?a div ?g * ?b = lcm (sint a) (sint b)"
      by (simp only: lcm_altdef_int abs_mult)
    then show ?thesis using False by (simp add: int_lcm_def gcd abs64_eq x y q mul64_def)
  qed
  then show ?thesis using gcd w by simp
qed

theorem integer_gcd_lcm_witness: "int_gcd (- 12) 18 = Some 6 \<and> int_lcm (- 12) 18 = Some 36"
proof -
  have "gcd (12 :: int) 18 = 6" "lcm (12 :: int) 18 = 36" by code_simp+
  then show ?thesis
    using integer_gcd_lcm [of "- 12" 18] by (simp add: i64_of_def LLONG_MIN_def LLONG_MAX_def)
qed

text \<open>C10: \<open>pow\<close> with a modulus from 2 to \<open>2 ^ 31\<close> returns the power modulo it: no product of the
  squaring overflows.\<close>

theorem integer_pow_mod:
  fixes n e m :: i64
  assumes "1 < sint m" "sint m \<le> 2 ^ 31"
  shows "int_pow_mod n e m = Some (word_of_int (sint n ^ nat (sint e) mod sint m))"
proof -
  have m: "m \<noteq> 0" "sint m \<noteq> - 1" using assms by auto
  obtain r where r: "rem64 n m = Some r" "sint r = sint n smod sint m"
    using c_division [OF m(1), of n] m(2) by metis
  have "- sint m < sint r" "sint r < sint m" using smod_int_range [of "sint m" "sint n"] r(2) m(1) assms
    by (auto simp: abs_of_pos)
  then have "LLONG_MIN \<le> sint r + sint m" "sint r + sint m \<le> LLONG_MAX" "0 \<le> sint r + sint m"
    using assms by (auto simp: LLONG_MIN_def LLONG_MAX_def)
  then obtain s where s: "add64 r m = Some s" "sint s = sint r + sint m" "0 \<le> sint s"
    by (metis add64_def i64_of_def sint_i64_of)
  obtain base where base: "rem64 s m = Some base" "sint base = sint s mod sint m"
    using rem64_pos [of s m] s(3) assms by auto
  have "sint base = sint n mod sint m"
    using base(2) s(2) r(2) sdiv_mult_smod_eq [of "sint n" "sint m"]
    by (metis mod_add_self2 mod_mult_self3)
  moreover obtain w where "pow_mod_loop m (nat (sint e)) base 1 = Some w"
    "sint w = sint (1 :: i64) * sint base ^ nat (sint e) mod sint m"
    using pow_mod_loop_eq [of m base 1 "nat (sint e)"] assms base(2) by auto
  ultimately have "int_pow_mod n e m = Some w" "sint w = sint n ^ nat (sint e) mod sint m"
    by (simp_all add: int_pow_mod_def r s base power_mod)
  then show ?thesis using i64_of_sint [of w] by (simp add: i64_of_Some)
qed

theorem integer_pow_mod_witness: "int_pow_mod (- 3) 5 7 = Some 2"
  using integer_pow_mod [of 7 "- 3" 5] by simp

subsection \<open>Texts\<close>

text \<open>C11: the text of an integer in any base from 2 to 36 reads back as the integer, \<open>INT64_MIN\<close>
  included.\<close>

theorem integer_text_roundtrip:
  "2 \<le> b \<Longrightarrow> b \<le> 36 \<Longrightarrow> read_base b (int_to_s_base n b) = sint n"
  by (rule read_base_int_to_s)

theorem integer_text_roundtrip_witness: "read_base 16 (int_to_s_base (- 255) 16) = - 255"
  using integer_text_roundtrip [of 16 "- 255"] by simp

text \<open>C12: \<open>chr\<close> writes the bytes that the encoder of \<open>utf8.c\<close> writes, for every number up to the
  last code point.\<close>

theorem integer_chr_utf8: "m \<le> 0x10FFFF \<Longrightarrow> chr_bytes (ucast m) = utf8_encode_one m"
  by (rule chr_bytes_ucast)

theorem integer_chr_utf8_witness: "chr_bytes (ucast (0x20AC :: 32 word)) = utf8_encode_one 0x20AC"
  by (rule integer_chr_utf8) simp

end
