(* ===== verification/EvalKeep.thy ===== *)
theory EvalKeep
  imports EvalNode "HOL-Library.Sublist"
begin

section \<open>What an evaluation keeps\<close>

text \<open>
  A run leaves the pointers that were valid valid: the stores only grow, texts, copied values, ranges
  and nodes stay what they are, a frame keeps its parent. It gives back the depth of the calls and the
  exception being rescued; the stacks of the backtrace and of the active methods lose entries at most.
\<close>

subsection \<open>The relation\<close>

definition heap_ext :: "heap \<Rightarrow> heap \<Rightarrow> bool" where
  "heap_ext h h' \<longleftrightarrow>
     prefix (h_strs h) (h_strs h') \<and> prefix (h_vals h) (h_vals h') \<and> prefix (h_ranges h) (h_ranges h') \<and>
     length (h_arrays h) \<le> length (h_arrays h') \<and> length (h_hashes h) \<le> length (h_hashes h') \<and>
     length (h_classes h) \<le> length (h_classes h') \<and> length (h_objects h) \<le> length (h_objects h')"

definition env_fixed :: "env \<Rightarrow> ptr option \<times> bool" where
  "env_fixed e = (e_parent e, e_is_def e)"

definition envs_ext :: "envs \<Rightarrow> envs \<Rightarrow> bool" where
  "envs_ext es es' \<longleftrightarrow> prefix (map env_fixed es) (map env_fixed es')"

definition keeps :: "eval \<Rightarrow> eval \<Rightarrow> bool" where
  "keeps s ev \<longleftrightarrow>
     heap_ext (ev_heap s) (ev_heap ev) \<and> envs_ext (ev_envs s) (ev_envs ev) \<and>
     prefix (ev_nodes s) (ev_nodes ev) \<and> ev_top_env ev = ev_top_env s \<and>
     ev_call_depth ev = ev_call_depth s \<and> ev_rescue_context ev = ev_rescue_context s \<and>
     prefix (ev_frames ev) (ev_frames s) \<and> prefix (ev_active_defs ev) (ev_active_defs s)"

lemma heap_ext_refl [simp]: "heap_ext h h"
  by (simp add: heap_ext_def)

lemma heap_ext_trans: "heap_ext a b \<Longrightarrow> heap_ext b c \<Longrightarrow> heap_ext a c"
  by (auto simp: heap_ext_def)

lemma envs_ext_refl [simp]: "envs_ext es es"
  by (simp add: envs_ext_def)

lemma envs_ext_trans: "envs_ext a b \<Longrightarrow> envs_ext b c \<Longrightarrow> envs_ext a c"
  by (auto simp: envs_ext_def)

lemma keeps_refl [simp]: "keeps s s"
  by (simp add: keeps_def)

lemma keeps_trans: "keeps a b \<Longrightarrow> keeps b c \<Longrightarrow> keeps a c"
  by (auto simp: keeps_def intro: heap_ext_trans envs_ext_trans)

subsection \<open>The primitives\<close>

named_theorems keeping \<open>operations on the state that keep it\<close>

lemma heap_updates [keeping]:
  "heap_ext h (h\<lparr>h_arrays := (h_arrays h)[p := a]\<rparr>)"
  "heap_ext h (h\<lparr>h_hashes := (h_hashes h)[p := b]\<rparr>)"
  "heap_ext h (h\<lparr>h_objects := (h_objects h)[p := c]\<rparr>)"
  "heap_ext h (h\<lparr>h_classes := (h_classes h)[p := d]\<rparr>)"
  "heap_ext h (h\<lparr>h_strs := h_strs h @ xs\<rparr>)" "heap_ext h (h\<lparr>h_vals := h_vals h @ vs\<rparr>)"
  "heap_ext h (h\<lparr>h_ranges := h_ranges h @ rs\<rparr>)" "heap_ext h (h\<lparr>h_arrays := h_arrays h @ as\<rparr>)"
  "heap_ext h (h\<lparr>h_hashes := h_hashes h @ hs\<rparr>)" "heap_ext h (h\<lparr>h_classes := h_classes h @ cs\<rparr>)"
  "heap_ext h (h\<lparr>h_objects := h_objects h @ os\<rparr>)"
  by (simp_all add: heap_ext_def)

lemma heap_constructors [keeping]:
  "heap_ext h (snd (alloc_str x h))" "heap_ext h (snd (val_string_n x h))"
  "heap_ext h (snd (val_string y h))" "heap_ext h (snd (val_array_new h))"
  "heap_ext h (snd (val_hash_new h))" "heap_ext h (snd (val_object k h))"
  "heap_ext h (snd (val_class n k h))" "heap_ext h (snd (val_range b e i h))"
  "heap_ext h (snd (alloc_val v h))" "heap_ext h (snd (val_return v t h))"
  "heap_ext h (snd (val_break v h))" "heap_ext h (snd (val_next v h))"
  by (auto simp: heap_ext_def alloc_str_def val_string_n_def val_string_def val_array_new_def
      val_hash_new_def val_hash_new_with_defaults_def val_object_def val_class_def val_range_def
      alloc_val_def val_return_def val_break_def val_next_def split: option.split)

lemma heap_writes [keeping]:
  "heap_ext h (val_array_push arr x h)" "heap_ext h (val_object_set_ivar obj name v h)"
  "heap_ext h (update_class f k h)" "heap_ext h (set_hash p r h)"
  by (auto simp: val_array_push_def val_object_set_ivar_def update_class_def set_hash_def keeping
      split: vdata.split option.split)

lemma set_vars_ext: "envs_ext es (set_vars p vs es)"
proof -
  have "map env_fixed (set_vars p vs es) = map env_fixed es"
    by (cases "p < length es", rule nth_equalityI)
      (auto simp: set_vars_def env_fixed_def nth_list_update list_update_beyond)
  then show ?thesis by (simp add: envs_ext_def)
qed

lemma env_define_ext: "envs_ext es (env_define p name v es)"
  by (simp add: env_define_def set_vars_ext)

lemma env_update_ext: "env_update sc name v es = Some r \<Longrightarrow> envs_ext es (snd r)"
  by (erule env_update.raw_induct [where P = "\<lambda>sc name v es r. envs_ext es (snd r)", rotated])
    (auto split: option.splits if_splits simp: set_vars_ext)

lemma env_set_ext: "env_set p name v es = Some es' \<Longrightarrow> envs_ext es es'"
  by (auto simp: env_set_def split: option.splits bool.splits prod.splits
      intro: envs_ext_trans set_vars_ext dest!: env_update_ext)

lemma env_new_ext: "envs_ext es (snd (env_new p d es))"
  by (simp add: env_new_def envs_ext_def)

text \<open>The operations on the whole state; \<open>s\<close> is the state the run started in.\<close>

lemma keeps_heap: "keeps s ev \<Longrightarrow> heap_ext (ev_heap ev) h \<Longrightarrow> keeps s (ev\<lparr>ev_heap := h\<rparr>)"
  by (auto simp: keeps_def intro: heap_ext_trans)

lemma keeps_envs: "keeps s ev \<Longrightarrow> envs_ext (ev_envs ev) es \<Longrightarrow> keeps s (ev\<lparr>ev_envs := es\<rparr>)"
  by (auto simp: keeps_def intro: envs_ext_trans)

lemma keeps_fields [keeping]:
  "keeps s (ev\<lparr>ev_globals := a\<rparr>) = keeps s ev" "keeps s (ev\<lparr>ev_errored := b\<rparr>) = keeps s ev"
  "keeps s (ev\<lparr>ev_errmsg := c\<rparr>) = keeps s ev" "keeps s (ev\<lparr>ev_current_exception := d\<rparr>) = keeps s ev"
  "keeps s (ev\<lparr>ev_exception_line := e\<rparr>) = keeps s ev"
  "keeps s (ev\<lparr>ev_exception_col := e\<rparr>) = keeps s ev"
  "keeps s (ev\<lparr>ev_exception_class := f\<rparr>) = keeps s ev"
  "keeps s (ev\<lparr>ev_exception_msg := g\<rparr>) = keeps s ev"
  "keeps s (ev\<lparr>ev_current_file := h\<rparr>) = keeps s ev"
  by (simp_all add: keeps_def)

lemma keeps_set_heap [keeping]:
  "keeps s ev \<Longrightarrow> (\<And>h. heap_ext h (f h)) \<Longrightarrow> keeps s (set_heap f ev)"
  by (simp add: set_heap_def keeps_heap)

lemma keeps_on_heap [keeping]:
  "keeps s ev \<Longrightarrow> (\<And>h. heap_ext h (snd (f h))) \<Longrightarrow> keeps s (snd (on_heap f ev))"
  by (simp add: on_heap_def keeps_heap split_beta)

lemma keeps_vars [keeping]:
  "keeps s ev \<Longrightarrow> keeps s (define_var p name v ev)"
  "keeps s ev \<Longrightarrow> keeps s (snd (new_env par d ev))"
  "keeps s ev \<Longrightarrow> keeps s (set_global name v ev)"
  "keeps s ev \<Longrightarrow> keeps s (set_ivar obj name v ev)"
  by (simp_all add: define_var_def new_env_def set_global_def set_ivar_def keeps_envs env_define_ext
      env_new_ext split_beta keeping)

lemma keeps_set_var: "keeps s ev \<Longrightarrow> set_var p name v ev = Some ev' \<Longrightarrow> keeps s ev'"
  by (auto simp: set_var_def intro: keeps_envs env_set_ext)

lemma keeps_fold: "keeps s ev \<Longrightarrow> (\<And>x ev. keeps s ev \<Longrightarrow> keeps s (f x ev)) \<Longrightarrow> keeps s (fold f xs ev)"
  by (induction xs arbitrary: ev) auto

lemma keeps_values [keeping]:
  "keeps s ev \<Longrightarrow> keeps s (snd (new_string t ev))"
  "keeps s ev \<Longrightarrow> keeps s (snd (new_symbol t ev))"
  "keeps s ev \<Longrightarrow> keeps s (snd (new_array xs ev))"
  "keeps s ev \<Longrightarrow> keeps s (push_string arr t ev)"
  "keeps s ev \<Longrightarrow> keeps s (push_value arr v ev)"
  by (simp_all add: new_string_def new_symbol_def new_array_def push_string_def push_value_def
      split_beta keeping keeps_fold)

lemma keeps_node_ptr [keeping]: "keeps s ev \<Longrightarrow> keeps s (snd (node_ptr n ev))"
  by (auto simp: node_ptr_def keeps_def)

lemma keeps_exceptions [keeping]:
  "keeps s ev \<Longrightarrow> keeps s (snd (build_exception_object k m ev))"
  "keeps s ev \<Longrightarrow> keeps s (eval_clear_exception ev)"
  "keeps s ev \<Longrightarrow> keeps s (forget_error ev)"
  "keeps s ev \<Longrightarrow> keeps s (set_node_origin x n ev)"
  "keeps s ev \<Longrightarrow> keeps s (set_origin n ev)"
  "keeps s ev \<Longrightarrow> keeps s (format_exception_summary c m ev)"
  "keeps s ev \<Longrightarrow> keeps s (snd (eval_error n m ev))"
  by (auto simp: build_exception_object_def eval_clear_exception_def forget_error_def
      set_node_origin_def set_exception_origin_def set_origin_def format_exception_summary_def
      eval_error_def split_beta keeping keeps_fold Let_def split: option.split)

lemma keeps_case [keeping]:
  "keeps s a \<Longrightarrow> (\<And>x. keeps s (b x)) \<Longrightarrow> keeps s (case_option a b d)"
  "keeps s (snd p) \<Longrightarrow> (\<And>x. keeps s (snd (q x))) \<Longrightarrow> keeps s (snd (case_option p q d))"
  by (cases d; simp)+

lemma keeps_copies [keeping]:
  "keeps s ev \<Longrightarrow> keeps s (rename_anonymous name v ev)"
  "keeps s ev \<Longrightarrow> keeps s (bind_slice p nm arr i j ev)"
  "keeps s ev \<Longrightarrow> keeps s (copy_vars p q ev)"
  "keeps s ev \<Longrightarrow> keeps s (set_array arr f ev)"
  "keeps s ev \<Longrightarrow> keeps s (array_store arr k v ev)"
  "keeps s ev \<Longrightarrow> keeps s (set_native p q ev)"
  by (auto simp: rename_anonymous_def bind_slice_def copy_vars_def set_array_def array_store_def
      set_native_def split_beta keeping Let_def intro: keeps_fold split: vdata.split option.split)

lemma keeps_push [keeping]: "keeps s ev \<Longrightarrow> keeps s (fold (push_value arr) xs ev)"
  by (simp add: keeps_fold keeping)

lemma keeps_set_block_arg [keeping]: "keeps s ev \<Longrightarrow> keeps s (set_block_arg p b ev)"
proof -
  have "map env_fixed (es[p := (es ! p)\<lparr>e_block_arg := c\<rparr>]) = map env_fixed es" for es c
    by (cases "p < length es", rule nth_equalityI)
      (auto simp: env_fixed_def nth_list_update list_update_beyond)
  then show "keeps s ev \<Longrightarrow> keeps s (set_block_arg p b ev)"
    by (auto simp: set_block_arg_def envs_ext_def intro: keeps_envs split: option.split)
qed

lemma keeps_blocks [keeping]:
  "keeps s ev \<Longrightarrow> keeps s (snd (make_symbol_proc t ev))"
  "keeps s ev \<Longrightarrow> keeps s (snd (make_bound_method_proc v t i ev))"
  "keeps s ev \<Longrightarrow> keeps s (snd (block_cell v ev))"
  "keeps s ev \<Longrightarrow> keeps s (snd (literal_block p n ev))"
  by (simp_all add: make_symbol_proc_def make_bound_method_proc_def block_cell_def literal_block_def
      split_beta keeping Let_def)

lemma keeps_key_value [keeping]: "keeps s ev \<Longrightarrow> keeps s (snd (key_value k ev))"
  by (simp add: key_value_def keeping split: option.split ndata.split sval_kind.split)

lemma keeps_key_values [keeping]: "keeps s ev \<Longrightarrow> keeps s (snd (key_values ks acc ev))"
  by (induction ks arbitrary: acc ev) (simp_all add: split_beta keeping)

lemma keeps_visibility [keeping]: "keeps s ev \<Longrightarrow> keeps s (set_visibility_at p vis ev)"
  using keeps_envs [OF keeps_heap [of s ev "snd (alloc_str _ _)"]]
  by (simp add: set_visibility_at_def set_current_method_visibility_def split_beta Let_def keeping
      env_define_ext)

lemma keeps_definitions [keeping]:
  "keeps s ev \<Longrightarrow> keeps s (snd (method_value n vis ev))"
  "keeps s ev \<Longrightarrow> keeps s (define_method p key n vis ev)"
  "keeps s ev \<Longrightarrow> keeps s (alias_symbol p key t ev)"
  "keeps s ev \<Longrightarrow> keeps s (snd (alias_kernel p q t u ev))"
  "keeps s ev \<Longrightarrow> keeps s (snd (new_class b p t u v ev))"
  "keeps s ev \<Longrightarrow> keeps s (snd (open_module p t u ev))"
  by (simp_all add: method_value_def define_method_def alias_symbol_def alias_kernel_def new_class_def
      open_module_def split_beta Let_def keeping)

lemma keeps_results [keeping]:
  "keeps s ev \<Longrightarrow> keeps s (snd (concat_strings v w ev))"
  "keeps s ev \<Longrightarrow> keeps s (snd (sliced t i j ev))"
  "keeps s ev \<Longrightarrow> keeps s (snd (unknown_node n ev))"
  "keeps s ev \<Longrightarrow> keeps s (add_cause v ev)"
  by (simp_all add: concat_strings_def sliced_def unknown_node_def add_cause_def split_beta Let_def
      keeping)

subsection \<open>Runs that agree\<close>

text \<open>
  \<open>okg g s m m'\<close>: when \<open>m\<close> has a result then \<open>m'\<close> has the same, and the state in it, which \<open>g\<close> takes
  out, keeps what \<open>s\<close> had. A run has a pair, so \<open>g\<close> is \<open>snd\<close>; it is the identity where only a state
  is returned.
\<close>

definition okg :: "('r \<Rightarrow> eval) \<Rightarrow> eval \<Rightarrow> 'r option \<Rightarrow> 'r option \<Rightarrow> bool" where
  "okg g s m m' \<longleftrightarrow> (\<forall>r. m = Some r \<longrightarrow> m' = Some r \<and> keeps s (g r))"

abbreviation okr :: "eval \<Rightarrow> 'a run \<Rightarrow> 'a run \<Rightarrow> bool" where "okr \<equiv> okg snd"

abbreviation oks :: "eval \<Rightarrow> eval option \<Rightarrow> eval option \<Rightarrow> bool" where "oks \<equiv> okg (\<lambda>ev. ev)"

lemma okgD: "okg g s m m' \<Longrightarrow> m = Some r \<Longrightarrow> m' = Some r" "okg g s m m' \<Longrightarrow> m = Some r \<Longrightarrow> keeps s (g r)"
  by (simp_all add: okg_def)

lemma okg_from: "keeps s ev \<Longrightarrow> okg g ev m m' \<Longrightarrow> okg g s m m'"
  by (auto simp: okg_def intro: keeps_trans)

lemma okg_Some: "keeps s (g r) \<Longrightarrow> okg g s (Some r) (Some r)"
  by (simp add: okg_def)

lemma okg_None: "okg g s None m"
  by (simp add: okg_def)

lemma okg_bind_run:
  "okr s m m' \<Longrightarrow> (\<And>x ev. keeps s ev \<Longrightarrow> okg g s (f x ev) (f' x ev)) \<Longrightarrow>
   okg g s (m \<bind> case_prod f) (m' \<bind> case_prod f')"
  by (auto simp: okg_def split: bind_splits)

lemma okg_bind_state:
  "oks s m m' \<Longrightarrow> (\<And>ev. keeps s ev \<Longrightarrow> okg g s (f ev) (f' ev)) \<Longrightarrow> okg g s (m \<bind> f) (m' \<bind> f')"
  by (auto simp: okg_def split: bind_splits)

lemma okg_bind: "(\<And>x. m = Some x \<Longrightarrow> okg g s (f x) (f' x)) \<Longrightarrow> okg g s (m \<bind> f) (m \<bind> f')"
  by (cases m) (simp_all add: okg_None)

lemma okg_map_run:
  "okr s m m' \<Longrightarrow> (\<And>x ev. keeps s ev \<Longrightarrow> keeps s (g (h x ev))) \<Longrightarrow>
   okg g s (map_option (case_prod h) m) (map_option (case_prod h) m')"
  by (auto simp: okg_def)

lemma okg_map_snd: "okr s m m' \<Longrightarrow> oks s (map_option snd m) (map_option snd m')"
  by (auto simp: okg_def)

lemma okg_map: "(\<And>x. m = Some x \<Longrightarrow> keeps s (g (h x))) \<Longrightarrow> okg g s (map_option h m) (map_option h m)"
  by (auto simp: okg_def)

lemma okg_let_state:
  "keeps s e \<Longrightarrow> (\<And>ev. keeps s ev \<Longrightarrow> okg g s (f ev) (f' ev)) \<Longrightarrow> okg g s (Let e f) (Let e f')"
  for e :: eval
  by simp

lemma okg_let_run:
  "keeps s (snd e) \<Longrightarrow> (\<And>x ev. keeps s ev \<Longrightarrow> okg g s (f x ev) (f' x ev)) \<Longrightarrow>
   okg g s (Let e (case_prod f)) (Let e (case_prod f'))"
  for e :: "'a \<times> eval"
  by (cases e) simp

lemma okg_let: "(\<And>x. okg g s (f x) (f' x)) \<Longrightarrow> okg g s (Let e f) (Let e f')"
  by simp

lemma okg_if: "(b \<Longrightarrow> okg g s m m') \<Longrightarrow> (\<not> b \<Longrightarrow> okg g s n n') \<Longrightarrow> okg g s (if b then m else n) (if b then m' else n')"
  by simp

lemma okg_prod: "(\<And>x y. okg g s (f x y) (f' x y)) \<Longrightarrow> okg g s (case_prod f p) (case_prod f' p)"
  by (cases p) simp

lemma okg_prod2:
  "(\<And>x y. okg g s (f x y ev) (f' x y ev)) \<Longrightarrow> okg g s (case_prod f p ev) (case_prod f' p ev)"
  by (cases p) simp

lemma okg_option_run:
  "okr s d d \<Longrightarrow> okg g s a a' \<Longrightarrow> (\<And>x ev. keeps s ev \<Longrightarrow> okg g s (b x ev) (b' x ev)) \<Longrightarrow>
   okg g s (case_option a (case_prod b) d) (case_option a' (case_prod b') d)"
  by (cases d) (auto simp: okg_def)

lemma okg_option:
  "okg g s a a' \<Longrightarrow> (\<And>x. okg g s (b x) (b' x)) \<Longrightarrow> okg g s (case_option a b d) (case_option a' b' d)"
  by (cases d) simp_all

lemma okg_list:
  "okg g s a a' \<Longrightarrow> (\<And>x y. okg g s (b x y) (b' x y)) \<Longrightarrow> okg g s (case_list a b d) (case_list a' b' d)"
  by (cases d) simp_all

lemma okg_sum:
  "(\<And>x. okg g s (a x) (a' x)) \<Longrightarrow> (\<And>x. okg g s (b x) (b' x)) \<Longrightarrow>
   okg g s (case_sum a b d) (case_sum a' b' d)"
  by (cases d) simp_all

lemma okg_bool:
  "okg g s a a' \<Longrightarrow> okg g s b b' \<Longrightarrow> okg g s (case_bool a b d) (case_bool a' b' d)"
  by (cases d) simp_all

text \<open>A case distinction on a value, for any relation between the two branches.\<close>

lemma case_vdata_rel:
  "P a0 b0 \<Longrightarrow> (\<And>x. P (a1 x) (b1 x)) \<Longrightarrow> (\<And>x. P (a2 x) (b2 x)) \<Longrightarrow>
   (\<And>x. P (a3 x) (b3 x)) \<Longrightarrow> (\<And>x. P (a4 x) (b4 x)) \<Longrightarrow>
   (\<And>x. P (a5 x) (b5 x)) \<Longrightarrow> (\<And>x. P (a6 x) (b6 x)) \<Longrightarrow>
   (\<And>x. P (a7 x) (b7 x)) \<Longrightarrow> (\<And>x. P (a8 x) (b8 x)) \<Longrightarrow>
   (\<And>x. P (a9 x) (b9 x)) \<Longrightarrow> (\<And>x. P (a10 x) (b10 x)) \<Longrightarrow>
   (\<And>x y z u. P (a11 x y z u) (b11 x y z u)) \<Longrightarrow> P a12 b12 \<Longrightarrow>
   (\<And>x y z u v. P (a13 x y z u v) (b13 x y z u v)) \<Longrightarrow> P a14 b14 \<Longrightarrow>
   (\<And>x y. P (a15 x y) (b15 x y)) \<Longrightarrow> (\<And>x. P (a16 x) (b16 x)) \<Longrightarrow>
   (\<And>x. P (a17 x) (b17 x)) \<Longrightarrow> P a18 b18 \<Longrightarrow> (\<And>x y. P (a19 x y) (b19 x y)) \<Longrightarrow>
   P (case_vdata a0 a1 a2 a3 a4 a5 a6 a7 a8 a9 a10 a11 a12 a13 a14 a15 a16 a17 a18 a19 d)
     (case_vdata b0 b1 b2 b3 b4 b5 b6 b7 b8 b9 b10 b11 b12 b13 b14 b15 b16 b17 b18 b19 d)"
  by (cases d) simp_all

lemmas okg_vdata = case_vdata_rel [where P = "okg g s" for g s]

lemma okg_ndata:
  "(\<And>x. okg g s (a0 x) (b0 x)) \<Longrightarrow> (\<And>x. okg g s (a1 x) (b1 x)) \<Longrightarrow>
   (\<And>x y. okg g s (a2 x y) (b2 x y)) \<Longrightarrow> (\<And>x. okg g s (a3 x) (b3 x)) \<Longrightarrow>
   (\<And>x y. okg g s (a4 x y) (b4 x y)) \<Longrightarrow> (\<And>x y z u. okg g s (a5 x y z u) (b5 x y z u)) \<Longrightarrow>
   (\<And>x y. okg g s (a6 x y) (b6 x y)) \<Longrightarrow> (\<And>x y. okg g s (a7 x y) (b7 x y)) \<Longrightarrow>
   (\<And>x y z u v. okg g s (a8 x y z u v) (b8 x y z u v)) \<Longrightarrow> (\<And>x y. okg g s (a9 x y) (b9 x y)) \<Longrightarrow>
   (\<And>x y z u. okg g s (a10 x y z u) (b10 x y z u)) \<Longrightarrow> (\<And>x y z u. okg g s (a11 x y z u) (b11 x y z u)) \<Longrightarrow>
   (\<And>x y z. okg g s (a12 x y z) (b12 x y z)) \<Longrightarrow> (\<And>x y z u. okg g s (a13 x y z u) (b13 x y z u)) \<Longrightarrow>
   (\<And>x y z. okg g s (a14 x y z) (b14 x y z)) \<Longrightarrow> (\<And>x y z u. okg g s (a15 x y z u) (b15 x y z u)) \<Longrightarrow>
   (\<And>x y. okg g s (a16 x y) (b16 x y)) \<Longrightarrow> (\<And>x y z u. okg g s (a17 x y z u) (b17 x y z u)) \<Longrightarrow>
   (\<And>x y. okg g s (a18 x y) (b18 x y)) \<Longrightarrow> (\<And>x y z. okg g s (a19 x y z) (b19 x y z)) \<Longrightarrow>
   (\<And>x y. okg g s (a20 x y) (b20 x y)) \<Longrightarrow> (\<And>x. okg g s (a21 x) (b21 x)) \<Longrightarrow>
   (\<And>x y. okg g s (a22 x y) (b22 x y)) \<Longrightarrow> (\<And>x y. okg g s (a23 x y) (b23 x y)) \<Longrightarrow>
   (\<And>x y z. okg g s (a24 x y z) (b24 x y z)) \<Longrightarrow> (\<And>x y z. okg g s (a25 x y z) (b25 x y z)) \<Longrightarrow>
   (\<And>x y. okg g s (a26 x y) (b26 x y)) \<Longrightarrow> (\<And>x y z. okg g s (a27 x y z) (b27 x y z)) \<Longrightarrow>
   (\<And>x y z. okg g s (a28 x y z) (b28 x y z)) \<Longrightarrow> (\<And>x y z u v w. okg g s (a29 x y z u v w) (b29 x y z u v w)) \<Longrightarrow>
   (\<And>x. okg g s (a30 x) (b30 x)) \<Longrightarrow> (\<And>x y. okg g s (a31 x y) (b31 x y)) \<Longrightarrow>
   (\<And>x y. okg g s (a32 x y) (b32 x y)) \<Longrightarrow> (\<And>x y. okg g s (a33 x y) (b33 x y)) \<Longrightarrow>
   (\<And>x. okg g s (a34 x) (b34 x)) \<Longrightarrow> (\<And>x. okg g s (a35 x) (b35 x)) \<Longrightarrow>
   (\<And>x y. okg g s (a36 x y) (b36 x y)) \<Longrightarrow> (\<And>x. okg g s (a37 x) (b37 x)) \<Longrightarrow>
   (\<And>x y. okg g s (a38 x y) (b38 x y)) \<Longrightarrow> (\<And>x y. okg g s (a39 x y) (b39 x y)) \<Longrightarrow>
   okg g s (case_ndata a0 a1 a2 a3 a4 a5 a6 a7 a8 a9 a10 a11 a12 a13 a14 a15 a16 a17 a18 a19 a20 a21 a22 a23
       a24 a25 a26 a27 a28 a29 a30 a31 a32 a33 a34 a35 a36 a37 a38 a39 d)
     (case_ndata b0 b1 b2 b3 b4 b5 b6 b7 b8 b9 b10 b11 b12 b13 b14 b15 b16 b17 b18 b19 b20 b21 b22 b23
       b24 b25 b26 b27 b28 b29 b30 b31 b32 b33 b34 b35 b36 b37 b38 b39 d)"
  by (cases d) simp_all

lemma okg_sval_kind:
  "okg g s a a' \<Longrightarrow> okg g s b b' \<Longrightarrow> okg g s c c' \<Longrightarrow> okg g s d d' \<Longrightarrow> okg g s e e' \<Longrightarrow>
   okg g s f f' \<Longrightarrow> okg g s h h' \<Longrightarrow>
   okg g s (case_sval_kind a b c d e f h k) (case_sval_kind a' b' c' d' e' f' h' k)"
  by (cases k) simp_all

lemma okg_kinds:
  "okg g s a a' \<Longrightarrow> okg g s b b' \<Longrightarrow> okg g s (case_binop_kind a b k1) (case_binop_kind a' b' k1)"
  "okg g s a a' \<Longrightarrow> okg g s b b' \<Longrightarrow> okg g s (case_pattern_kind a b k2) (case_pattern_kind a' b' k2)"
  "okg g s a a' \<Longrightarrow> okg g s b b' \<Longrightarrow> okg g s c c' \<Longrightarrow>
   okg g s (case_jump_kind a b c k3) (case_jump_kind a' b' c' k3)"
  "okg g s a a' \<Longrightarrow> okg g s b b' \<Longrightarrow> okg g s c c' \<Longrightarrow> okg g s d d' \<Longrightarrow> okg g s e e' \<Longrightarrow>
   okg g s (case_plain_kind a b c d e k4) (case_plain_kind a' b' c' d' e' k4)"
  by (simp_all split: binop_kind.split pattern_kind.split jump_kind.split plain_kind.split)

lemma okg_rope:
  "(\<And>t. okg g s (a t) (a' t)) \<Longrightarrow> (\<And>n. okg g s (b n) (b' n)) \<Longrightarrow>
   (\<And>l r. okg g s (c l r) (c' l r)) \<Longrightarrow> okg g s (case_rope a b c d) (case_rope a' b' c' d)"
  by (cases d) simp_all

lemmas okg_walk = okg_Some okg_None okg_bind_run okg_bind_state okg_bind okg_map_run okg_map_snd okg_map
  okg_let_state okg_let_run okg_let okg_if okg_prod okg_prod2 okg_option_run okg_option okg_list okg_sum okg_bool
  okg_vdata okg_ndata okg_sval_kind okg_kinds okg_rope

subsection \<open>Functions that evaluate nothing\<close>

named_theorems agree \<open>runs that agree\<close>

lemma each_agree [agree]:
  "(\<And>x ev. keeps s ev \<Longrightarrow> oks s (f x ev) (f' x ev)) \<Longrightarrow> keeps s ev \<Longrightarrow>
   oks s (each f xs ev) (each f' xs ev)"
proof (induction xs arbitrary: ev)
  case (Cons x xs)
  then show ?case unfolding each.simps by (intro okg_bind_state) auto
qed (simp add: okg_def)

lemma set_var_agree [agree]: "keeps s ev \<Longrightarrow> oks s (set_var p name v ev) (set_var p name v ev)"
  by (simp add: okg_def keeps_set_var)

lemma assign_lvar_agree [agree]: "keeps s ev \<Longrightarrow> oks s (assign_lvar p name v ev) (assign_lvar p name v ev)"
  by (auto simp: okg_def assign_lvar_def split: bind_splits if_splits
      intro: keeps_set_var keeps_envs dest!: env_update_ext)

lemma build_exception_agree [agree]:
  "keeps s ev \<Longrightarrow> okr s (build_exception c m ev) (build_exception c m ev)"
  unfolding build_exception_def by (rule okg_walk agree | simp add: keeping; fail)+

lemma eval_raise_agree [agree]: "keeps s ev \<Longrightarrow> okr s (eval_raise n m ev) (eval_raise n m ev)"
  unfolding eval_raise_def by (rule okg_walk agree | simp add: keeping; fail)+

lemma eval_raise_class_agree [agree]:
  "keeps s ev \<Longrightarrow> okr s (eval_raise_class n c m ev) (eval_raise_class n c m ev)"
  unfolding eval_raise_class_def by (rule okg_walk agree | simp add: keeping; fail)+

lemma open_singleton_env_agree [agree]:
  "keeps s ev \<Longrightarrow> okr s (open_singleton_env v ev) (open_singleton_env v ev)"
  unfolding open_singleton_env_def set_singleton_env_def
  by (rule okg_walk agree | simp add: keeping split: vdata.split option.split; fail)+

lemma assign_cvar_agree [agree]: "keeps s ev \<Longrightarrow> oks s (assign_cvar p name v ev) (assign_cvar p name v ev)"
  unfolding assign_cvar_def
  by (rule okg_walk agree | simp add: keeping split: option.split; fail)+

lemma assign_ivar_agree [agree]: "keeps s ev \<Longrightarrow> oks s (assign_ivar n p name v ev) (assign_ivar n p name v ev)"
  unfolding assign_ivar_def
  by (rule okg_walk agree | simp add: keeping split: option.split; fail)+

lemma val_hash_set_ext: "val_hash_set n p k v h = Some h' \<Longrightarrow> heap_ext h h'"
  by (auto simp: val_hash_set_def keeping)

lemma store_pair_agree [agree]:
  "k_depth K' = k_depth K \<Longrightarrow> keeps s ev \<Longrightarrow> oks s (store_pair K h k v ev) (store_pair K' h k v ev)"
  by (auto simp: store_pair_def okg_def split: option.splits intro!: keeps_heap dest: val_hash_set_ext)

subsection \<open>Loops\<close>

text \<open>A loop over turns that agree.\<close>

lemma eval_loop_agree:
  assumes turn: "\<And>s ev. keeps s ev \<Longrightarrow> okr s (turn ev) (turn' ev)" and "keeps s ev"
  shows "okr s (eval_loop turn ev) (eval_loop turn' ev)"
proof -
  have "eval_loop turn' ev = Some r \<and> keeps s (snd r)" if "eval_loop turn ev = Some r" for r
  proof (rule eval_loop.raw_induct [where P = "\<lambda>t e r. t = turn \<longrightarrow> keeps s e \<longrightarrow>
        eval_loop turn' e = Some r \<and> keeps s (snd r)", OF _ that, THEN mp, THEN mp])
    fix f t e r
    assume IH: "\<And>t e r. f t e = Some r \<Longrightarrow>
        t = turn \<longrightarrow> keeps s e \<longrightarrow> eval_loop turn' e = Some r \<and> keeps s (snd r)"
      and step: "t e \<bind> (\<lambda>(stop, ev). if stop = None then f t ev else Some (the stop, ev)) = Some r"
    show "t = turn \<longrightarrow> keeps s e \<longrightarrow> eval_loop turn' e = Some r \<and> keeps s (snd r)"
    proof (intro impI)
      assume t: "t = turn" and e: "keeps s e"
      have ih: "okr s (f turn e) (eval_loop turn' e)" if "keeps s e" for e
        using that IH by (simp add: okg_def)
      have "okr s (t e \<bind> (\<lambda>(stop, ev). if stop = None then f t ev else Some (the stop, ev)))
          (eval_loop turn' e)"
        unfolding t by (subst eval_loop.simps) (rule okg_walk ih turn e | simp add: e; fail)+
      then show "eval_loop turn' e = Some r \<and> keeps s (snd r)"
        using step by (blast dest: okgD)
    qed
  qed (simp_all add: assms)
  then show ?thesis by (simp add: okg_def)
qed

lemma for_array_agree:
  assumes turn: "\<And>s x ev. keeps s ev \<Longrightarrow> okr s (turn x ev) (turn' x ev)" and "keeps s ev"
  shows "okr s (for_array turn p i v ev) (for_array turn' p i v ev)"
proof -
  have "for_array turn' p i v ev = Some r \<and> keeps s (snd r)" if "for_array turn p i v ev = Some r" for r
  proof (rule for_array.raw_induct [where P = "\<lambda>t p i v e r. t = turn \<longrightarrow> keeps s e \<longrightarrow>
        for_array turn' p i v e = Some r \<and> keeps s (snd r)", OF _ that, THEN mp, THEN mp])
    fix f t p i v e r
    assume IH: "\<And>t p i v e r. f t p i v e = Some r \<Longrightarrow>
        t = turn \<longrightarrow> keeps s e \<longrightarrow> for_array turn' p i v e = Some r \<and> keeps s (snd r)"
      and step: "(if length (array_elems p e) \<le> i then Some (v, e)
         else t (array_elems p e ! i) e \<bind>
           (\<lambda>((r, stop), ev). if stop then Some (r, ev) else f t p (i + 1) r ev)) = Some r"
    show "t = turn \<longrightarrow> keeps s e \<longrightarrow> for_array turn' p i v e = Some r \<and> keeps s (snd r)"
    proof (intro impI)
      assume t: "t = turn" and e: "keeps s e"
      have ih: "okr s (f turn p i v e) (for_array turn' p i v e)" if "keeps s e" for p i v e
        using that IH by (simp add: okg_def)
      have "okr s ((if length (array_elems p e) \<le> i then Some (v, e)
         else t (array_elems p e ! i) e \<bind>
           (\<lambda>((r, stop), ev). if stop then Some (r, ev) else f t p (i + 1) r ev)))
          (for_array turn' p i v e)"
        unfolding t by (subst for_array.simps) (rule okg_walk ih turn e | simp add: e; fail)+
      then show "for_array turn' p i v e = Some r \<and> keeps s (snd r)"
        using step by (blast dest: okgD)
    qed
  qed (simp_all add: assms)
  then show ?thesis by (simp add: okg_def)
qed

lemma for_range_agree:
  assumes turn: "\<And>s x ev. keeps s ev \<Longrightarrow> okr s (turn x ev) (turn' x ev)" and "keeps s ev"
  shows "okr s (for_range turn hi ex i v ev) (for_range turn' hi ex i v ev)"
proof -
  have "for_range turn' hi ex i v ev = Some r \<and> keeps s (snd r)" if "for_range turn hi ex i v ev = Some r" for r
  proof (rule for_range.raw_induct [where P = "\<lambda>t hi ex i v e r. t = turn \<longrightarrow> keeps s e \<longrightarrow>
        for_range turn' hi ex i v e = Some r \<and> keeps s (snd r)", OF _ that, THEN mp, THEN mp])
    fix f t hi ex i v e r
    assume IH: "\<And>t hi ex i v e r. f t hi ex i v e = Some r \<Longrightarrow>
        t = turn \<longrightarrow> keeps s e \<longrightarrow> for_range turn' hi ex i v e = Some r \<and> keeps s (snd r)"
      and step: "(if if ex then sint i < hi else sint i \<le> hi
         then t (val_int i) e \<bind> (\<lambda>((r, stop), ev). if stop then Some (r, ev)
           else add64 i 1 \<bind> (\<lambda>i. f t hi ex i r ev))
         else Some (v, e)) = Some r"
    show "t = turn \<longrightarrow> keeps s e \<longrightarrow> for_range turn' hi ex i v e = Some r \<and> keeps s (snd r)"
    proof (intro impI)
      assume t: "t = turn" and e: "keeps s e"
      have ih: "okr s (f turn hi ex i v e) (for_range turn' hi ex i v e)" if "keeps s e" for hi ex i v e
        using that IH by (simp add: okg_def)
      have "okr s ((if if ex then sint i < hi else sint i \<le> hi
         then t (val_int i) e \<bind> (\<lambda>((r, stop), ev). if stop then Some (r, ev)
           else add64 i 1 \<bind> (\<lambda>i. f t hi ex i r ev))
         else Some (v, e)))
          (for_range turn' hi ex i v e)"
        unfolding t by (subst for_range.simps) (rule okg_walk ih turn e | simp add: e; fail)+
      then show "for_range turn' hi ex i v e = Some r \<and> keeps s (snd r)"
        using step by (blast dest: okgD)
    qed
  qed (simp_all add: assms)
  then show ?thesis by (simp add: okg_def)
qed

lemma begin_loop_agree:
  assumes turn: "\<And>s b ev. keeps s ev \<Longrightarrow> okr s (turn b ev) (turn' b ev)" and "keeps s ev"
  shows "okr s (begin_loop turn b ev) (begin_loop turn' b ev)"
proof -
  have "begin_loop turn' b ev = Some r \<and> keeps s (snd r)" if "begin_loop turn b ev = Some r" for r
  proof (rule begin_loop.raw_induct [where P = "\<lambda>t b e r. t = turn \<longrightarrow> keeps s e \<longrightarrow>
        begin_loop turn' b e = Some r \<and> keeps s (snd r)", OF _ that, THEN mp, THEN mp])
    fix f t b e r
    assume IH: "\<And>t b e r. f t b e = Some r \<Longrightarrow>
        t = turn \<longrightarrow> keeps s e \<longrightarrow> begin_loop turn' b e = Some r \<and> keeps s (snd r)"
      and step: "t b e \<bind> (\<lambda>((r, rescued), ev). if r = None then f t rescued ev
         else Some ((the r, rescued), ev)) = Some r"
    show "t = turn \<longrightarrow> keeps s e \<longrightarrow> begin_loop turn' b e = Some r \<and> keeps s (snd r)"
    proof (intro impI)
      assume t: "t = turn" and e: "keeps s e"
      have ih: "okr s (f turn b e) (begin_loop turn' b e)" if "keeps s e" for b e
        using that IH by (simp add: okg_def)
      have "okr s (t b e \<bind> (\<lambda>((r, rescued), ev). if r = None then f t rescued ev
         else Some ((the r, rescued), ev)))
          (begin_loop turn' b e)"
        unfolding t by (subst begin_loop.simps) (rule okg_walk ih turn e | simp add: e; fail)+
      then show "begin_loop turn' b e = Some r \<and> keeps s (snd r)"
        using step by (blast dest: okgD)
    qed
  qed (simp_all add: assms)
  then show ?thesis by (simp add: okg_def)
qed

subsection \<open>Bodies that run on another state\<close>

text \<open>The frames pushed for a body are off again after it, or were not pushed.\<close>

lemma okg_bind_from:
  "okr t m m' \<Longrightarrow> (\<And>x ev. keeps t ev \<Longrightarrow> okg g s (f x ev) (f' x ev)) \<Longrightarrow>
   okg g s (m \<bind> case_prod f) (m' \<bind> case_prod f')"
  by (auto simp: okg_def split: bind_splits)

lemma prefix_butlast:
  assumes "prefix ys (if b then xs else xs @ [x])"
  shows "prefix (butlast ys) xs"
proof -
  from assms have "ys = xs @ [x] \<or> prefix ys xs" by (auto split: if_splits)
  then show ?thesis
  proof
    assume "prefix ys xs"
    then show ?thesis by (rule prefix_order.trans [OF prefixeq_butlast])
  qed simp
qed

lemma keeps_pop_frame:
  "keeps s ev \<Longrightarrow> keeps (eval_push_frame l c t ev) ev' \<Longrightarrow> keeps s (eval_pop_frame ev')"
  using prefix_butlast [of "ev_frames ev'" "length (ev_frames ev) \<ge> EVAL_MAX_DEPTH" "ev_frames ev"]
  by (auto simp: keeps_def eval_push_frame_def eval_pop_frame_def
      intro: heap_ext_trans envs_ext_trans prefix_order.trans split: if_splits)

lemma keeps_leave_method:
  "keeps s ev \<Longrightarrow> keeps (enter_method p l c t ev) ev' \<Longrightarrow> keeps s (leave_method ev')"
  using prefix_butlast [of "ev_frames ev'" "length (ev_frames ev) \<ge> EVAL_MAX_DEPTH" "ev_frames ev"]
    prefix_butlast [of "ev_active_defs ev'" "\<not> length (ev_active_defs ev) < EVAL_MAX_DEPTH"
      "ev_active_defs ev"]
  by (auto simp: keeps_def enter_method_def leave_method_def eval_push_frame_def eval_pop_frame_def
      push_active_def pop_active_def Let_def
      intro: heap_ext_trans envs_ext_trans prefix_order.trans split: if_splits)

lemma keeps_rescue_context:
  "keeps s ev \<Longrightarrow> keeps (ev\<lparr>ev_rescue_context := x\<rparr>) ev' \<Longrightarrow>
   keeps s (ev'\<lparr>ev_rescue_context := ev_rescue_context ev\<rparr>)"
  by (auto simp: keeps_def intro: heap_ext_trans envs_ext_trans prefix_order.trans)

end
