(* ===== verification/EvalAgree.thy ===== *)
theory EvalAgree
  imports EvalKeep
begin

section \<open>Runs of two runners that agree\<close>

text \<open>
  A function of the evaluator is run twice, with a runner \<open>K\<close> and with another one \<open>K'\<close> that has the
  same results wherever \<open>K\<close> has one. For each function the lemma \<open>f_agree\<close> says that the same then holds
  of it, and that the state it returns keeps what the state before it had.
\<close>

subsection \<open>The functions that call no runner\<close>

lemma destructure_agree:
  assumes "\<And>n v ev. keeps s ev \<Longrightarrow> oks s (f n v ev) (f' n v ev)"
  shows "keeps s ev \<Longrightarrow> oks s (destructure f v len sp i xs ev) (destructure f' v len sp i xs ev)"
proof (induction xs arbitrary: i ev)
  case (Cons x xs)
  then show ?case unfolding destructure.simps
    by - (rule okg_walk assms Cons.IH | simp add: keeping; fail)+
qed (simp add: okg_def)

lemma destructure_all_agree [agree]:
  assumes "\<And>n v ev. keeps s ev \<Longrightarrow> oks s (f n v ev) (f' n v ev)"
  shows "keeps s ev \<Longrightarrow> oks s (destructure_all f xs v ev) (destructure_all f' xs v ev)"
  unfolding destructure_all_def by (rule destructure_agree assms)+

lemma when_agree [agree]:
  "okr s m m' \<Longrightarrow> okr s (when_defined l m) (when_defined l m')"
  "okr s n n' \<Longrightarrow> okr s (when_method n) (when_method n')"
  unfolding when_defined_def when_method_def by (rule okg_map_run, assumption, simp)+

lemma eval_raise_encoding_error_agree [agree]:
  "keeps s ev \<Longrightarrow> okr s (eval_raise_encoding_error a b ev) (eval_raise_encoding_error a b ev)"
  unfolding eval_raise_encoding_error_def
  by (rule okg_walk agree | simp add: keeping; fail)+

lemma assign_const_agree [agree]:
  "keeps s ev \<Longrightarrow> oks s (assign_const a b c ev) (assign_const a b c ev)"
  unfolding assign_const_def
  by (rule okg_walk agree | simp add: keeping; fail)+

lemma defined_simple_value_agree [agree]:
  "keeps s ev \<Longrightarrow> okr s (defined_simple_value a b ev) (defined_simple_value a b ev)"
  unfolding defined_simple_value_def
  by (rule okg_walk agree | simp add: keeping; fail)+

lemma unknown_keyword_agree [agree]:
  "keeps s ev \<Longrightarrow> oks s (unknown_keyword a b ev) (unknown_keyword a b ev)"
  unfolding unknown_keyword_def
  by (rule okg_walk agree | simp add: keeping; fail)+

lemma block_result_agree [agree]:
  "keeps s ev \<Longrightarrow> okr s (block_result a b c d ev) (block_result a b c d ev)"
  unfolding block_result_def
  by (rule okg_walk agree | simp add: keeping; fail)+

lemma method_result_agree [agree]:
  "keeps s ev \<Longrightarrow> okr s (method_result a b c ev) (method_result a b c ev)"
  unfolding method_result_def
  by (rule okg_walk agree | simp add: keeping; fail)+

lemma truth_agree [agree]: "keeps s ev \<Longrightarrow> okr s (truth a ev) (truth a ev)"
  unfolding truth_def
  by (rule okg_walk agree | simp add: keeping; fail)+

lemma ev_int_agree [agree]: "keeps s ev \<Longrightarrow> okr s (ev_int ev m) (ev_int ev m)"
  unfolding ev_int_def by (rule okg_map) simp

lemma zero_division_agree [agree]:
  "keeps s ev \<Longrightarrow> okr s (zero_division a ev) (zero_division a ev)"
  unfolding zero_division_def
  by (rule okg_walk agree | simp add: keeping; fail)+

lemma update_receiver_agree [agree]:
  "keeps s ev \<Longrightarrow> oks s (update_receiver a b c ev) (update_receiver a b c ev)"
  unfolding update_receiver_def
  by (rule okg_walk agree | simp add: keeping; fail)+

lemma method_block_agree [agree]:
  "keeps s ev \<Longrightarrow> okr s (method_block a ev) (method_block a ev)"
  unfolding method_block_def
  by (rule okg_walk agree | simp add: keeping; fail)+

lemma passed_block_agree [agree]:
  "keeps s ev \<Longrightarrow> okr s (passed_block a ev) (passed_block a ev)"
  unfolding passed_block_def
  by (rule okg_walk agree | simp add: keeping; fail)+

lemma sub_array_agree [agree]:
  "keeps s ev \<Longrightarrow> okr s (sub_array a b c ev) (sub_array a b c ev)"
  unfolding sub_array_def
  by (rule okg_walk agree | simp add: keeping; fail)+

lemma slice_range_agree [agree]:
  "keeps s ev \<Longrightarrow> okr s (slice_range a b ev) (slice_range a b ev)"
  unfolding slice_range_def
  by (rule okg_walk agree | simp add: keeping; fail)+

lemma array_get_agree [agree]:
  "keeps s ev \<Longrightarrow> okr s (array_get a b c ev) (array_get a b c ev)"
  unfolding array_get_def
  by (rule okg_walk agree | simp add: keeping; fail)+

lemma array_splice_agree [agree]:
  "keeps s ev \<Longrightarrow> okr s (array_splice a b c d ev) (array_splice a b c d ev)"
  unfolding array_splice_def
  by (rule okg_walk agree | simp add: keeping; fail)+

lemma array_set_agree [agree]:
  "keeps s ev \<Longrightarrow> okr s (array_set a b c ev) (array_set a b c ev)"
  unfolding array_set_def
  by (rule okg_walk agree | simp add: keeping; fail)+

lemma after_dispatch_agree [agree]:
  "keeps s ev \<Longrightarrow> okr s (after_dispatch a b c d e f ev) (after_dispatch a b c d e f ev)"
  unfolding after_dispatch_def
  by (rule okg_walk agree | simp add: keeping; fail)+

lemma uninitialized_agree [agree]:
  "keeps s ev \<Longrightarrow> okr s (uninitialized a b ev) (uninitialized a b ev)"
  unfolding uninitialized_def
  by (rule okg_walk agree | simp add: keeping; fail)+

lemma undefined_unary_agree [agree]:
  "keeps s ev \<Longrightarrow> okr s (undefined_unary a b ev) (undefined_unary a b ev)"
  unfolding undefined_unary_def
  by (rule okg_walk agree | simp add: keeping; fail)+

lemma body_exit_agree [agree]:
  "keeps s ev \<Longrightarrow> okr s (body_exit a ev) (body_exit a ev)"
  unfolding body_exit_def
  by (rule okg_walk agree | simp add: keeping; fail)+

lemma make_jump_agree [agree]:
  "keeps s ev \<Longrightarrow> okr s (make_jump a b c ev) (make_jump a b c ev)"
  unfolding make_jump_def
  by (rule okg_walk agree | simp add: keeping; fail)+

lemma no_super_agree [agree]:
  "keeps s ev \<Longrightarrow> okr s (no_super a ev) (no_super a ev)"
  unfolding no_super_def
  by (rule okg_walk agree | simp add: keeping; fail)+

lemma add_module_function_agree [agree]:
  "keeps s ev \<Longrightarrow> oks s (add_module_function a b c d e ev) (add_module_function a b c d e ev)"
  unfolding add_module_function_def
  by (rule okg_walk agree | simp add: keeping; fail)+

lemma alias_in_env_agree [agree]:
  "keeps s ev \<Longrightarrow> okr s (alias_in_env a b c ev) (alias_in_env a b c ev)"
  unfolding alias_in_env_def
  by (rule okg_walk agree | simp add: keeping; fail)+

lemma sclass_env_agree [agree]:
  "keeps s ev \<Longrightarrow> okr s (sclass_env a ev) (sclass_env a ev)"
  unfolding sclass_env_def
  by (rule okg_walk agree | simp add: keeping; fail)+

subsection \<open>The functions that call a runner\<close>

text \<open>
  The interface between a function of the evaluator and the functions it calls back: the laws are what
  \<open>EvalThms\<close> shows of the runners at two depths.
\<close>

locale runners_agree =
  fixes K K' :: runner
  assumes eval: "keeps s ev \<Longrightarrow> okr s (k_eval K env n ev) (k_eval K' env n ev)"
    and assign: "keeps s ev \<Longrightarrow> oks s (k_assign K env n v ev) (k_assign K' env n v ev)"
    and bind: "keeps s ev \<Longrightarrow> oks s (k_bind K env n v ev) (k_bind K' env n v ev)"
    and match: "keeps s ev \<Longrightarrow> okr s (k_match K env benv v n ev) (k_match K' env benv v n ev)"
    and rope: "keeps s ev \<Longrightarrow> okr s (k_rope K env r buf ev) (k_rope K' env r buf ev)"
    and dispatch: "keeps s ev \<Longrightarrow> okr s (k_dispatch K env v m args blk site pub expl ev)
      (k_dispatch K' env v m args blk site pub expl ev)"
    and kernel: "keeps s ev \<Longrightarrow>
      okr s (k_kernel K env m args blk nd ev) (k_kernel K' env m args blk nd ev)"
    and responds: "keeps s ev \<Longrightarrow> okr s (k_responds_to K v m b ev) (k_responds_to K' v m b ev)"
    and natives: "k_pow K' = k_pow K" "k_regex_compile K' = k_regex_compile K" "k_addr K' = k_addr K"
      "k_depth K' = k_depth K"
begin

declare eval [agree] assign [agree] bind [agree] match [agree] rope [agree] dispatch [agree]
  kernel [agree] responds [agree]

lemma same_natives:
  "to_s K' = to_s K" "inspect K' = inspect K" "equal K' = equal K"
  by (simp_all add: fun_eq_iff to_s_def inspect_def equal_def natives)

lemma exception_text: "exception_value_message K' = exception_value_message K"
  by (simp add: fun_eq_iff exception_value_message_def same_natives split: option.split)

lemma eval_raise_value_agree [agree]:
  "keeps s ev \<Longrightarrow> okr s (eval_raise_value K a b ev) (eval_raise_value K' a b ev)"
  unfolding eval_raise_value_def exception_text same_natives natives
  by (rule okg_walk agree natives | simp add: keeping; fail)+

lemma bind_pattern_agree [agree]:
  "keeps s ev \<Longrightarrow> oks s (bind_pattern K a b c ev) (bind_pattern K' a b c ev)"
  unfolding bind_pattern_def same_natives natives
  by (rule okg_walk agree natives | simp add: keeping; fail)+

lemma validate_special_global_assignment_agree [agree]:
  "keeps s ev \<Longrightarrow> okr s (validate_special_global_assignment K a b c ev)
     (validate_special_global_assignment K' a b c ev)"
  unfolding validate_special_global_assignment_def same_natives natives
  by (rule okg_walk agree natives | simp add: keeping; fail)+

lemma target_args_agree [agree]:
  "keeps s ev \<Longrightarrow> okr s (target_args K a b c ev) (target_args K' a b c ev)"
proof (induction b arbitrary: a c ev)
  case (Cons x xs)
  then show ?case unfolding target_args.simps same_natives natives
    by - (rule okg_walk agree natives Cons.IH | simp add: keeping; fail)+
qed (simp add: okg_def)

lemma assign_call_agree [agree]:
  "keeps s ev \<Longrightarrow> oks s (assign_call K a b c d e f ev) (assign_call K' a b c d e f ev)"
  unfolding assign_call_def same_natives natives
  by (rule okg_walk agree natives | simp add: keeping; fail)+

lemma assign_target_agree [agree]:
  "keeps s ev \<Longrightarrow> oks s (assign_target K a b c ev) (assign_target K' a b c ev)"
  unfolding assign_target_def same_natives natives
  by (rule okg_walk agree natives | simp add: keeping; fail)+

lemma defined_method_agree [agree]:
  "keeps s ev \<Longrightarrow> okr s (defined_method K a b c d ev) (defined_method K' a b c d ev)"
  unfolding defined_method_def same_natives natives
  by (rule okg_walk agree natives | simp add: keeping; fail)+

lemma defined_expr_agree [agree]:
  "keeps s ev \<Longrightarrow> okr s (defined_expr K a b ev) (defined_expr K' a b ev)"
  unfolding defined_expr_def same_natives natives
  by (rule okg_walk agree natives | simp add: keeping; fail)+

lemma match_each_agree [agree]:
  "keeps s ev \<Longrightarrow> okr s (match_each K a b c d e ev) (match_each K' a b c d e ev)"
proof (induction e arbitrary: a b c d ev)
  case (Cons x xs)
  then show ?case unfolding match_each.simps same_natives natives
    by - (rule okg_walk agree natives Cons.IH | simp add: keeping; fail)+
qed (simp add: okg_def)

lemma find_match_agree [agree]:
  "keeps s ev \<Longrightarrow> okr s (find_match K a b c d e f h i ev) (find_match K' a b c d e f h i ev)"
proof (induction i arbitrary: a b c d e f h ev)
  case (Cons x xs)
  then show ?case unfolding find_match.simps same_natives natives
    by - (rule okg_walk agree natives Cons.IH | simp add: keeping; fail)+
qed (simp add: okg_def)

lemma deconstructed_agree [agree]:
  "keeps s ev \<Longrightarrow> okr s (deconstructed K a b c d e ev) (deconstructed K' a b c d e ev)"
  unfolding deconstructed_def same_natives natives
  by (rule okg_walk agree natives | simp add: keeping; fail)+

lemma match_elements_agree [agree]:
  "keeps s ev \<Longrightarrow> okr s (match_elements K a b c d e f h i ev)
     (match_elements K' a b c d e f h i ev)"
  unfolding match_elements_def same_natives natives
  by (rule okg_walk agree natives | simp add: keeping; fail)+

lemma match_array_pattern_agree [agree]:
  "keeps s ev \<Longrightarrow> okr s (match_array_pattern K a b c d e f h i j ev)
     (match_array_pattern K' a b c d e f h i j ev)"
  unfolding match_array_pattern_def same_natives natives
  by (rule okg_walk agree natives | simp add: keeping; fail)+

lemma hash_get_sym_agree [agree]:
  "keeps s ev \<Longrightarrow> okr s (hash_get_sym K a b ev) (hash_get_sym K' a b ev)"
  unfolding hash_get_sym_def same_natives natives
  by (rule okg_walk agree natives | simp add: keeping; fail)+

lemma match_pairs_agree [agree]:
  "keeps s ev \<Longrightarrow> okr s (match_pairs K a b c d ev) (match_pairs K' a b c d ev)"
proof (induction d arbitrary: a b c ev)
  case (Cons x xs)
  then show ?case
    by (cases x; simp only: match_pairs.simps same_natives natives)
      (rule okg_walk agree natives Cons.IH | simp add: keeping; fail)+
qed (simp add: okg_def)

lemma key_matched_agree [agree]:
  "keeps s ev \<Longrightarrow> okr s (key_matched K a b ev) (key_matched K' a b ev)"
proof (induction b arbitrary: a ev)
  case (Cons x xs)
  then show ?case unfolding key_matched.simps same_natives natives
    by - (rule okg_walk agree natives Cons.IH | simp add: keeping; fail)+
qed (simp add: okg_def)

lemma rest_pairs_agree [agree]:
  "keeps s ev \<Longrightarrow> oks s (rest_pairs K a b c ev) (rest_pairs K' a b c ev)"
proof (induction c arbitrary: a b ev)
  case (Cons x xs)
  then show ?case
    by (cases x; simp only: rest_pairs.simps same_natives natives)
      (rule okg_walk agree natives Cons.IH | simp add: keeping; fail)+
qed (simp add: okg_def)

lemma match_keys_agree [agree]:
  "keeps s ev \<Longrightarrow> okr s (match_keys K a b c d e ev) (match_keys K' a b c d e ev)"
  unfolding match_keys_def same_natives natives
  by (rule okg_walk agree natives | simp add: keeping; fail)+

lemma match_hash_pattern_agree [agree]:
  "keeps s ev \<Longrightarrow> okr s (match_hash_pattern K a b c d e f h ev)
     (match_hash_pattern K' a b c d e f h ev)"
  unfolding match_hash_pattern_def same_natives natives
  by (rule okg_walk agree natives | simp add: keeping; fail)+

lemma ask_agree [agree]:
  "keeps s ev \<Longrightarrow> okr s (ask K a b c d e ev) (ask K' a b c d e ev)"
  unfolding ask_def same_natives natives
  by (rule okg_walk agree natives | simp add: keeping; fail)+

lemma match_pattern_agree [agree]:
  "keeps s ev \<Longrightarrow> okr s (match_pattern K a b c d ev) (match_pattern K' a b c d ev)"
  unfolding match_pattern_def same_natives natives
  by (rule okg_walk agree natives | simp add: keeping split: bool.split option.split; fail)+

lemma argument_agree [agree]:
  "keeps s ev \<Longrightarrow> okr s (argument K a b c d e ev) (argument K' a b c d e ev)"
  unfolding argument_def same_natives natives
  by (rule okg_walk agree natives | simp add: keeping; fail)+

lemma bind_positional_agree [agree]:
  "keeps s ev \<Longrightarrow> oks s (bind_positional K a b c d e f ev) (bind_positional K' a b c d e f ev)"
proof (induction f arbitrary: a b c d e ev)
  case (Cons x xs)
  then show ?case
    by (cases x; simp only: bind_positional.simps same_natives natives)
      (rule okg_walk agree natives Cons.IH | simp add: keeping; fail)+
qed (simp add: okg_def)

lemma kwarg_get_agree [agree]:
  "keeps s ev \<Longrightarrow> okr s (kwarg_get K a b ev) (kwarg_get K' a b ev)"
  unfolding kwarg_get_def same_natives natives
  by (rule okg_walk agree natives | simp add: keeping; fail)+

lemma bind_keywords_agree [agree]:
  "keeps s ev \<Longrightarrow> okr s (bind_keywords K a b c d ev) (bind_keywords K' a b c d ev)"
proof (induction c arbitrary: a b d ev)
  case (Cons x xs)
  then show ?case unfolding bind_keywords.simps same_natives natives
    by - (rule okg_walk agree natives Cons.IH | simp add: keeping; fail)+
qed (simp add: okg_def)

lemma store_untaken_agree [agree]:
  "keeps s ev \<Longrightarrow> oks s (store_untaken K a b c ev) (store_untaken K' a b c ev)"
proof (induction c arbitrary: a b ev)
  case (Cons x xs)
  then show ?case
    by (cases x; simp only: store_untaken.simps same_natives natives)
      (rule okg_walk agree natives Cons.IH | simp add: keeping; fail)+
qed (simp add: okg_def)

lemma bind_kwrest_agree [agree]:
  "keeps s ev \<Longrightarrow> oks s (bind_kwrest K a b c d ev) (bind_kwrest K' a b c d ev)"
  unfolding bind_kwrest_def same_natives natives
  by (rule okg_walk agree natives | simp add: keeping; fail)+

lemma bind_params_agree [agree]:
  "keeps s ev \<Longrightarrow> oks s (bind_params K a b c ev) (bind_params K' a b c ev)"
  unfolding bind_params_def same_natives natives
  by (rule okg_walk agree natives | simp add: keeping; fail)+

lemma block_body_agree:
  assumes "keeps s ev"
  shows "okr s (k_eval K e n (eval_push_frame l c t ev) \<bind>
      (\<lambda>(r, ev). block_result site lam prc r ((eval_pop_frame ev)\<lparr>ev_current_file := f\<rparr>)))
    (k_eval K' e n (eval_push_frame l c t ev) \<bind>
      (\<lambda>(r, ev). block_result site lam prc r ((eval_pop_frame ev)\<lparr>ev_current_file := f\<rparr>)))"
  by (rule okg_bind_from [of "eval_push_frame l c t ev"])
    (rule agree | simp add: keeping keeps_pop_frame [OF assms]; fail)+

lemma run_block_agree [agree]:
  "keeps s ev \<Longrightarrow> okr s (run_block K a b c d e f h i ev) (run_block K' a b c d e f h i ev)"
  unfolding run_block_def Let_def [of "eval_push_frame _ _ _ _"]
  by (rule block_body_agree okg_walk agree | simp add: keeping; fail)+

lemma call_block_agree [agree]:
  "keeps s ev \<Longrightarrow> okr s (call_block K a b c ev) (call_block K' a b c ev)"
  unfolding call_block_def same_natives natives
  by (rule okg_walk agree natives | simp add: keeping; fail)+

lemma method_body_agree:
  assumes "keeps s ev"
  shows "okr s (k_eval K e n (enter_method p l c t ev) \<bind>
      (\<lambda>(r, ev). method_result p blk r ((leave_method ev)\<lparr>ev_current_file := f\<rparr>)))
    (k_eval K' e n (enter_method p l c t ev) \<bind>
      (\<lambda>(r, ev). method_result p blk r ((leave_method ev)\<lparr>ev_current_file := f\<rparr>)))"
  by (rule okg_bind_from [of "enter_method p l c t ev"])
    (rule agree | simp add: keeping keeps_leave_method [OF assms]; fail)+

lemma function_body_agree:
  assumes "keeps s ev"
  shows "okr s (k_eval K e n (enter_method p l c t ev) \<bind>
      (\<lambda>(r, ev). method_result p blk r (leave_method ev)))
    (k_eval K' e n (enter_method p l c t ev) \<bind>
      (\<lambda>(r, ev). method_result p blk r (leave_method ev)))"
  by (rule okg_bind_from [of "enter_method p l c t ev"])
    (rule agree | simp add: keeping keeps_leave_method [OF assms]; fail)+

lemma run_method_agree [agree]:
  "keeps s ev \<Longrightarrow>
    okr s (run_method K a b c d e f h i j l m ev) (run_method K' a b c d e f h i j l m ev)"
  unfolding run_method_def
  by (rule method_body_agree okg_walk agree | simp add: keeping; fail)+

lemma call_method_value_agree [agree]:
  "keeps s ev \<Longrightarrow> okr s (call_method_value K a b c d e f h ev)
     (call_method_value K' a b c d e f h ev)"
  unfolding call_method_value_def same_natives natives
  by (rule okg_walk agree natives | simp add: keeping; fail)+

lemma send_agree [agree]:
  "keeps s ev \<Longrightarrow> okr s (send K a b c d e ev) (send K' a b c d e ev)"
  unfolding send_def same_natives natives
  by (rule okg_walk agree natives | simp add: keeping; fail)+

lemma int_power_agree [agree]:
  "keeps s ev \<Longrightarrow> okr s (int_power K a b c d e ev) (int_power K' a b c d e ev)"
  unfolding int_power_def same_natives natives
  by (rule okg_walk agree natives | simp add: keeping; fail)+

lemma string_plus_agree [agree]:
  "keeps s ev \<Longrightarrow> okr s (string_plus K a b c d ev) (string_plus K' a b c d ev)"
  unfolding string_plus_def same_natives natives
  by (rule okg_walk agree natives | simp add: keeping; fail)+

lemma dispatch_binop_agree [agree]:
  "keeps s ev \<Longrightarrow> okr s (dispatch_binop K a b c d e f ev) (dispatch_binop K' a b c d e f ev)"
  unfolding dispatch_binop_def same_natives natives
  by (rule okg_walk agree natives | simp add: keeping; fail)+

text \<open>The operators that are no operator of the kind go on to the next.\<close>

lemma rel_if:
  "(b \<Longrightarrow> rel_option R m m') \<Longrightarrow> (\<not> b \<Longrightarrow> rel_option R n n') \<Longrightarrow>
   rel_option R (if b then m else n) (if b then m' else n')"
  by simp

lemma rel_case_option:
  "rel_option R m m' \<Longrightarrow> (\<And>x. rel_option R (f x) (f' x)) \<Longrightarrow>
   rel_option R (case_option m f d) (case_option m' f' d)"
  by (cases d) simp_all

lemma rel_case_bool:
  "rel_option R m m' \<Longrightarrow> rel_option R n n' \<Longrightarrow>
   rel_option R (case_bool m n d) (case_bool m' n' d)"
  by (cases d) simp_all

lemma rel_map_Some: "(\<And>x. R (f x) (f x)) \<Longrightarrow> rel_option R (map_option f m) (map_option f m)"
  by (cases m) simp_all

lemma okg_option_rel:
  "rel_option (okg g s) d d' \<Longrightarrow> okg g s a a' \<Longrightarrow>
   okg g s (case_option a (\<lambda>out. out) d) (case_option a' (\<lambda>out. out) d')"
  by (cases d; cases d') simp_all

lemma int_binop_rel: "keeps s ev \<Longrightarrow> rel_option (okr s) (int_binop K a b c d e ev) (int_binop K' a b c d e ev)"
  unfolding int_binop_def Let_def by (rule rel_if option.rel_intros okg_if agree | assumption)+

lemma mixed_binop_rel:
  assumes "keeps s ev"
  shows "rel_option (okr s) (mixed_binop K a b c d e ev) (mixed_binop K' a b c d e ev)"
proof -
  have f: "float_binop K' = float_binop K" by (simp add: fun_eq_iff float_binop_def natives)
  note r = rel_map_Some [of "okr s", OF okg_Some]
  show ?thesis unfolding mixed_binop_def f prod.case
    by (rule case_vdata_rel [where P = "rel_option (okr s)"] rel_if option.rel_intros int_binop_rel agree r
        assms | simp add: assms; fail)+
qed

lemma numeric_binop_rel:
  "keeps s ev \<Longrightarrow> rel_option (okr s) (numeric_binop K a b c d e ev)
     (numeric_binop K' a b c d e ev)"
  unfolding numeric_binop_def
  by (cases "instance_of_any [''Complex'', ''Rational''] e ev"; simp only: option.case)
    (rule rel_if option.rel_intros mixed_binop_rel agree okg_None | assumption)+

lemma string_binop_rel:
  "keeps s ev \<Longrightarrow> rel_option (okr s) (string_binop K a b c d e ev) (string_binop K' a b c d e ev)"
  unfolding string_binop_def prod.case Let_def
  by (rule case_vdata_rel [where P = "rel_option (okr s)"] rel_case_option rel_if option.rel_intros agree
      okg_Some | simp; fail)+

lemma array_binop_rel: "keeps s ev \<Longrightarrow> rel_option (okr s) (array_binop a b c d ev) (array_binop a b c d ev)"
  unfolding array_binop_def prod.case
  by (rule case_vdata_rel [where P = "rel_option (okr s)"] rel_case_option rel_case_bool rel_if okg_if
      option.rel_intros agree okg_Some | simp add: keeping; fail)+

lemma binop_values_agree [agree]:
  assumes "keeps s ev"
  shows "okr s (binop_values K a b c d e f ev) (binop_values K' a b c d e f ev)"
proof -
  have n: "rel_option (okr s) (if is_num e then numeric_binop K a b c e f ev else None)
      (if is_num e then numeric_binop K' a b c e f ev else None)"
    by (simp add: numeric_binop_rel assms)
  show ?thesis unfolding binop_values_def
    by (rule okg_if okg_option_rel array_binop_rel string_binop_rel n agree assms)+
qed

lemma eval_binop_agree [agree]:
  "keeps s ev \<Longrightarrow> okr s (eval_binop K a b c d e ev) (eval_binop K' a b c d e ev)"
  unfolding eval_binop_def same_natives natives
  by (rule okg_walk agree natives | simp add: keeping; fail)+

lemma merge_kwargs_agree [agree]:
  "keeps s ev \<Longrightarrow> okr s (merge_kwargs K a b ev) (merge_kwargs K' a b ev)"
  unfolding merge_kwargs_def same_natives natives
  by (rule okg_walk agree natives | simp add: keeping; fail)+

lemma add_kwargs_agree [agree]:
  "keeps s ev \<Longrightarrow> okr s (add_kwargs K a b c ev) (add_kwargs K' a b c ev)"
  unfolding add_kwargs_def same_natives natives
  by (rule okg_walk agree natives | simp add: keeping; fail)+

lemma call_arg_agree [agree]:
  "keeps s ev \<Longrightarrow> okr s (call_arg K a b c ev) (call_arg K' a b c ev)"
  unfolding call_arg_def same_natives natives
  by (rule okg_walk agree natives | simp add: keeping; fail)+

lemma call_arg_list_agree [agree]:
  "keeps s ev \<Longrightarrow> okr s (call_arg_list K a b c ev) (call_arg_list K' a b c ev)"
proof (induction b arbitrary: a c ev)
  case (Cons x xs)
  then show ?case unfolding call_arg_list.simps same_natives natives
    by - (rule okg_walk agree natives Cons.IH | simp add: keeping; fail)+
qed (simp add: okg_def)

lemma call_block_arg_agree [agree]:
  "keeps s ev \<Longrightarrow> okr s (call_block_arg K a b c ev) (call_block_arg K' a b c ev)"
  unfolding call_block_arg_def same_natives natives
  by (rule okg_walk agree natives | simp add: keeping; fail)+

lemma call_yield_agree [agree]:
  "keeps s ev \<Longrightarrow> okr s (call_yield K a b c ev) (call_yield K' a b c ev)"
  unfolding call_yield_def same_natives natives
  by (rule okg_walk agree natives | simp add: keeping; fail)+

lemma call_function_agree [agree]:
  "keeps s ev \<Longrightarrow> okr s (call_function K a b c d e ev) (call_function K' a b c d e ev)"
  unfolding call_function_def
  by (rule function_body_agree okg_walk agree | simp add: keeping; fail)+

lemma call_by_name_agree [agree]:
  "keeps s ev \<Longrightarrow> okr s (call_by_name K a b c d e ev) (call_by_name K' a b c d e ev)"
  unfolding call_by_name_def same_natives natives
  by (rule okg_walk agree natives | simp add: keeping; fail)+

lemma call_without_self_agree [agree]:
  "keeps s ev \<Longrightarrow> okr s (call_without_self K a b c d e ev) (call_without_self K' a b c d e ev)"
  unfolding call_without_self_def same_natives natives
  by (rule okg_walk agree natives | simp add: keeping; fail)+

lemma bare_call_agree [agree]:
  "keeps s ev \<Longrightarrow> okr s (bare_call K a b c d e ev) (bare_call K' a b c d e ev)"
  unfolding bare_call_def same_natives natives
  by (rule okg_walk agree natives | simp add: keeping; fail)+

lemma call_on_agree [agree]:
  "keeps s ev \<Longrightarrow> okr s (call_on K a b c d e f h ev) (call_on K' a b c d e f h ev)"
  unfolding call_on_def same_natives natives
  by (rule okg_walk agree natives | simp add: keeping; fail)+

lemma eval_call_agree [agree]:
  "keeps s ev \<Longrightarrow> okr s (eval_call K a b c d e f h ev) (eval_call K' a b c d e f h ev)"
  unfolding eval_call_def same_natives natives
  by (rule okg_walk agree natives | simp add: keeping; fail)+

lemma rope_text_agree [agree]:
  "keeps s ev \<Longrightarrow> okr s (rope_text K a b ev) (rope_text K' a b ev)"
  unfolding rope_text_def same_natives natives
  by (rule okg_walk agree natives | simp add: keeping; fail)+

lemma rope_collect_agree [agree]:
  "keeps s ev \<Longrightarrow> okr s (rope_collect K a b c ev) (rope_collect K' a b c ev)"
  unfolding rope_collect_def same_natives natives
  by (rule okg_walk agree natives | simp add: keeping; fail)+

lemma eval_rope_agree [agree]:
  "keeps s ev \<Longrightarrow> okr s (eval_rope K a b ev) (eval_rope K' a b ev)"
  unfolding eval_rope_def same_natives natives
  by (rule okg_walk agree natives | simp add: keeping; fail)+

lemma eval_regexp_agree [agree]:
  "keeps s ev \<Longrightarrow> okr s (eval_regexp K a b c ev) (eval_regexp K' a b c ev)"
  unfolding eval_regexp_def same_natives natives
  by (rule okg_walk agree natives | simp add: keeping split: vdata.split; fail)+

lemma eval_lvar_agree [agree]:
  "keeps s ev \<Longrightarrow> okr s (eval_lvar K a b c ev) (eval_lvar K' a b c ev)"
  unfolding eval_lvar_def same_natives natives
  by (rule okg_walk agree natives | simp add: keeping; fail)+

lemma eval_child_status_agree [agree]:
  "keeps s ev \<Longrightarrow> okr s (eval_child_status K a b ev) (eval_child_status K' a b ev)"
  unfolding eval_child_status_def same_natives natives
  by (rule okg_walk agree natives | simp add: keeping; fail)+

lemma eval_gvar_agree [agree]:
  "keeps s ev \<Longrightarrow> okr s (eval_gvar K a b c ev) (eval_gvar K' a b c ev)"
  unfolding eval_gvar_def same_natives natives
  by (rule okg_walk agree natives | simp add: keeping; fail)+

lemma const_missing_agree [agree]:
  "keeps s ev \<Longrightarrow> okr s (const_missing K a b c d e ev) (const_missing K' a b c d e ev)"
  unfolding const_missing_def same_natives natives
  by (rule okg_walk agree natives | simp add: keeping; fail)+

lemma eval_const_agree [agree]:
  "keeps s ev \<Longrightarrow> okr s (eval_const K a b c ev) (eval_const K' a b c ev)"
  unfolding eval_const_def same_natives natives
  by (rule okg_walk agree natives | simp add: keeping; fail)+

lemma eval_const_access_agree [agree]:
  "keeps s ev \<Longrightarrow> okr s (eval_const_access K a b c d ev) (eval_const_access K' a b c d ev)"
  unfolding eval_const_access_def same_natives natives
  by (rule okg_walk agree natives | simp add: keeping; fail)+

lemma eval_assign_agree [agree]:
  "keeps s ev \<Longrightarrow> okr s (eval_assign K a b c ev) (eval_assign K' a b c ev)"
  unfolding eval_assign_def same_natives natives
  by (rule okg_walk agree natives | simp add: keeping; fail)+

lemma eval_op_assign_agree [agree]:
  "keeps s ev \<Longrightarrow> okr s (eval_op_assign K a b c d e ev) (eval_op_assign K' a b c d e ev)"
  unfolding eval_op_assign_def same_natives natives
  by (rule okg_walk agree natives | simp add: keeping; fail)+

lemma negate_complex_agree [agree]:
  "keeps s ev \<Longrightarrow> okr s (negate_complex K a b c d ev) (negate_complex K' a b c d ev)"
  unfolding negate_complex_def same_natives natives
  by (rule okg_walk agree natives | simp add: keeping; fail)+

lemma unary_method_agree [agree]:
  "keeps s ev \<Longrightarrow> okr s (unary_method K a b c d ev) (unary_method K' a b c d ev)"
  unfolding unary_method_def same_natives natives
  by (rule okg_walk agree natives | simp add: keeping; fail)+

lemma eval_minus_agree [agree]:
  "keeps s ev \<Longrightarrow> okr s (eval_minus K a b c d ev) (eval_minus K' a b c d ev)"
  unfolding eval_minus_def same_natives natives
  by (rule okg_walk agree natives | simp add: keeping; fail)+

lemma eval_unop_agree [agree]:
  "keeps s ev \<Longrightarrow> okr s (eval_unop K a b c d ev) (eval_unop K' a b c d ev)"
  unfolding eval_unop_def same_natives natives
  by (rule okg_walk agree natives | simp add: keeping; fail)+

lemma eval_defined_agree [agree]:
  "keeps s ev \<Longrightarrow> okr s (eval_defined K a b ev) (eval_defined K' a b ev)"
  unfolding eval_defined_def same_natives natives
  by (rule okg_walk agree natives | simp add: keeping; fail)+

lemma optional_value_agree [agree]:
  "keeps s ev \<Longrightarrow> okr s (optional_value K a b ev) (optional_value K' a b ev)"
  unfolding optional_value_def same_natives natives
  by (rule okg_walk agree natives | simp add: keeping; fail)+

lemma eval_range_agree [agree]:
  "keeps s ev \<Longrightarrow> okr s (eval_range K a b c d ev) (eval_range K' a b c d ev)"
  unfolding eval_range_def same_natives natives
  by (rule okg_walk agree natives | simp add: keeping; fail)+

lemma splat_into_agree [agree]:
  "keeps s ev \<Longrightarrow> oks s (splat_into K a b c d ev) (splat_into K' a b c d ev)"
  unfolding splat_into_def same_natives natives
  by (rule okg_walk agree natives | simp add: keeping; fail)+

lemma eval_elements_agree [agree]:
  "keeps s ev \<Longrightarrow> okr s (eval_elements K a b c ev) (eval_elements K' a b c ev)"
proof (induction c arbitrary: a b ev)
  case (Cons x xs)
  then show ?case unfolding eval_elements.simps same_natives natives
    by - (rule okg_walk agree natives Cons.IH | simp add: keeping; fail)+
qed (simp add: okg_def)

lemma eval_array_agree [agree]:
  "keeps s ev \<Longrightarrow> okr s (eval_array K a b ev) (eval_array K' a b ev)"
  unfolding eval_array_def same_natives natives
  by (rule okg_walk agree natives | simp add: keeping; fail)+

lemma eval_pairs_agree [agree]:
  "keeps s ev \<Longrightarrow> okr s (eval_pairs K a b c ev) (eval_pairs K' a b c ev)"
proof (induction c arbitrary: a b ev)
  case (Cons x xs)
  then show ?case unfolding eval_pairs.simps same_natives natives
    by - (rule okg_walk agree natives Cons.IH | simp add: keeping; fail)+
qed (simp add: okg_def)

lemma eval_hash_agree [agree]:
  "keeps s ev \<Longrightarrow> okr s (eval_hash K a b ev) (eval_hash K' a b ev)"
  unfolding eval_hash_def same_natives natives
  by (rule okg_walk agree natives | simp add: keeping; fail)+

lemma eval_cond_agree [agree]:
  "keeps s ev \<Longrightarrow> okr s (eval_cond K a b c d e ev) (eval_cond K' a b c d e ev)"
  unfolding eval_cond_def same_natives natives
  by (rule okg_walk agree natives | simp add: keeping; fail)+

lemma loop_test_agree [agree]:
  "keeps s ev \<Longrightarrow> okr s (loop_test K a b c ev) (loop_test K' a b c ev)"
  unfolding loop_test_def same_natives natives
  by (rule okg_walk agree natives | simp add: keeping; fail)+

lemma loop_turn_agree [agree]:
  "keeps s ev \<Longrightarrow> okr s (loop_turn K a b c d e ev) (loop_turn K' a b c d e ev)"
  unfolding loop_turn_def same_natives natives
  by (rule okg_walk agree natives | simp add: keeping; fail)+

lemma for_turn_agree [agree]:
  "keeps s ev \<Longrightarrow> okr s (for_turn K a b c d ev) (for_turn K' a b c d ev)"
  unfolding for_turn_def same_natives natives
  by (rule okg_walk agree natives | simp add: keeping; fail)+

lemma eval_for_agree [agree]:
  "keeps s ev \<Longrightarrow> okr s (eval_for K a b c d e ev) (eval_for K' a b c d e ev)"
  unfolding eval_for_def Let_def [of "for_turn _ _ _ _"] same_natives natives
  by (rule eval_loop_agree for_array_agree for_range_agree begin_loop_agree okg_walk agree natives | simp add: keeping; fail)+

lemma when_matches_agree [agree]:
  "keeps s ev \<Longrightarrow> okr s (when_matches K a b c d ev) (when_matches K' a b c d ev)"
proof (induction d arbitrary: a b c ev)
  case (Cons x xs)
  then show ?case unfolding when_matches.simps same_natives natives
    by - (rule okg_walk agree natives Cons.IH | simp add: keeping; fail)+
qed (simp add: okg_def)

lemma eval_whens_agree [agree]:
  "keeps s ev \<Longrightarrow> okr s (eval_whens K a b c d e ev) (eval_whens K' a b c d e ev)"
proof (induction d arbitrary: a b c e ev)
  case (Cons x xs)
  then show ?case unfolding eval_whens.simps same_natives natives
    by - (rule okg_walk agree natives Cons.IH | simp add: keeping; fail)+
qed (simp only: eval_whens.simps same_natives natives, (rule okg_walk agree | simp add: keeping; fail)+)

lemma eval_case_agree [agree]:
  "keeps s ev \<Longrightarrow> okr s (eval_case K a b c d e ev) (eval_case K' a b c d e ev)"
  unfolding eval_case_def same_natives natives
  by (rule okg_walk agree natives | simp add: keeping; fail)+

lemma guard_holds_agree [agree]:
  "keeps s ev \<Longrightarrow> okr s (guard_holds K a b ev) (guard_holds K' a b ev)"
  unfolding guard_holds_def same_natives natives
  by (rule okg_walk agree natives | simp add: keeping; fail)+

lemma eval_ins_agree [agree]:
  "keeps s ev \<Longrightarrow> okr s (eval_ins K a b c d e ev) (eval_ins K' a b c d e ev)"
proof (induction d arbitrary: a b c e ev)
  case (Cons x xs)
  then show ?case unfolding eval_ins.simps same_natives natives
    by - (rule okg_walk agree natives Cons.IH | simp add: keeping; fail)+
qed (simp only: eval_ins.simps same_natives natives, (rule okg_walk agree | simp add: keeping; fail)+)

lemma eval_patcase_agree [agree]:
  "keeps s ev \<Longrightarrow> okr s (eval_patcase K a b c d e ev) (eval_patcase K' a b c d e ev)"
  unfolding eval_patcase_def same_natives natives
  by (rule okg_walk agree natives | simp add: keeping; fail)+

lemma rescue_matches_agree [agree]:
  "keeps s ev \<Longrightarrow> okr s (rescue_matches K a b ev) (rescue_matches K' a b ev)"
proof (induction b arbitrary: a ev)
  case (Cons x xs)
  then show ?case unfolding rescue_matches.simps same_natives natives
    by - (rule okg_walk agree natives Cons.IH | simp add: keeping; fail)+
qed (simp add: okg_def)

lemma find_rescue_agree [agree]:
  "keeps s ev \<Longrightarrow> okr s (find_rescue K a b ev) (find_rescue K' a b ev)"
proof (induction b arbitrary: a ev)
  case (Cons x xs)
  then show ?case unfolding find_rescue.simps same_natives natives
    by - (rule okg_walk agree natives Cons.IH | simp add: keeping; fail)+
qed (simp add: okg_def)

lemma rescue_body_agree:
  assumes "keeps s ev" and t: "keeps (ev\<lparr>ev_rescue_context := x\<rparr>) t"
  shows "okr s (k_eval K e n t \<bind> (\<lambda>(r, ev'). Some (r, set_global v w
      (ev'\<lparr>ev_rescue_context := ev_rescue_context ev\<rparr>))))
    (k_eval K' e n t \<bind> (\<lambda>(r, ev'). Some (r, set_global v w
      (ev'\<lparr>ev_rescue_context := ev_rescue_context ev\<rparr>))))"
  by (rule okg_bind_from [of "ev\<lparr>ev_rescue_context := x\<rparr>"])
    (rule agree okg_Some | simp add: keeping t keeps_rescue_context [OF assms(1)]; fail)+

lemma run_rescue_agree [agree]:
  assumes "keeps s ev"
  shows "okr s (run_rescue K a b c ev) (run_rescue K' a b c ev)"
proof -
  define x where "x = ev_current_exception ev"
  define t where "t = set_global ''!'' x ((eval_clear_exception ev)\<lparr>ev_rescue_context := x\<rparr>)"
  have t: "keeps (ev\<lparr>ev_rescue_context := x\<rparr>) t"
    by (simp add: t_def set_global_def eval_clear_exception_def keeps_def)
  have v: "keeps (ev\<lparr>ev_rescue_context := x\<rparr>) t'" if "set_var p name y (snd (new_env q d t)) = Some t'" for p name y q d t'
    using keeps_set_var [OF keeps_vars(2) [OF t] that] .
  show ?thesis
  proof (cases b)
    case None
    then show ?thesis unfolding run_rescue_def Let_def
      by (simp add: x_def [symmetric] t_def [symmetric] rescue_body_agree [OF assms t])
  next
    case (Some name)
    then show ?thesis unfolding run_rescue_def Let_def
      by (simp add: x_def [symmetric] t_def [symmetric] split_beta bind_map_option o_def)
        (rule okg_bind, rule rescue_body_agree [OF assms v])
  qed
qed

lemma begin_turn_agree [agree]:
  "keeps s ev \<Longrightarrow> okr s (begin_turn K a b c d ev) (begin_turn K' a b c d ev)"
  unfolding begin_turn_def same_natives natives
  by (rule okg_walk agree natives | simp add: keeping; fail)+

lemma run_ensure_agree [agree]:
  "keeps s ev \<Longrightarrow> okr s (run_ensure K a b c ev) (run_ensure K' a b c ev)"
  unfolding run_ensure_def same_natives natives
  by (rule okg_walk agree natives | simp add: keeping; fail)+

lemma eval_begin_agree [agree]:
  "keeps s ev \<Longrightarrow> okr s (eval_begin K a b c d e ev) (eval_begin K' a b c d e ev)"
  unfolding eval_begin_def same_natives natives
  by (rule eval_loop_agree for_array_agree for_range_agree begin_loop_agree okg_walk agree natives | simp add: keeping; fail)+

lemma eval_jump_agree [agree]:
  "keeps s ev \<Longrightarrow> okr s (eval_jump K a b c ev) (eval_jump K' a b c ev)"
  unfolding eval_jump_def same_natives natives
  by (rule okg_walk agree natives | simp add: keeping; fail)+

lemma eval_stmts_agree [agree]:
  "keeps s ev \<Longrightarrow> okr s (eval_stmts K a b c ev) (eval_stmts K' a b c ev)"
proof (induction b arbitrary: a c ev)
  case (Cons x xs)
  then show ?case unfolding eval_stmts.simps same_natives natives
    by - (rule okg_walk agree natives Cons.IH | simp add: keeping; fail)+
qed (simp add: okg_def)

lemma run_ends_agree [agree]:
  "keeps s ev \<Longrightarrow> oks s (run_ends K a b ev) (run_ends K' a b ev)"
  unfolding run_ends_def same_natives natives
  by (rule okg_walk agree natives | simp add: keeping; fail)+

lemma eval_body_agree [agree]:
  "keeps s ev \<Longrightarrow> okr s (eval_body K a b ev) (eval_body K' a b ev)"
  unfolding eval_body_def same_natives natives
  by (rule okg_walk agree natives | simp add: keeping; fail)+

lemma super_arg_list_agree [agree]:
  "keeps s ev \<Longrightarrow> okr s (super_arg_list K a b c ev) (super_arg_list K' a b c ev)"
proof (induction b arbitrary: a c ev)
  case (Cons x xs)
  then show ?case unfolding super_arg_list.simps same_natives natives
    by - (rule okg_walk agree natives Cons.IH | simp add: keeping; fail)+
qed (simp add: okg_def)

lemma call_super_agree [agree]:
  "keeps s ev \<Longrightarrow> okr s (call_super K a b c d e f ev) (call_super K' a b c d e f ev)"
  unfolding call_super_def same_natives natives
  by (rule okg_walk agree natives | simp add: keeping; fail)+

lemma eval_super_agree [agree]:
  "keeps s ev \<Longrightarrow> okr s (eval_super K a b c d ev) (eval_super K' a b c d ev)"
  unfolding eval_super_def same_natives natives
  by (rule okg_walk agree natives | simp add: keeping; fail)+

lemma fire_method_added_agree [agree]:
  "keeps s ev \<Longrightarrow> oks s (fire_method_added K a b c d ev) (fire_method_added K' a b c d ev)"
  unfolding fire_method_added_def same_natives natives
  by (rule okg_walk agree natives | simp add: keeping; fail)+

lemma define_in_scope_agree [agree]:
  "keeps s ev \<Longrightarrow> oks s (define_in_scope K a b c d e ev) (define_in_scope K' a b c d e ev)"
  unfolding define_in_scope_def same_natives natives
  by (rule okg_walk agree natives | simp add: keeping; fail)+

lemma define_plain_agree [agree]:
  "keeps s ev \<Longrightarrow> oks s (define_plain K a b c ev) (define_plain K' a b c ev)"
  unfolding define_plain_def same_natives natives
  by (rule okg_walk agree natives | simp add: keeping; fail)+

lemma define_for_target_agree [agree]:
  "keeps s ev \<Longrightarrow> oks s (define_for_target K a b c d ev) (define_for_target K' a b c d ev)"
  unfolding define_for_target_def same_natives natives
  by (rule okg_walk agree natives | simp add: keeping; fail)+

lemma eval_def_on_agree [agree]:
  "keeps s ev \<Longrightarrow> okr s (eval_def_on K a b c d ev) (eval_def_on K' a b c d ev)"
  unfolding eval_def_on_def same_natives natives
  by (rule okg_walk agree natives | simp add: keeping; fail)+

lemma eval_def_agree [agree]:
  "keeps s ev \<Longrightarrow> okr s (eval_def K a b c d ev) (eval_def K' a b c d ev)"
  unfolding eval_def_def same_natives natives
  by (rule okg_walk agree natives | simp add: keeping; fail)+

lemma alias_singleton_agree [agree]:
  "keeps s ev \<Longrightarrow> okr s (alias_singleton K a b c d ev) (alias_singleton K' a b c d ev)"
  unfolding alias_singleton_def same_natives natives
  by (rule okg_walk agree natives | simp add: keeping; fail)+

lemma alias_instance_agree [agree]:
  "keeps s ev \<Longrightarrow> okr s (alias_instance K a b c d e f ev) (alias_instance K' a b c d e f ev)"
  unfolding alias_instance_def same_natives natives
  by (rule okg_walk agree natives | simp add: keeping; fail)+

lemma alias_in_class_agree [agree]:
  "keeps s ev \<Longrightarrow> okr s (alias_in_class K a b c d e f ev) (alias_in_class K' a b c d e f ev)"
  unfolding alias_in_class_def same_natives natives
  by (rule okg_walk agree natives | simp add: keeping; fail)+

lemma eval_alias_agree [agree]:
  "keeps s ev \<Longrightarrow> okr s (eval_alias K a b c d ev) (eval_alias K' a b c d ev)"
  unfolding eval_alias_def same_natives natives
  by (rule okg_walk agree natives | simp add: keeping; fail)+

lemma superclass_value_agree [agree]:
  "keeps s ev \<Longrightarrow> okr s (superclass_value K a b c d ev) (superclass_value K' a b c d ev)"
  unfolding superclass_value_def same_natives natives
  by (rule okg_walk agree natives | simp add: keeping; fail)+

lemma fire_inherited_agree [agree]:
  "keeps s ev \<Longrightarrow> oks s (fire_inherited K a b c ev) (fire_inherited K' a b c ev)"
  unfolding fire_inherited_def same_natives natives
  by (rule okg_walk agree natives | simp add: keeping; fail)+

lemma class_body_agree [agree]:
  "keeps s ev \<Longrightarrow> okr s (class_body K a b ev) (class_body K' a b ev)"
  unfolding class_body_def same_natives natives
  by (rule okg_walk agree natives | simp add: keeping; fail)+

lemma open_class_agree [agree]:
  "keeps s ev \<Longrightarrow> okr s (open_class K a b c d e f ev) (open_class K' a b c d e f ev)"
  unfolding open_class_def same_natives natives
  by (rule okg_walk agree natives | simp add: keeping; fail)+

lemma eval_klass_agree [agree]:
  "keeps s ev \<Longrightarrow> okr s (eval_klass K a b c d e f ev) (eval_klass K' a b c d e f ev)"
  unfolding eval_klass_def same_natives natives
  by (rule okg_walk agree natives | simp add: keeping; fail)+

lemma sclass_body_agree [agree]:
  "keeps s ev \<Longrightarrow> okr s (sclass_body K a b c ev) (sclass_body K' a b c ev)"
  unfolding sclass_body_def same_natives natives
  by (rule okg_walk agree natives | simp add: keeping; fail)+

lemma eval_sclass_agree [agree]:
  "keeps s ev \<Longrightarrow> okr s (eval_sclass K a b c d ev) (eval_sclass K' a b c d ev)"
  unfolding eval_sclass_def same_natives natives
  by (rule okg_walk agree natives | simp add: keeping; fail)+

lemma eval_sval_agree [agree]:
  "keeps s ev \<Longrightarrow> okr s (eval_sval K a b c d ev) (eval_sval K' a b c d ev)"
  unfolding eval_sval_def same_natives natives
  by (rule okg_walk agree natives | simp add: keeping; fail)+

lemma eval_kind_agree [agree]:
  "keeps s ev \<Longrightarrow> okr s (eval_kind K a b ev) (eval_kind K' a b ev)"
  unfolding eval_kind_def same_natives natives
  by (rule eval_loop_agree for_array_agree for_range_agree begin_loop_agree okg_walk agree natives | simp add: keeping; fail)+

lemma eval_node_agree [agree]:
  "keeps s ev \<Longrightarrow> okr s (eval_node K a b ev) (eval_node K' a b ev)"
  unfolding eval_node_def same_natives natives
  by (rule okg_walk agree natives | simp add: keeping; fail)+

end

end
