(* ===== verification/EvalObject.thy ===== *)
theory EvalObject
  imports EvalInteger
begin

section \<open>Built-in methods of every value (dispatch_method of src/eval_dispatch.c)\<close>

text \<open>A part of the program that is not modelled answers, or the call has no result.\<close>

definition answer :: "rvalue option run \<Rightarrow> rvalue run" where
  "answer m = do {
     (r, ev) \<leftarrow> m;
     case r of Some v \<Rightarrow> Some (v, ev) | None \<Rightarrow> None
   }"

definition is_hash :: "rvalue \<Rightarrow> bool" where
  "is_hash v = (case v_data v of VAL_HASH _ \<Rightarrow> True | _ \<Rightarrow> False)"

definition is_array :: "rvalue \<Rightarrow> bool" where
  "is_array v = (case v_data v of VAL_ARRAY _ \<Rightarrow> True | _ \<Rightarrow> False)"

definition is_block :: "rvalue \<Rightarrow> bool" where
  "is_block v = (case v_data v of VAL_BLOCK _ _ _ _ _ \<Rightarrow> True | _ \<Rightarrow> False)"

text \<open>The entries of a chain of \<open>if\<close>s that also test the receiver.\<close>

definition when_kind :: "bool \<Rightarrow> method_table \<Rightarrow> method_table" where
  "when_kind b tab = (if b then tab else [])"

definition no_args :: "meth \<Rightarrow> meth" where
  "no_args f c ev = (if c_args c \<noteq> [] then wrong_args c ev else f c ev)"

definition class_named :: "rvalue \<Rightarrow> string \<Rightarrow> eval \<Rightarrow> test" where
  "class_named v name ev =
     (case object_class v ev of
        None \<Rightarrow> Some False
      | Some k \<Rightarrow> map_option (\<lambda>n. streq n name) (rc_name (klass_of k ev)))"

subsection \<open>Classes and identity\<close>

definition m_is_a :: meth where
  "m_is_a c ev =
     (case c_args c of
        [k] \<Rightarrow> map_option (\<lambda>b. (val_bool b, ev)) (val_is_a (ev_heap ev) (c_recv c) k)
      | _ \<Rightarrow> wrong_args c ev)"

definition m_instance_of :: meth where
  "m_instance_of c ev =
     (case c_args c of
        [a] \<Rightarrow>
          (case (class_of a, v_data (c_recv c)) of
             (None, _) \<Rightarrow> give val_false ev
           | (Some k, VAL_OBJECT p) \<Rightarrow>
               do {
                 o_class \<leftarrow> object_class (c_recv c) ev;
                 give (val_bool (o_class = k)) ev
               }
           | (Some k, _) \<Rightarrow> do {
               kname \<leftarrow> rc_name (klass_of k ev);
               name \<leftarrow> class_name_of (c_recv c) ev;
               give (val_bool (streq name kname)) ev
             })
      | _ \<Rightarrow> wrong_args c ev)"

definition m_respond_to :: "runner \<Rightarrow> meth" where
  "m_respond_to K c ev =
     (if c_args c = [] \<or> 2 < length (c_args c) then wrong_args c ev
      else case name_arg c 0 ev of
        None \<Rightarrow> give val_false ev
      | Some name \<Rightarrow> do {
          let include_private = (case arg c 1 of Some v \<Rightarrow> val_truthy v | None \<Rightarrow> False);
          (b, ev) \<leftarrow> val_responds_to (c_recv c) name include_private ev;
          if b then give val_true ev else dispatch_respond_to_missing K c name include_private ev
        })"

text \<open>Pointers are compared; numbers, symbols and nil are compared by value.\<close>

definition m_equal_p :: "runner \<Rightarrow> meth" where
  "m_equal_p K c ev =
     (case arg c 0 of
        None \<Rightarrow> give val_false ev
      | Some v \<Rightarrow>
          if kind_no (c_recv c) \<noteq> kind_no v then give val_false ev
          else map_option (\<lambda>b. (val_bool b, ev))
            (val_identity_equal (\<lambda>a b. equal K a b ev) (c_recv c) v))"

definition ask_object :: "runner \<Rightarrow> builtins \<Rightarrow> handler" where
  "ask_object K B c ev = (if is_object (c_recv c) then B B_OBJECT K c ev else Some (None, ev))"

definition give_equal :: "runner \<Rightarrow> rvalue \<Rightarrow> bool \<Rightarrow> meth" where
  "give_equal K v expected c ev =
     map_option (\<lambda>b. (val_bool (b = expected), ev)) (equal K (c_recv c) v ev)"

definition m_eql :: "runner \<Rightarrow> builtins \<Rightarrow> meth" where
  "m_eql K B c ev =
     (case arg c 0 of
        None \<Rightarrow> give val_false ev
      | Some v \<Rightarrow> or_method (ask_object K B c ev) (\<lambda>ev.
          if kind_no (c_recv c) \<noteq> kind_no v then give val_false ev else give_equal K v True c ev))"

text \<open>A method of that name, found in the class of an object, is called whatever its kind.\<close>

definition own_operator :: "runner \<Rightarrow> string \<Rightarrow> handler" where
  "own_operator K name c ev =
     (if is_object (c_recv c) then do {
        k \<leftarrow> object_class (c_recv c) ev;
        m \<leftarrow> instance_method k name ev;
        case m of
          Some (m, owner) \<Rightarrow> taken (invoke K c m owner name (c_args c) (c_blk c) ev)
        | None \<Rightarrow> Some (None, ev)
      }
      else Some (None, ev))"

definition m_eq :: "runner \<Rightarrow> builtins \<Rightarrow> meth" where
  "m_eq K B c ev =
     (case arg c 0 of
        None \<Rightarrow> give val_false ev
      | Some v \<Rightarrow> or_method (or_handler (own_operator K ''=='') (ask_object K B) c ev) (give_equal K v True c))"

definition m_neq :: "runner \<Rightarrow> builtins \<Rightarrow> meth" where
  "m_neq K B c ev =
     (case arg c 0 of
        None \<Rightarrow> give val_true ev
      | Some v \<Rightarrow> or_method (or_handler (own_operator K ''!='') (ask_object K B) c ev) (\<lambda>ev.
          if is_object (c_recv c) then do {
            (r, ev) \<leftarrow> k_dispatch K (c_env c) (c_recv c) ''=='' (c_args c) (c_blk c) (c_site c)
              (c_public c) (c_explicit c) ev;
            if \<not> val_is_signal r then give (val_bool (\<not> val_truthy r)) ev
            else give_equal K v False c (forget_error ev)
          }
          else give_equal K v False c ev))"

text \<open>\<open>===\<close> of a proc calls it.\<close>

definition m_case_eq :: "runner \<Rightarrow> builtins \<Rightarrow> meth" where
  "m_case_eq K B c ev =
     (case arg c 0 of
        None \<Rightarrow> give val_false ev
      | Some v \<Rightarrow>
          if is_block (c_recv c) then do {
            (r, ev) \<leftarrow> call_block K (c_recv c) (c_args c) (c_site c) ev;
            give (if val_is_signal r then r else val_bool (val_truthy r)) ev
          }
          else or_method (or_handler (own_operator K ''==='') (ask_object K B) c ev) (give_equal K v True c))"

subsection \<open>Hashes of contents\<close>

definition fnv_mix :: "u64 \<Rightarrow> u64 \<Rightarrow> u64" where
  "fnv_mix x h = (h XOR x) * 1099511628211"

definition fnv_start :: u64 where "fnv_start = 14695981039346656037"

definition fnv_text :: "string \<Rightarrow> u64 \<Rightarrow> u64" where
  "fnv_text s h = foldl (\<lambda>h ch. fnv_mix (of_char ch) h) h (cstr s)"

fun fnv_all :: "('a \<Rightarrow> u64 option) \<Rightarrow> 'a list \<Rightarrow> u64 \<Rightarrow> u64 option" where
  "fnv_all f [] h = Some h"
| "fnv_all f (x # xs) h = Option.bind (f x) (\<lambda>y. fnv_all f xs (fnv_mix y h))"

text \<open>
  Below 17 levels a value counts as 0. The member of the union read for \<open>false\<close> was not set in full;
  the addresses of classes, ranges, blocks and methods are not modelled.
\<close>

definition hash_step :: "runner \<Rightarrow> eval \<Rightarrow> (rvalue \<Rightarrow> u64 option) \<Rightarrow> rvalue \<Rightarrow> u64 option" where
  "hash_step K ev rec v =
     (let text = \<lambda>p. fnv_text (deref_str (ev_heap ev) p) (fnv_mix (word_of_nat (kind_no v)) fnv_start)
      in map_option (drop_bit 1) (case v_data v of
           VAL_NIL \<Rightarrow> Some (fnv_mix 1 fnv_start)
         | VAL_BOOL b \<Rightarrow> if b \<noteq> 0 then Some (fnv_mix 3 fnv_start) else None
         | VAL_INT i \<Rightarrow> Some (fnv_mix i fnv_start)
         | VAL_FLOAT f \<Rightarrow> Some (fnv_mix f fnv_start)
         | VAL_SYMBOL p \<Rightarrow> Some (text p)
         | VAL_STRING p \<Rightarrow> Some (text p)
         | VAL_ARRAY None \<Rightarrow> Some fnv_start
         | VAL_ARRAY (Some p) \<Rightarrow> fnv_all rec (array_elems p ev) (fnv_mix 100 fnv_start)
         | VAL_HASH None \<Rightarrow> Some fnv_start
         | VAL_HASH (Some p) \<Rightarrow>
             fnv_all rec (concat (map (\<lambda>(k, v). [k, v]) (hash_pairs p ev))) (fnv_mix 200 fnv_start)
         | VAL_OBJECT p \<Rightarrow> Some (fnv_mix (k_addr K p) fnv_start)
         | _ \<Rightarrow> None))"

primrec val_content_hash :: "nat \<Rightarrow> runner \<Rightarrow> eval \<Rightarrow> rvalue \<Rightarrow> u64 option" where
  "val_content_hash 0 K ev = (\<lambda>v. Some 0)"
| "val_content_hash (Suc n) K ev = hash_step K ev (val_content_hash n K ev)"

definition m_hash :: "runner \<Rightarrow> builtins \<Rightarrow> meth" where
  "m_hash K B c ev =
     or_method (ask_object K B c ev) (\<lambda>ev. ev_int ev
       (case v_data (c_recv c) of
          VAL_OBJECT p \<Rightarrow> Some (k_addr K p)
        | _ \<Rightarrow> val_content_hash 17 K ev (c_recv c)))"

definition m_object_id :: "runner \<Rightarrow> builtins \<Rightarrow> meth" where
  "m_object_id K B c ev =
     (case v_data (c_recv c) of
        VAL_OBJECT p \<Rightarrow> give (val_int (k_addr K p)) ev
      | VAL_INT i \<Rightarrow> ev_int ev (Option.bind (mul64 i 2) (\<lambda>d. add64 d 1))
      | VAL_SYMBOL p \<Rightarrow> give (val_int (drop_bit 1 (fnv_text (deref_str (ev_heap ev) p) fnv_start))) ev
      | _ \<Rightarrow> answer (B B_ADDRESS K c ev))"

subsection \<open>Freezing and copying\<close>

definition m_freeze :: meth where
  "m_freeze c ev =
     (let v = c_recv c
      in case v_data v of
           VAL_OBJECT p \<Rightarrow> give v (set_heap (\<lambda>h. h\<lparr>h_objects := (h_objects h)[p :=
             (h_objects h ! p)\<lparr>ro_frozen := 1\<rparr>]\<rparr>) ev)
         | VAL_ARRAY (Some p) \<Rightarrow> give v (set_array p (\<lambda>a. a\<lparr>ra_frozen := 1\<rparr>) ev)
         | VAL_HASH (Some p) \<Rightarrow> give v (set_heap (set_hash p ((hash_at p ev)\<lparr>rh_frozen := 1\<rparr>)) ev)
         | VAL_ARRAY None \<Rightarrow> None | VAL_HASH None \<Rightarrow> None
         | _ \<Rightarrow> give (v\<lparr>v_frozen := 1\<rparr>) ev)"

definition is_frozen :: "rvalue \<Rightarrow> eval \<Rightarrow> bool option" where
  "is_frozen v ev =
     (case v_data v of
        VAL_OBJECT p \<Rightarrow> do {
          rational \<leftarrow> class_named v ''Rational'' ev;
          cplx \<leftarrow> class_named v ''Complex'' ev;
          Some (rational \<or> cplx \<or> ro_frozen (obj_at p ev) \<noteq> 0)
        }
      | VAL_ARRAY (Some p) \<Rightarrow> Some (ra_frozen (h_arrays (ev_heap ev) ! p) \<noteq> 0)
      | VAL_HASH (Some p) \<Rightarrow> Some (rh_frozen (hash_at p ev) \<noteq> 0)
      | VAL_ARRAY None \<Rightarrow> None | VAL_HASH None \<Rightarrow> None
      | VAL_INT _ \<Rightarrow> Some True | VAL_FLOAT _ \<Rightarrow> Some True | VAL_SYMBOL _ \<Rightarrow> Some True
      | VAL_NIL \<Rightarrow> Some True | VAL_BOOL _ \<Rightarrow> Some True
      | _ \<Rightarrow> Some (v_frozen v \<noteq> 0))"

definition m_frozen_p :: meth where
  "m_frozen_p c ev = map_option (\<lambda>b. (val_bool b, ev)) (is_frozen (c_recv c) ev)"

definition clone_singleton_env :: "ptr option \<Rightarrow> eval \<Rightarrow> ptr option \<times> eval" where
  "clone_singleton_env src ev =
     (case src of
        None \<Rightarrow> (None, ev)
      | Some p \<Rightarrow>
          (let (copy, ev) = new_env None True ev
           in (Some copy, fold (\<lambda>(n, v). define_var copy n v) (e_vars (ev_envs ev ! p)) ev)))"

text \<open>A clone also copies the singleton methods and whether the value is frozen.\<close>

definition copy_object :: "bool \<Rightarrow> ptr \<Rightarrow> eval \<Rightarrow> rvalue \<times> eval" where
  "copy_object is_clone p ev =
     (let src = obj_at p ev;
          (copy, ev) = on_heap (val_object (ro_klass src)) ev;
          ev = fold (\<lambda>(n, v). set_ivar copy n v) (ro_ivars src) ev;
          (env, ev) = (if is_clone then clone_singleton_env (ro_singleton_env src) ev else (None, ev))
      in (copy, case v_data copy of
            VAL_OBJECT q \<Rightarrow> set_heap (\<lambda>h. h\<lparr>h_objects := (h_objects h)[q :=
              (h_objects h ! q)\<lparr>ro_native := ro_native src, ro_singleton_env := env,
                ro_frozen := of_bool (is_clone \<and> ro_frozen src \<noteq> 0)\<rparr>]\<rparr>) ev
          | _ \<Rightarrow> ev))"

definition copy_hash :: "runner \<Rightarrow> bool \<Rightarrow> ptr \<Rightarrow> eval \<Rightarrow> rvalue run" where
  "copy_hash K is_clone p ev = do {
     let src = hash_at p ev;
     let (copy, ev) = on_heap (val_hash_new_with_defaults (rh_default_value src) (rh_default_proc src)) ev;
     q \<leftarrow> hash_ptr copy;
     let ev = set_heap (set_hash q ((hash_at q ev)\<lparr>rh_by_identity := rh_by_identity src\<rparr>)) ev;
     ev \<leftarrow> each (\<lambda>(k, v). store_pair K copy k v) (hash_pairs p ev) ev;
     if is_clone then
       (let (env, ev) = clone_singleton_env (rh_singleton_env src) ev
        in give copy (set_heap (set_hash q
          ((hash_at q ev)\<lparr>rh_frozen := rh_frozen src, rh_singleton_env := env\<rparr>)) ev))
     else give copy ev
   }"

definition copy_array :: "bool \<Rightarrow> ptr \<Rightarrow> eval \<Rightarrow> rvalue run" where
  "copy_array is_clone p ev = do {
     let src = h_arrays (ev_heap ev) ! p;
     let (copy, ev) = new_array (ra_elems src) ev;
     q \<leftarrow> array_ptr copy;
     if is_clone then
       (let (env, ev) = clone_singleton_env (ra_singleton_env src) ev
        in give copy (set_array q (\<lambda>a. a\<lparr>ra_frozen := ra_frozen src, ra_singleton_env := env\<rparr>) ev))
     else give copy ev
   }"

definition copy_string :: "bool \<Rightarrow> rvalue \<Rightarrow> eval \<Rightarrow> rvalue run" where
  "copy_string is_clone v ev =
     (let (copy, ev) = on_heap (val_string (sval_text v ev)) ev
      in give (copy\<lparr>v_encoding := v_encoding v, v_frozen := (if is_clone then v_frozen v else 0)\<rparr>) ev)"

definition m_copy :: "runner \<Rightarrow> meth" where
  "m_copy K c ev =
     (let is_clone = streq (c_name c) ''clone''
      in case v_data (c_recv c) of
           VAL_OBJECT p \<Rightarrow> Some (copy_object is_clone p ev)
         | VAL_HASH (Some p) \<Rightarrow> copy_hash K is_clone p ev
         | VAL_ARRAY (Some p) \<Rightarrow> copy_array is_clone p ev
         | VAL_STRING _ \<Rightarrow> copy_string is_clone (c_recv c) ev
         | VAL_HASH None \<Rightarrow> None | VAL_ARRAY None \<Rightarrow> None
         | _ \<Rightarrow> give (c_recv c) ev)"

end
