(* ===== verification/EvalSingle.thy ===== *)
theory EvalSingle
  imports EvalObject
begin

section \<open>Built-in methods: variables, singletons and blocks (src/eval_dispatch.c)\<close>

subsection \<open>Instance variables\<close>

definition strip_at :: "string \<Rightarrow> string" where
  "strip_at s = (case s of ch # t \<Rightarrow> if ch = CHR ''@'' then t else s | [] \<Rightarrow> s)"

definition ivar_key :: "string \<Rightarrow> string" where "ivar_key name = CHR ''@'' # name"

text \<open>The variables of a class are entries of its environment, looked up along the parents.\<close>

definition class_env_of :: "rvalue \<Rightarrow> eval \<Rightarrow> ptr option" where
  "class_env_of v ev =
     (case v_data v of VAL_CLASS k \<Rightarrow> rc_class_env (klass_of k ev) | _ \<Rightarrow> None)"

definition ivar_lookup :: "rvalue \<Rightarrow> string \<Rightarrow> eval \<Rightarrow> rvalue option option" where
  "ivar_lookup recv name ev =
     (if is_object recv then Some (get_ivar recv name ev)
      else case class_env_of recv ev of
        Some e \<Rightarrow> lookup (Some e) (ivar_key name) ev
      | None \<Rightarrow> Some None)"

definition with_ivar_name :: "call \<Rightarrow> (string \<Rightarrow> eval \<Rightarrow> rvalue run) \<Rightarrow> eval \<Rightarrow> rvalue run" where
  "with_ivar_name c f ev =
     (case name_arg c 0 ev of
        None \<Rightarrow> raise_at c ''TypeError'' (c_name c @ '' requires a Symbol or String'') ev
      | Some raw \<Rightarrow> f (strip_at raw) ev)"

definition m_ivar_get :: meth where
  "m_ivar_get c ev =
     (if c_args c = [] then wrong_args c ev
      else with_ivar_name c (\<lambda>name ev.
        map_option (\<lambda>found. (or_nil found, ev)) (ivar_lookup (c_recv c) name ev)) ev)"

definition m_ivar_set :: meth where
  "m_ivar_set c ev =
     (case arg c 1 of
        None \<Rightarrow> wrong_args c ev
      | Some v \<Rightarrow> with_ivar_name c (\<lambda>name ev.
          case v_data (c_recv c) of
            VAL_OBJECT p \<Rightarrow>
              if ro_frozen (obj_at p ev) \<noteq> 0 then do {
                kname \<leftarrow> (case object_class (c_recv c) ev of
                    Some k \<Rightarrow> rc_name (klass_of k ev) | None \<Rightarrow> Some ''Object'');
                raise_at c ''FrozenError'' (''can't modify frozen '' @ kname @ '': '' @ name) ev
              }
              else give v (set_ivar (c_recv c) name v ev)
          | _ \<Rightarrow>
              (case class_env_of (c_recv c) ev of
                 Some e \<Rightarrow> give v (define_var e (ivar_key name) v ev)
               | None \<Rightarrow> give val_nil ev)) ev)"

definition m_ivar_defined :: meth where
  "m_ivar_defined c ev =
     (if c_args c = [] then wrong_args c ev
      else case name_arg c 0 ev of
        None \<Rightarrow> give val_false ev
      | Some raw \<Rightarrow>
          map_option (\<lambda>found. (val_bool (found \<noteq> None), ev)) (ivar_lookup (c_recv c) (strip_at raw) ev))"

text \<open>Names of symbols that are in an array already are not added again.\<close>

definition push_symbol :: "rvalue \<Rightarrow> string \<Rightarrow> eval \<Rightarrow> eval" where
  "push_symbol arr name ev = (let (s, ev) = new_symbol name ev in push_value arr s ev)"

definition give_symbols :: "string list \<Rightarrow> eval \<Rightarrow> rvalue run" where
  "give_symbols names ev = (let (arr, ev) = new_array [] ev in give arr (fold (push_symbol arr) names ev))"

definition add_names :: "string list \<Rightarrow> string list \<Rightarrow> string list" where
  "add_names names arr = fold (\<lambda>n arr. if named n arr then arr else arr @ [n]) names arr"

definition m_ivars :: meth where
  "m_ivars c ev =
     (case v_data (c_recv c) of
        VAL_OBJECT p \<Rightarrow>
          give_symbols (map ivar_key (filter (\<lambda>n. take 1 (cstr n) \<noteq> ''_'') (map fst (ro_ivars (obj_at p ev))))) ev
      | _ \<Rightarrow> give_symbols [] ev)"

subsection \<open>Singleton classes\<close>

definition singleton_class_of :: "rvalue \<Rightarrow> ptr \<Rightarrow> eval \<Rightarrow> rvalue \<times> eval" where
  "singleton_class_of v p ev =
     (case get_ivar v ''__sclass__'' ev of
        Some s \<Rightarrow>
          if class_of s \<noteq> None then (s, ev)
          else (let (s, ev) = on_heap (val_class (Some ''#<Class:obj>'') (ro_klass (obj_at p ev))) ev
                in (s, set_ivar v ''__sclass__'' s ev))
      | None \<Rightarrow>
          (let (s, ev) = on_heap (val_class (Some ''#<Class:obj>'') (ro_klass (obj_at p ev))) ev
           in (s, set_ivar v ''__sclass__'' s ev)))"

definition m_singleton_class :: meth where
  "m_singleton_class c ev =
     (case v_data (c_recv c) of
        VAL_CLASS _ \<Rightarrow> do {
          (klass, ev) \<leftarrow> val_class_of (c_recv c) ev;
          let (proxy, ev) = on_heap (val_object klass) ev;
          give proxy (set_ivar proxy ''__singleton_of__'' (c_recv c) ev)
        }
      | VAL_OBJECT p \<Rightarrow> Some (singleton_class_of (c_recv c) p ev)
      | _ \<Rightarrow> val_class_of (c_recv c) ev)"

definition entries_at :: "ptr option \<Rightarrow> eval \<Rightarrow> rvalue entries" where
  "entries_at e ev = (case e of Some p \<Rightarrow> e_vars (ev_envs ev ! p) | None \<Rightarrow> [])"

definition is_self_name :: "string \<Rightarrow> bool" where "is_self_name n \<longleftrightarrow> take 5 (cstr n) = ''self.''"

definition module_methods :: "ptr \<Rightarrow> eval \<Rightarrow> rvalue entries" where
  "module_methods m ev =
     filter (\<lambda>(n, v). \<not> streq n ''self'' \<and> is_method v \<and> \<not> is_self_name n)
       (entries_at (rc_class_env (klass_of m ev)) ev)"

definition copy_module_methods :: "ptr \<Rightarrow> ptr \<Rightarrow> bool \<Rightarrow> eval \<Rightarrow> eval" where
  "copy_module_methods target m singleton_prefix ev =
     fold (\<lambda>(n, v). define_var target (if singleton_prefix then self_key (cstr n) else n) v)
       (module_methods m ev) ev"

text \<open>The modules given to \<open>extend\<close>; \<open>None\<close> when one of the arguments is no module.\<close>

fun module_args :: "rvalue list \<Rightarrow> eval \<Rightarrow> ptr list option" where
  "module_args [] ev = Some []"
| "module_args (v # vs) ev =
     (case class_of v of
        None \<Rightarrow> None
      | Some k \<Rightarrow>
          if rc_is_module (klass_of k ev) = 0 then None
          else map_option (\<lambda>ks. k # ks) (module_args vs ev))"

definition mix_in :: "rvalue \<Rightarrow> ptr list \<Rightarrow> eval \<Rightarrow> eval" where
  "mix_in self mods ev =
     (case v_data self of
        VAL_CLASS k \<Rightarrow> fold (\<lambda>m. set_heap (extend_module m k)) mods ev
      | _ \<Rightarrow>
          (let ev = (case open_singleton_env self ev of
                 None \<Rightarrow> ev | Some (e, ev) \<Rightarrow> fold (\<lambda>m. copy_module_methods e m False) mods ev)
           in case v_data self of
                VAL_OBJECT p \<Rightarrow>
                  (let (s, ev) = singleton_class_of self p ev
                   in case class_of s of
                        Some k \<Rightarrow> fold (\<lambda>m. set_heap (include_module m k)) mods ev | None \<Rightarrow> ev)
              | _ \<Rightarrow> ev))"

definition fire_extended :: "runner \<Rightarrow> call \<Rightarrow> rvalue \<Rightarrow> rvalue \<Rightarrow> eval \<Rightarrow> eval option" where
  "fire_extended K c self v ev =
     (case lookup_own (class_env_of v ev) (self_key ''extended'') ev of
        None \<Rightarrow> Some ev
      | Some hook \<Rightarrow>
          if is_method hook then
            map_option snd
              (call_method_value K v hook (class_of v) ''extended'' [self] None (c_site c) ev)
          else Some ev)"

definition builtin_extend :: "runner \<Rightarrow> rvalue \<Rightarrow> meth" where
  "builtin_extend K self c ev =
     (case module_args (c_args c) ev of
        None \<Rightarrow> raise_at c ''TypeError'' ''extend requires a Module'' ev
      | Some mods \<Rightarrow> do {
          ev \<leftarrow> each (fire_extended K c self) (c_args c) (mix_in self mods ev);
          give self ev
        })"

text \<open>A method made of a block.\<close>

definition block_method :: "rvalue \<Rightarrow> rvalue option" where
  "block_method b =
     (case v_data b of
        VAL_BLOCK nd closure _ _ file \<Rightarrow> Some (val_method nd closure METHOD_PUBLIC file) | _ \<Rightarrow> None)"

definition class_env_made :: "ptr option \<Rightarrow> ptr \<Rightarrow> eval \<Rightarrow> ptr \<times> eval" where
  "class_env_made parent k ev =
     (case rc_class_env (klass_of k ev) of
        Some e \<Rightarrow> (e, ev)
      | None \<Rightarrow>
          (let (e, ev) = new_env parent True ev
           in (e, set_heap (update_class (\<lambda>r. r\<lparr>rc_class_env := Some e\<rparr>) k) ev)))"

definition m_define_singleton_method :: meth where
  "m_define_singleton_method c ev =
     (case (name_arg c 0 ev, c_blk c) of
        (Some name, Some b) \<Rightarrow> do {
          m \<leftarrow> block_method (value_at b ev);
          let ev = (case v_data (c_recv c) of
              VAL_CLASS k \<Rightarrow> (let (e, ev) = class_env_made None k ev in define_var e (self_key name) m ev)
            | _ \<Rightarrow> (case open_singleton_env (c_recv c) ev of
                       Some (e, ev) \<Rightarrow> define_var e name m ev | None \<Rightarrow> ev));
          Some (new_symbol name ev)
        }
      | _ \<Rightarrow> give val_nil ev)"

subsection \<open>Listings\<close>

definition collect_extended :: "ptr \<Rightarrow> int \<Rightarrow> eval \<Rightarrow> string list \<Rightarrow> string list option" where
  "collect_extended k vis_mask ev names =
     map_option fst (each (collect_all_instance_methods (ev_heap ev) (ev_envs ev) vis_mask)
       (rc_extended (klass_of k ev)) (names, []))"

definition self_names :: "int \<Rightarrow> rvalue entries \<Rightarrow> string list" where
  "self_names vis_mask es =
     map (\<lambda>(n, v). drop 5 (cstr n))
       (filter (\<lambda>(n, v). is_self_name n \<and>
          (case v_data v of VAL_METHOD _ _ vis _ \<Rightarrow> vis_matches vis_mask vis | _ \<Rightarrow> False)) es)"

definition method_names :: "int \<Rightarrow> rvalue entries \<Rightarrow> string list" where
  "method_names vis_mask es =
     map fst (filter (\<lambda>(n, v).
       case v_data v of VAL_METHOD _ _ vis _ \<Rightarrow> vis_matches vis_mask vis | _ \<Rightarrow> False) es)"

text \<open>The class and its superclasses; \<open>on k\<close> goes on to the superclass of \<open>k\<close>.\<close>

partial_function (option) class_walk ::
  "heap \<Rightarrow> ptr option \<Rightarrow> (ptr \<Rightarrow> bool) \<Rightarrow> (ptr \<Rightarrow> string list \<Rightarrow> string list option) \<Rightarrow> string list \<Rightarrow>
     string list option" where
  "class_walk h klass on f names =
     (case klass of
        None \<Rightarrow> Some names
      | Some k \<Rightarrow>
          Option.bind (f k names) (\<lambda>names.
            if on k then class_walk h (superclass h k) on f names else Some names))"

definition listed ::
  "(string list \<times> string list) list \<Rightarrow> ptr \<Rightarrow> eval \<Rightarrow> string list \<Rightarrow> string list option" where
  "listed tab k ev names =
     map_option (\<lambda>n. case list_for tab n of Some ns \<Rightarrow> add_names ns names | None \<Rightarrow> names)
       (rc_name (klass_of k ev))"

definition own_class_methods ::
  "int \<Rightarrow> ptr \<Rightarrow> eval \<Rightarrow> string list \<Rightarrow> string list option" where
  "own_class_methods vis_mask k ev names =
     collect_extended k vis_mask ev
       (add_names (self_names vis_mask (entries_at (rc_class_env (klass_of k ev)) ev)) names)"

definition include_super :: "call \<Rightarrow> bool" where
  "include_super c = (case arg c 0 of Some v \<Rightarrow> val_truthy v | None \<Rightarrow> True)"

definition m_singleton_methods :: meth where
  "m_singleton_methods c ev = do {
     let own = add_names (method_names 7 (entries_at (singleton_env_of (c_recv c) ev) ev)) [];
     names \<leftarrow> (case v_data (c_recv c) of
         VAL_CLASS k \<Rightarrow> class_walk (ev_heap ev) (Some k) (\<lambda>k. include_super c)
           (\<lambda>k names. do {
              names \<leftarrow> collect_extended k 1 ev
                (add_names (self_names 7 (entries_at (rc_class_env (klass_of k ev)) ev)) names);
              listed primitive_class_method_lists k ev names
            }) own
       | _ \<Rightarrow> Some own);
     give_symbols names ev
   }"

text \<open>\<open>methods\<close> and its variants for one visibility.\<close>

definition vis_mask_of :: "string \<Rightarrow> int" where
  "vis_mask_of name =
     (if streq name ''public_methods'' then 1
      else if streq name ''private_methods'' then 4
      else if streq name ''protected_methods'' then 2 else 3)"

definition class_listing :: "int \<Rightarrow> bool \<Rightarrow> ptr \<Rightarrow> eval \<Rightarrow> string list \<Rightarrow> string list option" where
  "class_listing vmask all k ev names = do {
     names \<leftarrow> class_walk (ev_heap ev) (Some k) (\<lambda>k. all) (\<lambda>k. own_class_methods vmask k ev) names;
     if all \<and> bit vmask 0
     then class_walk (ev_heap ev) (Some k) (\<lambda>k. True) (\<lambda>k. listed primitive_class_method_lists k ev) names
     else Some names
   }"

definition instance_listing :: "int \<Rightarrow> bool \<Rightarrow> ptr \<Rightarrow> eval \<Rightarrow> string list \<Rightarrow> string list option" where
  "instance_listing vmask all k ev names = do {
     names \<leftarrow> (if all then map_option fst
         (collect_all_instance_methods (ev_heap ev) (ev_envs ev) vmask k (names, []))
       else Some (collect_own_instance_methods vmask
         (entries_at (rc_class_env (klass_of k ev)) ev) names));
     if all \<and> bit vmask 0
     then class_walk (ev_heap ev) (Some k) (\<lambda>k. True) (\<lambda>k. listed primitive_method_lists k ev) names
     else Some names
   }"

definition probe_names :: "rvalue \<Rightarrow> string list" where
  "probe_names v =
     (case v_data v of
        VAL_INT _ \<Rightarrow> probe_int | VAL_FLOAT _ \<Rightarrow> probe_float | VAL_STRING _ \<Rightarrow> probe_str
      | VAL_ARRAY _ \<Rightarrow> probe_arr | VAL_HASH _ \<Rightarrow> probe_hash | VAL_SYMBOL _ \<Rightarrow> probe_sym | _ \<Rightarrow> [])"

definition m_methods :: meth where
  "m_methods c ev = do {
     let all = include_super c;
     let vmask = vis_mask_of (c_name c);
     let own = add_names (method_names vmask (entries_at (singleton_env_of (c_recv c) ev) ev)) [];
     names \<leftarrow> (case (v_data (c_recv c), object_class (c_recv c) ev) of
         (VAL_CLASS k, _) \<Rightarrow> class_listing vmask all k ev own
       | (VAL_OBJECT p, Some k) \<Rightarrow> instance_listing vmask all k ev own
       | _ \<Rightarrow> Some own);
     give_symbols (if all \<and> bit vmask 0
       then add_names (probe_names (c_recv c)) (add_names obj_builtins names) else names) ev
   }"

subsection \<open>Method objects\<close>

definition found_method :: "rvalue \<Rightarrow> string \<Rightarrow> eval \<Rightarrow> (rvalue \<times> ptr option) option run" where
  "found_method recv name ev = do {
     own \<leftarrow> (case singleton_env_of recv ev of Some e \<Rightarrow> method_var e name ev | None \<Rightarrow> Some None);
     case (own, v_data recv, object_class recv ev) of
       (Some m, _, _) \<Rightarrow> Some (Some (m, None), ev)
     | (None, VAL_OBJECT _, None) \<Rightarrow> Some (None, ev)
     | (None, VAL_OBJECT _, Some k) \<Rightarrow> map_option (\<lambda>m. (m, ev)) (instance_method k name ev)
     | (None, VAL_CLASS k, _) \<Rightarrow> map_option (\<lambda>m. (m, ev)) (class_method k name ev)
     | _ \<Rightarrow> map_option (\<lambda>(m, ev). (case m of
           Some (m, owner) \<Rightarrow> if is_method m then Some (m, owner) else None | None \<Rightarrow> None, ev))
         (class_hook recv name ev)
   }"

text \<open>The owner is looked up again by its name.\<close>

definition owner_of :: "ptr option \<Rightarrow> eval \<Rightarrow> rvalue option" where
  "owner_of owner ev =
     (case Option.bind owner (\<lambda>k. rc_name (klass_of k ev)) of
        None \<Rightarrow> Some val_nil | Some n \<Rightarrow> lookup_nil (Some (ev_top_env ev)) n ev)"

definition method_object ::
  "rvalue \<Rightarrow> string \<Rightarrow> rvalue \<Rightarrow> rvalue \<Rightarrow> rvalue \<Rightarrow> eval \<Rightarrow> rvalue \<times> eval" where
  "method_object klass name recv m owner ev =
     (let (obj, ev) = on_heap (val_object klass) ev;
          ev = set_ivar obj ''__receiver__'' recv ev;
          (text, ev) = new_string name ev;
          ev = set_ivar obj ''__method_name__'' text ev;
          ev = set_ivar obj ''__method__'' m ev;
          ev = (if class_of owner \<noteq> None then set_ivar obj ''__owner__'' owner ev else ev);
          has_node = (case v_data m of VAL_METHOD (Some nd) _ _ _ \<Rightarrow> True | _ \<Rightarrow> False)
      in (obj, if has_node then ev
               else set_ivar obj ''__native_arity__'' (val_int (word_of_int (builtin_method_arity name))) ev))"

definition make_method_object :: "rvalue \<Rightarrow> string \<Rightarrow> eval \<Rightarrow> rvalue run" where
  "make_method_object recv name ev = do {
     (found, ev) \<leftarrow> found_method recv name ev;
     owner \<leftarrow> owner_of (Option.bind found snd) ev;
     (owner, ev) \<leftarrow> (if class_of owner = None then val_class_of recv ev else Some (owner, ev));
     klass \<leftarrow> top_class ''Method'' ev;
     case klass of
       None \<Rightarrow> give val_nil ev
     | Some klass \<Rightarrow>
         Some (method_object klass name recv (case found of Some (m, k) \<Rightarrow> m | None \<Rightarrow> val_nil) owner ev)
   }"

definition m_method :: "runner \<Rightarrow> meth" where
  "m_method K c ev =
     (if c_args c = [] then wrong_args c ev
      else case name_arg c 0 ev of
        None \<Rightarrow> raise_at c ''TypeError'' ''expected Symbol or String'' ev
      | Some name \<Rightarrow> do {
          (known, ev) \<leftarrow> val_responds_to (c_recv c) name True ev;
          (answered, ev) \<leftarrow> (if known then give val_true ev else dispatch_respond_to_missing K c name True ev);
          if val_is_signal answered then give answered ev
          else if \<not> val_truthy answered then do {
            kname \<leftarrow> prim_class_name (ev_heap ev) (c_recv c);
            raise_at c ''NameError''
              (''undefined method '' @ in_quotes name @ '' for class '' @ in_quotes kname) ev
          }
          else make_method_object (c_recv c) name ev
        })"

subsection \<open>Blocks run for a value\<close>

definition no_block :: "call \<Rightarrow> string \<Rightarrow> eval \<Rightarrow> rvalue run" where
  "no_block c msg = raise_at c ''LocalJumpError'' msg"

definition m_tap :: "runner \<Rightarrow> meth" where
  "m_tap K c ev =
     (case c_blk c of
        None \<Rightarrow> no_block c ''no block given'' ev
      | Some b \<Rightarrow> do {
          (r, ev) \<leftarrow> yield_to K c b [c_recv c] ev;
          give (if val_is_signal r then r else c_recv c) ev
        })"

definition m_then :: "runner \<Rightarrow> meth" where
  "m_then K c ev =
     (case c_blk c of None \<Rightarrow> no_block c ''no block given'' ev | Some b \<Rightarrow> yield_to K c b [c_recv c] ev)"

definition block_closure :: "rvalue \<Rightarrow> ptr option option" where
  "block_closure b = (case v_data b of VAL_BLOCK _ closure _ _ _ \<Rightarrow> Some closure | _ \<Rightarrow> None)"

definition with_closure :: "rvalue \<Rightarrow> ptr \<Rightarrow> rvalue" where
  "with_closure b e =
     (case v_data b of
        VAL_BLOCK nd _ is_lambda is_proc file \<Rightarrow>
          b\<lparr>v_data := VAL_BLOCK nd (Some e) is_lambda is_proc file\<rparr>
      | _ \<Rightarrow> b)"

text \<open>The block runs in a new environment, inside its own, whose \<open>self\<close> is the receiver.\<close>

definition run_with_self ::
  "runner \<Rightarrow> call \<Rightarrow> rvalue \<Rightarrow> rvalue option \<Rightarrow> rvalue list \<Rightarrow> eval \<Rightarrow> rvalue run" where
  "run_with_self K c b target args ev = do {
     closure \<leftarrow> block_closure b;
     let (e, ev) = new_env closure False ev;
     let ev = define_var e ''self'' (c_recv c) ev;
     let ev = (case target of Some t \<Rightarrow> define_var e ''__singleton_target__'' t ev | None \<Rightarrow> ev);
     call_block K (with_closure b e) args (c_site c) ev
   }"

definition m_instance_eval :: "runner \<Rightarrow> builtins \<Rightarrow> meth" where
  "m_instance_eval K B c ev =
     (case (c_blk c, map_option is_string (arg c 0)) of
        (Some b, _) \<Rightarrow>
          run_with_self K c (value_at b ev)
            (if streq (c_name c) ''instance_eval'' \<and> is_object (c_recv c) then Some (c_recv c)
             else if class_of (c_recv c) \<noteq> None then Some val_nil else None) [c_recv c] ev
      | (None, Some True) \<Rightarrow> answer (B B_EVAL K c ev)
      | _ \<Rightarrow> give val_nil ev)"

definition m_instance_exec :: "runner \<Rightarrow> meth" where
  "m_instance_exec K c ev =
     (case c_blk c of
        None \<Rightarrow> no_block c ''no block given (instance_exec)'' ev
      | Some b \<Rightarrow> run_with_self K c (value_at b ev) None (c_args c) ev)"

end
