(* ===== verification/EvalClass.thy ===== *)
theory EvalClass
  imports EvalSingle
begin

section \<open>Built-in methods of classes and modules (dispatch_class of src/eval_dispatch_objects.c)\<close>

definition give_nil :: meth where "give_nil c = give val_nil"

definition class_value :: "ptr \<Rightarrow> rvalue" where "class_value k = mk_val (VAL_CLASS k)"

definition needs_name :: "call \<Rightarrow> (string \<Rightarrow> eval \<Rightarrow> rvalue run) \<Rightarrow> eval \<Rightarrow> rvalue run" where
  "needs_name c f ev =
     (if c_args c = [] then wrong_args c ev
      else case name_arg c 0 ev of
        None \<Rightarrow> raise_at c ''TypeError'' ''expected Symbol or String'' ev
      | Some name \<Rightarrow> f name ev)"

definition nil_without_name :: "call \<Rightarrow> (string \<Rightarrow> eval \<Rightarrow> rvalue run) \<Rightarrow> eval \<Rightarrow> rvalue run" where
  "nil_without_name c f ev =
     (case name_arg c 0 ev of None \<Rightarrow> give val_nil ev | Some name \<Rightarrow> f name ev)"

subsection \<open>Methods of a class\<close>

definition k_case_eq :: "rvalue \<Rightarrow> meth" where
  "k_case_eq klass c ev =
     (case arg c 0 of
        None \<Rightarrow> give val_false ev
      | Some v \<Rightarrow> map_option (\<lambda>b. (val_bool b, ev)) (val_is_a (ev_heap ev) v klass))"

text \<open>The block of \<open>define_method\<close>: the second argument, or the block of the call.\<close>

definition method_block_arg :: "call \<Rightarrow> eval \<Rightarrow> rvalue" where
  "method_block_arg c ev =
     (case (arg c 1, c_blk c) of (Some v, _) \<Rightarrow> v | (None, Some b) \<Rightarrow> value_at b ev | _ \<Rightarrow> val_nil)"

definition singleton_target_is :: "ptr \<Rightarrow> ptr \<Rightarrow> eval \<Rightarrow> bool option" where
  "singleton_target_is env k ev =
     map_option (\<lambda>found. Option.bind found class_of = Some k) (lookup (Some env) ''__singleton_target__'' ev)"

definition k_define_method :: "ptr \<Rightarrow> meth" where
  "k_define_method k c ev =
     (if c_args c = [] \<or> 2 < length (c_args c) then wrong_args c ev
      else case name_arg c 0 ev of
        None \<Rightarrow> raise_at c ''TypeError'' ''expected Symbol or String'' ev
      | Some name \<Rightarrow>
          (case v_data (method_block_arg c ev) of
             VAL_BLOCK None _ _ _ _ \<Rightarrow> raise_at c ''ArgumentError'' ''define_method: nil block node'' ev
           | VAL_BLOCK nd closure _ _ file \<Rightarrow> do {
               vis \<leftarrow> visibility_at (c_env c) ev;
               single \<leftarrow> singleton_target_is (c_env c) k ev;
               e \<leftarrow> rc_class_env (klass_of k ev);
               Some (new_symbol name (define_var e (if single then self_key name else name)
                 (val_method nd closure vis file) ev))
             }
           | _ \<Rightarrow> raise_at c ''ArgumentError'' ''define_method requires a block or Proc'' ev))"

text \<open>What the hook raised is dropped.\<close>

definition fire_method_hook ::
  "runner \<Rightarrow> call \<Rightarrow> ptr \<Rightarrow> string \<Rightarrow> string \<Rightarrow> eval \<Rightarrow> eval option" where
  "fire_method_hook K c k hook name ev = do {
     found \<leftarrow> class_method k hook ev;
     if found = None then Some ev
     else do {
       let (sym, ev) = new_symbol name ev;
       (r, ev) \<leftarrow> call_on_value K c (c_recv c) hook [sym] 1 ev;
       Some (ev\<lparr>ev_current_exception := val_nil, ev_exception_class := None, ev_exception_msg := []\<rparr>)
     }
   }"

definition undef_one :: "runner \<Rightarrow> call \<Rightarrow> ptr \<Rightarrow> string \<Rightarrow> eval \<Rightarrow> (rvalue + unit) run" where
  "undef_one K c k name ev = do {
     e \<leftarrow> rc_class_env (klass_of k ev);
     ev \<leftarrow> fire_method_hook K c k ''method_undefined'' name
       (define_var e name (mk_val VAL_UNDEF_METHOD) ev);
     Some (Inr (), ev)
   }"

definition is_undef :: "rvalue \<Rightarrow> bool" where "is_undef v \<longleftrightarrow> v_data v = VAL_UNDEF_METHOD"

definition remove_one :: "runner \<Rightarrow> call \<Rightarrow> ptr \<Rightarrow> string \<Rightarrow> eval \<Rightarrow> (rvalue + unit) run" where
  "remove_one K c k name ev =
     (let e = rc_class_env (klass_of k ev)
      in case lookup_own e name ev of
           Some v \<Rightarrow>
             if is_undef v then do {
               kname \<leftarrow> rc_name (klass_of k ev);
               map_option (\<lambda>(r, ev). (Inl r, ev)) (raise_at c ''NameError''
                 (''method '' @ in_quotes name @ '' not defined in '' @ kname) ev)
             }
             else do {
               ev \<leftarrow> fire_method_hook K c k ''method_removed'' name
                 (ev\<lparr>ev_envs := snd (env_remove_own e name (ev_envs ev))\<rparr>);
               Some (Inr (), ev)
             }
         | None \<Rightarrow> do {
             kname \<leftarrow> rc_name (klass_of k ev);
             map_option (\<lambda>(r, ev). (Inl r, ev)) (raise_at c ''NameError''
               (''method '' @ in_quotes name @ '' not defined in '' @ kname) ev)
           })"

fun each_name ::
  "call \<Rightarrow> (string \<Rightarrow> eval \<Rightarrow> (rvalue + unit) run) \<Rightarrow> rvalue list \<Rightarrow> eval \<Rightarrow> rvalue run" where
  "each_name c f [] ev = give (c_recv c) ev"
| "each_name c f (v # vs) ev =
     (case sval_text v ev of
        None \<Rightarrow> raise_at c ''TypeError'' ''expected Symbol or String'' ev
      | Some name \<Rightarrow> do {
          (r, ev) \<leftarrow> f (cstr name) ev;
          case r of Inl v \<Rightarrow> give v ev | Inr _ \<Rightarrow> each_name c f vs ev
        })"

definition k_remove_methods :: "runner \<Rightarrow> ptr \<Rightarrow> meth" where
  "k_remove_methods K k c ev =
     (if c_args c = [] then wrong_args c ev
      else each_name c (if streq (c_name c) ''undef_method'' then undef_one K c k else remove_one K c k)
        (c_args c) ev)"

text \<open>A constant of a module is also one of its methods, unless a method of the module has the name.\<close>

definition module_constant :: "ptr \<Rightarrow> handler" where
  "module_constant k c ev =
     (case (rc_is_module (klass_of k ev) \<noteq> 0, rc_class_env (klass_of k ev)) of
        (True, Some e) \<Rightarrow> do {
          found \<leftarrow> lookup (Some e) (c_name c) ev;
          own \<leftarrow> method_var e (self_key (cstr (c_name c))) ev;
          Some (case (found, own) of
              (Some v, None) \<Rightarrow> if is_method v then None else Some v | _ \<Rightarrow> None, ev)
        }
      | _ \<Rightarrow> Some (None, ev))"

definition k_alias_method :: "ptr \<Rightarrow> meth" where
  "k_alias_method k c ev =
     (if length (c_args c) \<noteq> 2 then wrong_args c ev
      else case (name_arg c 0 ev, name_arg c 1 ev) of
        (Some new_name, Some old_name) \<Rightarrow> do {
          found \<leftarrow> instance_method k old_name ev;
          case found of
            None \<Rightarrow> raise_at c ''NameError'' (''undefined method '' @ in_quotes old_name @ '' for alias_method'') ev
          | Some (m, owner) \<Rightarrow> do {
              e \<leftarrow> rc_class_env (klass_of k ev);
              Some (new_symbol new_name (define_var e new_name m ev))
            }
        }
      | _ \<Rightarrow> raise_at c ''TypeError'' ''expected Symbol or String'' ev)"

subsection \<open>new\<close>

definition array_fill_turn ::
  "runner \<Rightarrow> call \<Rightarrow> rvalue \<Rightarrow> i64 \<Rightarrow> int \<Rightarrow> eval \<Rightarrow> (rvalue + int) run" where
  "array_fill_turn K c arr n i ev =
     (if i < sint n then do {
        (v, ev) \<leftarrow> (case c_blk c of
            Some b \<Rightarrow> yield_to K c b [val_int (word_of_int i)] ev
          | None \<Rightarrow> give (or_nil (arg c 1)) ev);
        if c_blk c \<noteq> None \<and> val_is_signal v then Some (Inl v, ev)
        else Some (Inr (i + 1), push_value arr v ev)
      }
      else Some (Inl arr, ev))"

definition new_array_of :: "runner \<Rightarrow> meth" where
  "new_array_of K c ev =
     (if 2 < length (c_args c) then wrong_args c ev
      else if c_args c = [] then Some (new_array [] ev)
      else case first_int c of
        None \<Rightarrow> raise_at c ''TypeError'' ''Array.new size must be an Integer'' ev
      | Some n \<Rightarrow>
          if sint n < 0 then raise_at c ''ArgumentError'' ''negative array size'' ev
          else (let (arr, ev) = new_array [] ev in run_loop (array_fill_turn K c arr n) 0 ev))"

definition new_hash_of :: meth where
  "new_hash_of c ev =
     Some (on_heap (val_hash_new_with_defaults (or_nil (arg c 0))
       (case c_blk c of Some b \<Rightarrow> value_at b ev | None \<Rightarrow> val_nil)) ev)"

definition string_arg :: "call \<Rightarrow> eval \<Rightarrow> string \<times> string_encoding" where
  "string_arg c ev =
     (case arg c 0 of
        Some v \<Rightarrow>
          (case v_data v of
             VAL_STRING p \<Rightarrow> (take (v_byte_len v) (deref_str (ev_heap ev) p), v_encoding v)
           | _ \<Rightarrow> ([], STRING_ENCODING_UTF8))
      | None \<Rightarrow> ([], STRING_ENCODING_UTF8))"

definition new_string_of :: meth where
  "new_string_of c ev =
     (let (s, enc) = string_arg c ev; (v, ev) = on_heap (val_string_n s) ev
      in give (v\<lparr>v_encoding := enc\<rparr>) ev)"

definition new_float_of :: meth where
  "new_float_of c ev =
     give (case map_option v_data (arg c 0) of
         Some (VAL_FLOAT f) \<Rightarrow> c_args c ! 0
       | Some (VAL_INT i) \<Rightarrow> val_float (dbl_of_int64 i)
       | _ \<Rightarrow> val_float 0) ev"

definition new_integer_of :: meth where
  "new_integer_of c ev = give (if first_int c = None then val_int 0 else c_args c ! 0) ev"

text \<open>An anonymous class or module; its block runs in a frame whose \<open>self\<close> is the class.\<close>

definition mark_class_scope :: "ptr \<Rightarrow> rvalue \<Rightarrow> eval \<Rightarrow> eval" where
  "mark_class_scope e klass ev =
     set_visibility_at e METHOD_PUBLIC (define_var e ''__singleton_target__'' val_nil
       (define_var e ''__class__'' klass (define_var e ''self'' klass ev)))"

definition run_class_block :: "runner \<Rightarrow> rvalue \<Rightarrow> rvalue \<Rightarrow> eval \<Rightarrow> rvalue run" where
  "run_class_block K klass b ev =
     (case v_data b of
        VAL_BLOCK nd closure _ _ _ \<Rightarrow>
          (case data_of (node_at nd ev) of
             Some (NBlock ps body) \<Rightarrow> do {
               let (frame, ev) = new_env closure False ev;
               ev \<leftarrow> bind_params K frame ps [klass] (mark_class_scope frame klass ev);
               (r, ev) \<leftarrow> k_eval K frame body ev;
               give (if val_is_signal r \<and> (case v_data r of VAL_RETURN _ _ \<Rightarrow> False | _ \<Rightarrow> True)
                     then r else klass) ev
             }
           | _ \<Rightarrow> None)
      | _ \<Rightarrow> None)"

definition new_class_of :: "runner \<Rightarrow> bool \<Rightarrow> meth" where
  "new_class_of K is_module c ev = do {
     super \<leftarrow> (if is_module then Some val_nil
       else case Option.bind (arg c 0) class_of of
         Some k \<Rightarrow> arg c 0 | None \<Rightarrow> lookup_nil (Some (ev_top_env ev)) ''Object'' ev);
     let (klass, ev) = on_heap (val_class (Some (if is_module then ''#<Module>'' else ''#<Class>'')) super) ev;
     k \<leftarrow> class_of klass;
     let (e, ev) = new_env (Some (ev_top_env ev)) True ev;
     let ev = set_heap (update_class (\<lambda>r. r\<lparr>rc_class_env := Some e, rc_is_module := of_bool is_module\<rparr>) k) ev;
     let ev = mark_class_scope e klass ev;
     case c_blk c of None \<Rightarrow> give klass ev | Some b \<Rightarrow> run_class_block K klass (value_at b ev) ev
   }"

text \<open>The \<open>initialize\<close> of a class; the number of arguments is not compared with the parameters.\<close>

definition initialize_of :: "ptr \<Rightarrow> eval \<Rightarrow> (rvalue \<times> ptr option) option option" where
  "initialize_of k ev = chain_find (ev_heap ev) (Some k) (\<lambda>k. instance_method k ''initialize'' ev)"

definition run_initialize ::
  "runner \<Rightarrow> call \<Rightarrow> bool \<Rightarrow> rvalue \<Rightarrow> rvalue \<Rightarrow> ptr \<Rightarrow> eval \<Rightarrow> (rvalue \<times> ptr) run" where
  "run_initialize K c use_file obj m owner ev =
     (case v_data m of
        VAL_METHOD nd closure _ file \<Rightarrow>
          (case data_of (node_at nd ev) of
             Some (NDef _ _ ps body) \<Rightarrow> do {
               let (menv, ev) = new_env closure True ev;
               let (sym, ev) = new_symbol ''initialize'' (define_var menv ''self'' obj ev);
               let ev = define_var menv ''__class__'' (class_value owner) (define_var menv ''__method__'' sym ev);
               ev \<leftarrow> bind_params K menv ps (c_args c) (set_block_arg menv (c_blk c) ev);
               let saved = ev_current_file ev;
               let ev = (if use_file \<and> file \<noteq> None then ev\<lparr>ev_current_file := file\<rparr> else ev);
               (r, ev) \<leftarrow> k_eval K menv body
                 (enter_method menv (site_line (c_site c)) (site_col (c_site c)) ''initialize'' ev);
               let ev = leave_method ev;
               Some ((r, menv), if use_file then ev\<lparr>ev_current_file := saved\<rparr> else ev)
             }
           | _ \<Rightarrow> None)
      | _ \<Rightarrow> None)"

definition new_object_of :: "runner \<Rightarrow> ptr \<Rightarrow> meth" where
  "new_object_of K k c ev = do {
     let (obj, ev) = on_heap (val_object (c_recv c)) ev;
     found \<leftarrow> initialize_of k ev;
     case found of
       None \<Rightarrow> give obj ev
     | Some (m, owner) \<Rightarrow> do {
         owner \<leftarrow> owner;
         ((r, menv), ev) \<leftarrow> run_initialize K c True obj m owner ev;
         r \<leftarrow> (case v_data r of
             VAL_RETURN _ target \<Rightarrow> if target = Some menv then wrapped r ev else Some r
           | _ \<Rightarrow> Some r);
         give (if val_is_signal r then r else obj) ev
       }
   }"

definition new_string_object_of :: "runner \<Rightarrow> ptr \<Rightarrow> meth" where
  "new_string_object_of K k c ev = do {
     let (obj, ev) = on_heap (val_object (c_recv c)) ev;
     let (s, ev) = on_heap (val_string_n (fst (string_arg c ev))) ev;
     let ev = set_ivar obj ''__str__'' s ev;
     found \<leftarrow> initialize_of k ev;
     case found of
       Some (m, Some owner) \<Rightarrow> do {
         oname \<leftarrow> rc_name (klass_of owner ev);
         let has_node = (case v_data m of VAL_METHOD nd _ _ _ \<Rightarrow> nd \<noteq> None | _ \<Rightarrow> True);
         if streq oname ''String'' \<or> \<not> has_node then give obj ev
         else do {
           (r, ev) \<leftarrow> call_method_value K obj m (Some owner) ''initialize'' (c_args c) (c_blk c) (c_site c) ev;
           give (if val_is_signal r then r else obj) ev
         }
       }
     | _ \<Rightarrow> give obj ev
   }"

definition builtin_exc_names :: "string list" where
  "builtin_exc_names =
     [''Exception'', ''StandardError'', ''RuntimeError'', ''TypeError'', ''ArgumentError'', ''NameError'',
      ''NoMethodError'', ''ZeroDivisionError'', ''IndexError'', ''KeyError'', ''RangeError'', ''IOError'',
      ''LoadError'', ''SystemExit'', ''NotImplementedError'', ''LocalJumpError'', ''StopIteration'',
      ''FrozenError'', ''Errno::ENOENT'', ''Errno::EACCES'', ''Errno::EEXIST'', ''Errno::EBADF'',
      ''Errno::EPERM'', ''SystemCallError'', ''RegexpError'', ''EncodingError'', ''SystemStackError'',
      ''SyntaxError'', ''SignalException'', ''Interrupt'', ''ScriptError'']"

text \<open>An \<open>initialize\<close> that the program gives the class or one of its superclasses.\<close>

definition user_initialize :: "ptr \<Rightarrow> eval \<Rightarrow> (rvalue \<times> ptr) option option" where
  "user_initialize k ev = do {
     found \<leftarrow> instance_method k ''initialize'' ev;
     case found of
       Some (m, Some owner) \<Rightarrow>
         (case v_data m of
            VAL_METHOD (Some nd) _ _ _ \<Rightarrow>
              map_option (\<lambda>n. if named n builtin_exc_names then None else Some (m, owner))
                (rc_name (klass_of owner ev))
          | _ \<Rightarrow> Some None)
     | _ \<Rightarrow> Some None
   }"

definition exception_arg_message :: "runner \<Rightarrow> call \<Rightarrow> string \<Rightarrow> eval \<Rightarrow> (rvalue + string) run" where
  "exception_arg_message K c kname ev =
     (case c_args c of
        [] \<Rightarrow> Some (Inr kname, ev)
      | [v] \<Rightarrow>
          if is_nil v then Some (Inr kname, ev) else map_option (\<lambda>s. (Inr (cstr s), ev)) (to_s K v ev)
      | _ \<Rightarrow> map_option (\<lambda>(r, ev). (Inl r, ev)) (wrong_args c ev))"

definition new_exception_of :: "runner \<Rightarrow> ptr \<Rightarrow> string \<Rightarrow> meth" where
  "new_exception_of K k kname c ev = do {
     user \<leftarrow> user_initialize k ev;
     (msg, ev) \<leftarrow> (if user = None then exception_arg_message K c kname ev
       else Some (Inr (case arg c 0 of
           Some v \<Rightarrow> (case v_data v of VAL_STRING p \<Rightarrow> cstr (deref_str (ev_heap ev) p) | _ \<Rightarrow> kname)
         | None \<Rightarrow> kname), ev));
     case msg of
       Inl v \<Rightarrow> give v ev
     | Inr msg \<Rightarrow> do {
         let (obj, ev) = build_exception_object (c_recv c) msg ev;
         case user of
           None \<Rightarrow> give obj ev
         | Some (m, owner) \<Rightarrow> do {
             ((r, menv), ev) \<leftarrow> run_initialize K c False obj m owner ev;
             if val_is_signal r then give r ev else give obj (ev\<lparr>ev_errored := False\<rparr>)
           }
       }
   }"

end
