(* ===== verification/EvalModule.thy ===== *)
theory EvalModule
  imports EvalClass
begin

section \<open>Built-in methods of classes: structs, constants and listings\<close>

subsection \<open>Structs\<close>

definition is_struct_class :: "ptr \<Rightarrow> eval \<Rightarrow> test" where
  "is_struct_class k ev =
     class_is_a_named_class (ev_heap ev) (ev_envs ev) (Some (ev_top_env ev)) (Some k) ''Struct''"

text \<open>The class that holds the members, and the array of their names.\<close>

definition struct_def :: "ptr \<Rightarrow> eval \<Rightarrow> (ptr \<times> ptr) option option" where
  "struct_def k ev =
     chain_find (ev_heap ev) (Some k) (\<lambda>k. Some (Option.bind
       (Option.bind (lookup_own (rc_class_env (klass_of k ev)) ''__struct_members__'' ev) array_ptr)
       (\<lambda>p. Some (k, p))))"

definition keyword_init :: "ptr \<Rightarrow> eval \<Rightarrow> bool" where
  "keyword_init k ev =
     (case lookup_own (rc_class_env (klass_of k ev)) ''__struct_keyword_init__'' ev of
        Some v \<Rightarrow> val_truthy v | None \<Rightarrow> False)"

definition set_members :: "rvalue \<Rightarrow> rvalue list \<Rightarrow> rvalue list \<Rightarrow> eval \<Rightarrow> eval" where
  "set_members obj members args ev =
     fold (\<lambda>(i, m). \<lambda>ev.
       case (v_data m, sval_text m ev) of
         (VAL_STRING _, Some name) \<Rightarrow>
           set_ivar obj name (if i < length args then args ! i else val_nil) ev
       | _ \<Rightarrow> ev)
       (enumerate 0 members) ev"

text \<open>At most 128 keywords are noted as used.\<close>

fun set_keyword_members ::
  "runner \<Rightarrow> rvalue \<Rightarrow> ptr option \<Rightarrow> rvalue list \<Rightarrow> string list \<Rightarrow> eval \<Rightarrow> string list run" where
  "set_keyword_members K obj kw [] used ev = Some (used, ev)"
| "set_keyword_members K obj kw (m # ms) used ev =
     (case sval_text m ev of
        None \<Rightarrow> set_keyword_members K obj kw ms used ev
      | Some name \<Rightarrow> do {
          (found, ev) \<leftarrow> (case kw of Some h \<Rightarrow> hash_get_sym K h name ev | None \<Rightarrow> Some (None, ev));
          set_keyword_members K obj kw ms
            (if found \<noteq> None \<and> length used < 128 then used @ [name] else used)
            (set_ivar obj name (or_nil found) ev)
        })"

definition unused_keyword :: "string list \<Rightarrow> rvalue \<Rightarrow> eval \<Rightarrow> bool" where
  "unused_keyword used key ev =
     (case sval_text key ev of Some s \<Rightarrow> \<not> named s used | None \<Rightarrow> True)"

definition new_keyword_struct :: "runner \<Rightarrow> rvalue \<Rightarrow> rvalue list \<Rightarrow> meth" where
  "new_keyword_struct K obj members c ev =
     (if 1 < length (c_args c) \<or> length (c_args c) = 1 \<and> \<not> is_hash (hd (c_args c)) then
        raise_at c ''ArgumentError'' (''wrong number of arguments (given '' @
          show_nat (length (c_args c)) @ '', expected 0)'') ev
      else do {
        let kw = Option.bind (arg c 0) hash_ptr;
        (used, ev) \<leftarrow> set_keyword_members K obj kw members [] ev;
        case find (\<lambda>key. unused_keyword used key ev)
            (case kw of Some h \<Rightarrow> rh_keys (hash_at h ev) | None \<Rightarrow> []) of
          None \<Rightarrow> give obj ev
        | Some key \<Rightarrow>
            raise_at c ''ArgumentError'' (case (v_data key, sval_text key ev) of
              (VAL_SYMBOL _, Some s) \<Rightarrow> ''unknown keyword: :'' @ cstr s | _ \<Rightarrow> ''unknown keyword'') ev
      })"

definition new_struct_of :: "runner \<Rightarrow> ptr \<Rightarrow> ptr \<Rightarrow> meth" where
  "new_struct_of K def_class p c ev =
     (let members = array_elems p ev; (obj, ev) = on_heap (val_object (c_recv c)) ev
      in if keyword_init def_class ev then new_keyword_struct K obj members c ev
         else if length members < length (c_args c)
         then raise_at c ''ArgumentError'' ''struct size differs'' ev
         else give obj (set_members obj members (c_args c) ev))"

definition k_members :: "ptr \<Rightarrow> meth" where
  "k_members k c ev = do {
     found \<leftarrow> struct_def k ev;
     if streq (c_name c) ''members'' then
       give_symbols (case found of
           None \<Rightarrow> []
         | Some (k, p) \<Rightarrow> map (\<lambda>m. case (v_data m, sval_text m ev) of
               (VAL_STRING _, Some s) \<Rightarrow> s | _ \<Rightarrow> ''?'') (array_elems p ev)) ev
     else give (val_bool (case found of None \<Rightarrow> False | Some (k, p) \<Rightarrow> keyword_init k ev)) ev
   }"

subsection \<open>The method new\<close>

definition new_regexp_of :: "runner \<Rightarrow> meth" where
  "new_regexp_of K c ev =
     (if c_args c = [] \<or> 2 < length (c_args c) then wrong_args c ev
      else case (v_data (hd (c_args c)), name_arg c 0 ev) of
        (VAL_STRING _, Some pattern) \<Rightarrow>
          (let opts = (case map_option v_data (arg c 1) of Some (VAL_INT i) \<Rightarrow> ucast i | _ \<Rightarrow> (0 :: u32))
           in case k_regex_compile K pattern opts of
                Inl msg \<Rightarrow>
                  raise_at c ''RegexpError'' (if msg = [] then ''regexp compile failed'' else msg) ev
              | Inr nat_ptr \<Rightarrow>
                  (let (obj, ev) = on_heap (val_object (c_recv c)) ev;
                       ev = (case v_data obj of VAL_OBJECT p \<Rightarrow> set_native p nat_ptr ev | _ \<Rightarrow> ev);
                       ev = set_ivar obj ''source'' (hd (c_args c)) ev
                   in give obj (set_ivar obj ''__options__'' (val_int (ucast opts)) ev)))
      | _ \<Rightarrow> raise_at c ''TypeError'' ''Regexp.new pattern must be a String'' ev)"

definition new_by_name :: "runner \<Rightarrow> method_table" where
  "new_by_name K =
     [([''Regexp''], new_regexp_of K), ([''Array''], new_array_of K), ([''Hash''], new_hash_of),
      ([''String''], new_string_of), ([''Integer''], new_integer_of), ([''Float''], new_float_of),
      ([''Class''], new_class_of K False), ([''Module''], new_class_of K True)]"

definition is_a_class :: "ptr \<Rightarrow> string \<Rightarrow> eval \<Rightarrow> test" where
  "is_a_class k name ev =
     class_is_a_named_class (ev_heap ev) (ev_envs ev) (Some (ev_top_env ev)) (Some k) name"

definition k_new :: "runner \<Rightarrow> ptr \<Rightarrow> string \<Rightarrow> meth" where
  "k_new K k kname c ev =
     (case find_method (new_by_name K) kname of
        Some f \<Rightarrow> f c ev
      | None \<Rightarrow> do {
          string_class \<leftarrow> is_a_class k ''String'' ev;
          if string_class then new_string_object_of K k c ev
          else do {
            exc_class \<leftarrow> is_a_class k ''Exception'' ev;
            if exc_class then new_exception_of K k kname c ev
            else do {
              is_struct \<leftarrow> is_struct_class k ev;
              members \<leftarrow> (if is_struct then struct_def k ev else Some None);
              case members of
                Some (def_class, p) \<Rightarrow> new_struct_of K def_class p c ev
              | None \<Rightarrow> new_object_of K k c ev
            }
          }
        })"

definition k_instance :: "ptr \<Rightarrow> meth" where
  "k_instance k c ev = do {
     found \<leftarrow> lookup (rc_class_env (klass_of k ev)) ''__singleton_instance__'' ev;
     case found of
       Some v \<Rightarrow> give v ev
     | None \<Rightarrow> do {
         e \<leftarrow> rc_class_env (klass_of k ev);
         let (obj, ev) = on_heap (val_object (c_recv c)) ev;
         give obj (define_var e ''__singleton_instance__'' obj ev)
       }
   }"

subsection \<open>The order of classes\<close>

definition strict_subclass :: "ptr \<Rightarrow> ptr \<Rightarrow> eval \<Rightarrow> bool option" where
  "strict_subclass a b ev = class_inherits_from (ev_heap ev) (superclass (ev_heap ev) a) b"

definition class_order :: "string \<Rightarrow> bool \<Rightarrow> bool \<Rightarrow> rvalue" where
  "class_order name a_sub_b b_sub_a =
     (if streq name ''<'' \<or> streq name ''<='' then val_bool a_sub_b
      else if streq name ''>'' \<or> streq name ''>='' then val_bool b_sub_a
      else if a_sub_b then val_int (- 1) else if b_sub_a then val_int 1 else val_nil)"

definition k_compare :: "ptr \<Rightarrow> meth" where
  "k_compare a c ev =
     (case Option.bind (arg c 0) class_of of
        None \<Rightarrow> give val_nil ev
      | Some b \<Rightarrow>
          if a = b then
            give (if streq (c_name c) ''<'' \<or> streq (c_name c) ''>'' then val_false
                  else if streq (c_name c) ''<=>'' then val_int 0 else val_true) ev
          else do {
            a_sub_b \<leftarrow> strict_subclass a b ev;
            b_sub_a \<leftarrow> strict_subclass b a ev;
            give (class_order (c_name c) a_sub_b b_sub_a) ev
          })"

subsection \<open>Constants and class variables\<close>

definition k_class_variables :: "ptr \<Rightarrow> meth" where
  "k_class_variables k c ev =
     give_symbols (filter (\<lambda>n. take 2 (cstr n) = ''@@'')
       (map fst (entries_at (rc_class_env (klass_of k ev)) ev))) ev"

definition class_lookup :: "ptr \<Rightarrow> string \<Rightarrow> eval \<Rightarrow> rvalue option option" where
  "class_lookup k name ev =
     (case rc_class_env (klass_of k ev) of None \<Rightarrow> Some None | Some e \<Rightarrow> lookup (Some e) name ev)"

definition k_const_defined :: "ptr \<Rightarrow> meth" where
  "k_const_defined k c ev =
     (case name_arg c 0 ev of
        None \<Rightarrow> give val_false ev
      | Some name \<Rightarrow> map_option (\<lambda>found. (val_bool (found \<noteq> None), ev)) (class_lookup k name ev))"

definition k_const_get :: "ptr \<Rightarrow> meth" where
  "k_const_get k c = nil_without_name c (\<lambda>name ev. do {
     found \<leftarrow> class_lookup k name ev;
     at_top \<leftarrow> lookup (Some (ev_top_env ev)) name ev;
     give (if \<not> is_nil (or_nil found) then or_nil found else or_nil at_top) ev
   })"

definition rename_class :: "rvalue \<Rightarrow> string \<Rightarrow> eval \<Rightarrow> eval" where
  "rename_class v name ev =
     (case class_of v of
        None \<Rightarrow> ev
      | Some k \<Rightarrow>
          (case rc_name (klass_of k ev) of
             None \<Rightarrow> ev
           | Some n \<Rightarrow>
               if take 2 n \<noteq> ''#<'' then ev
               else (let ev = set_heap (update_class (\<lambda>r. r\<lparr>rc_name := Some name\<rparr>) k) ev
                     in case rc_class_env (klass_of k ev) of
                          Some e \<Rightarrow> define_var e name v ev | None \<Rightarrow> ev)))"

definition k_const_set :: "ptr \<Rightarrow> string \<Rightarrow> meth" where
  "k_const_set k kname c ev =
     (case arg c 1 of
        None \<Rightarrow> wrong_args c ev
      | Some v \<Rightarrow>
          (case name_arg c 0 ev of
             None \<Rightarrow> raise_at c ''TypeError'' ''const_set name must be a Symbol or String'' ev
           | Some name \<Rightarrow>
               (let (e, ev) = class_env_made (Some (ev_top_env ev)) k ev;
                    ev = define_var e name v ev;
                    ev = (if streq kname ''Object'' then define_var (ev_top_env ev) name v ev else ev);
                    ev = define_var (ev_top_env ev) (kname @ ''::'' @ name) v ev
                in give v (rename_class v name ev))))"

definition is_constant :: "string \<times> rvalue \<Rightarrow> bool" where
  "is_constant e \<longleftrightarrow>
     (let n = cstr (fst e) in n \<noteq> [] \<and> isupper (hd n) \<and> first_sep n = None \<and> \<not> is_method (snd e))"

definition constant_names :: "rvalue entries \<Rightarrow> string list" where
  "constant_names es = map fst (filter is_constant es)"

definition k_constants :: "ptr \<Rightarrow> string \<Rightarrow> meth" where
  "k_constants k kname c ev =
     (if streq kname ''Module'' then
        give_symbols (constant_names (e_vars (ev_envs ev ! ev_top_env ev))) ev
      else do {
        names \<leftarrow> class_walk (ev_heap ev) (Some k) (\<lambda>k. rc_is_module (klass_of k ev) = 0)
          (\<lambda>k names. Some (add_names (constant_names (entries_at (rc_class_env (klass_of k ev)) ev)) names)) [];
        give_symbols names ev
      })"

definition k_superclass :: "ptr \<Rightarrow> meth" where
  "k_superclass k c ev =
     give (let s = rc_superclass (klass_of k ev) in if class_of s \<noteq> None then s else val_nil) ev"

subsection \<open>Modules of a class\<close>

text \<open>The modules of a class and its superclasses, on a stack of bounded size.\<close>

partial_function (option) module_stack ::
  "heap \<Rightarrow> nat \<Rightarrow> ptr option \<Rightarrow> (ruby_class \<Rightarrow> ptr list) \<Rightarrow> ptr list \<Rightarrow> ptr list option" where
  "module_stack h limit klass mods stack =
     (case klass of
        None \<Rightarrow> Some stack
      | Some k \<Rightarrow>
          if limit \<le> length stack then Some stack
          else module_stack h limit (superclass h k) mods (take limit (stack @ mods (klass_at h k))))"

text \<open>The stack grows at its end while it is read; there are at most \<open>limit\<close> turns.\<close>

primrec search_stack :: "nat \<Rightarrow> heap \<Rightarrow> nat \<Rightarrow> string \<Rightarrow> ptr list \<Rightarrow> nat \<Rightarrow> bool option" where
  "search_stack 0 h limit name stack i = Some False"
| "search_stack (Suc n) h limit name stack i =
     (if length stack \<le> i then Some False
      else Option.bind (rc_name (klass_at h (stack ! i))) (\<lambda>m.
        if streq m name then Some True
        else search_stack n h limit name
          (take limit (stack @ rc_included (klass_at h (stack ! i)))) (i + 1)))"

definition k_include_p :: "ptr \<Rightarrow> meth" where
  "k_include_p k c ev =
     (case Option.bind (arg c 0) class_of of
        None \<Rightarrow> raise_at c ''TypeError'' ''Class#include? requires a module'' ev
      | Some m \<Rightarrow> do {
          name \<leftarrow> rc_name (klass_of m ev);
          stack \<leftarrow> module_stack (ev_heap ev) 255 (Some k) (\<lambda>r. rc_prepended r @ rc_included r) [];
          b \<leftarrow> search_stack 256 (ev_heap ev) 255 name stack 0;
          give (val_bool b) ev
        })"

primrec listed_modules :: "nat \<Rightarrow> heap \<Rightarrow> nat \<Rightarrow> ptr list \<Rightarrow> nat \<Rightarrow> ptr list \<Rightarrow> ptr list" where
  "listed_modules 0 h limit stack i seen = seen"
| "listed_modules (Suc n) h limit stack i seen =
     (if length stack \<le> i then seen
      else let m = stack ! i
        in if rc_is_module (klass_at h m) = 0 \<or> m \<in> set seen
           then listed_modules n h limit stack (i + 1) seen
           else listed_modules n h limit (take limit (stack @ rc_included (klass_at h m))) (i + 1)
             (seen @ [m]))"

definition k_included_modules :: "ptr \<Rightarrow> meth" where
  "k_included_modules k c ev = do {
     stack \<leftarrow> module_stack (ev_heap ev) 250 (Some k) rc_included [];
     Some (new_array (map class_value (listed_modules 251 (ev_heap ev) 250 stack 0 [])) ev)
   }"

definition k_ancestors :: "ptr \<Rightarrow> meth" where
  "k_ancestors k c ev = do {
     (arr, visited) \<leftarrow> collect_class_ancestors (ev_heap ev) k ([], []);
     Some (new_array arr ev)
   }"

text \<open>The modules are put in front one by one, each followed by its hook.\<close>

fun mix_modules :: "runner \<Rightarrow> call \<Rightarrow> ptr \<Rightarrow> bool \<Rightarrow> rvalue list \<Rightarrow> eval \<Rightarrow> rvalue run" where
  "mix_modules K c k is_prepend [] ev = give (c_recv c) ev"
| "mix_modules K c k is_prepend (v # vs) ev =
     (case module_args [v] ev of
        Some [m] \<Rightarrow> do {
          let ev = set_heap (if is_prepend then prepend_module m k else include_module m k) ev;
          let hook = (if is_prepend then ''prepended'' else ''included'');
          ev \<leftarrow> (case lookup_own (class_env_of v ev) (self_key hook) ev of
              Some h \<Rightarrow>
                if is_method h then
                  map_option snd (call_method_value K v h (Some m) hook [c_recv c] None (c_site c) ev)
                else Some ev
            | None \<Rightarrow> Some ev);
          mix_modules K c k is_prepend vs ev
        }
      | _ \<Rightarrow> raise_at c ''TypeError'' (c_name c @ '' requires a Module'') ev)"

definition k_mix :: "runner \<Rightarrow> ptr \<Rightarrow> meth" where
  "k_mix K k c ev =
     mix_modules K c k (streq (c_name c) ''prepend'') (c_args c)
       (snd (class_env_made (Some (ev_top_env ev)) k ev))"

subsection \<open>Listings of instance methods\<close>

definition instance_vmask :: "string \<Rightarrow> int" where
  "instance_vmask name =
     (if streq name ''public_instance_methods'' then 1
      else if streq name ''private_instance_methods'' then 4
      else if streq name ''protected_instance_methods'' then 2 else 3)"

definition k_instance_methods :: "ptr \<Rightarrow> meth" where
  "k_instance_methods k c ev = do {
     let all = include_super c;
     let vmask = instance_vmask (c_name c);
     names \<leftarrow> (if all then map_option fst
         (collect_all_instance_methods (ev_heap ev) (ev_envs ev) vmask k ([], []))
       else Some (collect_own_instance_methods vmask (entries_at (rc_class_env (klass_of k ev)) ev) []));
     names \<leftarrow> (if bit vmask 0
       then class_walk (ev_heap ev) (Some k) (\<lambda>k. all) (\<lambda>k. listed primitive_method_lists k ev) names
       else Some names);
     give_symbols names ev
   }"

text \<open>A method of the singleton class that is being opened, when it is that of the receiver.\<close>

definition same_pointer :: "rvalue \<Rightarrow> rvalue \<Rightarrow> bool" where
  "same_pointer v w \<longleftrightarrow>
     (case (v_data v, v_data w) of
        (VAL_CLASS p, VAL_CLASS q) \<Rightarrow> p = q | (VAL_OBJECT p, VAL_OBJECT q) \<Rightarrow> p = q
      | (VAL_ARRAY p, VAL_ARRAY q) \<Rightarrow> p = q | (VAL_HASH p, VAL_HASH q) \<Rightarrow> p = q
      | _ \<Rightarrow> kind_no v = kind_no w)"

definition singleton_class_method_lookup :: "ptr \<Rightarrow> rvalue \<Rightarrow> string \<Rightarrow> eval \<Rightarrow> rvalue option option" where
  "singleton_class_method_lookup env recv name ev = do {
     target \<leftarrow> lookup (Some env) ''__singleton_target__'' ev;
     case target of
       None \<Rightarrow> Some None
     | Some t \<Rightarrow>
         if \<not> same_pointer t recv then Some None
         else case v_data t of
           VAL_CLASS k \<Rightarrow> lookup (rc_class_env (klass_of k ev)) (self_key name) ev
         | _ \<Rightarrow> (case singleton_env_of t ev of Some e \<Rightarrow> lookup (Some e) name ev | None \<Rightarrow> Some None)
   }"

definition vis_asked :: "string \<Rightarrow> method_visibility \<Rightarrow> bool" where
  "vis_asked name vis =
     (if streq name ''method_defined?'' then vis = METHOD_PUBLIC \<or> vis = METHOD_PROTECTED
      else if streq name ''public_method_defined?'' then vis = METHOD_PUBLIC
      else if streq name ''private_method_defined?'' then vis = METHOD_PRIVATE
      else vis = METHOD_PROTECTED)"

definition k_method_defined :: "ptr \<Rightarrow> meth" where
  "k_method_defined k c = needs_name c (\<lambda>name ev. do {
     own \<leftarrow> singleton_class_method_lookup (c_env c) (c_recv c) name ev;
     found \<leftarrow> (case own of
         Some m \<Rightarrow> if is_method m then Some own
           else map_option (\<lambda>r. case r of Some (m, k) \<Rightarrow> Some m | None \<Rightarrow> own) (instance_method k name ev)
       | None \<Rightarrow> map_option (map_option fst) (instance_method k name ev));
     case map_option v_data found of
       Some VAL_UNDEF_METHOD \<Rightarrow> give val_false ev
     | Some (VAL_METHOD _ _ vis _) \<Rightarrow> give (val_bool (vis_asked (c_name c) vis)) ev
     | _ \<Rightarrow> do {
         b \<leftarrow> chain_responds primitive_class_responds_to_name k name ev;
         give (val_bool (b \<and>
           (streq (c_name c) ''method_defined?'' \<or> streq (c_name c) ''public_method_defined?''))) ev
       }
   })"

text \<open>For a built-in method that no class defines, a variable is read that was not set.\<close>

definition k_instance_method :: "ptr \<Rightarrow> string \<Rightarrow> meth" where
  "k_instance_method k kname c = needs_name c (\<lambda>name ev. do {
     found \<leftarrow> instance_method k name ev;
     case found of
       None \<Rightarrow>
         if named name primitive_unbound_methods \<or> primitive_class_responds_to_name kname name then None
         else raise_at c ''NameError''
           (''undefined method '' @ in_quotes name @ '' for class '' @ in_quotes kname) ev
     | Some (m, owner) \<Rightarrow> do {
         ubm \<leftarrow> top_class ''UnboundMethod'' ev;
         case ubm of
           None \<Rightarrow> give val_nil ev
         | Some klass \<Rightarrow>
             (let (obj, ev) = on_heap (val_object klass) ev;
                  (text, ev) = new_string name (set_ivar obj ''__klass__'' (c_recv c) ev);
                  ev = set_ivar obj ''__method_name__'' text ev;
                  ev = set_ivar obj ''__owner__'' (c_recv c) (set_ivar obj ''__method__'' m ev);
                  has_node = (case v_data m of VAL_METHOD (Some nd) _ _ _ \<Rightarrow> True | _ \<Rightarrow> False)
              in give obj (if has_node then ev
                 else set_ivar obj ''__native_arity__''
                   (val_int (word_of_int (builtin_method_arity name))) ev))
       }
   })"

subsection \<open>The methods of a class\<close>

definition class_early :: "runner \<Rightarrow> builtins \<Rightarrow> ptr \<Rightarrow> method_table" where
  "class_early K B k =
     [([''deprecate_constant'', ''private_constant'', ''public_constant'', ''using'', ''refine''], give_nil),
      ([''autoload''], \<lambda>c ev. answer (B B_REQUIRE K c ev)),
      ([''===''], \<lambda>c. k_case_eq (c_recv c) c),
      ([''define_method''], k_define_method k),
      ([''remove_method'', ''undef_method''], k_remove_methods K k)]"

definition new_proc_of :: meth where
  "new_proc_of c ev =
     (case c_blk c of
        None \<Rightarrow> raise_at c ''ArgumentError'' ''tried to create Proc object without a block'' ev
      | Some b \<Rightarrow>
          (case v_data (value_at b ev) of
             VAL_BLOCK nd closure _ _ file \<Rightarrow> give (mk_val (VAL_BLOCK nd closure False True file)) ev
           | _ \<Rightarrow> None))"

definition class_new :: "runner \<Rightarrow> ptr \<Rightarrow> string \<Rightarrow> method_table" where
  "class_new K k kname =
     [([''allocate''], \<lambda>c ev. Some (on_heap (val_object (c_recv c)) ev)),
      ([''new''], k_new K k kname)]"

definition instance_handler :: "ptr \<Rightarrow> handler" where
  "instance_handler k c ev =
     (if streq (c_name c) ''instance'' \<and> c_args c = [] then do {
        b \<leftarrow> class_includes_module_name (ev_heap ev) (Some k) ''Singleton'';
        if b then taken (k_instance k c ev) else Some (None, ev)
      }
      else Some (None, ev))"

text \<open>\<open>[]\<close> of a struct is \<open>new\<close>, asked from the start; \<open>again\<close> are the handlers up to it.\<close>

definition struct_handler :: "handler \<Rightarrow> ptr \<Rightarrow> handler" where
  "struct_handler again k c ev =
     (if \<not> named (c_name c) [''members'', ''keyword_init?'', ''[]''] then Some (None, ev)
      else do {
        b \<leftarrow> is_struct_class k ev;
        if \<not> b then Some (None, ev)
        else if \<not> streq (c_name c) ''[]'' then taken (k_members k c ev)
        else if rc_class_env (klass_of k ev) = None then Some (None, ev)
        else again (c\<lparr>c_name := ''new''\<rparr>) ev
      })"

definition class_methods :: "runner \<Rightarrow> ptr \<Rightarrow> string \<Rightarrow> method_table" where
  "class_methods K k kname =
     [([''class_variables''], k_class_variables k),
      ([''const_defined?''], k_const_defined k),
      ([''const_get''], k_const_get k),
      ([''const_set''], k_const_set k kname),
      ([''superclass''], k_superclass k),
      ([''name'', ''to_s'', ''inspect''], \<lambda>c. give_text kname)]
     @ when_kind (streq kname ''Module'') [([''nesting''], \<lambda>c ev. Some (new_array [] ev))] @
     [([''constants''], k_constants k kname),
      ([''alias_method''], k_alias_method k),
      ([''ancestors''], k_ancestors k),
      ([''include?''], k_include_p k),
      ([''included_modules''], k_included_modules k),
      ([''instance_methods'', ''public_instance_methods'', ''private_instance_methods'',
        ''protected_instance_methods''], k_instance_methods k),
      ([''method_defined?'', ''public_method_defined?'', ''private_method_defined?'',
        ''protected_method_defined?''], k_method_defined k),
      ([''instance_method''], k_instance_method k kname),
      ([''include'', ''prepend''], k_mix K k),
      ([''extend''], \<lambda>c. builtin_extend K (c_recv c) c)]"

text \<open>The methods that the program gives the class come last.\<close>

definition allows :: "runner \<Rightarrow> call \<Rightarrow> ptr option \<Rightarrow> method_visibility \<Rightarrow> eval \<Rightarrow> test" where
  "allows K c owner vis ev =
     method_visibility_allows_call (k_depth K) (ev_heap ev) (ev_envs ev) (Some (c_env c)) (c_recv c) owner vis
       (c_public c) (c_explicit c)"

definition refused :: "call \<Rightarrow> method_visibility \<Rightarrow> handler" where
  "refused c vis c' ev =
     (case vis of
        METHOD_PROTECTED \<Rightarrow> taken (not_callable c ''protected'' (c_name c) ev)
      | METHOD_PRIVATE \<Rightarrow> taken (not_callable c ''private'' (c_name c) ev)
      | METHOD_PUBLIC \<Rightarrow> Some (None, ev))"

definition call_if_allowed :: "runner \<Rightarrow> rvalue \<Rightarrow> ptr option \<Rightarrow> handler" where
  "call_if_allowed K m owner c ev =
     (case v_data m of
        VAL_METHOD _ _ vis _ \<Rightarrow> do {
          ok \<leftarrow> allows K c owner vis ev;
          if ok then taken (invoke K c m owner (c_name c) (c_args c) (c_blk c) ev)
          else refused c vis c ev
        }
      | _ \<Rightarrow> Some (None, ev))"

definition own_class_method :: "runner \<Rightarrow> ptr \<Rightarrow> handler" where
  "own_class_method K k c ev = do {
     found \<leftarrow> class_method k (c_name c) ev;
     case found of None \<Rightarrow> Some (None, ev) | Some (m, owner) \<Rightarrow> call_if_allowed K m owner c ev
   }"

fun first_handler :: "handler list \<Rightarrow> handler" where
  "first_handler [] c ev = Some (None, ev)"
| "first_handler (f # fs) c ev = or_handler f (first_handler fs) c ev"

text \<open>
  The classes with methods of their own (\<open>Kernel\<close>, \<open>Time\<close>, \<open>Struct\<close>, \<open>Math\<close>, then \<open>IO\<close>, \<open>Dir\<close>, \<open>File\<close>,
  \<open>Fiber\<close> and \<open>Regexp\<close>) are asked by their names, where the code does.
\<close>

definition class_first :: "runner \<Rightarrow> builtins \<Rightarrow> ptr \<Rightarrow> string \<Rightarrow> handler list" where
  "class_first K B k kname =
     [B B_NAMED_CLASS K,
      by_table (class_early K B k),
      module_constant k,
      B B_IO_CLASS K,
      by_table (when_kind (streq kname ''Proc'') [([''new''], new_proc_of)]),
      B B_REGEXP_CLASS K,
      by_table (class_new K k kname)]"

definition class_handlers :: "runner \<Rightarrow> builtins \<Rightarrow> ptr \<Rightarrow> string \<Rightarrow> handler list" where
  "class_handlers K B k kname =
     class_first K B k kname @
     [instance_handler k,
      by_table [([''<'', ''<='', ''>'', ''>='', ''<=>''], k_compare k)],
      struct_handler (first_handler (class_first K B k kname)) k,
      by_table (class_methods K k kname),
      own_class_method K k]"

definition dispatch_class :: "runner \<Rightarrow> builtins \<Rightarrow> handler" where
  "dispatch_class K B c ev =
     (case v_data (c_recv c) of
        VAL_CLASS k \<Rightarrow> do {
          kname \<leftarrow> rc_name (klass_of k ev);
          first_handler (class_handlers K B k kname) c ev
        }
      | _ \<Rightarrow> Some (None, ev))"

end
