(* ===== verification/EvalDispatch.thy ===== *)
theory EvalDispatch
  imports EvalModule
begin

section \<open>Built-in methods: the order of the methods of a value (dispatch_method of src/eval_dispatch.c)\<close>

subsection \<open>Methods of the program\<close>

definition singleton_method :: "runner \<Rightarrow> handler" where
  "singleton_method K c ev =
     (case singleton_env_of (c_recv c) ev of
        None \<Rightarrow> Some (None, ev)
      | Some e \<Rightarrow> do {
          found \<leftarrow> method_var e (c_name c) ev;
          case map_option v_data found of
            Some (VAL_METHOD _ _ vis _) \<Rightarrow> do {
              let owner = object_class (c_recv c) ev;
              ok \<leftarrow> allows K c owner vis ev;
              if ok then taken (invoke K c (the found) owner (c_name c) (c_args c) (c_blk c) ev)
              else if vis = METHOD_PROTECTED then taken (not_callable c ''protected'' (c_name c) ev)
              else Some (None, ev)
            }
          | _ \<Rightarrow> Some (None, ev)
        })"

definition again :: "runner \<Rightarrow> string \<Rightarrow> call \<Rightarrow> eval \<Rightarrow> rvalue run" where
  "again K name c =
     k_dispatch K (c_env c) (c_recv c) name (c_args c) (c_blk c) (c_site c) (c_public c) (c_explicit c)"

text \<open>The alias in a class's table is the name of the method to call.\<close>

definition alias_call :: "runner \<Rightarrow> handler" where
  "alias_call K c ev =
     (case object_class (c_recv c) ev of
        None \<Rightarrow> Some (None, ev)
      | Some k \<Rightarrow> do {
          found \<leftarrow> find_instance_alias_name ev (Some k) (c_name c);
          case found of
            Some target \<Rightarrow>
              if streq target (c_name c) then Some (None, ev) else taken (again K target c ev)
          | None \<Rightarrow> Some (None, ev)
        })"

definition map_turn :: "runner \<Rightarrow> call \<Rightarrow> ptr \<Rightarrow> rvalue \<Rightarrow> nat \<Rightarrow> rvalue \<Rightarrow> eval \<Rightarrow> (rvalue + rvalue) run" where
  "map_turn K c b result i x ev =
     then_next (block_step K c b [x] ev) (\<lambda>r ev. Some (Inr r, push_value result r ev))"

definition enumerator_map :: "runner \<Rightarrow> handler" where
  "enumerator_map K c ev =
     (case object_class (c_recv c) ev of
        None \<Rightarrow> Some (None, ev)
      | Some k \<Rightarrow> do {
          ok \<leftarrow> class_is_a_named_class (ev_heap ev) (ev_envs ev) (Some (ev_top_env ev)) (Some k)
            ''Enumerator'';
          case (ok \<and> named (c_name c) [''map'', ''collect''],
                Option.bind (get_ivar (c_recv c) ''arr'' ev) array_ptr, c_blk c) of
            (True, Some p, None) \<Rightarrow> do {
              arr \<leftarrow> get_ivar (c_recv c) ''arr'' ev;
              found \<leftarrow> top_class ''Enumerator'' ev;
              case found of
                Some cls \<Rightarrow> taken (call_on_value K c cls ''new'' [arr] 1 ev)
              | None \<Rightarrow> taken (give arr ev)
            }
          | (True, Some p, Some b) \<Rightarrow> do {
              let (result, ev) = new_array [] ev;
              taken (run_loop (array_turn p result (map_turn K c b result)) 0 ev)
            }
          | _ \<Rightarrow> Some (None, ev)
        })"

definition own_instance_method :: "runner \<Rightarrow> handler" where
  "own_instance_method K c ev =
     (case object_class (c_recv c) ev of
        None \<Rightarrow> Some (None, ev)
      | Some k \<Rightarrow> do {
          found \<leftarrow> instance_method k (c_name c) ev;
          case found of
            None \<Rightarrow> Some (None, ev)
          | Some (m, owner) \<Rightarrow>
              if v_data m = VAL_UNDEF_METHOD then do {
                kname \<leftarrow> value_class_name (c_recv c) ev;
                taken (raise_at c ''NoMethodError''
                  (''undefined method '' @ in_quotes (c_name c) @ '' for an instance of '' @ kname) ev)
              }
              else call_if_allowed K m owner c ev
        })"

subsection \<open>Text of an object\<close>

definition textual_classes :: "string list" where
  "textual_classes = [''Exception'', ''Encoding'', ''Method'', ''UnboundMethod'', ''Struct'']"

fun is_a_any :: "string list \<Rightarrow> rvalue \<Rightarrow> eval \<Rightarrow> test" where
  "is_a_any [] v ev = Some False"
| "is_a_any (n # ns) v ev =
     or_test (value_is_a_named_class (ev_heap ev) (ev_envs ev) (Some (ev_top_env ev)) v n) (is_a_any ns v ev)"

text \<open>The text with the address, for an object without a method of its own.\<close>

definition plain_object_text :: "runner \<Rightarrow> handler" where
  "plain_object_text K c ev =
     (case (v_data (c_recv c), object_class (c_recv c) ev) of
        (VAL_OBJECT p, Some k) \<Rightarrow>
          if \<not> named (c_name c) [''inspect'', ''to_s''] then Some (None, ev)
          else do {
            other \<leftarrow> is_a_any textual_classes (c_recv c) ev;
            str \<leftarrow> class_is_a_named_class (ev_heap ev) (ev_envs ev) (Some (ev_top_env ev)) (Some k) ''String'';
            kname \<leftarrow> rc_name (klass_of k ev);
            if other \<or> str \<or> named kname [''Regexp'', ''MatchData'', ''Time''] then Some (None, ev)
            else do {
              found \<leftarrow> instance_method k (c_name c) ev;
              if found \<noteq> None then Some (None, ev)
              else taken (give_text (snprintf 128
                (''#<'' @ cstr kname @ '':0x'' @ show_hex (unat (k_addr K p)) @ ''>'')) ev)
            }
          }
      | _ \<Rightarrow> Some (None, ev))"

text \<open>\<open>Binding#eval\<close> and the methods of \<open>Pathname\<close> are not modelled.\<close>

definition class_part :: "string \<Rightarrow> handler \<Rightarrow> handler" where
  "class_part name f c ev = do {
     b \<leftarrow> class_named (c_recv c) name ev;
     if b then f c ev else Some (None, ev)
   }"

definition mutex_synchronize :: "runner \<Rightarrow> handler" where
  "mutex_synchronize K =
     class_part ''Thread::Mutex'' (by_table [([''synchronize''], \<lambda>c ev.
       case c_blk c of None \<Rightarrow> give (c_recv c) ev | Some b \<Rightarrow> yield_to K c b [] ev)])"

subsection \<open>Procs and symbols\<close>

definition proc_params :: "rvalue \<Rightarrow> eval \<Rightarrow> node_list option" where
  "proc_params b ev =
     (case v_data b of
        VAL_BLOCK nd _ _ _ _ \<Rightarrow> (case data_of (node_at nd ev) of Some (NBlock ps body) \<Rightarrow> Some ps | _ \<Rightarrow> None)
      | _ \<Rightarrow> None)"

definition no_block_node :: "rvalue \<Rightarrow> eval \<Rightarrow> bool" where
  "no_block_node b ev = (case v_data b of VAL_BLOCK nd _ _ _ _ \<Rightarrow> node_at nd ev = None | _ \<Rightarrow> False)"

definition block_is_lambda :: "rvalue \<Rightarrow> bool" where
  "block_is_lambda b = (case v_data b of VAL_BLOCK _ _ l _ _ \<Rightarrow> l | _ \<Rightarrow> False)"

definition proc_arity_method :: meth where
  "proc_arity_method c ev = do {
     closure \<leftarrow> block_closure (c_recv c);
     bound \<leftarrow> (if closure = None then Some None else lookup closure ''__bound_arity__'' ev);
     case map_option v_data bound of
       Some (VAL_INT i) \<Rightarrow> give (the bound) ev
     | _ \<Rightarrow> do {
         ps \<leftarrow> proc_params (c_recv c) ev;
         give (val_int (word_of_int (proc_arity ps (block_is_lambda (c_recv c))))) ev
       }
   }"

definition proc_location :: meth where
  "proc_location c ev =
     (case v_data (c_recv c) of
        VAL_BLOCK nd _ _ _ file \<Rightarrow>
          (let (arr, ev) = new_array [] ev;
               ev = (case file of Some f \<Rightarrow> push_string arr f ev | None \<Rightarrow> push_value arr val_nil ev);
               line = (case node_at nd ev of Some n \<Rightarrow> val_int (ucast (sp_line (n_span n))) | None \<Rightarrow> val_nil)
           in give arr (push_value arr line ev))
      | _ \<Rightarrow> None)"

text \<open>The kind of a parameter; a proc that is no lambda has no required ones.\<close>

definition param_type :: "bool \<Rightarrow> node option \<Rightarrow> param_flags \<Rightarrow> string" where
  "param_type is_lambda default_val f =
     (if p_splat f then ''rest'' else if p_block_param f then ''block''
      else if p_keyword_splat f then ''keyrest''
      else if p_keyword_param f \<and> default_val = None then ''keyreq''
      else if p_keyword_param f then ''key''
      else if default_val \<noteq> None then ''opt'' else if is_lambda then ''req'' else ''opt'')"

definition param_pair :: "bool \<Rightarrow> string option \<times> node option \<times> param_flags \<Rightarrow> eval \<Rightarrow> rvalue \<times> eval" where
  "param_pair is_lambda = (\<lambda>(name, default_val, f) ev.
     let (pair, ev) = new_array [] ev;
         (kind, ev) = new_symbol (param_type is_lambda default_val f) ev;
         ev = push_value pair kind ev
     in (pair, case name of None \<Rightarrow> ev
         | Some n \<Rightarrow> (let (s, ev) = new_symbol n ev in push_value pair s ev)))"

definition push_param :: "rvalue \<Rightarrow> bool \<Rightarrow> node option \<Rightarrow> eval \<Rightarrow> eval" where
  "push_param arr is_lambda n ev =
     (case param_of n of
        None \<Rightarrow> ev | Some p \<Rightarrow> (let (pair, ev) = param_pair is_lambda p ev in push_value arr pair ev))"

definition proc_parameters :: meth where
  "proc_parameters c ev = do {
     ps \<leftarrow> (if no_block_node (c_recv c) ev then Some [] else proc_params (c_recv c) ev);
     let (arr, ev) = new_array [] ev;
     give arr (fold (push_param arr (block_is_lambda (c_recv c))) ps ev)
   }"

definition proc_methods_tab :: "runner \<Rightarrow> builtins \<Rightarrow> method_table" where
  "proc_methods_tab K B =
     [([''call'', ''[]''], \<lambda>c. call_block K (c_recv c) (c_args c) (c_site c)),
      ([''lambda?''], \<lambda>c. give (val_bool (block_is_lambda (c_recv c)))),
      ([''arity''], proc_arity_method),
      ([''to_proc''], give_recv),
      ([''to_s'', ''inspect''], \<lambda>c. give_text (if block_is_lambda (c_recv c) then ''#<Proc:lambda>'' else ''#<Proc>'')),
      ([''source_location''], proc_location),
      ([''binding''], \<lambda>c ev. answer (B B_BINDING K c ev)),
      ([''parameters''], proc_parameters)]"

definition symbol_text :: "rvalue \<Rightarrow> eval \<Rightarrow> string" where
  "symbol_text v ev = (case sval_text v ev of Some s \<Rightarrow> cstr s | None \<Rightarrow> [])"

definition symbol_basics :: method_table where
  "symbol_basics =
     [([''to_s'', ''id2name''], \<lambda>c ev. give_text (symbol_text (c_recv c) ev) ev),
      ([''name''], \<lambda>c ev.
         let (s, ev) = new_string (symbol_text (c_recv c) ev) ev in give (s\<lparr>v_frozen := 1\<rparr>) ev),
      ([''inspect''], \<lambda>c ev. give_text (CHR '':'' # symbol_text (c_recv c) ev) ev),
      ([''to_sym''], give_recv),
      ([''to_proc''], \<lambda>c ev. Some (make_symbol_proc (symbol_text (c_recv c) ev) ev)),
      ([''length'', ''size''], \<lambda>c ev. give (val_int (word_of_nat (length (symbol_text (c_recv c) ev)))) ev)]"

text \<open>Methods of strings, called on the text of the symbol; some give a symbol again.\<close>

definition as_string :: "runner \<Rightarrow> meth" where
  "as_string K c ev =
     (let (s, ev) = on_heap (val_string (sval_text (c_recv c) ev)) ev
      in k_dispatch K (c_env c) s (c_name c) (c_args c) (c_blk c) (c_site c) False 1 ev)"

definition as_symbol :: "runner \<Rightarrow> meth" where
  "as_symbol K c ev =
     (let (s, ev) = on_heap (val_string (sval_text (c_recv c) ev)) ev
      in do {
        (r, ev) \<leftarrow> k_dispatch K (c_env c) s (c_name c) (c_args c) (c_blk c) (c_site c) False 1 ev;
        give (case v_data r of VAL_STRING p \<Rightarrow> mk_val (VAL_SYMBOL p) | _ \<Rightarrow> r) ev
      })"

definition symbol_order :: meth where
  "symbol_order c ev =
     (case arg c 0 of
        None \<Rightarrow> give val_nil ev
      | Some v \<Rightarrow>
          (case v_data v of
             VAL_SYMBOL _ \<Rightarrow> do {
               s \<leftarrow> sval_text (c_recv c) ev;
               t \<leftarrow> sval_text v ev;
               give (if streq (c_name c) ''<=>'' then val_int (word_of_int (strcmp s t))
                     else val_bool (strcmp s t = 0)) ev
             }
           | _ \<Rightarrow> give (if streq (c_name c) ''<=>'' then val_nil else val_false) ev))"

definition symbol_tab :: "runner \<Rightarrow> method_table" where
  "symbol_tab K =
     [([''upcase'', ''downcase'', ''capitalize'', ''swapcase''], as_symbol K),
      ([''length'', ''size'', ''empty?'', ''match'', ''match?'', ''start_with?'', ''end_with?'', ''include?'',
        ''encoding'', ''bytes'', ''codepoints'', ''each_codepoint'', ''chars'', ''succ'', ''next'', ''[]''],
       as_string K),
      ([''<=>'', ''==''], symbol_order)]"

subsection \<open>nil and booleans\<close>

definition nil_other :: "string list" where
  "nil_other =
     [''method'', ''respond_to?'', ''class'', ''object_id'', ''is_a?'', ''kind_of?'', ''instance_of?'', ''send'',
      ''tap'', ''then'', ''itself'', ''equal?'', ''=='', ''!='']"

definition nil_tab :: "runner \<Rightarrow> method_table" where
  "nil_tab K =
     [([''nil?''], give_bool True), ([''to_s''], \<lambda>c. give_text []), ([''inspect''], \<lambda>c. give_text ''nil''),
      ([''to_i'', ''to_int''], give_int (Some 0)), ([''to_f''], give_float 0),
      ([''to_a''], \<lambda>c ev. Some (on_heap val_array_new ev)),
      ([''to_h''], \<lambda>c ev. Some (on_heap val_hash_new ev)),
      ([''to_r''], \<lambda>c. make_numeric K c ''Rational'' [val_int 0] (give (val_int 0))),
      ([''to_c''], \<lambda>c. make_numeric K c ''Complex'' [val_int 0, val_int 0] (give_text ''(0+0i)'')),
      ([''freeze'', ''frozen?'', ''dup''], give_recv), ([''!''], give_bool True),
      ([''match?'', ''match'', ''=~''], give_nil), ([''byteslice'', ''[]''], give_nil),
      ([''empty?''], give_bool True), ([''length'', ''size''], give_int (Some 0)),
      ([''chomp'', ''strip'', ''chop''], \<lambda>c. give_text []),
      ([''lines''], \<lambda>c ev. Some (on_heap val_array_new ev))]"

definition nil_missing :: handler where
  "nil_missing c ev =
     (if named (c_name c) nil_other then Some (None, ev)
      else taken (raise_at c ''NoMethodError'' (''undefined method '' @ in_quotes (c_name c) @ '' for nil'') ev))"

definition dispatch_nil :: "runner \<Rightarrow> handler" where
  "dispatch_nil K = or_handler (by_table (nil_tab K)) nil_missing"

definition bool_of :: "rvalue \<Rightarrow> int" where
  "bool_of v = (case v_data v of VAL_BOOL b \<Rightarrow> b | _ \<Rightarrow> 0)"

definition is_bool :: "rvalue \<Rightarrow> bool" where
  "is_bool v = (case v_data v of VAL_BOOL _ \<Rightarrow> True | _ \<Rightarrow> False)"

definition dispatch_bool :: handler where
  "dispatch_bool c =
     by_table (when_kind (is_bool (c_recv c))
       [([''to_s'', ''inspect''], \<lambda>c. give_text (if bool_of (c_recv c) \<noteq> 0 then ''true'' else ''false'')),
        ([''!''], \<lambda>c. give (val_bool (bool_of (c_recv c) = 0))), ([''nil?''], give_bool False),
        ([''freeze'', ''frozen?''], give_recv), ([''dup''], give_recv)]) c"

definition first_truthy :: "call \<Rightarrow> bool" where
  "first_truthy c = (case arg c 0 of Some v \<Rightarrow> val_truthy v | None \<Rightarrow> False)"

definition bool_order :: meth where
  "bool_order c =
     (case arg c 0 of
        Some v \<Rightarrow>
          if is_bool v then
            (let a = of_bool (bool_of (c_recv c) \<noteq> 0) :: int; b = of_bool (bool_of v \<noteq> 0)
             in give (val_int (if a < b then - 1 else if b < a then 1 else 0)))
          else give val_nil
      | None \<Rightarrow> give val_nil)"

definition bool_tab :: "rvalue \<Rightarrow> method_table" where
  "bool_tab recv = when_kind (is_bool recv)
     [([''=='', ''equal?''], \<lambda>c. give (val_bool (case arg c 0 of
         Some v \<Rightarrow> is_bool v \<and> bool_of v = bool_of recv | None \<Rightarrow> False))),
      ([''<=>''], bool_order),
      ([''&''], \<lambda>c. give (val_bool (bool_of recv \<noteq> 0 \<and> first_truthy c))),
      ([''|''], \<lambda>c. give (val_bool (bool_of recv \<noteq> 0 \<or> first_truthy c))),
      ([''^''], \<lambda>c. give (val_bool (bool_of recv XOR of_bool (first_truthy c) \<noteq> 0)))]"

subsection \<open>Built-in classes that the program has reopened\<close>

definition reopened_class :: "rvalue \<Rightarrow> string option" where
  "reopened_class v =
     (case v_data v of
        VAL_STRING _ \<Rightarrow> Some ''String'' | VAL_INT _ \<Rightarrow> Some ''Integer'' | VAL_FLOAT _ \<Rightarrow> Some ''Float''
      | VAL_ARRAY _ \<Rightarrow> Some ''Array'' | VAL_HASH _ \<Rightarrow> Some ''Hash'' | VAL_RANGE _ \<Rightarrow> Some ''Range''
      | VAL_SYMBOL _ \<Rightarrow> Some ''Symbol'' | VAL_NIL \<Rightarrow> Some ''NilClass''
      | VAL_BOOL b \<Rightarrow> Some (if b \<noteq> 0 then ''TrueClass'' else ''FalseClass'')
      | _ \<Rightarrow> None)"

definition with_class :: "call \<Rightarrow> (ptr \<Rightarrow> eval \<Rightarrow> rvalue option run) \<Rightarrow> eval \<Rightarrow> rvalue option run" where
  "with_class c f ev =
     (case reopened_class (c_recv c) of
        None \<Rightarrow> Some (None, ev)
      | Some name \<Rightarrow> do {
          found \<leftarrow> top_class name ev;
          case Option.bind found class_of of Some k \<Rightarrow> f k ev | None \<Rightarrow> Some (None, ev)
        })"

text \<open>A method in the class's own table comes before the built-in one, an inherited one after it.\<close>

definition reopened_method :: "runner \<Rightarrow> handler" where
  "reopened_method K c = with_class c (\<lambda>k ev.
     case lookup_own (rc_class_env (klass_of k ev)) (c_name c) ev of
       Some m \<Rightarrow>
         if is_method m then taken (invoke K c m (Some k) (c_name c) (c_args c) (c_blk c) ev)
         else Some (None, ev)
     | None \<Rightarrow> Some (None, ev))"

definition inherited_method :: "runner \<Rightarrow> ptr \<Rightarrow> handler" where
  "inherited_method K k c ev = do {
     found \<leftarrow> instance_method k (c_name c) ev;
     case found of
       Some (m, owner) \<Rightarrow>
         if is_method m then taken (invoke K c m owner (c_name c) (c_args c) (c_blk c) ev)
         else Some (None, ev)
     | None \<Rightarrow> Some (None, ev)
   }"

definition primitive_handlers :: "runner \<Rightarrow> builtins \<Rightarrow> handler list" where
  "primitive_handlers K B = [dispatch_integer K, B B_FLOAT K, B B_STRING K]"

definition collection_handlers :: "runner \<Rightarrow> builtins \<Rightarrow> rvalue \<Rightarrow> handler list" where
  "collection_handlers K B recv =
     (case v_data recv of
        VAL_ARRAY _ \<Rightarrow> [B B_ARRAY K] | VAL_HASH _ \<Rightarrow> [B B_HASH K] | VAL_RANGE _ \<Rightarrow> [B B_RANGE K] | _ \<Rightarrow> [])"

definition primitive_alias :: "runner \<Rightarrow> builtins \<Rightarrow> handler" where
  "primitive_alias K B c = with_class c (\<lambda>k ev.
     case Option.bind (lookup_own (rc_class_env (klass_of k ev)) (c_name c) ev) (\<lambda>v. sval_text v ev) of
       Some s \<Rightarrow>
         if streq s (c_name c) then inherited_method K k c ev
         else taken (or_method
           (first_handler (primitive_handlers K B @ collection_handlers K B (c_recv c))
             (c\<lparr>c_name := cstr s\<rparr>) ev) (again K (cstr s) c))
     | None \<Rightarrow> inherited_method K k c ev)"

text \<open>The method of a class that has no place among the reopened ones.\<close>

definition value_class_method :: "runner \<Rightarrow> handler" where
  "value_class_method K c ev =
     (if is_object (c_recv c) \<or> class_of (c_recv c) \<noteq> None then Some (None, ev)
      else do {
        (klass, ev) \<leftarrow> val_class_of (c_recv c) ev;
        case class_of klass of
          None \<Rightarrow> Some (None, ev)
        | Some k \<Rightarrow> do {
            found \<leftarrow> instance_method k (c_name c) ev;
            case found of
              None \<Rightarrow> Some (None, ev)
            | Some (m, owner) \<Rightarrow>
                (case v_data m of
                   VAL_METHOD _ _ vis _ \<Rightarrow> do {
                     ok \<leftarrow> allows K c owner vis ev;
                     if ok then taken (invoke K c m owner (c_name c) (c_args c) (c_blk c) ev)
                     else if vis = METHOD_PROTECTED then taken (not_callable c ''protected'' (c_name c) ev)
                     else Some (None, ev)
                   }
                 | _ \<Rightarrow> None)
          }
      })"

subsection \<open>The order\<close>

text \<open>The methods that every value has, whatever its class says of them.\<close>

definition universal_first :: "runner \<Rightarrow> builtins \<Rightarrow> rvalue \<Rightarrow> method_table" where
  "universal_first K B recv =
     [([''is_a?'', ''kind_of?''], m_is_a),
      ([''instance_of?''], m_instance_of),
      ([''class''], no_args (\<lambda>c. val_class_of (c_recv c))),
      ([''respond_to?''], m_respond_to K),
      ([''extend''], \<lambda>c. builtin_extend K (c_recv c) c),
      ([''equal?''], m_equal_p K),
      ([''eql?''], m_eql K B),
      ([''freeze''], m_freeze),
      ([''frozen?''], m_frozen_p),
      ([''dup'', ''clone''], m_copy K),
      ([''itself''], give_recv)]
     @ when_kind (is_hash recv) [([''to_hash''], give_recv)]"

definition universal_rest :: "runner \<Rightarrow> builtins \<Rightarrow> rvalue \<Rightarrow> method_table" where
  "universal_rest K B recv =
     [([''instance_variable_get''], m_ivar_get),
      ([''instance_variable_set''], m_ivar_set),
      ([''instance_variable_defined?''], m_ivar_defined),
      ([''instance_variables''], m_ivars),
      ([''singleton_class''], m_singleton_class),
      ([''singleton_methods''], m_singleton_methods),
      ([''define_singleton_method''], m_define_singleton_method),
      ([''tap''], m_tap K),
      ([''then'', ''yield_self''], m_then K),
      ([''instance_eval'', ''class_eval'', ''module_eval''], m_instance_eval K B),
      ([''instance_exec''], m_instance_exec K),
      ([''object_id'', ''__id__''], m_object_id K B),
      ([''hash''], m_hash K B),
      ([''==''], m_eq K B),
      ([''!=''], m_neq K B)]
     @ when_kind (class_of recv = None \<and> (case v_data recv of VAL_RANGE _ \<Rightarrow> False | _ \<Rightarrow> True))
         [([''===''], m_case_eq K B)]
     @ when_kind (case v_data recv of VAL_SYMBOL _ \<Rightarrow> True | _ \<Rightarrow> False) symbol_basics
     @ [([''send'', ''__send__''], dispatch_dynamic_send K False),
        ([''public_send''], dispatch_dynamic_send K True),
        ([''methods'', ''public_methods'', ''private_methods'', ''protected_methods''], m_methods),
        ([''method''], m_method K)]
     @ when_kind (is_block recv) (proc_methods_tab K B)
     @ when_kind (\<not> is_object recv \<and> class_of recv = None)
         [([''inspect''], \<lambda>c ev. Option.bind (inspect K (c_recv c) ev) (\<lambda>s. give_text s ev))]"

definition kernel_for_nil :: "runner \<Rightarrow> builtins \<Rightarrow> rvalue \<Rightarrow> method_table" where
  "kernel_for_nil K B recv = when_kind (is_nil recv) [(kern_nil, \<lambda>c ev. answer (B B_KERNEL K c ev))]"

definition method_handlers :: "runner \<Rightarrow> builtins \<Rightarrow> rvalue \<Rightarrow> handler list" where
  "method_handlers K B recv =
     [singleton_method K, alias_call K, enumerator_map K, own_instance_method K,
      by_table [([''nil?''], no_args (\<lambda>c. give (val_bool (is_nil (c_recv c)))))],
      class_part ''Binding'' (by_table [([''eval''], \<lambda>c ev. answer (B B_BINDING K c ev))]),
      class_part ''Pathname'' (B B_PATHNAME K),
      plain_object_text K,
      by_table (universal_first K B recv), mutex_synchronize K, by_table (universal_rest K B recv),
      reopened_method K]
     @ primitive_handlers K B
     @ [by_table (when_kind (case v_data recv of VAL_SYMBOL _ \<Rightarrow> True | _ \<Rightarrow> False) (symbol_tab K))]
     @ collection_handlers K B recv
     @ [primitive_alias K B, by_table (kernel_for_nil K B recv)]
     @ (if is_nil recv then [dispatch_nil K] else [])
     @ [dispatch_bool, by_table (bool_tab recv), value_class_method K, dispatch_class K B, ask_object K B]"

definition dispatch_method :: "runner \<Rightarrow> builtins \<Rightarrow> meth" where
  "dispatch_method K B c ev =
     or_method (first_handler (method_handlers K B (c_recv c)) c ev) (\<lambda>ev.
       if streq (c_name c) ''method_missing'' then no_method c ev else dispatch_method_missing K c ev)"

subsection \<open>The evaluator of the program\<close>

text \<open>
  What the evaluator calls: the methods above, with the parts that are not modelled as the parameter
  \<open>B\<close>, and the functions of the libraries in \<open>base\<close>.
\<close>

definition make_call ::
  "ptr \<Rightarrow> rvalue \<Rightarrow> string \<Rightarrow> rvalue list \<Rightarrow> ptr option \<Rightarrow> node option \<Rightarrow> bool \<Rightarrow> int \<Rightarrow> call" where
  "make_call env recv name args blk site public explicit =
     \<lparr>c_env = env, c_recv = recv, c_name = name, c_args = args, c_blk = blk, c_site = site,
      c_public = public, c_explicit = explicit\<rparr>"

definition natives_of :: "builtins \<Rightarrow> runner \<Rightarrow> natives" where
  "natives_of B base =
     \<lparr>n_dispatch = \<lambda>K env recv name args blk site public explicit.
        dispatch_method K B (make_call env recv name args blk site public explicit),
      n_kernel = \<lambda>K env name args blk site ev.
        answer (B B_KERNEL K (make_call env val_nil name args blk (Some site) False 1) ev),
      n_responds_to = \<lambda>K. val_responds_to, n_base = base\<rparr>"

end
