(* ===== verification/BuiltinKeep.thy ===== *)
theory BuiltinKeep
  imports EvalAgree EvalDispatch
begin

section \<open>Built-in methods: runs that agree\<close>

text \<open>
  The rules for the ways in which built-in methods are put together, and what the methods that call
  no runner keep.
\<close>

subsection \<open>Results\<close>

lemma okg_visibility [agree]:
  "okg g s a a' \<Longrightarrow> okg g s b b' \<Longrightarrow> okg g s c c' \<Longrightarrow>
   okg g s (case_method_visibility a b c k) (case_method_visibility a' b' c' k)"
  by (cases k) simp_all

lemma give_agree [agree]: "keeps s ev \<Longrightarrow> okr s (give v ev) (give v ev)"
  by (simp add: give_def okg_Some)

lemma give_text_agree [agree]: "keeps s ev \<Longrightarrow> okr s (give_text t ev) (give_text t ev)"
  by (simp add: give_text_def okg_Some keeping)

lemma taken_agree [agree]: "okr s m m' \<Longrightarrow> okr s (taken m) (taken m')"
  unfolding taken_def by (rule okg_map_run) simp_all

lemma or_method_agree [agree]:
  "okr s m m' \<Longrightarrow> (\<And>ev. keeps s ev \<Longrightarrow> okr s (f ev) (f' ev)) \<Longrightarrow> okr s (or_method m f) (or_method m' f')"
  unfolding or_method_def by (rule okg_walk | assumption | simp; fail)+

lemma or_handler_agree [agree]:
  "okr s (f c ev) (f' c ev) \<Longrightarrow> (\<And>ev. keeps s ev \<Longrightarrow> okr s (g c ev) (g' c ev)) \<Longrightarrow>
   okr s (or_handler f g c ev) (or_handler f' g' c ev)"
  unfolding or_handler_def by (rule okg_walk | assumption | simp; fail)+

lemma answer_agree [agree]: "okr s m m' \<Longrightarrow> okr s (answer m) (answer m')"
  unfolding answer_def by (rule okg_walk | assumption | simp; fail)+

lemma then_next_agree [agree]:
  "okr s m m' \<Longrightarrow> (\<And>x ev. keeps s ev \<Longrightarrow> okr s (f x ev) (f' x ev)) \<Longrightarrow> okr s (then_next m f) (then_next m' f')"
  unfolding then_next_def by (rule okg_walk | assumption | simp; fail)+

lemma array_turn_agree [agree]:
  "(\<And>i x ev. keeps s ev \<Longrightarrow> okr s (f i x ev) (f' i x ev)) \<Longrightarrow> keeps s ev \<Longrightarrow>
   okr s (array_turn p v f i ev) (array_turn p v f' i ev)"
  unfolding array_turn_def by (rule okg_walk | assumption | simp; fail)+

subsection \<open>Tables and lists of handlers\<close>

definition tables_agree :: "eval \<Rightarrow> call \<Rightarrow> method_table \<Rightarrow> method_table \<Rightarrow> bool" where
  "tables_agree s c = list_all2 (\<lambda>(ns, f) (ns', f'). ns = ns' \<and>
     (\<forall>ev. keeps s ev \<longrightarrow> okr s (f c ev) (f' c ev)))"

lemma tables_agree_rules [agree]:
  "tables_agree s c [] []"
  "(\<And>ev. keeps s ev \<Longrightarrow> okr s (f c ev) (f' c ev)) \<Longrightarrow> tables_agree s c t t' \<Longrightarrow>
     tables_agree s c ((ns, f) # t) ((ns, f') # t')"
  "tables_agree s c t t' \<Longrightarrow> tables_agree s c u u' \<Longrightarrow> tables_agree s c (t @ u) (t' @ u')"
  "tables_agree s c t t' \<Longrightarrow> tables_agree s c (when_kind b t) (when_kind b t')"
  by (auto simp: tables_agree_def when_kind_def list_all2_appendI)

lemmas tables_vdata [agree] = case_vdata_rel [where P = "tables_agree s c" for s c]

lemma find_method_agree:
  "tables_agree s c t t' \<Longrightarrow>
     rel_option (\<lambda>f f'. \<forall>ev. keeps s ev \<longrightarrow> okr s (f c ev) (f' c ev)) (find_method t name) (find_method t' name)"
  unfolding tables_agree_def
  by (induction rule: list_all2_induct) (auto simp: find_method_def split: prod.splits)

lemma okg_find_method:
  "tables_agree s c t t' \<Longrightarrow> keeps s ev \<Longrightarrow> okr s m m' \<Longrightarrow>
   okr s (case find_method t name of Some f \<Rightarrow> f c ev | None \<Rightarrow> m)
     (case find_method t' name of Some f \<Rightarrow> f c ev | None \<Rightarrow> m')"
  using find_method_agree [of s c t t' name] by (auto simp: option_rel_Some1 split: option.split)

lemma by_table_agree [agree]:
  "tables_agree s c t t' \<Longrightarrow> keeps s ev \<Longrightarrow> okr s (by_table t c ev) (by_table t' c ev)"
  using find_method_agree [of s c t t' "c_name c"] unfolding by_table_def
  by (auto simp: option_rel_Some1 okg_Some intro!: taken_agree split: option.split)

definition handlers_agree :: "eval \<Rightarrow> call \<Rightarrow> handler list \<Rightarrow> handler list \<Rightarrow> bool" where
  "handlers_agree s c = list_all2 (\<lambda>f f'. \<forall>ev. keeps s ev \<longrightarrow> okr s (f c ev) (f' c ev))"

lemma handlers_agree_rules [agree]:
  "handlers_agree s c [] []"
  "(\<And>ev. keeps s ev \<Longrightarrow> okr s (f c ev) (f' c ev)) \<Longrightarrow> handlers_agree s c t t' \<Longrightarrow>
     handlers_agree s c (f # t) (f' # t')"
  "handlers_agree s c t t' \<Longrightarrow> handlers_agree s c u u' \<Longrightarrow> handlers_agree s c (t @ u) (t' @ u')"
  "handlers_agree s c t t' \<Longrightarrow> handlers_agree s c (if b then t else []) (if b then t' else [])"
  by (auto simp: handlers_agree_def list_all2_appendI)

lemmas handlers_vdata [agree] = case_vdata_rel [where P = "handlers_agree s c" for s c]

lemma first_handler_agree [agree]:
  "handlers_agree s c t t' \<Longrightarrow> keeps s ev \<Longrightarrow> okr s (first_handler t c ev) (first_handler t' c ev)"
  unfolding handlers_agree_def
proof (induction arbitrary: ev rule: list_all2_induct)
  case (Cons f t f' t')
  then show ?case unfolding first_handler.simps by (intro or_handler_agree) auto
qed (simp add: okg_Some)

subsection \<open>Loops\<close>

lemmas run_loop_induct =
  run_loop.raw_induct [of P "((turn, x), ev)" r for P turn x ev r, unfolded prod.case]

lemma run_loop_agree [agree]:
  assumes turn: "\<And>s x ev. keeps s ev \<Longrightarrow> okr s (turn x ev) (turn' x ev)" and "keeps s ev"
  shows "okr s (run_loop turn x ev) (run_loop turn' x ev)"
proof -
  have "run_loop turn' x ev = Some r \<and> keeps s (snd r)" if "run_loop turn x ev = Some r" for r
  proof (rule run_loop_induct [where P = "\<lambda>t x e r. t = turn \<longrightarrow> keeps s e \<longrightarrow>
        run_loop turn' x e = Some r \<and> keeps s (snd r)", OF _ that, THEN mp, THEN mp])
    fix f t x e r
    assume IH: "\<And>t x e r. f t x e = Some r \<Longrightarrow>
        t = turn \<longrightarrow> keeps s e \<longrightarrow> run_loop turn' x e = Some r \<and> keeps s (snd r)"
      and step: "t x e \<bind> (\<lambda>(r, ev). case r of Inl v \<Rightarrow> Some (v, ev) | Inr y \<Rightarrow> f t y ev) = Some r"
    show "t = turn \<longrightarrow> keeps s e \<longrightarrow> run_loop turn' x e = Some r \<and> keeps s (snd r)"
    proof (intro impI)
      assume t: "t = turn" and e: "keeps s e"
      have ih: "okr s (f turn x e) (run_loop turn' x e)" if "keeps s e" for x e
        using that IH by (simp add: okg_def)
      have "okr s (t x e \<bind> (\<lambda>(r, ev). case r of Inl v \<Rightarrow> Some (v, ev) | Inr y \<Rightarrow> f t y ev))
          (run_loop turn' x e)"
        unfolding t by (subst run_loop.simps) (rule okg_walk ih turn e | simp add: e; fail)+
      then show "run_loop turn' x e = Some r \<and> keeps s (snd r)"
        using step by (blast dest: okgD)
    qed
  qed (simp_all add: assms)
  then show ?thesis by (simp add: okg_def)
qed

subsection \<open>Operations on the state\<close>

lemma keeps_drop_flags [keeping]: "keeps s ev \<Longrightarrow> keeps s (drop_flags ev)"
  by (simp add: drop_flags_def keeping)

lemma keeps_stub_class [keeping]: "keeps s ev \<Longrightarrow> keeps s (snd (stub_class n ev))"
  by (simp add: stub_class_def split_beta Let_def keeping)

lemma keeps_clone_singleton_env [keeping]: "keeps s ev \<Longrightarrow> keeps s (snd (clone_singleton_env p ev))"
  by (auto simp: clone_singleton_env_def split_beta Let_def keeping intro!: keeps_fold split: option.split)

lemma keeps_copy_object [keeping]: "keeps s ev \<Longrightarrow> keeps s (snd (copy_object b p ev))"
  by (auto simp: copy_object_def split_beta Let_def keeping intro!: keeps_fold keeps_clone_singleton_env
      keeps_set_heap split: vdata.split)

lemma keeps_push_symbol [keeping]: "keeps s ev \<Longrightarrow> keeps s (push_symbol v n ev)"
  by (simp add: push_symbol_def split_beta Let_def keeping)

lemma keeps_singleton_class_of [keeping]: "keeps s ev \<Longrightarrow> keeps s (snd (singleton_class_of v p ev))"
  by (simp add: singleton_class_of_def split_beta Let_def keeping split: option.split)

lemma keeps_copy_module_methods [keeping]: "keeps s ev \<Longrightarrow> keeps s (copy_module_methods p q b ev)"
  by (auto simp: copy_module_methods_def split_beta Let_def keeping intro!: keeps_fold)

lemma keeps_class_env_made [keeping]: "keeps s ev \<Longrightarrow> keeps s (snd (class_env_made p k ev))"
  by (simp add: class_env_made_def split_beta Let_def keeping split: option.split)

lemma keeps_mark_class_scope [keeping]: "keeps s ev \<Longrightarrow> keeps s (mark_class_scope p v ev)"
  by (simp add: mark_class_scope_def split_beta Let_def keeping)

lemma keeps_set_members [keeping]: "keeps s ev \<Longrightarrow> keeps s (set_members v xs ys ev)"
  by (auto simp: set_members_def split_beta Let_def keeping intro!: keeps_fold split: option.split vdata.split)

lemma keeps_rename_class [keeping]: "keeps s ev \<Longrightarrow> keeps s (rename_class v n ev)"
  by (auto simp: rename_class_def split_beta Let_def keeping split: option.split)

lemma keeps_param_pair [keeping]: "keeps s ev \<Longrightarrow> keeps s (snd (param_pair b p ev))"
  by (auto simp: param_pair_def split_beta Let_def keeping split: option.split)

lemma keeps_push_param [keeping]: "keeps s ev \<Longrightarrow> keeps s (push_param v b n ev)"
  by (auto simp: push_param_def split_beta Let_def keeping split: option.split)

lemma keeps_method_object [keeping]: "keeps s ev \<Longrightarrow> keeps s (snd (method_object a b c d e ev))"
  by (auto simp: method_object_def split_beta Let_def keeping split: option.split vdata.split)

lemma heap_modules [keeping]:
  "heap_ext h (include_module m k h)" "heap_ext h (prepend_module m k h)" "heap_ext h (extend_module m k h)"
  by (simp_all add: include_module_def prepend_module_def extend_module_def heap_writes)

lemma keeps_open_singleton_env:
  "keeps s ev \<Longrightarrow> open_singleton_env v ev = Some r \<Longrightarrow> keeps s (snd r)"
  by (erule okgD(2) [OF open_singleton_env_agree])

lemma keeps_mix_in [keeping]: "keeps s ev \<Longrightarrow> keeps s (mix_in v ms ev)"
  by (auto simp: mix_in_def split_beta Let_def keeping intro!: keeps_fold keeps_singleton_class_of
      dest: keeps_open_singleton_env split: option.split vdata.split)

lemma keeps_lists [keeping]:
  "keeps s ev \<Longrightarrow> keeps s (fold (push_symbol arr) ns ev)"
  "keeps s ev \<Longrightarrow> keeps s (fold (push_param arr b) ps ev)"
  by (simp_all add: keeps_fold keeping)

lemma keeps_remove_own [keeping]: "keeps s ev \<Longrightarrow> keeps s (ev\<lparr>ev_envs := snd (env_remove_own p n (ev_envs ev))\<rparr>)"
  by (auto simp: env_remove_own_def set_vars_ext intro!: keeps_envs split: option.split)

lemma keeps_vdata [keeping]:
  "keeps s ev \<Longrightarrow> (\<And>p. keeps s (f p)) \<Longrightarrow> keeps s (case v_data v of VAL_OBJECT p \<Rightarrow> f p | _ \<Rightarrow> ev)"
  by (simp split: vdata.split)

lemma heap_hash_with_defaults [keeping]: "heap_ext h (snd (val_hash_new_with_defaults d p h))"
  by (simp add: heap_ext_def val_hash_new_with_defaults_def)

lemma keeps_define_singleton [keeping]:
  "keeps s ev \<Longrightarrow> keeps s (case v_data v of
       VAL_CLASS k \<Rightarrow> (let (e, ev) = class_env_made None k ev in define_var e (f name) m ev)
     | _ \<Rightarrow> (case open_singleton_env v ev of Some (e, ev) \<Rightarrow> define_var e name m ev | None \<Rightarrow> ev))"
  by (auto simp: split_beta Let_def keeping dest: keeps_open_singleton_env split: vdata.split option.split)

subsection \<open>Methods that call no runner\<close>

lemma raise_at_agree [agree]: "keeps s ev \<Longrightarrow> okr s (raise_at a b c ev) (raise_at a b c ev)"
  unfolding raise_at_def by (rule agree)

lemma wrong_args_agree [agree]: "keeps s ev \<Longrightarrow> okr s (wrong_args a ev) (wrong_args a ev)"
  unfolding wrong_args_def by (rule agree)

lemma no_args_agree [agree]:
  "(\<And>ev. keeps s ev \<Longrightarrow> okr s (f c ev) (f' c ev)) \<Longrightarrow> keeps s ev \<Longrightarrow> okr s (no_args f c ev) (no_args f' c ev)"
  unfolding no_args_def by (rule okg_walk agree | assumption)+

lemma requires_integer_agree [agree]:
  "(\<And>b ev. keeps s ev \<Longrightarrow> okr s (f b ev) (f' b ev)) \<Longrightarrow> keeps s ev \<Longrightarrow>
   okr s (requires_integer c f ev) (requires_integer c f' ev)"
  unfolding requires_integer_def by (rule okg_walk agree | assumption)+

lemma with_ivar_name_agree [agree]:
  "(\<And>b ev. keeps s ev \<Longrightarrow> okr s (f b ev) (f' b ev)) \<Longrightarrow> keeps s ev \<Longrightarrow>
   okr s (with_ivar_name c f ev) (with_ivar_name c f' ev)"
  unfolding with_ivar_name_def by (rule okg_walk agree | assumption)+

lemma needs_name_agree [agree]:
  "(\<And>b ev. keeps s ev \<Longrightarrow> okr s (f b ev) (f' b ev)) \<Longrightarrow> keeps s ev \<Longrightarrow>
   okr s (needs_name c f ev) (needs_name c f' ev)"
  unfolding needs_name_def by (rule okg_walk agree | assumption)+

lemma nil_without_name_agree [agree]:
  "(\<And>b ev. keeps s ev \<Longrightarrow> okr s (f b ev) (f' b ev)) \<Longrightarrow> keeps s ev \<Longrightarrow>
   okr s (nil_without_name c f ev) (nil_without_name c f' ev)"
  unfolding nil_without_name_def by (rule okg_walk agree | assumption)+

lemma with_class_agree [agree]:
  "(\<And>k ev. keeps s ev \<Longrightarrow> okr s (f k ev) (f' k ev)) \<Longrightarrow> keeps s ev \<Longrightarrow>
   okr s (with_class c f ev) (with_class c f' ev)"
  unfolding with_class_def by (rule okg_walk agree | assumption | simp; fail)+

lemma class_part_agree [agree]:
  "(\<And>ev. keeps s ev \<Longrightarrow> okr s (f c ev) (f' c ev)) \<Longrightarrow> keeps s ev \<Longrightarrow>
   okr s (class_part n f c ev) (class_part n f' c ev)"
  unfolding class_part_def by (rule okg_walk agree | assumption | simp; fail)+

lemma each_name_agree [agree]:
  "(\<And>n ev. keeps s ev \<Longrightarrow> okr s (f n ev) (f' n ev)) \<Longrightarrow> keeps s ev \<Longrightarrow>
   okr s (each_name c f xs ev) (each_name c f' xs ev)"
proof (induction xs arbitrary: ev)
  case (Cons x xs)
  then show ?case unfolding each_name.simps
    by - (rule okg_walk agree Cons.IH | assumption | simp; fail)+
qed (simp add: give_agree)

lemma step_turn_agree [agree]:
  "(\<And>v ev. keeps s ev \<Longrightarrow> okr s (f v ev) (f' v ev)) \<Longrightarrow> keeps s ev \<Longrightarrow>
   okr s (step_turn f a b c d e ev) (step_turn f' a b c d e ev)"
  unfolding step_turn_def by (rule okg_walk agree | assumption | simp; fail)+

lemma with_divisor_agree [agree]: "keeps s ev \<Longrightarrow> okr s (with_divisor c f ev) (with_divisor c f ev)"
  unfolding with_divisor_def divided_by_zero_def by (rule okg_walk agree | simp; fail)+

lemma val_class_of_agree [agree]:
  "keeps s ev \<Longrightarrow> okr s (val_class_of a ev) (val_class_of a ev)"
  unfolding val_class_of_def
  by (rule okg_walk agree | simp add: keeping; fail)+

lemma val_responds_to_agree [agree]:
  "keeps s ev \<Longrightarrow>
    okr s (val_responds_to a b c ev)
      (val_responds_to a b c ev)"
  unfolding val_responds_to_def
  by (rule okg_walk agree | simp add: keeping; fail)+

lemma class_hook_agree [agree]:
  "keeps s ev \<Longrightarrow> okr s (class_hook a b ev) (class_hook a b ev)"
  unfolding class_hook_def
  by (rule okg_walk agree | simp add: keeping; fail)+

lemma no_method_agree [agree]:
  "keeps s ev \<Longrightarrow> okr s (no_method a ev) (no_method a ev)"
  unfolding no_method_def
  by (rule okg_walk agree | simp add: keeping; fail)+

lemma not_callable_agree [agree]:
  "keeps s ev \<Longrightarrow> okr s (not_callable a b c ev) (not_callable a b c ev)"
  unfolding not_callable_def
  by (rule okg_walk agree | simp add: keeping; fail)+

lemma hidden_method_agree [agree]:
  "keeps s ev \<Longrightarrow> okr s (hidden_method a b ev) (hidden_method a b ev)"
  unfolding hidden_method_def
  by (rule okg_walk agree | simp add: keeping; fail)+

lemma raise_hidden_agree [agree]:
  "keeps s ev \<Longrightarrow> okr s (raise_hidden a b ev) (raise_hidden a b ev)"
  unfolding raise_hidden_def
  by (rule okg_walk agree | simp add: keeping; fail)+

lemma divided_by_zero_agree [agree]:
  "keeps s ev \<Longrightarrow> okr s (divided_by_zero a ev) (divided_by_zero a ev)"
  unfolding divided_by_zero_def
  by (rule okg_walk agree | simp add: keeping; fail)+

lemma give_bool_agree [agree]:
  "keeps s ev \<Longrightarrow> okr s (give_bool a b ev) (give_bool a b ev)"
  unfolding give_bool_def
  by (rule okg_walk agree | simp add: keeping; fail)+

lemma give_int_agree [agree]:
  "keeps s ev \<Longrightarrow> okr s (give_int a b ev) (give_int a b ev)"
  unfolding give_int_def
  by (rule okg_walk agree | simp add: keeping; fail)+

lemma order_methods_agree [agree]:
  "tables_agree s c (order_methods a b) (order_methods a b)"
  unfolding order_methods_def
  by (rule okg_walk agree | simp add: keeping; fail)+

lemma give_float_agree [agree]:
  "keeps s ev \<Longrightarrow> okr s (give_float a b ev) (give_float a b ev)"
  unfolding give_float_def
  by (rule okg_walk agree | simp add: keeping; fail)+

lemma push_step_agree [agree]:
  "keeps s ev \<Longrightarrow> okr s (push_step a b ev) (push_step a b ev)"
  unfolding push_step_def
  by (rule okg_walk agree | simp add: keeping; fail)+

lemma int_mask_test_agree [agree]:
  "keeps s ev \<Longrightarrow> okr s (int_mask_test a b ev) (int_mask_test a b ev)"
  unfolding int_mask_test_def
  by (rule okg_walk agree | simp add: keeping; fail)+

lemma int_rounded_agree [agree]:
  "keeps s ev \<Longrightarrow> okr s (int_rounded a b ev) (int_rounded a b ev)"
  unfolding int_rounded_def
  by (rule okg_walk agree | simp add: keeping; fail)+

lemma int_chr_agree [agree]:
  "keeps s ev \<Longrightarrow> okr s (int_chr a b ev) (int_chr a b ev)"
  unfolding int_chr_def
  by (rule okg_walk agree | simp add: keeping; fail)+

lemma int_index_agree [agree]:
  "keeps s ev \<Longrightarrow> okr s (int_index a b ev) (int_index a b ev)"
  unfolding int_index_def
  by (rule okg_walk agree | simp add: keeping; fail)+

lemma int_coerce_agree [agree]:
  "keeps s ev \<Longrightarrow> okr s (int_coerce a b ev) (int_coerce a b ev)"
  unfolding int_coerce_def
  by (rule okg_walk agree | simp add: keeping; fail)+

lemma int_fdiv_agree [agree]:
  "keeps s ev \<Longrightarrow> okr s (int_fdiv a b ev) (int_fdiv a b ev)"
  unfolding int_fdiv_def
  by (rule okg_walk agree | simp add: keeping; fail)+

lemma int_divmod_method_agree [agree]:
  "keeps s ev \<Longrightarrow>
    okr s (int_divmod_method a b ev)
      (int_divmod_method a b ev)"
  unfolding int_divmod_method_def
  by (rule okg_walk agree | simp add: keeping; fail)+

lemma int_ceildiv_method_agree [agree]:
  "keeps s ev \<Longrightarrow>
    okr s (int_ceildiv_method a b ev)
      (int_ceildiv_method a b ev)"
  unfolding int_ceildiv_method_def
  by (rule okg_walk agree | simp add: keeping; fail)+

lemma int_digits_agree [agree]:
  "keeps s ev \<Longrightarrow> okr s (int_digits a b ev) (int_digits a b ev)"
  unfolding int_digits_def
  by (rule okg_walk agree | simp add: keeping; fail)+

lemma int_between_agree [agree]:
  "keeps s ev \<Longrightarrow> okr s (int_between a b ev) (int_between a b ev)"
  unfolding int_between_def
  by (rule okg_walk agree | simp add: keeping; fail)+

lemma int_clamp_agree [agree]:
  "keeps s ev \<Longrightarrow> okr s (int_clamp a b ev) (int_clamp a b ev)"
  unfolding int_clamp_def
  by (rule okg_walk agree | simp add: keeping; fail)+

lemma give_recv_agree [agree]:
  "keeps s ev \<Longrightarrow> okr s (give_recv a ev) (give_recv a ev)"
  unfolding give_recv_def
  by (rule okg_walk agree | simp add: keeping; fail)+

lemma m_is_a_agree [agree]:
  "keeps s ev \<Longrightarrow> okr s (m_is_a a ev) (m_is_a a ev)"
  unfolding m_is_a_def
  by (rule okg_walk agree | simp add: keeping; fail)+

lemma m_instance_of_agree [agree]:
  "keeps s ev \<Longrightarrow> okr s (m_instance_of a ev) (m_instance_of a ev)"
  unfolding m_instance_of_def
  by (rule okg_walk agree | simp add: keeping; fail)+

lemma m_freeze_agree [agree]:
  "keeps s ev \<Longrightarrow> okr s (m_freeze a ev) (m_freeze a ev)"
  unfolding m_freeze_def
  by (rule okg_walk agree | simp add: keeping; fail)+

lemma m_frozen_p_agree [agree]:
  "keeps s ev \<Longrightarrow> okr s (m_frozen_p a ev) (m_frozen_p a ev)"
  unfolding m_frozen_p_def
  by (rule okg_walk agree | simp add: keeping; fail)+

lemma copy_array_agree [agree]:
  "keeps s ev \<Longrightarrow> okr s (copy_array a b ev) (copy_array a b ev)"
  unfolding copy_array_def
  by (rule okg_walk agree | simp add: keeping; fail)+

lemma copy_string_agree [agree]:
  "keeps s ev \<Longrightarrow> okr s (copy_string a b ev) (copy_string a b ev)"
  unfolding copy_string_def
  by (rule okg_walk agree | simp add: keeping; fail)+

lemma m_ivar_get_agree [agree]:
  "keeps s ev \<Longrightarrow> okr s (m_ivar_get a ev) (m_ivar_get a ev)"
  unfolding m_ivar_get_def
  by (rule okg_walk agree | simp add: keeping; fail)+

lemma m_ivar_set_agree [agree]:
  "keeps s ev \<Longrightarrow> okr s (m_ivar_set a ev) (m_ivar_set a ev)"
  unfolding m_ivar_set_def
  by (rule okg_walk agree | simp add: keeping; fail)+

lemma m_ivar_defined_agree [agree]:
  "keeps s ev \<Longrightarrow> okr s (m_ivar_defined a ev) (m_ivar_defined a ev)"
  unfolding m_ivar_defined_def
  by (rule okg_walk agree | simp add: keeping; fail)+

lemma give_symbols_agree [agree]:
  "keeps s ev \<Longrightarrow> okr s (give_symbols a ev) (give_symbols a ev)"
  unfolding give_symbols_def
  by (rule okg_walk agree | simp add: keeping; fail)+

lemma m_ivars_agree [agree]:
  "keeps s ev \<Longrightarrow> okr s (m_ivars a ev) (m_ivars a ev)"
  unfolding m_ivars_def
  by (rule okg_walk agree | simp add: keeping; fail)+

lemma m_singleton_class_agree [agree]:
  "keeps s ev \<Longrightarrow>
    okr s (m_singleton_class a ev)
      (m_singleton_class a ev)"
  unfolding m_singleton_class_def
  by (rule okg_walk agree | simp add: keeping; fail)+

lemma m_define_singleton_method_agree [agree]:
  "keeps s ev \<Longrightarrow>
    okr s (m_define_singleton_method a ev)
      (m_define_singleton_method a ev)"
  unfolding m_define_singleton_method_def
  by (rule okg_walk agree | simp add: keeping; fail)+

lemma m_singleton_methods_agree [agree]:
  "keeps s ev \<Longrightarrow>
    okr s (m_singleton_methods a ev)
      (m_singleton_methods a ev)"
  unfolding m_singleton_methods_def
  by (rule okg_walk agree | simp add: keeping; fail)+

lemma m_methods_agree [agree]:
  "keeps s ev \<Longrightarrow> okr s (m_methods a ev) (m_methods a ev)"
  unfolding m_methods_def
  by (rule okg_walk agree | simp add: keeping; fail)+

lemma found_method_agree [agree]:
  "keeps s ev \<Longrightarrow> okr s (found_method a b ev) (found_method a b ev)"
  unfolding found_method_def
  by (rule okg_walk agree | simp add: keeping; fail)+

lemma make_method_object_agree [agree]:
  "keeps s ev \<Longrightarrow>
    okr s (make_method_object a b ev)
      (make_method_object a b ev)"
  unfolding make_method_object_def
  by (rule okg_walk agree | simp add: keeping; fail)+

lemma no_block_agree [agree]:
  "keeps s ev \<Longrightarrow> okr s (no_block a b ev) (no_block a b ev)"
  unfolding no_block_def
  by (rule okg_walk agree | simp add: keeping; fail)+

lemma give_nil_agree [agree]:
  "keeps s ev \<Longrightarrow> okr s (give_nil a ev) (give_nil a ev)"
  unfolding give_nil_def
  by (rule okg_walk agree | simp add: keeping; fail)+

lemma k_case_eq_agree [agree]:
  "keeps s ev \<Longrightarrow> okr s (k_case_eq a b ev) (k_case_eq a b ev)"
  unfolding k_case_eq_def
  by (rule okg_walk agree | simp add: keeping; fail)+

lemma k_define_method_agree [agree]:
  "keeps s ev \<Longrightarrow>
    okr s (k_define_method a b ev)
      (k_define_method a b ev)"
  unfolding k_define_method_def
  by (rule okg_walk agree | simp add: keeping; fail)+

lemma module_constant_agree [agree]:
  "keeps s ev \<Longrightarrow>
    okr s (module_constant a b ev)
      (module_constant a b ev)"
  unfolding module_constant_def
  by (rule okg_walk agree | simp add: keeping; fail)+

lemma k_alias_method_agree [agree]:
  "keeps s ev \<Longrightarrow> okr s (k_alias_method a b ev) (k_alias_method a b ev)"
  unfolding k_alias_method_def
  by (rule okg_walk agree | simp add: keeping; fail)+

lemma new_hash_of_agree [agree]:
  "keeps s ev \<Longrightarrow> okr s (new_hash_of a ev) (new_hash_of a ev)"
  unfolding new_hash_of_def
  by (rule okg_walk agree | simp add: keeping; fail)+

lemma new_string_of_agree [agree]:
  "keeps s ev \<Longrightarrow> okr s (new_string_of a ev) (new_string_of a ev)"
  unfolding new_string_of_def
  by (rule okg_walk agree | simp add: keeping; fail)+

lemma new_float_of_agree [agree]:
  "keeps s ev \<Longrightarrow> okr s (new_float_of a ev) (new_float_of a ev)"
  unfolding new_float_of_def
  by (rule okg_walk agree | simp add: keeping; fail)+

lemma new_integer_of_agree [agree]:
  "keeps s ev \<Longrightarrow> okr s (new_integer_of a ev) (new_integer_of a ev)"
  unfolding new_integer_of_def
  by (rule okg_walk agree | simp add: keeping; fail)+

lemma k_members_agree [agree]:
  "keeps s ev \<Longrightarrow> okr s (k_members a b ev) (k_members a b ev)"
  unfolding k_members_def
  by (rule okg_walk agree | simp add: keeping; fail)+

lemma k_instance_agree [agree]:
  "keeps s ev \<Longrightarrow> okr s (k_instance a b ev) (k_instance a b ev)"
  unfolding k_instance_def
  by (rule okg_walk agree | simp add: keeping; fail)+

lemma k_compare_agree [agree]:
  "keeps s ev \<Longrightarrow> okr s (k_compare a b ev) (k_compare a b ev)"
  unfolding k_compare_def
  by (rule okg_walk agree | simp add: keeping; fail)+

lemma k_class_variables_agree [agree]:
  "keeps s ev \<Longrightarrow>
    okr s (k_class_variables a b ev)
      (k_class_variables a b ev)"
  unfolding k_class_variables_def
  by (rule okg_walk agree | simp add: keeping; fail)+

lemma k_const_defined_agree [agree]:
  "keeps s ev \<Longrightarrow>
    okr s (k_const_defined a b ev)
      (k_const_defined a b ev)"
  unfolding k_const_defined_def
  by (rule okg_walk agree | simp add: keeping; fail)+

lemma k_const_get_agree [agree]:
  "keeps s ev \<Longrightarrow> okr s (k_const_get a b ev) (k_const_get a b ev)"
  unfolding k_const_get_def
  by (rule okg_walk agree | simp add: keeping; fail)+

lemma k_const_set_agree [agree]:
  "keeps s ev \<Longrightarrow> okr s (k_const_set a b c ev) (k_const_set a b c ev)"
  unfolding k_const_set_def
  by (rule okg_walk agree | simp add: keeping; fail)+

lemma k_constants_agree [agree]:
  "keeps s ev \<Longrightarrow> okr s (k_constants a b c ev) (k_constants a b c ev)"
  unfolding k_constants_def
  by (rule okg_walk agree | simp add: keeping; fail)+

lemma k_superclass_agree [agree]:
  "keeps s ev \<Longrightarrow> okr s (k_superclass a b ev) (k_superclass a b ev)"
  unfolding k_superclass_def
  by (rule okg_walk agree | simp add: keeping; fail)+

lemma k_include_p_agree [agree]:
  "keeps s ev \<Longrightarrow> okr s (k_include_p a b ev) (k_include_p a b ev)"
  unfolding k_include_p_def
  by (rule okg_walk agree | simp add: keeping; fail)+

lemma k_included_modules_agree [agree]:
  "keeps s ev \<Longrightarrow>
    okr s (k_included_modules a b ev)
      (k_included_modules a b ev)"
  unfolding k_included_modules_def
  by (rule okg_walk agree | simp add: keeping; fail)+

lemma k_ancestors_agree [agree]:
  "keeps s ev \<Longrightarrow> okr s (k_ancestors a b ev) (k_ancestors a b ev)"
  unfolding k_ancestors_def
  by (rule okg_walk agree | simp add: keeping; fail)+

lemma k_instance_methods_agree [agree]:
  "keeps s ev \<Longrightarrow>
    okr s (k_instance_methods a b ev)
      (k_instance_methods a b ev)"
  unfolding k_instance_methods_def
  by (rule okg_walk agree | simp add: keeping; fail)+

lemma k_method_defined_agree [agree]:
  "keeps s ev \<Longrightarrow>
    okr s (k_method_defined a b ev)
      (k_method_defined a b ev)"
  unfolding k_method_defined_def
  by (rule okg_walk agree | simp add: keeping; fail)+

lemma k_instance_method_agree [agree]:
  "keeps s ev \<Longrightarrow>
    okr s (k_instance_method a b c ev)
      (k_instance_method a b c ev)"
  unfolding k_instance_method_def
  by (rule okg_walk agree | simp add: keeping; fail)+

lemma new_proc_of_agree [agree]:
  "keeps s ev \<Longrightarrow> okr s (new_proc_of a ev) (new_proc_of a ev)"
  unfolding new_proc_of_def
  by (rule okg_walk agree | simp add: keeping; fail)+

lemma instance_handler_agree [agree]:
  "keeps s ev \<Longrightarrow>
    okr s (instance_handler a b ev)
      (instance_handler a b ev)"
  unfolding instance_handler_def
  by (rule okg_walk agree | simp add: keeping; fail)+

lemma refused_agree [agree]:
  "keeps s ev \<Longrightarrow> okr s (refused a b c ev) (refused a b c ev)"
  unfolding refused_def
  by (rule okg_walk agree | simp add: keeping; fail)+

lemma proc_arity_method_agree [agree]:
  "keeps s ev \<Longrightarrow>
    okr s (proc_arity_method a ev)
      (proc_arity_method a ev)"
  unfolding proc_arity_method_def
  by (rule okg_walk agree | simp add: keeping; fail)+

lemma proc_location_agree [agree]:
  "keeps s ev \<Longrightarrow> okr s (proc_location a ev) (proc_location a ev)"
  unfolding proc_location_def
  by (rule okg_walk agree | simp add: keeping; fail)+

lemma proc_parameters_agree [agree]:
  "keeps s ev \<Longrightarrow> okr s (proc_parameters a ev) (proc_parameters a ev)"
  unfolding proc_parameters_def
  by (rule okg_walk agree | simp add: keeping; fail)+

lemma symbol_basics_agree [agree]:
  "tables_agree s c symbol_basics symbol_basics"
  unfolding symbol_basics_def
  by (rule okg_walk agree | simp add: keeping; fail)+

lemma symbol_order_agree [agree]:
  "keeps s ev \<Longrightarrow> okr s (symbol_order a ev) (symbol_order a ev)"
  unfolding symbol_order_def
  by (rule okg_walk agree | simp add: keeping; fail)+

lemma nil_missing_agree [agree]:
  "keeps s ev \<Longrightarrow> okr s (nil_missing a ev) (nil_missing a ev)"
  unfolding nil_missing_def
  by (rule okg_walk agree | simp add: keeping; fail)+

lemma dispatch_bool_agree [agree]:
  "keeps s ev \<Longrightarrow> okr s (dispatch_bool a ev) (dispatch_bool a ev)"
  unfolding dispatch_bool_def
  by (rule okg_walk agree | simp add: keeping; fail)+

lemma bool_order_agree [agree]:
  "keeps s ev \<Longrightarrow> okr s (bool_order a ev) (bool_order a ev)"
  unfolding bool_order_def Let_def by (simp add: give_agree split: option.split)

lemma bool_tab_agree [agree]:
  "tables_agree s c (bool_tab a) (bool_tab a)"
  unfolding bool_tab_def
  by (rule okg_walk agree | simp add: keeping; fail)+
lemma struct_handler_agree [agree]:
  "(\<And>c ev. keeps s ev \<Longrightarrow> okr s (f c ev) (f' c ev)) \<Longrightarrow> keeps s ev \<Longrightarrow>
   okr s (struct_handler f k c ev) (struct_handler f' k c ev)"
  unfolding struct_handler_def by (rule okg_walk agree | assumption | simp; fail)+

end
