(* ===== verification/BuiltinAgree.thy ===== *)
theory BuiltinAgree
  imports BuiltinKeep
begin

context runners_agree begin

lemma allows_natives: "allows K' = allows K"
  by (simp add: fun_eq_iff allows_def natives)

lemma content_hash_natives: "val_content_hash n K' ev = val_content_hash n K ev"
  by (induction n) (simp_all only: val_content_hash.simps hash_step_def natives cong: vdata.case_cong)

lemma call_on_value_agree [agree]:
  "keeps s ev \<Longrightarrow>
    okr s (call_on_value K a b c d e ev)
      (call_on_value K' a b c d e ev)"
  unfolding call_on_value_def same_natives natives allows_natives
  by (rule okg_walk agree natives | simp add: keeping; fail)+

lemma invoke_agree [agree]:
  "keeps s ev \<Longrightarrow>
    okr s (invoke K a b c d e f ev)
      (invoke K' a b c d e f ev)"
  unfolding invoke_def same_natives natives allows_natives
  by (rule okg_walk agree natives | simp add: keeping; fail)+

lemma yield_to_agree [agree]:
  "keeps s ev \<Longrightarrow> okr s (yield_to K a b c ev) (yield_to K' a b c ev)"
  unfolding yield_to_def same_natives natives allows_natives
  by (rule okg_walk agree natives | simp add: keeping; fail)+

lemma block_step_agree [agree]:
  "keeps s ev \<Longrightarrow> okr s (block_step K a b c ev) (block_step K' a b c ev)"
  unfolding block_step_def same_natives natives allows_natives
  by (rule okg_walk agree natives | simp add: keeping; fail)+

lemma dispatch_respond_to_missing_agree [agree]:
  "keeps s ev \<Longrightarrow>
    okr s (dispatch_respond_to_missing K a b c ev)
      (dispatch_respond_to_missing K' a b c ev)"
  unfolding dispatch_respond_to_missing_def same_natives natives allows_natives
  by (rule okg_walk agree natives | simp add: keeping; fail)+

lemma dispatch_method_missing_agree [agree]:
  "keeps s ev \<Longrightarrow>
    okr s (dispatch_method_missing K a ev)
      (dispatch_method_missing K' a ev)"
  unfolding dispatch_method_missing_def same_natives natives allows_natives
  by (rule okg_walk agree natives | simp add: keeping; fail)+

lemma dispatch_dynamic_send_agree [agree]:
  "keeps s ev \<Longrightarrow>
    okr s (dispatch_dynamic_send K a b ev)
      (dispatch_dynamic_send K' a b ev)"
  unfolding dispatch_dynamic_send_def same_natives natives allows_natives
  by (rule okg_walk agree natives | simp add: keeping; fail)+

lemma object_text_agree [agree]:
  "keeps s ev \<Longrightarrow>
    okr s (object_text K a b c ev)
      (object_text K' a b c ev)"
  unfolding object_text_def same_natives natives allows_natives
  by (rule okg_walk agree natives | simp add: keeping; fail)+

lemma dispatch_to_s_agree [agree]:
  "keeps s ev \<Longrightarrow>
    okr s (dispatch_to_s K a b ev)
      (dispatch_to_s K' a b ev)"
  unfolding dispatch_to_s_def same_natives natives allows_natives
  by (rule okg_walk agree natives | simp add: keeping; fail)+

lemma make_numeric_agree [agree]:
  "(\<And>ev. keeps s ev \<Longrightarrow> okr s (f ev) (f' ev)) \<Longrightarrow> keeps s ev \<Longrightarrow>
   okr s (make_numeric K a b c f ev) (make_numeric K' a b c f' ev)"
  unfolding make_numeric_def by (rule okg_walk agree | assumption)+

lemma wrap_as_enumerator_agree [agree]:
  "keeps s ev \<Longrightarrow>
    okr s (wrap_as_enumerator K a b ev)
      (wrap_as_enumerator K' a b ev)"
  unfolding wrap_as_enumerator_def same_natives natives allows_natives
  by (rule okg_walk agree natives | simp add: keeping; fail)+

lemma coerced_agree [agree]:
  "keeps s ev \<Longrightarrow> okr s (coerced K a b c d ev) (coerced K' a b c d ev)"
  unfolding coerced_def same_natives natives allows_natives
  by (rule okg_walk agree natives | simp add: keeping; fail)+

lemma coerced_operator_agree [agree]:
  "keeps s ev \<Longrightarrow>
    okr s (coerced_operator K a b ev)
      (coerced_operator K' a b ev)"
  unfolding coerced_operator_def same_natives natives allows_natives
  by (rule okg_walk agree natives | simp add: keeping; fail)+

lemma int_power_method_agree [agree]:
  "keeps s ev \<Longrightarrow>
    okr s (int_power_method K a b c ev)
      (int_power_method K' a b c ev)"
  unfolding int_power_method_def same_natives natives allows_natives
  by (rule okg_walk agree natives | simp add: keeping; fail)+

lemma int_operators_agree [agree]:
  "tables_agree s c (int_operators K a b) (int_operators K' a b)"
  unfolding int_operators_def same_natives natives allows_natives
  by (rule okg_walk agree natives | simp add: keeping; fail)+

lemma mixed_operators_agree [agree]:
  "tables_agree s c (mixed_operators K a b d) (mixed_operators K' a b d)"
  unfolding mixed_operators_def same_natives natives allows_natives
  by (rule okg_walk agree natives | simp add: keeping; fail)+

lemma int_operator_agree [agree]:
  "keeps s ev \<Longrightarrow> okr s (int_operator K a b ev) (int_operator K' a b ev)"
  unfolding int_operator_def same_natives natives allows_natives
  by (rule okg_walk agree natives | simp add: keeping; fail)+

lemma give_enumerator_agree [agree]:
  "keeps s ev \<Longrightarrow>
    okr s (give_enumerator K a b ev)
      (give_enumerator K' a b ev)"
  unfolding give_enumerator_def same_natives natives allows_natives
  by (rule okg_walk agree natives | simp add: keeping; fail)+

lemma count_turn_agree [agree]:
  "keeps s ev \<Longrightarrow> okr s (count_turn K a b f g i ev) (count_turn K' a b f g i ev)"
  unfolding count_turn_def by (rule okg_walk agree | simp add: keeping; fail)+

lemma int_times_agree [agree]:
  "keeps s ev \<Longrightarrow> okr s (int_times K a b ev) (int_times K' a b ev)"
  unfolding int_times_def same_natives natives allows_natives
  by (rule okg_walk agree natives | simp add: keeping; fail)+

lemma counting_agree [agree]:
  "keeps s ev \<Longrightarrow> okr s (counting K a b f g i ev) (counting K' a b f g i ev)"
  unfolding counting_def by (rule okg_walk agree | simp add: keeping; fail)+

lemma int_upto_agree [agree]:
  "keeps s ev \<Longrightarrow> okr s (int_upto K a b ev) (int_upto K' a b ev)"
  unfolding int_upto_def same_natives natives allows_natives
  by (rule okg_walk agree natives | simp add: keeping; fail)+

lemma int_downto_agree [agree]:
  "keeps s ev \<Longrightarrow> okr s (int_downto K a b ev) (int_downto K' a b ev)"
  unfolding int_downto_def same_natives natives allows_natives
  by (rule okg_walk agree natives | simp add: keeping; fail)+

lemma hash_option_agree [agree]:
  "keeps s ev \<Longrightarrow> okr s (hash_option K a b ev) (hash_option K' a b ev)"
  unfolding hash_option_def same_natives natives allows_natives
  by (rule okg_walk agree natives | simp add: keeping; fail)+

lemma numeric_step_args_agree [agree]:
  "keeps s ev \<Longrightarrow> okr s (numeric_step_args K a b ev) (numeric_step_args K' a b ev)"
  unfolding numeric_step_args_def Let_def by (rule okg_walk agree | simp add: keeping; fail)+

lemma numeric_step_agree [agree]:
  "keeps s ev \<Longrightarrow>
    okr s (numeric_step K a b c d e ev)
      (numeric_step K' a b c d e ev)"
  unfolding numeric_step_def same_natives natives allows_natives
  by (rule okg_walk agree natives | simp add: keeping; fail)+

lemma int_step_agree [agree]:
  "keeps s ev \<Longrightarrow> okr s (int_step K a b ev) (int_step K' a b ev)"
  unfolding int_step_def same_natives natives allows_natives
  by (rule okg_walk agree natives | simp add: keeping; fail)+

lemma int_text_agree [agree]:
  "keeps s ev \<Longrightarrow> okr s (int_text K a b ev) (int_text K' a b ev)"
  unfolding int_text_def same_natives natives allows_natives
  by (rule okg_walk agree natives | simp add: keeping; fail)+

lemma int_pow_agree [agree]:
  "keeps s ev \<Longrightarrow> okr s (int_pow K a b ev) (int_pow K' a b ev)"
  unfolding int_pow_def same_natives natives allows_natives
  by (rule okg_walk agree natives | simp add: keeping; fail)+

lemma int_conversions_agree [agree]:
  "tables_agree s c (int_conversions K a) (int_conversions K' a)"
  unfolding int_conversions_def same_natives natives allows_natives
  by (rule okg_walk agree natives | simp add: keeping; fail)+

lemma int_methods_tab_agree [agree]:
  "tables_agree s c (int_methods_tab K a) (int_methods_tab K' a)"
  unfolding int_methods_tab_def same_natives natives allows_natives
  by (rule okg_walk agree natives | simp add: keeping; fail)+

lemma dispatch_integer_agree [agree]:
  "keeps s ev \<Longrightarrow>
    okr s (dispatch_integer K a ev)
      (dispatch_integer K' a ev)"
  unfolding dispatch_integer_def same_natives natives allows_natives
  by (rule okg_walk agree natives | simp add: keeping; fail)+

lemma m_respond_to_agree [agree]:
  "keeps s ev \<Longrightarrow> okr s (m_respond_to K a ev) (m_respond_to K' a ev)"
  unfolding m_respond_to_def same_natives natives allows_natives
  by (rule okg_walk agree natives | simp add: keeping; fail)+

lemma m_equal_p_agree [agree]:
  "keeps s ev \<Longrightarrow> okr s (m_equal_p K a ev) (m_equal_p K' a ev)"
  unfolding m_equal_p_def same_natives natives allows_natives
  by (rule okg_walk agree natives | simp add: keeping; fail)+

lemma give_equal_agree [agree]:
  "keeps s ev \<Longrightarrow> okr s (give_equal K a b c ev) (give_equal K' a b c ev)"
  unfolding give_equal_def same_natives natives allows_natives
  by (rule okg_walk agree natives | simp add: keeping; fail)+

lemma own_operator_agree [agree]:
  "keeps s ev \<Longrightarrow> okr s (own_operator K a b ev) (own_operator K' a b ev)"
  unfolding own_operator_def same_natives natives allows_natives
  by (rule okg_walk agree natives | simp add: keeping; fail)+

lemma copy_hash_agree [agree]:
  "keeps s ev \<Longrightarrow> okr s (copy_hash K a b ev) (copy_hash K' a b ev)"
  unfolding copy_hash_def same_natives natives allows_natives
  by (rule okg_walk agree natives | simp add: keeping; fail)+

lemma m_copy_agree [agree]:
  "keeps s ev \<Longrightarrow> okr s (m_copy K a ev) (m_copy K' a ev)"
  unfolding m_copy_def same_natives natives allows_natives
  by (rule okg_walk agree natives | simp add: keeping; fail)+

lemma fire_extended_agree [agree]:
  "keeps s ev \<Longrightarrow>
    oks s (fire_extended K a b c ev)
      (fire_extended K' a b c ev)"
  unfolding fire_extended_def same_natives natives allows_natives
  by (rule okg_walk agree natives | simp add: keeping; fail)+

lemma builtin_extend_agree [agree]:
  "keeps s ev \<Longrightarrow>
    okr s (builtin_extend K a b ev)
      (builtin_extend K' a b ev)"
  unfolding builtin_extend_def same_natives natives allows_natives
  by (rule okg_walk agree natives | simp add: keeping; fail)+

lemma m_method_agree [agree]:
  "keeps s ev \<Longrightarrow> okr s (m_method K a ev) (m_method K' a ev)"
  unfolding m_method_def same_natives natives allows_natives
  by (rule okg_walk agree natives | simp add: keeping; fail)+

lemma m_tap_agree [agree]:
  "keeps s ev \<Longrightarrow> okr s (m_tap K a ev) (m_tap K' a ev)"
  unfolding m_tap_def same_natives natives allows_natives
  by (rule okg_walk agree natives | simp add: keeping; fail)+

lemma m_then_agree [agree]:
  "keeps s ev \<Longrightarrow> okr s (m_then K a ev) (m_then K' a ev)"
  unfolding m_then_def same_natives natives allows_natives
  by (rule okg_walk agree natives | simp add: keeping; fail)+

lemma run_with_self_agree [agree]:
  "keeps s ev \<Longrightarrow>
    okr s (run_with_self K a b c d ev)
      (run_with_self K' a b c d ev)"
  unfolding run_with_self_def same_natives natives allows_natives
  by (rule okg_walk agree natives | simp add: keeping; fail)+

lemma m_instance_exec_agree [agree]:
  "keeps s ev \<Longrightarrow>
    okr s (m_instance_exec K a ev)
      (m_instance_exec K' a ev)"
  unfolding m_instance_exec_def same_natives natives allows_natives
  by (rule okg_walk agree natives | simp add: keeping; fail)+

lemma fire_method_hook_agree [agree]:
  "keeps s ev \<Longrightarrow>
    oks s (fire_method_hook K a b c d ev)
      (fire_method_hook K' a b c d ev)"
  unfolding fire_method_hook_def same_natives natives allows_natives
  by (rule okg_walk agree natives | simp add: keeping; fail)+

lemma undef_one_agree [agree]:
  "keeps s ev \<Longrightarrow> okr s (undef_one K a b c ev) (undef_one K' a b c ev)"
  unfolding undef_one_def same_natives natives allows_natives
  by (rule okg_walk agree natives | simp add: keeping; fail)+

lemma remove_one_agree [agree]:
  "keeps s ev \<Longrightarrow> okr s (remove_one K a b c ev) (remove_one K' a b c ev)"
  unfolding remove_one_def same_natives natives allows_natives
  by (rule okg_walk agree natives | simp add: keeping; fail)+

lemma k_remove_methods_agree [agree]:
  "keeps s ev \<Longrightarrow> okr s (k_remove_methods K a b ev) (k_remove_methods K' a b ev)"
  unfolding k_remove_methods_def
  by (cases "streq (c_name b) ''undef_method''"; simp only: if_True if_False)
    (rule okg_walk agree | simp; fail)+

lemma array_fill_turn_agree [agree]:
  "keeps s ev \<Longrightarrow>
    okr s (array_fill_turn K a b c d ev)
      (array_fill_turn K' a b c d ev)"
  unfolding array_fill_turn_def same_natives natives allows_natives
  by (rule okg_walk agree natives | simp add: keeping; fail)+

lemma new_array_of_agree [agree]:
  "keeps s ev \<Longrightarrow> okr s (new_array_of K a ev) (new_array_of K' a ev)"
  unfolding new_array_of_def same_natives natives allows_natives
  by (rule okg_walk agree natives | simp add: keeping; fail)+

lemma run_class_block_agree [agree]:
  "keeps s ev \<Longrightarrow>
    okr s (run_class_block K a b ev)
      (run_class_block K' a b ev)"
  unfolding run_class_block_def same_natives natives allows_natives
  by (rule okg_walk agree natives | simp add: keeping; fail)+

lemma new_class_of_agree [agree]:
  "keeps s ev \<Longrightarrow> okr s (new_class_of K a b ev) (new_class_of K' a b ev)"
  unfolding new_class_of_def same_natives natives allows_natives
  by (rule okg_walk agree natives | simp add: keeping; fail)+

lemma run_initialize_body_agree:
  assumes "keeps s ev"
  shows "okr s (k_eval K e n (enter_method e l c t ev) \<bind>
      (\<lambda>(r, ev). let ev = leave_method ev in Some ((r, e), if b then ev\<lparr>ev_current_file := f\<rparr> else ev)))
    (k_eval K' e n (enter_method e l c t ev) \<bind>
      (\<lambda>(r, ev). let ev = leave_method ev in Some ((r, e), if b then ev\<lparr>ev_current_file := f\<rparr> else ev)))"
  unfolding Let_def by (rule okg_bind_from [of "enter_method e l c t ev"])
    (rule agree okg_Some | simp add: keeping keeps_leave_method [OF assms]; fail)+

lemma run_initialize_agree [agree]:
  "keeps s ev \<Longrightarrow> okr s (run_initialize K a b c d e ev) (run_initialize K' a b c d e ev)"
  unfolding run_initialize_def
  by (rule run_initialize_body_agree okg_walk agree | simp add: keeping; fail)+

lemma new_object_of_agree [agree]:
  "keeps s ev \<Longrightarrow>
    okr s (new_object_of K a b ev)
      (new_object_of K' a b ev)"
  unfolding new_object_of_def same_natives natives allows_natives
  by (rule okg_walk agree natives | simp add: keeping; fail)+

lemma new_string_object_of_agree [agree]:
  "keeps s ev \<Longrightarrow>
    okr s (new_string_object_of K a b ev)
      (new_string_object_of K' a b ev)"
  unfolding new_string_object_of_def same_natives natives allows_natives
  by (rule okg_walk agree natives | simp add: keeping; fail)+

lemma exception_arg_message_agree [agree]:
  "keeps s ev \<Longrightarrow>
    okr s (exception_arg_message K a b ev)
      (exception_arg_message K' a b ev)"
  unfolding exception_arg_message_def same_natives natives allows_natives
  by (rule okg_walk agree natives | simp add: keeping; fail)+

lemma new_exception_of_agree [agree]:
  "keeps s ev \<Longrightarrow>
    okr s (new_exception_of K a b c ev)
      (new_exception_of K' a b c ev)"
  unfolding new_exception_of_def same_natives natives allows_natives
  by (rule okg_walk agree natives | simp add: keeping; fail)+

lemma set_keyword_members_agree [agree]:
  "keeps s ev \<Longrightarrow> okr s (set_keyword_members K a b ms d ev) (set_keyword_members K' a b ms d ev)"
proof (induction ms arbitrary: d ev)
  case (Cons m ms)
  then show ?case unfolding set_keyword_members.simps
    by - (rule okg_walk agree Cons.IH | simp add: keeping; fail)+
qed (simp add: okg_Some)

lemma new_keyword_struct_agree [agree]:
  "keeps s ev \<Longrightarrow>
    okr s (new_keyword_struct K a b c ev)
      (new_keyword_struct K' a b c ev)"
  unfolding new_keyword_struct_def same_natives natives allows_natives
  by (rule okg_walk agree natives | simp add: keeping; fail)+

lemma new_struct_of_agree [agree]:
  "keeps s ev \<Longrightarrow>
    okr s (new_struct_of K a b c ev)
      (new_struct_of K' a b c ev)"
  unfolding new_struct_of_def same_natives natives allows_natives
  by (rule okg_walk agree natives | simp add: keeping; fail)+

lemma new_regexp_of_agree [agree]:
  "keeps s ev \<Longrightarrow> okr s (new_regexp_of K a ev) (new_regexp_of K' a ev)"
  unfolding new_regexp_of_def same_natives natives allows_natives
  by (rule okg_walk agree natives | simp add: keeping; fail)+

lemma new_by_name_agree [agree]:
  "tables_agree s c (new_by_name K) (new_by_name K')"
  unfolding new_by_name_def same_natives natives allows_natives
  by (rule okg_walk agree natives | simp add: keeping; fail)+

lemma k_new_agree [agree]:
  "keeps s ev \<Longrightarrow> okr s (k_new K a b c ev) (k_new K' a b c ev)"
  unfolding k_new_def by (rule okg_find_method okg_walk agree | simp add: keeping; fail)+

lemma mix_modules_agree [agree]:
  "keeps s ev \<Longrightarrow> okr s (mix_modules K a b c vs ev) (mix_modules K' a b c vs ev)"
proof (induction vs arbitrary: ev)
  case (Cons v vs)
  then show ?case unfolding mix_modules.simps
    by - (rule okg_walk agree Cons.IH | simp add: keeping; fail)+
qed (simp add: give_agree)

lemma k_mix_agree [agree]:
  "keeps s ev \<Longrightarrow> okr s (k_mix K a b ev) (k_mix K' a b ev)"
  unfolding k_mix_def same_natives natives allows_natives
  by (rule okg_walk agree natives | simp add: keeping; fail)+

lemma class_new_agree [agree]:
  "tables_agree s c (class_new K a b) (class_new K' a b)"
  unfolding class_new_def same_natives natives allows_natives
  by (rule okg_walk agree natives | simp add: keeping; fail)+

lemma class_methods_agree [agree]:
  "tables_agree s c (class_methods K a b) (class_methods K' a b)"
  unfolding class_methods_def same_natives natives allows_natives
  by (rule okg_walk agree natives | simp add: keeping; fail)+

lemma call_if_allowed_agree [agree]:
  "keeps s ev \<Longrightarrow>
    okr s (call_if_allowed K a b c ev)
      (call_if_allowed K' a b c ev)"
  unfolding call_if_allowed_def same_natives natives allows_natives
  by (rule okg_walk agree natives | simp add: keeping; fail)+

lemma own_class_method_agree [agree]:
  "keeps s ev \<Longrightarrow>
    okr s (own_class_method K a b ev)
      (own_class_method K' a b ev)"
  unfolding own_class_method_def same_natives natives allows_natives
  by (rule okg_walk agree natives | simp add: keeping; fail)+

lemma singleton_method_agree [agree]:
  "keeps s ev \<Longrightarrow>
    okr s (singleton_method K a ev)
      (singleton_method K' a ev)"
  unfolding singleton_method_def same_natives natives allows_natives
  by (rule okg_walk agree natives | simp add: keeping; fail)+

lemma again_agree [agree]:
  "keeps s ev \<Longrightarrow> okr s (again K a b ev) (again K' a b ev)"
  unfolding again_def same_natives natives allows_natives
  by (rule okg_walk agree natives | simp add: keeping; fail)+

lemma alias_call_agree [agree]:
  "keeps s ev \<Longrightarrow> okr s (alias_call K a ev) (alias_call K' a ev)"
  unfolding alias_call_def same_natives natives allows_natives
  by (rule okg_walk agree natives | simp add: keeping; fail)+

lemma map_turn_agree [agree]:
  "keeps s ev \<Longrightarrow>
    okr s (map_turn K a b c d e ev)
      (map_turn K' a b c d e ev)"
  unfolding map_turn_def same_natives natives allows_natives
  by (rule okg_walk agree natives | simp add: keeping; fail)+

lemma enumerator_map_agree [agree]:
  "keeps s ev \<Longrightarrow> okr s (enumerator_map K a ev) (enumerator_map K' a ev)"
  unfolding enumerator_map_def same_natives natives allows_natives
  by (rule okg_walk agree natives | simp add: keeping; fail)+

lemma own_instance_method_agree [agree]:
  "keeps s ev \<Longrightarrow>
    okr s (own_instance_method K a ev)
      (own_instance_method K' a ev)"
  unfolding own_instance_method_def same_natives natives allows_natives
  by (rule okg_walk agree natives | simp add: keeping; fail)+

lemma plain_object_text_agree [agree]:
  "keeps s ev \<Longrightarrow>
    okr s (plain_object_text K a ev)
      (plain_object_text K' a ev)"
  unfolding plain_object_text_def same_natives natives allows_natives
  by (rule okg_walk agree natives | simp add: keeping; fail)+

lemma mutex_synchronize_agree [agree]:
  "keeps s ev \<Longrightarrow>
    okr s (mutex_synchronize K a ev)
      (mutex_synchronize K' a ev)"
  unfolding mutex_synchronize_def same_natives natives allows_natives
  by (rule okg_walk agree natives | simp add: keeping; fail)+

lemma as_string_agree [agree]:
  "keeps s ev \<Longrightarrow> okr s (as_string K a ev) (as_string K' a ev)"
  unfolding as_string_def same_natives natives allows_natives
  by (rule okg_walk agree natives | simp add: keeping; fail)+

lemma as_symbol_agree [agree]:
  "keeps s ev \<Longrightarrow> okr s (as_symbol K a ev) (as_symbol K' a ev)"
  unfolding as_symbol_def same_natives natives allows_natives
  by (rule okg_walk agree natives | simp add: keeping; fail)+

lemma symbol_tab_agree [agree]:
  "tables_agree s c (symbol_tab K) (symbol_tab K')"
  unfolding symbol_tab_def same_natives natives allows_natives
  by (rule okg_walk agree natives | simp add: keeping; fail)+

lemma nil_tab_agree [agree]:
  "tables_agree s c (nil_tab K) (nil_tab K')"
  unfolding nil_tab_def same_natives natives allows_natives
  by (rule okg_walk agree natives | simp add: keeping; fail)+

lemma dispatch_nil_agree [agree]:
  "keeps s ev \<Longrightarrow> okr s (dispatch_nil K a ev) (dispatch_nil K' a ev)"
  unfolding dispatch_nil_def same_natives natives allows_natives
  by (rule okg_walk agree natives | simp add: keeping; fail)+

lemma reopened_method_agree [agree]:
  "keeps s ev \<Longrightarrow>
    okr s (reopened_method K a ev)
      (reopened_method K' a ev)"
  unfolding reopened_method_def same_natives natives allows_natives
  by (rule okg_walk agree natives | simp add: keeping; fail)+

lemma inherited_method_agree [agree]:
  "keeps s ev \<Longrightarrow>
    okr s (inherited_method K a b ev)
      (inherited_method K' a b ev)"
  unfolding inherited_method_def same_natives natives allows_natives
  by (rule okg_walk agree natives | simp add: keeping; fail)+

lemma value_class_method_agree [agree]:
  "keeps s ev \<Longrightarrow>
    okr s (value_class_method K a ev)
      (value_class_method K' a ev)"
  unfolding value_class_method_def same_natives natives allows_natives
  by (rule okg_walk agree natives | simp add: keeping; fail)+

end

text \<open>The parts of the built-in methods that are not modelled call back through the runner only.\<close>

locale builtins_agree = runners_agree +
  fixes B :: builtins
  assumes builtin: "keeps s ev \<Longrightarrow> okr s (B b K c ev) (B b K' c ev)"
begin

declare builtin [agree]

lemma ask_object_agree [agree]:
  "keeps s ev \<Longrightarrow> okr s (ask_object K B a ev) (ask_object K' B a ev)"
  unfolding ask_object_def same_natives natives allows_natives
  by (rule okg_walk agree natives | simp add: keeping; fail)+

lemma m_eql_agree [agree]:
  "keeps s ev \<Longrightarrow> okr s (m_eql K B a ev) (m_eql K' B a ev)"
  unfolding m_eql_def same_natives natives allows_natives
  by (rule okg_walk agree natives | simp add: keeping; fail)+

lemma m_eq_agree [agree]:
  "keeps s ev \<Longrightarrow> okr s (m_eq K B a ev) (m_eq K' B a ev)"
  unfolding m_eq_def same_natives natives allows_natives
  by (rule okg_walk agree natives | simp add: keeping; fail)+

lemma m_neq_agree [agree]:
  "keeps s ev \<Longrightarrow> okr s (m_neq K B a ev) (m_neq K' B a ev)"
  unfolding m_neq_def same_natives natives allows_natives
  by (rule okg_walk agree natives | simp add: keeping; fail)+

lemma m_case_eq_agree [agree]:
  "keeps s ev \<Longrightarrow> okr s (m_case_eq K B a ev) (m_case_eq K' B a ev)"
  unfolding m_case_eq_def same_natives natives allows_natives
  by (rule okg_walk agree natives | simp add: keeping; fail)+

lemma m_hash_agree [agree]:
  "keeps s ev \<Longrightarrow> okr s (m_hash K B a ev) (m_hash K' B a ev)"
  unfolding m_hash_def same_natives natives allows_natives content_hash_natives
  by (rule okg_walk agree natives | simp add: keeping; fail)+

lemma m_object_id_agree [agree]:
  "keeps s ev \<Longrightarrow> okr s (m_object_id K B a ev) (m_object_id K' B a ev)"
  unfolding m_object_id_def same_natives natives allows_natives
  by (rule okg_walk agree natives | simp add: keeping; fail)+

lemma m_instance_eval_agree [agree]:
  "keeps s ev \<Longrightarrow>
    okr s (m_instance_eval K B a ev)
      (m_instance_eval K' B a ev)"
  unfolding m_instance_eval_def same_natives natives allows_natives
  by (rule okg_walk agree natives | simp add: keeping; fail)+

lemma class_early_agree [agree]:
  "tables_agree s c (class_early K B a) (class_early K' B a)"
  unfolding class_early_def same_natives natives allows_natives
  by (rule okg_walk agree natives | simp add: keeping; fail)+

lemma class_first_agree [agree]:
  "handlers_agree s c (class_first K B a b) (class_first K' B a b)"
  unfolding class_first_def same_natives natives allows_natives
  by (rule okg_walk agree natives | simp add: keeping; fail)+

lemma class_handlers_agree [agree]:
  "handlers_agree s c (class_handlers K B a b) (class_handlers K' B a b)"
  unfolding class_handlers_def same_natives natives allows_natives
  by (rule okg_walk agree natives | simp add: keeping; fail)+

lemma dispatch_class_agree [agree]:
  "keeps s ev \<Longrightarrow>
    okr s (dispatch_class K B a ev)
      (dispatch_class K' B a ev)"
  unfolding dispatch_class_def same_natives natives allows_natives
  by (rule okg_walk agree natives | simp add: keeping; fail)+

lemma proc_methods_tab_agree [agree]:
  "tables_agree s c (proc_methods_tab K B) (proc_methods_tab K' B)"
  unfolding proc_methods_tab_def same_natives natives allows_natives
  by (rule okg_walk agree natives | simp add: keeping; fail)+

lemma primitive_handlers_agree [agree]:
  "handlers_agree s c (primitive_handlers K B) (primitive_handlers K' B)"
  unfolding primitive_handlers_def same_natives natives allows_natives
  by (rule okg_walk agree natives | simp add: keeping; fail)+

lemma collection_handlers_agree [agree]:
  "handlers_agree s c (collection_handlers K B a) (collection_handlers K' B a)"
  unfolding collection_handlers_def same_natives natives allows_natives
  by (rule okg_walk agree natives | simp add: keeping; fail)+

lemma primitive_alias_agree [agree]:
  "keeps s ev \<Longrightarrow>
    okr s (primitive_alias K B a ev)
      (primitive_alias K' B a ev)"
  unfolding primitive_alias_def same_natives natives allows_natives
  by (rule okg_walk agree natives | simp add: keeping; fail)+

lemma universal_first_agree [agree]:
  "tables_agree s c (universal_first K B a) (universal_first K' B a)"
  unfolding universal_first_def same_natives natives allows_natives
  by (rule okg_walk agree natives | simp add: keeping; fail)+

lemma universal_rest_agree [agree]:
  "tables_agree s c (universal_rest K B a) (universal_rest K' B a)"
  unfolding universal_rest_def same_natives natives allows_natives
  by (rule okg_walk agree natives | simp add: keeping; fail)+

lemma kernel_for_nil_agree [agree]:
  "tables_agree s c (kernel_for_nil K B a) (kernel_for_nil K' B a)"
  unfolding kernel_for_nil_def same_natives natives allows_natives
  by (rule okg_walk agree natives | simp add: keeping; fail)+

lemma method_handlers_agree [agree]:
  "handlers_agree s c (method_handlers K B a) (method_handlers K' B a)"
  unfolding method_handlers_def same_natives natives allows_natives
  by (rule okg_walk agree natives | simp add: keeping; fail)+

lemma dispatch_method_agree [agree]:
  "keeps s ev \<Longrightarrow>
    okr s (dispatch_method K B a ev)
      (dispatch_method K' B a ev)"
  unfolding dispatch_method_def same_natives natives allows_natives
  by (rule okg_walk agree natives | simp add: keeping; fail)+

end

end
