(* ===== verification/EvalThms.thy ===== *)
theory EvalThms
  imports BuiltinAgree
begin

section \<open>What every evaluation keeps\<close>

text \<open>
  The runners at two depths agree and keep the state, and so does every evaluation. Of the built-in methods
  that are not modelled this asks that they do the same with runners that agree (locale \<open>parts_agree\<close>).
\<close>

subsection \<open>Two depths\<close>

lemma tie_simps [simp]:
  "k_eval (tie N K) = eval_node K" "k_assign (tie N K) = assign_target K"
  "k_bind (tie N K) = bind_pattern K" "k_match (tie N K) = match_pattern K"
  "k_rope (tie N K) = rope_collect K" "k_dispatch (tie N K) = n_dispatch N K"
  "k_kernel (tie N K) = n_kernel N K" "k_responds_to (tie N K) = n_responds_to N K"
  "k_pow (tie N K) = k_pow (n_base N)" "k_regex_compile (tie N K) = k_regex_compile (n_base N)"
  "k_addr (tie N K) = k_addr (n_base N)" "k_depth (tie N K) = k_depth (n_base N)"
  by (simp_all add: tie_def)

text \<open>What the evaluator relies on in the functions it is given.\<close>

lemma envs_extD:
  assumes "envs_ext es es'"
  shows "length es \<le> length es'"
    and "p < length es \<Longrightarrow> e_parent (es' ! p) = e_parent (es ! p) \<and> e_is_def (es' ! p) = e_is_def (es ! p)"
proof -
  obtain t where t: "map env_fixed es' = map env_fixed es @ t"
    using assms by (auto simp: envs_ext_def prefix_def)
  show len: "length es \<le> length es'" using arg_cong [OF t, of length] by simp
  assume p: "p < length es"
  have "env_fixed (es' ! p) = env_fixed (es ! p)"
    using arg_cong [OF t, of "\<lambda>xs. xs ! p"] p len by (simp add: nth_append)
  then show "e_parent (es' ! p) = e_parent (es ! p) \<and> e_is_def (es' ! p) = e_is_def (es ! p)"
    by (simp add: env_fixed_def)
qed

locale natives_agree =
  fixes N :: natives
  assumes dispatch: "runners_agree K K' \<Longrightarrow> keeps s ev \<Longrightarrow>
      okr s (n_dispatch N K env v m args blk site pub expl ev)
        (n_dispatch N K' env v m args blk site pub expl ev)"
    and kernel: "runners_agree K K' \<Longrightarrow> keeps s ev \<Longrightarrow>
      okr s (n_kernel N K env m args blk nd ev) (n_kernel N K' env m args blk nd ev)"
    and responds: "runners_agree K K' \<Longrightarrow> keeps s ev \<Longrightarrow>
      okr s (n_responds_to N K v m b ev) (n_responds_to N K' v m b ev)"
begin

lemma tie_agrees:
  assumes K: "runners_agree K K'"
  shows "runners_agree (tie N K) (tie N K')"
  unfolding runners_agree_def tie_simps
proof (intro conjI allI impI)
qed (erule runners_agree.eval_node_agree [OF K], erule runners_agree.assign_target_agree [OF K],
    erule runners_agree.bind_pattern_agree [OF K], erule runners_agree.match_pattern_agree [OF K],
    erule runners_agree.rope_collect_agree [OF K], erule dispatch [OF K], erule kernel [OF K],
    erule responds [OF K], (rule refl)+)

lemma runner_at_simps:
  "k_pow (runner_at N n) = k_pow (n_base N)"
  "k_regex_compile (runner_at N n) = k_regex_compile (n_base N)"
  "k_addr (runner_at N n) = k_addr (n_base N)" "k_depth (runner_at N n) = k_depth (n_base N)"
  by (cases n; simp add: no_runner_def)+

lemma runner_at_agrees: "runners_agree (runner_at N n) (runner_at N (n + k))"
proof (induction n)
  case 0
  show ?case unfolding runners_agree_def runner_at_simps
    by (simp add: no_runner_def okg_None)
next
  case (Suc n)
  then show ?case using tie_agrees by simp
qed

end

sublocale natives_agree \<subseteq> depth: runners_agree "runner_at N n" "runner_at N (n + k)" for n k
  by (rule runner_at_agrees)

context natives_agree begin

lemma eval_at_agrees: "keeps s ev \<Longrightarrow> okr s (eval_at N n env nd ev) (eval_at N (n + k) env nd ev)"
  unfolding eval_at_def by (rule depth.eval)

end

subsection \<open>The built-in methods\<close>

text \<open>The contract of the parts that are not modelled, for every two runners that agree.\<close>

locale parts_agree =
  fixes B :: builtins
  assumes part: "runners_agree K K' \<Longrightarrow> keeps s ev \<Longrightarrow> okr s (B b K c ev) (B b K' c ev)"
begin

lemma with_runners: "runners_agree K K' \<Longrightarrow> builtins_agree K K' B"
  by (simp add: builtins_agree_def builtins_agree_axioms_def part)

lemma natives: "natives_agree (natives_of B base)"
proof
  fix K K' :: runner and s ev :: eval and env v m args blk site pub expl nd b
  assume K: "runners_agree K K'" and ev: "keeps s ev"
  show "okr s (n_dispatch (natives_of B base) K env v m args blk site pub expl ev)
      (n_dispatch (natives_of B base) K' env v m args blk site pub expl ev)"
    using builtins_agree.dispatch_method_agree [OF with_runners [OF K] ev] by (simp add: natives_of_def)
  show "okr s (n_kernel (natives_of B base) K env m args blk nd ev)
      (n_kernel (natives_of B base) K' env m args blk nd ev)"
    using answer_agree [OF part [OF K ev]] by (simp add: natives_of_def)
  show "okr s (n_responds_to (natives_of B base) K v m b ev) (n_responds_to (natives_of B base) K' v m b ev)"
    using val_responds_to_agree [OF ev] by (simp add: natives_of_def)
qed

end

sublocale parts_agree \<subseteq> natives_agree "natives_of B base" for base
  by (rule natives)

sublocale parts_agree \<subseteq> built: builtins_agree "runner_at (natives_of B base) n"
    "runner_at (natives_of B base) (n + k)" B for base n k
  by (rule with_runners) (rule runner_at_agrees)

text \<open>The evaluator with the modelled built-in methods alone: the other parts answer no call.\<close>

definition core_builtins :: builtins where
  "core_builtins b K = not_taken"

interpretation core: parts_agree core_builtins
  by unfold_locales (simp add: core_builtins_def not_taken_def okg_Some)

subsection \<open>Execution\<close>

definition no_natives :: runner where
  "no_natives = \<lparr>k_eval = \<lambda>_ _ _. None, k_assign = \<lambda>_ _ _ _. None, k_bind = \<lambda>_ _ _ _. None,
     k_match = \<lambda>_ _ _ _ _. None, k_rope = \<lambda>_ _ _ _. None, k_dispatch = \<lambda>_ _ _ _ _ _ _ _ _. None,
     k_kernel = \<lambda>_ _ _ _ _ _. None, k_responds_to = \<lambda>_ _ _ _. None, k_pow = \<lambda>x y. 0,
     k_regex_compile = \<lambda>_ _. Inl [], k_addr = of_nat, k_depth = 8\<rparr>"

definition start_eval :: eval where
  "start_eval =
     \<lparr>ev_heap = heap_empty,
      ev_envs = [\<lparr>e_vars = [], e_parent = None, e_is_def = True, e_block_arg = None\<rparr>],
      ev_nodes = [], ev_globals = [], ev_top_env = 0, ev_call_depth = 0, ev_errored = False, ev_errmsg = [],
      ev_current_exception = val_nil, ev_rescue_context = val_nil, ev_exception_line = 0,
      ev_exception_col = 0, ev_exception_class = None, ev_exception_msg = [], ev_frames = [],
      ev_active_defs = [0], ev_current_file = None\<rparr>"

abbreviation plain_node where "plain_node d \<equiv> Some (Node no_span 0 d)"

definition assign_then_read :: "node option" where
  "assign_then_read = plain_node (NBody K_PROGRAM
     [plain_node (NAssign (plain_node (NSval K_LVAR ''x'')) (plain_node (NInt 7))),
      plain_node (NCond K_IF (plain_node (NPlain K_TRUE)) (plain_node (NSval K_LVAR ''x'')) None)])"

lemma runner_eval [simp]:
  "k_eval (runner_at N (Suc n)) = eval_node (runner_at N n)"
  "k_assign (runner_at N (Suc n)) = assign_target (runner_at N n)"
  by simp_all

lemmas executing = eval_at_def numeral_eq_Suc eval_node_def eval_kind_def assign_then_read_def
  start_eval_def eval_body_def hook_bodies_def hook_body_def data_of_def plain_stmts_def stops_def
  eval_assign_def assign_target_def assign_lvar_def run_ends_def eval_cond_def eval_lvar_def eval_plain_def
  eval_sval_def lookup_def env_get.simps env_update.simps set_var_def env_set_def set_vars_def streq_def
  cstr_def val_is_signal_def is_method_def val_truthy_def val_int_def val_true_def mk_val_def

lemma assign_then_read_runs:
  "\<exists>ev. eval_at (natives_of core_builtins base) 5 0 assign_then_read start_eval = Some (val_int 7, ev)"
  by (simp add: executing del: runner_at.simps split del: if_split)

subsection \<open>The property\<close>

text \<open>The depth does not matter: once an evaluation has a result within some depth of recursion, it has
  the same one, with the same state, within every greater depth.\<close>

lemma eval_depth_agrees:
  assumes "parts_agree B" "eval_at (natives_of B base) n env nd ev = Some r" "n \<le> m"
  shows "eval_at (natives_of B base) m env nd ev = Some r"
proof -
  have "natives_agree (natives_of B base)" using assms(1) by (rule parts_agree.natives)
  then show ?thesis
    using natives_agree.eval_at_agrees [of "natives_of B base" ev ev n env nd "m - n"] assms(2,3)
    by (simp add: okg_def)
qed



end
