(* ===== verification/DispatchThms.thy ===== *)
theory DispatchThms
  imports EvalThms MethodThms
begin

section \<open>The method that a call on an object runs\<close>

text \<open>
  \<open>dispatch_method\<close> asks its handlers in a fixed order. For an object without singleton methods and
  without an alias of the name, it comes to the lookup in the object's class before any built-in
  method, so what the call does is decided by the first ancestor that has an entry for the name.
\<close>

lemma or_handler_none: "f c ev = Some (None, ev) \<Longrightarrow> or_handler f g c ev = g c ev"
  by (simp add: or_handler_def)

lemma or_handler_taken: "f c ev = taken m \<Longrightarrow> or_handler f g c ev = taken m"
  by (cases m) (auto simp: or_handler_def taken_def)

lemma or_method_taken: "or_method (taken m) f = m"
  by (cases m) (auto simp: or_method_def taken_def)

lemma own_method_kind:
  "own_method h es name k = Some (m, owner) \<Longrightarrow>
     (\<exists>d e vis f. v_data m = VAL_METHOD d e vis f) \<or> v_data m = VAL_UNDEF_METHOD"
  by (auto simp: own_method_def split: option.splits vdata.splits)

lemma first_some_holds: "first_some f xs = Some y \<Longrightarrow> \<exists>x. f x = Some y"
  by (induction xs) (auto split: option.splits)

text \<open>What an entry for the name makes of the call.\<close>

definition call_entry :: "runner \<Rightarrow> call \<Rightarrow> rvalue \<times> ptr option \<Rightarrow> eval \<Rightarrow> rvalue run" where
  "call_entry K c = (\<lambda>(m, owner) ev.
     case v_data m of
       VAL_METHOD _ _ vis _ \<Rightarrow>
         Option.bind (allows K c owner vis ev) (\<lambda>ok.
           if ok then invoke K c m owner (c_name c) (c_args c) (c_blk c) ev
           else not_callable c (if vis = METHOD_PROTECTED then ''protected'' else ''private'') (c_name c) ev)
     | _ \<Rightarrow>
         Option.bind (value_class_name (c_recv c) ev) (\<lambda>kname. raise_at c ''NoMethodError''
           (''undefined method '' @ in_quotes (c_name c) @ '' for an instance of '' @ kname) ev))"

lemma allows_public: "allows K c owner METHOD_PUBLIC ev = Some True"
  by (simp add: allows_def method_visibility_allows_call_def)

lemma own_instance_method_entry:
  assumes "object_class (c_recv c) ev = Some k" "instance_method k (c_name c) ev = Some (Some (m, owner))"
    "(\<exists>d e vis f. v_data m = VAL_METHOD d e vis f) \<or> v_data m = VAL_UNDEF_METHOD"
  shows "own_instance_method K c ev = taken (call_entry K c (m, owner) ev)"
  using assms(3)
proof (elim disjE exE)
  fix d e vis f
  assume m: "v_data m = VAL_METHOD d e vis f"
  show ?thesis
    using assms(1,2) allows_public [of K c owner ev]
    by (cases "allows K c owner vis ev"; cases vis)
      (auto simp: own_instance_method_def call_entry_def call_if_allowed_def refused_def m taken_def)
next
  assume "v_data m = VAL_UNDEF_METHOD"
  then show ?thesis
    using assms(1,2)
    by (cases "value_class_name (c_recv c) ev") (simp_all add: own_instance_method_def call_entry_def taken_def)
qed

text \<open>C6: a call on an object with a class \<open>k\<close>, without a singleton method or an alias of the name, goes by
  the first ancestor of \<open>k\<close> with an entry for the name, before any built-in method: a method that may be
  called runs with that ancestor as its owner, one that may not is an error, and so is an undefined one.\<close>

theorem dispatch_follows_ancestors:
  assumes "object_class (c_recv c) ev = Some k" "singleton_env_of (c_recv c) ev = None"
    and "find_instance_alias_name ev (Some k) (c_name c) = Some None"
    and "class_is_a_named_class (ev_heap ev) (ev_envs ev) (Some (ev_top_env ev)) (Some k) ''Enumerator'' = Some False"
    and "mro (ev_heap ev) k = Some ks" "card (set ks) \<le> 256"
  shows "\<exists>anc visited. collect_class_ancestors (ev_heap ev) k ([], []) = Some (map class_value anc, visited) \<and>
    (\<forall>entry. first_some (own_method (ev_heap ev) (ev_envs ev) (c_name c)) anc = Some entry \<longrightarrow>
       dispatch_method K B c ev = call_entry K c entry ev)"
proof -
  obtain vis where anc: "collect_class_ancestors (ev_heap ev) k ([], []) = Some (map class_value (firsts ks), vis)"
    using ancestors_firsts [OF assms(5,6)] by blast
  have "dispatch_method K B c ev = call_entry K c (m, owner) ev"
    if first: "first_some (own_method (ev_heap ev) (ev_envs ev) (c_name c)) (firsts ks) = Some (m, owner)"
    for m owner
  proof -
    have "instance_method k (c_name c) ev = Some (Some (m, owner))"
      using find_method_firsts [OF assms(5)] first by (simp add: instance_method_def)
    moreover have "(\<exists>d e vis f. v_data m = VAL_METHOD d e vis f) \<or> v_data m = VAL_UNDEF_METHOD"
      using first_some_holds [OF first] own_method_kind by blast
    ultimately have own: "own_instance_method K c ev = taken (call_entry K c (m, owner) ev)"
      by (rule own_instance_method_entry [OF assms(1)])
    have "singleton_method K c ev = Some (None, ev)" "alias_call K c ev = Some (None, ev)"
      "enumerator_map K c ev = Some (None, ev)"
      using assms(1-4) by (simp_all add: singleton_method_def alias_call_def enumerator_map_def)
    then have "first_handler (method_handlers K B (c_recv c)) c ev = taken (call_entry K c (m, owner) ev)"
      by (simp add: method_handlers_def or_handler_none or_handler_taken [of _ c ev] own)
    then show ?thesis by (simp add: dispatch_method_def or_method_taken)
  qed
  then show ?thesis using anc by auto
qed

text \<open>An object of the class with the ancestors 2, 0, 1; \<open>g\<close> is a method of the class 1.\<close>

definition object_state :: eval where
  "object_state = start_eval\<lparr>ev_envs := sample_frames, ev_heap := sample_classes\<lparr>h_objects :=
     [\<lparr>ro_klass = class_value 2, ro_ivars = [], ro_singleton_env = None, ro_native = None, ro_frozen = 0\<rparr>]\<rparr>\<rparr>"

definition object_call :: call where
  "object_call = make_call 0 (mk_val (VAL_OBJECT 0)) ''g'' [] None None False 1"

lemma object_order: "mro (ev_heap object_state) 2 = Some [2, 0, 1]"
proof -
  have at: "klass_at (ev_heap object_state) = klass_at sample_classes"
    "above (ev_heap object_state) = above sample_classes"
    by (simp_all add: fun_eq_iff object_state_def superclass_def above_def)
  have "mro (ev_heap object_state) 0 = Some [0]" "mro (ev_heap object_state) 1 = Some [1]"
    by (subst mro.simps, simp add: at sample_classes_at)+
  then show ?thesis by (subst mro.simps) (simp add: at sample_classes_at)
qed

lemma object_alias: "find_instance_alias_name object_state (Some 2) ''g'' = Some None"
  by (subst find_instance_alias_name.simps, subst find_instance_alias_name.simps,
      subst find_instance_alias_name.simps)
    (simp add: object_state_def klass_of_def lookup_own_def sample_class_simps sample_frames_def
      env_get_own_def streq_def cstr_def alias_text_def sval_text_def val_method_def)

theorem dispatch_follows_ancestors_witness:
  "\<forall>K B. dispatch_method K B object_call object_state =
     call_method_value K (mk_val (VAL_OBJECT 0)) (val_method None None METHOD_PUBLIC None) (Some 1) ''g'' [] None None
       object_state"
proof (intro allI)
  fix K B
  have "object_class (c_recv object_call) object_state = Some 2" "singleton_env_of (c_recv object_call) object_state = None"
    by (simp_all add: object_class_def object_call_def make_call_def mk_val_def obj_at_def object_state_def
        class_value_def class_of_def singleton_env_of_def value_singleton_env_slot_def)
  moreover have "find_instance_alias_name object_state (Some 2) (c_name object_call) = Some None"
    using object_alias by (simp add: object_call_def make_call_def)
  moreover have "class_is_a_named_class (ev_heap object_state) (ev_envs object_state)
      (Some (ev_top_env object_state)) (Some 2) ''Enumerator'' = Some False"
    by (simp add: class_is_a_named_class_def named_class_def object_state_def start_eval_def sample_frames_def
        env_get.simps streq_def cstr_def)
  ultimately obtain anc vis where
      anc: "collect_class_ancestors (ev_heap object_state) 2 ([], []) = Some (map class_value anc, vis)"
    and entry: "\<And>entry. first_some (own_method (ev_heap object_state) (ev_envs object_state) (c_name object_call)) anc =
      Some entry \<Longrightarrow> dispatch_method K B object_call object_state = call_entry K object_call entry object_state"
    using dispatch_follows_ancestors [of object_call object_state 2 "[2, 0, 1]" K B] object_order by auto
  have "anc = [2, 0, 1]"
    using anc ancestors_firsts [OF object_order]
    by (auto simp: firsts_def class_value_def mk_val_def)
  then have "dispatch_method K B object_call object_state =
      call_entry K object_call (val_method None None METHOD_PUBLIC None, Some 1) object_state"
    by (intro entry) (simp add: own_method_def object_state_def object_call_def make_call_def sample_class_simps
      sample_frames_def env_get_own_def streq_def cstr_def val_method_def)
  then show "dispatch_method K B object_call object_state =
     call_method_value K (mk_val (VAL_OBJECT 0)) (val_method None None METHOD_PUBLIC None) (Some 1) ''g'' [] None None
       object_state"
    by (simp add: call_entry_def val_method_def mk_val_def allows_public invoke_def object_call_def make_call_def)
qed

end
