(* ===== verification/Spec2Isabelle.thy ===== *)
theory Spec2Isabelle
  imports Utf8 RunFuel Arena SemaProps Env ValueThms MethodThms IntegerThms EvalThms DispatchThms
begin

section \<open>The interpreter stoned\<close>

text \<open>
  A verification development for \<open>stoned\<close>, an interpreter for a subset of Ruby written in C
  (\<open>src/src/*.c\<close>). A source text goes through four stages: the lexer (\<open>lexer.c\<close>) makes tokens, the
  parser (\<open>parser.c\<close>, \<open>parser_expr.c\<close>, \<open>parser_stmt.c\<close>) asks for them one at a time and builds a
  tree (\<open>ast.c\<close>, \<open>rope.c\<close>), the semantic analysis (\<open>sema.c\<close>) finds the local variables and
  rewrites the tree in place, and the evaluator (\<open>eval*.c\<close>) walks it over values (\<open>value.c\<close>) in
  environments (\<open>env.c\<close>). All trees, tokens and strings live in an arena (\<open>arena.c\<close>). The parser
  and the lexer work on each other: the parser tells the lexer which names are local variables
  (\<open>lexer_mark_local\<close>), and the lexer reads \<open>/\<close> as a division or as the start of a regexp by it.
\<close>

subsection \<open>Conventions\<close>

text \<open>
  Theory Prelude: a \<open>char *\<close> with its length is a \<^typ>\<open>string\<close>, a list of bytes; \<open>cstr\<close> is what a
  C string function sees of it, the part before the first NUL. \<open>uint32_t\<close> and \<open>int64_t\<close> are 32 and
  64 bit words, sizes that only index an object are naturals. A pointer that may be null is an
  option. Theory Clib models what the code uses of \<open>strtoll\<close> and \<open>strtod\<close>, with exact decimal
  arithmetic, and Cfmt what it uses of \<open>snprintf\<close> with \<open>%g\<close>.
  A double is its 64 bits. A C struct is a record with a field for each member, a C enum a datatype
  with the constructors of the source, grouped where the code treats them alike. A function that
  changes a struct takes it and returns it changed. A loop over a finite text is a \<open>function\<close> with a
  measure; a loop for which ending is not obvious is a \<open>partial_function\<close> into an option, so that not
  returning is the value \<open>None\<close>, and that it returns is a theorem.
\<close>

subsection \<open>Theories\<close>

text \<open>
  \<^item> Utf8 (\<open>utf8.c\<close>): decoder, encoder, validation, positions. Lemmas: the decoder reads exactly the
    canonical encodings, validation finds the longest valid prefix, positions agree with the list
    of characters.
  \<^item> Token, LexState (\<open>lexer.h\<close>, \<open>lexer.c\<close>): kinds and fields of a token, the struct \<open>Lexer\<close> with
    its stack of modes (32 entries), character access, white space.
  \<^item> LexLiteral, LexInterp, LexHeredoc, LexScan (\<open>lexer.c\<close>): one definition for each scanner of a kind
    of token, the content of literals with interpolations, heredocs, regexps, and \<open>scan\<close>,
    \<open>lexer_next\<close>, \<open>lexer_peek\<close>.
  \<^item> LexSteps, LexProps, LexTokens: what a scanner keeps (\<open>steps\<close>, \<open>scans\<close>, \<open>flags\<close>), the invariant
    \<open>lex_ok\<close> of the lexer and the measure \<open>lex_left\<close>, which each token makes smaller; the tokens
    that carry a string.
  \<^item> Ast (\<open>ast.h\<close>, \<open>ast.c\<close>, \<open>rope.c\<close>): the tagged union \<open>Node\<close> as a datatype with one constructor for
    each struct of the union, and the ropes of interpolated strings.
  \<^item> Parser, ParserExpr, ParserInfix, ParserPrimary, ParserStmt, ParserTop (\<open>parser*.c\<close>): the struct
    \<open>Parser\<close>, the cursor, and every function of the parser. A function returns its result with the
    parser after it, as an option. The functions that call each other are fields of the record
    \<open>knot\<close>, an argument of the definitions; \<open>tie\<close> makes the record of the parser's own functions
    from one of the functions they call, and \<open>knots n\<close> is \<open>n\<close> of them on each other.
  \<^item> ParserRun, RunExpr, RunStmt, RunProgram: the parser returns. The locale \<open>parser_knot\<close> is the
    contract of a \<open>knot\<close>: each function returns when there are fewer than \<open>N\<close> fifths of a token left.
    In it each definition of the parser is followed once, by rules for its steps. The
    interpretation on \<open>knots n\<close> gives the theorem about \<open>parse_program\<close>.
  \<^item> RunFuel: the functions are monotone in the functions they call (locale \<open>knots_below\<close>), so the
    bound on the recursion does not show in a result.
  \<^item> Sema (\<open>sema.c\<close>), SemaKeep, SemaFixed, SemaProps: the scopes, the collection of names and the
    resolution of a tree; what a run keeps, that a resolved tree is a fixed point, that the body of a
    definition does not depend on the scopes around it.
  \<^item> Arena (\<open>arena.c\<close>, and the buffers of \<open>lexer.c\<close>): blocks with 64-bit sizes and their bytes,
    \<open>malloc\<close> as a parameter; regions are zeroed, inside their block and disjoint.
  \<^item> Table, Env (\<open>env.c\<close>): a store of frames with parents, the tables of variables.
  \<^item> Value, ValueStr, ValueProps, ValueThms (\<open>value.h\<close>, \<open>value.c\<close>): values, arrays and hashes in a heap
    of objects addressed by pointer, equality, hash tables with the order of their entries, printing
    with the sizes of the buffers, and what cycles do to both. ValueNum: integers as doubles.
  \<^item> Methods, MethodThms (\<open>eval_support.c\<close>, \<open>eval_dispatch.c\<close>): the searches for methods over classes,
    superclasses and modules, visibility, ancestors, and the order in which they find a method.
  \<^item> Dbl: \<open>int64_t\<close> operations, without a result where C has none, and doubles with one rounding.
  \<^item> EvalState: the struct \<open>Eval\<close> with the stores its pointers refer to (heap, frames of variables,
    nodes), exceptions and the backtrace. EvalNames, EvalAssign: names and assignment. EvalMatch:
    patterns. EvalBind: parameters, blocks, method calls. EvalOps: binary operators. EvalCall,
    EvalSend: \<open>eval_call\<close>. EvalExpr, EvalFlow, EvalDefs: the other cases of \<open>eval_node\<close>. EvalNode: the
    node itself. A function takes the state and returns its result with the state after it. The
    functions that call each other are fields of the record \<open>runner\<close>; \<open>tie\<close> makes the runner of the
    evaluator's own functions from the one they call, \<open>runner_at N n\<close> is \<open>n\<close> of them on each other, and
    \<open>N\<close> gives what is outside the model as functions of the runner.
  \<^item> EvalTable, EvalLists, EvalReflect (\<open>eval_dispatch.c\<close>): a chain of comparisons of the method name is
    a table of names and methods; the names of built-in methods; \<open>respond_to?\<close>, \<open>method_missing\<close>,
    \<open>send\<close>. EvalInteger: \<open>dispatch_integer\<close>. EvalObject, EvalSingle: the methods of every value.
    EvalClass, EvalModule (\<open>eval_dispatch_objects.c\<close>): \<open>dispatch_class\<close>. EvalDispatch: \<open>dispatch_method\<close>,
    the order in which a value's methods are asked, and the methods of procs, symbols, nil and
    booleans. The built-in methods outside the model are a parameter of type \<open>builtins\<close>, asked at the
    place where the code asks them; \<open>natives_of\<close> gives the evaluator all of them.
  \<^item> EvalKeep, EvalAgree, BuiltinKeep, BuiltinAgree, EvalThms: every function of the evaluator keeps the
    state in the sense of \<open>keeps\<close>, and does the same with two runners that agree (locales
    \<open>runners_agree\<close>, \<open>builtins_agree\<close>, \<open>natives_agree\<close>, \<open>parts_agree\<close>); so every evaluation keeps the
    state, and the depth of the recursion does not show in its result.
  \<^item> DispatchThms: a call on an object goes by the first ancestor with an entry for the name.
  \<^item> EvalArith, IntegerThms: the methods of integers compute what they are named after.
\<close>

subsection \<open>Bounds and fuel\<close>

text \<open>
  The parser's recursion is bounded by \<open>n\<close> in \<open>parse_program n\<close>: a call takes one level, and at most
  four calls nest before a token is read, so five levels for each token are enough; a source of
  \<open>k\<close> characters has at most \<open>2 * k + 2\<close> tokens. The theorem about termination says that
  \<open>10 * k + 13\<close> is enough, and RunFuel that more does not change the result. \<open>val_equal\<close> and
  \<open>val_inspect\<close> recurse without a bound in the code: they have fuel, and the theorems give the
  fuel for a heap without cycles and show that no fuel is enough on a cycle.
\<close>

subsection \<open>Not modelled\<close>

text \<open>
  The built-in methods of floats, strings, arrays, hashes and ranges, of \<open>Pathname\<close> and \<open>Binding\<close>, of \<open>IO\<close>, \<open>File\<close>, \<open>Time\<close> and \<open>Fiber\<close>, the
  functions of \<open>Kernel\<close> (printing, \<open>require\<close>, processes) and the evaluation of a string, which are
  parameters where they are called; the power function of the C library; the wrapper \<open>regex.c\<close> of the Onigmo library, whose code is not in the repository;
  \<open>print_ast.c\<close> and \<open>main.c\<close>, which print and read files. The lexer's invariant and the theorems that
  rest on it are about sources without heredocs: a heredoc that is opened while another one is
  pending overwrites the position the first one returns to, which the model shows but the invariant
  does not describe.
\<close>

end
